(* ===== verification/Prelude.thy ===== *)
theory Prelude
  imports Complex_Main "HOL-Library.Word" "HOL-Library.AList"
begin

text \<open>
  Shared vocabulary of the development.

  \<^item> \<open>uuid\<close> is the 128-bit value of the \<open>uuid\<close> crate; a \<open>Uuid::new_v4()\<close> of the source is an
    argument of the operation that draws it. \<open>datetime\<close> is a point in time in nanoseconds
    (chrono's resolution); a \<open>Utc::now()\<close> is an argument too.
  \<^item> \<open>string\<close> is Rust's \<open>str\<close>: the list of its UTF-8 bytes, so that \<open>length\<close> is \<open>str::len\<close>.
  \<^item> \<open>f32\<close> holds the values of the IEEE type exactly: finite values are rationals, and the
    source only compares and clamps them, so no rounding is involved.
  \<^item> \<open>update_first\<close> is the idiom \<open>iter_mut().find(..)\<close> followed by a write through the found
    reference; \<open>keep_last\<close> is a \<open>Vec\<close> or \<open>VecDeque\<close> trimmed at its front to a maximal length.
  \<^item> The locales \<open>invariant_system\<close>, \<open>bounded_log\<close>, \<open>registry\<close> and \<open>codec\<close> are the interfaces
    the components share; each is interpreted on the definitions of the component that
    implements it.
\<close>

named_theorems rust_defs "small wrappers of the source that proofs unfold"
named_theorems frame "fields an operation leaves alone"

subsection \<open>Scalars\<close>

type_synonym uuid = "128 word"
type_synonym datetime = int
type_synonym duration = int

definition nanos_per_sec :: int where
  "nanos_per_sec = 1000000000"

definition duration_secs :: "int \<Rightarrow> duration" where
  "duration_secs n = n * nanos_per_sec"

definition duration_minutes :: "int \<Rightarrow> duration" where
  "duration_minutes n = duration_secs (n * 60)"

datatype f32 = NaN | NegInf | Fin rat | PosInf

fun f32_lt :: "f32 \<Rightarrow> f32 \<Rightarrow> bool" where
  "f32_lt NaN _ = False"
| "f32_lt _ NaN = False"
| "f32_lt (Fin a) (Fin b) = (a < b)"
| "f32_lt NegInf b = (b \<noteq> NegInf)"
| "f32_lt (Fin _) b = (b = PosInf)"
| "f32_lt PosInf _ = False"

text \<open>\<open>f32::clamp\<close>: two comparisons, so a NaN passes through.\<close>

definition f32_clamp :: "f32 \<Rightarrow> f32 \<Rightarrow> f32 \<Rightarrow> f32" where
  "f32_clamp lo hi x = (let y = (if f32_lt x lo then lo else x)
                        in if f32_lt hi y then hi else y)"

definition f32_unit_interval :: "f32 \<Rightarrow> bool" where
  "f32_unit_interval x = (case x of NaN \<Rightarrow> True | Fin a \<Rightarrow> 0 \<le> a \<and> a \<le> 1 | _ \<Rightarrow> False)"

lemma f32_clamp_unit [simp, intro]: "f32_unit_interval (f32_clamp (Fin 0) (Fin 1) x)"
  by (cases x) (auto simp: f32_clamp_def f32_unit_interval_def Let_def)

lemma f32_clamp_id: "f32_unit_interval x \<Longrightarrow> f32_clamp (Fin 0) (Fin 1) x = x"
  by (cases x) (auto simp: f32_clamp_def f32_unit_interval_def Let_def)

subsection \<open>Decimal numbers\<close>

text \<open>Decimal digits, as \<open>format!("{}", n)\<close> writes them.\<close>

fun nat_str :: "nat \<Rightarrow> string" where
  "nat_str n = (if n < 10 then [char_of (48 + n)] else nat_str (n div 10) @ [char_of (48 + n mod 10)])"

declare nat_str.simps [simp del]

lemma nat_str_nonempty [simp]: "nat_str n \<noteq> []" "[] \<noteq> nat_str n"
  by (subst nat_str.simps, simp)+

lemma nat_str_inject [simp]: "nat_str m = nat_str n \<longleftrightarrow> m = n"
proof
  show "nat_str m = nat_str n \<Longrightarrow> m = n"
  proof (induction m arbitrary: n rule: less_induct)
    case (less m)
    have digit: "char_of (48 + a) = (char_of (48 + b) :: char) \<Longrightarrow> a = b" if "a < 10" "b < 10" for a b :: nat
      using that by (auto dest: arg_cong [where f = "of_char :: char \<Rightarrow> nat"])
    show ?case
    proof (cases "m < 10 \<or> n < 10")
      case True
      then show ?thesis
        using less.prems digit by (subst (asm) (1 2) nat_str.simps) (auto split: if_splits)
    next
      case False
      then have "nat_str (m div 10) = nat_str (n div 10)" "char_of (48 + m mod 10) = (char_of (48 + n mod 10) :: char)"
        using less.prems by (subst (asm) (1 2) nat_str.simps, simp)+
      then have "m div 10 = n div 10" "m mod 10 = n mod 10"
        using less.IH [of "m div 10" "n div 10"] digit [of "m mod 10" "n mod 10"] False by auto
      then show ?thesis by (metis div_mult_mod_eq)
    qed
  qed
qed simp

subsection \<open>Updating the first match of a list\<close>

fun update_first :: "('a \<Rightarrow> bool) \<Rightarrow> ('a \<Rightarrow> 'a) \<Rightarrow> 'a list \<Rightarrow> 'a list" where
  "update_first P f [] = []"
| "update_first P f (x # xs) = (if P x then f x # xs else x # update_first P f xs)"

lemma length_update_first [simp]: "length (update_first P f xs) = length xs"
  by (induction xs) auto

lemma update_first_none: "List.find P xs = None \<Longrightarrow> update_first P f xs = xs"
  by (induction xs) (auto split: if_splits)

lemma map_update_first [simp]:
  "(\<And>x. P x \<Longrightarrow> g (f x) = g x) \<Longrightarrow> map g (update_first P f xs) = map g xs"
  by (induction xs) auto

lemma find_update_first:
  "List.find P xs = Some x \<Longrightarrow> P (f x) \<Longrightarrow> List.find P (update_first P f xs) = Some (f x)"
  by (induction xs) (auto split: if_splits)

lemma find_update_first_other:
  assumes "\<And>x. P x \<Longrightarrow> \<not> Q x" "\<And>x. P x \<Longrightarrow> \<not> Q (f x)"
  shows "List.find Q (update_first P f xs) = List.find Q xs"
  using assms by (induction xs) auto

lemma set_update_first_subset:
  "set (update_first P f xs) \<subseteq> set xs \<union> f ` {x \<in> set xs. P x}"
  by (induction xs) auto

lemma update_first_split:
  assumes "List.find P xs = Some x"
  shows "\<exists>us vs. xs = us @ x # vs \<and> (\<forall>u \<in> set us. \<not> P u) \<and> P x
           \<and> update_first P f xs = us @ f x # vs"
  using assms
proof (induction xs)
  case (Cons y ys)
  show ?case
  proof (cases "P y")
    case True
    with Cons.prems show ?thesis by (intro exI [of _ "[]"] exI [of _ ys]) auto
  next
    case False
    with Cons.prems have "List.find P ys = Some x" by simp
    then obtain us vs where "ys = us @ x # vs" "\<forall>u \<in> set us. \<not> P u" "P x"
        "update_first P f ys = us @ f x # vs"
      using Cons.IH by blast
    with False show ?thesis by (intro exI [of _ "y # us"] exI [of _ vs]) auto
  qed
qed simp

lemma find_SomeD: "List.find P xs = Some x \<Longrightarrow> x \<in> set xs \<and> P x"
  by (induction xs) (auto split: if_splits)

lemma find_None_iff_ball: "List.find P xs = None \<longleftrightarrow> (\<forall>x \<in> set xs. \<not> P x)"
  by (auto simp: find_None_iff)

lemma find_append: "List.find P (xs @ ys) =
    (case List.find P xs of None \<Rightarrow> List.find P ys | Some x \<Rightarrow> Some x)"
  by (induction xs) auto

subsection \<open>Trimming at the front\<close>

definition keep_last :: "nat \<Rightarrow> 'a list \<Rightarrow> 'a list" where
  "keep_last n xs = drop (length xs - n) xs"

lemma length_keep_last [simp]: "length (keep_last n xs) = min n (length xs)"
  by (simp add: keep_last_def)

lemma keep_last_id: "length xs \<le> n \<Longrightarrow> keep_last n xs = xs"
  by (simp add: keep_last_def)

lemma keep_last_snoc: "0 < n \<Longrightarrow> keep_last n (xs @ [x]) = keep_last (n - 1) xs @ [x]"
  by (cases n) (auto simp: keep_last_def Suc_diff_le)

lemma keep_last_keep_last: "keep_last n (keep_last m xs) = keep_last (min n m) xs"
proof (cases "n \<le> m")
  case True
  then have "length xs - (length xs - m + n) + (length xs - m) = length xs - n
      \<or> length xs \<le> m"
    by arith
  with True show ?thesis by (auto simp: keep_last_def min_def)
next
  case False
  then show ?thesis by (simp add: keep_last_def min_def)
qed

lemma keep_last_append_keep_last:
  "keep_last n (keep_last n xs @ ys) = keep_last n (xs @ ys)"
proof (cases "length xs \<le> n")
  case True
  then show ?thesis by (simp add: keep_last_id)
next
  case False
  let ?k = "length xs - n"
  have "keep_last n (keep_last n xs @ ys) = drop (length ys) (drop ?k (xs @ ys))"
    using False by (simp add: keep_last_def)
  also have "\<dots> = keep_last n (xs @ ys)"
    using False by (simp add: keep_last_def add.commute)
  finally show ?thesis .
qed

text \<open>A loop that removes the front element while the list is too long.\<close>

fun pop_front_while_over :: "nat \<Rightarrow> 'a list \<Rightarrow> 'a list" where
  "pop_front_while_over n [] = []"
| "pop_front_while_over n (x # xs) =
     (if length (x # xs) > n then pop_front_while_over n xs else x # xs)"

lemma pop_front_while_over_eq: "pop_front_while_over n xs = keep_last n xs"
  by (induction xs) (auto simp: keep_last_def Suc_diff_le)

subsection \<open>Interface: transition systems with an invariant\<close>

inductive reach :: "('s \<Rightarrow> bool) \<Rightarrow> ('s \<Rightarrow> 'e \<Rightarrow> 's \<Rightarrow> bool) \<Rightarrow> 'e list \<Rightarrow> 's \<Rightarrow> bool"
  for init step where
  reach_init: "init s \<Longrightarrow> reach init step [] s"
| reach_step: "reach init step es s \<Longrightarrow> step s e t \<Longrightarrow> reach init step (es @ [e]) t"

locale invariant_system =
  fixes init :: "'s \<Rightarrow> bool" and step :: "'s \<Rightarrow> 'e \<Rightarrow> 's \<Rightarrow> bool"
    and inv :: "'e list \<Rightarrow> 's \<Rightarrow> bool"
  assumes inv_init: "init s \<Longrightarrow> inv [] s"
    and inv_step: "inv es s \<Longrightarrow> step s e t \<Longrightarrow> inv (es @ [e]) t"
begin

lemma reach_inv: "reach init step es s \<Longrightarrow> inv es s"
  by (induction rule: reach.induct) (auto intro: inv_init inv_step)

end

subsection \<open>Interface: a log trimmed at its front\<close>

locale bounded_log =
  fixes items :: "'s \<Rightarrow> 'a list" and push :: "'a \<Rightarrow> 's \<Rightarrow> 's" and cap :: "'s \<Rightarrow> nat"
  assumes items_push: "items (push x s) = keep_last (cap s) (items s @ [x])"
    and cap_push: "cap (push x s) = cap s"
begin

lemma cap_fold: "cap (fold push xs s) = cap s"
  by (induction xs arbitrary: s) (simp_all add: cap_push)

lemma items_fold:
  "length (items s) \<le> cap s \<Longrightarrow> items (fold push xs s) = keep_last (cap s) (items s @ xs)"
proof (induction xs arbitrary: s)
  case Nil
  then show ?case by (simp add: keep_last_id)
next
  case (Cons x xs)
  have "items (fold push xs (push x s)) = keep_last (cap s) (items (push x s) @ xs)"
    using Cons.IH [of "push x s"] by (simp add: items_push cap_push)
  then show ?case by (simp add: items_push keep_last_append_keep_last)
qed

lemma length_items_fold:
  "length (items s) \<le> cap s \<Longrightarrow> length (items (fold push xs s)) \<le> cap s"
  by (simp add: items_fold)

lemma last_item: "0 < cap s \<Longrightarrow> items (push x s) \<noteq> [] \<and> last (items (push x s)) = x"
  by (simp add: items_push keep_last_snoc)

end

subsection \<open>Interface: a registry whose entries are taken at most once\<close>

locale registry =
  fixes lookup :: "'r \<Rightarrow> 'k \<Rightarrow> 'v option" and register :: "'k \<Rightarrow> 'v \<Rightarrow> 'r \<Rightarrow> 'r"
    and take_entry :: "'k \<Rightarrow> 'r \<Rightarrow> 'v option \<times> 'r"
  assumes lookup_register: "lookup (register k v r) = (lookup r)(k \<mapsto> v)"
    and take_value: "fst (take_entry k r) = lookup r k"
    and take_rest: "lookup (snd (take_entry k r)) = (lookup r)(k := None)"
begin

lemma take_registered: "fst (take_entry k (register k v r)) = Some v"
  by (simp add: take_value lookup_register)

lemma take_only_once: "fst (take_entry k (snd (take_entry k r))) = None"
  by (simp add: take_value take_rest)

lemma take_keeps_others:
  "k' \<noteq> k \<Longrightarrow> fst (take_entry k' (snd (take_entry k r))) = lookup r k'"
  by (simp add: take_value take_rest)

lemma take_unregistered: "lookup r k = None \<Longrightarrow> lookup (snd (take_entry k r)) = lookup r"
  by (auto simp: take_rest fun_eq_iff)

end

subsection \<open>Interface: an encoder and its decoder\<close>

locale codec =
  fixes enc :: "'a \<Rightarrow> 'b" and dec :: "'b \<Rightarrow> 'a option"
  assumes dec_enc: "dec (enc x) = Some x"
begin

lemma enc_inject: "enc x = enc y \<longleftrightarrow> x = y"
  by (metis dec_enc option.inject)

lemma enc_list_roundtrip: "those (map (dec \<circ> enc) xs) = Some xs"
  by (induction xs) (simp_all add: dec_enc)

end

end
