(* ===== verification/Json.thy ===== *)
theory Json
  imports Prelude
begin

text \<open>
  The \<open>serde_json::Value\<close> the source passes around: a tree of values, and the accessors the
  code calls on it. An object is an association list whose first entry for a key counts
  (\<open>serde_json::Map\<close> holds one entry per key). Numbers keep serde's three representations, since
  \<open>as_u64\<close> answers only for the first.
\<close>

datatype json_number = PosInt nat | NegInt int | Float rat

datatype json =
    JNull
  | JBool bool
  | JNumber json_number
  | JString string
  | JArray "json list"
  | JObject "(string \<times> json) list"

fun json_get :: "json \<Rightarrow> string \<Rightarrow> json option" where
  "json_get (JObject kvs) k = map_of kvs k"
| "json_get _ k = None"

text \<open>\<open>value[key]\<close> reads as null where the key or the object is missing.\<close>

definition json_index :: "json \<Rightarrow> string \<Rightarrow> json" where
  "json_index v k = (case json_get v k of None \<Rightarrow> JNull | Some x \<Rightarrow> x)"

fun as_str :: "json \<Rightarrow> string option" where
  "as_str (JString s) = Some s"
| "as_str _ = None"

fun as_array :: "json \<Rightarrow> json list option" where
  "as_array (JArray xs) = Some xs"
| "as_array _ = None"

fun as_bool :: "json \<Rightarrow> bool option" where
  "as_bool (JBool b) = Some b"
| "as_bool _ = None"

fun as_u64 :: "json \<Rightarrow> nat option" where
  "as_u64 (JNumber (PosInt n)) = Some n"
| "as_u64 _ = None"

definition get_str :: "json \<Rightarrow> string \<Rightarrow> string option" where
  "get_str v k = Option.bind (json_get v k) as_str"

text \<open>\<open>value[key] = x\<close>: creates the key, turns null into an object, and panics on any other
  value, which is the error branch.\<close>

fun json_set :: "string \<Rightarrow> json \<Rightarrow> json \<Rightarrow> json option" where
  "json_set k x (JObject kvs) = Some (JObject (AList.update k x kvs))"
| "json_set k x JNull = Some (JObject [(k, x)])"
| "json_set k x _ = None"

lemma json_get_set: "json_set k x v = Some w \<Longrightarrow> json_get w k = Some x"
  by (cases v) (auto simp: update_conv)

lemma json_get_set_other: "json_set k x v = Some w \<Longrightarrow> k' \<noteq> k \<Longrightarrow> json_get w k' = json_get v k'"
  by (cases v) (auto simp: update_conv)

definition json_opt :: "('a \<Rightarrow> json) \<Rightarrow> 'a option \<Rightarrow> json" where
  "json_opt f x = (case x of None \<Rightarrow> JNull | Some y \<Rightarrow> f y)"

end
