(* ===== verification/Cards_Model.thy ===== *)
theory Cards_Model
  imports Json
begin

text \<open>
  The approval cards of \<open>src/src/cards/model.rs\<close>: statuses, silos, payloads, the card itself, its
  constructors and builders, the badge counts, and the messages exchanged with the clients.
  Struct-like enum variants carry a record; constructors of different Rust enums that share a
  name are prefixed (\<open>CardPending\<close> is \<open>CardStatus::Pending\<close>).
\<close>

subsection \<open>Data\<close>

record thread_message =
  tm_sender :: string
  tm_content :: string
  tm_timestamp :: datetime
  tm_is_outgoing :: bool

record email_message =
  em_from :: string
  em_to :: "string list"
  em_cc :: "string list"
  em_subject :: string
  em_message_id :: string
  em_content :: string
  em_timestamp :: datetime
  em_is_outgoing :: bool

datatype card_status = CardPending | CardApproved | CardDismissed | CardExpired | CardSent

datatype card_silo = Messages | Todos | Calendar

record reply_data =
  r_channel :: string
  r_source_sender :: string
  r_source_message :: string
  r_suggested_reply :: string
  r_confidence :: f32
  r_conversation_id :: string
  r_thread :: "thread_message list"
  r_email_thread :: "email_message list"
  r_reply_metadata :: "json option"
  r_message_id :: "string option"

record compose_data =
  p_channel :: string
  p_recipient :: string
  p_subject :: "string option"
  p_draft_body :: string
  p_confidence :: f32

datatype card_payload =
    Reply reply_data
  | Compose compose_data
  | Action (action_description: string) (action_detail: "string option")
  | Decision (decision_question: string) (decision_context: string) (decision_options: "string list")
  | MultipleChoice (mc_question: string) (mc_options: "string list")

record approval_card =
  c_id :: uuid
  c_silo :: card_silo
  c_payload :: card_payload
  c_status :: card_status
  c_created_at :: datetime
  c_expires_at :: "datetime option"
  c_updated_at :: datetime
  c_todo_id :: "uuid option"

record silo_counts =
  n_messages :: nat
  n_todos :: nat
  n_calendar :: nat

datatype card_action =
    ActApprove uuid
  | ActDismiss uuid
  | ActEdit uuid string
  | ActRefine uuid string
  | ActSelectOption uuid nat

datatype ws_message =
    NewCard approval_card
  | CardUpdate uuid card_status
  | CardExpiredMsg uuid
  | CardsSync "approval_card list"
  | CardRefreshed approval_card
  | SiloCountsMsg silo_counts
  | Ping

subsection \<open>Silos as text\<close>

definition card_silo_default :: card_silo where
  "card_silo_default = Messages"

fun silo_to_string :: "card_silo \<Rightarrow> string" where
  "silo_to_string Messages = ''messages''"
| "silo_to_string Todos = ''todos''"
| "silo_to_string Calendar = ''calendar''"

definition silo_from_str :: "string \<Rightarrow> string + card_silo" where
  "silo_from_str s =
     (if s = ''messages'' then Inr Messages
      else if s = ''todos'' then Inr Todos
      else if s = ''calendar'' then Inr Calendar
      else Inl (''Unknown silo: '' @ s))"

lemma silo_roundtrip [simp]: "silo_from_str (silo_to_string x) = Inr x"
  by (cases x) (simp_all add: silo_from_str_def)

subsection \<open>Payload accessors\<close>

fun card_type_str :: "card_payload \<Rightarrow> string" where
  "card_type_str (Reply _) = ''reply''"
| "card_type_str (Compose _) = ''compose''"
| "card_type_str (Action _ _) = ''action''"
| "card_type_str (Decision _ _ _) = ''decision''"
| "card_type_str (MultipleChoice _ _) = ''multiple_choice''"

fun payload_channel :: "card_payload \<Rightarrow> string option" where
  "payload_channel (Reply r) = Some (r_channel r)"
| "payload_channel (Compose p) = Some (p_channel p)"
| "payload_channel _ = None"

fun suggested_reply :: "card_payload \<Rightarrow> string option" where
  "suggested_reply (Reply r) = Some (r_suggested_reply r)"
| "suggested_reply _ = None"

fun reply_metadata :: "card_payload \<Rightarrow> json option" where
  "reply_metadata (Reply r) = r_reply_metadata r"
| "reply_metadata _ = None"

fun payload_message_id :: "card_payload \<Rightarrow> string option" where
  "payload_message_id (Reply r) = r_message_id r"
| "payload_message_id _ = None"

fun payload_confidence :: "card_payload \<Rightarrow> f32 option" where
  "payload_confidence (Reply r) = Some (r_confidence r)"
| "payload_confidence (Compose p) = Some (p_confidence p)"
| "payload_confidence _ = None"

subsection \<open>Constructors and builders\<close>

definition new_card :: "uuid \<Rightarrow> datetime \<Rightarrow> card_payload \<Rightarrow> card_silo \<Rightarrow> 32 word \<Rightarrow> approval_card" where
  "new_card fresh now payload silo expire_minutes =
     \<lparr>c_id = fresh, c_silo = silo, c_payload = payload, c_status = CardPending,
      c_created_at = now,
      c_expires_at = Some (now + duration_minutes (uint expire_minutes)),
      c_updated_at = now, c_todo_id = None\<rparr>"

definition new_reply ::
  "uuid \<Rightarrow> datetime \<Rightarrow> string \<Rightarrow> string \<Rightarrow> string \<Rightarrow> string \<Rightarrow> f32 \<Rightarrow> string \<Rightarrow> 32 word \<Rightarrow> approval_card" where
  "new_reply fresh now channel source_sender source_message suggested confidence conversation_id
      expire_minutes =
     new_card fresh now
       (Reply \<lparr>r_channel = channel, r_source_sender = source_sender,
               r_source_message = source_message, r_suggested_reply = suggested,
               r_confidence = f32_clamp (Fin 0) (Fin 1) confidence,
               r_conversation_id = conversation_id, r_thread = [], r_email_thread = [],
               r_reply_metadata = None, r_message_id = None\<rparr>)
       Messages expire_minutes"

definition new_compose ::
  "uuid \<Rightarrow> datetime \<Rightarrow> string \<Rightarrow> string \<Rightarrow> string option \<Rightarrow> string \<Rightarrow> f32 \<Rightarrow> 32 word \<Rightarrow> approval_card" where
  "new_compose fresh now channel recipient subject draft_body confidence expire_minutes =
     new_card fresh now
       (Compose \<lparr>p_channel = channel, p_recipient = recipient, p_subject = subject,
                 p_draft_body = draft_body,
                 p_confidence = f32_clamp (Fin 0) (Fin 1) confidence\<rparr>)
       Messages expire_minutes"

definition new_action ::
  "uuid \<Rightarrow> datetime \<Rightarrow> string \<Rightarrow> string option \<Rightarrow> card_silo \<Rightarrow> 32 word \<Rightarrow> approval_card" where
  "new_action fresh now description detail silo expire_minutes =
     new_card fresh now (Action description detail) silo expire_minutes"

definition new_decision ::
  "uuid \<Rightarrow> datetime \<Rightarrow> string \<Rightarrow> string \<Rightarrow> string list \<Rightarrow> card_silo \<Rightarrow> 32 word \<Rightarrow> approval_card" where
  "new_decision fresh now question ctxt options silo expire_minutes =
     new_card fresh now (Decision question ctxt options) silo expire_minutes"

definition new_multiple_choice ::
  "uuid \<Rightarrow> datetime \<Rightarrow> string \<Rightarrow> string list \<Rightarrow> card_silo \<Rightarrow> approval_card" where
  "new_multiple_choice fresh now question options silo =
     \<lparr>c_id = fresh, c_silo = silo, c_payload = MultipleChoice question options,
      c_status = CardPending, c_created_at = now, c_expires_at = None, c_updated_at = now,
      c_todo_id = None\<rparr>"

definition with_silo :: "card_silo \<Rightarrow> approval_card \<Rightarrow> approval_card" where
  "with_silo silo c = c\<lparr>c_silo := silo\<rparr>"

definition without_expiry :: "approval_card \<Rightarrow> approval_card" where
  "without_expiry c = c\<lparr>c_expires_at := None\<rparr>"

definition with_todo_id :: "uuid \<Rightarrow> approval_card \<Rightarrow> approval_card" where
  "with_todo_id tid c = c\<lparr>c_todo_id := Some tid\<rparr>"

definition map_reply :: "(reply_data \<Rightarrow> reply_data) \<Rightarrow> approval_card \<Rightarrow> approval_card" where
  "map_reply f c = (case c_payload c of Reply r \<Rightarrow> c\<lparr>c_payload := Reply (f r)\<rparr> | _ \<Rightarrow> c)"

definition with_email_thread :: "email_message list \<Rightarrow> approval_card \<Rightarrow> approval_card" where
  "with_email_thread et = map_reply (\<lambda>r. r\<lparr>r_email_thread := et\<rparr>)"

definition with_thread :: "thread_message list \<Rightarrow> approval_card \<Rightarrow> approval_card" where
  "with_thread t = map_reply (\<lambda>r. r\<lparr>r_thread := t\<rparr>)"

definition with_reply_metadata :: "json \<Rightarrow> approval_card \<Rightarrow> approval_card" where
  "with_reply_metadata m = map_reply (\<lambda>r. r\<lparr>r_reply_metadata := Some m\<rparr>)"

definition with_message_id :: "string \<Rightarrow> approval_card \<Rightarrow> approval_card" where
  "with_message_id mid = map_reply (\<lambda>r. r\<lparr>r_message_id := Some mid\<rparr>)"

definition is_expired :: "datetime \<Rightarrow> approval_card \<Rightarrow> bool" where
  "is_expired now c = (case c_expires_at c of Some t \<Rightarrow> now > t | None \<Rightarrow> False)"

text \<open>What the badge, the listing and the expiry sweep call a live card.\<close>

definition live :: "datetime \<Rightarrow> approval_card \<Rightarrow> bool" where
  "live now c \<longleftrightarrow> c_status c = CardPending \<and> \<not> is_expired now c"

subsection \<open>Badge counts\<close>

definition silo_counts_default :: silo_counts where
  "silo_counts_default = \<lparr>n_messages = 0, n_todos = 0, n_calendar = 0\<rparr>"

definition total :: "silo_counts \<Rightarrow> nat" where
  "total k = n_messages k + n_todos k + n_calendar k"

definition count_card :: "datetime \<Rightarrow> approval_card \<Rightarrow> silo_counts \<Rightarrow> silo_counts" where
  "count_card now c k =
     (if c_status c = CardPending \<and> \<not> is_expired now c
      then (case c_silo c of
              Messages \<Rightarrow> k\<lparr>n_messages := n_messages k + 1\<rparr>
            | Todos \<Rightarrow> k\<lparr>n_todos := n_todos k + 1\<rparr>
            | Calendar \<Rightarrow> k\<lparr>n_calendar := n_calendar k + 1\<rparr>)
      else k)"

definition from_cards :: "datetime \<Rightarrow> approval_card list \<Rightarrow> silo_counts" where
  "from_cards now cards = fold (count_card now) cards silo_counts_default"

definition count_silo :: "datetime \<Rightarrow> card_silo \<Rightarrow> approval_card list \<Rightarrow> nat" where
  "count_silo now silo cards = length (filter (\<lambda>c. live now c \<and> c_silo c = silo) cards)"

lemma count_silo_simps [simp]:
  "count_silo now silo [] = 0"
  "count_silo now silo (c # cs) =
     (if live now c \<and> c_silo c = silo then Suc (count_silo now silo cs) else count_silo now silo cs)"
  by (simp_all add: count_silo_def)

lemma count_card_eq:
  "count_card now c k =
     \<lparr>n_messages = n_messages k + count_silo now Messages [c],
      n_todos = n_todos k + count_silo now Todos [c],
      n_calendar = n_calendar k + count_silo now Calendar [c]\<rparr>"
  by (cases "c_silo c") (simp_all add: count_card_def live_def)

lemma fold_count_card:
  "fold (count_card now) cards k =
     \<lparr>n_messages = n_messages k + count_silo now Messages cards,
      n_todos = n_todos k + count_silo now Todos cards,
      n_calendar = n_calendar k + count_silo now Calendar cards\<rparr>"
proof (induction cards arbitrary: k)
  case (Cons c cs)
  show ?case
    unfolding fold_simps by (subst Cons.IH) (simp add: count_card_eq)
qed simp

lemma from_cards_eq:
  "from_cards now cards =
     \<lparr>n_messages = count_silo now Messages cards, n_todos = count_silo now Todos cards,
      n_calendar = count_silo now Calendar cards\<rparr>"
  by (simp add: from_cards_def fold_count_card silo_counts_default_def)

text \<open>The three badge counts are the numbers of live cards of each silo, and their total is
  the number of live cards in the queue.\<close>

theorem from_cards_counts_live:
  "n_messages (from_cards now cards) = count_silo now Messages cards \<and>
   n_todos (from_cards now cards) = count_silo now Todos cards \<and>
   n_calendar (from_cards now cards) = count_silo now Calendar cards \<and>
   total (from_cards now cards) = length (filter (live now) cards)"
proof -
  have "count_silo now Messages cards + count_silo now Todos cards + count_silo now Calendar cards
      = length (filter (live now) cards)"
  proof (induction cards)
    case (Cons c cs)
    then show ?case by (cases "c_silo c") auto
  qed simp
  then show ?thesis by (simp add: from_cards_eq total_def)
qed

lemma map_reply_frame [frame]:
  "c_id (map_reply f c) = c_id c" "c_status (map_reply f c) = c_status c"
  "c_silo (map_reply f c) = c_silo c" "c_expires_at (map_reply f c) = c_expires_at c"
  "c_created_at (map_reply f c) = c_created_at c" "c_todo_id (map_reply f c) = c_todo_id c"
  by (simp_all add: map_reply_def split: card_payload.splits)

end
