(* ===== verification/Store.thy ===== *)
theory Store
  imports Cards_Model "HOL-Library.Monad_Syntax" "HOL-Library.Multiset"
begin

text \<open>
  The persistence layer of \<open>src/src/store/libsql_backend.rs\<close>, restricted to the two tables the
  approval flow uses, \<open>cards\<close> and \<open>messages\<close> (\<open>src/src/store/migrations.rs\<close>).

  A row holds the values its text columns denote: a timestamp column is the instant written by
  \<open>to_rfc3339\<close> (whose text order is the time order, so the comparisons of the SQL are comparisons
  of instants), an id column the UUID, and the \<open>payload\<close> column the JSON object, as the list of its
  entries with typed cells. A statement can fail: the field \<open>db_faults\<close> is consumed one entry per
  statement, and a \<open>True\<close> makes that statement fail without effect. Every theorem that holds for
  all databases holds for all failure patterns.
\<close>

subsection \<open>JSON cells of the payload column\<close>

datatype cell =
    CStr string
  | CNum rat
  | CNull
  | CThread "thread_message list"
  | CEmails "email_message list"
  | CJson json
  | CStrs "string list"
  | CObj "(string \<times> cell) list"

type_synonym payload_object = "(string \<times> cell) list"

text \<open>\<open>json!(x)\<close> of a float: a non-finite value becomes null.\<close>

fun num_cell :: "f32 \<Rightarrow> cell" where
  "num_cell (Fin a) = CNum a"
| "num_cell _ = CNull"

definition opt_cell :: "string option \<Rightarrow> cell" where
  "opt_cell x = (case x of None \<Rightarrow> CNull | Some s \<Rightarrow> CStr s)"

definition serialize_payload_inner :: "card_payload \<Rightarrow> payload_object" where
  "serialize_payload_inner p = (case p of
     Reply r \<Rightarrow>
       [(''channel'', CStr (r_channel r)),
        (''source_sender'', CStr (r_source_sender r)),
        (''source_message'', CStr (r_source_message r)),
        (''suggested_reply'', CStr (r_suggested_reply r)),
        (''confidence'', num_cell (r_confidence r)),
        (''conversation_id'', CStr (r_conversation_id r))]
       @ (if r_thread r = [] then [] else [(''thread'', CThread (r_thread r))])
       @ (if r_email_thread r = [] then [] else [(''email_thread'', CEmails (r_email_thread r))])
       @ (case r_reply_metadata r of None \<Rightarrow> [] | Some m \<Rightarrow> [(''reply_metadata'', CJson m)])
       @ (case r_message_id r of None \<Rightarrow> [] | Some mid \<Rightarrow> [(''message_id'', CStr mid)])
   | Compose c \<Rightarrow>
       [(''channel'', CStr (p_channel c)),
        (''recipient'', CStr (p_recipient c)),
        (''subject'', opt_cell (p_subject c)),
        (''draft_body'', CStr (p_draft_body c)),
        (''confidence'', num_cell (p_confidence c))]
   | Action description detail \<Rightarrow>
       [(''description'', CStr description), (''action_detail'', opt_cell detail)]
   | Decision question ctxt options \<Rightarrow>
       [(''question'', CStr question), (''context'', CStr ctxt), (''options'', CStrs options)]
   | MultipleChoice question options \<Rightarrow>
       [(''question'', CStr question), (''options'', CStrs options)])"

text \<open>Field decoders of the derived \<open>Deserialize\<close> instances: a missing or null \<open>Option\<close> field is
  \<open>None\<close>; a missing \<open>#[serde(default)]\<close> vector is empty.\<close>

definition field_str :: "payload_object \<Rightarrow> string \<Rightarrow> string option" where
  "field_str obj k = (case map_of obj k of Some (CStr s) \<Rightarrow> Some s | _ \<Rightarrow> None)"

definition field_num :: "payload_object \<Rightarrow> string \<Rightarrow> f32 option" where
  "field_num obj k = (case map_of obj k of Some (CNum a) \<Rightarrow> Some (Fin a) | _ \<Rightarrow> None)"

definition field_opt_str :: "payload_object \<Rightarrow> string \<Rightarrow> string option option" where
  "field_opt_str obj k = (case map_of obj k of
     None \<Rightarrow> Some None | Some CNull \<Rightarrow> Some None | Some (CStr s) \<Rightarrow> Some (Some s) | _ \<Rightarrow> None)"

definition field_opt_json :: "payload_object \<Rightarrow> string \<Rightarrow> json option option" where
  "field_opt_json obj k = (case map_of obj k of
     None \<Rightarrow> Some None | Some CNull \<Rightarrow> Some None
   | Some (CJson m) \<Rightarrow> Some (if m = JNull then None else Some m) | _ \<Rightarrow> None)"

definition field_thread :: "bool \<Rightarrow> payload_object \<Rightarrow> string \<Rightarrow> thread_message list option" where
  "field_thread nullable obj k = (case map_of obj k of
     None \<Rightarrow> Some [] | Some (CThread t) \<Rightarrow> Some t
   | Some CNull \<Rightarrow> (if nullable then Some [] else None) | _ \<Rightarrow> None)"

definition field_emails :: "bool \<Rightarrow> payload_object \<Rightarrow> string \<Rightarrow> email_message list option" where
  "field_emails nullable obj k = (case map_of obj k of
     None \<Rightarrow> Some [] | Some (CEmails t) \<Rightarrow> Some t
   | Some CNull \<Rightarrow> (if nullable then Some [] else None) | _ \<Rightarrow> None)"

definition field_strs :: "payload_object \<Rightarrow> string \<Rightarrow> string list option" where
  "field_strs obj k = (case map_of obj k of Some (CStrs xs) \<Rightarrow> Some xs | _ \<Rightarrow> None)"

definition field_strs_default :: "payload_object \<Rightarrow> string \<Rightarrow> string list option" where
  "field_strs_default obj k =
     (case map_of obj k of None \<Rightarrow> Some [] | Some (CStrs xs) \<Rightarrow> Some xs | _ \<Rightarrow> None)"

lemmas field_defs = field_str_def field_num_def field_opt_str_def field_opt_json_def
  field_thread_def field_emails_def field_strs_def field_strs_default_def opt_cell_def

text \<open>The fields shared by \<open>ReplyPayloadRaw\<close> (\<open>Option<Vec<_>>\<close>, hence nullable threads) and the
  \<open>Reply\<close> variant of the derived enum decoder.\<close>

definition decode_reply :: "bool \<Rightarrow> payload_object \<Rightarrow> card_payload option" where
  "decode_reply nullable obj = do {
     ch \<leftarrow> field_str obj ''channel'';
     ss \<leftarrow> field_str obj ''source_sender'';
     sm \<leftarrow> field_str obj ''source_message'';
     sr \<leftarrow> field_str obj ''suggested_reply'';
     cf \<leftarrow> field_num obj ''confidence'';
     cv \<leftarrow> field_str obj ''conversation_id'';
     th \<leftarrow> field_thread nullable obj ''thread'';
     et \<leftarrow> field_emails nullable obj ''email_thread'';
     md \<leftarrow> field_opt_json obj ''reply_metadata'';
     mi \<leftarrow> field_opt_str obj ''message_id'';
     Some (Reply \<lparr>r_channel = ch, r_source_sender = ss, r_source_message = sm,
                  r_suggested_reply = sr, r_confidence = cf, r_conversation_id = cv,
                  r_thread = th, r_email_thread = et, r_reply_metadata = md, r_message_id = mi\<rparr>)
   }"

definition decode_compose :: "payload_object \<Rightarrow> card_payload option" where
  "decode_compose obj = do {
     ch \<leftarrow> field_str obj ''channel'';
     rc \<leftarrow> field_str obj ''recipient'';
     sj \<leftarrow> field_opt_str obj ''subject'';
     db \<leftarrow> field_str obj ''draft_body'';
     cf \<leftarrow> field_num obj ''confidence'';
     Some (Compose \<lparr>p_channel = ch, p_recipient = rc, p_subject = sj, p_draft_body = db,
                    p_confidence = cf\<rparr>)
   }"

text \<open>The derived decoder of \<open>CardPayload\<close>: adjacently tagged, so the object must carry the keys
  \<open>card_type\<close> and \<open>payload\<close>.\<close>

definition decode_tagged :: "payload_object \<Rightarrow> card_payload option" where
  "decode_tagged obj = (case (map_of obj ''card_type'', map_of obj ''payload'') of
     (Some (CStr ty), Some (CObj inner)) \<Rightarrow>
       (if ty = ''reply'' then decode_reply False inner
        else if ty = ''compose'' then decode_compose inner
        else if ty = ''action'' then do {
          d \<leftarrow> field_str inner ''description'';
          a \<leftarrow> field_opt_str inner ''action_detail'';
          Some (Action d a) }
        else if ty = ''decision'' then do {
          q \<leftarrow> field_str inner ''question'';
          c \<leftarrow> field_str inner ''context'';
          os \<leftarrow> field_strs_default inner ''options'';
          Some (Decision q c os) }
        else if ty = ''multiple_choice'' then do {
          q \<leftarrow> field_str inner ''question'';
          os \<leftarrow> field_strs inner ''options'';
          Some (MultipleChoice q os) }
        else None)
   | _ \<Rightarrow> None)"

definition fallback_reply_payload :: card_payload where
  "fallback_reply_payload = Reply \<lparr>r_channel = [], r_source_sender = [], r_source_message = [],
     r_suggested_reply = [], r_confidence = Fin 0, r_conversation_id = [], r_thread = [],
     r_email_thread = [], r_reply_metadata = None, r_message_id = None\<rparr>"

definition unwrap_or :: "'a option \<Rightarrow> 'a \<Rightarrow> 'a" where
  [rust_defs]: "unwrap_or x d = (case x of None \<Rightarrow> d | Some y \<Rightarrow> y)"

text \<open>The payload arm of \<open>row_to_card\<close>: the tagged format first, then by the \<open>card_type\<close> column;
  the arms for \<open>action\<close> and \<open>decision\<close> decode the tagged format once more.\<close>

definition decode_payload :: "string \<Rightarrow> payload_object option \<Rightarrow> card_payload" where
  "decode_payload ty col = (case col of
     None \<Rightarrow> fallback_reply_payload
   | Some obj \<Rightarrow> (case decode_tagged obj of
       Some p \<Rightarrow> p
     | None \<Rightarrow>
         (if ty = ''reply'' then unwrap_or (decode_reply True obj) fallback_reply_payload
          else if ty = ''compose'' then unwrap_or (decode_compose obj) fallback_reply_payload
          else if ty = ''action'' then unwrap_or (decode_tagged obj) (Action ''Unknown'' None)
          else if ty = ''decision'' then unwrap_or (decode_tagged obj) (Decision ''Unknown'' [] [])
          else fallback_reply_payload)))"

subsection \<open>Statuses as text\<close>

datatype message_status = MsgPending | MsgReplied | MsgDismissed

fun status_to_str :: "card_status \<Rightarrow> string" where
  "status_to_str CardPending = ''pending''"
| "status_to_str CardApproved = ''approved''"
| "status_to_str CardDismissed = ''dismissed''"
| "status_to_str CardExpired = ''expired''"
| "status_to_str CardSent = ''sent''"

definition str_to_status :: "string \<Rightarrow> card_status" where
  "str_to_status s =
     (if s = ''approved'' then CardApproved
      else if s = ''dismissed'' then CardDismissed
      else if s = ''expired'' then CardExpired
      else if s = ''sent'' then CardSent
      else CardPending)"

fun msg_status_to_str :: "message_status \<Rightarrow> string" where
  "msg_status_to_str MsgPending = ''pending''"
| "msg_status_to_str MsgReplied = ''replied''"
| "msg_status_to_str MsgDismissed = ''dismissed''"

definition str_to_msg_status :: "string \<Rightarrow> message_status" where
  "str_to_msg_status s =
     (if s = ''replied'' then MsgReplied
      else if s = ''dismissed'' then MsgDismissed
      else MsgPending)"

lemma str_to_status_inverse [simp]: "str_to_status (status_to_str x) = x"
  by (cases x) (simp_all add: str_to_status_def)

lemma str_to_msg_status_inverse [simp]: "str_to_msg_status (msg_status_to_str x) = x"
  by (cases x) (simp_all add: str_to_msg_status_def)

interpretation card_status_codec: codec status_to_str "Some \<circ> str_to_status"
  by unfold_locales simp

interpretation message_status_codec: codec msg_status_to_str "Some \<circ> str_to_msg_status"
  by unfold_locales simp

lemma sum_case_Inr: "case_sum (\<lambda>_. None) Some (Inr x) = Some x"
  by simp

interpretation silo_codec: codec silo_to_string "\<lambda>s. case_sum (\<lambda>_. None) Some (silo_from_str s)"
  by unfold_locales simp

lemma status_text_pending [simp]: "status_to_str x = ''pending'' \<longleftrightarrow> x = CardPending"
  using card_status_codec.enc_inject [of x CardPending] by simp

lemma silo_text_inject [simp]: "silo_to_string x = silo_to_string y \<longleftrightarrow> x = y"
  by (rule silo_codec.enc_inject)

subsection \<open>Tables\<close>

record card_row =
  k_id :: uuid
  k_conversation_id :: string
  k_source_message :: string
  k_source_sender :: string
  k_suggested_reply :: string
  k_confidence :: f32
  k_status :: string
  k_channel :: string
  k_created_at :: datetime
  k_expires_at :: "datetime option"
  k_updated_at :: datetime
  k_message_id :: "string option"
  k_reply_metadata :: "json option"
  k_email_thread :: "email_message list option"
  k_card_type :: string
  k_silo :: string
  k_payload :: "payload_object option"
  k_todo_id :: "uuid option"

record message_row =
  mr_id :: string
  mr_external_id :: string
  mr_channel :: string
  mr_sender :: string
  mr_subject :: "string option"
  mr_content :: string
  mr_received_at :: datetime
  mr_status :: string
  mr_replied_at :: "datetime option"
  mr_metadata :: "string option"
  mr_created_at :: datetime
  mr_updated_at :: datetime

record stored_message =
  m_id :: string
  m_external_id :: string
  m_channel :: string
  m_sender :: string
  m_subject :: "string option"
  m_content :: string
  m_received_at :: datetime
  m_status :: message_status
  m_replied_at :: "datetime option"
  m_metadata :: "string option"
  m_created_at :: datetime
  m_updated_at :: datetime

record database =
  db_cards :: "card_row list"
  db_messages :: "message_row list"
  db_faults :: "bool list"

datatype database_error = QueryError string | SerializationError string

text \<open>Every statement first consumes an entry of the failure pattern.\<close>

definition fault :: "database \<Rightarrow> bool" where
  "fault db = (case db_faults db of [] \<Rightarrow> False | b # _ \<Rightarrow> b)"

definition tick :: "database \<Rightarrow> database" where
  "tick db = db\<lparr>db_faults := tl (db_faults db)\<rparr>"

definition execute ::
  "string \<Rightarrow> (database \<Rightarrow> database) \<Rightarrow> database \<Rightarrow> (database_error + unit) \<times> database" where
  "execute what f db =
     (if fault db then (Inl (QueryError what), tick db) else (Inr (), f (tick db)))"

definition query ::
  "string \<Rightarrow> (database \<Rightarrow> 'a) \<Rightarrow> database \<Rightarrow> (database_error + 'a) \<times> database" where
  "query what f db =
     (if fault db then Inl (QueryError what) else Inr (f db), tick db)"

lemma tick_simps [simp]:
  "db_cards (tick db) = db_cards db" "db_messages (tick db) = db_messages db"
  by (simp_all add: tick_def)

subsection \<open>Cards\<close>

definition row_to_card :: "card_row \<Rightarrow> approval_card" where
  "row_to_card k =
     \<lparr>c_id = k_id k,
      c_silo = (case silo_from_str (k_silo k) of Inl _ \<Rightarrow> card_silo_default | Inr s \<Rightarrow> s),
      c_payload = decode_payload (k_card_type k) (k_payload k),
      c_status = str_to_status (k_status k),
      c_created_at = k_created_at k, c_expires_at = k_expires_at k,
      c_updated_at = k_updated_at k, c_todo_id = k_todo_id k\<rparr>"

text \<open>The row \<open>insert_card\<close> writes, with the flat columns kept for older readers.\<close>

definition card_to_row :: "approval_card \<Rightarrow> card_row" where
  "card_to_row c =
     (let base = \<lparr>k_id = c_id c, k_conversation_id = [], k_source_message = [],
        k_source_sender = [], k_suggested_reply = [], k_confidence = Fin 0,
        k_status = status_to_str (c_status c), k_channel = [],
        k_created_at = c_created_at c, k_expires_at = c_expires_at c,
        k_updated_at = c_updated_at c, k_message_id = None, k_reply_metadata = None,
        k_email_thread = None, k_card_type = card_type_str (c_payload c),
        k_silo = silo_to_string (c_silo c),
        k_payload = Some (serialize_payload_inner (c_payload c)), k_todo_id = c_todo_id c\<rparr>
      in case c_payload c of
        Reply r \<Rightarrow> base\<lparr>k_conversation_id := r_conversation_id r,
          k_source_message := r_source_message r, k_source_sender := r_source_sender r,
          k_suggested_reply := r_suggested_reply r, k_confidence := r_confidence r,
          k_channel := r_channel r, k_message_id := r_message_id r,
          k_reply_metadata := r_reply_metadata r,
          k_email_thread := (if r_email_thread r = [] then None else Some (r_email_thread r))\<rparr>
      | Compose p \<Rightarrow> base\<lparr>k_suggested_reply := p_draft_body p, k_confidence := p_confidence p,
          k_channel := p_channel p\<rparr>
      | Action description _ \<Rightarrow> base\<lparr>k_suggested_reply := description\<rparr>
      | Decision question _ _ \<Rightarrow> base\<lparr>k_suggested_reply := question\<rparr>
      | MultipleChoice question _ \<Rightarrow> base\<lparr>k_suggested_reply := question\<rparr>)"

text \<open>\<open>INSERT INTO cards\<close> fails on a duplicate primary key, and on a NaN confidence: SQLite stores
  NaN as NULL and the column is \<open>NOT NULL\<close>.\<close>

definition insert_card :: "approval_card \<Rightarrow> database \<Rightarrow> (database_error + unit) \<times> database" where
  "insert_card c db =
     (let k = card_to_row c in
      if fault db \<or> c_id c \<in> set (map k_id (db_cards db)) \<or> k_confidence k = NaN
      then (Inl (QueryError ''insert_card''), tick db)
      else (Inr (), (tick db)\<lparr>db_cards := db_cards db @ [k]\<rparr>))"

definition get_card :: "uuid \<Rightarrow> database \<Rightarrow> (database_error + approval_card option) \<times> database" where
  "get_card i = query ''get_card''
     (\<lambda>db. map_option row_to_card (List.find (\<lambda>k. k_id k = i) (db_cards db)))"

definition update_card_status ::
  "datetime \<Rightarrow> uuid \<Rightarrow> card_status \<Rightarrow> database \<Rightarrow> (database_error + unit) \<times> database" where
  "update_card_status now i st = execute ''update_card_status''
     (\<lambda>db. db\<lparr>db_cards := map (\<lambda>k. if k_id k = i
        then k\<lparr>k_status := status_to_str st, k_updated_at := now\<rparr> else k) (db_cards db)\<rparr>)"

definition update_card_reply ::
  "datetime \<Rightarrow> uuid \<Rightarrow> string \<Rightarrow> card_status \<Rightarrow> database \<Rightarrow> (database_error + unit) \<times> database" where
  "update_card_reply now i new_text st = execute ''update_card_reply''
     (\<lambda>db. db\<lparr>db_cards := map (\<lambda>k. if k_id k = i
        then k\<lparr>k_payload := map_option (AList.update ''suggested_reply'' (CStr new_text)) (k_payload k),
               k_status := status_to_str st, k_updated_at := now\<rparr> else k) (db_cards db)\<rparr>)"

definition row_pending :: "datetime \<Rightarrow> card_row \<Rightarrow> bool" where
  "row_pending now k \<longleftrightarrow> k_status k = ''pending'' \<and>
     (case k_expires_at k of None \<Rightarrow> True | Some t \<Rightarrow> t > now)"

definition get_pending_cards ::
  "datetime \<Rightarrow> database \<Rightarrow> (database_error + approval_card list) \<times> database" where
  "get_pending_cards now = query ''get_pending_cards''
     (\<lambda>db. map row_to_card (sort_key k_created_at (filter (row_pending now) (db_cards db))))"

definition get_cards_by_channel ::
  "string \<Rightarrow> nat \<Rightarrow> database \<Rightarrow> (database_error + approval_card list) \<times> database" where
  "get_cards_by_channel ch limit = query ''get_cards_by_channel''
     (\<lambda>db. map row_to_card (take limit (sort_key (\<lambda>k. - k_created_at k)
        (filter (\<lambda>k. Option.bind (k_payload k) (\<lambda>obj. map_of obj ''channel'') = Some (CStr ch))
           (db_cards db)))))"

definition get_cards_by_todo ::
  "uuid \<Rightarrow> database \<Rightarrow> (database_error + approval_card list) \<times> database" where
  "get_cards_by_todo tid = query ''get_cards_by_todo''
     (\<lambda>db. map row_to_card (sort_key k_created_at
        (filter (\<lambda>k. k_todo_id k = Some tid \<and> k_card_type k \<in> {''compose'', ''reply''})
           (db_cards db))))"

definition get_pending_cards_by_silo ::
  "datetime \<Rightarrow> card_silo \<Rightarrow> database \<Rightarrow> (database_error + approval_card list) \<times> database" where
  "get_pending_cards_by_silo now silo = query ''get_pending_cards_by_silo''
     (\<lambda>db. map row_to_card (sort_key (\<lambda>k. - k_created_at k)
        (filter (\<lambda>k. row_pending now k \<and> k_silo k = silo_to_string silo) (db_cards db))))"

text \<open>\<open>count as u32\<close> truncates.\<close>

definition get_pending_card_counts ::
  "datetime \<Rightarrow> database \<Rightarrow> (database_error + silo_counts) \<times> database" where
  "get_pending_card_counts now = query ''get_pending_card_counts''
     (\<lambda>db. let n = (\<lambda>t. length (filter (\<lambda>k. row_pending now k \<and> k_silo k = t) (db_cards db)) mod 2 ^ 32)
           in \<lparr>n_messages = n ''messages'', n_todos = n ''todos'', n_calendar = n ''calendar''\<rparr>)"

definition has_pending_card_for_message ::
  "datetime \<Rightarrow> string \<Rightarrow> database \<Rightarrow> (database_error + bool) \<times> database" where
  "has_pending_card_for_message now mid = query ''has_pending_card_for_message''
     (\<lambda>db. \<exists>k \<in> set (db_cards db).
        Option.bind (k_payload k) (\<lambda>obj. map_of obj ''message_id'') = Some (CStr mid) \<and>
        row_pending now k)"

definition row_expired :: "datetime \<Rightarrow> card_row \<Rightarrow> bool" where
  "row_expired now k \<longleftrightarrow> k_status k = ''pending'' \<and>
     (case k_expires_at k of None \<Rightarrow> False | Some t \<Rightarrow> t \<le> now)"

definition expire_old_cards :: "datetime \<Rightarrow> database \<Rightarrow> (database_error + nat) \<times> database" where
  "expire_old_cards now db =
     (if fault db then (Inl (QueryError ''expire_old_cards''), tick db)
      else (Inr (length (filter (row_expired now) (db_cards db))),
            (tick db)\<lparr>db_cards := map (\<lambda>k. if row_expired now k
               then k\<lparr>k_status := ''expired'', k_updated_at := now\<rparr> else k) (db_cards db)\<rparr>))"

definition prune_cards :: "datetime \<Rightarrow> 32 word \<Rightarrow> database \<Rightarrow> (database_error + nat) \<times> database" where
  "prune_cards now keep_days db =
     (let cutoff = now - duration_secs (uint keep_days * 86400);
          old = (\<lambda>k. k_status k \<noteq> ''pending'' \<and> k_updated_at k < cutoff)
      in if fault db then (Inl (QueryError ''prune_cards''), tick db)
         else (Inr (length (filter old (db_cards db))),
               (tick db)\<lparr>db_cards := filter (\<lambda>k. \<not> old k) (db_cards db)\<rparr>))"

subsection \<open>Messages\<close>

definition row_to_message :: "message_row \<Rightarrow> stored_message" where
  "row_to_message r =
     \<lparr>m_id = mr_id r, m_external_id = mr_external_id r, m_channel = mr_channel r,
      m_sender = mr_sender r, m_subject = mr_subject r, m_content = mr_content r,
      m_received_at = mr_received_at r, m_status = str_to_msg_status (mr_status r),
      m_replied_at = mr_replied_at r, m_metadata = mr_metadata r,
      m_created_at = mr_created_at r, m_updated_at = mr_updated_at r\<rparr>"

definition insert_message ::
  "string \<Rightarrow> datetime \<Rightarrow> string \<Rightarrow> string \<Rightarrow> string \<Rightarrow> string option \<Rightarrow> string \<Rightarrow> datetime \<Rightarrow>
   string option \<Rightarrow> database \<Rightarrow> (database_error + string) \<times> database" where
  "insert_message fresh now external_id ch sender subject content received_at metadata db =
     (if fault db \<or> fresh \<in> set (map mr_id (db_messages db))
         \<or> external_id \<in> set (map mr_external_id (db_messages db))
      then (Inl (QueryError ''insert_message''), tick db)
      else (Inr fresh, (tick db)\<lparr>db_messages := db_messages db @
        [\<lparr>mr_id = fresh, mr_external_id = external_id, mr_channel = ch, mr_sender = sender,
          mr_subject = subject, mr_content = content, mr_received_at = received_at,
          mr_status = ''pending'', mr_replied_at = None, mr_metadata = metadata,
          mr_created_at = now, mr_updated_at = now\<rparr>]\<rparr>))"

definition get_message_by_external_id ::
  "string \<Rightarrow> database \<Rightarrow> (database_error + stored_message option) \<times> database" where
  "get_message_by_external_id eid = query ''get_message_by_external_id''
     (\<lambda>db. map_option row_to_message (List.find (\<lambda>r. mr_external_id r = eid) (db_messages db)))"

definition get_pending_messages :: "database \<Rightarrow> (database_error + stored_message list) \<times> database" where
  "get_pending_messages = query ''get_pending_messages''
     (\<lambda>db. map row_to_message (sort_key mr_received_at
        (filter (\<lambda>r. mr_status r = ''pending'') (db_messages db))))"

definition update_message_status ::
  "datetime \<Rightarrow> string \<Rightarrow> message_status \<Rightarrow> database \<Rightarrow> (database_error + unit) \<times> database" where
  "update_message_status now i st = execute ''update_message_status''
     (\<lambda>db. db\<lparr>db_messages := map (\<lambda>r. if mr_id r = i
        then r\<lparr>mr_status := msg_status_to_str st,
               mr_replied_at := (if st = MsgReplied then Some now else None),
               mr_updated_at := now\<rparr> else r) (db_messages db)\<rparr>)"

definition get_messages_by_channel ::
  "string \<Rightarrow> nat \<Rightarrow> database \<Rightarrow> (database_error + stored_message list) \<times> database" where
  "get_messages_by_channel ch limit = query ''get_messages_by_channel''
     (\<lambda>db. map row_to_message (take limit (sort_key (\<lambda>r. - mr_received_at r)
        (filter (\<lambda>r. mr_channel r = ch) (db_messages db)))))"

subsection \<open>What survives the payload column\<close>

definition finite_f32 :: "f32 \<Rightarrow> bool" where
  "finite_f32 x = (case x of Fin _ \<Rightarrow> True | _ \<Rightarrow> False)"

definition persistable :: "card_payload \<Rightarrow> bool" where
  "persistable p = (case p of
     Reply r \<Rightarrow> finite_f32 (r_confidence r) \<and> r_reply_metadata r \<noteq> Some JNull
   | Compose c \<Rightarrow> finite_f32 (p_confidence c)
   | _ \<Rightarrow> False)"

lemma persistableE:
  assumes "persistable p"
  obtains r a where "p = Reply r" "r_confidence r = Fin a" "r_reply_metadata r \<noteq> Some JNull"
        | c a where "p = Compose c" "p_confidence c = Fin a"
  using assms by (auto simp: persistable_def finite_f32_def split: card_payload.splits f32.splits)

lemma serialize_untagged [simp]: "decode_tagged (serialize_payload_inner p) = None"
proof -
  have "map_of (serialize_payload_inner p) ''card_type'' = None"
    by (cases p) (simp_all add: serialize_payload_inner_def split: option.split)
  then show ?thesis by (simp add: decode_tagged_def)
qed

lemma serialize_reply_lookup:
  "map_of (serialize_payload_inner (Reply r)) ''channel'' = Some (CStr (r_channel r))"
  "map_of (serialize_payload_inner (Reply r)) ''source_sender'' = Some (CStr (r_source_sender r))"
  "map_of (serialize_payload_inner (Reply r)) ''source_message'' = Some (CStr (r_source_message r))"
  "map_of (serialize_payload_inner (Reply r)) ''suggested_reply'' = Some (CStr (r_suggested_reply r))"
  "map_of (serialize_payload_inner (Reply r)) ''confidence'' = Some (num_cell (r_confidence r))"
  "map_of (serialize_payload_inner (Reply r)) ''conversation_id'' = Some (CStr (r_conversation_id r))"
  "map_of (serialize_payload_inner (Reply r)) ''thread'' =
     (if r_thread r = [] then None else Some (CThread (r_thread r)))"
  "map_of (serialize_payload_inner (Reply r)) ''email_thread'' =
     (if r_email_thread r = [] then None else Some (CEmails (r_email_thread r)))"
  "map_of (serialize_payload_inner (Reply r)) ''reply_metadata'' = map_option CJson (r_reply_metadata r)"
  "map_of (serialize_payload_inner (Reply r)) ''message_id'' = map_option CStr (r_message_id r)"
  by (simp_all add: serialize_payload_inner_def split: option.split)

lemma decode_serialize_reply:
  assumes "r_confidence r = Fin a" "r_reply_metadata r \<noteq> Some JNull"
  shows "decode_reply nullable (serialize_payload_inner (Reply r)) = Some (Reply r)"
proof -
  let ?s = "serialize_payload_inner (Reply r)"
  have "field_num ?s ''confidence'' = Some (r_confidence r)"
    using assms(1) by (simp add: field_num_def serialize_reply_lookup)
  moreover have "field_opt_json ?s ''reply_metadata'' = Some (r_reply_metadata r)"
    using assms(2) by (cases "r_reply_metadata r") (auto simp: field_opt_json_def serialize_reply_lookup)
  moreover have "field_opt_str ?s ''message_id'' = Some (r_message_id r)"
    by (cases "r_message_id r") (simp_all add: field_opt_str_def serialize_reply_lookup)
  moreover have "field_thread nullable ?s ''thread'' = Some (r_thread r)"
      "field_emails nullable ?s ''email_thread'' = Some (r_email_thread r)"
    by (simp_all add: field_thread_def field_emails_def serialize_reply_lookup)
  ultimately show ?thesis
    by (simp add: decode_reply_def field_str_def serialize_reply_lookup)
qed

lemma decode_serialize_compose:
  assumes "p_confidence c = Fin a"
  shows "decode_compose (serialize_payload_inner (Compose c)) = Some (Compose c)"
  using assms
  by (cases c; cases "p_subject c")
     (auto simp: decode_compose_def serialize_payload_inner_def field_defs)

lemma decode_serialize:
  "persistable p \<Longrightarrow> decode_payload (card_type_str p) (Some (serialize_payload_inner p)) = p"
  by (erule persistableE)
     (simp_all add: decode_payload_def decode_serialize_reply decode_serialize_compose rust_defs)

lemma update_serialize_reply:
  "AList.update ''suggested_reply'' (CStr t) (serialize_payload_inner (Reply r)) =
   serialize_payload_inner (Reply (r\<lparr>r_suggested_reply := t\<rparr>))"
  by (simp add: serialize_payload_inner_def)

lemma card_to_row_simps [simp]:
  "k_id (card_to_row c) = c_id c"
  "k_status (card_to_row c) = status_to_str (c_status c)"
  "k_created_at (card_to_row c) = c_created_at c"
  "k_expires_at (card_to_row c) = c_expires_at c"
  "k_updated_at (card_to_row c) = c_updated_at c"
  "k_card_type (card_to_row c) = card_type_str (c_payload c)"
  "k_silo (card_to_row c) = silo_to_string (c_silo c)"
  "k_payload (card_to_row c) = Some (serialize_payload_inner (c_payload c))"
  "k_todo_id (card_to_row c) = c_todo_id c"
  by (simp_all add: card_to_row_def Let_def split: card_payload.splits)

lemma row_card_general:
  "row_to_card (card_to_row c) =
     c\<lparr>c_payload := decode_payload (card_type_str (c_payload c))
                     (Some (serialize_payload_inner (c_payload c)))\<rparr>"
  by (cases c) (simp add: row_to_card_def)

lemma row_card_roundtrip: "persistable (c_payload c) \<Longrightarrow> row_to_card (card_to_row c) = c"
  by (simp add: row_card_general decode_serialize)

lemma find_id_append_fresh:
  "i \<notin> set (map k_id rows) \<Longrightarrow> List.find (\<lambda>k. k_id k = i) (rows @ [k]) = (if k_id k = i then Some k else None)"
  by (induction rows) auto

subsection \<open>Properties of the store\<close>

text \<open>C11: A reply or compose card with a finite confidence and no JSON null as its metadata comes
  back from the database exactly as it was inserted.\<close>

theorem insert_get_roundtrip:
  assumes "persistable (c_payload c)" and "c_id c \<notin> set (map k_id (db_cards db))"
    and "db_faults db = []"
  shows "fst (get_card (c_id c) (snd (insert_card c db))) = Inr (Some c)"
proof -
  have "k_confidence (card_to_row c) \<noteq> NaN"
    using assms(1) by (auto elim!: persistableE simp: card_to_row_def Let_def)
  with assms show ?thesis
    by (simp add: insert_card_def get_card_def query_def fault_def Let_def tick_def
        find_id_append_fresh row_card_roundtrip)
qed

text \<open>For the three other kinds of card the payload does not survive the store: an action or a
  decision is read back as "Unknown", a multiple-choice card as an empty reply card.\<close>

theorem store_loses_other_payloads:
  assumes "card_type_str (c_payload c) \<notin> {''reply'', ''compose''}"
  shows "c_payload (row_to_card (card_to_row c)) =
    (if card_type_str (c_payload c) = ''action'' then Action ''Unknown'' None
     else if card_type_str (c_payload c) = ''decision'' then Decision ''Unknown'' [] []
     else fallback_reply_payload)"
  using assms by (cases "c_payload c") (simp_all add: row_card_general decode_payload_def rust_defs)

text \<open>\<open>update_card_reply\<close> on a stored reply card changes its text and its status and nothing
  else that a reader of the row sees, except the time of the update.\<close>

theorem update_card_reply_effect:
  assumes "c_payload c = Reply r" and "persistable (c_payload c)" and "db_faults db = []"
    and "c_id c \<notin> set (map k_id (db_cards db))"
  shows "fst (get_card (c_id c) (snd (update_card_reply now (c_id c) t st (snd (insert_card c db)))))
    = Inr (Some (c\<lparr>c_payload := Reply (r\<lparr>r_suggested_reply := t\<rparr>), c_status := st,
                    c_updated_at := now\<rparr>))"
proof -
  have nan: "k_confidence (card_to_row c) \<noteq> NaN"
    using assms(2) by (auto elim!: persistableE simp: card_to_row_def Let_def)
  have keep: "map (\<lambda>k. if k_id k = c_id c then f k else k) (db_cards db) = db_cards db" for f
    using assms(4) by (intro map_idI) (auto simp: image_iff)
  have "decode_payload ''reply'' (Some (serialize_payload_inner (Reply (r\<lparr>r_suggested_reply := t\<rparr>))))
      = Reply (r\<lparr>r_suggested_reply := t\<rparr>)"
    using decode_serialize [of "Reply (r\<lparr>r_suggested_reply := t\<rparr>)"] assms(1,2)
    by (simp add: persistable_def)
  with nan assms show ?thesis
    by (simp add: insert_card_def get_card_def query_def execute_def fault_def Let_def tick_def
        update_card_reply_def keep find_id_append_fresh row_to_card_def update_serialize_reply)
qed

text \<open>Right after the expiry sweep of the database has run, the pending listing at the same
  instant returns every row still marked pending, oldest first, and the sweep has counted and
  rewritten exactly the rows whose deadline had come.\<close>

theorem expiry_then_pending:
  assumes "db_faults db = []" and run: "expire_old_cards now db = (Inr n, db')"
  shows "n = length (filter (row_expired now) (db_cards db)) \<and>
      (\<exists>cards. fst (get_pending_cards now db') = Inr cards \<and>
         sorted (map c_created_at cards) \<and>
         mset cards = image_mset row_to_card
           (filter_mset (\<lambda>k. k_status k = ''pending'') (mset (db_cards db'))))"
proof -
  let ?sweep = "\<lambda>k. if row_expired now k then k\<lparr>k_status := ''expired'', k_updated_at := now\<rparr> else k"
  have rows: "db_cards db' = map ?sweep (db_cards db)" and nf: "db_faults db' = []"
    and n: "n = length (filter (row_expired now) (db_cards db))"
    using run assms by (auto simp: expire_old_cards_def fault_def tick_def)
  have "row_pending now (?sweep k) \<longleftrightarrow> k_status (?sweep k) = ''pending''" for k
    by (auto simp: row_pending_def row_expired_def not_le split: option.splits)
  then have "filter (row_pending now) (db_cards db') =
      filter (\<lambda>k. k_status k = ''pending'') (db_cards db')"
    unfolding rows by (simp add: filter_map o_def)
  moreover have "map c_created_at (map row_to_card xs) = map k_created_at xs" for xs
    by (simp add: row_to_card_def)
  ultimately show ?thesis
    using n nf
    by (auto simp: get_pending_cards_def query_def fault_def mset_filter
             simp del: map_map intro!: sorted_sort_key)
qed

text \<open>Pruning the database never deletes a pending card, whatever its age, and keeps every row
  touched within the last \<open>keep_days\<close> days.\<close>

theorem prune_keeps_pending:
  assumes "k \<in> set (db_cards db)"
    and "k_status k = ''pending'' \<or> now - duration_secs (uint keep_days * 86400) \<le> k_updated_at k"
  shows "k \<in> set (db_cards (snd (prune_cards now keep_days db)))"
  using assms by (auto simp: prune_cards_def Let_def)

text \<open>External ids of messages stay unique: an insertion that reuses one is refused and
  leaves the table alone, and one that succeeds can be looked up by its external id as a pending
  message.\<close>

theorem insert_message_unique:
  assumes "distinct (map mr_external_id (db_messages db))" and "db_faults db = []"
    and "insert_message fresh now eid ch sender subject content recv meta db = (res, db')"
  shows "distinct (map mr_external_id (db_messages db')) \<and>
    (case res of
       Inl _ \<Rightarrow> db_messages db' = db_messages db
     | Inr i \<Rightarrow> (\<exists>m. fst (get_message_by_external_id eid db') = Inr (Some m) \<and> m_id m = i \<and>
                 m_content m = content \<and> m_sender m = sender \<and> m_status m = MsgPending))"
proof (cases "fresh \<in> set (map mr_id (db_messages db)) \<or> eid \<in> set (map mr_external_id (db_messages db))")
  case True
  then show ?thesis using assms by (auto simp: insert_message_def)
next
  case False
  then have "List.find (\<lambda>r. mr_external_id r = eid) (db_messages db) = None"
    by (auto simp: find_None_iff_ball)
  with False assms show ?thesis
    by (auto simp: insert_message_def get_message_by_external_id_def query_def fault_def tick_def
        find_append row_to_message_def str_to_msg_status_def)
qed

subsection \<open>Witnesses\<close>

definition sample_reply :: approval_card where
  "sample_reply = with_message_id ''m1''
     (new_reply 7 1000 ''email'' ''ann@x.org'' ''Lunch?'' ''Yes'' (Fin (1/2)) ''conv'' 30)"

definition empty_db :: database where
  "empty_db = \<lparr>db_cards = [], db_messages = [], db_faults = []\<rparr>"

lemmas sample_reply_eval = sample_reply_def with_message_id_def map_reply_def new_reply_def
  new_card_def f32_clamp_def persistable_def finite_f32_def empty_db_def

theorem insert_get_roundtrip_witness:
  "persistable (c_payload sample_reply) \<and>
   fst (get_card (c_id sample_reply) (snd (insert_card sample_reply empty_db))) = Inr (Some sample_reply)"
  using insert_get_roundtrip [of sample_reply empty_db] by (simp add: sample_reply_eval)

theorem store_loses_other_payloads_witness:
  "c_payload (row_to_card (card_to_row (new_multiple_choice 1 0 ''q'' [''a'', ''b''] Todos)))
     = fallback_reply_payload"
  using store_loses_other_payloads [of "new_multiple_choice 1 0 ''q'' [''a'', ''b''] Todos"]
  by (simp add: new_multiple_choice_def)

theorem update_card_reply_effect_witness:
  "\<exists>c. fst (get_card 7 (snd (update_card_reply 2000 7 ''No'' CardApproved
          (snd (insert_card sample_reply empty_db))))) = Inr (Some c)
     \<and> suggested_reply (c_payload c) = Some ''No'' \<and> c_status c = CardApproved"
  using update_card_reply_effect [of sample_reply _ empty_db 2000 "''No''" CardApproved]
  by (simp add: sample_reply_eval)

theorem expiry_then_pending_witness:
  "fst (get_pending_cards 9999999999999999
     (snd (expire_old_cards 9999999999999999 (empty_db\<lparr>db_cards := [card_to_row sample_reply]\<rparr>)))) = Inr []"
  using expiry_then_pending [of "empty_db\<lparr>db_cards := [card_to_row sample_reply]\<rparr>" 9999999999999999 1
      "snd (expire_old_cards 9999999999999999 (empty_db\<lparr>db_cards := [card_to_row sample_reply]\<rparr>))"]
  by (simp add: sample_reply_eval expire_old_cards_def fault_def row_expired_def duration_minutes_def
      duration_secs_def nanos_per_sec_def)

theorem prune_keeps_pending_witness:
  "card_to_row sample_reply \<in> set (db_cards (snd (prune_cards 9999999999999999 30
      (empty_db\<lparr>db_cards := [card_to_row sample_reply]\<rparr>))))"
  using prune_keeps_pending [of "card_to_row sample_reply" "empty_db\<lparr>db_cards := [card_to_row sample_reply]\<rparr>"]
  by (simp add: sample_reply_eval)

theorem insert_message_unique_witness:
  "distinct (map mr_external_id (db_messages (snd
     (insert_message ''u1'' 5 ''e1'' ''email'' ''ann'' None ''hi'' 4 None empty_db))))"
  using insert_message_unique [OF _ _ surjective_pairing, of empty_db "''u1''" 5 "''e1''" "''email''"
      "''ann''" None "''hi''" 4 None]
  by (simp add: empty_db_def)

end
