(* ===== verification/Card_Queue.thy ===== *)
theory Card_Queue
  imports Store
begin

text \<open>
  The card queue of \<open>src/src/cards/queue.rs\<close>: the in-memory cards, the broadcast channel (as the
  log of what was sent on it) and the optional database every change is written through to. A
  method that holds the lock from its first read to its last write is one definition; \<open>refine\<close>
  gives the lock up while the language model runs and once more before it writes to the
  database, so it is three definitions and their sequential composition. The clock readings of
  one critical section are one instant \<open>now\<close>; \<open>expire_old\<close> reads the clock for the database
  before it takes the lock, and has two.
\<close>

subsection \<open>State\<close>

record card_queue =
  q_cards :: "approval_card list"
  q_tx :: "ws_message list"
  q_db :: "database option"

definition new_queue :: card_queue where
  "new_queue = \<lparr>q_cards = [], q_tx = [], q_db = None\<rparr>"

definition with_db :: "datetime \<Rightarrow> database \<Rightarrow> card_queue" where
  "with_db now db =
     (case get_pending_cards now db of
        (Inr pending, db') \<Rightarrow> \<lparr>q_cards = pending, q_tx = [], q_db = Some db'\<rparr>
      | (Inl _, db') \<Rightarrow> \<lparr>q_cards = [], q_tx = [], q_db = Some db'\<rparr>)"

text \<open>Write-through: a failing statement is logged and the operation goes on.\<close>

definition persist ::
  "(database \<Rightarrow> (database_error + 'a) \<times> database) \<Rightarrow> card_queue \<Rightarrow> card_queue" where
  "persist stmt q = q\<lparr>q_db := map_option (\<lambda>db. snd (stmt db)) (q_db q)\<rparr>"

definition send :: "ws_message \<Rightarrow> card_queue \<Rightarrow> card_queue" where
  "send msg q = q\<lparr>q_tx := q_tx q @ [msg]\<rparr>"

definition broadcast_silo_counts_from :: "datetime \<Rightarrow> card_queue \<Rightarrow> card_queue" where
  "broadcast_silo_counts_from now q = send (SiloCountsMsg (from_cards now (q_cards q))) q"

definition queue_update_message_status ::
  "datetime \<Rightarrow> string \<Rightarrow> message_status \<Rightarrow> card_queue \<Rightarrow> card_queue" where
  "queue_update_message_status now mid st = persist (update_message_status now mid st)"

definition update_linked_message ::
  "datetime \<Rightarrow> approval_card \<Rightarrow> message_status \<Rightarrow> card_queue \<Rightarrow> card_queue" where
  "update_linked_message now c st q = (case payload_message_id (c_payload c) of
     None \<Rightarrow> q | Some mid \<Rightarrow> queue_update_message_status now mid st q)"

definition find_card :: "uuid \<Rightarrow> card_queue \<Rightarrow> approval_card option" where
  "find_card i q = List.find (\<lambda>c. c_id c = i) (q_cards q)"

definition write_card :: "uuid \<Rightarrow> approval_card \<Rightarrow> card_queue \<Rightarrow> card_queue" where
  "write_card i c q = q\<lparr>q_cards := update_first (\<lambda>c. c_id c = i) (\<lambda>_. c) (q_cards q)\<rparr>"

subsection \<open>Operations\<close>

definition push :: "datetime \<Rightarrow> approval_card \<Rightarrow> card_queue \<Rightarrow> card_queue" where
  "push now c q =
     (let q1 = persist (insert_card c) q;
          q2 = q1\<lparr>q_cards := q_cards q1 @ [c]\<rparr>;
          q3 = broadcast_silo_counts_from now q2
      in send (NewCard c) q3)"

definition create :: "datetime \<Rightarrow> approval_card \<Rightarrow> card_queue \<Rightarrow> approval_card \<times> card_queue" where
  "create now c q = (c, push now c q)"

definition approve :: "datetime \<Rightarrow> uuid \<Rightarrow> card_queue \<Rightarrow> approval_card option \<times> card_queue" where
  "approve now i q = (case find_card i q of
     None \<Rightarrow> (None, q)
   | Some found \<Rightarrow>
       if c_status found \<noteq> CardPending then (None, q)
       else let q1 = persist (update_card_status now i CardApproved) q;
                approved = found\<lparr>c_status := CardApproved, c_updated_at := now\<rparr>;
                q2 = write_card i approved q1;
                q3 = update_linked_message now approved MsgReplied q2;
                q4 = send (CardUpdate i CardApproved) q3
            in (Some approved, broadcast_silo_counts_from now q4))"

definition dismiss :: "datetime \<Rightarrow> uuid \<Rightarrow> card_queue \<Rightarrow> approval_card option \<times> card_queue" where
  "dismiss now i q = (case find_card i q of
     None \<Rightarrow> (None, q)
   | Some found \<Rightarrow>
       if c_status found \<noteq> CardPending then (None, q)
       else let q1 = persist (update_card_status now i CardDismissed) q;
                dismissed = found\<lparr>c_status := CardDismissed, c_updated_at := now\<rparr>;
                q2 = write_card i dismissed q1;
                q3 = update_linked_message now dismissed MsgDismissed q2;
                q4 = send (CardUpdate i CardDismissed) q3
            in (Some dismissed, broadcast_silo_counts_from now q4))"

definition edit :: "datetime \<Rightarrow> uuid \<Rightarrow> string \<Rightarrow> card_queue \<Rightarrow> approval_card option \<times> card_queue" where
  "edit now i new_text q = (case find_card i q of
     None \<Rightarrow> (None, q)
   | Some found \<Rightarrow>
       if c_status found \<noteq> CardPending then (None, q)
       else let q1 = persist (update_card_reply now i new_text CardApproved) q;
                edited = (map_reply (\<lambda>r. r\<lparr>r_suggested_reply := new_text\<rparr>) found)
                           \<lparr>c_status := CardApproved, c_updated_at := now\<rparr>;
                q2 = write_card i edited q1;
                q3 = send (CardUpdate i CardApproved) q2
            in (Some edited, broadcast_silo_counts_from now q3))"

definition mark_sent :: "datetime \<Rightarrow> uuid \<Rightarrow> card_queue \<Rightarrow> bool \<times> card_queue" where
  "mark_sent now i q = (case find_card i q of
     None \<Rightarrow> (False, q)
   | Some found \<Rightarrow>
       let q1 = persist (update_card_status now i CardSent) q;
           sent = found\<lparr>c_status := CardSent, c_updated_at := now\<rparr>;
           q2 = write_card i sent q1;
           q3 = update_linked_message now sent MsgReplied q2;
           q4 = send (CardUpdate i CardSent) q3
       in (True, broadcast_silo_counts_from now q4))"

datatype refine_error =
    RefineNotFound uuid
  | RefineNotPending uuid card_status
  | RefineLlmFailed string
  | RefineDisappeared uuid
  | RefineNoLongerPending uuid

text \<open>The three critical sections of \<open>refine\<close>.\<close>

definition refine_snapshot :: "uuid \<Rightarrow> card_queue \<Rightarrow> refine_error + approval_card" where
  "refine_snapshot i q = (case find_card i q of
     None \<Rightarrow> Inl (RefineNotFound i)
   | Some found \<Rightarrow> if c_status found \<noteq> CardPending then Inl (RefineNotPending i (c_status found))
                  else Inr found)"

definition refine_commit ::
  "datetime \<Rightarrow> uuid \<Rightarrow> string \<Rightarrow> f32 \<Rightarrow> card_queue \<Rightarrow> (refine_error + approval_card) \<times> card_queue" where
  "refine_commit now i new_text new_confidence q = (case find_card i q of
     None \<Rightarrow> (Inl (RefineDisappeared i), q)
   | Some found \<Rightarrow>
       if c_status found \<noteq> CardPending then (Inl (RefineNoLongerPending i), q)
       else let updated = (map_reply (\<lambda>r. r\<lparr>r_suggested_reply := new_text,
                                            r_confidence := new_confidence\<rparr>) found)
                            \<lparr>c_updated_at := now\<rparr>
            in (Inr updated, write_card i updated q))"

definition refine_persist :: "datetime \<Rightarrow> approval_card \<Rightarrow> card_queue \<Rightarrow> card_queue" where
  "refine_persist now updated q =
     (let text = unwrap_or (suggested_reply (c_payload updated)) [];
          q1 = persist (update_card_reply now (c_id updated) text CardPending) q
      in send (CardRefreshed updated) q1)"

definition refine ::
  "(approval_card \<Rightarrow> string \<Rightarrow> string + (string \<times> f32)) \<Rightarrow> datetime \<Rightarrow> uuid \<Rightarrow> string \<Rightarrow> card_queue \<Rightarrow>
   (refine_error + approval_card) \<times> card_queue" where
  "refine drafter now i instruction q = (case refine_snapshot i q of
     Inl e \<Rightarrow> (Inl e, q)
   | Inr snapshot \<Rightarrow> (case drafter snapshot instruction of
       Inl e \<Rightarrow> (Inl (RefineLlmFailed e), q)
     | Inr (new_text, new_confidence) \<Rightarrow>
         (case refine_commit now i new_text new_confidence q of
            (Inl e, q1) \<Rightarrow> (Inl e, q1)
          | (Inr updated, q1) \<Rightarrow> (Inr updated, refine_persist now updated q1))))"

definition all_cards :: "card_queue \<Rightarrow> approval_card list" where
  "all_cards q = q_cards q"

definition pending :: "datetime \<Rightarrow> card_queue \<Rightarrow> approval_card list" where
  "pending now q = filter (\<lambda>c. c_status c = CardPending \<and> \<not> is_expired now c) (q_cards q)"

definition queue_len :: "card_queue \<Rightarrow> nat" where
  "queue_len q = length (q_cards q)"

definition queue_is_empty :: "card_queue \<Rightarrow> bool" where
  "queue_is_empty q = (q_cards q = [])"

definition due :: "datetime \<Rightarrow> approval_card \<Rightarrow> bool" where
  "due now c \<longleftrightarrow> c_status c = CardPending \<and> is_expired now c"

definition expire_card :: "datetime \<Rightarrow> approval_card \<Rightarrow> approval_card" where
  "expire_card now c =
     (if due now c then c\<lparr>c_status := CardExpired, c_updated_at := now\<rparr> else c)"

text \<open>The closure given to \<open>retain\<close>, with its captured counter \<open>removed\<close>.\<close>

fun retain_from :: "nat \<Rightarrow> nat \<Rightarrow> approval_card list \<Rightarrow> approval_card list" where
  "retain_from to_remove removed [] = []"
| "retain_from to_remove removed (c # cs) =
     (if c_status c \<noteq> CardPending \<and> removed < to_remove
      then retain_from to_remove (removed + 1) cs
      else c # retain_from to_remove removed cs)"

definition prune_history :: "approval_card list \<Rightarrow> approval_card list" where
  "prune_history cards =
     (if length cards > 200 then
        (let to_remove = length (filter (\<lambda>c. c_status c \<noteq> CardPending) cards) - 100
         in if to_remove > 0 then retain_from to_remove 0 cards else cards)
      else cards)"

definition expire_old :: "datetime \<Rightarrow> datetime \<Rightarrow> card_queue \<Rightarrow> nat \<times> card_queue" where
  "expire_old db_now now q =
     (let q1 = persist (expire_old_cards db_now) q;
          expired = filter (due now) (q_cards q1);
          q2 = q1\<lparr>q_cards := map (expire_card now) (q_cards q1),
                  q_tx := q_tx q1 @ map (\<lambda>c. CardExpiredMsg (c_id c)) expired\<rparr>;
          q3 = q2\<lparr>q_cards := prune_history (q_cards q2)\<rparr>
      in (length expired,
          if length expired > 0 then broadcast_silo_counts_from now q3 else q3))"

subsection \<open>Sequences of operations\<close>

datatype queue_op =
    OpPush datetime approval_card
  | OpApprove datetime uuid
  | OpDismiss datetime uuid
  | OpEdit datetime uuid string
  | OpMarkSent datetime uuid
  | OpRefineCommit datetime uuid string f32
  | OpRefinePersist datetime approval_card
  | OpExpire datetime datetime

fun apply_op :: "queue_op \<Rightarrow> card_queue \<Rightarrow> card_queue" where
  "apply_op (OpPush now c) q = push now c q"
| "apply_op (OpApprove now i) q = snd (approve now i q)"
| "apply_op (OpDismiss now i) q = snd (dismiss now i q)"
| "apply_op (OpEdit now i t) q = snd (edit now i t q)"
| "apply_op (OpMarkSent now i) q = snd (mark_sent now i q)"
| "apply_op (OpRefineCommit now i t x) q = snd (refine_commit now i t x q)"
| "apply_op (OpRefinePersist now c) q = refine_persist now c q"
| "apply_op (OpExpire db_now now) q = snd (expire_old db_now now q)"

definition card_ids :: "card_queue \<Rightarrow> uuid list" where
  "card_ids q = map c_id (q_cards q)"

text \<open>A new card has a new UUID and starts out pending, as every constructor makes it.\<close>

fun op_ok :: "queue_op \<Rightarrow> card_queue \<Rightarrow> bool" where
  "op_ok (OpPush _ c) q = (c_id c \<notin> set (card_ids q) \<and> c_status c = CardPending)"
| "op_ok _ q = True"

subsection \<open>What the helpers leave alone\<close>

lemma helper_frame [simp]:
  "q_cards (persist stmt q) = q_cards q"
  "q_cards (send msg q) = q_cards q"
  "q_cards (broadcast_silo_counts_from now q) = q_cards q"
  "q_cards (queue_update_message_status now mid ms q) = q_cards q"
  "q_cards (update_linked_message now c ms q) = q_cards q"
  "q_cards (write_card i c q) = update_first (\<lambda>c. c_id c = i) (\<lambda>_. c) (q_cards q)"
  by (simp_all add: persist_def send_def broadcast_silo_counts_from_def
      queue_update_message_status_def update_linked_message_def write_card_def split: option.split)

lemma helper_tx [simp]:
  "q_tx (persist stmt q) = q_tx q"
  "q_tx (send msg q) = q_tx q @ [msg]"
  "q_tx (broadcast_silo_counts_from now q) = q_tx q @ [SiloCountsMsg (from_cards now (q_cards q))]"
  "q_tx (queue_update_message_status now mid ms q) = q_tx q"
  "q_tx (update_linked_message now c ms q) = q_tx q"
  "q_tx (write_card i c q) = q_tx q"
  by (simp_all add: persist_def send_def broadcast_silo_counts_from_def
      queue_update_message_status_def update_linked_message_def write_card_def split: option.split)

lemma update_first_found:
  "List.find P xs = Some x \<Longrightarrow> update_first P (\<lambda>_. f x) xs = update_first P f xs"
  by (induction xs) (auto split: if_splits)

lemma find_id_iff:
  "distinct (map c_id xs) \<Longrightarrow>
     List.find (\<lambda>c. c_id c = i) xs = Some c \<longleftrightarrow> c \<in> set xs \<and> c_id c = i"
  by (induction xs) (auto simp: image_iff)

subsection \<open>The cards after each operation\<close>

text \<open>Every decision rewrites the addressed card, if it is there and pending, by a function that
  keeps its identity.\<close>

definition decide :: "(approval_card \<Rightarrow> approval_card) \<Rightarrow> uuid \<Rightarrow> card_queue \<Rightarrow> approval_card list" where
  "decide f i q = (case find_card i q of
     Some c \<Rightarrow> if c_status c = CardPending then update_first (\<lambda>c. c_id c = i) f (q_cards q)
               else q_cards q
   | None \<Rightarrow> q_cards q)"

definition edit_card :: "datetime \<Rightarrow> string \<Rightarrow> approval_card \<Rightarrow> approval_card" where
  "edit_card now t c = (map_reply (\<lambda>r. r\<lparr>r_suggested_reply := t\<rparr>) c)
     \<lparr>c_status := CardApproved, c_updated_at := now\<rparr>"

definition redraft_card :: "datetime \<Rightarrow> string \<Rightarrow> f32 \<Rightarrow> approval_card \<Rightarrow> approval_card" where
  "redraft_card now t x c = (map_reply (\<lambda>r. r\<lparr>r_suggested_reply := t, r_confidence := x\<rparr>) c)
     \<lparr>c_updated_at := now\<rparr>"

lemma cards_push [simp]: "q_cards (push now c q) = q_cards q @ [c]"
  by (simp add: push_def Let_def)

lemma cards_approve:
  "q_cards (snd (approve now i q)) =
     decide (\<lambda>c. c\<lparr>c_status := CardApproved, c_updated_at := now\<rparr>) i q"
  by (auto simp: approve_def decide_def find_card_def Let_def
      update_first_found [where f = "\<lambda>c. c\<lparr>c_status := CardApproved, c_updated_at := now\<rparr>"]
      split: option.splits)

lemma cards_dismiss:
  "q_cards (snd (dismiss now i q)) =
     decide (\<lambda>c. c\<lparr>c_status := CardDismissed, c_updated_at := now\<rparr>) i q"
  by (auto simp: dismiss_def decide_def find_card_def Let_def
      update_first_found [where f = "\<lambda>c. c\<lparr>c_status := CardDismissed, c_updated_at := now\<rparr>"]
      split: option.splits)

lemma cards_edit: "q_cards (snd (edit now i t q)) = decide (edit_card now t) i q"
  by (auto simp: edit_def decide_def find_card_def Let_def edit_card_def [symmetric]
      update_first_found [where f = "edit_card now t"] split: option.splits)

lemma cards_refine_commit:
  "q_cards (snd (refine_commit now i t x q)) = decide (redraft_card now t x) i q"
  by (auto simp: refine_commit_def decide_def find_card_def Let_def redraft_card_def [symmetric]
      update_first_found [where f = "redraft_card now t x"] split: option.splits)

lemma cards_refine_persist [simp]: "q_cards (refine_persist now c q) = q_cards q"
  by (simp add: refine_persist_def Let_def)

lemma cards_mark_sent:
  "q_cards (snd (mark_sent now i q)) =
     update_first (\<lambda>c. c_id c = i) (\<lambda>c. c\<lparr>c_status := CardSent, c_updated_at := now\<rparr>) (q_cards q)"
  by (auto simp: mark_sent_def find_card_def Let_def update_first_none
      update_first_found [where f = "\<lambda>c. c\<lparr>c_status := CardSent, c_updated_at := now\<rparr>"]
      split: option.splits)

lemma cards_expire_old:
  "q_cards (snd (expire_old db_now now q)) = prune_history (map (expire_card now) (q_cards q))"
  by (simp add: expire_old_def Let_def)

lemmas cards_after = cards_push cards_approve cards_dismiss cards_edit cards_refine_commit
  cards_refine_persist cards_mark_sent cards_expire_old

lemma kind_frame [simp]:
  "c_id (edit_card now t c) = c_id c" "c_id (redraft_card now t x c) = c_id c"
  "c_status (edit_card now t c) = CardApproved" "c_status (redraft_card now t x c) = c_status c"
  "c_id (expire_card now c) = c_id c"
  by (simp_all add: edit_card_def redraft_card_def expire_card_def frame)

subsection \<open>Pruning\<close>

lemma retain_from_pending:
  "filter (\<lambda>c. c_status c = CardPending) (retain_from n r cs) =
   filter (\<lambda>c. c_status c = CardPending) cs"
  by (induction n r cs rule: retain_from.induct) auto

lemma retain_from_others:
  "filter (\<lambda>c. c_status c \<noteq> CardPending) (retain_from n r cs) =
   drop (n - r) (filter (\<lambda>c. c_status c \<noteq> CardPending) cs)"
  by (induction n r cs rule: retain_from.induct) (auto simp: Suc_diff_Suc [symmetric])

lemma retain_from_set: "set (retain_from n r cs) \<subseteq> set cs"
  by (induction n r cs rule: retain_from.induct) auto

lemma retain_from_distinct: "distinct (map f cs) \<Longrightarrow> distinct (map f (retain_from n r cs))"
  by (induction n r cs rule: retain_from.induct) (auto dest: subsetD [OF retain_from_set])

lemma prune_history_pending:
  "filter (\<lambda>c. c_status c = CardPending) (prune_history cs) =
   filter (\<lambda>c. c_status c = CardPending) cs"
  by (simp add: prune_history_def Let_def retain_from_pending)

lemma prune_history_others:
  "filter (\<lambda>c. c_status c \<noteq> CardPending) (prune_history cs) =
   (if length cs > 200 then keep_last 100 (filter (\<lambda>c. c_status c \<noteq> CardPending) cs)
    else filter (\<lambda>c. c_status c \<noteq> CardPending) cs)"
  by (auto simp: prune_history_def Let_def retain_from_others keep_last_def)

lemma prune_history_set: "set (prune_history cs) \<subseteq> set cs"
  using retain_from_set by (auto simp: prune_history_def Let_def)

lemma prune_history_distinct: "distinct (map f cs) \<Longrightarrow> distinct (map f (prune_history cs))"
  by (simp add: prune_history_def Let_def retain_from_distinct)

lemma length_split: "length cs = length (filter P cs) + length (filter (\<lambda>c. \<not> P c) cs)"
  by (simp add: sum_length_filter_compl)

subsection \<open>Looking a card up after an operation\<close>

lemma find_update_id:
  assumes "\<And>c. c_id (f c) = c_id c"
  shows "List.find (\<lambda>c. c_id c = j) (update_first (\<lambda>c. c_id c = i) f xs) =
    map_option (\<lambda>c. if j = i then f c else c) (List.find (\<lambda>c. c_id c = j) xs)"
  by (induction xs) (auto simp: assms option.map_ident)

lemma find_decide:
  assumes "\<And>c. c_id (f c) = c_id c"
  shows "List.find (\<lambda>c. c_id c = j) (decide f i q) =
    map_option (\<lambda>c. if j = i \<and> c_status c = CardPending then f c else c) (find_card j q)"
  by (cases "j = i"; cases "find_card j q"; cases "find_card i q")
     (auto simp: decide_def find_update_id assms find_card_def option.map_ident)

lemma ids_decide:
  assumes "\<And>c. c_id (f c) = c_id c"
  shows "map c_id (decide f i q) = map c_id (q_cards q)"
  by (auto simp: decide_def assms split: option.splits)

text \<open>What one operation may do to a card: identity, silo, times of creation and expiry, the
  linked to-do and the kind of payload never change; a decided card keeps its payload; the status
  moves from pending to approved, dismissed or expired, or to sent by \<open>mark_sent\<close>.\<close>

definition lifecycle_step :: "queue_op \<Rightarrow> approval_card \<Rightarrow> approval_card \<Rightarrow> bool" where
  "lifecycle_step op c c' \<longleftrightarrow>
     c_id c' = c_id c \<and> c_silo c' = c_silo c \<and> c_created_at c' = c_created_at c \<and>
     c_expires_at c' = c_expires_at c \<and> c_todo_id c' = c_todo_id c \<and>
     card_type_str (c_payload c') = card_type_str (c_payload c) \<and>
     (c_status c \<noteq> CardPending \<longrightarrow> c_payload c' = c_payload c) \<and>
     (c_status c' = c_status c
      \<or> c_status c = CardPending \<and> c_status c' \<in> {CardApproved, CardDismissed, CardExpired}
      \<or> (\<exists>now. op = OpMarkSent now (c_id c)) \<and> c_status c' = CardSent)"

lemma map_reply_kind [simp]: "card_type_str (c_payload (map_reply f c)) = card_type_str (c_payload c)"
  by (simp add: map_reply_def split: card_payload.splits)

lemma lifecycle_refl [simp]: "lifecycle_step op c c"
  by (simp add: lifecycle_step_def)

lemma lifecycle_moves:
  "c_status c = CardPending \<Longrightarrow> lifecycle_step op c (c\<lparr>c_status := CardApproved, c_updated_at := now\<rparr>)"
  "c_status c = CardPending \<Longrightarrow> lifecycle_step op c (c\<lparr>c_status := CardDismissed, c_updated_at := now\<rparr>)"
  "c_status c = CardPending \<Longrightarrow> lifecycle_step op c (edit_card now t c)"
  "c_status c = CardPending \<Longrightarrow> lifecycle_step op c (redraft_card now t x c)"
  "lifecycle_step op c (expire_card now c)"
  "lifecycle_step (OpMarkSent now (c_id c)) c (c\<lparr>c_status := CardSent, c_updated_at := now\<rparr>)"
  by (auto simp: lifecycle_step_def edit_card_def redraft_card_def expire_card_def due_def frame)

lemma find_expired:
  assumes "distinct (map c_id cs)" and "List.find (\<lambda>c. c_id c = i) cs = Some c"
  shows "List.find (\<lambda>c. c_id c = i) (prune_history (map (expire_card now) cs)) = Some (expire_card now c)
    \<or> List.find (\<lambda>c. c_id c = i) (prune_history (map (expire_card now) cs)) = None
      \<and> c_status (expire_card now c) \<noteq> CardPending \<and> length cs > 200"
proof -
  let ?cs = "map (expire_card now) cs"
  have d: "distinct (map c_id ?cs)" and c: "expire_card now c \<in> set ?cs" "c_id c = i"
    using assms by (auto simp: o_def find_id_iff)
  have d': "distinct (map c_id (prune_history ?cs))"
    using prune_history_distinct d by blast
  show ?thesis
  proof (cases "expire_card now c \<in> set (prune_history ?cs)")
    case True
    then show ?thesis using c d' by (simp add: find_id_iff)
  next
    case False
    then have "c_status (expire_card now c) \<noteq> CardPending"
      using arg_cong [where f = set, OF prune_history_pending [of ?cs]] c(1) by auto
    moreover have "length cs > 200"
      using False c(1) by (auto simp: prune_history_def split: if_splits)
    moreover have "c' \<notin> set (prune_history ?cs)" if "c_id c' = i" for c'
    proof
      assume "c' \<in> set (prune_history ?cs)"
      then have "c' \<in> set ?cs" using prune_history_set by blast
      then have "c' = expire_card now c"
        using find_id_iff [OF d, of i c'] find_id_iff [OF d, of i "expire_card now c"] that c
        by simp
      with False \<open>c' \<in> set (prune_history ?cs)\<close> show False by simp
    qed
    ultimately show ?thesis by (auto simp: find_None_iff_ball)
  qed
qed

lemma lifecycle_cases:
  assumes "distinct (card_ids q)" and "op_ok op q" and "find_card i q = Some c"
  shows "(\<exists>c'. find_card i (apply_op op q) = Some c' \<and> lifecycle_step op c c') \<or>
    find_card i (apply_op op q) = None \<and> length (q_cards q) > 200 \<and>
      (\<exists>db_now now. op = OpExpire db_now now \<and> c_status (expire_card now c) \<noteq> CardPending)"
proof -
  have i: "c_id c = i" using assms(3) by (auto simp: find_card_def dest: find_SomeD)
  show ?thesis
  proof (cases op)
    case (OpExpire db_now now)
    then show ?thesis
      using find_expired [of "q_cards q" i c now] assms(1,3) lifecycle_moves(5)
      by (auto simp: find_card_def card_ids_def cards_after)
  qed (use assms(3) i in \<open>auto simp: find_card_def cards_after find_decide find_update_id find_append
      intro: lifecycle_moves\<close>)
qed

text \<open>C7: The life cycle of a card. Whatever operation runs, a card of the queue either takes a
  permitted step, or it is a decided or expired card dropped from a queue of more than 200 by the
  expiry sweep.\<close>

theorem card_lifecycle:
  assumes "distinct (card_ids q)" and "op_ok op q" and "find_card i q = Some c"
  shows "(\<exists>c'. find_card i (apply_op op q) = Some c' \<and> lifecycle_step op c c') \<or>
    find_card i (apply_op op q) = None \<and> length (q_cards q) > 200 \<and>
      (\<exists>db_now now. op = OpExpire db_now now \<and> c_status (expire_card now c) \<noteq> CardPending)"
  using assms by (rule lifecycle_cases)

lemma ids_distinct_step:
  assumes "distinct (card_ids q)" and "op_ok op q"
  shows "distinct (card_ids (apply_op op q))"
  using assms
  by (cases op)
     (auto simp: card_ids_def cards_after ids_decide o_def intro!: prune_history_distinct)

text \<open>Ids stay unique: no operation puts two cards with one id into the queue.\<close>

theorem ids_stay_distinct:
  assumes "distinct (card_ids q)" and "op_ok op q"
  shows "distinct (card_ids (apply_op op q))"
  using assms by (rule ids_distinct_step)

subsection \<open>The expiry sweep\<close>

lemma pending_after_expiry:
  "filter (\<lambda>c. c_status c = CardPending) (map (expire_card now) cs) = filter (live now) cs"
  by (induction cs) (auto simp: expire_card_def due_def live_def)

lemma pending_eq_live: "pending now q = filter (live now) (q_cards q)"
  by (simp add: pending_def live_def [abs_def])

text \<open>The expiry sweep. It counts the overdue cards; the cards still pending afterwards are
  exactly the live ones, in order and unchanged; of the others nothing is lost up to 200 cards,
  and beyond that the last 100 are kept, so that the queue is bounded by its live cards.\<close>

theorem expire_old_spec:
  "let q' = snd (expire_old db_now now q);
       decided = filter (\<lambda>c. c_status c \<noteq> CardPending) (map (expire_card now) (q_cards q))
   in fst (expire_old db_now now q) = length (filter (due now) (q_cards q)) \<and>
      filter (\<lambda>c. c_status c = CardPending) (q_cards q') = pending now q \<and>
      filter (\<lambda>c. c_status c \<noteq> CardPending) (q_cards q') =
        (if length (q_cards q) > 200 then keep_last 100 decided else decided) \<and>
      length (q_cards q') \<le> max 200 (100 + length (pending now q))"
proof -
  define q' where "q' = snd (expire_old db_now now q)"
  define decided where
    "decided = filter (\<lambda>c. c_status c \<noteq> CardPending) (map (expire_card now) (q_cards q))"
  have cards: "q_cards q' = prune_history (map (expire_card now) (q_cards q))"
    by (simp add: q'_def cards_expire_old)
  have pend: "filter (\<lambda>c. c_status c = CardPending) (q_cards q') = pending now q"
    unfolding cards prune_history_pending pending_after_expiry pending_eq_live ..
  have rest: "filter (\<lambda>c. c_status c \<noteq> CardPending) (q_cards q') =
      (if length (q_cards q) > 200 then keep_last 100 decided else decided)"
    unfolding cards prune_history_others by (simp add: decided_def)
  have "length (q_cards q') \<le> max 200 (100 + length (pending now q))"
  proof (cases "length (q_cards q) > 200")
    case True
    then show ?thesis
      using length_split [of "q_cards q'" "\<lambda>c. c_status c = CardPending"] pend rest by simp
  next
    case False
    then show ?thesis by (simp add: cards prune_history_def)
  qed
  moreover have "fst (expire_old db_now now q) = length (filter (due now) (q_cards q))"
    by (simp add: expire_old_def Let_def)
  ultimately show ?thesis
    using pend rest unfolding Let_def q'_def [symmetric] decided_def [symmetric] by blast
qed

subsection \<open>The badge\<close>

fun op_time :: "queue_op \<Rightarrow> datetime" where
  "op_time (OpPush now _) = now"
| "op_time (OpApprove now _) = now"
| "op_time (OpDismiss now _) = now"
| "op_time (OpEdit now _ _) = now"
| "op_time (OpMarkSent now _) = now"
| "op_time (OpRefineCommit now _ _ _) = now"
| "op_time (OpRefinePersist now _) = now"
| "op_time (OpExpire _ now) = now"

fun last_counts :: "ws_message list \<Rightarrow> silo_counts option" where
  "last_counts [] = None"
| "last_counts (m # ms) = (case last_counts ms of
     Some k \<Rightarrow> Some k
   | None \<Rightarrow> (case m of SiloCountsMsg k \<Rightarrow> Some k | _ \<Rightarrow> None))"

lemma last_counts_append:
  "last_counts (xs @ ys) = (case last_counts ys of Some k \<Rightarrow> Some k | None \<Rightarrow> last_counts xs)"
  by (induction xs) (auto split: option.splits)

definition badge_key :: "datetime \<Rightarrow> approval_card \<Rightarrow> bool \<times> card_silo" where
  "badge_key now c = (live now c, c_silo c)"

lemma count_silo_key:
  "count_silo now silo cs = length (filter (\<lambda>k. k = (True, silo)) (map (badge_key now) cs))"
  by (simp add: count_silo_def filter_map o_def badge_key_def)

lemma from_cards_cong:
  "map (badge_key now) cs = map (badge_key now) ds \<Longrightarrow> from_cards now cs = from_cards now ds"
  by (simp add: from_cards_eq count_silo_key)

lemma count_silo_filter_live:
  "count_silo now silo cs = length (filter (\<lambda>c. c_silo c = silo) (filter (live now) cs))"
  by (simp add: count_silo_def conj_commute)

lemma from_cards_live_cong:
  "filter (live now) cs = filter (live now) ds \<Longrightarrow> from_cards now cs = from_cards now ds"
  by (simp only: from_cards_eq count_silo_filter_live)

lemma filter_live_pending:
  "filter (live now) cs = filter (\<lambda>c. \<not> is_expired now c) (filter (\<lambda>c. c_status c = CardPending) cs)"
  by (simp add: live_def [abs_def] conj_commute)

lemma expiry_keeps_badge:
  "from_cards now (prune_history (map (expire_card now) cs)) = from_cards now cs"
proof (rule from_cards_live_cong)
  show "filter (live now) (prune_history (map (expire_card now) cs)) = filter (live now) cs"
    unfolding filter_live_pending [of now "prune_history _"] prune_history_pending pending_after_expiry
    by (auto simp: live_def intro!: filter_cong)
qed

lemma refine_keeps_badge:
  "from_cards now (decide (redraft_card t reply x) i q) = from_cards now (q_cards q)"
proof -
  have "badge_key now (redraft_card t reply x c) = badge_key now c" for c
    by (simp add: badge_key_def live_def is_expired_def redraft_card_def frame)
  then show ?thesis
    by (intro from_cards_cong) (auto simp: decide_def split: option.splits)
qed

lemma decide_no_change:
  "(case find_card i q of None \<Rightarrow> True | Some c \<Rightarrow> c_status c \<noteq> CardPending) \<Longrightarrow> decide f i q = q_cards q"
  by (auto simp: decide_def split: option.splits)

text \<open>No stale badge: whenever an operation changes the counts, the last counts broadcast to
  the clients are the counts of the queue it leaves behind.\<close>

theorem badge_is_broadcast:
  assumes "from_cards (op_time op) (q_cards (apply_op op q)) \<noteq> from_cards (op_time op) (q_cards q)"
  shows "last_counts (q_tx (apply_op op q)) =
    Some (from_cards (op_time op) (q_cards (apply_op op q)))"
proof (cases op)
  case (OpRefineCommit now i t x)
  with assms show ?thesis by (simp add: cards_after refine_keeps_badge)
next
  case (OpExpire db_now now)
  with assms show ?thesis by (simp add: cards_after expiry_keeps_badge)
qed (use assms in \<open>auto simp: push_def approve_def dismiss_def edit_def mark_sent_def Let_def
      last_counts_append split: option.splits if_splits\<close>)

subsection \<open>Memory and database\<close>

definition rows :: "card_queue \<Rightarrow> card_row list" where
  "rows q = (case q_db q of None \<Rightarrow> [] | Some db \<Rightarrow> db_cards db)"

definition no_faults :: "card_queue \<Rightarrow> bool" where
  "no_faults q = (case q_db q of None \<Rightarrow> True | Some db \<Rightarrow> db_faults db = [])"

definition row_text :: "card_row \<Rightarrow> string option" where
  "row_text k = (case Option.bind (k_payload k) (\<lambda>obj. map_of obj ''suggested_reply'') of
     Some (CStr t) \<Rightarrow> Some t | _ \<Rightarrow> None)"

text \<open>A row agrees with the card it persists on everything the approval flow depends on: status,
  deadline and, for a reply, the text that would be sent.\<close>

definition row_matches :: "card_row \<Rightarrow> approval_card \<Rightarrow> bool" where
  "row_matches k c \<longleftrightarrow> k_id k = c_id c \<and> k_status k = status_to_str (c_status c) \<and>
     k_expires_at k = c_expires_at c \<and> k_payload k \<noteq> None \<and>
     (case suggested_reply (c_payload c) of None \<Rightarrow> True | Some t \<Rightarrow> row_text k = Some t)"

definition in_sync :: "card_queue \<Rightarrow> bool" where
  "in_sync q \<longleftrightarrow> q_db q \<noteq> None \<and> distinct (map k_id (rows q)) \<and>
     (\<forall>c \<in> set (q_cards q). \<exists>k \<in> set (rows q). row_matches k c)"

lemma tick_faults [simp]: "db_faults db = [] \<Longrightarrow> db_faults (tick db) = []"
  by (simp add: tick_def)

lemma persist_db: "q_db (persist stmt q) = map_option (\<lambda>db. snd (stmt db)) (q_db q)"
  by (simp add: persist_def)

lemma rows_frame [simp]:
  "rows (send m q) = rows q" "rows (broadcast_silo_counts_from now q) = rows q"
  "rows (write_card i c q) = rows q" "rows (q\<lparr>q_cards := cs\<rparr>) = rows q"
  "rows (update_linked_message now c ms q) = rows q"
  by (auto simp: rows_def send_def broadcast_silo_counts_from_def write_card_def
      update_linked_message_def queue_update_message_status_def persist_def
      update_message_status_def execute_def split: option.splits)

lemma db_frame [simp]:
  "q_db (send m q) = q_db q" "q_db (broadcast_silo_counts_from now q) = q_db q"
  "q_db (write_card i c q) = q_db q"
  "(q_db (persist stmt q) = None) = (q_db q = None)"
  "(q_db (update_linked_message now c ms q) = None) = (q_db q = None)"
  by (auto simp: send_def broadcast_silo_counts_from_def write_card_def persist_def
      update_linked_message_def queue_update_message_status_def split: option.splits)

definition set_status :: "datetime \<Rightarrow> card_status \<Rightarrow> card_row \<Rightarrow> card_row" where
  "set_status now st k = k\<lparr>k_status := status_to_str st, k_updated_at := now\<rparr>"

definition set_reply :: "datetime \<Rightarrow> string \<Rightarrow> card_status \<Rightarrow> card_row \<Rightarrow> card_row" where
  "set_reply now t st k =
     k\<lparr>k_payload := map_option (AList.update ''suggested_reply'' (CStr t)) (k_payload k),
       k_status := status_to_str st, k_updated_at := now\<rparr>"

lemma set_row_simps [simp]:
  "k_id (set_status now st k) = k_id k" "k_status (set_status now st k) = status_to_str st"
  "k_id (set_reply now t st k) = k_id k" "k_status (set_reply now t st k) = status_to_str st"
  by (simp_all add: set_status_def set_reply_def)

definition at_id :: "uuid \<Rightarrow> (card_row \<Rightarrow> card_row) \<Rightarrow> card_row list \<Rightarrow> card_row list" where
  "at_id i g ks = map (\<lambda>k. if k_id k = i then g k else k) ks"

lemma rows_persist:
  assumes "no_faults q"
  shows "rows (persist (update_card_status now i st) q) = at_id i (set_status now st) (rows q)"
    and "rows (persist (update_card_reply now i t st) q) = at_id i (set_reply now t st) (rows q)"
    and "rows (persist (insert_card c) q) = (if q_db q = None then []
      else if c_id c \<in> set (map k_id (rows q)) \<or> k_confidence (card_to_row c) = NaN then rows q
      else rows q @ [card_to_row c])"
  using assms
  by (auto simp: rows_def no_faults_def persist_def update_card_status_def update_card_reply_def
      insert_card_def execute_def fault_def at_id_def set_status_def set_reply_def tick_def Let_def
      split: option.splits)

lemma update_first_by_id:
  "distinct (map c_id cs) \<Longrightarrow>
   update_first (\<lambda>c. c_id c = i) f cs = map (\<lambda>c. if c_id c = i then f c else c) cs"
  by (induction cs) (auto simp: image_iff intro!: sym [OF map_idI])

lemma at_id_ids: "(\<And>k. k_id (g k) = k_id k) \<Longrightarrow> map k_id (at_id i g ks) = map k_id ks"
  by (simp add: at_id_def o_def)

lemma at_id_hit: "i \<in> set (map k_id ks) \<Longrightarrow> \<exists>k. k_id k = i \<and> g k \<in> set (at_id i g ks)"
  by (force simp: at_id_def)

text \<open>The simulation step shared by the decisions: the row and the card with id \<open>i\<close> move together.\<close>

lemma matches_update:
  assumes "distinct (map c_id cs)" and "\<forall>c \<in> set cs. \<exists>k \<in> set ks. row_matches k c"
    and "\<And>k c. c \<in> set cs \<Longrightarrow> c_id c = i \<Longrightarrow> row_matches k c \<Longrightarrow> row_matches (g k) (f c)"
  shows "\<forall>c \<in> set (update_first (\<lambda>c. c_id c = i) f cs). \<exists>k \<in> set (at_id i g ks). row_matches k c"
proof
  fix c' assume "c' \<in> set (update_first (\<lambda>c. c_id c = i) f cs)"
  then obtain c where c: "c \<in> set cs" "c' = (if c_id c = i then f c else c)"
    using assms(1) by (auto simp: update_first_by_id)
  obtain k where k: "k \<in> set ks" "row_matches k c" using assms(2) c(1) by blast
  have "k_id k = c_id c" using k(2) by (simp add: row_matches_def)
  then have "row_matches (if k_id k = i then g k else k) c'"
    using assms(3) [OF c(1)] k(2) c(2) by simp
  with k(1) show "\<exists>k \<in> set (at_id i g ks). row_matches k c'"
    unfolding at_id_def set_map by (blast intro: imageI)
qed

lemma row_text_set_reply: "k_payload k \<noteq> None \<Longrightarrow> row_text (set_reply now t st k) = Some t"
  by (auto simp: row_text_def set_reply_def update_conv)

lemma row_text_status [simp]:
  "row_text (k\<lparr>k_status := st, k_updated_at := now\<rparr>) = row_text k"
  by (simp add: row_text_def)

lemma set_status_matches:
  "row_matches k c \<Longrightarrow> row_matches (set_status t st k) (c\<lparr>c_status := st, c_updated_at := now\<rparr>)"
  by (simp add: row_matches_def set_status_def split: option.splits)

lemma set_reply_matches:
  assumes "row_matches k c"
  shows "row_matches (set_reply t reply CardApproved k) (edit_card now reply c)"
proof -
  have "k_payload k \<noteq> None" using assms by (simp add: row_matches_def)
  then show ?thesis
    using assms row_text_set_reply [of k t reply CardApproved]
    by (auto simp: row_matches_def set_reply_def edit_card_def map_reply_def
        split: card_payload.splits)
qed

lemma new_row_matches: "row_matches (card_to_row c) c"
  by (cases "c_payload c") (simp_all add: row_matches_def row_text_def serialize_reply_lookup)

lemma in_sync_update:
  assumes "in_sync q" and "distinct (card_ids q)"
    and "q_cards q' = update_first (\<lambda>c. c_id c = i) f (q_cards q)"
    and "rows q' = at_id i g (rows q)" and "q_db q' \<noteq> None"
    and "\<And>k. k_id (g k) = k_id k"
    and "\<And>k c. c \<in> set (q_cards q) \<Longrightarrow> c_id c = i \<Longrightarrow> row_matches k c \<Longrightarrow> row_matches (g k) (f c)"
  shows "in_sync q'"
  using assms matches_update [of "q_cards q" "rows q" i g f]
  by (simp add: in_sync_def card_ids_def at_id_ids)

definition is_pending :: "uuid \<Rightarrow> card_queue \<Rightarrow> bool" where
  "is_pending i q = (case find_card i q of None \<Rightarrow> False | Some c \<Rightarrow> c_status c = CardPending)"

lemma decide_cases:
  "decide f i q = (if is_pending i q then update_first (\<lambda>c. c_id c = i) f (q_cards q) else q_cards q)"
  by (auto simp: decide_def is_pending_def split: option.splits)

lemma find_none_stable:
  assumes "find_card i q = None" and "\<And>now c. op = OpPush now c \<Longrightarrow> c_id c \<noteq> i"
  shows "find_card i (apply_op op q) = None"
proof (cases op)
  case (OpExpire db_now now)
  then show ?thesis
    using assms(1) prune_history_set [of "map (expire_card now) (q_cards q)"]
    by (force simp: find_card_def cards_after find_None_iff_ball)
qed (use assms in \<open>auto simp: find_card_def cards_after find_decide find_update_id find_append\<close>)

lemma not_pending_stable:
  assumes "distinct (card_ids q)" and "op_ok op q" and "\<not> is_pending i q"
    and "\<And>now c. op = OpPush now c \<Longrightarrow> c_id c \<noteq> i"
  shows "\<not> is_pending i (apply_op op q)"
proof (cases "find_card i q")
  case None
  then show ?thesis using find_none_stable [OF None assms(4)] by (simp add: is_pending_def)
next
  case (Some c)
  with assms(3) lifecycle_cases [OF assms(1,2) Some] show ?thesis
    by (auto simp: is_pending_def lifecycle_step_def)
qed

lemma pending_after_decision:
  "is_pending j (snd (approve now i q)) \<longleftrightarrow> is_pending j q \<and> j \<noteq> i"
  "is_pending j (snd (dismiss now i q)) \<longleftrightarrow> is_pending j q \<and> j \<noteq> i"
  "is_pending j (snd (edit now i t q)) \<longleftrightarrow> is_pending j q \<and> j \<noteq> i"
  by (auto simp: is_pending_def find_card_def cards_approve cards_dismiss cards_edit find_decide
      split: option.splits if_splits)

lemma decision_result:
  "fst (approve now i q) = Some c \<Longrightarrow> is_pending i q \<and> c_id c = i"
  "fst (dismiss now i q) = Some c \<Longrightarrow> is_pending i q \<and> c_id c = i"
  "fst (edit now i t q) = Some c \<Longrightarrow> is_pending i q \<and> c_id c = i \<and>
     (\<forall>s. suggested_reply (c_payload c) = Some s \<longrightarrow> s = t)"
  by (auto simp: approve_def dismiss_def edit_def find_card_def is_pending_def Let_def frame
      map_reply_def split: option.splits if_splits card_payload.splits dest!: find_SomeD)

lemma rows_after:
  assumes "no_faults q"
  shows "rows (snd (approve now i q)) =
      (if is_pending i q then at_id i (set_status now CardApproved) (rows q) else rows q)"
    and "rows (snd (dismiss now i q)) =
      (if is_pending i q then at_id i (set_status now CardDismissed) (rows q) else rows q)"
    and "rows (snd (edit now i t q)) =
      (if is_pending i q then at_id i (set_reply now t CardApproved) (rows q) else rows q)"
    and "rows (snd (mark_sent now i q)) =
      (if find_card i q \<noteq> None then at_id i (set_status now CardSent) (rows q) else rows q)"
    and "rows (push now c q) = rows (persist (insert_card c) q)"
    and "rows (refine_persist now c q) =
      at_id (c_id c) (set_reply now (unwrap_or (suggested_reply (c_payload c)) []) CardPending) (rows q)"
  using rows_persist [OF assms]
  by (auto simp: approve_def dismiss_def edit_def mark_sent_def push_def refine_persist_def
      is_pending_def Let_def split: option.splits)

lemma db_after [simp]:
  "(q_db (snd (approve now i q)) = None) = (q_db q = None)"
  "(q_db (snd (dismiss now i q)) = None) = (q_db q = None)"
  "(q_db (snd (edit now i t q)) = None) = (q_db q = None)"
  "(q_db (snd (mark_sent now i q)) = None) = (q_db q = None)"
  "(q_db (push now c q) = None) = (q_db q = None)"
  "(q_db (refine_persist now c q) = None) = (q_db q = None)"
  by (auto simp: approve_def dismiss_def edit_def mark_sent_def push_def refine_persist_def Let_def
      split: option.splits)

fun written_through :: "queue_op \<Rightarrow> card_queue \<Rightarrow> bool" where
  "written_through (OpPush _ c) q =
     (c_id c \<notin> set (map k_id (rows q)) \<and> k_confidence (card_to_row c) \<noteq> NaN)"
| "written_through (OpRefineCommit _ _ _ _) q = False"
| "written_through (OpRefinePersist _ _) q = False"
| "written_through (OpExpire _ _) q = False"
| "written_through _ q = True"

lemma in_sync_decide:
  assumes "in_sync q" "distinct (card_ids q)"
    and "q_cards q' = decide f i q" "rows q' = (if is_pending i q then at_id i g (rows q) else rows q)"
    and "q_db q' \<noteq> None" "\<And>k. k_id (g k) = k_id k"
    and "\<And>k c. row_matches k c \<Longrightarrow> row_matches (g k) (f c)"
  shows "in_sync q'"
proof (cases "is_pending i q")
  case True
  with assms show ?thesis by (intro in_sync_update [of q q' i f g]) (auto simp: decide_cases)
next
  case False
  with assms show ?thesis by (simp add: in_sync_def decide_cases)
qed

lemma in_sync_push:
  assumes "in_sync q" "no_faults q" "written_through (OpPush now c) q"
  shows "in_sync (push now c q)"
  using assms new_row_matches [of c] rows_persist(3) [OF assms(2), of c]
  by (auto simp: in_sync_def rows_after)

lemma in_sync_mark_sent:
  assumes "in_sync q" "no_faults q" "distinct (card_ids q)"
  shows "in_sync (snd (mark_sent now i q))"
proof (cases "find_card i q")
  case None
  then show ?thesis using assms(1) by (simp add: mark_sent_def)
next
  case (Some c)
  then show ?thesis
    using assms
    by (intro in_sync_update [where i = i and g = "set_status now CardSent"
            and f = "\<lambda>c. c\<lparr>c_status := CardSent, c_updated_at := now\<rparr>", OF assms(1) assms(3)])
       (auto simp: rows_after cards_mark_sent set_status_matches in_sync_def)
qed

text \<open>C8: Write-through. With a working database, creating, approving, dismissing, editing and
  marking a card sent keep every card of the queue in agreement with its row.\<close>

theorem write_through_keeps_sync:
  assumes "in_sync q" and "no_faults q" and "distinct (card_ids q)" and "written_through op q"
  shows "in_sync (apply_op op q)"
proof -
  have db: "q_db q \<noteq> None" using assms(1) by (simp add: in_sync_def)
  note sync = in_sync_decide [OF assms(1) assms(3)]
  show ?thesis
  proof (cases op)
    case (OpApprove now i)
    then show ?thesis
      using sync [OF cards_approve rows_after(1) [OF assms(2)]] db by (simp add: set_status_matches)
  next
    case (OpDismiss now i)
    then show ?thesis
      using sync [OF cards_dismiss rows_after(2) [OF assms(2)]] db by (simp add: set_status_matches)
  next
    case (OpEdit now i t)
    then show ?thesis
      using sync [OF cards_edit rows_after(3) [OF assms(2)]] db by (simp add: set_reply_matches)
  qed (use assms in_sync_push in_sync_mark_sent in auto)
qed

subsection \<open>Restart\<close>


text \<open>An interleaving the lock does not exclude. If a card is approved between the in-memory
  part of a refinement and its database write, the card is approved in memory while its row is
  set back to pending.\<close>

theorem refine_resurrects_approved:
  assumes "q_db q = Some db" and "db_faults db = []" and "i \<in> set (map k_id (db_cards db))"
    and "refine_commit t1 i new_text conf q = (Inr updated, q1)"
  shows "(\<exists>c. find_card i (refine_persist t3 updated (snd (approve t2 i q1))) = Some c \<and>
              c_status c = CardApproved) \<and>
    (\<exists>k \<in> set (rows (refine_persist t3 updated (snd (approve t2 i q1)))).
       k_id k = i \<and> k_status k = ''pending'')"
proof -
  obtain c where c: "find_card i q = Some c" "c_status c = CardPending"
    and u: "updated = redraft_card t1 new_text conf c" and q1: "q1 = write_card i updated q"
    using assms(4) by (auto simp: refine_commit_def Let_def redraft_card_def
        split: option.splits if_splits)
  have id: "c_id c = i" using c(1) by (auto simp: find_card_def dest: find_SomeD)
  have f1: "find_card i q1 = Some updated"
    using c(1) id u by (simp add: q1 find_card_def find_update_first)
  have nf: "no_faults q1" "rows q1 = db_cards db"
    using assms(1,2) by (simp_all add: q1 no_faults_def rows_def)
  let ?q2 = "snd (approve t2 i q1)"
  have "find_card i ?q2 = Some (updated\<lparr>c_status := CardApproved, c_updated_at := t2\<rparr>)"
    using f1 u c(2) by (simp add: find_card_def cards_approve find_decide)
  moreover have "no_faults ?q2"
    using nf f1 assms(1,2) u c(2)
    by (auto simp: approve_def Let_def no_faults_def update_linked_message_def
        queue_update_message_status_def persist_def execute_def fault_def tick_def write_card_def
        send_def broadcast_silo_counts_from_def update_card_status_def update_message_status_def
        split: option.splits)
  moreover have "i \<in> set (map k_id (rows ?q2))"
    using assms(3) nf by (simp add: rows_after at_id_ids flip: set_map)
  moreover have "c_id updated = i" using u id by simp
  ultimately obtain k where k: "k_id k = i"
      and row: "set_reply t3 (unwrap_or (suggested_reply (c_payload updated)) []) CardPending k
         \<in> set (rows (refine_persist t3 updated ?q2))"
      and found: "find_card i (refine_persist t3 updated ?q2)
         = Some (updated\<lparr>c_status := CardApproved, c_updated_at := t2\<rparr>)"
    using at_id_hit [of i "rows ?q2"] by (auto simp: rows_after find_card_def)
  show ?thesis
    using found k by (intro conjI bexI [OF _ row]) simp_all
qed

subsection \<open>Witnesses\<close>

definition sample_queue :: card_queue where
  "sample_queue = push 1000 sample_reply (with_db 0 empty_db)"

lemmas queue_eval = sample_queue_def push_def with_db_def get_pending_cards_def query_def fault_def
  tick_def persist_def insert_card_def broadcast_silo_counts_from_def send_def Let_def
  card_ids_def find_card_def rows_def no_faults_def

lemma sample_confidence: "k_confidence (card_to_row sample_reply) = Fin (1/2)"
  by (simp add: sample_reply_eval card_to_row_def)

lemma sample_queue_simps:
  "q_cards sample_queue = [sample_reply]" "rows sample_queue = [card_to_row sample_reply]"
  "no_faults sample_queue" "q_db sample_queue \<noteq> None"
  by (simp_all add: queue_eval sample_confidence, simp_all add: empty_db_def)

lemma sample_id: "c_id sample_reply = 7" "c_status sample_reply = CardPending"
  "c_expires_at sample_reply = Some 1800000001000"
  by (simp_all add: sample_reply_eval duration_minutes_def duration_secs_def nanos_per_sec_def)

lemma sample_in_sync: "in_sync sample_queue"
  using new_row_matches by (simp add: in_sync_def sample_queue_simps)

theorem card_lifecycle_witness:
  "\<exists>c'. find_card 7 (apply_op (OpEdit 2000 7 ''No'') sample_queue) = Some c' \<and>
     lifecycle_step (OpEdit 2000 7 ''No'') sample_reply c'"
  using card_lifecycle [of sample_queue "OpEdit 2000 7 ''No''" 7 sample_reply]
  by (simp add: card_ids_def find_card_def sample_queue_simps sample_id)

theorem ids_stay_distinct_witness:
  "distinct (card_ids (apply_op (OpPush 5 (sample_reply\<lparr>c_id := 8\<rparr>)) sample_queue))"
  using ids_stay_distinct [of sample_queue "OpPush 5 (sample_reply\<lparr>c_id := 8\<rparr>)"]
  by (simp add: card_ids_def sample_queue_simps sample_id)

theorem badge_is_broadcast_witness:
  "last_counts (q_tx (apply_op (OpApprove 2000 7) sample_queue)) =
     Some \<lparr>n_messages = 0, n_todos = 0, n_calendar = 0\<rparr>"
  using badge_is_broadcast [of "OpApprove 2000 7" sample_queue]
  by (simp add: cards_after decide_def find_card_def sample_queue_simps sample_id from_cards_eq
      live_def is_expired_def) (simp add: sample_reply_eval)

theorem write_through_keeps_sync_witness:
  "in_sync (apply_op (OpEdit 2000 7 ''No'') sample_queue)"
  using write_through_keeps_sync [of sample_queue "OpEdit 2000 7 ''No''"] sample_in_sync
  by (simp add: sample_queue_simps card_ids_def)


theorem refine_resurrects_approved_witness:
  "\<exists>updated q1. refine_commit 1500 7 ''Maybe'' (Fin 1) sample_queue = (Inr updated, q1) \<and>
     (\<exists>k \<in> set (rows (refine_persist 1700 updated (snd (approve 1600 7 q1)))).
        k_id k = 7 \<and> k_status k = ''pending'')"
proof -
  obtain db where db: "q_db sample_queue = Some db" "db_faults db = []" "db_cards db = [card_to_row sample_reply]"
    using sample_queue_simps by (auto simp: no_faults_def rows_def split: option.splits)
  obtain u q1 where run: "refine_commit 1500 7 ''Maybe'' (Fin 1) sample_queue = (Inr u, q1)"
    by (simp add: refine_commit_def find_card_def sample_queue_simps sample_id Let_def)
  show ?thesis
    using refine_resurrects_approved [OF db(1,2) _ run] run by (auto simp: db(3) sample_id)
qed

end
