(* ===== verification/Todos.thy ===== *)
theory Todos
  imports Store "HOL-Library.Product_Lexorder"
begin

text \<open>
  To-do items (\<open>src/src/todos/model.rs\<close>), their table (\<open>todos\<close> in
  \<open>src/src/store/libsql_backend.rs\<close>) and the dispatch of to-do agents
  (\<open>src/src/agent/agent_queue.rs\<close>). A row of the table is the item a reader gets back: the writer
  stores an absent description as the empty text and the reader takes empty text for absent,
  which \<open>as_stored\<close> sums up. Statements fail by the pattern \<open>td_faults\<close>, as in the card store.

  The dispatch loop takes one id at a time from the channel and waits for a permit of the
  semaphore; \<open>dispatch\<close> is one iteration after the permit is there. \<open>aq_permits\<close> is the number of
  permits still available.
\<close>

subsection \<open>Items\<close>

datatype todo_type = Deliverable | Research | Errand | Learning | Administrative | Creative | Review

datatype todo_bucket = AgentStartable | HumanOnly

datatype todo_status =
    Created | AgentQueued | AgentWorking | AwaitingApproval
  | ReadyForReview | WaitingOnYou | Snoozed | Completed

record todo_item =
  t_id :: uuid
  t_user_id :: string
  t_title :: string
  t_description :: "string option"
  t_todo_type :: todo_type
  t_bucket :: todo_bucket
  t_status :: todo_status
  t_priority :: int
  t_due_date :: "datetime option"
  t_context :: "json option"
  t_source_card_id :: "uuid option"
  t_snoozed_until :: "datetime option"
  t_parent_id :: "uuid option"
  t_is_agent_internal :: bool
  t_agent_progress :: "string option"
  t_thread_id :: "uuid option"
  t_created_at :: datetime
  t_updated_at :: datetime

definition new_todo ::
  "uuid \<Rightarrow> datetime \<Rightarrow> string \<Rightarrow> string \<Rightarrow> todo_type \<Rightarrow> todo_bucket \<Rightarrow> todo_item" where
  "new_todo fresh now user_id title ty bucket =
     \<lparr>t_id = fresh, t_user_id = user_id, t_title = title, t_description = None, t_todo_type = ty,
      t_bucket = bucket, t_status = Created, t_priority = 0, t_due_date = None, t_context = None,
      t_source_card_id = None, t_snoozed_until = None, t_parent_id = None,
      t_is_agent_internal = False, t_agent_progress = None, t_thread_id = None,
      t_created_at = now, t_updated_at = now\<rparr>"

datatype todo_ws_message =
    TodosSync "todo_item list"
  | TodoCreated todo_item
  | TodoUpdated todo_item
  | TodoDeleted uuid
  | SearchResults string "todo_item list"
  | AgentStatus nat nat

subsection \<open>The table\<close>

record todo_store =
  td_rows :: "todo_item list"
  td_faults :: "bool list"

definition td_fault :: "todo_store \<Rightarrow> bool" where
  "td_fault s = (case td_faults s of [] \<Rightarrow> False | b # _ \<Rightarrow> b)"

definition td_tick :: "todo_store \<Rightarrow> todo_store" where
  "td_tick s = s\<lparr>td_faults := tl (td_faults s)\<rparr>"

definition non_empty :: "string option \<Rightarrow> string option" where
  "non_empty x = (case x of Some [] \<Rightarrow> None | _ \<Rightarrow> x)"

definition as_stored :: "todo_item \<Rightarrow> todo_item" where
  "as_stored t = t\<lparr>t_description := non_empty (t_description t),
                   t_agent_progress := non_empty (t_agent_progress t)\<rparr>"

definition td_execute ::
  "string \<Rightarrow> (todo_item list \<Rightarrow> todo_item list) \<Rightarrow> todo_store \<Rightarrow> (database_error + unit) \<times> todo_store" where
  "td_execute what f s =
     (if td_fault s then (Inl (QueryError what), td_tick s)
      else (Inr (), (td_tick s)\<lparr>td_rows := f (td_rows s)\<rparr>))"

definition td_query ::
  "string \<Rightarrow> (todo_item list \<Rightarrow> 'a) \<Rightarrow> todo_store \<Rightarrow> (database_error + 'a) \<times> todo_store" where
  "td_query what f s =
     (if td_fault s then Inl (QueryError what) else Inr (f (td_rows s)), td_tick s)"

definition create_todo :: "todo_item \<Rightarrow> todo_store \<Rightarrow> (database_error + unit) \<times> todo_store" where
  "create_todo t s =
     (if td_fault s \<or> t_id t \<in> set (map t_id (td_rows s))
      then (Inl (QueryError ''create_todo''), td_tick s)
      else (Inr (), (td_tick s)\<lparr>td_rows := td_rows s @ [as_stored t]\<rparr>))"

definition get_todo :: "uuid \<Rightarrow> todo_store \<Rightarrow> (database_error + todo_item option) \<times> todo_store" where
  "get_todo i = td_query ''get_todo'' (List.find (\<lambda>t. t_id t = i))"

definition by_priority :: "todo_item list \<Rightarrow> todo_item list" where
  "by_priority = sort_key (\<lambda>t. (t_priority t, t_created_at t))"

definition list_todos :: "string \<Rightarrow> todo_store \<Rightarrow> (database_error + todo_item list) \<times> todo_store" where
  "list_todos user = td_query ''list_todos'' (\<lambda>ts. by_priority (filter (\<lambda>t. t_user_id t = user) ts))"

definition list_user_todos :: "string \<Rightarrow> todo_store \<Rightarrow> (database_error + todo_item list) \<times> todo_store" where
  "list_user_todos user = td_query ''list_user_todos''
     (\<lambda>ts. by_priority (filter (\<lambda>t. t_user_id t = user \<and> \<not> t_is_agent_internal t) ts))"

definition list_subtasks :: "uuid \<Rightarrow> todo_store \<Rightarrow> (database_error + todo_item list) \<times> todo_store" where
  "list_subtasks parent = td_query ''list_subtasks''
     (\<lambda>ts. by_priority (filter (\<lambda>t. t_parent_id t = Some parent) ts))"

definition list_todos_by_status ::
  "string \<Rightarrow> todo_status \<Rightarrow> todo_store \<Rightarrow> (database_error + todo_item list) \<times> todo_store" where
  "list_todos_by_status user st = td_query ''list_todos_by_status''
     (\<lambda>ts. by_priority (filter (\<lambda>t. t_user_id t = user \<and> t_status t = st) ts))"

text \<open>\<open>UPDATE todos\<close> leaves the owner and the time of creation alone.\<close>

definition update_todo :: "todo_item \<Rightarrow> todo_store \<Rightarrow> (database_error + unit) \<times> todo_store" where
  "update_todo t = td_execute ''update_todo''
     (map (\<lambda>r. if t_id r = t_id t
        then (as_stored t)\<lparr>t_user_id := t_user_id r, t_created_at := t_created_at r\<rparr> else r))"

definition update_todo_status ::
  "datetime \<Rightarrow> uuid \<Rightarrow> todo_status \<Rightarrow> todo_store \<Rightarrow> (database_error + unit) \<times> todo_store" where
  "update_todo_status now i st = td_execute ''update_todo_status''
     (map (\<lambda>r. if t_id r = i then r\<lparr>t_status := st, t_updated_at := now\<rparr> else r))"

definition complete_todo :: "datetime \<Rightarrow> uuid \<Rightarrow> todo_store \<Rightarrow> (database_error + unit) \<times> todo_store" where
  "complete_todo now i = update_todo_status now i Completed"

definition update_agent_progress ::
  "datetime \<Rightarrow> uuid \<Rightarrow> string \<Rightarrow> todo_store \<Rightarrow> (database_error + unit) \<times> todo_store" where
  "update_agent_progress now i progress = td_execute ''update_agent_progress''
     (map (\<lambda>r. if t_id r = i
        then r\<lparr>t_agent_progress := non_empty (Some progress), t_updated_at := now\<rparr> else r))"

definition delete_todo :: "uuid \<Rightarrow> todo_store \<Rightarrow> (database_error + bool) \<times> todo_store" where
  "delete_todo i s =
     (if td_fault s then (Inl (QueryError ''delete_todo''), td_tick s)
      else (Inr (i \<in> set (map t_id (td_rows s))),
            (td_tick s)\<lparr>td_rows := filter (\<lambda>t. t_id t \<noteq> i) (td_rows s)\<rparr>))"

subsection \<open>The agent queue\<close>

record agent_queue =
  aq_max :: nat
  aq_permits :: nat
  aq_channel :: "uuid list"
  aq_followup :: "(uuid \<times> string) list"
  aq_todos :: todo_store
  aq_todo_tx :: "todo_ws_message list"

definition new_agent_queue :: "nat \<Rightarrow> todo_store \<Rightarrow> agent_queue" where
  "new_agent_queue max_concurrency todos =
     \<lparr>aq_max = max_concurrency, aq_permits = max_concurrency, aq_channel = [], aq_followup = [],
      aq_todos = todos, aq_todo_tx = []\<rparr>"

definition active_count :: "agent_queue \<Rightarrow> nat" where
  "active_count q = aq_max q - aq_permits q"

definition max_count :: "agent_queue \<Rightarrow> nat" where
  "max_count q = aq_max q"

definition todo_send :: "todo_ws_message \<Rightarrow> agent_queue \<Rightarrow> agent_queue" where
  "todo_send m q = q\<lparr>aq_todo_tx := aq_todo_tx q @ [m]\<rparr>"

text \<open>Read the item back and broadcast it, if that works.\<close>

definition broadcast_todo_update :: "uuid \<Rightarrow> agent_queue \<Rightarrow> agent_queue" where
  "broadcast_todo_update i q = (case get_todo i (aq_todos q) of
     (Inr (Some t), td) \<Rightarrow> todo_send (TodoUpdated t) (q\<lparr>aq_todos := td\<rparr>)
   | (_, td) \<Rightarrow> q\<lparr>aq_todos := td\<rparr>)"

definition set_todo_status :: "datetime \<Rightarrow> uuid \<Rightarrow> todo_status \<Rightarrow> agent_queue \<Rightarrow> bool \<times> agent_queue" where
  "set_todo_status now i st q = (case update_todo_status now i st (aq_todos q) of
     (Inl _, td) \<Rightarrow> (False, q\<lparr>aq_todos := td\<rparr>)
   | (Inr _, td) \<Rightarrow> (True, q\<lparr>aq_todos := td\<rparr>))"

definition broadcast_status :: "agent_queue \<Rightarrow> agent_queue" where
  "broadcast_status q = todo_send (AgentStatus (active_count q) (aq_max q)) q"

definition enqueue :: "datetime \<Rightarrow> uuid \<Rightarrow> agent_queue \<Rightarrow> (string + unit) \<times> agent_queue" where
  "enqueue now i q = (case set_todo_status now i AgentQueued q of
     (False, q1) \<Rightarrow> (Inl ''Failed to set AgentQueued'', q1)
   | (True, q1) \<Rightarrow>
       let q2 = broadcast_todo_update i q1
       in (Inr (), q2\<lparr>aq_channel := aq_channel q2 @ [i]\<rparr>))"

definition enqueue_followup ::
  "datetime \<Rightarrow> uuid \<Rightarrow> string \<Rightarrow> agent_queue \<Rightarrow> (string + unit) \<times> agent_queue" where
  "enqueue_followup now i content q =
     enqueue now i (q\<lparr>aq_followup := AList.update i content (aq_followup q)\<rparr>)"

definition take_followup_context :: "uuid \<Rightarrow> agent_queue \<Rightarrow> string option \<times> agent_queue" where
  "take_followup_context i q =
     (map_of (aq_followup q) i, q\<lparr>aq_followup := AList.delete i (aq_followup q)\<rparr>)"

fun reset_working :: "datetime \<Rightarrow> todo_item list \<Rightarrow> agent_queue \<Rightarrow> agent_queue" where
  "reset_working now [] q = q"
| "reset_working now (t # ts) q = (case set_todo_status now (t_id t) AgentQueued q of
     (False, q1) \<Rightarrow> reset_working now ts q1
   | (True, q1) \<Rightarrow> reset_working now ts (broadcast_todo_update (t_id t) q1))"

fun enqueue_eligible :: "datetime \<Rightarrow> todo_item list \<Rightarrow> agent_queue \<Rightarrow> agent_queue" where
  "enqueue_eligible now [] q = q"
| "enqueue_eligible now (t # ts) q = (case set_todo_status now (t_id t) AgentQueued q of
     (False, q1) \<Rightarrow> enqueue_eligible now ts q1
   | (True, q1) \<Rightarrow>
       let q2 = broadcast_todo_update (t_id t) q1
       in enqueue_eligible now ts (q2\<lparr>aq_channel := aq_channel q2 @ [t_id t]\<rparr>))"

definition list_by_status :: "todo_status \<Rightarrow> agent_queue \<Rightarrow> todo_item list option \<times> agent_queue" where
  "list_by_status st q = (case list_todos_by_status ''default'' st (aq_todos q) of
     (Inl _, td) \<Rightarrow> (None, q\<lparr>aq_todos := td\<rparr>)
   | (Inr ts, td) \<Rightarrow> (Some ts, q\<lparr>aq_todos := td\<rparr>))"

definition scan_startable :: "datetime \<Rightarrow> agent_queue \<Rightarrow> agent_queue" where
  "scan_startable now q = (case list_by_status Created q of
     (None, q1) \<Rightarrow> q1
   | (Some created, q1) \<Rightarrow>
       enqueue_eligible now
         (filter (\<lambda>t. t_bucket t = AgentStartable \<and> \<not> t_is_agent_internal t) created) q1)"

definition recover :: "datetime \<Rightarrow> agent_queue \<Rightarrow> agent_queue" where
  "recover now q =
     (let q1 = (case list_by_status AgentWorking q of
                  (None, q1) \<Rightarrow> q1 | (Some working, q1) \<Rightarrow> reset_working now working q1);
          q2 = (case list_by_status AgentQueued q1 of
                  (None, q2) \<Rightarrow> q2
                | (Some queued, q2) \<Rightarrow> q2\<lparr>aq_channel := aq_channel q2 @ map t_id queued\<rparr>)
      in scan_startable now q2)"

text \<open>One iteration of the dispatch loop. \<open>None\<close>: it waits, for an id or for a permit. The first
  component of the result is the agent started, if one was: the item and its follow-up text. The
  argument \<open>spawned\<close> is the outcome of \<open>spawn_todo_agent\<close>.\<close>

definition dispatch ::
  "datetime \<Rightarrow> bool \<Rightarrow> agent_queue \<Rightarrow> ((todo_item \<times> string option) option \<times> agent_queue) option" where
  "dispatch now spawned q = (case aq_channel q of
     [] \<Rightarrow> None
   | i # rest \<Rightarrow>
       if aq_permits q = 0 then None
       else let q1 = q\<lparr>aq_channel := rest, aq_permits := aq_permits q - 1\<rparr>;
                release = (\<lambda>q. q\<lparr>aq_permits := aq_permits q + 1\<rparr>)
            in (case get_todo i (aq_todos q1) of
                  (Inr (Some t), td) \<Rightarrow>
                    let q2 = q1\<lparr>aq_todos := td\<rparr> in
                    if t_status t \<noteq> AgentQueued then Some (None, release q2)
                    else (case set_todo_status now i AgentWorking q2 of
                            (False, q3) \<Rightarrow> Some (None, release q3)
                          | (True, q3) \<Rightarrow>
                              let q4 = broadcast_status (broadcast_todo_update i q3);
                                  (override, q5) = take_followup_context i q4
                              in if spawned then Some (Some (t, override), q5)
                                 else Some (None, release (snd (set_todo_status now i AgentQueued q5))))
                | (_, td) \<Rightarrow> Some (None, release (q1\<lparr>aq_todos := td\<rparr>))))"

subsection \<open>Frame facts\<close>

lemma aq_frame [simp]:
  "aq_permits (todo_send m q) = aq_permits q" "aq_channel (todo_send m q) = aq_channel q"
  "aq_max (todo_send m q) = aq_max q" "aq_todos (todo_send m q) = aq_todos q"
  "aq_followup (todo_send m q) = aq_followup q"
  "aq_permits (broadcast_todo_update i q) = aq_permits q"
  "aq_channel (broadcast_todo_update i q) = aq_channel q"
  "aq_max (broadcast_todo_update i q) = aq_max q"
  "aq_followup (broadcast_todo_update i q) = aq_followup q"
  "aq_permits (snd (set_todo_status now i st q)) = aq_permits q"
  "aq_channel (snd (set_todo_status now i st q)) = aq_channel q"
  "aq_max (snd (set_todo_status now i st q)) = aq_max q"
  "aq_permits (broadcast_status q) = aq_permits q" "aq_channel (broadcast_status q) = aq_channel q"
  "aq_max (broadcast_status q) = aq_max q" "aq_todos (broadcast_status q) = aq_todos q"
  by (auto simp: todo_send_def broadcast_todo_update_def set_todo_status_def broadcast_status_def
      split: prod.splits sum.splits option.splits)

lemma set_todo_status_pair:
  "set_todo_status now i st q = (b, q') \<Longrightarrow>
     aq_permits q' = aq_permits q \<and> aq_channel q' = aq_channel q \<and> aq_max q' = aq_max q"
  using aq_frame(10-12) by (metis snd_conv)

lemma take_followup_frame [simp]:
  "aq_permits (snd (take_followup_context i q)) = aq_permits q"
  "aq_max (snd (take_followup_context i q)) = aq_max q"
  "aq_channel (snd (take_followup_context i q)) = aq_channel q"
  "aq_todos (snd (take_followup_context i q)) = aq_todos q"
  by (simp_all add: take_followup_context_def)

lemma scan_frame:
  "aq_permits (reset_working now ts q) = aq_permits q" "aq_max (reset_working now ts q) = aq_max q"
  "aq_channel (reset_working now ts q) = aq_channel q"
  by (induction ts arbitrary: q)
     (auto split: prod.splits bool.splits,
      (metis aq_frame(10-12) snd_conv)+)

lemma enqueue_eligible_frame:
  "aq_permits (enqueue_eligible now ts q) = aq_permits q"
  "aq_max (enqueue_eligible now ts q) = aq_max q"
  by (induction ts arbitrary: q)
     (auto split: prod.splits bool.splits simp: Let_def,
      (metis aq_frame(10,12) snd_conv)+)

subsection \<open>A working database\<close>

abbreviation working_db :: "agent_queue \<Rightarrow> bool" where
  "working_db q \<equiv> td_faults (aq_todos q) = []"

abbreviation todo_rows :: "agent_queue \<Rightarrow> todo_item list" where
  "todo_rows q \<equiv> td_rows (aq_todos q)"

definition mark :: "datetime \<Rightarrow> todo_status \<Rightarrow> todo_item \<Rightarrow> todo_item" where
  "mark now st t = t\<lparr>t_status := st, t_updated_at := now\<rparr>"

lemma mark_simps [simp]:
  "t_id (mark now st t) = t_id t" "t_status (mark now st t) = st"
  "t_user_id (mark now st t) = t_user_id t" "t_bucket (mark now st t) = t_bucket t"
  "t_is_agent_internal (mark now st t) = t_is_agent_internal t"
  "mark now st (mark now st' t) = mark now st t"
  by (simp_all add: mark_def)

definition mark_ids :: "datetime \<Rightarrow> todo_status \<Rightarrow> uuid set \<Rightarrow> todo_item list \<Rightarrow> todo_item list" where
  "mark_ids now st I = map (\<lambda>t. if t_id t \<in> I then mark now st t else t)"

lemma mark_ids_simps [simp]:
  "map t_id (mark_ids now st I ts) = map t_id ts"
  "mark_ids now st {} ts = ts"
  "mark_ids now st J (mark_ids now st I ts) = mark_ids now st (I \<union> J) ts"
  by (auto simp: mark_ids_def o_def)

lemma mark_ids_keeps:
  assumes "r \<in> set ts" "t_status r = st"
  shows "\<exists>r' \<in> set (mark_ids now st I ts). t_id r' = t_id r \<and> t_status r' = st"
proof -
  have hit: "(if t_id r \<in> I then mark now st r else r) \<in> set (mark_ids now st I ts)"
    unfolding mark_ids_def set_map using assms(1) by (rule imageI)
  show ?thesis by (rule bexI [OF _ hit]) (simp add: assms(2))
qed

lemma td_ok [simp]:
  assumes "td_faults s = []"
  shows "td_tick s = s" "\<not> td_fault s"
  using assms by (simp_all add: td_tick_def td_fault_def)

lemma set_todo_status_ok:
  assumes "working_db q"
  shows "set_todo_status now i st q =
    (True, q\<lparr>aq_todos := (aq_todos q)\<lparr>td_rows := mark_ids now st {i} (todo_rows q)\<rparr>\<rparr>)"
  using assms
  by (simp add: set_todo_status_def update_todo_status_def td_execute_def mark_ids_def mark_def)

lemma broadcast_ok:
  assumes "working_db q"
  shows "aq_todos (broadcast_todo_update i q) = aq_todos q"
  using assms
  by (auto simp: broadcast_todo_update_def get_todo_def td_query_def todo_send_def split: option.splits)

lemma list_by_status_ok:
  assumes "working_db q"
  shows "list_by_status st q =
    (Some (by_priority (filter (\<lambda>t. t_user_id t = ''default'' \<and> t_status t = st) (todo_rows q))), q)"
  using assms by (simp add: list_by_status_def list_todos_by_status_def td_query_def)

lemma reset_working_ok:
  assumes "working_db q"
  shows "aq_todos (reset_working now ts q) =
    (aq_todos q)\<lparr>td_rows := mark_ids now AgentQueued (t_id ` set ts) (todo_rows q)\<rparr>"
  using assms
  by (induction ts arbitrary: q) (simp_all add: set_todo_status_ok broadcast_ok)

lemma enqueue_eligible_ok:
  assumes "working_db q"
  shows "aq_todos (enqueue_eligible now ts q) =
      (aq_todos q)\<lparr>td_rows := mark_ids now AgentQueued (t_id ` set ts) (todo_rows q)\<rparr> \<and>
    aq_channel (enqueue_eligible now ts q) = aq_channel q @ map t_id ts"
  using assms
  by (induction ts arbitrary: q) (simp_all add: set_todo_status_ok broadcast_ok Let_def)

lemma set_by_priority [simp]: "set (by_priority ts) = set ts"
  by (simp add: by_priority_def)

subsection \<open>Properties\<close>

definition startable :: "todo_item \<Rightarrow> bool" where
  "startable t \<longleftrightarrow> t_user_id t = ''default'' \<and> t_status t = Created \<and>
     t_bucket t = AgentStartable \<and> \<not> t_is_agent_internal t"

text \<open>The scan for startable items picks up exactly the new, agent-startable, user-visible
  items: each is queued once, by priority, and marked as queued; nothing else changes.\<close>

theorem scan_startable_exact:
  assumes "working_db q" and "distinct (map t_id (todo_rows q))"
  shows "todo_rows (scan_startable now q) =
      map (\<lambda>t. if startable t then mark now AgentQueued t else t) (todo_rows q) \<and>
    (\<exists>ids. aq_channel (scan_startable now q) = aq_channel q @ ids \<and> distinct ids \<and>
       set ids = t_id ` {t \<in> set (todo_rows q). startable t})"
proof -
  let ?ts = "filter (\<lambda>t. t_bucket t = AgentStartable \<and> \<not> t_is_agent_internal t)
      (by_priority (filter (\<lambda>t. t_user_id t = ''default'' \<and> t_status t = Created) (todo_rows q)))"
  have scan: "scan_startable now q = enqueue_eligible now ?ts q"
    using assms(1) by (simp add: scan_startable_def list_by_status_ok)
  have set: "set ?ts = {t \<in> set (todo_rows q). startable t}"
    by (auto simp: startable_def)
  have "distinct (map t_id (filter P (todo_rows q)))" for P
    using assms(2) by (simp add: distinct_map_filter)
  then have "distinct (map t_id ?ts)"
    by (intro distinct_map_filter) (simp add: by_priority_def distinct_map)
  moreover have "mark_ids now AgentQueued (t_id ` set ?ts) (todo_rows q) =
      map (\<lambda>t. if startable t then mark now AgentQueued t else t) (todo_rows q)"
    using assms(2) unfolding mark_ids_def set
    by (intro map_cong refl if_cong) (auto simp: distinct_map dest: inj_onD)
  ultimately show ?thesis
    unfolding scan using enqueue_eligible_ok [OF assms(1), of now ?ts] set by auto
qed

text \<open>Crash recovery puts every item of an agent back into the dispatch channel, and it does
  so by the status alone: an item whose agent is still running is queued a second time when the
  pickup loop recovers.\<close>

theorem recover_requeues_working:
  assumes "working_db q" and "t \<in> set (todo_rows q)" and "t_user_id t = ''default''"
    and "t_status t = AgentWorking"
  shows "t_id t \<in> set (aq_channel (recover now q)) \<and>
    (\<exists>r \<in> set (todo_rows (recover now q)). t_id r = t_id t \<and> t_status r = AgentQueued)"
proof -
  let ?w = "by_priority (filter (\<lambda>t. t_user_id t = ''default'' \<and> t_status t = AgentWorking) (todo_rows q))"
  define q1 where "q1 = reset_working now ?w q"
  have q1: "aq_todos q1 = (aq_todos q)\<lparr>td_rows := mark_ids now AgentQueued (t_id ` set ?w) (todo_rows q)\<rparr>"
    unfolding q1_def by (rule reset_working_ok [OF assms(1)])
  have row: "mark now AgentQueued t \<in> set (todo_rows q1)"
    using assms(2-4) by (auto simp: q1 mark_ids_def image_iff)
  let ?k = "by_priority (filter (\<lambda>t. t_user_id t = ''default'' \<and> t_status t = AgentQueued) (todo_rows q1))"
  define q2 where "q2 = q1\<lparr>aq_channel := aq_channel q1 @ map t_id ?k\<rparr>"
  have rec: "recover now q = scan_startable now q2"
    using assms(1) q1
    by (simp add: recover_def list_by_status_ok q1_def q2_def Let_def)
  have w2: "working_db q2" using assms(1) q1 by (simp add: q2_def)
  obtain ts where scan: "scan_startable now q2 = enqueue_eligible now ts q2"
    using w2 by (simp add: scan_startable_def list_by_status_ok)
  have ch: "t_id t \<in> set (aq_channel q2)"
    using row assms(3)
    by (auto simp: q2_def image_iff intro!: bexI [of _ "mark now AgentQueued t"])
  have "\<exists>r \<in> set (mark_ids now AgentQueued I (todo_rows q2)). t_id r = t_id t \<and> t_status r = AgentQueued" for I
    using mark_ids_keeps [OF row] by (simp add: q2_def)
  with ch show ?thesis
    unfolding rec scan using enqueue_eligible_ok [OF w2, of now ts] by simp
qed

lemma dispatch_effect:
  assumes "dispatch now spawned q = Some (started, q')"
  shows "aq_permits q > 0 \<and> (\<exists>i. aq_channel q = i # aq_channel q') \<and> aq_max q' = aq_max q \<and>
    (case started of
       None \<Rightarrow> aq_permits q' = aq_permits q
     | Some (t, ov) \<Rightarrow> spawned \<and> Suc (aq_permits q') = aq_permits q \<and> t_status t = AgentQueued \<and>
         t \<in> set (todo_rows q) \<and> t_id t = hd (aq_channel q))"
proof -
  obtain i rest where ch: "aq_channel q = i # rest" and p: "aq_permits q > 0"
    using assms by (auto simp: dispatch_def split: list.splits if_splits)
  have found: "get_todo i s = (Inr (Some t), s') \<Longrightarrow> t \<in> set (td_rows s) \<and> t_id t = i" for s t s'
    by (auto simp: get_todo_def td_query_def dest: find_SomeD split: if_splits)
  show ?thesis
    using assms p found ch
    by (auto simp: dispatch_def Let_def take_followup_context_def
        split: list.splits if_splits prod.splits sum.splits option.splits bool.splits
        dest!: set_todo_status_pair)
qed

text \<open>The dispatch loop. An iteration needs an id and a permit; it starts an agent only for
  an item that is queued, keeps that agent's permit and marks the item as being worked on; every
  other outcome gives the permit back.\<close>

theorem dispatch_permits:
  assumes "dispatch now spawned q = Some (started, q')"
  shows "aq_permits q > 0 \<and> (\<exists>i. aq_channel q = i # aq_channel q') \<and> aq_max q' = aq_max q \<and>
    (case started of
       None \<Rightarrow> aq_permits q' = aq_permits q
     | Some (t, ov) \<Rightarrow> spawned \<and> Suc (aq_permits q') = aq_permits q \<and> t_status t = AgentQueued \<and>
         t \<in> set (todo_rows q) \<and> t_id t = hd (aq_channel q))"
  using assms by (rule dispatch_effect)

subsection \<open>Witnesses\<close>

definition sample_todo :: todo_item where
  "sample_todo = new_todo 3 10 ''default'' ''Plan trip'' Research AgentStartable"

definition sample_agents :: "todo_status \<Rightarrow> agent_queue" where
  "sample_agents st = new_agent_queue 2 \<lparr>td_rows = [sample_todo\<lparr>t_status := st\<rparr>], td_faults = []\<rparr>"

lemmas sample_agents_eval = sample_agents_def new_agent_queue_def sample_todo_def new_todo_def

theorem scan_startable_exact_witness:
  "todo_rows (scan_startable 20 (sample_agents Created)) = [mark 20 AgentQueued (sample_todo\<lparr>t_status := Created\<rparr>)]"
  using scan_startable_exact [of "sample_agents Created" 20]
  by (simp add: sample_agents_eval startable_def)

theorem recover_requeues_working_witness:
  "3 \<in> set (aq_channel (recover 20 (sample_agents AgentWorking)))"
  using recover_requeues_working [of "sample_agents AgentWorking" "sample_todo\<lparr>t_status := AgentWorking\<rparr>" 20]
  by (simp add: sample_agents_eval)

theorem dispatch_permits_witness:
  "\<exists>t ov q'. dispatch 20 True ((sample_agents AgentQueued)\<lparr>aq_channel := [3]\<rparr>) = Some (Some (t, ov), q') \<and>
     Suc (aq_permits q') = 2"
proof -
  obtain t ov q' where run:
    "dispatch 20 True ((sample_agents AgentQueued)\<lparr>aq_channel := [3]\<rparr>) = Some (Some (t, ov), q')"
    by (simp add: dispatch_def sample_agents_eval get_todo_def td_query_def set_todo_status_ok Let_def
        take_followup_context_def)
  then show ?thesis
    using dispatch_permits [OF run] by (simp add: sample_agents_eval)
qed

end
