(* ===== verification/Registries.thy ===== *)
theory Registries
  imports Prelude
begin

text \<open>
  The two registries that route an answer of the user back to whoever waits for it:
  \<open>src/src/cards/choice_registry.rs\<close> (multiple-choice questions, answered over a oneshot channel)
  and \<open>src/src/todos/approval_registry.rs\<close> (tool approvals of to-do agents, answered by a message
  into the agent's stream). A \<open>HashMap\<close> is an association list with one entry per key; a channel
  is its number, and what is sent on the oneshot channels is a log. Both implement the
  \<open>registry\<close> interface: an entry is taken at most once.
\<close>

subsection \<open>Multiple-choice questions\<close>

datatype choice_result = Selected string | ChoiceDismissed

record choice_registry =
  ch_entries :: "(uuid \<times> nat) list"
  ch_sent :: "(nat \<times> choice_result) list"

definition new_choice_registry :: choice_registry where
  "new_choice_registry = \<lparr>ch_entries = [], ch_sent = []\<rparr>"

definition register_choice :: "uuid \<Rightarrow> nat \<Rightarrow> choice_registry \<Rightarrow> choice_registry" where
  "register_choice i tx r = r\<lparr>ch_entries := AList.update i tx (ch_entries r)\<rparr>"

definition take_choice :: "uuid \<Rightarrow> choice_registry \<Rightarrow> nat option \<times> choice_registry" where
  "take_choice i r = (map_of (ch_entries r) i, r\<lparr>ch_entries := AList.delete i (ch_entries r)\<rparr>)"

definition resolve_choice ::
  "uuid \<Rightarrow> choice_result \<Rightarrow> choice_registry \<Rightarrow> bool \<times> choice_registry" where
  "resolve_choice i result r = (case take_choice i r of
     (Some tx, r1) \<Rightarrow> (True, r1\<lparr>ch_sent := ch_sent r1 @ [(tx, result)]\<rparr>)
   | (None, r1) \<Rightarrow> (False, r1))"

definition remove_choice :: "uuid \<Rightarrow> choice_registry \<Rightarrow> choice_registry" where
  "remove_choice i r = r\<lparr>ch_entries := AList.delete i (ch_entries r)\<rparr>"

definition choice_registry_len :: "choice_registry \<Rightarrow> nat" where
  "choice_registry_len r = length (ch_entries r)"

subsection \<open>Tool approvals of to-do agents\<close>

text \<open>\<open>ap_agent\<close> stands for the agent's message sender and its permit slot, which belong
  together.\<close>

record todo_approval_pending =
  ap_request_id :: uuid
  ap_agent :: nat
  ap_todo_id :: uuid

type_synonym approval_registry = "(uuid \<times> todo_approval_pending) list"

definition register_approval ::
  "uuid \<Rightarrow> todo_approval_pending \<Rightarrow> approval_registry \<Rightarrow> approval_registry" where
  "register_approval i p r = AList.update i p r"

definition take_approval ::
  "uuid \<Rightarrow> approval_registry \<Rightarrow> todo_approval_pending option \<times> approval_registry" where
  "take_approval i r = (map_of r i, AList.delete i r)"

definition remove_approval :: "uuid \<Rightarrow> approval_registry \<Rightarrow> approval_registry" where
  "remove_approval i r = AList.delete i r"

definition remove_for_todo :: "uuid \<Rightarrow> approval_registry \<Rightarrow> approval_registry" where
  "remove_for_todo tid r = filter (\<lambda>(_, p). ap_todo_id p \<noteq> tid) r"

subsection \<open>Both are registries\<close>

interpretation choices: registry "\<lambda>r. map_of (ch_entries r)" register_choice take_choice
  by unfold_locales (simp_all add: register_choice_def take_choice_def update_conv' delete_conv')

interpretation approvals: registry map_of register_approval take_approval
  by unfold_locales (simp_all add: register_approval_def take_approval_def update_conv' delete_conv')

lemma map_of_filter_distinct:
  "distinct (map fst r) \<Longrightarrow>
   map_of (filter (\<lambda>(_, p). P p) r) i = (case map_of r i of Some p \<Rightarrow> if P p then Some p else None | None \<Rightarrow> None)"
  by (induction r) (auto simp: rev_image_eqI split: option.splits dest!: map_of_SomeD)

text \<open>A question is answered at most once and on the channel that asked it: the first answer
  reaches the registered channel and no other, a second answer to the same card reaches nobody,
  and the questions of other cards stay open.\<close>

theorem choice_answered_once:
  assumes "j \<noteq> i"
  shows "let r0 = register_choice i tx r;
       (ok1, r1) = resolve_choice i a r0;
       (ok2, r2) = resolve_choice i b r1
   in ok1 \<and> \<not> ok2 \<and> ch_sent r2 = ch_sent r @ [(tx, a)] \<and>
      map_of (ch_entries r2) j = map_of (ch_entries r) j"
proof -
  let ?r0 = "register_choice i tx r"
  let ?r1 = "snd (take_choice i ?r0)"
  have first: "resolve_choice i a ?r0 = (True, ?r1\<lparr>ch_sent := ch_sent ?r1 @ [(tx, a)]\<rparr>)"
    using choices.take_registered [of i tx r]
    by (auto simp: resolve_choice_def split: prod.splits option.splits)
  have none: "map_of (ch_entries ?r1) i = None"
    using choices.take_rest [of i ?r0] by simp
  have "map_of (ch_entries ?r1) j = map_of (ch_entries r) j"
    using choices.take_rest [of i ?r0] choices.lookup_register [of i tx r] assms by simp
  moreover have "ch_sent ?r1 = ch_sent r"
    by (simp add: take_choice_def register_choice_def)
  ultimately show ?thesis
    using none assms
    by (simp add: first) (simp add: resolve_choice_def take_choice_def delete_conv')
qed

text \<open>When an agent ends, its approvals are withdrawn and those of every other item stay.\<close>

theorem remove_for_todo_exact:
  assumes "distinct (map fst r)"
  shows "fst (take_approval i (remove_for_todo tid r)) =
    (case map_of r i of
       Some p \<Rightarrow> if ap_todo_id p \<noteq> tid then Some p else None
     | None \<Rightarrow> None)"
  using map_of_filter_distinct [OF assms]
  by (simp add: take_approval_def remove_for_todo_def)

subsection \<open>Witnesses\<close>

theorem choice_answered_once_witness:
  "ch_sent (snd (resolve_choice 1 ChoiceDismissed (snd (resolve_choice 1 (Selected ''a'')
     (register_choice 1 9 new_choice_registry))))) = [(9, Selected ''a'')]"
  using choice_answered_once [of 2 1 9 new_choice_registry "Selected ''a''" ChoiceDismissed]
  by (simp add: new_choice_registry_def Let_def split: prod.splits)

theorem remove_for_todo_exact_witness:
  "fst (take_approval 1 (remove_for_todo 5
      [(1, \<lparr>ap_request_id = 2, ap_agent = 0, ap_todo_id = 5\<rparr>)])) = None"
  using remove_for_todo_exact [of "[(1, \<lparr>ap_request_id = 2, ap_agent = 0, ap_todo_id = 5\<rparr>)]" 1 5]
  by simp

end
