(* ===== verification/Email.thy ===== *)
theory Email
  imports Json
begin

text \<open>
  Outgoing mail of \<open>src/src/channels/email.rs\<close>: sending a reply to all participants, sending a new
  message, and the reply metadata collected from an incoming message. The SMTP client is a
  third-party crate; what the code asks of it is the record \<open>mailer\<close>: whether the relay can be set
  up, whether an address parses, whether a message can be built, and whether the transport
  accepts it. Both functions return the message the transport accepted.
\<close>

record email_config =
  imap_host :: string
  imap_port :: "16 word"
  smtp_host :: string
  smtp_port :: "16 word"
  username :: string
  password :: string
  from_address :: string
  poll_interval_secs :: nat
  allowed_senders :: "string list"

record mail =
  ml_from :: string
  ml_to :: string
  ml_cc :: "string list"
  ml_subject :: string
  ml_in_reply_to :: "string option"
  ml_references :: "string option"
  ml_body :: string

record mailer =
  relay_ok :: "string \<Rightarrow> bool"
  address_ok :: "string \<Rightarrow> bool"
  build_ok :: "mail \<Rightarrow> bool"
  transport_ok :: "mail \<Rightarrow> bool"

datatype channel_error = SendFailed string string

definition send_failed :: "string \<Rightarrow> channel_error" where
  [rust_defs]: "send_failed reason = SendFailed ''email'' reason"

definition deliver :: "mailer \<Rightarrow> mail \<Rightarrow> channel_error + mail" where
  "deliver m e =
     (if \<not> build_ok m e then Inl (send_failed ''Failed to build email'')
      else if \<not> transport_ok m e then Inl (send_failed ''SMTP send failed'')
      else Inr e)"

definition json_str :: "json \<Rightarrow> string \<Rightarrow> string option" where
  "json_str v k = as_str (json_index v k)"

definition cc_addresses :: "json \<Rightarrow> string list" where
  "cc_addresses meta = (case as_array (json_index meta ''cc'') of
     None \<Rightarrow> [] | Some xs \<Rightarrow> List.map_filter as_str xs)"

definition send_reply_email :: "mailer \<Rightarrow> email_config \<Rightarrow> json \<Rightarrow> string \<Rightarrow> channel_error + mail" where
  "send_reply_email m cfg meta body = (case json_str meta ''reply_to'' of
     None \<Rightarrow> Inl (send_failed ''Missing reply_to in reply_metadata'')
   | Some reply_to \<Rightarrow>
       if \<not> relay_ok m (smtp_host cfg) then Inl (send_failed ''SMTP STARTTLS error'')
       else if \<not> address_ok m (from_address cfg) then Inl (send_failed ''Invalid from address'')
       else if \<not> address_ok m reply_to then Inl (send_failed ''Invalid reply_to address'')
       else deliver m
         \<lparr>ml_from = from_address cfg, ml_to = reply_to,
          ml_cc = filter (address_ok m) (cc_addresses meta),
          ml_subject = (case json_str meta ''subject'' of None \<Rightarrow> ''Re: (no subject)'' | Some s \<Rightarrow> s),
          ml_in_reply_to = json_str meta ''in_reply_to'',
          ml_references = json_str meta ''references'', ml_body = body\<rparr>)"

definition send_new_email ::
  "mailer \<Rightarrow> email_config \<Rightarrow> string \<Rightarrow> string \<Rightarrow> string \<Rightarrow> channel_error + mail" where
  "send_new_email m cfg to_addr subject body =
     (if \<not> relay_ok m (smtp_host cfg) then Inl (send_failed ''SMTP STARTTLS error'')
      else if \<not> address_ok m (from_address cfg) then Inl (send_failed ''Invalid from address'')
      else if \<not> address_ok m to_addr then Inl (send_failed ''Invalid recipient address'')
      else deliver m
        \<lparr>ml_from = from_address cfg, ml_to = to_addr, ml_cc = [], ml_subject = subject,
         ml_in_reply_to = None, ml_references = None, ml_body = body\<rparr>)"

subsection \<open>Reply metadata\<close>

text \<open>The loop that collects the Cc list; \<open>lower\<close> is \<open>str::to_lowercase\<close>, of which only that it is
  a function matters here.\<close>

fun collect_cc :: "(string \<Rightarrow> string) \<Rightarrow> string list \<Rightarrow> string list \<Rightarrow> string list \<Rightarrow> string list \<times> string list" where
  "collect_cc lower [] seen acc = (seen, acc)"
| "collect_cc lower (e # es) seen acc =
     (if lower e \<in> set seen then collect_cc lower es seen acc
      else collect_cc lower es (seen @ [lower e]) (acc @ [e]))"

definition starts_with :: "string \<Rightarrow> string \<Rightarrow> bool" where
  [rust_defs]: "starts_with s p \<longleftrightarrow> take (length p) s = p"

definition reply_subject :: "string \<Rightarrow> string" where
  "reply_subject s =
     (if starts_with s ''Re: '' \<or> starts_with s ''RE: '' \<or> starts_with s ''re: '' then s
      else ''Re: '' @ s)"

definition reply_cc ::
  "(string \<Rightarrow> string) \<Rightarrow> string list \<Rightarrow> string list \<Rightarrow> string \<Rightarrow> string \<Rightarrow> string list" where
  "reply_cc lower to_addrs cc_addrs sender from_addr =
     (let (seen, acc) = collect_cc lower to_addrs [lower from_addr, lower sender] []
      in snd (collect_cc lower cc_addrs seen acc))"

definition build_reply_metadata ::
  "(string \<Rightarrow> string) \<Rightarrow> string list \<Rightarrow> string list \<Rightarrow> string \<Rightarrow> string \<Rightarrow> string \<Rightarrow> string \<Rightarrow> json" where
  "build_reply_metadata lower to_addrs cc_addrs sender subject msg_id from_addr =
     JObject
       [(''reply_to'', JString sender),
        (''cc'', JArray (map JString (reply_cc lower to_addrs cc_addrs sender from_addr))),
        (''subject'', JString (reply_subject subject)),
        (''in_reply_to'', JString msg_id),
        (''references'', JString msg_id)]"

text \<open>Invariant of the loop: what was seen is what was banned at the start and what was collected.\<close>

definition cc_inv :: "(string \<Rightarrow> string) \<Rightarrow> string set \<Rightarrow> string list \<Rightarrow> string list \<Rightarrow> bool" where
  "cc_inv lower banned seen acc \<longleftrightarrow> set seen = banned \<union> lower ` set acc \<and>
     distinct (map lower acc) \<and> banned \<inter> lower ` set acc = {}"

lemma collect_cc_inv:
  assumes "cc_inv lower banned seen acc" and "collect_cc lower es seen acc = (seen', acc')"
  shows "cc_inv lower banned seen' acc' \<and> set acc' \<subseteq> set acc \<union> set es \<and>
    set seen \<subseteq> set seen' \<and> lower ` set es \<subseteq> set seen'"
  using assms
proof (induction lower es seen acc rule: collect_cc.induct)
  case (2 lower e es seen acc)
  show ?case
  proof (cases "lower e \<in> set seen")
    case True
    then show ?thesis using "2.IH"(1) "2.prems" by auto
  next
    case False
    then have "cc_inv lower banned (seen @ [lower e]) (acc @ [e])"
      using "2.prems"(1) by (auto simp: cc_inv_def)
    then show ?thesis using "2.IH"(2) [OF False] "2.prems"(2) False by auto
  qed
qed simp

lemma reply_cc_facts:
  assumes cc_def: "cc = reply_cc lower to_addrs cc_addrs sender from_addr"
  shows "distinct (map lower cc) \<and> lower sender \<notin> set (map lower cc) \<and>
    lower from_addr \<notin> set (map lower cc) \<and> set cc \<subseteq> set to_addrs \<union> set cc_addrs \<and>
    lower ` (set to_addrs \<union> set cc_addrs) \<subseteq> insert (lower from_addr) (insert (lower sender) (lower ` set cc))"
proof -
  let ?b = "{lower from_addr, lower sender}"
  obtain seen acc where one: "collect_cc lower to_addrs [lower from_addr, lower sender] [] = (seen, acc)"
    by fastforce
  obtain seen' where two: "collect_cc lower cc_addrs seen acc = (seen', cc)"
    by (cases "collect_cc lower cc_addrs seen acc") (simp add: cc_def reply_cc_def one)
  have "cc_inv lower ?b [lower from_addr, lower sender] []" by (simp add: cc_inv_def)
  from collect_cc_inv [OF this one] have first: "cc_inv lower ?b seen acc"
    "set acc \<subseteq> set to_addrs" "lower ` set to_addrs \<subseteq> set seen" by auto
  from collect_cc_inv [OF first(1) two] have second: "cc_inv lower ?b seen' cc"
    "set cc \<subseteq> set acc \<union> set cc_addrs" "set seen \<subseteq> set seen'" "lower ` set cc_addrs \<subseteq> set seen'" by auto
  from first(2,3) second show ?thesis by (auto simp: cc_inv_def)
qed

text \<open>Replying to all. The Cc list built from an incoming message holds every other
  participant exactly once, up to case, and neither the user's own address nor the sender, who is
  the recipient.\<close>

theorem reply_all_recipients:
  "let cc = cc_addresses (build_reply_metadata lower to_addrs cc_addrs sender subject msg_id from_addr)
   in distinct (map lower cc) \<and> lower sender \<notin> set (map lower cc) \<and>
      lower from_addr \<notin> set (map lower cc) \<and> set cc \<subseteq> set to_addrs \<union> set cc_addrs \<and>
      lower ` (set to_addrs \<union> set cc_addrs) \<subseteq>
        insert (lower from_addr) (insert (lower sender) (lower ` set cc))"
proof -
  have "List.map_filter as_str (map JString xs) = xs" for xs
    by (induction xs) (simp_all add: List.map_filter_simps)
  then have "cc_addresses (build_reply_metadata lower to_addrs cc_addrs sender subject msg_id from_addr)
      = reply_cc lower to_addrs cc_addrs sender from_addr"
    by (simp add: cc_addresses_def build_reply_metadata_def json_index_def)
  then show ?thesis
    using reply_cc_facts [OF refl, of lower to_addrs cc_addrs sender from_addr] by (simp add: Let_def)
qed

text \<open>A message goes out only as written: if the transport accepted a reply, it is addressed to
  the sender named in the metadata, carries the given body, and copies only addresses of the
  metadata; a rejected address, relay, message or transport is an error and nothing is sent.\<close>

theorem reply_goes_to_sender:
  "case send_reply_email m cfg meta body of
     Inl _ \<Rightarrow> True
   | Inr e \<Rightarrow> json_str meta ''reply_to'' = Some (ml_to e) \<and> ml_body e = body \<and>
       ml_from e = from_address cfg \<and> set (ml_cc e) \<subseteq> set (cc_addresses meta) \<and>
       transport_ok m e \<and> address_ok m (ml_to e)"
  by (auto simp: send_reply_email_def deliver_def split: option.splits if_splits)

end
