(* ===== verification/Text.thy ===== *)
theory Text
  imports Prelude "HOL-Library.Sublist"
begin

text \<open>
  Rust's \<open>str\<close> as the list of its UTF-8 bytes, with the operations of the standard library the
  program uses, and the program's own text helpers: \<open>src/src/util.rs\<close>, the mail helpers of
  \<open>src/src/channels/email.rs\<close> and \<open>src/src/channels/email_types.rs\<close>, and \<open>condense_summary\<close> of
  \<open>src/src/channels/todo_channel.rs\<close>. Whitespace is Unicode's \<open>White_Space\<close> on the encoded bytes.
  \<open>to_lowercase\<close> maps the ASCII letters and leaves other bytes alone, so it is the source's
  function on ASCII text.
\<close>

subsection \<open>Bytes and characters\<close>

definition code :: "char \<Rightarrow> nat" where
  "code c = of_char c"

text \<open>A byte that continues a multi-byte character; a position is a character boundary unless the
  byte there is one.\<close>

definition continuation :: "char \<Rightarrow> bool" where
  "continuation c \<longleftrightarrow> 128 \<le> code c \<and> code c < 192"

definition is_char_boundary :: "string \<Rightarrow> nat \<Rightarrow> bool" where
  "is_char_boundary s i \<longleftrightarrow>
     i = 0 \<or> i = length s \<or> (i < length s \<and> \<not> continuation (s ! i))"

text \<open>The characters of a text, each as its bytes.\<close>

fun chars_aux :: "string \<Rightarrow> string \<Rightarrow> string list" where
  "chars_aux cur [] = (if cur = [] then [] else [cur])"
| "chars_aux cur (b # bs) =
     (if cur \<noteq> [] \<and> continuation b then chars_aux (cur @ [b]) bs
      else if cur = [] then chars_aux [b] bs
      else cur # chars_aux [b] bs)"

definition chars :: "string \<Rightarrow> string list" where
  "chars s = chars_aux [] s"

lemma concat_chars_aux: "concat (chars_aux cur s) = cur @ s"
  by (induction cur s rule: chars_aux.induct) auto

lemma concat_chars [simp]: "concat (chars s) = s"
  by (simp add: chars_def concat_chars_aux)

subsection \<open>Whitespace\<close>

text \<open>The length in bytes of the whitespace character a text starts with, or 0.\<close>

definition ws_len :: "string \<Rightarrow> nat" where
  "ws_len s = (case map code (take 3 s) of
     [] \<Rightarrow> 0
   | b # bs \<Rightarrow>
       if b = 32 \<or> (9 \<le> b \<and> b \<le> 13) then 1
       else (case bs of
         [] \<Rightarrow> 0
       | c # cs \<Rightarrow>
           if b = 194 \<and> (c = 133 \<or> c = 160) then 2
           else (case cs of
             [] \<Rightarrow> 0
           | d # _ \<Rightarrow>
               if b = 225 \<and> c = 154 \<and> d = 128 then 3
               else if b = 226 \<and> c = 128 \<and>
                  ((128 \<le> d \<and> d \<le> 138) \<or> d = 168 \<or> d = 169 \<or> d = 175) then 3
               else if b = 226 \<and> c = 129 \<and> d = 159 then 3
               else if b = 227 \<and> c = 128 \<and> d = 128 then 3
               else 0)))"

lemma ws_len_Nil [simp]: "ws_len [] = 0"
  by (simp add: ws_len_def)

lemma ws_len_le: "ws_len s \<le> length s"
proof (cases s)
  case (Cons b bs)
  then show ?thesis
  proof (cases bs)
    case (Cons c cs)
    with \<open>s = b # bs\<close> show ?thesis by (cases cs) (auto simp: ws_len_def)
  qed (auto simp: ws_len_def)
qed simp

function trim_start :: "string \<Rightarrow> string" where
  "trim_start s = (if ws_len s = 0 then s else trim_start (drop (ws_len s) s))"
  by pat_completeness auto
termination
proof (relation "measure length")
  fix s :: string
  assume "ws_len s \<noteq> 0"
  then show "(drop (ws_len s) s, s) \<in> measure length"
    using ws_len_le [of s] by simp
qed simp

declare trim_start.simps [simp del]

text \<open>The same at the end: the whitespace character that ends the text, if any.\<close>

definition ws_len_end :: "string \<Rightarrow> nat" where
  "ws_len_end s =
     (if s \<noteq> [] \<and> ws_len (drop (length s - 1) s) = 1 then 1
      else if 2 \<le> length s \<and> ws_len (drop (length s - 2) s) = 2 then 2
      else if 3 \<le> length s \<and> ws_len (drop (length s - 3) s) = 3 then 3
      else 0)"

lemma ws_len_end_le: "ws_len_end s \<le> length s"
  by (auto simp: ws_len_end_def Suc_le_eq)

function trim_end :: "string \<Rightarrow> string" where
  "trim_end s = (if ws_len_end s = 0 then s else trim_end (take (length s - ws_len_end s) s))"
  by pat_completeness auto
termination
proof (relation "measure length")
  fix s :: string
  assume "ws_len_end s \<noteq> 0"
  then show "(take (length s - ws_len_end s) s, s) \<in> measure length"
    using ws_len_end_le [of s] by simp
qed simp

declare trim_end.simps [simp del]

definition trim :: "string \<Rightarrow> string" where
  "trim s = trim_end (trim_start s)"

definition is_blank :: "string \<Rightarrow> bool" where
  "is_blank s \<longleftrightarrow> trim s = []"

function split_ws_aux :: "string \<Rightarrow> string \<Rightarrow> string list" where
  "split_ws_aux cur s =
     (if s = [] then (if cur = [] then [] else [cur])
      else if ws_len s = 0 then split_ws_aux (cur @ [hd s]) (tl s)
      else (if cur = [] then [] else [cur]) @ split_ws_aux [] (drop (ws_len s) s))"
  by pat_completeness auto
termination
proof (relation "measure (\<lambda>(cur, s). length s)")
  fix s cur :: string
  assume "s \<noteq> []" "ws_len s \<noteq> 0"
  then show "(([], drop (ws_len s) s), (cur, s)) \<in> measure (\<lambda>(cur, s). length s)"
    using ws_len_le [of s] by simp
qed auto

declare split_ws_aux.simps [simp del]

definition split_whitespace :: "string \<Rightarrow> string list" where
  "split_whitespace s = split_ws_aux [] s"

subsection \<open>Case, prefixes, search\<close>

definition ascii_lower :: "char \<Rightarrow> char" where
  "ascii_lower c = (if 65 \<le> code c \<and> code c \<le> 90 then char_of (code c + 32) else c)"

definition to_lowercase :: "string \<Rightarrow> string" where
  "to_lowercase s = map ascii_lower s"

definition is_ascii :: "string \<Rightarrow> bool" where
  "is_ascii s \<longleftrightarrow> (\<forall>c \<in> set s. code c < 128)"

definition str_starts_with :: "string \<Rightarrow> string \<Rightarrow> bool" where
  "str_starts_with s p \<longleftrightarrow> prefix p s"

definition str_ends_with :: "string \<Rightarrow> string \<Rightarrow> bool" where
  "str_ends_with s p \<longleftrightarrow> suffix p s"

definition strip_prefix :: "string \<Rightarrow> string \<Rightarrow> string option" where
  "strip_prefix p s = (if prefix p s then Some (drop (length p) s) else None)"

fun str_contains :: "string \<Rightarrow> string \<Rightarrow> bool" where
  "str_contains [] p = (p = [])"
| "str_contains (c # cs) p = (prefix p (c # cs) \<or> str_contains cs p)"

lemma str_contains_iff: "str_contains s p \<longleftrightarrow> sublist p s"
  by (induction s) (auto simp: sublist_Cons_right)

text \<open>\<open>str::lines\<close>: split at line feeds, a trailing carriage return stripped from each line, and
  no empty line after a final line feed.\<close>

definition strip_cr :: "string \<Rightarrow> string" where
  "strip_cr s = (if s \<noteq> [] \<and> last s = CHR 0x0D then butlast s else s)"

text \<open>Only a line that a line feed ended loses its carriage return.\<close>

fun lines_aux :: "string \<Rightarrow> string \<Rightarrow> string list" where
  "lines_aux cur [] = (if cur = [] then [] else [cur])"
| "lines_aux cur (c # cs) =
     (if c = CHR 0x0A then strip_cr cur # lines_aux [] cs else lines_aux (cur @ [c]) cs)"

definition str_lines :: "string \<Rightarrow> string list" where
  "str_lines s = lines_aux [] s"

fun join :: "string \<Rightarrow> string list \<Rightarrow> string" where
  "join sep [] = []"
| "join sep [x] = x"
| "join sep (x # y # ys) = x @ sep @ join sep (y # ys)"

subsection \<open>Shared helpers of the program\<close>

function floor_from :: "string \<Rightarrow> nat \<Rightarrow> nat" where
  "floor_from s i = (if i > 0 \<and> \<not> is_char_boundary s i then floor_from s (i - 1) else i)"
  by pat_completeness auto
termination by (relation "measure snd") auto

declare floor_from.simps [simp del]

definition floor_char_boundary :: "string \<Rightarrow> nat \<Rightarrow> nat" where
  "floor_char_boundary s pos = (if pos \<ge> length s then length s else floor_from s pos)"

definition positive_phrases :: "string list" where
  "positive_phrases =
     [''job is complete'', ''job is done'', ''job is finished'', ''task is complete'',
      ''task is done'', ''task is finished'', ''work is complete'', ''work is done'',
      ''work is finished'', ''successfully completed'', ''have completed the job'',
      ''have completed the task'', ''have finished the job'', ''have finished the task'',
      ''all steps are complete'', ''all steps are done'', ''i have completed'',
      ''i'' @ [CHR 0x27] @ ''ve completed'', ''all done'', ''all tasks complete'']"

definition negative_phrases :: "string list" where
  "negative_phrases =
     [''not complete'', ''not done'', ''not finished'', ''incomplete'', ''unfinished'',
      ''isn'' @ [CHR 0x27] @ ''t done'', ''isn'' @ [CHR 0x27] @ ''t complete'',
      ''isn'' @ [CHR 0x27] @ ''t finished'', ''not yet done'', ''not yet complete'',
      ''not yet finished'']"

definition llm_signals_completion :: "string \<Rightarrow> bool" where
  "llm_signals_completion response =
     (let lower = to_lowercase response in
      if list_ex (str_contains lower) negative_phrases then False
      else list_ex (str_contains lower) positive_phrases)"

subsection \<open>Mail text\<close>

lemma trim_start_suffix: "suffix (trim_start s) s"
proof (induction s rule: trim_start.induct)
  case (1 s)
  then show ?case
    by (subst trim_start.simps) (auto intro: suffix_order.trans suffix_drop)
qed

lemma length_trim_start: "length (trim_start s) \<le> length s"
  by (rule suffix_length_le [OF trim_start_suffix])

lemma lower_prefix_length: "str_starts_with (to_lowercase s) p \<Longrightarrow> length p \<le> length s"
  using prefix_length_le by (fastforce simp: str_starts_with_def to_lowercase_def)

function strip_reply_prefixes :: "string \<Rightarrow> string" where
  "strip_reply_prefixes s =
     (let lower = to_lowercase s in
      if str_starts_with lower ''re:'' then strip_reply_prefixes (trim_start (drop 3 s))
      else if str_starts_with lower ''fwd:'' then strip_reply_prefixes (trim_start (drop 4 s))
      else if str_starts_with lower ''fw:'' then strip_reply_prefixes (trim_start (drop 3 s))
      else s)"
  by pat_completeness auto
termination
proof (relation "measure length")
  have shorter: "(trim_start (drop n s), s) \<in> measure length"
    if "str_starts_with (to_lowercase s) p" "length p = n" "n > 0" for s p n
    using lower_prefix_length [OF that(1)] length_trim_start [of "drop n s"] that by simp
  show "str_starts_with lower ''re:'' \<Longrightarrow> (trim_start (drop 3 s), s) \<in> measure length"
    if "lower = to_lowercase s" for s lower using shorter [of s "''re:''" 3] that by simp
  show "str_starts_with lower ''fwd:'' \<Longrightarrow> (trim_start (drop 4 s), s) \<in> measure length"
    if "lower = to_lowercase s" for s lower using shorter [of s "''fwd:''" 4] that by simp
  show "str_starts_with lower ''fw:'' \<Longrightarrow> (trim_start (drop 3 s), s) \<in> measure length"
    if "lower = to_lowercase s" for s lower using shorter [of s "''fw:''" 3] that by simp
qed simp

declare strip_reply_prefixes.simps [simp del]

definition normalize_subject :: "string \<Rightarrow> string" where
  "normalize_subject subject = strip_reply_prefixes (trim subject)"

definition is_sender_allowed :: "string list \<Rightarrow> string \<Rightarrow> bool" where
  "is_sender_allowed allowed email =
     (if allowed = [] then False
      else if ''*'' \<in> set allowed then True
      else (let email_lower = to_lowercase email in
        list_ex (\<lambda>a. if str_starts_with a ''@'' then str_ends_with email_lower (to_lowercase a)
                     else if CHR 0x40 \<in> set a then map ascii_lower a = map ascii_lower email
                     else str_ends_with email_lower (''@'' @ to_lowercase a)) allowed))"

fun drop_tags :: "bool \<Rightarrow> string \<Rightarrow> string" where
  "drop_tags in_tag [] = []"
| "drop_tags in_tag (c # cs) =
     (if c = CHR ''<'' then drop_tags True cs
      else if c = CHR ''>'' then drop_tags False cs
      else if \<not> in_tag then c # drop_tags in_tag cs
      else drop_tags in_tag cs)"

definition strip_html :: "string \<Rightarrow> string" where
  "strip_html html = join '' '' (split_whitespace (drop_tags False html))"

fun find_index :: "('a \<Rightarrow> bool) \<Rightarrow> 'a list \<Rightarrow> nat option" where
  "find_index P [] = None"
| "find_index P (x # xs) = (if P x then Some 0 else map_option Suc (find_index P xs))"

definition extract_subject :: "string \<Rightarrow> string \<times> string" where
  "extract_subject content =
     (case (if str_starts_with content ''Subject: ''
            then find_index (\<lambda>c. c = CHR 0x0A) content else None) of
        Some pos \<Rightarrow> (trim (drop 9 (take pos content)), trim_start (drop (pos + 1) content))
      | None \<Rightarrow> (''AI Assist'', content))"

fun keep_lines :: "string list \<Rightarrow> string list" where
  "keep_lines [] = []"
| "keep_lines (l # ls) =
     (let t = trim l in
      if str_starts_with t ''>'' then keep_lines ls
      else if str_starts_with t ''On '' \<and> str_ends_with t ''wrote:'' then []
      else if str_starts_with t ''---'' \<and> str_contains t ''Original Message'' then []
      else l # keep_lines ls)"

definition drop_trailing_blank :: "string list \<Rightarrow> string list" where
  "drop_trailing_blank ls = rev (dropWhile is_blank (rev ls))"

definition strip_quoted_text :: "string \<Rightarrow> string" where
  "strip_quoted_text body = join [CHR 0x0A] (drop_trailing_blank (keep_lines (str_lines body)))"

subsection \<open>Summaries\<close>

fun remove_pair :: "char \<Rightarrow> string \<Rightarrow> string" where
  "remove_pair p (a # b # s) = (if a = p \<and> b = p then remove_pair p s else a # remove_pair p (b # s))"
| "remove_pair p s = s"

definition ellipsis :: string where
  "ellipsis = [CHR 0xE2, CHR 0x80, CHR 0xA6]"

fun rfind_index :: "('a \<Rightarrow> bool) \<Rightarrow> 'a list \<Rightarrow> nat option" where
  "rfind_index P [] = None"
| "rfind_index P (x # xs) = (case rfind_index P xs of
     Some i \<Rightarrow> Some (Suc i) | None \<Rightarrow> if P x then Some 0 else None)"

definition condense_line :: "string \<Rightarrow> string" where
  "condense_line l =
     trim (remove_pair CHR ''_'' (remove_pair CHR ''*'' (dropWhile (\<lambda>c. c = CHR 0x23) (trim l))))"

definition condense_summary :: "string \<Rightarrow> string" where
  "condense_summary content =
     (let line = (case List.find (\<lambda>l. l \<noteq> []) (map condense_line (str_lines content)) of
                    None \<Rightarrow> [] | Some l \<Rightarrow> l)
      in if length line \<le> 120 then line
         else let truncated = concat (take 120 (chars line))
              in case rfind_index (\<lambda>c. c = CHR 0x20) truncated of
                   Some pos \<Rightarrow> take pos truncated @ ellipsis
                 | None \<Rightarrow> truncated @ ellipsis)"

subsection \<open>Properties\<close>

lemma floor_from_spec:
  "floor_from s i \<le> i \<and> is_char_boundary s (floor_from s i) \<and>
   (\<forall>j. floor_from s i < j \<and> j \<le> i \<longrightarrow> \<not> is_char_boundary s j)"
proof (induction s i rule: floor_from.induct)
  case (1 s i)
  show ?case
  proof (cases "i > 0 \<and> \<not> is_char_boundary s i")
    case True
    then have "floor_from s i = floor_from s (i - 1)" by (subst floor_from.simps) simp
    moreover have "\<not> is_char_boundary s j" if "floor_from s (i - 1) < j" "j \<le> i" for j
      using 1 [OF True] True that by (cases "j = i") auto
    ultimately show ?thesis using 1 [OF True] by auto
  next
    case False
    then have "floor_from s i = i" by (subst floor_from.simps) auto
    with False show ?thesis by (auto simp: is_char_boundary_def)
  qed
qed

text \<open>\<open>floor_char_boundary\<close> returns the largest character boundary at or before the position, so
  cutting a text there never splits a character.\<close>

theorem floor_char_boundary_greatest:
  "floor_char_boundary s pos = Max {j. j \<le> min pos (length s) \<and> is_char_boundary s j}"
proof (rule sym, rule Max_eqI)
  show "floor_char_boundary s pos \<in> {j. j \<le> min pos (length s) \<and> is_char_boundary s j}"
    using floor_from_spec [of s pos] by (auto simp: floor_char_boundary_def is_char_boundary_def)
  show "j \<le> floor_char_boundary s pos"
    if "j \<in> {j. j \<le> min pos (length s) \<and> is_char_boundary s j}" for j
    using that floor_from_spec [of s pos] by (auto simp: floor_char_boundary_def not_less [symmetric])
qed simp

definition has_reply_prefix :: "string \<Rightarrow> bool" where
  "has_reply_prefix s \<longleftrightarrow> (\<exists>p \<in> {''re:'', ''fwd:'', ''fw:''}. str_starts_with (to_lowercase s) p)"

lemma strip_reply_prefixes_no_prefix: "\<not> has_reply_prefix (strip_reply_prefixes s)"
proof (induction s rule: strip_reply_prefixes.induct)
  case (1 s)
  show ?case
    using 1 by (subst strip_reply_prefixes.simps) (auto simp: Let_def has_reply_prefix_def)
qed

lemma strip_reply_prefixes_id: "\<not> has_reply_prefix s \<Longrightarrow> strip_reply_prefixes s = s"
  by (subst strip_reply_prefixes.simps) (auto simp: Let_def has_reply_prefix_def)

lemma ws_len_end_nonzero:
  "ws_len_end s \<noteq> 0 \<longleftrightarrow> (\<exists>n \<in> {1, 2, 3}. n \<le> length s \<and> ws_len (drop (length s - n) s) = n)"
  by (simp add: ws_len_end_def Suc_le_eq)

lemma ws_len_end_suffix:
  assumes "suffix t s" "ws_len_end s = 0"
  shows "ws_len_end t = 0"
proof (rule ccontr)
  assume "ws_len_end t \<noteq> 0"
  then obtain n where n: "n \<in> {1, 2, 3}" "n \<le> length t" "ws_len (drop (length t - n) t) = n"
    unfolding ws_len_end_nonzero by blast
  obtain u where "s = u @ t" using assms(1) by (auto simp: suffix_def)
  with n have "n \<le> length s" "drop (length s - n) s = drop (length t - n) t" by simp_all
  with n have "ws_len_end s \<noteq> 0" unfolding ws_len_end_nonzero by metis
  with assms(2) show False by simp
qed

lemma ws_len_prefix:
  assumes "prefix t s" "ws_len s = 0"
  shows "ws_len t = 0"
proof -
  obtain u where s: "s = t @ u" using assms(1) by (auto simp: prefix_def)
  have "ws_len (t @ u) = ws_len t" if "ws_len t \<noteq> 0"
  proof (cases t)
    case (Cons b bs)
    show ?thesis
    proof (cases bs)
      case Nil
      with Cons that show ?thesis by (cases u) (auto simp: ws_len_def split: if_splits)
    next
      case (Cons c cs)
      with \<open>t = b # bs\<close> that show ?thesis
        by (cases cs; cases u) (auto simp: ws_len_def split: if_splits)
    qed
  qed (use that in simp)
  with assms(2) s show ?thesis by metis
qed

lemma trim_start_no_ws: "ws_len (trim_start s) = 0"
proof (induction s rule: trim_start.induct)
  case (1 s)
  then show ?case by (subst trim_start.simps) simp
qed

lemma trim_end_no_ws: "ws_len_end (trim_end s) = 0"
proof (induction s rule: trim_end.induct)
  case (1 s)
  then show ?case by (subst trim_end.simps) simp
qed

lemma trim_id: "ws_len s = 0 \<Longrightarrow> ws_len_end s = 0 \<Longrightarrow> trim s = s"
  by (simp add: trim_def trim_start.simps [of s] trim_end.simps [of s])

lemma trim_end_prefix: "prefix (trim_end s) s"
proof (induction s rule: trim_end.induct)
  case (1 s)
  then show ?case
    by (subst trim_end.simps) (auto intro: prefix_order.trans take_is_prefix)
qed

lemma trim_clean: "ws_len (trim s) = 0" "ws_len_end (trim s) = 0"
  using ws_len_prefix [OF trim_end_prefix trim_start_no_ws] trim_end_no_ws
  by (simp_all add: trim_def)

lemma strip_reply_prefixes_clean:
  "ws_len s = 0 \<Longrightarrow> ws_len_end s = 0 \<Longrightarrow>
   ws_len (strip_reply_prefixes s) = 0 \<and> ws_len_end (strip_reply_prefixes s) = 0"
proof (induction s rule: strip_reply_prefixes.induct)
  case (1 s)
  have "ws_len_end (trim_start (drop n s)) = 0" for n
    using 1(5) trim_start_suffix [of "drop n s"]
    by (meson suffix_drop suffix_order.trans ws_len_end_suffix)
  with 1 trim_start_no_ws show ?case
    by (subst (1 2) strip_reply_prefixes.simps) (simp add: Let_def)
qed

text \<open>A normalised subject carries no reply or forward prefix, and normalising is idempotent, so
  that all messages of a thread share one subject.\<close>

theorem normalize_subject_fixpoint:
  "\<not> has_reply_prefix (normalize_subject s) \<and>
   normalize_subject (normalize_subject s) = normalize_subject s"
proof -
  have "trim (normalize_subject s) = normalize_subject s"
    using strip_reply_prefixes_clean [OF trim_clean] unfolding normalize_subject_def
    by (intro trim_id) simp_all
  then show ?thesis
    using strip_reply_prefixes_no_prefix [of "trim s"] strip_reply_prefixes_id
    by (simp add: normalize_subject_def)
qed

end
