(* ===== verification/Card_Handlers.thy ===== *)
theory Card_Handlers
  imports Card_Queue Todos Registries Email Text
begin

text \<open>
  What the user's decisions on cards set in motion: the dispatch of client actions and of the REST
  endpoints (\<open>src/src/cards/ws.rs\<close>), the handlers per kind of card
  (\<open>src/src/cards/handlers/*.rs\<close>), and the to-do channel that asks for tool approvals and waits
  for them (\<open>src/src/channels/todo_channel.rs\<close>).

  A client action runs the queue operation under the queue's lock and then, as a task of its own,
  the handler of the card. The tasks not yet run are \<open>s_tasks\<close>, so operations of other clients
  interleave between a decision and its handler. Re-acquiring a permit before an agent is
  resumed may wait; it is a task too, which runs when a permit is there. An agent is identified by
  its position in \<open>s_agents\<close>, which stands for its message sender and its permit slot. The
  outbox is the log of the messages the mail transport accepted, each with the card whose handler
  sent it; \<open>s_drawn\<close> are the card ids drawn so far, so that a new card has a new one.
\<close>

subsection \<open>State\<close>

record todo_agent =
  ta_todo_id :: uuid
  ta_job_id :: uuid
  ta_permit :: bool
  ta_responded :: bool
  ta_tx :: bool
  ta_alive :: bool
  ta_inbox :: "(uuid \<times> bool) list"

datatype activity_message =
    Started uuid "uuid option"
  | AgentResponse uuid string
  | ActCompleted uuid string
  | ActFailed uuid string
  | ApprovalNeeded uuid uuid string string
  | ApprovalResolved uuid uuid bool

datatype task =
    TApprove approval_card
  | TDismiss approval_card
  | TEdit approval_card string
  | TSelect approval_card nat
  | TResume approval_card todo_approval_pending bool

record app_state =
  s_queue :: card_queue
  s_email_config :: "email_config option"
  s_approvals :: approval_registry
  s_choices :: choice_registry
  s_agents :: "todo_agent list"
  s_aq :: agent_queue
  s_has_aq :: bool
  s_activity :: "activity_message list"
  s_outbox :: "(approval_card \<times> mail) list"
  s_tasks :: "task list"
  s_drawn :: "uuid list"

definition s_mark_sent :: "datetime \<Rightarrow> uuid \<Rightarrow> app_state \<Rightarrow> app_state" where
  "s_mark_sent now i s = s\<lparr>s_queue := snd (mark_sent now i (s_queue s))\<rparr>"

definition record_sent :: "approval_card \<Rightarrow> mail \<Rightarrow> app_state \<Rightarrow> app_state" where
  "record_sent c e s = s\<lparr>s_outbox := s_outbox s @ [(c, e)]\<rparr>"

definition emit :: "activity_message \<Rightarrow> app_state \<Rightarrow> app_state" where
  "emit m s = s\<lparr>s_activity := s_activity s @ [m]\<rparr>"

subsection \<open>Handlers\<close>

definition send_reply :: "datetime \<Rightarrow> mailer \<Rightarrow> approval_card \<Rightarrow> app_state \<Rightarrow> app_state" where
  "send_reply now m c s = (case c_payload c of
     Reply r \<Rightarrow>
       if r_channel r = ''email'' then
         (case (s_email_config s, r_reply_metadata r) of
            (Some cfg, Some meta) \<Rightarrow>
              (case send_reply_email m cfg meta (r_suggested_reply r) of
                 Inr e \<Rightarrow> s_mark_sent now (c_id c) (record_sent c e s)
               | Inl _ \<Rightarrow> s)
          | _ \<Rightarrow> s)
       else s
   | _ \<Rightarrow> s)"

definition send_compose :: "datetime \<Rightarrow> mailer \<Rightarrow> approval_card \<Rightarrow> app_state \<Rightarrow> app_state" where
  "send_compose now m c s = (case c_payload c of
     Compose p \<Rightarrow>
       if p_channel p = ''email'' then
         (case s_email_config s of
            Some cfg \<Rightarrow>
              (case send_new_email m cfg (p_recipient p) (unwrap_or (p_subject p) ''AI Assist'')
                      (p_draft_body p) of
                 Inr e \<Rightarrow> s_mark_sent now (c_id c) (record_sent c e s)
               | Inl _ \<Rightarrow> s)
          | None \<Rightarrow> s)
       else s
   | _ \<Rightarrow> s)"

text \<open>\<open>resolve_approval\<close> up to the point where it waits for a permit; the rest is \<open>resume_agent\<close>.\<close>

definition resolve_approval :: "datetime \<Rightarrow> approval_card \<Rightarrow> bool \<Rightarrow> app_state \<Rightarrow> app_state" where
  "resolve_approval now c approved s = (case take_approval (c_id c) (s_approvals s) of
     (Some p, reg) \<Rightarrow> s\<lparr>s_approvals := reg, s_tasks := s_tasks s @ [TResume c p approved]\<rparr>
   | (None, reg) \<Rightarrow>
       (case c_todo_id c of
          Some tid \<Rightarrow>
            if approved then
              (if s_has_aq s then s\<lparr>s_approvals := reg, s_aq := snd (enqueue now tid (s_aq s))\<rparr>
               else (case set_todo_status now tid AgentQueued (s_aq s) of
                       (False, aq) \<Rightarrow> s\<lparr>s_approvals := reg, s_aq := aq\<rparr>
                     | (True, aq) \<Rightarrow> s\<lparr>s_approvals := reg, s_aq := broadcast_todo_update tid aq\<rparr>))
            else s\<lparr>s_approvals := reg\<rparr>
        | None \<Rightarrow> s\<lparr>s_approvals := reg\<rparr>))"

text \<open>With the permit: it goes into the agent's slot, where a permit already held is dropped and so
  returned; then the answer is sent, if the agent still listens. \<open>None\<close>: no permit, still waiting.\<close>

definition resume_agent ::
  "approval_card \<Rightarrow> todo_approval_pending \<Rightarrow> bool \<Rightarrow> app_state \<Rightarrow> app_state option" where
  "resume_agent c p approved s =
     (let n = ap_agent p in
      if aq_permits (s_aq s) = 0 \<or> \<not> n < length (s_agents s) then None
      else let a = s_agents s ! n;
               s1 = s\<lparr>s_aq := (s_aq s)\<lparr>aq_permits := (if ta_permit a then aq_permits (s_aq s)
                                                      else aq_permits (s_aq s) - 1)\<rparr>,
                      s_agents := (s_agents s)[n := a\<lparr>ta_permit := True\<rparr>]\<rparr>
           in if ta_alive a
              then Some (emit (ApprovalResolved (ap_todo_id p) (c_id c) approved)
                     (s1\<lparr>s_agents := (s_agents s1)[n := a\<lparr>ta_permit := True,
                            ta_inbox := ta_inbox a @ [(ap_request_id p, approved)]\<rparr>]\<rparr>))
              else Some s1)"

definition on_select_option :: "approval_card \<Rightarrow> nat \<Rightarrow> app_state \<Rightarrow> app_state" where
  "on_select_option c idx s = (case c_payload c of
     MultipleChoice _ options \<Rightarrow>
       if idx < length options
       then s\<lparr>s_choices := snd (resolve_choice (c_id c) (Selected (options ! idx)) (s_choices s))\<rparr>
       else s
   | _ \<Rightarrow> s)"

text \<open>\<open>handler_for(card).on_approve\<close>, \<open>on_dismiss\<close> and \<open>on_edit\<close>.\<close>

definition on_approve :: "datetime \<Rightarrow> mailer \<Rightarrow> approval_card \<Rightarrow> app_state \<Rightarrow> app_state" where
  "on_approve now m c s = (case c_payload c of
     Reply _ \<Rightarrow> send_reply now m c s
   | Action _ _ \<Rightarrow> resolve_approval now c True s
   | Compose _ \<Rightarrow> send_compose now m c s
   | Decision _ _ _ \<Rightarrow> s
   | MultipleChoice _ _ \<Rightarrow> s)"

definition on_dismiss :: "datetime \<Rightarrow> approval_card \<Rightarrow> app_state \<Rightarrow> app_state" where
  "on_dismiss now c s = (case c_payload c of
     Reply _ \<Rightarrow> s
   | Action _ _ \<Rightarrow> resolve_approval now c False s
   | Compose _ \<Rightarrow> s
   | Decision _ _ _ \<Rightarrow> s
   | MultipleChoice _ _ \<Rightarrow>
       s\<lparr>s_choices := snd (resolve_choice (c_id c) ChoiceDismissed (s_choices s))\<rparr>)"

definition on_edit :: "datetime \<Rightarrow> mailer \<Rightarrow> approval_card \<Rightarrow> string \<Rightarrow> app_state \<Rightarrow> app_state" where
  "on_edit now m c new_text s = (case c_payload c of
     Reply _ \<Rightarrow> send_reply now m c s
   | Action _ _ \<Rightarrow> resolve_approval now c True s
   | Compose _ \<Rightarrow> send_compose now m c s
   | Decision _ _ _ \<Rightarrow> on_approve now m c s
   | MultipleChoice _ _ \<Rightarrow> on_approve now m c s)"

subsection \<open>Client actions\<close>

definition decide_by ::
  "(card_queue \<Rightarrow> approval_card option \<times> card_queue) \<Rightarrow> (approval_card \<Rightarrow> task list) \<Rightarrow> app_state \<Rightarrow> app_state" where
  "decide_by op tasks s = (case op (s_queue s) of
     (None, q) \<Rightarrow> s\<lparr>s_queue := q\<rparr>
   | (Some c, q) \<Rightarrow> s\<lparr>s_queue := q, s_tasks := s_tasks s @ tasks c\<rparr>)"

definition is_multiple_choice :: "approval_card \<Rightarrow> bool" where
  "is_multiple_choice c = (case c_payload c of MultipleChoice _ _ \<Rightarrow> True | _ \<Rightarrow> False)"

text \<open>\<open>handle_client_message\<close> on a parsed action. \<open>Refine\<close> runs in its own steps, below.\<close>

fun client_action :: "datetime \<Rightarrow> card_action \<Rightarrow> app_state \<Rightarrow> app_state" where
  "client_action now (ActApprove i) s = decide_by (approve now i) (\<lambda>c. [TApprove c]) s"
| "client_action now (ActDismiss i) s = decide_by (dismiss now i) (\<lambda>c. [TDismiss c]) s"
| "client_action now (ActEdit i t) s = decide_by (edit now i t) (\<lambda>c. [TEdit c t]) s"
| "client_action now (ActSelectOption i idx) s =
     decide_by (approve now i) (\<lambda>c. if is_multiple_choice c then [TSelect c idx] else []) s"
| "client_action now (ActRefine _ _) s = s"

fun run_task :: "datetime \<Rightarrow> mailer \<Rightarrow> task \<Rightarrow> app_state \<Rightarrow> app_state option" where
  "run_task now m (TApprove c) s = Some (on_approve now m c s)"
| "run_task now m (TDismiss c) s = Some (on_dismiss now c s)"
| "run_task now m (TEdit c t) s = Some (on_edit now m c t s)"
| "run_task now m (TSelect c idx) s = Some (on_select_option c idx s)"
| "run_task now m (TResume c p approved) s = resume_agent c p approved s"

subsection \<open>REST endpoints\<close>

datatype http_status = OK | BAD_REQUEST | NOT_FOUND

definition rest_get_card :: "uuid option \<Rightarrow> app_state \<Rightarrow> http_status \<times> approval_card option" where
  "rest_get_card parsed s = (case parsed of
     None \<Rightarrow> (BAD_REQUEST, None)
   | Some i \<Rightarrow> (case List.find (\<lambda>c. c_id c = i) (all_cards (s_queue s)) of
       Some c \<Rightarrow> (OK, Some c) | None \<Rightarrow> (NOT_FOUND, None)))"

definition rest_decide ::
  "(uuid \<Rightarrow> card_queue \<Rightarrow> approval_card option \<times> card_queue) \<Rightarrow> (approval_card \<Rightarrow> task list) \<Rightarrow>
   uuid option \<Rightarrow> app_state \<Rightarrow> http_status \<times> app_state" where
  "rest_decide op tasks parsed s = (case parsed of
     None \<Rightarrow> (BAD_REQUEST, s)
   | Some i \<Rightarrow> (case fst (op i (s_queue s)) of
       Some _ \<Rightarrow> (OK, decide_by (op i) tasks s)
     | None \<Rightarrow> (NOT_FOUND, decide_by (op i) tasks s)))"

definition rest_approve_card :: "datetime \<Rightarrow> uuid option \<Rightarrow> app_state \<Rightarrow> http_status \<times> app_state" where
  "rest_approve_card now = rest_decide (approve now) (\<lambda>c. [TApprove c])"

definition rest_dismiss_card :: "datetime \<Rightarrow> uuid option \<Rightarrow> app_state \<Rightarrow> http_status \<times> app_state" where
  "rest_dismiss_card now = rest_decide (dismiss now) (\<lambda>c. [TDismiss c])"

definition rest_edit_card :: "datetime \<Rightarrow> uuid option \<Rightarrow> string \<Rightarrow> app_state \<Rightarrow> http_status \<times> app_state" where
  "rest_edit_card now parsed t = rest_decide (\<lambda>i. edit now i t) (\<lambda>c. [TEdit c t]) parsed"

definition create_test_card ::
  "uuid \<Rightarrow> datetime \<Rightarrow> string \<Rightarrow> string \<Rightarrow> string \<Rightarrow> string \<Rightarrow> f32 \<Rightarrow> app_state \<Rightarrow> app_state" where
  "create_test_card fresh now channel sender msg reply confidence s =
     s\<lparr>s_queue := push now
        (new_reply fresh now channel sender msg reply confidence ''chat_test'' 15) (s_queue s)\<rparr>"

subsection \<open>To-do agents and their channel\<close>

definition new_agent :: "uuid \<Rightarrow> uuid \<Rightarrow> todo_agent" where
  "new_agent tid job = \<lparr>ta_todo_id = tid, ta_job_id = job, ta_permit = True, ta_responded = False,
     ta_tx = True, ta_alive = True, ta_inbox = []\<rparr>"

text \<open>The dispatch loop starting an agent: \<open>spawn_todo_agent\<close> hands it the permit.\<close>

definition dispatch_agent :: "datetime \<Rightarrow> uuid \<Rightarrow> bool \<Rightarrow> app_state \<Rightarrow> app_state option" where
  "dispatch_agent now job spawned s = (case dispatch now spawned (s_aq s) of
     None \<Rightarrow> None
   | Some (None, aq) \<Rightarrow> Some (s\<lparr>s_aq := aq\<rparr>)
   | Some (Some (t, _), aq) \<Rightarrow>
       Some (emit (Started job (Some (t_id t)))
         (s\<lparr>s_aq := aq, s_agents := s_agents s @ [new_agent (t_id t) job]\<rparr>)))"

text \<open>\<open>send_status(ApprovalNeeded)\<close> first pushes the action card and then, in a second step,
  registers it, marks the item and gives the permit back.\<close>

definition approval_request_card ::
  "uuid \<Rightarrow> datetime \<Rightarrow> uuid \<Rightarrow> string \<Rightarrow> string option \<Rightarrow> approval_card" where
  "approval_request_card fresh now tid headline detail =
     with_todo_id tid (without_expiry (new_card fresh now (Action headline detail) Todos 60))"

definition set_agent :: "nat \<Rightarrow> (todo_agent \<Rightarrow> todo_agent) \<Rightarrow> app_state \<Rightarrow> app_state" where
  "set_agent n f s = s\<lparr>s_agents := (s_agents s)[n := f (s_agents s ! n)]\<rparr>"

definition mark_todo :: "datetime \<Rightarrow> uuid \<Rightarrow> todo_status \<Rightarrow> app_state \<Rightarrow> app_state" where
  "mark_todo now tid st s =
     s\<lparr>s_aq := broadcast_todo_update tid (snd (set_todo_status now tid st (s_aq s)))\<rparr>"

definition release_permit :: "nat \<Rightarrow> app_state \<Rightarrow> app_state" where
  "release_permit n s =
     (if ta_permit (s_agents s ! n)
      then set_agent n (\<lambda>a. a\<lparr>ta_permit := False\<rparr>)
             (s\<lparr>s_aq := (s_aq s)\<lparr>aq_permits := aq_permits (s_aq s) + 1\<rparr>\<rparr>)
      else s)"

definition request_register ::
  "datetime \<Rightarrow> nat \<Rightarrow> uuid \<Rightarrow> uuid \<Rightarrow> string \<Rightarrow> string \<Rightarrow> app_state \<Rightarrow> app_state" where
  "request_register now n cid request tool headline s =
     (let a = s_agents s ! n;
          s1 = (if ta_tx a
                then s\<lparr>s_approvals := register_approval cid
                       \<lparr>ap_request_id = request, ap_agent = n, ap_todo_id = ta_todo_id a\<rparr> (s_approvals s)\<rparr>
                else s);
          s2 = mark_todo now (ta_todo_id a) AwaitingApproval s1;
          s3 = release_permit n s2;
          s4 = (if ta_permit a
                then s3\<lparr>s_aq := todo_send (AgentStatus (aq_permits (s_aq s3)) (aq_permits (s_aq s3))) (s_aq s3)\<rparr>
                else s3)
      in emit (ApprovalNeeded (ta_job_id a) cid tool headline) s4)"

definition respond :: "datetime \<Rightarrow> nat \<Rightarrow> string \<Rightarrow> app_state \<Rightarrow> app_state" where
  "respond now n content s =
     (let a = s_agents s ! n;
          s1 = set_agent n (\<lambda>a. a\<lparr>ta_responded := True\<rparr>) s;
          s2 = emit (ActCompleted (ta_job_id a) (condense_summary content))
                 (emit (AgentResponse (ta_job_id a) content) s1);
          s3 = mark_todo now (ta_todo_id a) ReadyForReview s2
      in set_agent n (\<lambda>a. a\<lparr>ta_tx := False\<rparr>) s3)"

definition shutdown :: "datetime \<Rightarrow> nat \<Rightarrow> app_state \<Rightarrow> app_state" where
  "shutdown now n s =
     (let a = s_agents s ! n;
          s1 = (if ta_responded a then s
                else mark_todo now (ta_todo_id a) Created
                  (emit (ActFailed (ta_job_id a) ''Agent exited without producing a response'') s));
          s2 = s1\<lparr>s_approvals := remove_for_todo (ta_todo_id a) (s_approvals s1)\<rparr>;
          s3 = release_permit n (set_agent n (\<lambda>a. a\<lparr>ta_tx := False\<rparr>) s2)
      in set_agent n (\<lambda>a. a\<lparr>ta_alive := False\<rparr>) s3)"

subsection \<open>The system\<close>

definition remove_nth :: "nat \<Rightarrow> 'a list \<Rightarrow> 'a list" where
  "remove_nth k xs = take k xs @ drop (Suc k) xs"

datatype app_event =
    EvPush datetime approval_card
  | EvClient datetime card_action
  | EvTask datetime nat
  | EvRefineCommit datetime uuid string f32
  | EvRefinePersist datetime approval_card
  | EvExpire datetime datetime
  | EvAsk uuid nat
  | EvEnqueue datetime uuid
  | EvScan datetime
  | EvRecover datetime
  | EvDispatch datetime uuid bool
  | EvRequestPush datetime uuid nat string "string option"
  | EvRequestRegister datetime nat uuid uuid string string
  | EvRespond datetime nat string
  | EvShutdown datetime nat

definition on_queue :: "queue_op \<Rightarrow> app_state \<Rightarrow> app_state" where
  "on_queue op s = s\<lparr>s_queue := apply_op op (s_queue s)\<rparr>"

definition draw :: "uuid \<Rightarrow> app_state \<Rightarrow> app_state" where
  "draw i s = s\<lparr>s_drawn := i # s_drawn s\<rparr>"

inductive app_step :: "mailer \<Rightarrow> app_state \<Rightarrow> app_event \<Rightarrow> app_state \<Rightarrow> bool" for m where
  push: "c_id c \<notin> set (s_drawn s) \<Longrightarrow> c_status c = CardPending \<Longrightarrow>
    app_step m s (EvPush now c) (on_queue (OpPush now c) (draw (c_id c) s))"
| client: "app_step m s (EvClient now act) (client_action now act s)"
| task: "k < length (s_tasks s) \<Longrightarrow>
    run_task now m (s_tasks s ! k) (s\<lparr>s_tasks := remove_nth k (s_tasks s)\<rparr>) = Some s' \<Longrightarrow>
    app_step m s (EvTask now k) s'"
| refine_commit: "app_step m s (EvRefineCommit now i t x) (on_queue (OpRefineCommit now i t x) s)"
| refine_persist: "app_step m s (EvRefinePersist now c) (on_queue (OpRefinePersist now c) s)"
| expire: "app_step m s (EvExpire db_now now) (on_queue (OpExpire db_now now) s)"
| ask: "app_step m s (EvAsk i tx) (s\<lparr>s_choices := register_choice i tx (s_choices s)\<rparr>)"
| enqueue: "app_step m s (EvEnqueue now i) (s\<lparr>s_aq := snd (enqueue now i (s_aq s))\<rparr>)"
| scan: "app_step m s (EvScan now) (s\<lparr>s_aq := scan_startable now (s_aq s)\<rparr>)"
| recover: "app_step m s (EvRecover now) (s\<lparr>s_aq := recover now (s_aq s)\<rparr>)"
| dispatch: "dispatch_agent now job spawned s = Some s' \<Longrightarrow> app_step m s (EvDispatch now job spawned) s'"
| request_push: "fresh \<notin> set (s_drawn s) \<Longrightarrow> n < length (s_agents s) \<Longrightarrow>
    app_step m s (EvRequestPush now fresh n headline detail)
      (on_queue (OpPush now (approval_request_card fresh now (ta_todo_id (s_agents s ! n)) headline detail))
        (draw fresh s))"
| request_register: "n < length (s_agents s) \<Longrightarrow>
    app_step m s (EvRequestRegister now n cid req tool headline)
      (request_register now n cid req tool headline s)"
| respond: "n < length (s_agents s) \<Longrightarrow>
    app_step m s (EvRespond now n content) (respond now n content s)"
| shutdown: "n < length (s_agents s) \<Longrightarrow>
    app_step m s (EvShutdown now n) (shutdown now n s)"

definition app_init :: "app_state \<Rightarrow> bool" where
  "app_init s \<longleftrightarrow> s_tasks s = [] \<and> s_outbox s = [] \<and> s_agents s = [] \<and> s_approvals s = [] \<and>
     ch_entries (s_choices s) = [] \<and> distinct (card_ids (s_queue s)) \<and>
     set (card_ids (s_queue s)) \<subseteq> set (s_drawn s) \<and> aq_permits (s_aq s) = aq_max (s_aq s)"

end
