(* ===== verification/Approval_Safety.thy ===== *)
theory Approval_Safety
  imports Card_Handlers
begin

text \<open>
  Safety of the approval flow, as invariants of the system of \<open>Card_Handlers\<close> over all
  interleavings of client actions, handlers, refinements, expiry sweeps and agents: no message
  leaves without the user's decision on that very card, none leaves twice, and the permits of the
  agents add up.
\<close>

subsection \<open>Mail\<close>

fun sending_task :: "task \<Rightarrow> bool" where
  "sending_task (TApprove _) = True"
| "sending_task (TEdit _ _) = True"
| "sending_task _ = False"

fun task_card :: "task \<Rightarrow> approval_card" where
  "task_card (TApprove c) = c"
| "task_card (TDismiss c) = c"
| "task_card (TEdit c _) = c"
| "task_card (TSelect c _) = c"
| "task_card (TResume c _ _) = c"

definition mails :: "uuid \<Rightarrow> app_state \<Rightarrow> nat" where
  "mails i s = length (filter (\<lambda>(c, _). c_id c = i) (s_outbox s))"

definition sendings :: "uuid \<Rightarrow> task list \<Rightarrow> nat" where
  "sendings i ts = length (filter (\<lambda>t. sending_task t \<and> c_id (task_card t) = i) ts)"

text \<open>The text a card sends.\<close>

fun payload_body :: "card_payload \<Rightarrow> string option" where
  "payload_body (Reply r) = Some (r_suggested_reply r)"
| "payload_body (Compose p) = Some (p_draft_body p)"
| "payload_body _ = None"

text \<open>The user decided on this card: approved it, or edited it, and then a reply carries the edited
  text.\<close>

definition decided_in :: "app_event list \<Rightarrow> approval_card \<Rightarrow> bool" where
  "decided_in es c \<longleftrightarrow>
     (\<exists>now. EvClient now (ActApprove (c_id c)) \<in> set es) \<or>
     (\<exists>now t. EvClient now (ActEdit (c_id c) t) \<in> set es \<and>
        (\<forall>s. suggested_reply (c_payload c) = Some s \<longrightarrow> s = t))"

definition mail_inv :: "app_event list \<Rightarrow> app_state \<Rightarrow> bool" where
  "mail_inv es s \<longleftrightarrow>
     distinct (card_ids (s_queue s)) \<and> set (card_ids (s_queue s)) \<subseteq> set (s_drawn s) \<and>
     (\<forall>i. mails i s + sendings i (s_tasks s) \<le> 1) \<and>
     (\<forall>i. mails i s + sendings i (s_tasks s) > 0 \<longrightarrow>
        i \<in> set (s_drawn s) \<and> \<not> is_pending i (s_queue s)) \<and>
     (\<forall>t \<in> set (s_tasks s). sending_task t \<longrightarrow> decided_in es (task_card t)) \<and>
     (\<forall>(c, e) \<in> set (s_outbox s). decided_in es c \<and> payload_body (c_payload c) = Some (ml_body e))"

lemma decided_in_append: "decided_in es c \<Longrightarrow> decided_in (es @ [e]) c"
  by (auto simp: decided_in_def)

lemma mail_inv_append: "mail_inv es s \<Longrightarrow> mail_inv (es @ [e]) s"
  unfolding mail_inv_def by (fast intro: decided_in_append)

text \<open>A step that leaves mail, sending tasks, queue and drawn ids alone keeps the invariant.\<close>

definition same_mail :: "app_state \<Rightarrow> app_state \<Rightarrow> bool" where
  "same_mail s s' \<longleftrightarrow> s_queue s' = s_queue s \<and> s_outbox s' = s_outbox s \<and> s_drawn s' = s_drawn s \<and>
     filter sending_task (s_tasks s') = filter sending_task (s_tasks s)"

lemma sendings_filter: "sendings i ts = length (filter (\<lambda>t. c_id (task_card t) = i) (filter sending_task ts))"
  by (simp add: sendings_def conj_commute)

lemma mail_inv_same:
  assumes "mail_inv es s" "same_mail s s'"
  shows "mail_inv es s'"
proof -
  have "sendings i (s_tasks s') = sendings i (s_tasks s)" "mails i s' = mails i s" for i
    using assms(2) by (simp_all add: sendings_filter same_mail_def mails_def)
  moreover have "{t \<in> set (s_tasks s'). sending_task t} = {t \<in> set (s_tasks s). sending_task t}"
    using assms(2) by (metis same_mail_def set_filter)
  ultimately show ?thesis
    using assms by (auto simp: mail_inv_def same_mail_def)
qed

lemma same_mail_simps [simp]:
  "same_mail s s" "same_mail s (emit msg s)" "same_mail s (s\<lparr>s_aq := aq\<rparr>)"
  "same_mail s (s\<lparr>s_choices := ch\<rparr>)" "same_mail s (s\<lparr>s_approvals := ap\<rparr>)"
  "same_mail s (set_agent n f s)" "same_mail s (s\<lparr>s_agents := as\<rparr>)"
  "same_mail s (mark_todo now tid st s)" "same_mail s (release_permit n s)"
  by (simp_all add: same_mail_def emit_def set_agent_def mark_todo_def release_permit_def)

lemma same_mail_trans [trans]: "same_mail a b \<Longrightarrow> same_mail b c \<Longrightarrow> same_mail a c"
  by (simp add: same_mail_def)

lemma same_mail_fields:
  "s_queue s' = s_queue s \<Longrightarrow> s_outbox s' = s_outbox s \<Longrightarrow> s_drawn s' = s_drawn s \<Longrightarrow>
   s_tasks s' = s_tasks s \<Longrightarrow> same_mail s s'"
  by (simp add: same_mail_def)

lemma agent_frame [simp]:
  "s_queue (emit msg s) = s_queue s" "s_outbox (emit msg s) = s_outbox s"
  "s_drawn (emit msg s) = s_drawn s" "s_tasks (emit msg s) = s_tasks s"
  "s_queue (set_agent n f s) = s_queue s" "s_outbox (set_agent n f s) = s_outbox s"
  "s_drawn (set_agent n f s) = s_drawn s" "s_tasks (set_agent n f s) = s_tasks s"
  "s_queue (mark_todo now tid st s) = s_queue s" "s_outbox (mark_todo now tid st s) = s_outbox s"
  "s_drawn (mark_todo now tid st s) = s_drawn s" "s_tasks (mark_todo now tid st s) = s_tasks s"
  "s_queue (release_permit n s) = s_queue s" "s_outbox (release_permit n s) = s_outbox s"
  "s_drawn (release_permit n s) = s_drawn s" "s_tasks (release_permit n s) = s_tasks s"
  by (simp_all add: emit_def set_agent_def mark_todo_def release_permit_def)

lemma agent_ops_same_mail:
  "dispatch_agent now job sp s = Some s' \<Longrightarrow> same_mail s s'"
  "same_mail s (request_register now n cid req tool headline s)"
  "same_mail s (respond now n content s)"
  "same_mail s (shutdown now n s)"
  "resume_agent c p ok s = Some s' \<Longrightarrow> same_mail s s'"
  by (auto intro!: same_mail_fields simp: dispatch_agent_def request_register_def respond_def
      shutdown_def resume_agent_def Let_def split: option.splits prod.splits if_splits)

lemma resolve_same_mail: "same_mail s (resolve_approval now c ok s)"
  by (auto simp: resolve_approval_def same_mail_def split: prod.splits option.splits bool.splits)

lemma on_queue_mail [simp]: "mails i (on_queue op s) = mails i s" "s_tasks (on_queue op s) = s_tasks s"
  "s_outbox (on_queue op s) = s_outbox s" "s_drawn (on_queue op s) = s_drawn s"
  "s_queue (on_queue op s) = apply_op op (s_queue s)"
  by (simp_all add: on_queue_def mails_def)

lemma card_ids_step:
  "set (card_ids (apply_op op q)) \<subseteq> set (card_ids q) \<union> {i. \<exists>now c. op = OpPush now c \<and> i = c_id c}"
proof (cases op)
  case (OpExpire db_now now)
  have "set (prune_history (map (expire_card now) (q_cards q))) \<subseteq> expire_card now ` set (q_cards q)"
    using prune_history_set by fastforce
  then show ?thesis using OpExpire by (fastforce simp: card_ids_def cards_after)
next
  case (OpMarkSent now i)
  then show ?thesis
    by (simp add: card_ids_def cards_after del: set_map)
qed (auto simp: card_ids_def cards_after simp flip: set_map simp: ids_decide)

text \<open>Queue operations keep the invariant, a new card provided its id is new.\<close>

lemma mail_inv_queue:
  assumes "mail_inv es s" and "op_ok op (s_queue s)"
    and "\<And>now c. op = OpPush now c \<Longrightarrow> c_id c \<notin> set (s_drawn s) \<and> c_id c \<in> set (s_drawn s')"
    and "s_queue s' = apply_op op (s_queue s)" and "s_tasks s' = s_tasks s"
    and "s_outbox s' = s_outbox s" and "set (s_drawn s) \<subseteq> set (s_drawn s')"
  shows "mail_inv es s'"
proof -
  have d: "distinct (card_ids (s_queue s))" using assms(1) by (simp add: mail_inv_def)
  have pend: "\<not> is_pending i (s_queue s')" if "\<not> is_pending i (s_queue s)" "i \<in> set (s_drawn s)" for i
    unfolding assms(4) using not_pending_stable [OF d assms(2) that(1)] assms(3) that(2) by blast
  have "set (card_ids (s_queue s)) \<subseteq> set (s_drawn s)" using assms(1) by (simp add: mail_inv_def)
  then have "set (card_ids (s_queue s')) \<subseteq> set (s_drawn s')"
    unfolding assms(4) using card_ids_step [of op "s_queue s"] assms(3,7) by blast
  then show ?thesis
    using assms(1,5,6,7) pend ids_distinct_step [OF d assms(2)] assms(4)
    by (auto simp: mail_inv_def mails_def)
qed

subsubsection \<open>Decisions\<close>

lemma sendings_append [simp]: "sendings i (xs @ ys) = sendings i xs + sendings i ys"
  by (simp add: sendings_def)

lemma sendings_simps [simp]:
  "sendings i [] = 0"
  "sendings i (t # ts) = (if sending_task t \<and> c_id (task_card t) = i then 1 else 0) + sendings i ts"
  by (simp_all add: sendings_def)

text \<open>A decision: the queue operation decides a pending card, and at most one sending task for it is
  added.\<close>

lemma mail_inv_decide:
  assumes inv: "mail_inv es s"
    and op: "snd (dec (s_queue s)) = apply_op op (s_queue s)" "op_ok op (s_queue s)"
      "\<And>now c. op \<noteq> OpPush now c"
    and res: "\<And>c. fst (dec (s_queue s)) = Some c \<Longrightarrow> is_pending (c_id c) (s_queue s) \<and>
        \<not> is_pending (c_id c) (apply_op op (s_queue s)) \<and> c_id c \<in> set (card_ids (s_queue s))"
    and tasks: "\<And>c. length (tasks c) \<le> 1 \<and> (\<forall>t \<in> set (tasks c). task_card t = c)"
    and ev: "\<And>c t. fst (dec (s_queue s)) = Some c \<Longrightarrow> t \<in> set (tasks c) \<Longrightarrow> sending_task t \<Longrightarrow> decided_in es c"
  shows "mail_inv es (decide_by dec tasks s)"
proof (cases "fst (dec (s_queue s))")
  case None
  then have "decide_by dec tasks s = on_queue op s"
    using op(1) by (auto simp: decide_by_def on_queue_def split: prod.splits)
  then show ?thesis
    using mail_inv_queue [OF inv op(2), of "on_queue op s"] op(3) by simp
next
  case (Some c)
  let ?s1 = "on_queue op s"
  have dec: "decide_by dec tasks s = ?s1\<lparr>s_tasks := s_tasks s @ tasks c\<rparr>"
    using Some op(1) by (auto simp: decide_by_def on_queue_def split: prod.splits)
  have inv1: "mail_inv es ?s1"
    using mail_inv_queue [OF inv op(2), of ?s1] op(3) by simp
  let ?i = "c_id c"
  have none: "mails ?i s + sendings ?i (s_tasks s) = 0"
    using inv res [OF Some] by (auto simp: mail_inv_def)
  have drawn: "?i \<in> set (s_drawn s)" using inv res [OF Some] by (auto simp: mail_inv_def)
  have one: "sendings j (tasks c) \<le> (if j = ?i then 1 else 0)" for j
    using tasks [of c] by (cases "tasks c") auto
  have "mails j ?s1 + sendings j (s_tasks s @ tasks c) \<le> 1" for j
    using inv none one [of j] by (cases "j = ?i") (auto simp: mail_inv_def add.assoc [symmetric])
  moreover have "j \<in> set (s_drawn s) \<and> \<not> is_pending j (s_queue ?s1)"
    if "mails j ?s1 + sendings j (s_tasks s @ tasks c) > 0" for j
    using that inv1 one [of j] drawn res [OF Some] by (cases "j = ?i") (auto simp: mail_inv_def)
  ultimately show ?thesis
    unfolding dec using inv1 ev [OF Some] tasks [of c]
    by (auto simp: mail_inv_def mails_def)
qed

lemma pending_in_ids: "is_pending i q \<Longrightarrow> i \<in> set (card_ids q)"
  by (auto simp: is_pending_def find_card_def card_ids_def split: option.splits dest!: find_SomeD)

lemma mail_inv_client:
  assumes "mail_inv es s"
  shows "mail_inv (es @ [EvClient now act]) (client_action now act s)"
proof (cases act)
  case (ActApprove i)
  then show ?thesis
    using decision_result(1) [of now i "s_queue s"]
    by (auto intro!: mail_inv_decide [OF mail_inv_append [OF assms], where op = "OpApprove now i"]
        simp: pending_after_decision pending_in_ids) (auto simp: decided_in_def)
next
  case (ActDismiss i)
  then show ?thesis
    using decision_result(2) [of now i "s_queue s"]
    by (auto intro!: mail_inv_decide [OF mail_inv_append [OF assms], where op = "OpDismiss now i"]
        simp: pending_after_decision pending_in_ids)
next
  case (ActEdit i t)
  then show ?thesis
    using decision_result(3) [of now i t "s_queue s"]
    by (auto intro!: mail_inv_decide [OF mail_inv_append [OF assms], where op = "OpEdit now i t"]
        simp: pending_after_decision pending_in_ids) (auto simp: decided_in_def)
next
  case (ActSelectOption i idx)
  then show ?thesis
    using decision_result(1) [of now i "s_queue s"]
    by (auto intro!: mail_inv_decide [OF mail_inv_append [OF assms], where op = "OpApprove now i"]
        simp: pending_after_decision pending_in_ids)
next
  case (ActRefine i t)
  then show ?thesis by (simp add: mail_inv_append assms)
qed

subsubsection \<open>Handlers\<close>

lemma filter_remove_nth:
  assumes "k < length xs"
  shows "length (filter P xs) = length (filter P (remove_nth k xs)) + (if P (xs ! k) then 1 else 0)"
proof -
  have "length (filter P xs) = length (filter P (take k xs @ xs ! k # drop (Suc k) xs))"
    using id_take_nth_drop [OF assms] by simp
  then show ?thesis by (simp add: remove_nth_def)
qed

lemma set_remove_nth: "set (remove_nth k xs) \<subseteq> set xs"
  by (auto simp: remove_nth_def dest: in_set_takeD in_set_dropD)

lemma sendings_remove_nth:
  "k < length ts \<Longrightarrow> sendings i ts = sendings i (remove_nth k ts) +
     (if sending_task (ts ! k) \<and> c_id (task_card (ts ! k)) = i then 1 else 0)"
  unfolding sendings_def by (rule filter_remove_nth)

lemma mail_inv_untask:
  assumes "mail_inv es s" "k < length (s_tasks s)"
  shows "mail_inv es (s\<lparr>s_tasks := remove_nth k (s_tasks s)\<rparr>)"
proof -
  let ?r = "remove_nth k (s_tasks s)"
  have le: "mails i s + sendings i ?r \<le> mails i s + sendings i (s_tasks s)" for i
    using sendings_remove_nth [OF assms(2), of i] by simp
  have once: "mails i s + sendings i ?r \<le> 1" for i
    using le [of i] assms(1) unfolding mail_inv_def by (meson order.trans)
  have settled: "i \<in> set (s_drawn s) \<and> \<not> is_pending i (s_queue s)" if "mails i s + sendings i ?r > 0" for i
    using le [of i] that assms(1) unfolding mail_inv_def by (meson order_less_le_trans)
  have "\<forall>t \<in> set ?r. sending_task t \<longrightarrow> decided_in es (task_card t)"
    using assms(1) set_remove_nth [of k "s_tasks s"] unfolding mail_inv_def by blast
  then show ?thesis
    using assms(1) once settled by (simp add: mail_inv_def mails_def)
qed

lemma send_body:
  "send_reply_email m cfg meta body = Inr e \<Longrightarrow> ml_body e = body"
  "send_new_email m cfg rcpt subj body = Inr e \<Longrightarrow> ml_body e = body"
  by (auto simp: send_reply_email_def send_new_email_def deliver_def split: option.splits if_splits)

lemma send_reply_effect:
  "send_reply now m c s = s \<or> (\<exists>e. send_reply now m c s = s_mark_sent now (c_id c) (record_sent c e s) \<and>
     payload_body (c_payload c) = Some (ml_body e))"
  unfolding send_reply_def
  by (simp split: card_payload.split option.split sum.split) (metis send_body(1))

lemma send_compose_effect:
  "send_compose now m c s = s \<or> (\<exists>e. send_compose now m c s = s_mark_sent now (c_id c) (record_sent c e s) \<and>
     payload_body (c_payload c) = Some (ml_body e))"
  unfolding send_compose_def
  by (simp split: card_payload.split option.split sum.split) (metis send_body(2))

lemma handler_effect:
  "same_mail s (on_approve now m c s) \<or>
     (\<exists>e. on_approve now m c s = s_mark_sent now (c_id c) (record_sent c e s) \<and>
        payload_body (c_payload c) = Some (ml_body e))"
  "same_mail s (on_edit now m c t s) \<or>
     (\<exists>e. on_edit now m c t s = s_mark_sent now (c_id c) (record_sent c e s) \<and>
        payload_body (c_payload c) = Some (ml_body e))"
  using send_reply_effect [of now m c s] send_compose_effect [of now m c s] resolve_same_mail [of s now c True]
  by (auto simp: on_edit_def on_approve_def split: card_payload.splits)

lemma mail_inv_sent:
  assumes "mail_inv es s" and "mails (c_id c) s + sendings (c_id c) (s_tasks s) = 0"
    and "c_id c \<in> set (s_drawn s)" and "\<not> is_pending (c_id c) (s_queue s)"
    and "decided_in es c" and "payload_body (c_payload c) = Some (ml_body e)"
  shows "mail_inv es (s_mark_sent now (c_id c) (record_sent c e s))"
proof -
  have "mails i (record_sent c e s) = mails i s + (if i = c_id c then 1 else 0)" for i
    by (simp add: mails_def record_sent_def)
  then have "mail_inv es (record_sent c e s)"
    using assms unfolding mail_inv_def by (auto simp: record_sent_def)
  then show ?thesis
    by (rule mail_inv_queue [where op = "OpMarkSent now (c_id c)"]) (simp_all add: s_mark_sent_def)
qed

lemma mail_inv_task:
  assumes inv: "mail_inv es s" and k: "k < length (s_tasks s)"
    and run: "run_task now m (s_tasks s ! k) (s\<lparr>s_tasks := remove_nth k (s_tasks s)\<rparr>) = Some s'"
  shows "mail_inv es s'"
proof -
  let ?s0 = "s\<lparr>s_tasks := remove_nth k (s_tasks s)\<rparr>"
  let ?t = "s_tasks s ! k"
  note inv0 = mail_inv_untask [OF inv k]
  have mem: "?t \<in> set (s_tasks s)" using k by simp
  have sent: "mail_inv es (s_mark_sent now (c_id c) (record_sent c e ?s0))"
    if "sending_task ?t" "task_card ?t = c" "payload_body (c_payload c) = Some (ml_body e)" for c e
  proof -
    have "mails (c_id c) s + sendings (c_id c) (s_tasks s) \<le> 1" using inv by (simp add: mail_inv_def)
    moreover have pos: "sendings (c_id c) (s_tasks s) = Suc (sendings (c_id c) (remove_nth k (s_tasks s)))"
      using sendings_remove_nth [OF k, of "c_id c"] that by simp
    ultimately have "mails (c_id c) ?s0 + sendings (c_id c) (s_tasks ?s0) = 0" by (simp add: mails_def)
    then show ?thesis
      using inv mem that pos inv0 by (intro mail_inv_sent) (auto simp: mail_inv_def)
  qed
  show ?thesis
  proof (cases ?t)
    case (TApprove c)
    then show ?thesis
      using run handler_effect(1) [of ?s0 now m c] sent [of c] mail_inv_same [OF inv0] by auto
  next
    case (TEdit c t)
    then show ?thesis
      using run handler_effect(2) [of ?s0 now m c t] sent [of c] mail_inv_same [OF inv0] by auto
  next
    case (TDismiss c)
    have "same_mail ?s0 (on_dismiss now c ?s0)"
      using resolve_same_mail by (auto simp: on_dismiss_def split: card_payload.splits)
    with TDismiss run show ?thesis using mail_inv_same [OF inv0] by auto
  next
    case (TSelect c idx)
    have "same_mail ?s0 (on_select_option c idx ?s0)"
      by (auto simp: on_select_option_def split: card_payload.splits)
    with TSelect run show ?thesis using mail_inv_same [OF inv0] by auto
  next
    case (TResume c p ok)
    then show ?thesis
      using run agent_ops_same_mail(5) [of c p ok ?s0 s'] mail_inv_same [OF inv0] by auto
  qed
qed

subsubsection \<open>The system\<close>

lemma mail_inv_step:
  assumes "mail_inv es s" "app_step m s e s'"
  shows "mail_inv (es @ [e]) s'"
  using assms(2)
proof (cases rule: app_step.cases)
  case (push c now)
  have "c_id c \<notin> set (card_ids (s_queue s))" using assms(1) push by (auto simp: mail_inv_def)
  then show ?thesis
    unfolding push
    by (intro mail_inv_append mail_inv_queue [OF assms(1), where op = "OpPush now c"])
       (use push in \<open>auto simp: draw_def\<close>)
next
  case (request_push fresh n now headline detail)
  let ?c = "approval_request_card fresh now (ta_todo_id (s_agents s ! n)) headline detail"
  have "c_id ?c = fresh" "c_status ?c = CardPending"
    by (simp_all add: approval_request_card_def with_todo_id_def without_expiry_def new_card_def)
  moreover have "fresh \<notin> set (card_ids (s_queue s))"
    using assms(1) request_push by (auto simp: mail_inv_def)
  ultimately show ?thesis
    unfolding request_push
    by (intro mail_inv_append mail_inv_queue [OF assms(1), where op = "OpPush now ?c"])
       (use request_push in \<open>auto simp: draw_def\<close>)
next
  case (client now act)
  then show ?thesis using mail_inv_client [OF assms(1)] by simp
next
  case (task k now)
  then show ?thesis using mail_inv_task [OF assms(1)] mail_inv_append by blast
next
  case (refine_commit now i t x)
  then show ?thesis
    by (auto intro!: mail_inv_append mail_inv_queue [OF assms(1), where op = "OpRefineCommit now i t x"])
next
  case (refine_persist now c)
  then show ?thesis
    by (auto intro!: mail_inv_append mail_inv_queue [OF assms(1), where op = "OpRefinePersist now c"])
next
  case (expire db_now now)
  then show ?thesis
    by (auto intro!: mail_inv_append mail_inv_queue [OF assms(1), where op = "OpExpire db_now now"])
qed (use agent_ops_same_mail mail_inv_same [OF assms(1)] mail_inv_append same_mail_simps in metis)+

lemma mail_inv_init: "app_init s \<Longrightarrow> mail_inv [] s"
  by (simp add: app_init_def mail_inv_def mails_def)

interpretation mail: invariant_system app_init "app_step m" mail_inv for m
  by unfold_locales (use mail_inv_init mail_inv_step in blast)+

text \<open>C2: No message leaves without the user. In every run, whatever interleaves, each mail the
  transport accepted was sent for a card that the user approved or edited in that run, and its
  body is the text of that card as decided: for an edited reply, the edited text.\<close>

theorem no_mail_without_decision:
  assumes "reach app_init (app_step m) es s" and "(c, e) \<in> set (s_outbox s)"
  shows "decided_in es c \<and> payload_body (c_payload c) = Some (ml_body e)"
  using mail.reach_inv [OF assms(1)] assms(2) by (auto simp: mail_inv_def)

text \<open>C3: No message leaves twice. In every run at most one mail is sent per card, and once it is
  sent, or about to be, no client can decide on the card again.\<close>

theorem at_most_one_mail_per_card:
  assumes "reach app_init (app_step m) es s"
  shows "mails i s + sendings i (s_tasks s) \<le> 1 \<and> (mails i s > 0 \<longrightarrow> \<not> is_pending i (s_queue s))"
  using mail.reach_inv [OF assms] by (auto simp: mail_inv_def)

subsection \<open>Permits\<close>

definition held :: "app_state \<Rightarrow> nat" where
  "held s = length (filter ta_permit (s_agents s))"

definition permit_inv :: "app_event list \<Rightarrow> app_state \<Rightarrow> bool" where
  "permit_inv es s \<longleftrightarrow> aq_permits (s_aq s) + held s = aq_max (s_aq s)"

lemma filter_list_update:
  "n < length xs \<Longrightarrow> length (filter P (xs[n := y])) + (if P (xs ! n) then 1 else 0) =
     length (filter P xs) + (if P y then 1 else 0)"
  using filter_remove_nth [of n xs P] by (simp add: upd_conv_take_nth_drop remove_nth_def)

lemma aq_ops_permits:
  "aq_permits (snd (enqueue now i q)) = aq_permits q" "aq_max (snd (enqueue now i q)) = aq_max q"
  "aq_permits (scan_startable now q) = aq_permits q" "aq_max (scan_startable now q) = aq_max q"
  "aq_permits (recover now q) = aq_permits q" "aq_max (recover now q) = aq_max q"
proof -
  have list: "list_by_status st q = (r, q') \<Longrightarrow> aq_permits q' = aq_permits q \<and> aq_max q' = aq_max q" for st q r q'
    by (auto simp: list_by_status_def split: prod.splits sum.splits)
  have scan: "aq_permits (scan_startable now q) = aq_permits q \<and> aq_max (scan_startable now q) = aq_max q" for q
    by (auto simp: scan_startable_def enqueue_eligible_frame split: prod.splits option.splits dest!: list)
  then show "aq_permits (scan_startable now q) = aq_permits q" "aq_max (scan_startable now q) = aq_max q"
    by auto
  show "aq_permits (recover now q) = aq_permits q" "aq_max (recover now q) = aq_max q"
    by (auto simp: recover_def Let_def scan scan_frame split: prod.splits option.splits dest!: list)
  show "aq_permits (snd (enqueue now i q)) = aq_permits q" "aq_max (snd (enqueue now i q)) = aq_max q"
    by (auto simp: enqueue_def Let_def split: prod.splits bool.splits dest!: set_todo_status_pair)
qed

lemma permits_frame [simp]:
  "aq_permits (s_aq (mark_todo now tid st s)) = aq_permits (s_aq s)"
  "aq_max (s_aq (mark_todo now tid st s)) = aq_max (s_aq s)"
  "s_agents (mark_todo now tid st s) = s_agents s"
  "s_aq (emit msg s) = s_aq s" "s_agents (emit msg s) = s_agents s"
  "s_aq (set_agent n f s) = s_aq s"
  by (simp_all add: mark_todo_def emit_def set_agent_def)

lemma held_set_agent:
  "n < length (s_agents s) \<Longrightarrow> (\<And>a. ta_permit (f a) = ta_permit a) \<Longrightarrow> held (set_agent n f s) = held s"
  using filter_list_update [of n "s_agents s" ta_permit "f (s_agents s ! n)"]
  by (auto simp: held_def set_agent_def split: if_splits)

lemma held_cong: "s_agents s' = s_agents s \<Longrightarrow> held s' = held s"
  by (simp add: held_def)

lemma length_agents [simp]:
  "length (s_agents (set_agent n f s)) = length (s_agents s)"
  "length (s_agents (release_permit n s)) = length (s_agents s)"
  by (simp_all add: release_permit_def set_agent_def)

lemma permit_inv_release:
  assumes "n < length (s_agents s)" "permit_inv es s"
  shows "permit_inv es (release_permit n s)"
  using assms filter_list_update [of n "s_agents s" ta_permit "(s_agents s ! n)\<lparr>ta_permit := False\<rparr>"]
  by (auto simp: permit_inv_def release_permit_def held_def set_agent_def split: if_splits)

lemma permit_inv_cong:
  "permit_inv es s \<Longrightarrow> held s' = held s \<Longrightarrow> aq_permits (s_aq s') = aq_permits (s_aq s) \<Longrightarrow>
   aq_max (s_aq s') = aq_max (s_aq s) \<Longrightarrow> permit_inv es' s'"
  by (simp add: permit_inv_def)

lemma permit_inv_resume:
  assumes "permit_inv es s" "resume_agent c p ok s = Some s'"
  shows "permit_inv es' s'"
  using assms filter_list_update [of "ap_agent p" "s_agents s" ta_permit
      "(s_agents s ! ap_agent p)\<lparr>ta_permit := True\<rparr>"]
    filter_list_update [of "ap_agent p" "s_agents s" ta_permit "(s_agents s ! ap_agent p)\<lparr>ta_permit := True,
      ta_inbox := ta_inbox (s_agents s ! ap_agent p) @ [(ap_request_id p, ok)]\<rparr>"]
  by (auto simp: resume_agent_def Let_def permit_inv_def held_def emit_def split: if_splits)

lemma permit_inv_dispatch:
  assumes "permit_inv es s" "dispatch_agent now job sp s = Some s'"
  shows "permit_inv es' s'"
proof -
  obtain started aq where run: "dispatch now sp (s_aq s) = Some (started, aq)"
    using assms(2) by (auto simp: dispatch_agent_def split: option.splits)
  show ?thesis
    using dispatch_effect [OF run] assms run
    by (auto simp: dispatch_agent_def permit_inv_def held_def new_agent_def emit_def
        split: option.splits prod.splits)
qed

definition same_permits :: "app_state \<Rightarrow> app_state \<Rightarrow> bool" where
  "same_permits s s' \<longleftrightarrow> s_agents s' = s_agents s \<and> aq_permits (s_aq s') = aq_permits (s_aq s) \<and>
     aq_max (s_aq s') = aq_max (s_aq s)"

lemma permit_inv_same: "permit_inv es s \<Longrightarrow> same_permits s s' \<Longrightarrow> permit_inv es' s'"
  by (simp add: permit_inv_def same_permits_def held_def)

lemma same_permits_simps [simp]:
  "same_permits s (on_queue op s')  = same_permits s s'" "same_permits s (draw i s') = same_permits s s'"
  "same_permits s s" "same_permits s (s\<lparr>s_tasks := ts\<rparr>)" "same_permits s (s\<lparr>s_choices := ch\<rparr>)"
  "same_permits s (s\<lparr>s_approvals := ap\<rparr>)" "same_permits s (s_mark_sent now i (record_sent c e s))"
  by (simp_all add: same_permits_def on_queue_def draw_def s_mark_sent_def record_sent_def)

lemma same_permits_client: "same_permits s (client_action now act s)"
  by (cases act) (auto simp: decide_by_def same_permits_def split: prod.splits option.splits)

lemma same_permits_resolve: "same_permits s (resolve_approval now c ok s)"
  by (auto simp: resolve_approval_def same_permits_def aq_ops_permits
      split: prod.splits option.splits bool.splits dest!: set_todo_status_pair)

lemma same_permits_handlers:
  "same_permits s (on_approve now m c s)" "same_permits s (on_edit now m c t s)"
  "same_permits s (on_dismiss now c s)" "same_permits s (on_select_option c idx s)"
proof -
  have sends: "same_permits s (send_reply now m c s)" "same_permits s (send_compose now m c s)"
    using send_reply_effect [of now m c s] send_compose_effect [of now m c s] by auto
  show ap: "same_permits s (on_approve now m c s)"
    by (simp add: on_approve_def sends same_permits_resolve split: card_payload.split)
  show "same_permits s (on_edit now m c t s)"
    by (simp add: on_edit_def sends same_permits_resolve ap split: card_payload.split)
  show "same_permits s (on_dismiss now c s)"
    by (simp add: on_dismiss_def same_permits_resolve split: card_payload.split)
  show "same_permits s (on_select_option c idx s)"
    by (simp add: on_select_option_def split: card_payload.split)
qed

lemma permit_inv_task:
  assumes "permit_inv es s" and "run_task now m t (s\<lparr>s_tasks := ts\<rparr>) = Some s'"
  shows "permit_inv es' s'"
proof -
  have inv: "permit_inv es (s\<lparr>s_tasks := ts\<rparr>)" using assms(1) by (simp add: permit_inv_def held_def)
  show ?thesis
    using assms(2) permit_inv_resume [OF inv] permit_inv_same [OF inv] same_permits_handlers
    by (cases t) auto
qed

lemma permit_inv_channel:
  assumes "permit_inv es s" "n < length (s_agents s)"
  shows "permit_inv es' (request_register now n cid req tool headline s)"
    and "permit_inv es' (respond now n content s)" and "permit_inv es' (shutdown now n s)"
proof -
  have set: "permit_inv es (set_agent n f s)"
    if "permit_inv es s" "n < length (s_agents s)" "\<And>a. ta_permit (f a) = ta_permit a" for f s
    using that held_set_agent [of n s f] by (simp add: permit_inv_def)
  have mark: "permit_inv es (mark_todo now tid st s) = permit_inv es s"
    and appr: "permit_inv es (s\<lparr>s_approvals := ap\<rparr>) = permit_inv es s"
    and act: "permit_inv es (emit msg s) = permit_inv es s"
    and send: "permit_inv es (s\<lparr>s_aq := todo_send x (s_aq s)\<rparr>) = permit_inv es s" for tid st s ap msg x
    by (simp_all add: permit_inv_def held_def)
  have any: "permit_inv es s \<Longrightarrow> permit_inv es' s" for s by (simp add: permit_inv_def)
  show "permit_inv es' (request_register now n cid req tool headline s)"
    unfolding request_register_def Let_def
    using assms by (intro any) (auto simp: act mark appr send intro!: permit_inv_release)
  show "permit_inv es' (respond now n content s)"
    unfolding respond_def Let_def
    using assms by (intro any set) (auto simp: act mark intro!: set)
  show "permit_inv es' (shutdown now n s)"
    unfolding shutdown_def Let_def
    using assms
    by (intro any set) (auto simp: act mark appr intro!: permit_inv_release set)
qed

lemma permit_inv_step:
  assumes "permit_inv es s" "app_step m s e s'"
  shows "permit_inv (es @ [e]) s'"
  using assms(2)
proof (cases rule: app_step.cases)
  case (task k now)
  then show ?thesis using permit_inv_task [OF assms(1)] by blast
next
  case (dispatch now job spawned)
  then show ?thesis using permit_inv_dispatch [OF assms(1)] by blast
next
  case (client now act)
  then show ?thesis using permit_inv_same [OF assms(1)] same_permits_client by blast
next
  case (enqueue now i)
  then show ?thesis by (auto intro!: permit_inv_same [OF assms(1)] simp: same_permits_def aq_ops_permits)
next
  case (scan now)
  then show ?thesis by (auto intro!: permit_inv_same [OF assms(1)] simp: same_permits_def aq_ops_permits)
next
  case (recover now)
  then show ?thesis by (auto intro!: permit_inv_same [OF assms(1)] simp: same_permits_def aq_ops_permits)
qed (use permit_inv_channel [OF assms(1)] permit_inv_same [OF assms(1)] in \<open>auto\<close>)

lemma permit_inv_init: "app_init s \<Longrightarrow> permit_inv [] s"
  by (simp add: app_init_def permit_inv_def held_def)

interpretation permits: invariant_system app_init "app_step m" permit_inv for m
  by unfold_locales (use permit_inv_init permit_inv_step in blast)+


subsection \<open>What a decision does\<close>

text \<open>C15: An answer reaches the agent that asked. If a tool approval is registered for the card,
  the decision withdraws it from the registry and, as soon as a permit is free, puts the answer
  with the request's id into the inbox of the agent that asked and gives it the permit.\<close>

theorem approval_reaches_agent:
  assumes "map_of (s_approvals s) (c_id c) = Some p" and "c_payload c = Action d det"
    and "ap_agent p < length (s_agents s)" and "ta_alive (s_agents s ! ap_agent p)"
    and "aq_permits (s_aq s) > 0"
  shows "\<exists>s1 s2. run_task now m (if ok then TApprove c else TDismiss c) s = Some s1 \<and>
    map_of (s_approvals s1) (c_id c) = None \<and> s_tasks s1 = s_tasks s @ [TResume c p ok] \<and>
    run_task now m (TResume c p ok) s1 = Some s2 \<and>
    ta_permit (s_agents s2 ! ap_agent p) \<and>
    ta_inbox (s_agents s2 ! ap_agent p) = ta_inbox (s_agents s ! ap_agent p) @ [(ap_request_id p, ok)]"
proof -
  let ?s1 = "s\<lparr>s_approvals := snd (take_approval (c_id c) (s_approvals s)), s_tasks := s_tasks s @ [TResume c p ok]\<rparr>"
  have "resolve_approval now c ok s = ?s1"
    using assms(1) by (simp add: resolve_approval_def take_approval_def)
  then have "run_task now m (if ok then TApprove c else TDismiss c) s = Some ?s1"
    using assms(2) by (cases ok) (simp_all add: on_approve_def on_dismiss_def)
  moreover have "map_of (s_approvals ?s1) (c_id c) = None"
    using approvals.take_rest [of "c_id c" "s_approvals s"] by simp
  moreover obtain s2 where "resume_agent c p ok ?s1 = Some s2" "ta_permit (s_agents s2 ! ap_agent p)"
      "ta_inbox (s_agents s2 ! ap_agent p) = ta_inbox (s_agents s ! ap_agent p) @ [(ap_request_id p, ok)]"
    using assms(3-5) by (simp add: resume_agent_def Let_def emit_def)
  ultimately show ?thesis by (intro exI [of _ ?s1] exI [of _ s2] conjI) simp_all
qed

text \<open>The card of a tool approval is visible before it is registered. A user who approves it in
  between does not answer the agent: the item is queued for a further agent run instead, and no
  answer is on its way to the agent that asked.\<close>

theorem early_approval_starts_over:
  assumes "map_of (s_approvals s) fresh = None" and "s_has_aq s" and "working_db (s_aq s)"
    and "c = approval_request_card fresh now tid headline detail"
  shows "\<exists>s1. run_task later m (TApprove c) s = Some s1 \<and>
    aq_channel (s_aq s1) = aq_channel (s_aq s) @ [tid] \<and> s_tasks s1 = s_tasks s \<and>
    s_agents s1 = s_agents s"
  using assms
  by (simp add: on_approve_def approval_request_card_def with_todo_id_def without_expiry_def
      new_card_def resolve_approval_def take_approval_def enqueue_def set_todo_status_ok Let_def)

text \<open>Editing a compose card. The edit is accepted and the card approved, but the text sent is
  the original draft: the edited text is written to the database only.\<close>

theorem edited_compose_sends_draft:
  assumes "find_card i (s_queue s) = Some c" and "c_status c = CardPending"
    and "c_payload c = Compose p" and "p_channel p = ''email''" and "s_email_config s = Some cfg"
    and "\<forall>h. relay_ok m h" and "\<forall>a. address_ok m a" and "\<forall>e. build_ok m e \<and> transport_ok m e"
  shows "\<exists>c' s2. s_tasks (client_action now (ActEdit i t) s) = s_tasks s @ [TEdit c' t] \<and>
    run_task now m (TEdit c' t) (client_action now (ActEdit i t) s) = Some s2 \<and>
    (\<exists>e. s_outbox s2 = s_outbox s @ [(c', e)] \<and> ml_body e = p_draft_body p)"
proof -
  let ?c = "edit_card now t c"
  have pay: "c_payload ?c = Compose p" using assms(3) by (simp add: edit_card_def map_reply_def)
  have ed: "fst (edit now i t (s_queue s)) = Some ?c"
    using assms(1,2) by (simp add: edit_def Let_def edit_card_def)
  then have act: "client_action now (ActEdit i t) s =
      s\<lparr>s_queue := snd (edit now i t (s_queue s)), s_tasks := s_tasks s @ [TEdit ?c t]\<rparr>"
    by (auto simp: decide_by_def split: prod.splits)
  show ?thesis
    using assms(4-8)
    by (intro exI [of _ ?c])
       (simp add: act pay on_edit_def send_compose_def send_new_email_def deliver_def s_mark_sent_def
         record_sent_def del: client_action.simps)
qed

text \<open>Selecting an option that does not exist. The card is used up, since it counts as
  approved, but the question is not answered and its channel stays registered: whoever asked
  keeps waiting.\<close>

theorem bad_option_leaves_question_open:
  assumes "find_card i (s_queue s) = Some c" and "c_status c = CardPending"
    and "c_payload c = MultipleChoice q os" and "length os \<le> idx"
  shows "\<exists>c' s2. s_tasks (client_action now (ActSelectOption i idx) s) = s_tasks s @ [TSelect c' idx] \<and>
    run_task now m (TSelect c' idx) (client_action now (ActSelectOption i idx) s) = Some s2 \<and>
    s_choices s2 = s_choices s \<and> \<not> is_pending i (s_queue s2)"
proof -
  let ?c = "c\<lparr>c_status := CardApproved, c_updated_at := now\<rparr>"
  have "fst (approve now i (s_queue s)) = Some ?c"
    using assms(1,2) by (simp add: approve_def Let_def)
  then have act: "client_action now (ActSelectOption i idx) s =
      s\<lparr>s_queue := snd (approve now i (s_queue s)), s_tasks := s_tasks s @ [TSelect ?c idx]\<rparr>"
    using assms(3) by (auto simp: decide_by_def is_multiple_choice_def split: prod.splits)
  show ?thesis
    using assms(3,4)
    by (intro exI [of _ ?c]) (simp add: act on_select_option_def pending_after_decision
      del: client_action.simps)
qed

subsection \<open>Witnesses\<close>

definition sample_config :: email_config where
  "sample_config = \<lparr>imap_host = ''imap.x.org'', imap_port = 993, smtp_host = ''smtp.x.org'', smtp_port = 587,
     username = ''me'', password = ''pw'', from_address = ''me@x.org'', poll_interval_secs = 60,
     allowed_senders = []\<rparr>"

definition all_ok :: mailer where
  "all_ok = \<lparr>relay_ok = \<lambda>_. True, address_ok = \<lambda>_. True, build_ok = \<lambda>_. True, transport_ok = \<lambda>_. True\<rparr>"

definition sample_app :: "approval_card list \<Rightarrow> app_state" where
  "sample_app cs = \<lparr>s_queue = \<lparr>q_cards = cs, q_tx = [], q_db = None\<rparr>, s_email_config = Some sample_config,
     s_approvals = [], s_choices = new_choice_registry, s_agents = [], s_aq = sample_agents AgentWorking,
     s_has_aq = True, s_activity = [], s_outbox = [], s_tasks = [], s_drawn = map c_id cs\<rparr>"

definition sample_card :: "card_payload \<Rightarrow> approval_card" where
  "sample_card p = new_card 7 1000 p Messages 30"

definition mail_card :: approval_card where
  "mail_card = sample_card (Reply \<lparr>r_channel = ''email'', r_source_sender = ''ann'', r_source_message = ''Hi'',
     r_suggested_reply = ''Yes'', r_confidence = Fin 1, r_conversation_id = ''c'', r_thread = [],
     r_email_thread = [], r_reply_metadata = Some (JObject [(''reply_to'', JString ''ann@x.org'')]),
     r_message_id = None\<rparr>)"

lemmas sample_app_eval = sample_app_def sample_config_def all_ok_def sample_card_def new_card_def
  mail_card_def find_card_def new_choice_registry_def

definition decided_app :: app_state where
  "decided_app = client_action 2000 (ActEdit 7 ''No'') (sample_app [mail_card])"

definition sent_app :: app_state where
  "sent_app = the (run_task 2001 all_ok (s_tasks decided_app ! 0)
     (decided_app\<lparr>s_tasks := remove_nth 0 (s_tasks decided_app)\<rparr>))"

lemma decided_tasks: "s_tasks decided_app = [TEdit (edit_card 2000 ''No'' mail_card) ''No'']"
  by (simp add: decided_app_def decide_by_def edit_def sample_app_eval Let_def edit_card_def)

lemma sent_run: "run_task 2001 all_ok (s_tasks decided_app ! 0)
     (decided_app\<lparr>s_tasks := remove_nth 0 (s_tasks decided_app)\<rparr>) = Some sent_app"
  by (simp add: sent_app_def decided_tasks)

lemma sent_outbox: "\<exists>e. s_outbox sent_app = [(edit_card 2000 ''No'' mail_card, e)]"
proof -
  have "s_email_config decided_app = Some sample_config" "s_outbox decided_app = []"
    by (simp_all add: decided_app_def decide_by_def edit_def Let_def sample_app_eval)
  then show ?thesis
    by (simp add: sent_app_def decided_tasks on_edit_def send_reply_def send_reply_email_def deliver_def
        s_mark_sent_def record_sent_def edit_card_def map_reply_def sample_app_eval json_str_def json_index_def)
qed

lemma sent_reach:
  "reach app_init (app_step all_ok) [EvClient 2000 (ActEdit 7 ''No''), EvTask 2001 0] sent_app"
proof -
  have "app_init (sample_app [mail_card])"
    by (simp add: app_init_def sample_app_eval card_ids_def sample_agents_eval)
  then have "reach app_init (app_step all_ok) [] (sample_app [mail_card])" by (rule reach_init)
  then have "reach app_init (app_step all_ok) ([] @ [EvClient 2000 (ActEdit 7 ''No'')]) decided_app"
    unfolding decided_app_def by (rule reach_step) (rule app_step.client)
  then have "reach app_init (app_step all_ok) (([] @ [EvClient 2000 (ActEdit 7 ''No'')]) @ [EvTask 2001 0]) sent_app"
    by (rule reach_step) (rule app_step.task, simp add: decided_tasks, rule sent_run)
  then show ?thesis by simp
qed

theorem no_mail_without_decision_witness:
  "\<exists>e. (edit_card 2000 ''No'' mail_card, e) \<in> set (s_outbox sent_app) \<and> ml_body e = ''No''"
proof -
  obtain e where e: "s_outbox sent_app = [(edit_card 2000 ''No'' mail_card, e)]" using sent_outbox by blast
  then have "payload_body (c_payload (edit_card 2000 ''No'' mail_card)) = Some (ml_body e)"
    using no_mail_without_decision [OF sent_reach, of "edit_card 2000 ''No'' mail_card" e] by simp
  with e show ?thesis by (simp add: edit_card_def map_reply_def sample_app_eval)
qed

theorem at_most_one_mail_per_card_witness:
  "mails 7 sent_app = 1 \<and> \<not> is_pending 7 (s_queue sent_app)"
proof -
  have "mails 7 sent_app = 1" using sent_outbox by (auto simp: mails_def edit_card_def frame sample_app_eval)
  then show ?thesis using at_most_one_mail_per_card [OF sent_reach, of 7] by simp
qed


definition waiting_app :: app_state where
  "waiting_app = (sample_app [])\<lparr>s_agents := [(new_agent 3 4)\<lparr>ta_permit := False\<rparr>],
     s_approvals := [(7, \<lparr>ap_request_id = 5, ap_agent = 0, ap_todo_id = 3\<rparr>)]\<rparr>"

theorem approval_reaches_agent_witness:
  "\<exists>s1 s2. run_task 1 all_ok (TApprove (sample_card (Action ''ls'' None))) waiting_app = Some s1 \<and>
     run_task 1 all_ok (TResume (sample_card (Action ''ls'' None)) \<lparr>ap_request_id = 5, ap_agent = 0, ap_todo_id = 3\<rparr> True) s1
       = Some s2 \<and> ta_inbox (s_agents s2 ! 0) = [(5, True)]"
  using approval_reaches_agent [of waiting_app "sample_card (Action ''ls'' None)"
      "\<lparr>ap_request_id = 5, ap_agent = 0, ap_todo_id = 3\<rparr>" "''ls''" None 1 all_ok True]
  by (simp add: waiting_app_def sample_app_def sample_card_def new_card_def new_agent_def sample_agents_eval)
     blast

theorem early_approval_starts_over_witness:
  "\<exists>s1. run_task 2 all_ok (TApprove (approval_request_card 8 1 3 ''ls'' None)) (sample_app []) = Some s1 \<and>
     aq_channel (s_aq s1) = [3]"
  using early_approval_starts_over [of "sample_app []" 8 _ 1 3 "''ls''" None 2 all_ok]
  by (simp add: sample_app_def sample_agents_eval)

lemma sample_found: "find_card 7 (s_queue (sample_app [sample_card p])) = Some (sample_card p)"
  "c_status (sample_card p) = CardPending" "c_payload (sample_card p) = p"
  "s_email_config (sample_app cs) = Some sample_config" "s_outbox (sample_app cs) = []"
  by (simp_all add: sample_app_eval)

definition sample_compose :: compose_data where
  "sample_compose = \<lparr>p_channel = ''email'', p_recipient = ''bob@x.org'', p_subject = None,
     p_draft_body = ''Old'', p_confidence = Fin 1\<rparr>"

theorem edited_compose_sends_draft_witness:
  "\<exists>c' s2 e. run_task 2 all_ok (TEdit c' ''New'')
       (client_action 2 (ActEdit 7 ''New'') (sample_app [sample_card (Compose sample_compose)])) = Some s2 \<and>
     s_outbox s2 = [(c', e)] \<and> ml_body e = ''Old''"
proof -
  have "p_channel sample_compose = ''email''" "p_draft_body sample_compose = ''Old''"
    "\<forall>h. relay_ok all_ok h" "\<forall>a. address_ok all_ok a" "\<forall>e. build_ok all_ok e \<and> transport_ok all_ok e"
    by (simp_all add: sample_compose_def all_ok_def)
  then show ?thesis
    using edited_compose_sends_draft [OF sample_found(1-3) _ sample_found(4)] sample_found(5)
    by (metis append_Nil)
qed

theorem bad_option_leaves_question_open_witness:
  "\<exists>c' s2. run_task 2 all_ok (TSelect c' 2)
       (client_action 2 (ActSelectOption 7 2) (sample_app [sample_card (MultipleChoice ''q'' [''a'', ''b''])])) = Some s2 \<and>
     \<not> is_pending 7 (s_queue s2)"
proof -
  have "length [''a'', ''b''] \<le> 2" by simp
  then show ?thesis
    using bad_option_leaves_question_open [OF sample_found(1-3), where m = all_ok and now = 2]
    by blast
qed

end
