(* ===== verification/Session.thy ===== *)
theory Session
  imports Json
begin

text \<open>
  Sessions, threads and turns of \<open>src/src/agent/session.rs\<close>, with the chat messages of
  \<open>src/src/llm/provider.rs\<close>. The \<open>HashMap\<close> of threads is an association list with one entry per
  thread; the set of auto-approved tools is a list used as a set. Methods that return a reference
  into the structure return the updated structure here.
\<close>

subsection \<open>Chat messages\<close>

datatype role = System | User | Assistant | Tool

record tool_call =
  tc_id :: string
  tc_name :: string
  tc_arguments :: json

record chat_message =
  cm_role :: role
  cm_content :: string
  cm_tool_call_id :: "string option"
  cm_name :: "string option"
  cm_tool_calls :: "tool_call list option"

definition plain_message :: "role \<Rightarrow> string \<Rightarrow> chat_message" where
  [rust_defs]: "plain_message r content = \<lparr>cm_role = r, cm_content = content, cm_tool_call_id = None,
     cm_name = None, cm_tool_calls = None\<rparr>"

definition system_message :: "string \<Rightarrow> chat_message" where
  [rust_defs]: "system_message = plain_message System"

definition user_message :: "string \<Rightarrow> chat_message" where
  [rust_defs]: "user_message = plain_message User"

definition assistant_message :: "string \<Rightarrow> chat_message" where
  [rust_defs]: "assistant_message = plain_message Assistant"

definition assistant_with_tool_calls :: "string option \<Rightarrow> tool_call list \<Rightarrow> chat_message" where
  "assistant_with_tool_calls content calls =
     (plain_message Assistant (case content of None \<Rightarrow> [] | Some s \<Rightarrow> s))
       \<lparr>cm_tool_calls := (if calls = [] then None else Some calls)\<rparr>"

definition tool_result :: "string \<Rightarrow> string \<Rightarrow> string \<Rightarrow> chat_message" where
  "tool_result call_id name content =
     (plain_message Tool content)\<lparr>cm_tool_call_id := Some call_id, cm_name := Some name\<rparr>"

subsection \<open>Turns\<close>

datatype turn_state = TurnProcessing | TurnCompleted | TurnFailed | TurnInterrupted

record turn_tool_call =
  tt_name :: string
  tt_parameters :: json
  tt_result :: "json option"
  tt_error :: "string option"

record turn =
  tn_number :: nat
  tn_user_input :: string
  tn_response :: "string option"
  tn_tool_calls :: "turn_tool_call list"
  tn_state :: turn_state
  tn_started_at :: datetime
  tn_completed_at :: "datetime option"
  tn_error :: "string option"

definition new_turn :: "datetime \<Rightarrow> nat \<Rightarrow> string \<Rightarrow> turn" where
  "new_turn now n user_input = \<lparr>tn_number = n, tn_user_input = user_input, tn_response = None,
     tn_tool_calls = [], tn_state = TurnProcessing, tn_started_at = now, tn_completed_at = None,
     tn_error = None\<rparr>"

definition turn_complete :: "datetime \<Rightarrow> string \<Rightarrow> turn \<Rightarrow> turn" where
  "turn_complete now response t =
     t\<lparr>tn_response := Some response, tn_state := TurnCompleted, tn_completed_at := Some now\<rparr>"

definition turn_fail :: "datetime \<Rightarrow> string \<Rightarrow> turn \<Rightarrow> turn" where
  "turn_fail now error t =
     t\<lparr>tn_error := Some error, tn_state := TurnFailed, tn_completed_at := Some now\<rparr>"

definition turn_interrupt :: "datetime \<Rightarrow> turn \<Rightarrow> turn" where
  "turn_interrupt now t = t\<lparr>tn_state := TurnInterrupted, tn_completed_at := Some now\<rparr>"

definition update_last :: "('a \<Rightarrow> 'a) \<Rightarrow> 'a list \<Rightarrow> 'a list" where
  "update_last f xs = (if xs = [] then [] else butlast xs @ [f (last xs)])"

definition record_tool_call :: "string \<Rightarrow> json \<Rightarrow> turn \<Rightarrow> turn" where
  "record_tool_call name params t =
     t\<lparr>tn_tool_calls := tn_tool_calls t @
        [\<lparr>tt_name = name, tt_parameters = params, tt_result = None, tt_error = None\<rparr>]\<rparr>"

definition record_tool_result :: "json \<Rightarrow> turn \<Rightarrow> turn" where
  "record_tool_result result t =
     t\<lparr>tn_tool_calls := update_last (\<lambda>c. c\<lparr>tt_result := Some result\<rparr>) (tn_tool_calls t)\<rparr>"

definition record_tool_error :: "string \<Rightarrow> turn \<Rightarrow> turn" where
  "record_tool_error error t =
     t\<lparr>tn_tool_calls := update_last (\<lambda>c. c\<lparr>tt_error := Some error\<rparr>) (tn_tool_calls t)\<rparr>"

subsection \<open>Threads\<close>

datatype thread_state = Idle | Processing | AwaitingToolApproval | ThreadCompleted | Interrupted

record tool_summary =
  ts_verb :: string
  ts_target :: string
  ts_headline :: string
  ts_raw_params :: string

record pending_approval =
  pa_request_id :: uuid
  pa_tool_name :: string
  pa_parameters :: json
  pa_description :: string
  pa_tool_call_id :: string
  pa_context_messages :: "chat_message list"
  pa_summary :: "tool_summary option"

record thread =
  th_id :: uuid
  th_session_id :: uuid
  th_state :: thread_state
  th_turns :: "turn list"
  th_created_at :: datetime
  th_updated_at :: datetime
  th_metadata :: json
  th_pending_approval :: "pending_approval option"
  th_pending_auth :: "string option"
  th_last_response_id :: "string option"

definition thread_with_id :: "datetime \<Rightarrow> uuid \<Rightarrow> uuid \<Rightarrow> thread" where
  "thread_with_id now i session_id =
     \<lparr>th_id = i, th_session_id = session_id, th_state = Idle, th_turns = [], th_created_at = now,
      th_updated_at = now, th_metadata = JNull, th_pending_approval = None, th_pending_auth = None,
      th_last_response_id = None\<rparr>"

definition new_thread :: "uuid \<Rightarrow> datetime \<Rightarrow> uuid \<Rightarrow> thread" where
  "new_thread fresh now session_id = thread_with_id now fresh session_id"

definition turn_number :: "thread \<Rightarrow> nat" where
  "turn_number t = length (th_turns t) + 1"

definition last_turn :: "thread \<Rightarrow> turn option" where
  "last_turn t = (if th_turns t = [] then None else Some (last (th_turns t)))"

definition start_turn :: "datetime \<Rightarrow> string \<Rightarrow> thread \<Rightarrow> thread" where
  "start_turn now user_input t =
     t\<lparr>th_turns := th_turns t @ [new_turn now (length (th_turns t)) user_input],
       th_state := Processing, th_updated_at := now\<rparr>"

definition complete_turn :: "datetime \<Rightarrow> string \<Rightarrow> thread \<Rightarrow> thread" where
  "complete_turn now response t =
     t\<lparr>th_turns := update_last (turn_complete now response) (th_turns t),
       th_state := Idle, th_updated_at := now\<rparr>"

definition fail_turn :: "datetime \<Rightarrow> string \<Rightarrow> thread \<Rightarrow> thread" where
  "fail_turn now error t =
     t\<lparr>th_turns := update_last (turn_fail now error) (th_turns t),
       th_state := Idle, th_updated_at := now\<rparr>"

definition await_approval :: "datetime \<Rightarrow> pending_approval \<Rightarrow> thread \<Rightarrow> thread" where
  "await_approval now p t =
     t\<lparr>th_state := AwaitingToolApproval, th_pending_approval := Some p, th_updated_at := now\<rparr>"

definition take_pending_approval :: "thread \<Rightarrow> pending_approval option \<times> thread" where
  "take_pending_approval t = (th_pending_approval t, t\<lparr>th_pending_approval := None\<rparr>)"

definition clear_pending_approval :: "datetime \<Rightarrow> thread \<Rightarrow> thread" where
  "clear_pending_approval now t =
     t\<lparr>th_pending_approval := None, th_state := Idle, th_updated_at := now\<rparr>"

definition enter_auth_mode :: "datetime \<Rightarrow> string \<Rightarrow> thread \<Rightarrow> thread" where
  "enter_auth_mode now ext t = t\<lparr>th_pending_auth := Some ext, th_updated_at := now\<rparr>"

definition take_pending_auth :: "thread \<Rightarrow> string option \<times> thread" where
  "take_pending_auth t = (th_pending_auth t, t\<lparr>th_pending_auth := None\<rparr>)"

definition interrupt :: "datetime \<Rightarrow> thread \<Rightarrow> thread" where
  "interrupt now t =
     t\<lparr>th_turns := update_last (turn_interrupt now) (th_turns t),
       th_state := Interrupted, th_updated_at := now\<rparr>"

definition resume :: "datetime \<Rightarrow> thread \<Rightarrow> thread" where
  "resume now t =
     (if th_state t = Interrupted then t\<lparr>th_state := Idle, th_updated_at := now\<rparr> else t)"

definition turn_messages :: "turn \<Rightarrow> chat_message list" where
  "turn_messages t = user_message (tn_user_input t) #
     (case tn_response t of None \<Rightarrow> [] | Some r \<Rightarrow> [assistant_message r])"

definition messages :: "thread \<Rightarrow> chat_message list" where
  "messages t = concat (map turn_messages (th_turns t))"

definition renumber :: "turn list \<Rightarrow> turn list" where
  "renumber ts = map (\<lambda>(i, t). t\<lparr>tn_number := i\<rparr>) (enumerate 0 ts)"

definition truncate_turns :: "nat \<Rightarrow> thread \<Rightarrow> thread" where
  "truncate_turns keep t =
     (if length (th_turns t) > keep
      then t\<lparr>th_turns := renumber (drop (length (th_turns t) - keep) (th_turns t))\<rparr> else t)"

fun rebuild_turns :: "datetime \<Rightarrow> nat \<Rightarrow> chat_message list \<Rightarrow> turn list" where
  "rebuild_turns now n [] = []"
| "rebuild_turns now n (m # ms) =
     (if cm_role m = User then
        (case ms of
           next # rest \<Rightarrow>
             if cm_role next = Assistant
             then turn_complete now (cm_content next) (new_turn now n (cm_content m))
                    # rebuild_turns now (n + 1) rest
             else new_turn now n (cm_content m) # rebuild_turns now (n + 1) ms
         | [] \<Rightarrow> [new_turn now n (cm_content m)])
      else rebuild_turns now n ms)"

definition restore_from_messages :: "datetime \<Rightarrow> chat_message list \<Rightarrow> thread \<Rightarrow> thread" where
  "restore_from_messages now ms t =
     t\<lparr>th_turns := rebuild_turns now 0 ms, th_state := Idle, th_updated_at := now\<rparr>"

subsection \<open>Sessions\<close>

record session =
  ss_id :: uuid
  ss_user_id :: string
  ss_active_thread :: "uuid option"
  ss_threads :: "(uuid \<times> thread) list"
  ss_created_at :: datetime
  ss_last_active_at :: datetime
  ss_metadata :: json
  ss_auto_approved :: "string list"

definition new_session :: "uuid \<Rightarrow> datetime \<Rightarrow> string \<Rightarrow> session" where
  "new_session fresh now user_id =
     \<lparr>ss_id = fresh, ss_user_id = user_id, ss_active_thread = None, ss_threads = [],
      ss_created_at = now, ss_last_active_at = now, ss_metadata = JNull, ss_auto_approved = []\<rparr>"

definition is_tool_auto_approved :: "session \<Rightarrow> string \<Rightarrow> bool" where
  "is_tool_auto_approved s tool \<longleftrightarrow> tool \<in> set (ss_auto_approved s)"

definition auto_approve_tool :: "string \<Rightarrow> session \<Rightarrow> session" where
  "auto_approve_tool tool s = s\<lparr>ss_auto_approved := List.insert tool (ss_auto_approved s)\<rparr>"

definition get_thread :: "uuid \<Rightarrow> session \<Rightarrow> thread option" where
  "get_thread i s = map_of (ss_threads s) i"

definition put_thread :: "uuid \<Rightarrow> thread \<Rightarrow> session \<Rightarrow> session" where
  "put_thread i t s = s\<lparr>ss_threads := AList.update i t (ss_threads s)\<rparr>"

definition create_thread :: "uuid \<Rightarrow> datetime \<Rightarrow> session \<Rightarrow> session" where
  "create_thread fresh now s =
     (put_thread fresh (new_thread fresh now (ss_id s)) s)
       \<lparr>ss_active_thread := Some fresh, ss_last_active_at := now\<rparr>"

definition active_thread :: "session \<Rightarrow> thread option" where
  "active_thread s = Option.bind (ss_active_thread s) (\<lambda>i. get_thread i s)"

text \<open>\<open>expect\<close> panics if the active thread does not exist: the result \<open>None\<close>.\<close>

definition get_or_create_thread :: "uuid \<Rightarrow> datetime \<Rightarrow> session \<Rightarrow> (thread \<times> session) option" where
  "get_or_create_thread fresh now s =
     (let s1 = (if ss_active_thread s = None then create_thread fresh now s else s)
      in map_option (\<lambda>t. (t, s1)) (active_thread s1))"

definition switch_thread :: "datetime \<Rightarrow> uuid \<Rightarrow> session \<Rightarrow> bool \<times> session" where
  "switch_thread now i s =
     (if get_thread i s \<noteq> None
      then (True, s\<lparr>ss_active_thread := Some i, ss_last_active_at := now\<rparr>) else (False, s))"

subsection \<open>Lemmas\<close>

lemma update_last_simps [simp]:
  "update_last f [] = []" "update_last f (xs @ [x]) = xs @ [f x]"
  "length (update_last f xs) = length xs"
  by (simp_all add: update_last_def)

lemma map_update_last: "(\<And>x. g (f x) = g x) \<Longrightarrow> map g (update_last f xs) = map g xs"
  by (cases xs rule: rev_cases) auto

lemma message_roles [simp]:
  "cm_role (user_message s) = User" "cm_role (assistant_message s) = Assistant"
  "cm_role (system_message s) = System"
  "cm_content (user_message s) = s" "cm_content (assistant_message s) = s"
  by (simp_all add: rust_defs)

lemma nth_renumber: "i < length ts \<Longrightarrow> renumber ts ! i = (ts ! i)\<lparr>tn_number := i\<rparr>"
  by (simp add: renumber_def nth_enumerate_eq)

lemma renumber_simps [simp]:
  "length (renumber ts) = length ts"
  "map tn_number (renumber ts) = [0..<length ts]"
  "map turn_messages (renumber ts) = map turn_messages ts"
proof -
  show len: "length (renumber ts) = length ts" by (simp add: renumber_def)
  show "map tn_number (renumber ts) = [0..<length ts]"
    by (rule nth_equalityI) (simp_all add: len nth_renumber)
  show "map turn_messages (renumber ts) = map turn_messages ts"
    by (rule nth_equalityI) (simp_all add: len nth_renumber turn_messages_def)
qed

lemma turn_messages_cases:
  "tn_response t = None \<Longrightarrow> turn_messages t = [user_message (tn_user_input t)]"
  "tn_response t = Some r \<Longrightarrow> turn_messages t = [user_message (tn_user_input t), assistant_message r]"
  by (simp_all add: turn_messages_def)

lemma turn_messages_ops [simp]:
  "turn_messages (new_turn now n u) = [user_message u]"
  "turn_messages (turn_complete now r (new_turn now n u)) = [user_message u, assistant_message r]"
  by (simp_all add: turn_messages_def new_turn_def turn_complete_def)

declare rebuild_turns.simps(2) [simp del]

lemma rebuild_turns_steps:
  "cm_role m \<noteq> User \<Longrightarrow> rebuild_turns now n (m # ms) = rebuild_turns now n ms"
  "cm_role m = User \<Longrightarrow> cm_role r = Assistant \<Longrightarrow> rebuild_turns now n (m # r # ms) =
     turn_complete now (cm_content r) (new_turn now n (cm_content m)) # rebuild_turns now (n + 1) ms"
  "cm_role m = User \<Longrightarrow> ms = [] \<or> cm_role (hd ms) \<noteq> Assistant \<Longrightarrow> rebuild_turns now n (m # ms) =
     new_turn now n (cm_content m) # rebuild_turns now (n + 1) ms"
  by (auto simp: rebuild_turns.simps split: list.split)

definition thread_inv :: "thread \<Rightarrow> bool" where
  "thread_inv t \<longleftrightarrow> map tn_number (th_turns t) = [0..<length (th_turns t)] \<and>
     (\<forall>x \<in> set (th_turns t). (tn_state x = TurnProcessing) = (tn_completed_at x = None)) \<and>
     (\<forall>x \<in> set (th_turns t). tn_state x = TurnCompleted \<longrightarrow> tn_response x \<noteq> None) \<and>
     (\<forall>x \<in> set (th_turns t). tn_state x = TurnFailed \<longrightarrow> tn_error x \<noteq> None)"

definition turn_ok :: "turn \<Rightarrow> bool" where
  "turn_ok x \<longleftrightarrow> ((tn_state x = TurnProcessing) = (tn_completed_at x = None)) \<and>
     (tn_state x = TurnCompleted \<longrightarrow> tn_response x \<noteq> None) \<and>
     (tn_state x = TurnFailed \<longrightarrow> tn_error x \<noteq> None)"

lemma thread_inv_alt:
  "thread_inv t \<longleftrightarrow> map tn_number (th_turns t) = [0..<length (th_turns t)] \<and> list_all turn_ok (th_turns t)"
  by (auto simp: thread_inv_def turn_ok_def list_all_iff)

lemma turn_ok_ops [simp]:
  "turn_ok (new_turn now n u)" "turn_ok (turn_complete now r x)" "turn_ok (turn_fail now e x)"
  "turn_ok (turn_interrupt now x)"
  by (simp_all add: turn_ok_def new_turn_def turn_complete_def turn_fail_def turn_interrupt_def)

lemma turn_number_ops [simp]:
  "tn_number (new_turn now n u) = n" "tn_number (turn_complete now r x) = tn_number x"
  "tn_number (turn_fail now e x) = tn_number x" "tn_number (turn_interrupt now x) = tn_number x"
  by (simp_all add: new_turn_def turn_complete_def turn_fail_def turn_interrupt_def)

lemma list_all_update_last: "list_all P xs \<Longrightarrow> (\<And>x. P (f x)) \<Longrightarrow> list_all P (update_last f xs)"
  by (cases xs rule: rev_cases) auto

lemma list_all_renumber: "list_all turn_ok ts \<Longrightarrow> list_all turn_ok (renumber ts)"
  by (auto simp: renumber_def list_all_iff turn_ok_def in_set_enumerate_eq)

lemma rebuild_turns_numbers:
  "map tn_number (rebuild_turns now n ms) = [n..<n + length (rebuild_turns now n ms)] \<and>
   list_all turn_ok (rebuild_turns now n ms)"
proof (induction "length ms" arbitrary: ms n rule: less_induct)
  case less
  show ?case
  proof (cases ms)
    case (Cons m rest)
    consider "cm_role m \<noteq> User" | r rest' where "cm_role m = User" "rest = r # rest'" "cm_role r = Assistant"
      | "cm_role m = User" "rest = [] \<or> cm_role (hd rest) \<noteq> Assistant"
      by (cases rest) auto
    then show ?thesis
    proof cases
      case 1
      then show ?thesis using less [of rest n] Cons by (simp add: rebuild_turns_steps)
    next
      case (2 r rest')
      then show ?thesis using less [of rest' "n + 1"] Cons 
        by (simp add: rebuild_turns_steps upt_conv_Cons del: upt_Suc)
    next
      case 3
      then show ?thesis using less [of rest "n + 1"] Cons 
        by (simp add: rebuild_turns_steps upt_conv_Cons del: upt_Suc)
    qed
  qed simp
qed

lemma hd_messages: "ts \<noteq> [] \<Longrightarrow> concat (map turn_messages ts) \<noteq> [] \<and>
    cm_role (hd (concat (map turn_messages ts))) = User"
  by (cases ts) (simp_all add: turn_messages_def)

lemma rebuild_messages:
  "map turn_messages (rebuild_turns now n (concat (map turn_messages ts))) = map turn_messages ts"
proof (induction ts arbitrary: n)
  case (Cons t ts)
  show ?case
  proof (cases "tn_response t")
    case None
    have "concat (map turn_messages ts) = [] \<or> cm_role (hd (concat (map turn_messages ts))) \<noteq> Assistant"
      using hd_messages [of ts] by (cases "ts = []") auto
    with None Cons.IH [of "n + 1"] show ?thesis
      by (simp add: turn_messages_cases(1) rebuild_turns_steps(3))
  next
    case (Some r)
    with Cons.IH [of "n + 1"] show ?thesis
      by (simp add: turn_messages_cases(2) rebuild_turns_steps(2))
  qed
qed simp

lemma thread_inv_ops:
  assumes "thread_inv t"
  shows "thread_inv (start_turn now u t)" "thread_inv (complete_turn now r t)"
    "thread_inv (fail_turn now e t)" "thread_inv (interrupt now t)" "thread_inv (resume now t)"
    "thread_inv (truncate_turns k t)" "thread_inv (restore_from_messages now ms t)"
    "thread_inv (await_approval now p t)" "thread_inv (clear_pending_approval now t)"
    "thread_inv (t\<lparr>th_pending_approval := None\<rparr>)"
proof -
  have n: "map tn_number (th_turns t) = [0..<length (th_turns t)]" and ok: "list_all turn_ok (th_turns t)"
    using assms by (simp_all add: thread_inv_alt)
  have drop: "list_all turn_ok (drop m (th_turns t))" for m
    using ok by (auto simp: list_all_iff dest: in_set_dropD)
  show "thread_inv (start_turn now u t)" "thread_inv (complete_turn now r t)"
    "thread_inv (fail_turn now e t)" "thread_inv (interrupt now t)" "thread_inv (resume now t)"
    "thread_inv (truncate_turns k t)" "thread_inv (restore_from_messages now ms t)"
    "thread_inv (await_approval now p t)" "thread_inv (clear_pending_approval now t)"
    "thread_inv (t\<lparr>th_pending_approval := None\<rparr>)"
    using n ok drop list_all_renumber [OF drop] rebuild_turns_numbers [of now 0 ms]
    by (simp_all add: thread_inv_alt start_turn_def complete_turn_def fail_turn_def interrupt_def
        resume_def truncate_turns_def restore_from_messages_def await_approval_def
        clear_pending_approval_def take_pending_approval_def map_update_last list_all_update_last)
qed

subsection \<open>Properties\<close>

text \<open>Turns stay consistent. Every operation on a thread keeps its turns numbered from 0 without
  gaps, a turn closed exactly if it is no longer processing, a completed turn with its response
  and a failed one with its error.\<close>

theorem thread_operations_keep_inv:
  assumes "thread_inv t"
  shows "thread_inv (start_turn now u t) \<and> thread_inv (complete_turn now r t) \<and>
    thread_inv (fail_turn now e t) \<and> thread_inv (interrupt now t) \<and> thread_inv (resume now t) \<and>
    thread_inv (truncate_turns k t) \<and> thread_inv (restore_from_messages now ms t) \<and>
    thread_inv (await_approval now p t) \<and> thread_inv (clear_pending_approval now t) \<and>
    thread_inv (snd (take_pending_approval t))"
  using thread_inv_ops [OF assms] by (simp add: take_pending_approval_def)

text \<open>A checkpoint restores the conversation: rebuilding a thread from the messages of any
  thread gives back exactly those messages, and the thread is idle.\<close>

theorem restore_messages_roundtrip:
  "messages (restore_from_messages now (messages t) t') = messages t \<and>
   th_state (restore_from_messages now (messages t) t') = Idle"
  using rebuild_messages [of now 0 "th_turns t"]
  by (simp add: messages_def restore_from_messages_def)

text \<open>Truncating keeps the most recent turns and their messages, whatever the limit.\<close>

theorem truncate_keeps_recent:
  "length (th_turns (truncate_turns k t)) = min k (length (th_turns t)) \<and>
   messages (truncate_turns k t) = concat (map turn_messages (keep_last k (th_turns t)))"
  by (auto simp: truncate_turns_def messages_def keep_last_def)

definition session_inv :: "session \<Rightarrow> bool" where
  "session_inv s \<longleftrightarrow> distinct (map fst (ss_threads s)) \<and>
     (\<forall>(i, t) \<in> set (ss_threads s). th_id t = i) \<and>
     (case ss_active_thread s of None \<Rightarrow> True | Some i \<Rightarrow> get_thread i s \<noteq> None)"

lemma alist_update_member:
  "(i, t) \<in> set (AList.update k v al) \<Longrightarrow> (i = k \<and> t = v) \<or> (i, t) \<in> set al"
  by (induction al) (auto split: if_splits)

lemma session_inv_create:
  assumes "session_inv s"
  shows "session_inv (create_thread fresh now s)"
proof -
  have "(i, t) \<in> set (AList.update fresh (new_thread fresh now (ss_id s)) (ss_threads s)) \<Longrightarrow> th_id t = i" for i t
    using assms
    by (auto simp: session_inv_def new_thread_def thread_with_id_def dest!: alist_update_member)
  with assms show ?thesis
    by (auto simp: session_inv_def create_thread_def put_thread_def get_thread_def distinct_update update_conv')
qed

text \<open>The active thread of a session always exists: creating and switching threads keep that, and
  \<open>get_or_create_thread\<close> never panics.\<close>

theorem active_thread_exists:
  assumes "session_inv s"
  shows "session_inv (create_thread fresh now s) \<and> session_inv (snd (switch_thread now i s)) \<and>
    (\<exists>t s'. get_or_create_thread fresh now s = Some (t, s') \<and> session_inv s' \<and> active_thread s' = Some t)"
proof -
  have sw: "session_inv (snd (switch_thread now i s))"
    using assms by (cases "get_thread i s") (auto simp: switch_thread_def session_inv_def get_thread_def)
  have "active_thread (create_thread fresh now s) = Some (new_thread fresh now (ss_id s))"
    by (simp add: active_thread_def create_thread_def put_thread_def get_thread_def update_conv')
  moreover have "\<exists>t. active_thread s = Some t" if "ss_active_thread s \<noteq> None"
    using assms that by (auto simp: session_inv_def active_thread_def)
  ultimately show ?thesis
    using sw assms session_inv_create [OF assms] by (auto simp: get_or_create_thread_def Let_def)
qed

subsection \<open>Witnesses\<close>

theorem thread_operations_keep_inv_witness:
  "thread_inv (complete_turn 5 ''hello'' (start_turn 4 ''hi'' (new_thread 1 0 2)))"
proof -
  have "thread_inv (new_thread 1 0 2)" by (simp add: thread_inv_def new_thread_def thread_with_id_def)
  then have "thread_inv (start_turn 4 ''hi'' (new_thread 1 0 2))"
    using thread_operations_keep_inv by blast
  then show ?thesis using thread_operations_keep_inv by blast
qed

theorem active_thread_exists_witness:
  "\<exists>t s'. get_or_create_thread 9 5 (new_session 1 0 ''u'') = Some (t, s') \<and> active_thread s' = Some t"
  using active_thread_exists [of "new_session 1 0 ''u''" 9 5 0]
  by (auto simp: session_inv_def new_session_def)

end
