(* ===== verification/Provider.thy ===== *)
theory Provider
  imports Session
begin

text \<open>
  The interface to language models (\<open>src/src/llm/provider.rs\<close>) and the provider that falls back
  from one model to the next (\<open>src/src/llm/failover.rs\<close>). A model is a remote service: a
  \<open>provider\<close> is the record of its methods, and the answer to a request may depend on the number of
  the call, the argument \<open>n\<close>. Costs are the exact decimals of the source, as rationals.
\<close>

subsection \<open>Requests and answers\<close>

datatype llm_error =
    RequestFailed string string
  | RateLimited string "duration option"
  | InvalidResponse string string
  | ContextLengthExceeded nat nat
  | ModelNotAvailable string string
  | AuthFailed string
  | SessionExpired string
  | SessionRenewalFailed string string
  | JsonError string
  | IoError string

record completion_request =
  rq_messages :: "chat_message list"
  rq_max_tokens :: "nat option"
  rq_temperature :: "rat option"
  rq_stop_sequences :: "string list option"
  rq_metadata :: "(string \<times> string) list"

datatype finish_reason = FinishStop | FinishLength | FinishToolUse | FinishContentFilter | FinishUnknown

record completion_response =
  rs_content :: string
  rs_input_tokens :: nat
  rs_output_tokens :: nat
  rs_finish_reason :: finish_reason
  rs_response_id :: "string option"

record tool_definition =
  td_name :: string
  td_description :: string
  td_parameters :: json

record tool_completion_request =
  tq_messages :: "chat_message list"
  tq_tools :: "tool_definition list"
  tq_max_tokens :: "nat option"
  tq_temperature :: "rat option"
  tq_tool_choice :: "string option"
  tq_metadata :: "(string \<times> string) list"

record tool_completion_response =
  tr_content :: "string option"
  tr_tool_calls :: "tool_call list"
  tr_input_tokens :: nat
  tr_output_tokens :: nat
  tr_finish_reason :: finish_reason
  tr_response_id :: "string option"

definition completion_request_new :: "chat_message list \<Rightarrow> completion_request" where
  "completion_request_new ms =
     \<lparr>rq_messages = ms, rq_max_tokens = None, rq_temperature = None, rq_stop_sequences = None,
      rq_metadata = []\<rparr>"

definition tool_completion_request_new ::
  "chat_message list \<Rightarrow> tool_definition list \<Rightarrow> tool_completion_request" where
  "tool_completion_request_new ms tools =
     \<lparr>tq_messages = ms, tq_tools = tools, tq_max_tokens = None, tq_temperature = None,
      tq_tool_choice = None, tq_metadata = []\<rparr>"

subsection \<open>Providers\<close>

record provider =
  model_name :: string
  cost_per_token :: "rat \<times> rat"
  complete :: "nat \<Rightarrow> completion_request \<Rightarrow> llm_error + completion_response"
  complete_with_tools :: "nat \<Rightarrow> tool_completion_request \<Rightarrow> llm_error + tool_completion_response"
  list_models :: "llm_error + string list"

definition calculate_cost :: "provider \<Rightarrow> nat \<Rightarrow> nat \<Rightarrow> rat" where
  "calculate_cost p input_tokens output_tokens =
     (let (input_cost, output_cost) = cost_per_token p
      in input_cost * of_nat input_tokens + output_cost * of_nat output_tokens)"

subsection \<open>Failover\<close>

fun is_retryable :: "llm_error \<Rightarrow> bool" where
  "is_retryable (RequestFailed _ _) = True"
| "is_retryable (RateLimited _ _) = True"
| "is_retryable (InvalidResponse _ _) = True"
| "is_retryable (SessionRenewalFailed _ _) = True"
| "is_retryable (ModelNotAvailable _ _) = True"
| "is_retryable (IoError _) = True"
| "is_retryable _ = False"

record failover =
  fo_providers :: "provider list"
  fo_last_used :: nat

definition failover_new :: "provider list \<Rightarrow> llm_error + failover" where
  "failover_new ps =
     (if ps = [] then Inl (RequestFailed ''failover'' ''FailoverProvider requires at least one provider'')
      else Inr \<lparr>fo_providers = ps, fo_last_used = 0\<rparr>)"

text \<open>The loop over the providers from index \<open>i\<close> on, with the error of the provider before. The
  final \<open>expect\<close> panics without any error, the result \<open>None\<close>.\<close>

fun try_from ::
  "(provider \<Rightarrow> llm_error + 'r) \<Rightarrow> nat \<Rightarrow> llm_error option \<Rightarrow> provider list \<Rightarrow> (llm_error + nat \<times> 'r) option" where
  "try_from call i last_error [] = map_option Inl last_error"
| "try_from call i last_error (p # ps) = (case call p of
     Inr r \<Rightarrow> Some (Inr (i, r))
   | Inl e \<Rightarrow> if \<not> is_retryable e then Some (Inl e) else try_from call (i + 1) (Some e) ps)"

definition try_providers ::
  "(provider \<Rightarrow> llm_error + 'r) \<Rightarrow> failover \<Rightarrow> ((llm_error + 'r) \<times> failover) option" where
  "try_providers call f = (case try_from call 0 None (fo_providers f) of
     None \<Rightarrow> None
   | Some (Inl e) \<Rightarrow> Some (Inl e, f)
   | Some (Inr (i, r)) \<Rightarrow> Some (Inr r, f\<lparr>fo_last_used := i\<rparr>))"

text \<open>\<open>providers[last_used]\<close> panics out of range.\<close>

definition failover_current :: "failover \<Rightarrow> provider option" where
  "failover_current f =
     (if fo_last_used f < length (fo_providers f) then Some (fo_providers f ! fo_last_used f) else None)"

definition failover_complete ::
  "nat \<Rightarrow> completion_request \<Rightarrow> failover \<Rightarrow> ((llm_error + completion_response) \<times> failover) option" where
  "failover_complete n rq = try_providers (\<lambda>p. complete p n rq)"

definition failover_complete_with_tools ::
  "nat \<Rightarrow> tool_completion_request \<Rightarrow> failover \<Rightarrow>
    ((llm_error + tool_completion_response) \<times> failover) option" where
  "failover_complete_with_tools n rq = try_providers (\<lambda>p. complete_with_tools p n rq)"

text \<open>\<open>list_models\<close> skips the providers that fail, sorts the names as byte strings and drops
  duplicates.\<close>

definition str_le :: "string \<Rightarrow> string \<Rightarrow> bool" where
  "str_le a b \<longleftrightarrow> (map (of_char :: char \<Rightarrow> nat) a, map of_char b) \<in> lexord {(x, y). x < y} \<or> a = b"

fun insert_str :: "string \<Rightarrow> string list \<Rightarrow> string list" where
  "insert_str x [] = [x]"
| "insert_str x (y # ys) = (if str_le x y then x # y # ys else y # insert_str x ys)"

definition sort_str :: "string list \<Rightarrow> string list" where
  "sort_str xs = foldr insert_str xs []"

definition failover_list_models :: "failover \<Rightarrow> string list" where
  "failover_list_models f =
     remdups_adj (sort_str (concat (map (\<lambda>p. case list_models p of Inr ms \<Rightarrow> ms | Inl _ \<Rightarrow> []) (fo_providers f))))"

subsection \<open>Properties\<close>

definition failover_inv :: "failover \<Rightarrow> bool" where
  "failover_inv f \<longleftrightarrow> fo_providers f \<noteq> [] \<and> fo_last_used f < length (fo_providers f)"

lemma failover_new_inv: "failover_new ps = Inr f \<Longrightarrow> failover_inv f"
  by (auto simp: failover_new_def failover_inv_def split: if_splits)

text \<open>The answer of the loop: the first provider that does not fail with a transient error
  decides, and if all fail that way, the last error.\<close>

definition transient :: "(llm_error + 'r) \<Rightarrow> bool" where
  "transient r \<longleftrightarrow> (case r of Inl e \<Rightarrow> is_retryable e | Inr _ \<Rightarrow> False)"

lemma try_from_spec:
  "try_from call i le ps =
     (let k = length (takeWhile (transient \<circ> call) ps) in
      if k < length ps then Some (case call (ps ! k) of Inl e \<Rightarrow> Inl e | Inr r \<Rightarrow> Inr (i + k, r))
      else if ps = [] then map_option Inl le
      else Some (Inl (projl (call (last ps)))))"
proof (induction ps arbitrary: i le)
  case (Cons p ps)
  show ?case
  proof (cases "call p")
    case (Inl e)
    then show ?thesis using Cons.IH [of "i + 1" "Some e"] by (auto simp: transient_def Let_def split: sum.split)
  next
    case (Inr r)
    then show ?thesis by (simp add: transient_def)
  qed
qed simp

lemma transient_last:
  assumes "length ps \<le> length (takeWhile (transient \<circ> call) ps)" and "ps \<noteq> []"
  shows "\<exists>e. call (last ps) = Inl e \<and> is_retryable e"
proof -
  have "takeWhile (transient \<circ> call) ps = ps"
    using assms(1) by (subst takeWhile_eq_take) simp
  then have "\<forall>p \<in> set ps. transient (call p)" by (simp add: takeWhile_eq_all_conv)
  with assms(2) have "transient (call (last ps))" by simp
  then show ?thesis by (auto simp: transient_def split: sum.splits)
qed

text \<open>Failover. A request never panics and never loses a provider: it is answered by the first
  provider that does not fail with a transient error, that provider is remembered if it succeeded,
  and if all fail the caller gets the error of the last one.\<close>

theorem failover_first_usable:
  assumes "failover_inv f"
  shows "let call = (\<lambda>p. complete_with_tools p n rq);
             k = length (takeWhile (transient \<circ> call) (fo_providers f))
    in \<exists>f'. failover_inv f' \<and> fo_providers f' = fo_providers f \<and>
       (if k < length (fo_providers f)
        then failover_complete_with_tools n rq f = Some (call (fo_providers f ! k), f') \<and>
          fo_last_used f' = (case call (fo_providers f ! k) of Inr _ \<Rightarrow> k | Inl _ \<Rightarrow> fo_last_used f)
        else failover_complete_with_tools n rq f = Some (call (last (fo_providers f)), f') \<and> f' = f)"
proof -
  let ?call = "\<lambda>p. complete_with_tools p n rq" and ?ps = "fo_providers f"
  let ?k = "length (takeWhile (transient \<circ> ?call) ?ps)"
  have ne: "?ps \<noteq> []" using assms by (simp add: failover_inv_def)
  show ?thesis
  proof (cases "?k < length ?ps")
    case True
    then show ?thesis
      using assms
      by (cases "?call (?ps ! ?k)")
        (auto simp: failover_complete_with_tools_def try_providers_def try_from_spec failover_inv_def
          Let_def intro!: exI [of _ "f\<lparr>fo_last_used := ?k\<rparr>"])
  next
    case False
    then obtain e where "?call (last ?ps) = Inl e" using transient_last [of ?ps ?call] ne by auto
    then show ?thesis
      using assms False ne
      by (auto simp: failover_complete_with_tools_def try_providers_def try_from_spec Let_def)
  qed
qed

subsection \<open>Witnesses\<close>

definition sample_provider :: "string \<Rightarrow> (llm_error + tool_completion_response) \<Rightarrow> provider" where
  "sample_provider name r =
     \<lparr>model_name = name, cost_per_token = (1/1000, 1/500), complete = \<lambda>_ _. Inl (AuthFailed name),
      complete_with_tools = \<lambda>_ _. r, list_models = Inr [name]\<rparr>"

definition sample_answer :: tool_completion_response where
  "sample_answer = \<lparr>tr_content = Some ''hello'', tr_tool_calls = [], tr_input_tokens = 3,
     tr_output_tokens = 1, tr_finish_reason = FinishStop, tr_response_id = None\<rparr>"

definition sample_failover :: failover where
  "sample_failover = \<lparr>fo_providers =
     [sample_provider ''a'' (Inl (RateLimited ''a'' None)), sample_provider ''b'' (Inr sample_answer)],
     fo_last_used = 0\<rparr>"

theorem failover_first_usable_witness:
  "failover_complete_with_tools 0 (tool_completion_request_new [] []) sample_failover =
     Some (Inr sample_answer, sample_failover\<lparr>fo_last_used := 1\<rparr>)"
  using failover_first_usable [of sample_failover 0 "tool_completion_request_new [] []"]
  by (auto simp: sample_failover_def sample_provider_def failover_inv_def transient_def)

end
