(* ===== verification/Tools.thy ===== *)
theory Tools
  imports Provider Text
begin

text \<open>
  Tools (\<open>src/src/tools/tool.rs\<close>), their registry (\<open>src/src/tools/registry.rs\<close>) and the shell tool
  (\<open>src/src/tools/builtin/shell.rs\<close>). A tool is the record of the methods of the trait \<open>Tool\<close>. What
  a tool does when executed happens outside the program: \<open>tl_execute\<close> gives the outcome of the
  \<open>n\<close>-th execution, \<open>None\<close> if it does not finish in time. The pretty-printer of \<open>serde_json\<close> is the
  parameter \<open>pretty\<close>. The hash map of the registry is an association list with one entry per name.
\<close>

subsection \<open>Tools\<close>

datatype tool_error =
    InvalidParameters string
  | ExecutionFailed string
  | ToolTimeout duration
  | NotAuthorized string
  | ToolRateLimited "duration option"
  | ExternalService string

datatype tool_domain = Orchestrator | Container

record tool =
  tl_name :: string
  tl_description :: string
  tl_parameters_schema :: json
  tl_requires_approval :: bool
  tl_execution_timeout :: duration
  tl_domain :: tool_domain
  tl_summarize :: "json \<Rightarrow> tool_summary"
  tl_execute :: "nat \<Rightarrow> json \<Rightarrow> (tool_error + json) option"

definition summary_fallback :: "(json \<Rightarrow> string) \<Rightarrow> string \<Rightarrow> json \<Rightarrow> tool_summary" where
  "summary_fallback pretty tool_name params =
     \<lparr>ts_verb = ''Execute'', ts_target = tool_name, ts_headline = ''Execute tool: '' @ tool_name,
      ts_raw_params = pretty params\<rparr>"

definition require_str :: "json \<Rightarrow> string \<Rightarrow> tool_error + string" where
  "require_str params name = (case get_str params name of
     Some s \<Rightarrow> Inr s
   | None \<Rightarrow> Inl (InvalidParameters (''missing '' @ [CHR 0x27] @ name @ [CHR 0x27] @ '' parameter'')))"

definition require_param :: "json \<Rightarrow> string \<Rightarrow> tool_error + json" where
  "require_param params name = (case json_get params name of
     Some v \<Rightarrow> Inr v
   | None \<Rightarrow> Inl (InvalidParameters (''missing '' @ [CHR 0x27] @ name @ [CHR 0x27] @ '' parameter'')))"

subsection \<open>The registry\<close>

definition PROTECTED_TOOL_NAMES :: "string list" where
  "PROTECTED_TOOL_NAMES =
     [''echo'', ''time'', ''json'', ''http'', ''shell'', ''read_file'', ''write_file'', ''list_dir'',
      ''apply_patch'', ''memory_search'', ''memory_write'', ''memory_read'', ''memory_tree'',
      ''routine_create'', ''routine_list'', ''routine_update'', ''routine_delete'', ''routine_history'',
      ''create_document'', ''update_document'', ''list_documents'', ''find_document'',
      ''create_todo'', ''update_todo'', ''delete_todo'', ''list_todos'', ''ask_user'', ''create_message'']"

record tool_registry =
  rg_tools :: "(string \<times> tool) list"
  rg_builtin :: "string list"

definition new_tool_registry :: tool_registry where
  "new_tool_registry = \<lparr>rg_tools = [], rg_builtin = []\<rparr>"

definition register_tool :: "tool \<Rightarrow> tool_registry \<Rightarrow> tool_registry" where
  "register_tool t r =
     (if tl_name t \<in> set (rg_builtin r) then r
      else r\<lparr>rg_tools := AList.update (tl_name t) t (rg_tools r)\<rparr>)"

definition register_sync :: "tool \<Rightarrow> tool_registry \<Rightarrow> tool_registry" where
  "register_sync t r =
     r\<lparr>rg_tools := AList.update (tl_name t) t (rg_tools r),
       rg_builtin := (if tl_name t \<in> set PROTECTED_TOOL_NAMES then List.insert (tl_name t) (rg_builtin r)
                      else rg_builtin r)\<rparr>"

definition unregister_tool :: "string \<Rightarrow> tool_registry \<Rightarrow> tool option \<times> tool_registry" where
  "unregister_tool name r = (map_of (rg_tools r) name, r\<lparr>rg_tools := AList.delete name (rg_tools r)\<rparr>)"

definition get_tool :: "tool_registry \<Rightarrow> string \<Rightarrow> tool option" where
  "get_tool r name = map_of (rg_tools r) name"

definition has_tool :: "tool_registry \<Rightarrow> string \<Rightarrow> bool" where
  "has_tool r name \<longleftrightarrow> map_of (rg_tools r) name \<noteq> None"

definition list_tools :: "tool_registry \<Rightarrow> string list" where
  "list_tools r = map fst (rg_tools r)"

definition tool_def :: "tool \<Rightarrow> tool_definition" where
  "tool_def t = \<lparr>td_name = tl_name t, td_description = tl_description t,
     td_parameters = tl_parameters_schema t\<rparr>"

definition tool_definitions :: "tool_registry \<Rightarrow> tool_definition list" where
  "tool_definitions r = map (tool_def \<circ> snd) (rg_tools r)"

definition tool_definitions_for :: "string list \<Rightarrow> tool_registry \<Rightarrow> tool_definition list" where
  "tool_definitions_for names r = map tool_def (List.map_filter (map_of (rg_tools r)) names)"

definition tool_definitions_for_domain :: "tool_domain \<Rightarrow> tool_registry \<Rightarrow> tool_definition list" where
  "tool_definitions_for_domain d r = map tool_def (filter (\<lambda>t. tl_domain t = d) (map snd (rg_tools r)))"

subsection \<open>The shell tool\<close>

definition MAX_OUTPUT_SIZE :: nat where
  "MAX_OUTPUT_SIZE = 64 * 1024"

definition BLOCKED_COMMANDS :: "string list" where
  "BLOCKED_COMMANDS =
     [''rm -rf /'', ''rm -rf /*'', '':(){ :|:& };:'', ''dd if=/dev/zero'', ''mkfs'', ''chmod -R 777 /'',
      ''> /dev/sda'', ''curl | sh'', ''wget | sh'', ''curl | bash'', ''wget | bash'']"

definition DANGEROUS_PATTERNS :: "string list" where
  "DANGEROUS_PATTERNS =
     [''sudo '', ''doas '', '' | sh'', '' | bash'', '' | zsh'', ''eval '', ''$(curl'', ''$(wget'',
      ''/etc/passwd'', ''/etc/shadow'', ''~/.ssh'', ''.bash_history'', ''id_rsa'']"

definition NEVER_AUTO_APPROVE_PATTERNS :: "string list" where
  "NEVER_AUTO_APPROVE_PATTERNS =
     [''rm -rf'', ''rm -fr'', ''chmod -r 777'', ''chmod 777'', ''chown -r'', ''shutdown'', ''reboot'',
      ''poweroff'', ''init 0'', ''init 6'', ''iptables'', ''nft '', ''useradd'', ''userdel'', ''passwd'',
      ''visudo'', ''crontab'', ''systemctl disable'', ''launchctl unload'', ''kill -9'', ''killall'',
      ''pkill'', ''docker rm'', ''docker rmi'', ''docker system prune'', ''git push --force'',
      ''git push -f'', ''git reset --hard'', ''git clean -f'', ''DROP TABLE'', ''DROP DATABASE'',
      ''TRUNCATE'', ''DELETE FROM'']"

definition requires_explicit_approval :: "string \<Rightarrow> bool" where
  "requires_explicit_approval command =
     (let lower = to_lowercase command
      in list_ex (\<lambda>p. str_contains lower (to_lowercase p)) NEVER_AUTO_APPROVE_PATTERNS)"

record shell_tool =
  sh_working_dir :: "string option"
  sh_timeout :: duration
  sh_allow_dangerous :: bool

definition shell_new :: shell_tool where
  "shell_new = \<lparr>sh_working_dir = None, sh_timeout = duration_secs 120, sh_allow_dangerous = False\<rparr>"

definition is_blocked :: "shell_tool \<Rightarrow> string \<Rightarrow> string option" where
  "is_blocked sh cmd =
     (let normalized = to_lowercase cmd in
      if list_ex (str_contains normalized) BLOCKED_COMMANDS then Some ''Command contains blocked pattern''
      else if \<not> sh_allow_dangerous sh \<and> list_ex (str_contains normalized) DANGEROUS_PATTERNS
      then Some ''Command contains potentially dangerous pattern''
      else None)"

definition truncate_output :: "string \<Rightarrow> string" where
  "truncate_output s =
     (if length s \<le> MAX_OUTPUT_SIZE then s
      else let half = MAX_OUTPUT_SIZE div 2;
               head_end = floor_char_boundary s half;
               tail_start = floor_char_boundary s (length s - half)
           in take head_end s @ [CHR 0x0A, CHR 0x0A] @ ''... [truncated '' @
                nat_str (length s - MAX_OUTPUT_SIZE) @ '' bytes] ...'' @ [CHR 0x0A, CHR 0x0A] @
                drop tail_start s)"

definition truncate_for_error :: "string \<Rightarrow> string" where
  "truncate_for_error s =
     (if length (chars s) \<le> 100 then s else concat (take 100 (chars s)) @ ''...'')"

text \<open>What the operating system reports about a child process: it could not be started, waiting for
  it failed, it did not end in time, or it ended, with what one read of at most 64 KB from each pipe
  returned, decoded.\<close>

datatype process_outcome =
    SpawnError string
  | WaitError string
  | NotInTime
  | Exited string string "int option"

definition execute_direct :: "process_outcome \<Rightarrow> duration \<Rightarrow> tool_error + string \<times> int" where
  "execute_direct child timeout = (case child of
     SpawnError e \<Rightarrow> Inl (ExecutionFailed (''Failed to spawn command: '' @ e))
   | WaitError e \<Rightarrow> Inl (ExecutionFailed (''Command execution failed: '' @ e))
   | NotInTime \<Rightarrow> Inl (ToolTimeout timeout)
   | Exited stdout stderr status \<Rightarrow>
       (let output = (if stderr = [] then stdout else if stdout = [] then stderr
                      else stdout @ [CHR 0x0A, CHR 0x0A] @ ''--- stderr ---'' @ [CHR 0x0A] @ stderr)
        in Inr (truncate_output output, case status of Some c \<Rightarrow> c | None \<Rightarrow> - 1)))"

text \<open>\<open>sys\<close> runs a command in a directory with a time limit; \<open>cwd\<close> is the current directory.\<close>

definition execute_command ::
  "(string \<Rightarrow> string \<Rightarrow> duration \<Rightarrow> process_outcome) \<Rightarrow> string \<Rightarrow> shell_tool \<Rightarrow> string \<Rightarrow>
    string option \<Rightarrow> nat option \<Rightarrow> tool_error + string \<times> int" where
  "execute_command sys cwd sh cmd workdir timeout = (case is_blocked sh cmd of
     Some reason \<Rightarrow> Inl (NotAuthorized (reason @ '': '' @ truncate_for_error cmd))
   | None \<Rightarrow>
       (let dir = (case workdir of Some d \<Rightarrow> d
                   | None \<Rightarrow> (case sh_working_dir sh of Some d \<Rightarrow> d | None \<Rightarrow> cwd));
            limit = (case timeout of Some t \<Rightarrow> duration_secs (int t) | None \<Rightarrow> sh_timeout sh)
        in execute_direct (sys cmd dir limit) limit))"

definition int_json :: "int \<Rightarrow> json" where
  "int_json i = JNumber (if i \<ge> 0 then PosInt (nat i) else NegInt i)"

definition shell_execute ::
  "(string \<Rightarrow> string \<Rightarrow> duration \<Rightarrow> process_outcome) \<Rightarrow> string \<Rightarrow> shell_tool \<Rightarrow> json \<Rightarrow> tool_error + json" where
  "shell_execute sys cwd sh params = (case require_str params ''command'' of
     Inl e \<Rightarrow> Inl e
   | Inr command \<Rightarrow>
       (case execute_command sys cwd sh command (get_str params ''workdir'')
               (Option.bind (json_get params ''timeout'') as_u64) of
          Inl e \<Rightarrow> Inl e
        | Inr (output, exit_code) \<Rightarrow>
            Inr (JObject [(''output'', JString output), (''exit_code'', int_json exit_code),
                          (''success'', JBool (exit_code = 0))])))"

text \<open>The parts of \<open>summarize\<close>: stripping quotes, splitting at a separator, the host of a URL.\<close>

definition is_quote :: "char \<Rightarrow> bool" where
  "is_quote c \<longleftrightarrow> c = CHR 0x22 \<or> c = CHR 0x27"

definition trim_quotes :: "string \<Rightarrow> string" where
  "trim_quotes s = rev (dropWhile is_quote (rev (dropWhile is_quote s)))"

fun split_char :: "char \<Rightarrow> string \<Rightarrow> string list" where
  "split_char c [] = [[]]"
| "split_char c (x # xs) = (if x = c then [] # split_char c xs
     else case split_char c xs of [] \<Rightarrow> [[x]] | w # ws \<Rightarrow> (x # w) # ws)"

text \<open>The text after the first \<open>"://"\<close>. The source takes it up to the next \<open>"://"\<close>, which the splits
  at \<open>/\<close> and \<open>:\<close> that follow cut off as well.\<close>

fun after_scheme :: "string \<Rightarrow> string option" where
  "after_scheme [] = None"
| "after_scheme (c # cs) =
     (if prefix ''://'' (c # cs) then Some (drop 2 cs) else after_scheme cs)"

definition url_host :: "string \<Rightarrow> string" where
  "url_host url =
     (let rest = (case after_scheme url of Some r \<Rightarrow> r | None \<Rightarrow> url);
          host_port = hd (split_char (CHR ''/'') rest);
          host_only = hd (split_char (CHR '':'') host_port)
      in case strip_prefix ''www.'' host_only of Some h \<Rightarrow> h | None \<Rightarrow> host_only)"

definition shell_headline :: "string \<Rightarrow> string \<times> string \<times> string" where
  "shell_headline cmd =
     (let words = split_whitespace cmd;
          effective = dropWhile (\<lambda>w. CHR ''='' \<in> set w) words;
          base = (if effective = [] then ''(unknown)'' else hd effective);
          arg1 = (\<lambda>d. if length effective > 1 then effective ! 1 else d);
          last_arg = (if effective = [] then ''file'' else last effective)
      in if base \<in> {''curl'', ''wget''} then
           (let url = (case List.find (\<lambda>w. str_starts_with w ''http'') (map trim_quotes words) of
                         Some u \<Rightarrow> u | None \<Rightarrow> ''URL'');
                host = url_host url
            in (''Fetch'', host, ''Fetch '' @ host))
         else if base \<in> {''cat'', ''head'', ''tail'', ''less'', ''more''} then
           (''Read'', arg1 ''file'', ''Read '' @ arg1 ''file'')
         else if base = ''git'' then (''Git'', arg1 ''command'', ''Git: '' @ arg1 ''command'')
         else if base = ''cd'' then (''Navigate'', arg1 ''directory'', ''Navigate to '' @ arg1 ''directory'')
         else if base = ''mkdir'' then (''Create'', arg1 ''directory'', ''Create directory '' @ arg1 ''directory'')
         else if base = ''rm'' then (''Delete'', last_arg, ''Delete '' @ last_arg)
         else if base \<in> {''cp'', ''mv''} then
           (let verb = (if base = ''cp'' then ''Copy'' else ''Move'') in (verb, last_arg, verb @ '' to '' @ last_arg))
         else if base = ''cargo'' then (''Cargo'', arg1 ''command'', ''Cargo '' @ arg1 ''command'')
         else if base \<in> {''npm'', ''npx'', ''yarn'', ''pnpm''} then
           (''Node'', arg1 ''command'', base @ '' '' @ arg1 ''command'')
         else if base \<in> {''ls'', ''find'', ''fd'', ''rg'', ''grep''} then
           (''Search'', arg1 ''.'', base @ '' '' @ arg1 ''.'')
         else (''Run'', base, ''Run: '' @ concat (take 80 (chars cmd))))"

definition shell_summarize :: "(json \<Rightarrow> string) \<Rightarrow> json \<Rightarrow> tool_summary" where
  "shell_summarize pretty params =
     (let cmd = (case get_str params ''command'' of Some c \<Rightarrow> c | None \<Rightarrow> ''(unknown)'');
          (verb, target, headline) = shell_headline cmd
      in \<lparr>ts_verb = verb, ts_target = target, ts_headline = headline, ts_raw_params = pretty params\<rparr>)"

text \<open>The tool as registered. It does not override the limit of 60 seconds that the caller sets on
  every tool; \<open>overrun n\<close> says that the \<open>n\<close>-th execution exceeds it.\<close>

definition shell_as_tool ::
  "(json \<Rightarrow> string) \<Rightarrow> (nat \<Rightarrow> bool) \<Rightarrow> (nat \<Rightarrow> string \<Rightarrow> string \<Rightarrow> duration \<Rightarrow> process_outcome) \<Rightarrow>
    string \<Rightarrow> shell_tool \<Rightarrow> tool" where
  "shell_as_tool pretty overrun sys cwd sh =
     \<lparr>tl_name = ''shell'',
      tl_description = ''Execute shell commands. Use for running builds, tests, git operations, and other CLI tasks. Commands run in a subprocess with captured output. Long-running commands have a timeout.'',
      tl_parameters_schema =
        JObject [(''type'', JString ''object''),
          (''properties'', JObject
             [(''command'', JObject [(''type'', JString ''string''),
                 (''description'', JString ''The shell command to execute'')]),
              (''workdir'', JObject [(''type'', JString ''string''),
                 (''description'', JString ''Working directory for the command (optional)'')]),
              (''timeout'', JObject [(''type'', JString ''integer''),
                 (''description'', JString ''Timeout in seconds (optional, default 120)'')])]),
          (''required'', JArray [JString ''command''])],
      tl_requires_approval = True, tl_execution_timeout = duration_secs 60, tl_domain = Container,
      tl_summarize = shell_summarize pretty,
      tl_execute = \<lambda>n params. if overrun n then None else Some (shell_execute (sys n) cwd sh params)\<rparr>"

subsection \<open>Properties\<close>

lemma register_tool_keeps:
  "name \<in> set (rg_builtin r) \<Longrightarrow> get_tool (register_tool t r) name = get_tool r name \<and>
    rg_builtin (register_tool t r) = rg_builtin r"
  by (auto simp: register_tool_def get_tool_def update_conv')

text \<open>Built-in tools cannot be replaced. Once a protected tool is registered at start-up, no
  sequence of later registrations changes what its name stands for.\<close>

theorem builtin_not_shadowed:
  assumes "tl_name t \<in> set PROTECTED_TOOL_NAMES"
  shows "get_tool (fold register_tool later (register_sync t r)) (tl_name t) = Some t"
proof -
  have "get_tool (fold register_tool later q) name = get_tool q name" if "name \<in> set (rg_builtin q)" for q name
    using that by (induction later arbitrary: q) (simp_all add: register_tool_keeps)
  moreover have "tl_name t \<in> set (rg_builtin (register_sync t r))"
    using assms by (simp add: register_sync_def)
  ultimately show ?thesis by (simp add: get_tool_def register_sync_def update_conv')
qed

text \<open>C29: The guard of the shell tool. A command that contains a forbidden pattern is refused without a
  process being started, whatever the operating system would answer; the patterns are compared with
  the lower-cased command.\<close>

theorem blocked_never_runs:
  assumes "p \<in> set BLOCKED_COMMANDS \<or> p \<in> set DANGEROUS_PATTERNS \<and> \<not> sh_allow_dangerous sh"
    and "sublist p (to_lowercase cmd)" and "get_str params ''command'' = Some cmd"
  shows "\<exists>why. shell_execute sys cwd sh params = Inl (NotAuthorized why)"
proof -
  have "is_blocked sh cmd \<noteq> None"
    using assms(1,2) by (auto simp: is_blocked_def Let_def list_ex_iff str_contains_iff)
  then show ?thesis
    using assms(3) by (auto simp: shell_execute_def require_str_def execute_command_def)
qed

text \<open>One of the forbidden patterns has a capital letter and so never occurs in a lower-cased
  command: \<open>chmod -R 777 /\<close> is not refused.\<close>

lemma ascii_lower_not_R: "ascii_lower c \<noteq> CHR ''R''"
proof
  assume eq: "ascii_lower c = CHR ''R''"
  show False
  proof (cases "65 \<le> code c \<and> code c \<le> 90")
    case True
    then have "code (CHR ''R'') = code c + 32" using eq by (simp add: ascii_lower_def code_def flip: eq)
    then show ?thesis using True by (simp add: code_def)
  next
    case False
    then have "c = CHR ''R''" using eq by (simp add: ascii_lower_def split: if_splits)
    then show ?thesis using False by (simp add: code_def)
  qed
qed

theorem capital_pattern_never_matches:
  "\<not> str_contains (to_lowercase cmd) ''chmod -R 777 /''"
proof -
  have "CHR ''R'' \<notin> set (to_lowercase cmd)"
    using ascii_lower_not_R by (auto simp: to_lowercase_def dest: sym)
  then show ?thesis
    using set_mono_sublist [of "''chmod -R 777 /''" "to_lowercase cmd"] by (auto simp: str_contains_iff)
qed

subsection \<open>Witnesses\<close>

definition sample_shell :: tool where
  "sample_shell = shell_as_tool (\<lambda>_. []) (\<lambda>_. False) (\<lambda>_ _ _ _. Exited ''ok'' [] (Some 0)) ''/'' shell_new"

definition sample_impostor :: tool where
  "sample_impostor = sample_shell\<lparr>tl_requires_approval := False\<rparr>"

theorem builtin_not_shadowed_witness:
  "get_tool (fold register_tool [sample_impostor] (register_sync sample_shell new_tool_registry)) ''shell'' =
     Some sample_shell"
  using builtin_not_shadowed [of sample_shell "[sample_impostor]" new_tool_registry]
  by (simp add: sample_shell_def shell_as_tool_def PROTECTED_TOOL_NAMES_def)

theorem blocked_never_runs_witness:
  "\<exists>why. shell_execute (\<lambda>_ _ _. Exited ''ok'' [] (Some 0)) ''/'' shell_new
     (JObject [(''command'', JString ''Sudo ls'')]) = Inl (NotAuthorized why)"
proof -
  have "str_contains (to_lowercase ''Sudo ls'') ''sudo ''" by code_simp
  then have "sublist ''sudo '' (to_lowercase ''Sudo ls'')" by (simp only: str_contains_iff)
  then show ?thesis
    using blocked_never_runs [of "''sudo ''" shell_new "''Sudo ls''" "JObject [(''command'', JString ''Sudo ls'')]"]
    by (simp add: DANGEROUS_PATTERNS_def shell_new_def get_str_def)
qed

end
