(* ===== verification/Reasoning.thy ===== *)
theory Reasoning
  imports Provider Text
begin

text \<open>
  The text handling of \<open>src/src/llm/reasoning.rs\<close> between the language model and the agent: the
  internal tags removed from an answer, the tool calls recovered from tags in the text, and
  \<open>respond_with_tools\<close>. \<open>serde_json::from_str\<close> belongs to a third-party crate and is the parameter
  \<open>from_json\<close>; the model is a \<open>provider\<close>.
\<close>

subsection \<open>Searching and replacing\<close>

fun find_sub :: "string \<Rightarrow> string \<Rightarrow> nat option" where
  "find_sub p [] = (if p = [] then Some 0 else None)"
| "find_sub p (c # cs) = (if prefix p (c # cs) then Some 0 else map_option Suc (find_sub p cs))"

lemma find_sub_Some:
  "find_sub p s = Some i \<Longrightarrow> i + length p \<le> length s \<and> prefix p (drop i s) \<and> (\<forall>j < i. \<not> prefix p (drop j s))"
proof (induction s arbitrary: i)
  case (Cons c cs)
  show ?case
  proof (cases "prefix p (c # cs)")
    case True
    then show ?thesis using Cons.prems prefix_length_le [OF True] by simp
  next
    case False
    then obtain k where k: "find_sub p cs = Some k" "i = Suc k" using Cons.prems by auto
    then show ?thesis using Cons.IH [OF k(1)] False by (auto simp: less_Suc_eq_0_disj)
  qed
qed (auto split: if_splits)

lemma find_sub_None: "find_sub p s = None \<longleftrightarrow> \<not> sublist p s"
  by (induction s) (auto simp: sublist_Cons_right)

lemma find_sub_append_no_head:
  "CHR ''<'' \<notin> set a \<Longrightarrow> find_sub (CHR ''<'' # p) (a @ s) = map_option (\<lambda>i. length a + i) (find_sub (CHR ''<'' # p) s)"
  by (cases "find_sub (CHR ''<'' # p) s"; induction a) simp_all

lemma find_sub_zero: "prefix p s \<Longrightarrow> find_sub p s = Some 0"
  by (cases s) auto

lemma find_sub_prefix [simp]: "find_sub p (p @ s) = Some 0"
  by (rule find_sub_zero) simp

text \<open>\<open>str::replace\<close>: non-overlapping occurrences from the left; the pattern is not empty.\<close>

function replace_all :: "string \<Rightarrow> string \<Rightarrow> string \<Rightarrow> string" where
  "replace_all p by_s s = (case find_sub p s of
     None \<Rightarrow> s
   | Some i \<Rightarrow> if p = [] then s else take i s @ by_s @ replace_all p by_s (drop (i + length p) s))"
  by pat_completeness auto
termination
proof (relation "measure (\<lambda>(p, b, s). length s)", goal_cases)
  case (2 p b s i)
  then show ?case using find_sub_Some [OF 2(1)] by (cases p) auto
qed simp

declare replace_all.simps [simp del]

lemma replace_all_shrinks:
  "length by_s < length p \<Longrightarrow> length (replace_all p by_s s) \<le> length s \<and>
     (find_sub p s \<noteq> None \<longrightarrow> length (replace_all p by_s s) < length s)"
proof (induction p by_s s rule: replace_all.induct)
  case (1 p b s)
  show ?case
  proof (cases "find_sub p s")
    case None
    then show ?thesis by (simp add: replace_all.simps)
  next
    case (Some i)
    from 1(2) have p: "p \<noteq> []" by auto
    have le: "i + length p \<le> length s" using find_sub_Some [OF Some] by simp
    have "length (replace_all p b (drop (i + length p) s)) \<le> length s - (i + length p)"
      using 1(1) [OF Some p 1(2)] by simp
    then show ?thesis
      using Some p le 1(2) unfolding replace_all.simps [of p b s] by (simp, linarith)
  qed
qed

definition newlines :: "nat \<Rightarrow> string" where
  "newlines n = replicate n (CHR 0x0A)"

function collapse_newlines :: "string \<Rightarrow> string" where
  "collapse_newlines s =
     (if str_contains s (newlines 3) then collapse_newlines (replace_all (newlines 3) (newlines 2) s) else s)"
  by pat_completeness auto
termination
proof (relation "measure length")
  show "(replace_all (newlines 3) (newlines 2) s, s) \<in> measure length"
    if "str_contains s (newlines 3)" for s
    using replace_all_shrinks [of "newlines 2" "newlines 3" s] that find_sub_None [of "newlines 3" s]
    by (simp add: newlines_def str_contains_iff)
qed simp

declare collapse_newlines.simps [simp del]

subsection \<open>Internal tags\<close>

definition INTERNAL_TAGS :: "string list" where
  "INTERNAL_TAGS = [''thinking'', ''tool_call'', ''function_call'', ''tool_calls'']"

definition opening_tag :: "string \<Rightarrow> string \<Rightarrow> nat option" where
  "opening_tag tag s =
     (case (find_sub (''<'' @ tag @ ''>'') s, find_sub (''<'' @ tag @ '' '') s) of
        (Some a, Some b) \<Rightarrow> Some (min a b)
      | (Some a, None) \<Rightarrow> Some a
      | (None, Some b) \<Rightarrow> Some b
      | (None, None) \<Rightarrow> None)"

text \<open>The loop of \<open>strip_xml_tag\<close>: what it appends to the result from the remaining text. When the
  opening tag has no end, the text before it has been appended and the whole remaining text follows.\<close>

function strip_xml_loop :: "string \<Rightarrow> string \<Rightarrow> string" where
  "strip_xml_loop tag s = (case opening_tag tag s of
     None \<Rightarrow> s
   | Some start \<Rightarrow> take start s @
       (case find_sub ''>'' (drop start s) of
          None \<Rightarrow> s
        | Some pos \<Rightarrow>
            (let open_end = start + pos + 1; close = ''</'' @ tag @ ''>'' in
             case find_sub close (drop open_end s) of
               Some off \<Rightarrow> strip_xml_loop tag (drop (open_end + off + length close) s)
             | None \<Rightarrow> [])))"
  by pat_completeness auto
termination
proof (relation "measure (\<lambda>(tag, s). length s)", goal_cases)
  case (2 tag s start pos open_end close off)
  then show ?case using find_sub_Some [OF 2(5)] by (auto simp: Let_def)
qed simp

declare strip_xml_loop.simps [simp del]

definition strip_xml_tag :: "string \<Rightarrow> string \<Rightarrow> string" where
  "strip_xml_tag s tag = strip_xml_loop tag s"

function strip_pipe_loop :: "string \<Rightarrow> string \<Rightarrow> string" where
  "strip_pipe_loop tag s = (case find_sub (''<|'' @ tag @ ''|>'') s of
     None \<Rightarrow> s
   | Some start \<Rightarrow> take start s @
       (let close = ''<|/'' @ tag @ ''|>'' in
        case find_sub close (drop start s) of
          Some off \<Rightarrow> strip_pipe_loop tag (drop (start + off + length close) s)
        | None \<Rightarrow> []))"
  by pat_completeness auto
termination
proof (relation "measure (\<lambda>(tag, s). length s)", goal_cases)
  case (2 tag s start close off)
  then show ?case using find_sub_Some [OF 2(3)] by (auto simp: Let_def)
qed simp

declare strip_pipe_loop.simps [simp del]

definition strip_pipe_tag :: "string \<Rightarrow> string \<Rightarrow> string" where
  "strip_pipe_tag s tag = strip_pipe_loop tag s"

definition strip_internal_tags :: "string \<Rightarrow> string" where
  "strip_internal_tags s =
     trim (collapse_newlines
       (fold (\<lambda>tag r. strip_pipe_tag (strip_xml_tag r tag) tag) INTERNAL_TAGS s))"

definition content_marker :: "string \<Rightarrow> bool" where
  "content_marker s \<longleftrightarrow> s \<noteq> [] \<and> hd s \<in> {CHR ''#'', CHR 0x60, CHR ''*'', CHR ''-''}"

definition strip_reasoning_patterns :: "string \<Rightarrow> string" where
  "strip_reasoning_patterns s0 =
     (let s = trim s0 in
      if s = [] then s
      else if content_marker s then s
      else case find_sub (newlines 2) s of
             None \<Rightarrow> s
           | Some idx \<Rightarrow>
               (let after_break = trim (drop (idx + 2) s); lower = to_lowercase after_break in
                if after_break \<noteq> [] \<and>
                   (content_marker after_break \<or> str_starts_with lower ''here'' \<or>
                    str_starts_with lower (''i'' @ [CHR 0x27] @ ''d'') \<or> str_starts_with lower ''sure'')
                then after_break else s))"

definition clean_response :: "string \<Rightarrow> string" where
  "clean_response s = strip_reasoning_patterns (strip_internal_tags s)"

definition extract_json :: "string \<Rightarrow> string option" where
  "extract_json s = (case (find_index (\<lambda>c. c = CHR ''{'') s, rfind_index (\<lambda>c. c = CHR ''}'') s) of
     (Some start, Some end_i) \<Rightarrow> if start < end_i then Some (take (end_i + 1 - start) (drop start s)) else None
   | _ \<Rightarrow> None)"

subsection \<open>Recovering tool calls from the text\<close>

text \<open>The call a tag body stands for: a JSON object with the name of an available tool, or the
  bare name of one. \<open>n\<close> is the number of calls recovered so far.\<close>

definition json_call :: "(string \<Rightarrow> json option) \<Rightarrow> string list \<Rightarrow> string \<Rightarrow> (string \<times> json) option" where
  "json_call from_json names inner =
     (case from_json inner of
        None \<Rightarrow> None
      | Some v \<Rightarrow>
          (case get_str v ''name'' of
             None \<Rightarrow> None
           | Some name \<Rightarrow>
               if name \<in> set names
               then Some (name, case json_get v ''arguments'' of Some a \<Rightarrow> a | None \<Rightarrow> JObject [])
               else None))"

definition recover_call ::
  "(string \<Rightarrow> json option) \<Rightarrow> string list \<Rightarrow> nat \<Rightarrow> string \<Rightarrow> tool_call option" where
  "recover_call from_json names n inner =
     (case json_call from_json names inner of
        Some (name, args) \<Rightarrow>
          Some \<lparr>tc_id = ''recovered_'' @ nat_str n, tc_name = name, tc_arguments = args\<rparr>
      | None \<Rightarrow>
          (let name = trim inner in
           if name \<in> set names
           then Some \<lparr>tc_id = ''recovered_'' @ nat_str n, tc_name = name, tc_arguments = JObject []\<rparr>
           else None))"

text \<open>The inner loop for one pair of delimiters; \<open>o\<close> is the opening tag after its \<open><\<close>.\<close>

function recover_loop ::
  "(string \<Rightarrow> json option) \<Rightarrow> string list \<Rightarrow> string \<Rightarrow> string \<Rightarrow> string \<Rightarrow> tool_call list \<Rightarrow> tool_call list" where
  "recover_loop from_json names o_tail close remaining calls =
     (case find_sub (CHR ''<'' # o_tail) remaining of
        None \<Rightarrow> calls
      | Some start \<Rightarrow>
          (let after = drop (start + length (CHR ''<'' # o_tail)) remaining in
           case find_sub close after of
             None \<Rightarrow> calls
           | Some e \<Rightarrow>
               (let inner = trim (take e after); rest = drop (e + length close) after in
                if inner = [] then recover_loop from_json names o_tail close rest calls
                else case recover_call from_json names (length calls) inner of
                       Some tc \<Rightarrow> recover_loop from_json names o_tail close rest (calls @ [tc])
                     | None \<Rightarrow> recover_loop from_json names o_tail close rest calls)))"
  by pat_completeness auto
termination
  by (relation "measure (\<lambda>(f, names, o_t, c, s, calls). length s)") (auto dest!: find_sub_Some)

declare recover_loop.simps [simp del]

definition recover_delimiters :: "(string \<times> string) list" where
  "recover_delimiters =
     [(''tool_call>'', ''</tool_call>''), (''|tool_call|>'', ''<|/tool_call|>''),
      (''function_call>'', ''</function_call>''), (''|function_call|>'', ''<|/function_call|>'')]"

definition recover_tool_calls_from_content ::
  "(string \<Rightarrow> json option) \<Rightarrow> string \<Rightarrow> tool_definition list \<Rightarrow> tool_call list" where
  "recover_tool_calls_from_content from_json content available_tools =
     fold (\<lambda>(o_tail, close). recover_loop from_json (map td_name available_tools) o_tail close content)
       recover_delimiters []"

subsection \<open>Asking the model\<close>

record token_usage =
  tu_input_tokens :: nat
  tu_output_tokens :: nat

datatype respond_result = RespText string | RespToolCalls "tool_call list" "string option"

record respond_output =
  ro_result :: respond_result
  ro_usage :: token_usage

record reasoning_context =
  rc_messages :: "chat_message list"
  rc_available_tools :: "tool_definition list"
  rc_metadata :: "(string \<times> string) list"

definition build_conversation_prompt :: "string option \<Rightarrow> tool_definition list \<Rightarrow> string" where
  "build_conversation_prompt identity tools =
     join (newlines 1)
       [''You are AI Assist, an autonomous personal assistant.'', '''',
        ''## Response Format'', '''',
        ''If you need to think through a problem, wrap your thinking in <thinking> tags. Everything outside these tags goes directly to the user.'', '''',
        ''Example:'', ''<thinking>'', ''Let me consider the options...'', ''Option 1: ...'', ''Option 2: ...'',
        ''I'' @ [CHR 0x27] @ ''ll go with option 1.'', ''</thinking>'',
        ''Here'' @ [CHR 0x27] @ ''s the solution: [actual response to user]'', '''',
        ''## Guidelines'', ''- Be concise and direct'', ''- Use markdown formatting where helpful'',
        ''- For code, use appropriate code blocks with language tags'',
        ''- Call tools when they would help accomplish the task'' @
          (if tools = [] then []
           else newlines 2 @ ''## Available Tools'' @ newlines 1 @ ''You have access to these tools:'' @
             newlines 1 @ join (newlines 1) (map (\<lambda>t. ''  - '' @ td_name t @ '': '' @ td_description t) tools) @
             newlines 2 @ ''Call tools when they would help accomplish the task.''),
        '''',
        ''The user sees ONLY content outside <thinking> tags.'' @
          (case identity of None \<Rightarrow> [] | Some i \<Rightarrow> newlines 2 @ ''---'' @ newlines 2 @ i)]"

definition respond_with_tools ::
  "(string \<Rightarrow> json option) \<Rightarrow> provider \<Rightarrow> string option \<Rightarrow> nat \<Rightarrow> reasoning_context \<Rightarrow>
    llm_error + respond_output" where
  "respond_with_tools from_json llm identity n ctx =
     (let ms = system_message (build_conversation_prompt identity (rc_available_tools ctx)) # rc_messages ctx in
      if rc_available_tools ctx \<noteq> [] then
        (case complete_with_tools llm n
                ((tool_completion_request_new ms (rc_available_tools ctx))
                   \<lparr>tq_max_tokens := Some 4096, tq_temperature := Some (7/10), tq_tool_choice := Some ''auto'',
                    tq_metadata := rc_metadata ctx\<rparr>) of
           Inl e \<Rightarrow> Inl e
         | Inr r \<Rightarrow>
             (let usage = \<lparr>tu_input_tokens = tr_input_tokens r, tu_output_tokens = tr_output_tokens r\<rparr> in
              if tr_tool_calls r \<noteq> [] then
                Inr \<lparr>ro_result = RespToolCalls (tr_tool_calls r) (tr_content r), ro_usage = usage\<rparr>
              else
                (let raw = (case tr_content r of Some c \<Rightarrow> c
                            | None \<Rightarrow> ''I'' @ [CHR 0x27] @ ''m not sure how to respond to that.'');
                     recovered = recover_tool_calls_from_content from_json raw (rc_available_tools ctx);
                     cleaned = clean_response raw
                 in if recovered \<noteq> [] then
                      Inr \<lparr>ro_result = RespToolCalls recovered (if cleaned = [] then None else Some cleaned),
                           ro_usage = usage\<rparr>
                    else Inr \<lparr>ro_result = RespText cleaned, ro_usage = usage\<rparr>)))
      else
        (case complete llm n
                ((completion_request_new ms)
                   \<lparr>rq_max_tokens := Some 4096, rq_temperature := Some (7/10), rq_metadata := rc_metadata ctx\<rparr>) of
           Inl e \<Rightarrow> Inl e
         | Inr r \<Rightarrow>
             Inr \<lparr>ro_result = RespText (clean_response (rs_content r)),
                  ro_usage = \<lparr>tu_input_tokens = rs_input_tokens r, tu_output_tokens = rs_output_tokens r\<rparr>\<rparr>))"

subsection \<open>Properties\<close>

definition recovered_ok :: "string list \<Rightarrow> tool_call list \<Rightarrow> bool" where
  "recovered_ok names calls \<longleftrightarrow> set (map tc_name calls) \<subseteq> set names \<and>
     map tc_id calls = map (\<lambda>n. ''recovered_'' @ nat_str n) [0..<length calls]"

lemma recover_call_ok:
  "recover_call fj names n inner = Some tc \<Longrightarrow> tc_name tc \<in> set names \<and> tc_id tc = ''recovered_'' @ nat_str n"
  by (auto simp: recover_call_def json_call_def Let_def split: option.splits if_splits)

lemma recovered_ok_snoc:
  "recovered_ok names calls \<Longrightarrow> recover_call fj names (length calls) inner = Some tc \<Longrightarrow>
    recovered_ok names (calls @ [tc])"
  by (auto simp: recovered_ok_def dest: recover_call_ok)

lemma recover_loop_ok:
  "recovered_ok names calls \<Longrightarrow> recovered_ok names (recover_loop fj names o_tail close s calls)"
proof (induction fj names o_tail close s calls rule: recover_loop.induct)
  case (1 fj names o_tail close s calls)
  note snoc = recovered_ok_snoc [OF 1(4)]
  show ?case
    unfolding recover_loop.simps [of fj names o_tail close s calls]
    using 1 by (auto simp: Let_def snoc split: option.split)
qed

text \<open>Tool calls recovered from the text of an answer name available tools only, whatever the model
  writes, and have distinct ids, so that their results can be told apart.\<close>

theorem recovered_calls_available:
  "set (map tc_name (recover_tool_calls_from_content from_json content tools)) \<subseteq> set (map td_name tools) \<and>
   distinct (map tc_id (recover_tool_calls_from_content from_json content tools))"
proof -
  let ?names = "map td_name tools"
  let ?step = "\<lambda>(o_tail, close). recover_loop from_json ?names o_tail close content"
  have "recovered_ok ?names (fold ?step ds calls)" if "recovered_ok ?names calls" for ds calls
    using that by (induction ds arbitrary: calls) (auto intro: recover_loop_ok)
  then have "recovered_ok ?names (recover_tool_calls_from_content from_json content tools)"
    by (simp add: recover_tool_calls_from_content_def recovered_ok_def)
  then show ?thesis by (auto simp: recovered_ok_def distinct_map inj_on_def)
qed

lemma find_char_append: "c \<notin> set a \<Longrightarrow> find_sub [c] (a @ c # s) = Some (length a)"
  by (induction a) auto

lemma find_char_None: "c \<notin> set s \<Longrightarrow> find_sub [c] s = None"
  by (induction s) auto

lemma opening_tag_exact:
  "CHR ''<'' \<notin> set pre \<Longrightarrow> opening_tag tag (pre @ ''<'' @ tag @ ''>'' @ s) = Some (length pre)"
  using find_sub_append_no_head [of pre "tag @ ''>''" "''<'' @ tag @ ''>'' @ s"]
    find_sub_append_no_head [of pre "tag @ '' ''" "''<'' @ tag @ ''>'' @ s"]
    find_sub_prefix [of "''<'' @ tag @ ''>''" s]
  by (auto simp: opening_tag_def split: option.splits)

lemma opening_tag_attr:
  assumes "CHR ''<'' \<notin> set pre" "CHR ''>'' \<notin> set s" "CHR ''>'' \<notin> set tag"
  shows "opening_tag tag (pre @ ''<'' @ tag @ '' '' @ s) = Some (length pre)"
proof -
  let ?r = "''<'' @ tag @ '' '' @ s"
  have "\<not> sublist (''<'' @ tag @ ''>'') ?r"
    using assms(2,3) by (auto dest: set_mono_sublist)
  then have "find_sub (''<'' @ tag @ ''>'') ?r = None" by (rule iffD2 [OF find_sub_None])
  then show ?thesis
    using assms(1) find_sub_append_no_head [of pre "tag @ ''>''" ?r]
      find_sub_append_no_head [of pre "tag @ '' ''" ?r] find_sub_prefix [of "''<'' @ tag @ '' ''" s]
    by (simp add: opening_tag_def)
qed

lemma drop_append_both: "drop (length a + length b) (a @ b @ c) = c"
  by simp

lemma strip_xml_step:
  assumes "opening_tag tag s = Some a" "find_sub ''>'' (drop a s) = Some pos" "drop (a + pos + 1) s = r"
  shows "strip_xml_loop tag s = take a s @
     (case find_sub (''</'' @ tag @ ''>'') r of
        Some off \<Rightarrow> strip_xml_loop tag (drop (off + length (''</'' @ tag @ ''>'')) r)
      | None \<Rightarrow> [])"
  using assms(1,2)
  by (subst strip_xml_loop.simps) (auto simp: Let_def ac_simps simp flip: assms(3) split: option.split)

text \<open>What the model writes between internal tags is not shown. A block in \<open><tag>..</tag>\<close> is cut out
  and the text around it kept; an opening tag without a closing one cuts off the rest.\<close>

theorem tagged_block_removed:
  assumes "CHR ''<'' \<notin> set pre" and "CHR ''<'' \<notin> set inner" and "CHR ''>'' \<notin> set tag"
  shows "strip_xml_tag (pre @ ''<'' @ tag @ ''>'' @ inner @ ''</'' @ tag @ ''>'' @ post) tag =
      pre @ strip_xml_tag post tag \<and>
    strip_xml_tag (pre @ ''<'' @ tag @ ''>'' @ inner) tag = pre"
proof -
  have gt: "find_sub ''>'' (''<'' @ tag @ ''>'' @ s) = Some (Suc (length tag))" for s
    using find_char_append [of "CHR ''>''" "''<'' @ tag" s] assms(3) by simp
  have close: "find_sub (''</'' @ tag @ ''>'') (inner @ ''</'' @ tag @ ''>'' @ post) = Some (length inner)"
    using find_sub_append_no_head [OF assms(2), of "''/'' @ tag @ ''>''" "''</'' @ tag @ ''>'' @ post"]
      find_sub_prefix [of "''</'' @ tag @ ''>''" post] by simp
  have none: "find_sub (''</'' @ tag @ ''>'') inner = None"
    using find_sub_append_no_head [OF assms(2), of "''/'' @ tag @ ''>''" "[]"] by simp
  let ?body = "inner @ ''</'' @ tag @ ''>'' @ post"
  have "strip_xml_loop tag (pre @ ''<'' @ tag @ ''>'' @ ?body) =
      pre @ strip_xml_loop tag (drop (length inner + length (''</'' @ tag @ ''>'')) ?body)"
    using strip_xml_step [OF opening_tag_exact [OF assms(1), of tag ?body], of "Suc (length tag)" ?body]
      gt [of ?body] close by simp
  moreover have "drop (length inner + length (''</'' @ tag @ ''>'')) ?body = post"
    using drop_append_both [of inner "''</'' @ tag @ ''>''" post] by simp
  moreover have "strip_xml_loop tag (pre @ ''<'' @ tag @ ''>'' @ inner) = pre"
    using strip_xml_step [OF opening_tag_exact [OF assms(1), of tag inner], of "Suc (length tag)" inner]
      gt [of inner] none by simp
  ultimately show ?thesis by (simp add: strip_xml_tag_def)
qed

text \<open>An opening tag with attributes whose \<open>>\<close> is missing is meant to end the search, but the text
  before it has been copied already: the result repeats it.\<close>

theorem unfinished_tag_duplicates:
  assumes "CHR ''<'' \<notin> set pre" and "CHR ''>'' \<notin> set inner" and "CHR ''>'' \<notin> set tag"
  shows "strip_xml_tag (pre @ ''<'' @ tag @ '' '' @ inner) tag = pre @ pre @ ''<'' @ tag @ '' '' @ inner"
proof -
  let ?s = "pre @ ''<'' @ tag @ '' '' @ inner"
  have "find_sub ''>'' (drop (length pre) ?s) = None"
    using find_char_None [of "CHR ''>''" "''<'' @ tag @ '' '' @ inner"] assms(2,3) by simp
  then show ?thesis
    using opening_tag_attr [OF assms(1,2,3)]
    by (subst strip_xml_tag_def, subst strip_xml_loop.simps) simp
qed

subsection \<open>Witnesses\<close>

theorem tagged_block_removed_witness:
  "strip_xml_tag ''Hi <thinking>a plan</thinking>there'' ''thinking'' = ''Hi '' @ strip_xml_tag ''there'' ''thinking'' \<and>
   strip_xml_tag ''Hi <thinking>a plan'' ''thinking'' = ''Hi ''"
  using tagged_block_removed [of "''Hi ''" "''a plan''" "''thinking''" "''there''"] by simp

theorem unfinished_tag_duplicates_witness:
  "strip_xml_tag ''Use <thinking cap'' ''thinking'' = ''Use Use <thinking cap''"
  using unfinished_tag_duplicates [of "''Use ''" "''cap''" "''thinking''"] by simp

end
