(* ===== verification/Workspace.thy ===== *)
theory Workspace
  imports Text
begin

text \<open>
  The workspace directory of \<open>src/src/workspace.rs\<close>: named text files for memory, identity and
  prompts. The files are an association list from path to content. Whether the next operation on the
  file system succeeds is read off \<open>ws_faults\<close>, a list of failures to come (none listed: it
  succeeds). Dates are formatted by a third-party crate, the parameters \<open>fmt_date\<close> and \<open>fmt_time\<close>.
  Listing and searching directories is not modelled here.
\<close>

datatype workspace_error = WsIo | WsFileNotFound string

record workspace =
  ws_base_path :: string
  ws_files :: "(string \<times> string) list"
  ws_faults :: "bool list"

definition ws_tick :: "workspace \<Rightarrow> bool \<times> workspace" where
  "ws_tick w = (case ws_faults w of [] \<Rightarrow> (True, w) | b # bs \<Rightarrow> (\<not> b, w\<lparr>ws_faults := bs\<rparr>))"

definition resolve_path :: "workspace \<Rightarrow> string \<Rightarrow> string" where
  "resolve_path w relative =
     (if str_starts_with relative ''/'' then relative else ws_base_path w @ ''/'' @ relative)"

definition ws_lookup :: "workspace \<Rightarrow> string \<Rightarrow> string option" where
  "ws_lookup w path = map_of (ws_files w) (resolve_path w path)"

definition ws_read :: "string \<Rightarrow> workspace \<Rightarrow> (workspace_error + string) \<times> workspace" where
  "ws_read path w = (case ws_lookup w path of
     None \<Rightarrow> (Inl (WsFileNotFound path), w)
   | Some content \<Rightarrow> let (ok, w1) = ws_tick w in (if ok then Inr content else Inl WsIo, w1))"

definition ws_write :: "string \<Rightarrow> string \<Rightarrow> workspace \<Rightarrow> (workspace_error + unit) \<times> workspace" where
  "ws_write path content w =
     (let (ok, w1) = ws_tick w
      in if ok then (Inr (), w1\<lparr>ws_files := AList.update (resolve_path w path) content (ws_files w1)\<rparr>)
         else (Inl WsIo, w1))"

definition appended :: "string option \<Rightarrow> string \<Rightarrow> string" where
  "appended existing content = (case existing of
     None \<Rightarrow> content
   | Some e \<Rightarrow> if e = [] then content else trim_end e @ [CHR 0x0A] @ content)"

definition ws_append :: "string \<Rightarrow> string \<Rightarrow> workspace \<Rightarrow> (workspace_error + unit) \<times> workspace" where
  "ws_append path content w = ws_write path (appended (ws_lookup w path) content) w"

definition append_memory ::
  "(datetime \<Rightarrow> string) \<Rightarrow> datetime \<Rightarrow> string \<Rightarrow> workspace \<Rightarrow> (workspace_error + unit) \<times> workspace" where
  "append_memory fmt_stamp now content =
     ws_append ''MEMORY.md''
       ([CHR 0x0A] @ ''---'' @ [CHR 0x0A] @ ''*Updated: '' @ fmt_stamp now @ ''*'' @ [CHR 0x0A, CHR 0x0A] @ content)"

definition append_daily_log ::
  "(datetime \<Rightarrow> string) \<Rightarrow> (datetime \<Rightarrow> string) \<Rightarrow> datetime \<Rightarrow> string \<Rightarrow> workspace \<Rightarrow>
    (workspace_error + unit) \<times> workspace" where
  "append_daily_log fmt_date fmt_time now content =
     ws_append (''memory/'' @ fmt_date now @ ''.md'')
       ([CHR 0x0A] @ ''## '' @ fmt_time now @ [CHR 0x0A, CHR 0x0A] @ content)"

text \<open>The prompts skip what is missing, unreadable or blank; they never fail.\<close>

definition readable :: "workspace \<Rightarrow> string \<Rightarrow> string option \<times> workspace" where
  "readable w path = (case ws_lookup w path of
     None \<Rightarrow> (None, w)
   | Some content \<Rightarrow> let (ok, w1) = ws_tick w
                     in (if ok \<and> trim content \<noteq> [] then Some content else None, w1))"

definition worker_prompt :: "workspace \<Rightarrow> string \<times> workspace" where
  "worker_prompt w = (let (c, w1) = readable w ''WORKER.md'' in (case c of Some s \<Rightarrow> s | None \<Rightarrow> [], w1))"

definition IDENTITY_FILES :: "string list" where
  "IDENTITY_FILES = [''AGENTS.md'', ''SOUL.md'', ''USER.md'', ''IDENTITY.md'']"

fun prompt_parts :: "string list \<Rightarrow> workspace \<Rightarrow> string list \<times> workspace" where
  "prompt_parts [] w = ([], w)"
| "prompt_parts (f # fs) w =
     (let (c, w1) = readable w f; (parts, w2) = prompt_parts fs w1
      in case c of
           Some s \<Rightarrow> ((''# '' @ f @ [CHR 0x0A, CHR 0x0A] @ s) # parts, w2)
         | None \<Rightarrow> (parts, w2))"

definition system_prompt :: "workspace \<Rightarrow> string \<times> workspace" where
  "system_prompt w =
     (let (parts, w1) = prompt_parts IDENTITY_FILES w
      in (join ([CHR 0x0A, CHR 0x0A] @ ''---'' @ [CHR 0x0A, CHR 0x0A]) parts, w1))"

lemma ws_tick_files [simp]: "ws_files (snd (ws_tick w)) = ws_files w"
    "ws_base_path (snd (ws_tick w)) = ws_base_path w"
  by (simp_all add: ws_tick_def split: list.split)

lemma resolve_path_cong: "ws_base_path v = ws_base_path w \<Longrightarrow> resolve_path v p = resolve_path w p"
  by (simp add: resolve_path_def)

lemma ws_append_lookup:
  assumes "ws_append path content w = (Inr (), w')"
  shows "ws_lookup w' p = (if resolve_path w p = resolve_path w path
      then Some (appended (ws_lookup w path) content) else ws_lookup w p)"
proof -
  obtain ok w1 where t: "ws_tick w = (ok, w1)" by fastforce
  have w1: "ws_files w1 = ws_files w" "ws_base_path w1 = ws_base_path w" by (simp_all add: ws_tick_files [of w, unfolded t, simplified])
  have "w' = w1\<lparr>ws_files := AList.update (resolve_path w path) (appended (ws_lookup w path) content) (ws_files w)\<rparr>"
    using assms t w1(1) by (simp add: ws_append_def ws_write_def split: if_splits)
  moreover from this have "resolve_path w' p = resolve_path w p"
    using w1(2) by (intro resolve_path_cong) simp
  ultimately show ?thesis by (simp add: ws_lookup_def update_conv')
qed

end
