(* ===== verification/Undo.thy ===== *)
theory Undo
  imports Session
begin

text \<open>
  Checkpoints (\<open>src/src/agent/undo.rs\<close>) and the session manager
  (\<open>src/src/agent/session_manager.rs\<close>), which maps users to sessions and the threads of the
  channels to threads of a session. Hash maps are association lists with one entry per key. A
  session or an undo manager behind \<open>Arc<Mutex<..>>\<close> is the entry of its map. The text of a UUID
  is written by a third-party crate and is the parameter \<open>uuid_str\<close>.
\<close>

subsection \<open>Checkpoints\<close>

record checkpoint =
  cp_id :: uuid
  cp_turn_number :: nat
  cp_messages :: "chat_message list"
  cp_description :: string

record undo_manager =
  um_undo :: "checkpoint list"
  um_redo :: "checkpoint list"
  um_max :: nat

definition DEFAULT_MAX_CHECKPOINTS :: nat where
  "DEFAULT_MAX_CHECKPOINTS = 20"

definition new_checkpoint :: "uuid \<Rightarrow> nat \<Rightarrow> chat_message list \<Rightarrow> string \<Rightarrow> checkpoint" where
  "new_checkpoint fresh n ms description =
     \<lparr>cp_id = fresh, cp_turn_number = n, cp_messages = ms, cp_description = description\<rparr>"

definition new_undo_manager :: undo_manager where
  "new_undo_manager = \<lparr>um_undo = [], um_redo = [], um_max = DEFAULT_MAX_CHECKPOINTS\<rparr>"

definition with_max_checkpoints :: "nat \<Rightarrow> undo_manager \<Rightarrow> undo_manager" where
  "with_max_checkpoints n u = u\<lparr>um_max := n\<rparr>"

definition add_checkpoint :: "checkpoint \<Rightarrow> undo_manager \<Rightarrow> undo_manager" where
  "add_checkpoint cp u =
     u\<lparr>um_redo := [], um_undo := pop_front_while_over (um_max u) (um_undo u @ [cp])\<rparr>"

definition checkpoint_turn ::
  "uuid \<Rightarrow> nat \<Rightarrow> chat_message list \<Rightarrow> string \<Rightarrow> undo_manager \<Rightarrow> undo_manager" where
  "checkpoint_turn fresh n ms description = add_checkpoint (new_checkpoint fresh n ms description)"

definition undo ::
  "uuid \<Rightarrow> nat \<Rightarrow> chat_message list \<Rightarrow> undo_manager \<Rightarrow> checkpoint option \<times> undo_manager" where
  "undo fresh current_turn current_messages u =
     (if um_undo u = [] then (None, u)
      else let u1 = u\<lparr>um_redo := um_redo u @
                 [new_checkpoint fresh current_turn current_messages (''Turn '' @ nat_str current_turn)]\<rparr>
           in (Some (last (um_undo u1)), u1))"

definition pop_last :: "'a list \<Rightarrow> 'a option \<times> 'a list" where
  "pop_last xs = (if xs = [] then (None, []) else (Some (last xs), butlast xs))"

definition pop_undo :: "undo_manager \<Rightarrow> checkpoint option \<times> undo_manager" where
  "pop_undo u = (let (cp, rest) = pop_last (um_undo u) in (cp, u\<lparr>um_undo := rest\<rparr>))"

definition redo :: "undo_manager \<Rightarrow> checkpoint option \<times> undo_manager" where
  "redo u = (let (cp, rest) = pop_last (um_redo u) in (cp, u\<lparr>um_redo := rest\<rparr>))"

definition can_undo :: "undo_manager \<Rightarrow> bool" where "can_undo u \<longleftrightarrow> um_undo u \<noteq> []"
definition can_redo :: "undo_manager \<Rightarrow> bool" where "can_redo u \<longleftrightarrow> um_redo u \<noteq> []"
definition undo_count :: "undo_manager \<Rightarrow> nat" where "undo_count u = length (um_undo u)"
definition redo_count :: "undo_manager \<Rightarrow> nat" where "redo_count u = length (um_redo u)"

definition get_checkpoint :: "uuid \<Rightarrow> undo_manager \<Rightarrow> checkpoint option" where
  "get_checkpoint i u = (case List.find (\<lambda>c. cp_id c = i) (um_undo u) of
     Some c \<Rightarrow> Some c | None \<Rightarrow> List.find (\<lambda>c. cp_id c = i) (um_redo u))"

definition clear_checkpoints :: "undo_manager \<Rightarrow> undo_manager" where
  "clear_checkpoints u = u\<lparr>um_undo := [], um_redo := []\<rparr>"

fun position :: "('a \<Rightarrow> bool) \<Rightarrow> 'a list \<Rightarrow> nat option" where
  "position P [] = None"
| "position P (x # xs) = (if P x then Some 0 else map_option Suc (position P xs))"

definition restore :: "uuid \<Rightarrow> undo_manager \<Rightarrow> checkpoint option \<times> undo_manager" where
  "restore i u = (case position (\<lambda>c. cp_id c = i) (um_undo u) of
     None \<Rightarrow> (None, u)
   | Some pos \<Rightarrow>
       let (cp, rest) = pop_last (take (pos + 1) (um_undo u))
       in (cp, u\<lparr>um_redo := [], um_undo := rest\<rparr>))"

subsection \<open>The session manager\<close>

record thread_key =
  key_user_id :: string
  key_channel :: string
  key_external :: "string option"

record session_manager =
  sm_sessions :: "(string \<times> session) list"
  sm_thread_map :: "(thread_key \<times> uuid) list"
  sm_undo :: "(uuid \<times> undo_manager) list"

definition new_session_manager :: session_manager where
  "new_session_manager = \<lparr>sm_sessions = [], sm_thread_map = [], sm_undo = []\<rparr>"

definition get_or_create_session ::
  "uuid \<Rightarrow> datetime \<Rightarrow> string \<Rightarrow> session_manager \<Rightarrow> session \<times> session_manager" where
  "get_or_create_session fresh now user m = (case map_of (sm_sessions m) user of
     Some s \<Rightarrow> (s, m)
   | None \<Rightarrow> (let s = new_session fresh now user
             in (s, m\<lparr>sm_sessions := AList.update user s (sm_sessions m)\<rparr>)))"

text \<open>\<open>resolve_thread\<close>: \<open>fresh_s\<close> and \<open>fresh_t\<close> are the ids drawn if a session or a thread is made.\<close>

definition resolve_thread ::
  "uuid \<Rightarrow> uuid \<Rightarrow> datetime \<Rightarrow> string \<Rightarrow> string \<Rightarrow> string option \<Rightarrow> session_manager \<Rightarrow> uuid \<times> session_manager" where
  "resolve_thread fresh_s fresh_t now user chan ext m =
     (let (s, m1) = get_or_create_session fresh_s now user m;
          key = \<lparr>key_user_id = user, key_channel = chan, key_external = ext\<rparr>;
          found = (case map_of (sm_thread_map m1) key of
                     Some tid \<Rightarrow> if get_thread tid s \<noteq> None then Some tid else None
                   | None \<Rightarrow> None)
      in case found of
           Some tid \<Rightarrow> (tid, m1)
         | None \<Rightarrow>
             (fresh_t, m1\<lparr>sm_sessions := AList.update user (create_thread fresh_t now s) (sm_sessions m1),
                          sm_thread_map := AList.update key fresh_t (sm_thread_map m1),
                          sm_undo := AList.update fresh_t new_undo_manager (sm_undo m1)\<rparr>))"

definition register_thread ::
  "(uuid \<Rightarrow> string) \<Rightarrow> string \<Rightarrow> string \<Rightarrow> uuid \<Rightarrow> session \<Rightarrow> session_manager \<Rightarrow> session_manager" where
  "register_thread uuid_str user chan tid s m =
     m\<lparr>sm_thread_map := AList.update
          \<lparr>key_user_id = user, key_channel = chan, key_external = Some (uuid_str tid)\<rparr> tid (sm_thread_map m),
       sm_undo := (if map_of (sm_undo m) tid = None then AList.update tid new_undo_manager (sm_undo m)
                   else sm_undo m),
       sm_sessions := (if map_of (sm_sessions m) user = None then AList.update user s (sm_sessions m)
                       else sm_sessions m)\<rparr>"

definition get_undo_manager :: "uuid \<Rightarrow> session_manager \<Rightarrow> undo_manager \<times> session_manager" where
  "get_undo_manager tid m = (case map_of (sm_undo m) tid of
     Some u \<Rightarrow> (u, m)
   | None \<Rightarrow> (new_undo_manager, m\<lparr>sm_undo := AList.update tid new_undo_manager (sm_undo m)\<rparr>))"

text \<open>A session in use is locked and is skipped: \<open>locked\<close>.\<close>

definition stale_users :: "(string \<Rightarrow> bool) \<Rightarrow> datetime \<Rightarrow> session_manager \<Rightarrow> string list" where
  "stale_users locked cutoff m =
     map fst (filter (\<lambda>(user, s). \<not> locked user \<and> ss_last_active_at s < cutoff) (sm_sessions m))"

definition prune_stale_sessions ::
  "(string \<Rightarrow> bool) \<Rightarrow> datetime \<Rightarrow> int \<Rightarrow> session_manager \<Rightarrow> nat \<times> session_manager" where
  "prune_stale_sessions locked now max_idle_secs m =
     (let cutoff = now - duration_secs max_idle_secs;
          stale = stale_users locked cutoff m;
          tids = concat (map (\<lambda>user. case map_of (sm_sessions m) user of
                     Some s \<Rightarrow> map fst (ss_threads s) | None \<Rightarrow> []) stale);
          rest = filter (\<lambda>(user, _). user \<notin> set stale) (sm_sessions m)
      in if stale = [] then (0, m)
         else (length (sm_sessions m) - length rest,
               m\<lparr>sm_sessions := rest,
                 sm_thread_map := filter (\<lambda>(key, _). key_user_id key \<notin> set stale) (sm_thread_map m),
                 sm_undo := filter (\<lambda>(tid, _). tid \<notin> set tids) (sm_undo m)\<rparr>))"

subsection \<open>Checkpoints form a bounded log\<close>

interpretation checkpoints: bounded_log um_undo add_checkpoint um_max
  by unfold_locales (simp_all add: add_checkpoint_def pop_front_while_over_eq)

text \<open>The undo history is bounded. After any sequence of turns the undo stack holds the last
  \<open>max_checkpoints\<close> checkpoints, in order, and a new checkpoint drops the redo history.\<close>

theorem checkpoint_history:
  assumes "um_undo u = []"
  shows "um_undo (fold add_checkpoint cps u) = keep_last (um_max u) cps \<and>
    um_redo (add_checkpoint cp u) = []"
  using checkpoints.items_fold [of u cps] assms by (simp add: add_checkpoint_def)

text \<open>Undo followed by redo. Undo offers the latest checkpoint and saves the state it leaves;
  redo gives that state back. But undo does not consume the checkpoint: a second undo offers the
  same one again, and the number of undos left never goes down.\<close>

theorem undo_redo_behaviour:
  assumes "can_undo u"
  shows "let (c1, u1) = undo f1 n1 ms1 u; (c2, u2) = undo f2 n2 ms2 u1; (r, u3) = redo u1
   in c1 = Some (last (um_undo u)) \<and> c2 = c1 \<and> undo_count u2 = undo_count u \<and>
      map_option cp_messages r = Some ms1 \<and> u3 = u"
  using assms
  by (simp add: undo_def redo_def pop_last_def can_undo_def undo_count_def Let_def new_checkpoint_def)

lemma position_Some: "position P xs = Some i \<Longrightarrow> i < length xs \<and> P (xs ! i) \<and> (\<forall>j < i. \<not> P (xs ! j))"
proof (induction xs arbitrary: i)
  case (Cons x xs)
  show ?case
  proof (cases "P x")
    case True
    then show ?thesis using Cons.prems by simp
  next
    case False
    then obtain k where k: "position P xs = Some k" "i = Suc k" using Cons.prems by auto
    then show ?thesis using Cons.IH [OF k(1)] False by (auto simp: nth_Cons split: nat.split)
  qed
qed simp

text \<open>Resuming from a checkpoint returns the checkpoint with that id and drops it and everything
  recorded after it, on both stacks; with an unknown id nothing happens.\<close>

theorem restore_rolls_back:
  "case restore i u of
     (None, u') \<Rightarrow> u' = u
   | (Some cp, u') \<Rightarrow> cp_id cp = i \<and> um_redo u' = [] \<and>
       (\<exists>later. um_undo u = um_undo u' @ cp # later)"
proof (cases "position (\<lambda>c. cp_id c = i) (um_undo u)")
  case None
  then show ?thesis by (simp add: restore_def)
next
  case (Some pos)
  from position_Some [OF this] have pos: "pos < length (um_undo u)" "cp_id (um_undo u ! pos) = i" by auto
  then have "take (pos + 1) (um_undo u) = take pos (um_undo u) @ [um_undo u ! pos]"
    by (simp add: take_Suc_conv_app_nth)
  with pos Some show ?thesis
    using id_take_nth_drop [OF pos(1)]
    by (auto simp: restore_def pop_last_def)
qed

subsection \<open>Properties of the session manager\<close>

lemma get_or_create_session_facts:
  assumes "get_or_create_session fs now user m = (s, m1)"
  shows "map_of (sm_sessions m1) user = Some s"
    and "(map_of (sm_sessions m1))(user := None) = (map_of (sm_sessions m))(user := None)"
    and "sm_thread_map m1 = sm_thread_map m"
  using assms
  by (auto simp: get_or_create_session_def Let_def update_conv' split: option.splits)

lemma get_thread_create [simp]: "get_thread fresh (create_thread fresh now s) = Some (new_thread fresh now (ss_id s))"
  by (simp add: get_thread_def create_thread_def put_thread_def update_conv')

text \<open>Resolving a thread. The thread belongs to the session of the user who asked; asking again
  for the same conversation gives the same thread and changes nothing; and no other user's session
  is touched.\<close>

theorem resolve_thread_stable:
  "let (tid, m1) = resolve_thread fs ft now user chan ext m
   in (\<exists>s. map_of (sm_sessions m1) user = Some s \<and> get_thread tid s \<noteq> None) \<and>
      resolve_thread fs' ft' now' user chan ext m1 = (tid, m1) \<and>
      (map_of (sm_sessions m1))(user := None) = (map_of (sm_sessions m))(user := None)"
proof -
  obtain s m0 where gs: "get_or_create_session fs now user m = (s, m0)" by fastforce
  note facts = get_or_create_session_facts [OF gs]
  define key where "key = \<lparr>key_user_id = user, key_channel = chan, key_external = ext\<rparr>"
  obtain tid m1 where run: "resolve_thread fs ft now user chan ext m = (tid, m1)" by fastforce
  show ?thesis
  proof (cases "\<exists>t. map_of (sm_thread_map m0) key = Some t \<and> get_thread t s \<noteq> None")
    case True
    then have "m1 = m0" "map_of (sm_thread_map m0) key = Some tid" "get_thread tid s \<noteq> None"
      using run gs by (auto simp: resolve_thread_def key_def Let_def split: option.splits)
    then show ?thesis
      using run facts
      by (auto simp: resolve_thread_def get_or_create_session_def Let_def key_def [symmetric])
  next
    case False
    then have new: "tid = ft" "m1 = m0\<lparr>sm_sessions := AList.update user (create_thread ft now s) (sm_sessions m0),
        sm_thread_map := AList.update key ft (sm_thread_map m0),
        sm_undo := AList.update ft new_undo_manager (sm_undo m0)\<rparr>"
      using run gs by (auto simp: resolve_thread_def key_def Let_def split: option.splits if_splits)
    then show ?thesis
      using run facts(2)
      by (simp add: resolve_thread_def [of fs'] get_or_create_session_def Let_def key_def [symmetric] update_conv')
  qed
qed

text \<open>Pruning removes exactly the sessions that have been idle for too long and are not in use;
  every other session keeps its state, and no conversation is still mapped to a removed one.\<close>

theorem prune_exact:
  assumes "distinct (map fst (sm_sessions m))"
    and "prune_stale_sessions locked now idle m = (n, m')"
  shows "map_of (sm_sessions m') user = (case map_of (sm_sessions m) user of
      None \<Rightarrow> None
    | Some s \<Rightarrow> if \<not> locked user \<and> ss_last_active_at s < now - duration_secs idle then None else Some s)
    \<and> n = length (stale_users locked (now - duration_secs idle) m)
    \<and> set (map (key_user_id \<circ> fst) (sm_thread_map m')) \<inter> set (stale_users locked (now - duration_secs idle) m) = {}"
proof -
  let ?old = "\<lambda>(u, s). \<not> locked u \<and> ss_last_active_at s < now - duration_secs idle"
  let ?stale = "stale_users locked (now - duration_secs idle) m"
  have stale: "u \<in> set ?stale \<longleftrightarrow> (\<exists>s. (u, s) \<in> set (sm_sessions m) \<and> ?old (u, s))" for u
    by (force simp: stale_users_def)
  have keep: "filter (\<lambda>(u, _). u \<notin> set ?stale) (sm_sessions m) = filter (\<lambda>x. \<not> ?old x) (sm_sessions m)"
    using assms(1) by (intro filter_cong refl) (auto simp: stale dest: eq_key_imp_eq_value)
  have "map_of (filter (\<lambda>x. \<not> ?old x) xs) user = (case map_of xs user of
      None \<Rightarrow> None
    | Some s \<Rightarrow> if \<not> locked user \<and> ss_last_active_at s < now - duration_secs idle then None else Some s)"
    if "distinct (map fst xs)" for xs :: "(string \<times> session) list"
    using that
    by (induction xs) (auto split: option.splits simp: rev_image_eqI dest!: map_of_SomeD)
  note lookup = this [OF assms(1)]
  have count: "length (sm_sessions m) - length (filter (\<lambda>x. \<not> ?old x) (sm_sessions m)) = length ?stale"
    using sum_length_filter_compl [of ?old "sm_sessions m"] by (simp add: stale_users_def)
  show ?thesis
  proof (cases "?stale = []")
    case True
    then have none: "filter ?old (sm_sessions m) = []" by (simp add: stale_users_def)
    then have "filter (\<lambda>x. \<not> ?old x) (sm_sessions m) = sm_sessions m"
      by (auto simp: filter_empty_conv intro!: filter_True)
    moreover have "m' = m" "n = 0" using assms(2) True by (auto simp: prune_stale_sessions_def Let_def)
    ultimately show ?thesis using lookup True by simp
  next
    case False
    have "n = length (sm_sessions m) - length (filter (\<lambda>(u, _). u \<notin> set ?stale) (sm_sessions m))"
      and m': "sm_sessions m' = filter (\<lambda>(u, _). u \<notin> set ?stale) (sm_sessions m)"
        "sm_thread_map m' = filter (\<lambda>(key, _). key_user_id key \<notin> set ?stale) (sm_thread_map m)"
      using assms(2) False by (auto simp: prune_stale_sessions_def Let_def)
    then show ?thesis
      using lookup count unfolding m' keep by (auto simp: m')
  qed
qed

subsection \<open>Witnesses\<close>

theorem checkpoint_history_witness:
  "um_undo (fold add_checkpoint [new_checkpoint 1 0 [] ''a'', new_checkpoint 2 1 [] ''b'']
     (with_max_checkpoints 1 new_undo_manager)) = [new_checkpoint 2 1 [] ''b'']"
  using checkpoint_history [of "with_max_checkpoints 1 new_undo_manager"
      "[new_checkpoint 1 0 [] ''a'', new_checkpoint 2 1 [] ''b'']"]
  by (simp add: with_max_checkpoints_def new_undo_manager_def keep_last_def)

theorem undo_redo_behaviour_witness:
  "undo_count (snd (undo 3 2 [] (snd (undo 2 2 [] (checkpoint_turn 1 0 [] ''a'' new_undo_manager))))) = 1"
  using undo_redo_behaviour [of "checkpoint_turn 1 0 [] ''a'' new_undo_manager" 2 2 "[]" 3 2 "[]"]
  by (simp add: checkpoint_turn_def add_checkpoint_def new_undo_manager_def can_undo_def undo_count_def
      DEFAULT_MAX_CHECKPOINTS_def Let_def split: prod.splits)

theorem prune_exact_witness:
  "map_of (sm_sessions (snd (prune_stale_sessions (\<lambda>_. False) (duration_secs 100) 60
     \<lparr>sm_sessions = [(''u'', new_session 1 0 ''u'')], sm_thread_map = [], sm_undo = []\<rparr>))) ''u'' = None"
  using prune_exact [OF _ surjective_pairing, of
      "\<lparr>sm_sessions = [(''u'', new_session 1 0 ''u'')], sm_thread_map = [], sm_undo = []\<rparr>"
      "\<lambda>_. False" "duration_secs 100" 60 "''u''"]
  by (simp add: new_session_def duration_secs_def nanos_per_sec_def)

end
