(* ===== verification/Compaction.thy ===== *)
theory Compaction
  imports Workspace Provider Undo
begin

text \<open>
  Keeping a conversation within the context window: the token estimates of
  \<open>src/src/agent/context_monitor.rs\<close> and the compaction of \<open>src/src/agent/compaction.rs\<close>. The
  floating-point factors of the source are the rationals they denote. The summary is written by the
  language model.
\<close>

subsection \<open>Token estimates\<close>

datatype compaction_strategy = CompactSummarize nat | CompactTruncate nat | MoveToWorkspace

record context_monitor =
  mon_context_limit :: nat
  mon_threshold_ratio :: rat

definition monitor_new :: context_monitor where
  "monitor_new = \<lparr>mon_context_limit = 100000, mon_threshold_ratio = 8/10\<rparr>"

definition monitor_with_limit :: "nat \<Rightarrow> context_monitor \<Rightarrow> context_monitor" where
  "monitor_with_limit limit m = m\<lparr>mon_context_limit := limit\<rparr>"

definition monitor_with_threshold :: "rat \<Rightarrow> context_monitor \<Rightarrow> context_monitor" where
  "monitor_with_threshold ratio m = m\<lparr>mon_threshold_ratio := max (5/10) (min (95/100) ratio)\<rparr>"

definition estimate_text_tokens :: "string \<Rightarrow> nat" where
  "estimate_text_tokens s = 13 * length (split_whitespace s) div 10"

definition estimate_message_tokens :: "chat_message \<Rightarrow> nat" where
  "estimate_message_tokens m = 13 * length (split_whitespace (cm_content m)) div 10 + 4"

definition estimate_tokens :: "chat_message list \<Rightarrow> nat" where
  "estimate_tokens ms = sum_list (map estimate_message_tokens ms)"

definition monitor_threshold :: "context_monitor \<Rightarrow> nat" where
  "monitor_threshold m = nat \<lfloor>of_nat (mon_context_limit m) * mon_threshold_ratio m\<rfloor>"

definition needs_compaction :: "context_monitor \<Rightarrow> chat_message list \<Rightarrow> bool" where
  "needs_compaction m ms \<longleftrightarrow> estimate_tokens ms \<ge> monitor_threshold m"

definition usage_percent :: "context_monitor \<Rightarrow> chat_message list \<Rightarrow> rat" where
  "usage_percent m ms = of_nat (estimate_tokens ms) / of_nat (mon_context_limit m) * 100"

definition suggest_compaction :: "context_monitor \<Rightarrow> chat_message list \<Rightarrow> compaction_strategy option" where
  "suggest_compaction m ms =
     (if \<not> needs_compaction m ms then None
      else let overage = (of_nat (estimate_tokens ms) / of_nat (mon_context_limit m) :: rat)
           in if overage > 95/100 then Some (CompactTruncate 3)
              else if overage > 85/100 then Some (CompactSummarize 5)
              else Some MoveToWorkspace)"

record context_breakdown =
  bd_total :: nat
  bd_system :: nat
  bd_user :: nat
  bd_assistant :: nat
  bd_tool :: nat
  bd_message_count :: nat

definition count_message :: "chat_message \<Rightarrow> context_breakdown \<Rightarrow> context_breakdown" where
  "count_message m b =
     (let tokens = estimate_message_tokens m; b1 = b\<lparr>bd_total := bd_total b + tokens\<rparr>
      in case cm_role m of
           System \<Rightarrow> b1\<lparr>bd_system := bd_system b1 + tokens\<rparr>
         | User \<Rightarrow> b1\<lparr>bd_user := bd_user b1 + tokens\<rparr>
         | Assistant \<Rightarrow> b1\<lparr>bd_assistant := bd_assistant b1 + tokens\<rparr>
         | Tool \<Rightarrow> b1\<lparr>bd_tool := bd_tool b1 + tokens\<rparr>)"

definition analyze :: "chat_message list \<Rightarrow> context_breakdown" where
  "analyze ms = fold count_message ms
     \<lparr>bd_total = 0, bd_system = 0, bd_user = 0, bd_assistant = 0, bd_tool = 0, bd_message_count = length ms\<rparr>"

subsection \<open>Compaction\<close>

record compaction_partial =
  pt_turns_removed :: nat
  pt_summary_written :: bool
  pt_summary :: "string option"

record compaction_result =
  cr_turns_removed :: nat
  cr_tokens_before :: nat
  cr_tokens_after :: nat
  cr_summary_written :: bool
  cr_summary :: "string option"

definition partial_empty :: compaction_partial where
  "partial_empty = \<lparr>pt_turns_removed = 0, pt_summary_written = False, pt_summary = None\<rparr>"

definition format_turn :: "turn \<Rightarrow> string" where
  "format_turn t =
     ''**Turn '' @ nat_str (tn_number t + 1) @ ''**'' @ [CHR 0x0A] @
     ''User: '' @ tn_user_input t @ [CHR 0x0A] @
     (case tn_response t of Some r \<Rightarrow> ''Agent: '' @ r @ [CHR 0x0A] | None \<Rightarrow> []) @
     (if tn_tool_calls t = [] then []
      else ''Tools: '' @ join '', '' (map tt_name (tn_tool_calls t)) @ [CHR 0x0A])"

definition format_turns_for_storage :: "turn list \<Rightarrow> string" where
  "format_turns_for_storage ts = join [CHR 0x0A] (map format_turn ts)"

definition summary_prompt :: string where
  "summary_prompt = join [CHR 0x0A]
     [''Summarize the following conversation concisely. Focus on:'', ''- Key decisions made'',
      ''- Important information exchanged'', ''- Actions taken'', ''- Outcomes achieved'', '''',
      ''Be brief but capture all important details. Use bullet points.'']"

definition format_for_summary :: "chat_message \<Rightarrow> string" where
  "format_for_summary m = (case cm_role m of
     Tool \<Rightarrow> ''Tool '' @ (case cm_name m of Some n \<Rightarrow> n | None \<Rightarrow> ''unknown'') @ '': '' @ cm_content m
   | User \<Rightarrow> ''User: '' @ cm_content m
   | Assistant \<Rightarrow> ''Assistant: '' @ cm_content m
   | System \<Rightarrow> ''System: '' @ cm_content m)"

definition generate_summary :: "provider \<Rightarrow> nat \<Rightarrow> chat_message list \<Rightarrow> llm_error + string" where
  "generate_summary llm n ms =
     (let formatted = join [CHR 0x0A, CHR 0x0A] (map format_for_summary ms)
      in case complete llm n
           ((completion_request_new
               [system_message summary_prompt,
                user_message (''Please summarize this conversation:'' @ [CHR 0x0A, CHR 0x0A] @ formatted)])
              \<lparr>rq_max_tokens := Some 1024, rq_temperature := Some (3/10)\<rparr>) of
         Inl e \<Rightarrow> Inl e
       | Inr r \<Rightarrow> Inr (rs_content r))"

text \<open>Both ways of keeping the old turns append to the log of the day.\<close>

definition write_to_workspace ::
  "(datetime \<Rightarrow> string) \<Rightarrow> (datetime \<Rightarrow> string) \<Rightarrow> datetime \<Rightarrow> string \<Rightarrow> string \<Rightarrow> workspace \<Rightarrow> bool \<times> workspace" where
  "write_to_workspace fmt_date fmt_time now heading content w =
     (let (r, w1) = ws_append (''daily/'' @ fmt_date now @ ''.md'')
            ([CHR 0x0A] @ ''## '' @ heading @ '' ('' @ fmt_time now @ '')'' @ [CHR 0x0A, CHR 0x0A] @ content @ [CHR 0x0A]) w
      in (case r of Inr _ \<Rightarrow> True | Inl _ \<Rightarrow> False, w1))"

definition compact_truncate :: "nat \<Rightarrow> thread \<Rightarrow> compaction_partial \<times> thread" where
  "compact_truncate keep_recent t =
     (let t1 = truncate_turns keep_recent t
      in (\<lparr>pt_turns_removed = length (th_turns t) - length (th_turns t1), pt_summary_written = False,
           pt_summary = None\<rparr>, t1))"

definition on_workspace ::
  "(workspace \<Rightarrow> bool \<times> workspace) \<Rightarrow> workspace option \<Rightarrow> bool \<times> workspace option" where
  "on_workspace f ws = (case ws of None \<Rightarrow> (False, None) | Some w \<Rightarrow> let (ok, w1) = f w in (ok, Some w1))"

definition compact_with_summary ::
  "(datetime \<Rightarrow> string) \<Rightarrow> (datetime \<Rightarrow> string) \<Rightarrow> provider \<Rightarrow> nat \<Rightarrow> datetime \<Rightarrow> nat \<Rightarrow> thread \<Rightarrow>
    workspace option \<Rightarrow> (llm_error + compaction_partial \<times> thread) \<times> workspace option" where
  "compact_with_summary fmt_date fmt_time llm n now keep_recent t ws =
     (if length (th_turns t) \<le> keep_recent then (Inr (partial_empty, t), ws)
      else let turns_to_remove = length (th_turns t) - keep_recent;
               old_turns = take turns_to_remove (th_turns t)
           in case generate_summary llm n (concat (map turn_messages old_turns)) of
                Inl e \<Rightarrow> (Inl e, ws)
              | Inr summary \<Rightarrow>
                  (let (written, ws1) = on_workspace
                         (write_to_workspace fmt_date fmt_time now ''Context Summary'' summary) ws
                   in (Inr (\<lparr>pt_turns_removed = turns_to_remove, pt_summary_written = written,
                             pt_summary = Some summary\<rparr>, truncate_turns keep_recent t), ws1)))"

definition compact_to_workspace ::
  "(datetime \<Rightarrow> string) \<Rightarrow> (datetime \<Rightarrow> string) \<Rightarrow> datetime \<Rightarrow> thread \<Rightarrow> workspace option \<Rightarrow>
    (compaction_partial \<times> thread) \<times> workspace option" where
  "compact_to_workspace fmt_date fmt_time now t ws = (case ws of
     None \<Rightarrow> (compact_truncate 5 t, None)
   | Some w \<Rightarrow>
       if length (th_turns t) \<le> 10 then ((partial_empty, t), Some w)
       else let turns_to_remove = length (th_turns t) - 10;
                content = format_turns_for_storage (take turns_to_remove (th_turns t));
                (written, w1) = write_to_workspace fmt_date fmt_time now ''Archived Context'' content w
            in ((\<lparr>pt_turns_removed = turns_to_remove, pt_summary_written = written, pt_summary = None\<rparr>,
                 truncate_turns 10 t), Some w1))"

definition compact ::
  "(datetime \<Rightarrow> string) \<Rightarrow> (datetime \<Rightarrow> string) \<Rightarrow> provider \<Rightarrow> nat \<Rightarrow> datetime \<Rightarrow> compaction_strategy \<Rightarrow>
    thread \<Rightarrow> workspace option \<Rightarrow> (llm_error + compaction_result \<times> thread) \<times> workspace option" where
  "compact fmt_date fmt_time llm n now strategy t ws =
     (let (r, ws1) = (case strategy of
            CompactSummarize k \<Rightarrow> compact_with_summary fmt_date fmt_time llm n now k t ws
          | CompactTruncate k \<Rightarrow> (Inr (compact_truncate k t), ws)
          | MoveToWorkspace \<Rightarrow> (let (p, ws1) = compact_to_workspace fmt_date fmt_time now t ws in (Inr p, ws1)))
      in case r of
           Inl e \<Rightarrow> (Inl e, ws1)
         | Inr (p, t1) \<Rightarrow>
             (Inr (\<lparr>cr_turns_removed = pt_turns_removed p,
                    cr_tokens_before = bd_total (analyze (messages t)),
                    cr_tokens_after = bd_total (analyze (messages t1)),
                    cr_summary_written = pt_summary_written p, cr_summary = pt_summary p\<rparr>, t1), ws1))"

subsection \<open>Properties\<close>

lemma compact_truncate_eq:
  "compact_truncate k t = (\<lparr>pt_turns_removed = length (th_turns t) - k, pt_summary_written = False,
     pt_summary = None\<rparr>, truncate_turns k t)"
  by (simp add: compact_truncate_def Let_def truncate_turns_def)

text \<open>Every strategy keeps the most recent turns and removes the number it reports.\<close>

definition keeps_recent :: "nat \<Rightarrow> nat \<Rightarrow> thread \<Rightarrow> thread \<Rightarrow> bool" where
  "keeps_recent k removed t t' \<longleftrightarrow>
     messages t' = concat (map turn_messages (keep_last k (th_turns t))) \<and>
     length (th_turns t') + removed = length (th_turns t) \<and>
     (\<exists>ts. t' = t\<lparr>th_turns := ts\<rparr>)"

lemma keeps_recent_truncate: "keeps_recent k (length (th_turns t) - k) t (truncate_turns k t)"
proof -
  have "t = t\<lparr>th_turns := th_turns t\<rparr>" by simp
  then have "\<exists>ts. t = t\<lparr>th_turns := ts\<rparr>" by blast
  then show ?thesis by (auto simp: keeps_recent_def truncate_turns_def messages_def keep_last_def)
qed

lemma keeps_recent_refl: "length (th_turns t) \<le> k \<Longrightarrow> keeps_recent k 0 t t"
  using keeps_recent_truncate [of k t] by (simp add: truncate_turns_def)

lemma compact_partial:
  "compact fd ft llm n now strategy t ws = (Inr (r, t'), ws') \<Longrightarrow>
    \<exists>k. keeps_recent k (cr_turns_removed r) t t' \<and> (case strategy of
        CompactSummarize k' \<Rightarrow> k = k' | CompactTruncate k' \<Rightarrow> k = k'
      | MoveToWorkspace \<Rightarrow> k = (if ws = None then 5 else 10))"
  by (auto simp: compact_def compact_with_summary_def compact_to_workspace_def compact_truncate_eq
      partial_empty_def Let_def intro: keeps_recent_truncate keeps_recent_refl
      split: compaction_strategy.splits if_splits sum.splits prod.splits option.splits)

lemma bd_count_message: "bd_total (count_message m b) = bd_total b + estimate_message_tokens m"
    "bd_system (count_message m b) + bd_user (count_message m b) + bd_assistant (count_message m b) +
       bd_tool (count_message m b) = bd_system b + bd_user b + bd_assistant b + bd_tool b + estimate_message_tokens m"
  by (simp_all add: count_message_def Let_def split: role.split)

lemma bd_fold:
  "bd_total (fold count_message ms b) = bd_total b + estimate_tokens ms"
  "bd_system (fold count_message ms b) + bd_user (fold count_message ms b) +
     bd_assistant (fold count_message ms b) + bd_tool (fold count_message ms b) =
   bd_system b + bd_user b + bd_assistant b + bd_tool b + estimate_tokens ms"
  by (induction ms arbitrary: b) (simp_all add: estimate_tokens_def bd_count_message)

lemma analyze_total: "bd_total (analyze ms) = estimate_tokens ms"
  by (simp add: analyze_def bd_fold)

text \<open>The break-down of a conversation attributes every token to exactly one role.\<close>

theorem breakdown_adds_up:
  "bd_total (analyze ms) = estimate_tokens ms \<and>
   bd_system (analyze ms) + bd_user (analyze ms) + bd_assistant (analyze ms) + bd_tool (analyze ms) =
     bd_total (analyze ms)"
  using bd_fold [of ms "\<lparr>bd_total = 0, bd_system = 0, bd_user = 0, bd_assistant = 0, bd_tool = 0,
    bd_message_count = length ms\<rparr>"]
  by (simp add: analyze_def)

lemma estimate_concat: "estimate_tokens (concat (map turn_messages (keep_last k ts))) \<le>
    estimate_tokens (concat (map turn_messages ts))"
proof -
  have "ts = take (length ts - k) ts @ keep_last k ts" by (simp add: keep_last_def)
  then have "concat (map turn_messages ts) =
      concat (map turn_messages (take (length ts - k) ts)) @ concat (map turn_messages (keep_last k ts))"
    by (metis concat_append map_append)
  then show ?thesis by (simp add: estimate_tokens_def)
qed


text \<open>Moving old turns to the workspace removes them even if writing the archive failed: they are
  in no file then.\<close>

theorem failed_archive_loses_turns:
  assumes "ws_faults w = True # later" and "length (th_turns t) > 10"
  shows "\<exists>r t' w'. compact fmt_date fmt_time llm n now MoveToWorkspace t (Some w) = (Inr (r, t'), Some w') \<and>
    length (th_turns t') = 10 \<and> \<not> cr_summary_written r \<and> ws_files w' = ws_files w"
  using assms
  by (simp add: compact_def compact_to_workspace_def write_to_workspace_def ws_append_def ws_write_def
      ws_tick_def Let_def truncate_turns_def)

text \<open>When compaction is due. Below the threshold nothing is suggested; at and above it something
  always is, and the fuller the window, the more is dropped.\<close>

theorem suggest_compaction_cases:
  assumes "mon_threshold_ratio m = 8/10" and "mon_context_limit m > 0"
  shows "suggest_compaction m ms =
    (let tokens = estimate_tokens ms; limit = mon_context_limit m in
     if tokens < 8 * limit div 10 then None
     else if 100 * tokens > 95 * limit then Some (CompactTruncate 3)
     else if 100 * tokens > 85 * limit then Some (CompactSummarize 5)
     else Some MoveToWorkspace)"
proof -
  let ?t = "estimate_tokens ms" and ?l = "mon_context_limit m"
  have "\<lfloor>of_nat ?l * (8/10 :: rat)\<rfloor> = int (8 * ?l) div 10"
    using floor_divide_of_int_eq [of "int (8 * ?l)" 10, where 'a = rat] by (simp add: mult.commute)
  then have "monitor_threshold m = 8 * ?l div 10"
    unfolding monitor_threshold_def assms(1) by (simp add: nat_div_distrib)
  then have need: "needs_compaction m ms \<longleftrightarrow> \<not> ?t < 8 * ?l div 10"
    by (simp add: needs_compaction_def not_less)
  have ratio: "(of_nat ?t / of_nat ?l :: rat) > of_nat c / 100 \<longleftrightarrow> 100 * ?t > c * ?l" for c
  proof -
    have "(of_nat ?t / of_nat ?l :: rat) > of_nat c / 100 \<longleftrightarrow> (of_nat (100 * ?t) :: rat) > of_nat (c * ?l)"
      using assms(2) by (simp add: field_simps)
    then show ?thesis by (simp only: of_nat_less_iff)
  qed
  show ?thesis
    using ratio [of 95] ratio [of 85] by (simp add: suggest_compaction_def need Let_def)
qed

subsection \<open>Witnesses\<close>

definition sample_thread :: "nat \<Rightarrow> thread" where
  "sample_thread n = (thread_with_id 0 1 2)
     \<lparr>th_turns := map (\<lambda>i. turn_complete 0 ''ok'' (new_turn 0 i ''hi'')) [0..<n]\<rparr>"

definition sample_workspace :: "bool list \<Rightarrow> workspace" where
  "sample_workspace faults = \<lparr>ws_base_path = ''w'', ws_files = [], ws_faults = faults\<rparr>"

definition silent_llm :: provider where
  "silent_llm = \<lparr>model_name = ''none'', cost_per_token = (0, 0), complete = \<lambda>_ _. Inl (AuthFailed ''none''),
     complete_with_tools = \<lambda>_ _. Inl (AuthFailed ''none''), list_models = Inr []\<rparr>"


theorem failed_archive_loses_turns_witness:
  "\<exists>r t' w'. compact (\<lambda>_. ''d'') (\<lambda>_. ''t'') silent_llm 0 0 MoveToWorkspace (sample_thread 12)
       (Some (sample_workspace [True])) = (Inr (r, t'), Some w') \<and> length (th_turns t') = 10 \<and> ws_files w' = []"
  using failed_archive_loses_turns [of "sample_workspace [True]" "[]" "sample_thread 12"
      "\<lambda>_. ''d''" "\<lambda>_. ''t''" silent_llm 0 0]
  by (auto simp: sample_workspace_def sample_thread_def)

theorem suggest_compaction_cases_witness: "suggest_compaction monitor_new [] = None"
  using suggest_compaction_cases [of monitor_new "[]"] by (simp add: monitor_new_def estimate_tokens_def)

end
