(* ===== verification/Conversations.thy ===== *)
theory Conversations
  imports Json "HOL-Library.Product_Lexorder"
begin

text \<open>
  The conversation tables of \<open>src/src/store/libsql_backend.rs\<close> (\<open>conversations\<close>,
  \<open>conversation_messages\<close>, \<open>llm_calls\<close>) with the token prices of \<open>src/src/llm/costs.rs\<close>.

  A timestamp column holds text in one of two formats: SQLite's own \<open>datetime('now')\<close>, with a blank
  between date and time and whole seconds, where the source leaves the column to its default, and
  \<open>to_rfc3339\<close>, with a \<open>T\<close>, where it writes the column. The SQL compares texts; a \<open>stamp\<close> keeps the
  format, and \<open>stamp_key\<close> orders stamps as their texts are ordered. Rows that compare equal stay in
  the order they were inserted, as SQLite's sorter leaves them. Statements can fail: \<open>cv_faults\<close>
  lists the failures to come.
\<close>

subsection \<open>Timestamps as text\<close>

datatype stamp = SqlNow datetime | Rfc datetime

fun stamp_time :: "stamp \<Rightarrow> datetime" where
  "stamp_time (SqlNow t) = t - t mod nanos_per_sec"
| "stamp_time (Rfc t) = t"

definition day_of :: "datetime \<Rightarrow> int" where
  "day_of t = t div (86400 * nanos_per_sec)"

fun stamp_key :: "stamp \<Rightarrow> int \<times> int \<times> int" where
  "stamp_key (SqlNow t) = (day_of t, 0, t - t mod nanos_per_sec)"
| "stamp_key (Rfc t) = (day_of t, 1, t)"

subsection \<open>Tables\<close>

record conversation_row =
  cv_id :: uuid
  cv_channel :: string
  cv_user_id :: string
  cv_started_at :: stamp
  cv_last_activity :: stamp
  cv_metadata :: json

record conversation_message =
  vm_id :: uuid
  vm_conversation :: uuid
  vm_role :: string
  vm_content :: string
  vm_created_at :: stamp

record llm_call_record =
  lc_conversation_id :: "uuid option"
  lc_routine_run_id :: "uuid option"
  lc_provider :: string
  lc_model :: string
  lc_input_tokens :: nat
  lc_output_tokens :: nat
  lc_cost :: rat
  lc_purpose :: "string option"

record conv_db =
  cv_conversations :: "conversation_row list"
  cv_messages :: "conversation_message list"
  cv_llm_calls :: "(uuid \<times> datetime \<times> llm_call_record) list"
  cv_faults :: "bool list"

definition cv_tick :: "conv_db \<Rightarrow> bool \<times> conv_db" where
  "cv_tick db = (case cv_faults db of [] \<Rightarrow> (True, db) | b # bs \<Rightarrow> (\<not> b, db\<lparr>cv_faults := bs\<rparr>))"

text \<open>A statement: without effect if it fails. The answer says whether it succeeded.\<close>

definition cv_exec :: "(conv_db \<Rightarrow> conv_db) \<Rightarrow> conv_db \<Rightarrow> bool \<times> conv_db" where
  "cv_exec f db = (let (ok, db1) = cv_tick db in (ok, if ok then f db1 else db1))"

definition cv_query :: "(conv_db \<Rightarrow> 'a) \<Rightarrow> conv_db \<Rightarrow> 'a option \<times> conv_db" where
  "cv_query f db = (let (ok, db1) = cv_tick db in (if ok then Some (f db1) else None, db1))"

definition conversation :: "conv_db \<Rightarrow> uuid \<Rightarrow> conversation_row option" where
  "conversation db i = List.find (\<lambda>c. cv_id c = i) (cv_conversations db)"

definition ensure_conversation ::
  "datetime \<Rightarrow> uuid \<Rightarrow> string \<Rightarrow> string \<Rightarrow> conv_db \<Rightarrow> bool \<times> conv_db" where
  "ensure_conversation now i chan user =
     cv_exec (\<lambda>db. if conversation db i = None
       then db\<lparr>cv_conversations := cv_conversations db @
              [\<lparr>cv_id = i, cv_channel = chan, cv_user_id = user, cv_started_at = SqlNow now,
                cv_last_activity = SqlNow now, cv_metadata = JObject []\<rparr>]\<rparr>
       else db\<lparr>cv_conversations := update_first (\<lambda>c. cv_id c = i)
              (\<lambda>c. c\<lparr>cv_last_activity := Rfc now\<rparr>) (cv_conversations db)\<rparr>)"

text \<open>The second statement, which touches the conversation, may fail unnoticed.\<close>

definition add_conversation_message ::
  "uuid \<Rightarrow> datetime \<Rightarrow> uuid \<Rightarrow> string \<Rightarrow> string \<Rightarrow> conv_db \<Rightarrow> bool \<times> conv_db" where
  "add_conversation_message fresh now i role content db =
     (let (ok, db1) = cv_exec (\<lambda>db. db\<lparr>cv_messages := cv_messages db @
            [\<lparr>vm_id = fresh, vm_conversation = i, vm_role = role, vm_content = content,
              vm_created_at = SqlNow now\<rparr>]\<rparr>) db
      in if \<not> ok then (False, db1)
         else (True, snd (cv_exec (\<lambda>db. db\<lparr>cv_conversations := update_first (\<lambda>c. cv_id c = i)
                (\<lambda>c. c\<lparr>cv_last_activity := Rfc now\<rparr>) (cv_conversations db)\<rparr>) db1)))"

definition messages_of :: "conv_db \<Rightarrow> uuid \<Rightarrow> conversation_message list" where
  "messages_of db i = filter (\<lambda>m. vm_conversation m = i) (cv_messages db)"

definition created_key :: "conversation_message \<Rightarrow> int \<times> int \<times> int" where
  "created_key m = stamp_key (vm_created_at m)"

definition list_conversation_messages ::
  "uuid \<Rightarrow> conv_db \<Rightarrow> conversation_message list option \<times> conv_db" where
  "list_conversation_messages i = cv_query (\<lambda>db. sort_key created_key (messages_of db i))"

text \<open>\<open>ORDER BY .. DESC\<close>, ties in the order of insertion, and \<open>LIMIT\<close>, where a negative number means
  no limit.\<close>

definition sort_desc :: "('a \<Rightarrow> 'k :: linorder) \<Rightarrow> 'a list \<Rightarrow> 'a list" where
  "sort_desc f xs = rev (sort_key f (rev xs))"

definition sql_limit :: "int \<Rightarrow> 'a list \<Rightarrow> 'a list" where
  "sql_limit n xs = (if n < 0 then xs else take (nat n) xs)"

definition list_conversation_messages_paginated ::
  "uuid \<Rightarrow> datetime option \<Rightarrow> int \<Rightarrow> conv_db \<Rightarrow> (conversation_message list \<times> bool) option \<times> conv_db" where
  "list_conversation_messages_paginated i before limit =
     cv_query (\<lambda>db.
       let all = sql_limit (limit + 1) (sort_desc created_key
             (filter (\<lambda>m. case before of None \<Rightarrow> True | Some t \<Rightarrow> created_key m < stamp_key (Rfc t)) (messages_of db i)))
       in (rev (sql_limit limit all), int (length all) > limit))"

definition get_conversation_metadata :: "uuid \<Rightarrow> conv_db \<Rightarrow> json option option \<times> conv_db" where
  "get_conversation_metadata i = cv_query (\<lambda>db. map_option cv_metadata (conversation db i))"

definition update_conversation_metadata_field ::
  "uuid \<Rightarrow> string \<Rightarrow> json \<Rightarrow> conv_db \<Rightarrow> bool \<times> conv_db" where
  "update_conversation_metadata_field i k v db =
     (case cv_query (\<lambda>db. map_option cv_metadata (conversation db i)) db of
        (None, db1) \<Rightarrow> (False, db1)
      | (Some m, db1) \<Rightarrow>
          (let meta = (case m of Some x \<Rightarrow> x | None \<Rightarrow> JObject []);
               meta1 = (case meta of JObject kvs \<Rightarrow> JObject (AList.update k v kvs) | _ \<Rightarrow> meta)
           in cv_exec (\<lambda>db. db\<lparr>cv_conversations := update_first (\<lambda>c. cv_id c = i)
                (\<lambda>c. c\<lparr>cv_metadata := meta1\<rparr>) (cv_conversations db)\<rparr>) db1))"

record conversation_summary =
  pv_id :: uuid
  pv_started_at :: datetime
  pv_last_activity :: datetime
  pv_message_count :: nat
  pv_title :: "string option"
  pv_thread_type :: "string option"

text \<open>\<open>substr(content, 1, 100)\<close> takes characters; \<open>first_chars\<close> is that function of the database.\<close>

definition list_conversations_with_preview ::
  "(nat \<Rightarrow> string \<Rightarrow> string) \<Rightarrow> string \<Rightarrow> string \<Rightarrow> int \<Rightarrow> conv_db \<Rightarrow>
    conversation_summary list option \<times> conv_db" where
  "list_conversations_with_preview first_chars user chan limit =
     cv_query (\<lambda>db. map (\<lambda>c.
       \<lparr>pv_id = cv_id c, pv_started_at = stamp_time (cv_started_at c),
        pv_last_activity = stamp_time (cv_last_activity c),
        pv_message_count = length (messages_of db (cv_id c)),
        pv_title = (case sort_key created_key (filter (\<lambda>m. vm_role m = ''user'') (messages_of db (cv_id c))) of
                      [] \<Rightarrow> None | m # _ \<Rightarrow> Some (first_chars 100 (vm_content m))),
        pv_thread_type = get_str (cv_metadata c) ''thread_type''\<rparr>)
       (sql_limit limit (sort_desc (\<lambda>c. stamp_key (cv_last_activity c))
          (filter (\<lambda>c. cv_user_id c = user \<and> cv_channel c = chan) (cv_conversations db)))))"

subsection \<open>Costs\<close>

definition record_llm_call :: "uuid \<Rightarrow> datetime \<Rightarrow> llm_call_record \<Rightarrow> conv_db \<Rightarrow> uuid option \<times> conv_db" where
  "record_llm_call fresh now r db =
     (let (ok, db1) = cv_exec (\<lambda>db. db\<lparr>cv_llm_calls := cv_llm_calls db @ [(fresh, now, r)]\<rparr>) db
      in (if ok then Some fresh else None, db1))"

record cost_summary =
  su_total_cost :: rat
  su_total_input_tokens :: nat
  su_total_output_tokens :: nat
  su_call_count :: nat

text \<open>The sums, the cost printed with ten decimals and read back.\<close>

definition cost_summary_of :: "llm_call_record list \<Rightarrow> cost_summary" where
  "cost_summary_of rs =
     \<lparr>su_total_cost = of_int (round (sum_list (map lc_cost rs) * 10 ^ 10)) / 10 ^ 10,
      su_total_input_tokens = sum_list (map lc_input_tokens rs),
      su_total_output_tokens = sum_list (map lc_output_tokens rs), su_call_count = length rs\<rparr>"

definition get_conversation_cost :: "uuid \<Rightarrow> conv_db \<Rightarrow> cost_summary option \<times> conv_db" where
  "get_conversation_cost i = cv_query (\<lambda>db. cost_summary_of
     (map (snd \<circ> snd) (filter (\<lambda>(_, _, r). lc_conversation_id r = Some i) (cv_llm_calls db))))"

definition get_costs_by_period :: "datetime \<Rightarrow> datetime \<Rightarrow> conv_db \<Rightarrow> cost_summary option \<times> conv_db" where
  "get_costs_by_period start until = cv_query (\<lambda>db. cost_summary_of
     (map (snd \<circ> snd) (filter (\<lambda>(_, t, _). start \<le> t \<and> t < until) (cv_llm_calls db))))"

definition get_total_spend :: "conv_db \<Rightarrow> cost_summary option \<times> conv_db" where
  "get_total_spend = cv_query (\<lambda>db. cost_summary_of (map (snd \<circ> snd) (cv_llm_calls db)))"

subsection \<open>Properties\<close>

lemma insort_key_snoc: "f x \<le> f y \<Longrightarrow> insort_key f x (zs @ [y]) = insort_key f x zs @ [y]"
  by (induction zs) auto

lemma sort_key_snoc: "\<forall>x \<in> set xs. f x \<le> f y \<Longrightarrow> sort_key f (xs @ [y]) = sort_key f xs @ [y]"
  by (induction xs) (auto simp: insort_key_snoc)

lemma cv_exec_ok: "cv_faults db = [] \<Longrightarrow> cv_exec f db = (True, f db)"
  by (simp add: cv_exec_def cv_tick_def)

lemma cv_query_ok: "cv_faults db = [] \<Longrightarrow> cv_query f db = (Some (f db), db)"
  by (simp add: cv_query_def cv_tick_def)

text \<open>What is said is remembered in order. A message stored in a conversation appears at the end of
  its history, after everything stored no later, and no other history changes.\<close>

theorem history_appends:
  assumes "cv_faults db = []" and "\<forall>m \<in> set (messages_of db i). created_key m \<le> stamp_key (SqlNow now)"
  shows "\<exists>h db' m. list_conversation_messages i db = (Some h, db) \<and>
    add_conversation_message fresh now i role content db = (True, db') \<and>
    vm_role m = role \<and> vm_content m = content \<and>
    list_conversation_messages i db' = (Some (h @ [m]), db') \<and>
    (\<forall>j. j \<noteq> i \<longrightarrow> fst (list_conversation_messages j db') = fst (list_conversation_messages j db))"
proof -
  let ?m = "\<lparr>vm_id = fresh, vm_conversation = i, vm_role = role, vm_content = content, vm_created_at = SqlNow now\<rparr>"
  obtain db' where add: "add_conversation_message fresh now i role content db = (True, db')"
    and db': "cv_messages db' = cv_messages db @ [?m]" "cv_faults db' = []"
    using assms(1) by (simp add: add_conversation_message_def cv_exec_ok)
  have "messages_of db' i = messages_of db i @ [?m]" by (simp add: messages_of_def db')
  moreover have "messages_of db' j = messages_of db j" if "j \<noteq> i" for j
    using that by (simp add: messages_of_def db')
  ultimately show ?thesis
    using add db'(2) assms
    by (intro exI [of _ "sort_key created_key (messages_of db i)"] exI [of _ db'] exI [of _ ?m])
      (auto simp: list_conversation_messages_def cv_query_ok sort_key_snoc created_key_def)
qed

text \<open>A page of history. Question and answer of a turn are stored within the same second; the page
  is read backwards and reversed, and shows the answer before the question.\<close>

theorem page_swaps_same_second:
  assumes "cv_faults db = []" and "messages_of db i = [q, a]"
    and "created_key q = created_key a" and "limit \<ge> 2"
  shows "fst (list_conversation_messages i db) = Some [q, a] \<and>
    fst (list_conversation_messages_paginated i None limit db) = Some ([a, q], False)"
proof -
  have "sql_limit n xs = xs" if "int (length xs) \<le> n" for n and xs :: "conversation_message list"
    using that by (simp add: sql_limit_def)
  then show ?thesis
    using assms by (simp add: list_conversation_messages_def list_conversation_messages_paginated_def
        cv_query_ok sort_desc_def Let_def)
qed

text \<open>Asking for the messages before a point in time. The two timestamp formats differ after the
  date, so that every message of that day counts as earlier, also one written later.\<close>

theorem same_day_counts_as_before:
  assumes "vm_created_at m = SqlNow created" and "day_of created = day_of before"
  shows "created_key m < stamp_key (Rfc before)"
  using assms by (simp add: created_key_def)

text \<open>Updating one field of the metadata of a conversation sets that field and keeps every other
  one, of this and of every other conversation.\<close>

theorem metadata_field_updated:
  assumes "cv_faults db = []" and "conversation db i = Some c" and "cv_metadata c = JObject kvs"
  shows "\<exists>db'. update_conversation_metadata_field i k v db = (True, db') \<and>
    fst (get_conversation_metadata i db') = Some (Some (JObject (AList.update k v kvs))) \<and>
    (\<forall>j. j \<noteq> i \<longrightarrow> fst (get_conversation_metadata j db') = fst (get_conversation_metadata j db))"
proof -
  let ?f = "\<lambda>c. c\<lparr>cv_metadata := JObject (AList.update k v kvs)\<rparr>"
  let ?db = "db\<lparr>cv_conversations := update_first (\<lambda>c. cv_id c = i) ?f (cv_conversations db)\<rparr>"
  have upd: "update_conversation_metadata_field i k v db = (True, ?db)"
    using assms by (simp add: update_conversation_metadata_field_def cv_query_ok cv_exec_ok Let_def)
  have same: "conversation ?db i = Some (?f c)"
    using assms(2) find_SomeD [OF assms(2) [unfolded conversation_def]]
    by (auto simp: conversation_def intro: find_update_first)
  have other: "conversation ?db j = conversation db j" if "j \<noteq> i" for j
    using that by (auto simp: conversation_def intro!: find_update_first_other)
  show ?thesis
    using upd same other assms(1)
    by (intro exI [of _ ?db]) (simp add: get_conversation_metadata_def cv_query_ok)
qed

text \<open>Costs add up. If every recorded cost has at most ten decimals, a call recorded for a
  conversation raises the conversation's cost and tokens by exactly its own.\<close>

definition ten_decimals :: "rat \<Rightarrow> bool" where
  "ten_decimals x \<longleftrightarrow> (\<exists>n. x * 10 ^ 10 = of_int n)"

lemma ten_decimals_sum: "\<forall>x \<in> set xs. ten_decimals x \<Longrightarrow> ten_decimals (sum_list xs)"
proof (induction xs)
  case Nil
  then show ?case by (auto simp: ten_decimals_def intro: exI [of _ 0])
next
  case (Cons x xs)
  then obtain a b where "x * 10 ^ 10 = of_int a" "sum_list xs * 10 ^ 10 = of_int b"
    by (auto simp: ten_decimals_def)
  then have "sum_list (x # xs) * 10 ^ 10 = of_int (a + b)" by (simp add: distrib_right)
  then show ?case unfolding ten_decimals_def by blast
qed

lemma cost_exact: "\<forall>r \<in> set rs. ten_decimals (lc_cost r) \<Longrightarrow>
    su_total_cost (cost_summary_of rs) = sum_list (map lc_cost rs)"
  using ten_decimals_sum [of "map lc_cost rs"] by (auto simp: cost_summary_of_def ten_decimals_def field_simps)

theorem conversation_cost_adds_up:
  assumes "cv_faults db = []" and "\<forall>(_, _, r) \<in> set (cv_llm_calls db). ten_decimals (lc_cost r)"
    and "ten_decimals (lc_cost r)" and "lc_conversation_id r = Some i"
  shows "\<exists>s s' db'. get_conversation_cost i db = (Some s, db) \<and>
    record_llm_call fresh now r db = (Some fresh, db') \<and> get_conversation_cost i db' = (Some s', db') \<and>
    su_total_cost s' = su_total_cost s + lc_cost r \<and>
    su_total_input_tokens s' = su_total_input_tokens s + lc_input_tokens r \<and>
    su_total_output_tokens s' = su_total_output_tokens s + lc_output_tokens r \<and>
    su_call_count s' = su_call_count s + 1"
proof -
  let ?rs = "map (snd \<circ> snd) (filter (\<lambda>(_, _, r). lc_conversation_id r = Some i) (cv_llm_calls db))"
  have exact: "\<forall>r \<in> set ?rs. ten_decimals (lc_cost r)" using assms(2) by auto
  then have all: "\<forall>r' \<in> set (?rs @ [r]). ten_decimals (lc_cost r')" using assms(3) by auto
  have "su_total_cost (cost_summary_of (?rs @ [r])) = su_total_cost (cost_summary_of ?rs) + lc_cost r"
    unfolding cost_exact [OF exact] cost_exact [OF all] by simp
  then show ?thesis
    using assms(1,4)
    by (auto simp: get_conversation_cost_def record_llm_call_def cv_query_ok cv_exec_ok cost_summary_of_def)
qed

subsection \<open>Witnesses\<close>

definition sample_db :: conv_db where
  "sample_db = \<lparr>cv_conversations = [\<lparr>cv_id = 1, cv_channel = ''gateway'', cv_user_id = ''u'',
       cv_started_at = SqlNow 0, cv_last_activity = SqlNow 0, cv_metadata = JObject [(''a'', JNull)]\<rparr>],
     cv_messages = [\<lparr>vm_id = 1, vm_conversation = 1, vm_role = ''user'', vm_content = ''hi'', vm_created_at = SqlNow 0\<rparr>,
       \<lparr>vm_id = 2, vm_conversation = 1, vm_role = ''assistant'', vm_content = ''yes?'', vm_created_at = SqlNow 5\<rparr>],
     cv_llm_calls = [], cv_faults = []\<rparr>"

definition sample_call :: llm_call_record where
  "sample_call = \<lparr>lc_conversation_id = Some 1, lc_routine_run_id = None, lc_provider = ''p'', lc_model = ''m'',
     lc_input_tokens = 10, lc_output_tokens = 2, lc_cost = 1/1000, lc_purpose = None\<rparr>"

theorem history_appends_witness:
  "\<exists>h db' m. list_conversation_messages 1 sample_db = (Some h, sample_db) \<and>
     add_conversation_message 3 7 1 ''user'' ''bye'' sample_db = (True, db') \<and>
     list_conversation_messages 1 db' = (Some (h @ [m]), db')"
  using history_appends [of sample_db 1 7 3 "''user''" "''bye''"]
  by (simp add: sample_db_def messages_of_def created_key_def day_of_def nanos_per_sec_def) blast

theorem page_swaps_same_second_witness:
  "\<exists>q a. fst (list_conversation_messages 1 sample_db) = Some [q, a] \<and> vm_role q = ''user'' \<and>
     fst (list_conversation_messages_paginated 1 None 50 sample_db) = Some ([a, q], False)"
proof -
  obtain q a where m: "messages_of sample_db 1 = [q, a]" "vm_role q = ''user''" "created_key q = created_key a"
    by (simp add: sample_db_def messages_of_def created_key_def day_of_def nanos_per_sec_def)
  have "cv_faults sample_db = []" by (simp add: sample_db_def)
  from page_swaps_same_second [OF this m(1) m(3), of 50] m(2) show ?thesis by auto
qed

theorem same_day_counts_as_before_witness:
  "created_key \<lparr>vm_id = 1, vm_conversation = 1, vm_role = ''user'', vm_content = ''hi'',
     vm_created_at = SqlNow (duration_secs 3600)\<rparr> < stamp_key (Rfc (duration_secs 60))"
proof (rule same_day_counts_as_before)
  show "day_of (duration_secs 3600) = day_of (duration_secs 60)" by code_simp
qed simp

theorem metadata_field_updated_witness:
  "\<exists>db'. update_conversation_metadata_field 1 ''k'' (JBool True) sample_db = (True, db') \<and>
     fst (get_conversation_metadata 1 db') = Some (Some (JObject [(''a'', JNull), (''k'', JBool True)]))"
  using metadata_field_updated [of sample_db 1 "hd (cv_conversations sample_db)" "[(''a'', JNull)]" "''k''" "JBool True"]
  by (auto simp: sample_db_def conversation_def)

theorem conversation_cost_adds_up_witness:
  "\<exists>s s' db'. get_conversation_cost 1 sample_db = (Some s, sample_db) \<and>
     get_conversation_cost 1 db' = (Some s', db') \<and> su_total_cost s' = su_total_cost s + 1/1000"
proof -
  have "ten_decimals (lc_cost sample_call)"
    unfolding ten_decimals_def by (intro exI [of _ 10000000]) (simp add: sample_call_def)
  then show ?thesis
    using conversation_cost_adds_up [of sample_db sample_call 1 9 0]
    by (auto simp: sample_db_def sample_call_def)
qed

end
