(* ===== verification/Agent_Loop.thy ===== *)
theory Agent_Loop
  imports Tools Reasoning Compaction Conversations
begin

text \<open>
  The state of an agent (\<open>src/src/agent/agent_loop.rs\<close>) and the loop between the language model and
  the tools (\<open>src/src/agent/tool_executor.rs\<close>), with the errors of \<open>src/src/error.rs\<close> and the safety
  layer of \<open>src/src/safety.rs\<close>.

  An agent handles one message after the other, so that nothing else changes its sessions while a
  message is handled. \<open>env\<close> holds what does not change: the configuration, the model, the tools and
  the functions of third-party crates. The state counts the ids drawn, the requests sent to the model
  and the tool executions started, so that their results may differ from one to the next.
\<close>

subsection \<open>Errors\<close>

datatype job_error =
    JobNotFound uuid
  | InvalidTransition uuid string string
  | JobFailedWith uuid string
  | JobStuckFor uuid duration
  | MaxJobsExceeded nat
  | ContextError uuid string

datatype chat_tool_error =
    ToolNotFound string
  | ToolFailed string string
  | ToolTimedOut string duration
  | ToolInvalid string string

datatype agent_error = ErrLlm llm_error | ErrTool chat_tool_error | ErrJob job_error

record env =
  ev_llm :: provider
  ev_tools :: tool_registry
  ev_monitor :: context_monitor
  ev_config_prompt :: "string option"
  ev_drafting :: bool
  ev_uuid :: "nat \<Rightarrow> uuid"
  ev_uuid_str :: "uuid \<Rightarrow> string"
  ev_parse_uuid :: "string \<Rightarrow> uuid option"
  ev_from_json :: "string \<Rightarrow> json option"
  ev_pretty :: "json \<Rightarrow> string"
  ev_fmt_date :: "datetime \<Rightarrow> string"
  ev_fmt_time :: "datetime \<Rightarrow> string"
  ev_show_duration :: "duration \<Rightarrow> string"

definition show_tool_error :: "(duration \<Rightarrow> string) \<Rightarrow> tool_error \<Rightarrow> string" where
  "show_tool_error dur e = (case e of
     InvalidParameters s \<Rightarrow> ''Invalid parameters: '' @ s
   | ExecutionFailed s \<Rightarrow> ''Execution failed: '' @ s
   | ToolTimeout d \<Rightarrow> ''Timeout after '' @ dur d
   | NotAuthorized s \<Rightarrow> ''Not authorized: '' @ s
   | ToolRateLimited d \<Rightarrow> ''Rate limited, retry after '' @
       (case d of None \<Rightarrow> ''None'' | Some x \<Rightarrow> ''Some('' @ dur x @ '')'')
   | ExternalService s \<Rightarrow> ''External service error: '' @ s)"

definition show_llm_error :: "(duration \<Rightarrow> string) \<Rightarrow> llm_error \<Rightarrow> string" where
  "show_llm_error dur e = (case e of
     RequestFailed p r \<Rightarrow> ''Provider '' @ p @ '' request failed: '' @ r
   | RateLimited p d \<Rightarrow> ''Provider '' @ p @ '' rate limited, retry after '' @
       (case d of None \<Rightarrow> ''None'' | Some x \<Rightarrow> ''Some('' @ dur x @ '')'')
   | InvalidResponse p r \<Rightarrow> ''Invalid response from '' @ p @ '': '' @ r
   | ContextLengthExceeded used limit \<Rightarrow> ''Context length exceeded: '' @ nat_str used @ '' tokens used, '' @
       nat_str limit @ '' allowed''
   | ModelNotAvailable p m \<Rightarrow> ''Model '' @ m @ '' not available on provider '' @ p
   | AuthFailed p \<Rightarrow> ''Authentication failed for provider '' @ p
   | SessionExpired p \<Rightarrow> ''Session expired for provider '' @ p
   | SessionRenewalFailed p r \<Rightarrow> ''Session renewal failed for provider '' @ p @ '': '' @ r
   | JsonError s \<Rightarrow> ''JSON error: '' @ s
   | IoError s \<Rightarrow> ''IO error: '' @ s)"

definition show_job_error :: "(uuid \<Rightarrow> string) \<Rightarrow> (duration \<Rightarrow> string) \<Rightarrow> job_error \<Rightarrow> string" where
  "show_job_error uuid_str dur j = (case j of
         JobNotFound i \<Rightarrow> ''Job '' @ uuid_str i @ '' not found''
       | InvalidTransition i s t \<Rightarrow> ''Job '' @ uuid_str i @ '' already in state '' @ s @ '', cannot transition to '' @ t
       | JobFailedWith i r \<Rightarrow> ''Job '' @ uuid_str i @ '' failed: '' @ r
       | JobStuckFor i d \<Rightarrow> ''Job '' @ uuid_str i @ '' stuck for '' @ dur d
       | MaxJobsExceeded n \<Rightarrow> ''Maximum parallel jobs ('' @ nat_str n @ '') exceeded''
       | ContextError i r \<Rightarrow> ''Job '' @ uuid_str i @ '' context error: '' @ r)"

definition show_error :: "env \<Rightarrow> agent_error \<Rightarrow> string" where
  "show_error E e = (case e of
     ErrLlm l \<Rightarrow> ''LLM error: '' @ show_llm_error (ev_show_duration E) l
   | ErrTool t \<Rightarrow> ''Tool error: '' @ (case t of
         ToolNotFound n \<Rightarrow> ''Tool '' @ n @ '' not found''
       | ToolFailed n r \<Rightarrow> ''Tool '' @ n @ '' execution failed: '' @ r
       | ToolTimedOut n d \<Rightarrow> ''Tool '' @ n @ '' timed out after '' @ ev_show_duration E d
       | ToolInvalid n r \<Rightarrow> ''Invalid parameters for tool '' @ n @ '': '' @ r)
   | ErrJob j \<Rightarrow> ''Job error: '' @ show_job_error (ev_uuid_str E) (ev_show_duration E) j)"

subsection \<open>The safety layer\<close>

text \<open>The checks are stubs that accept everything.\<close>

record validation_result =
  vr_is_valid :: bool
  vr_errors :: "(string \<times> string) list"

datatype policy_action = PolicyAllow | PolicyWarn | PolicyBlock

definition validate_input :: "string \<Rightarrow> validation_result" where
  "validate_input input = \<lparr>vr_is_valid = True, vr_errors = []\<rparr>"

definition check_policy :: "string \<Rightarrow> policy_action list" where
  "check_policy input = []"

definition sanitize_tool_output :: "string \<Rightarrow> string \<Rightarrow> string \<times> bool" where
  "sanitize_tool_output tool_name output = (output, False)"

definition wrap_for_llm :: "string \<Rightarrow> string \<Rightarrow> bool \<Rightarrow> string" where
  "wrap_for_llm tool_name content sanitized = content"

definition validate_tool_params :: "json \<Rightarrow> validation_result" where
  "validate_tool_params params = \<lparr>vr_is_valid = True, vr_errors = []\<rparr>"

definition validation_details :: "validation_result \<Rightarrow> string" where
  "validation_details v = join ''; '' (map (\<lambda>(field, message). field @ '': '' @ message) (vr_errors v))"

subsection \<open>The state of an agent\<close>

record incoming_message =
  im_channel :: string
  im_user_id :: string
  im_user_name :: "string option"
  im_content :: string
  im_thread_id :: "string option"
  im_metadata :: json

datatype status_update =
    Thinking string
  | ToolStarted string
  | ToolCompleted string bool
  | ToolPreview string string
  | StreamChunk string
  | StatusText string
  | JobStarted string string string
  | ApprovalNeeded string string string json "tool_summary option"
  | AuthRequired string "string option" "string option" "string option"
  | AuthCompleted string bool string

text \<open>Work handed to the runtime with \<open>tokio::spawn\<close>.\<close>

datatype spawned =
    SpawnDraft string string string string
  | SpawnPersist uuid string string "string option"

record agent =
  ag_sm :: session_manager
  ag_workspace :: "workspace option"
  ag_store :: "conv_db option"
  ag_uuids :: nat
  ag_llm_calls :: nat
  ag_runs :: nat
  ag_executed :: "(string \<times> json) list"
  ag_statuses :: "(string \<times> status_update) list"
  ag_spawned :: "spawned list"

definition draw_uuid :: "env \<Rightarrow> agent \<Rightarrow> uuid \<times> agent" where
  "draw_uuid E a = (ev_uuid E (ag_uuids a), a\<lparr>ag_uuids := Suc (ag_uuids a)\<rparr>)"

definition send_status :: "string \<Rightarrow> status_update \<Rightarrow> agent \<Rightarrow> agent" where
  "send_status chan s a = a\<lparr>ag_statuses := ag_statuses a @ [(chan, s)]\<rparr>"

definition spawn :: "spawned \<Rightarrow> agent \<Rightarrow> agent" where
  "spawn s a = a\<lparr>ag_spawned := ag_spawned a @ [s]\<rparr>"

definition session_of :: "agent \<Rightarrow> string \<Rightarrow> session option" where
  "session_of a user = map_of (sm_sessions (ag_sm a)) user"

definition thread_of :: "agent \<Rightarrow> string \<Rightarrow> uuid \<Rightarrow> thread option" where
  "thread_of a user tid = Option.bind (session_of a user) (get_thread tid)"

definition set_session :: "string \<Rightarrow> session \<Rightarrow> agent \<Rightarrow> agent" where
  "set_session user s a =
     a\<lparr>ag_sm := (ag_sm a)\<lparr>sm_sessions := AList.update user s (sm_sessions (ag_sm a))\<rparr>\<rparr>"

definition set_undo :: "uuid \<Rightarrow> undo_manager \<Rightarrow> agent \<Rightarrow> agent" where
  "set_undo tid u a = a\<lparr>ag_sm := (ag_sm a)\<lparr>sm_undo := AList.update tid u (sm_undo (ag_sm a))\<rparr>\<rparr>"

text \<open>A write through \<open>threads.get_mut\<close>: nothing happens if the thread does not exist.\<close>

definition update_thread :: "string \<Rightarrow> uuid \<Rightarrow> (thread \<Rightarrow> thread) \<Rightarrow> agent \<Rightarrow> agent" where
  "update_thread user tid f a = (case session_of a user of
     None \<Rightarrow> a
   | Some s \<Rightarrow> (case get_thread tid s of
       None \<Rightarrow> a
     | Some t \<Rightarrow> set_session user (put_thread tid (f t) s) a))"

definition on_last_turn :: "(turn \<Rightarrow> turn) \<Rightarrow> thread \<Rightarrow> thread" where
  "on_last_turn f t = t\<lparr>th_turns := update_last f (th_turns t)\<rparr>"

subsection \<open>Executing a tool\<close>

definition execute_chat_tool ::
  "env \<Rightarrow> string \<Rightarrow> json \<Rightarrow> agent \<Rightarrow> (agent_error + string) \<times> agent" where
  "execute_chat_tool E name params a = (case get_tool (ev_tools E) name of
     None \<Rightarrow> (Inl (ErrTool (ToolNotFound name)), a)
   | Some t \<Rightarrow>
       (let v = validate_tool_params params in
        if \<not> vr_is_valid v
        then (Inl (ErrTool (ToolInvalid name (''Invalid tool parameters: '' @ validation_details v))), a)
        else
          (case tl_execute t (ag_runs a) params of
             None \<Rightarrow> Inl (ErrTool (ToolTimedOut name (tl_execution_timeout t)))
           | Some (Inl e) \<Rightarrow> Inl (ErrTool (ToolFailed name (show_tool_error (ev_show_duration E) e)))
           | Some (Inr v) \<Rightarrow> Inr (ev_pretty E v),
           a\<lparr>ag_runs := Suc (ag_runs a), ag_executed := ag_executed a @ [(name, params)]\<rparr>)))"

definition record_outcome :: "agent_error + string \<Rightarrow> env \<Rightarrow> turn \<Rightarrow> turn" where
  "record_outcome r E = (case r of
     Inr output \<Rightarrow> record_tool_result (JString output)
   | Inl e \<Rightarrow> record_tool_error (show_error E e))"

definition result_content :: "env \<Rightarrow> string \<Rightarrow> agent_error + string \<Rightarrow> string" where
  "result_content E name r = (case r of
     Inr output \<Rightarrow> (let (content, modified) = sanitize_tool_output name output in wrap_for_llm name content modified)
   | Inl e \<Rightarrow> ''Error: '' @ show_error E e)"

text \<open>Running a tool with its status updates and the record in the current turn.\<close>

definition run_tool ::
  "env \<Rightarrow> incoming_message \<Rightarrow> uuid \<Rightarrow> string \<Rightarrow> json \<Rightarrow> agent \<Rightarrow> (agent_error + string) \<times> agent" where
  "run_tool E msg tid name params a =
     (let a1 = send_status (im_channel msg) (ToolStarted name) a;
          (r, a2) = execute_chat_tool E name params a1;
          a3 = send_status (im_channel msg) (ToolCompleted name (\<not> isl r)) a2;
          a4 = (case r of
                  Inr output \<Rightarrow> if output \<noteq> [] then send_status (im_channel msg) (ToolPreview name output) a3 else a3
                | Inl _ \<Rightarrow> a3)
      in (r, update_thread (im_user_id msg) tid (on_last_turn (record_outcome r E)) a4))"

subsection \<open>Which calls need the user\<close>

text \<open>The command of a shell call, from an object or from a string of JSON.\<close>

definition shell_command :: "env \<Rightarrow> json \<Rightarrow> string option" where
  "shell_command E args = (case get_str args ''command'' of
     Some c \<Rightarrow> Some c
   | None \<Rightarrow> Option.bind (Option.bind (as_str args) (ev_from_json E)) (\<lambda>v. get_str v ''command''))"

text \<open>Whether the call runs without asking; \<open>None\<close> is the panic of the log line that slices the command
  at byte 80, which is inside a character.\<close>

definition auto_approved :: "env \<Rightarrow> agent \<Rightarrow> string \<Rightarrow> tool_call \<Rightarrow> bool option" where
  "auto_approved E a user tc =
     (let allowed = (case session_of a user of Some s \<Rightarrow> is_tool_auto_approved s (tc_name tc) | None \<Rightarrow> False)
      in if allowed \<and> tc_name tc = ''shell'' then
           (case shell_command E (tc_arguments tc) of
              Some cmd \<Rightarrow>
                if requires_explicit_approval cmd
                then (if is_char_boundary cmd (min (length cmd) 80) then Some False else None)
                else Some True
            | None \<Rightarrow> Some True)
         else Some allowed)"

definition needs_approval :: "env \<Rightarrow> tool_call \<Rightarrow> bool" where
  "needs_approval E tc =
     (case get_tool (ev_tools E) (tc_name tc) of Some t \<Rightarrow> tl_requires_approval t | None \<Rightarrow> False)"

definition make_pending :: "env \<Rightarrow> uuid \<Rightarrow> tool_call \<Rightarrow> chat_message list \<Rightarrow> pending_approval" where
  "make_pending E fresh tc ms =
     (let summary = (case get_tool (ev_tools E) (tc_name tc) of
             Some t \<Rightarrow> tl_summarize t (tc_arguments tc)
           | None \<Rightarrow> summary_fallback (ev_pretty E) (tc_name tc) (tc_arguments tc))
      in \<lparr>pa_request_id = fresh, pa_tool_name = tc_name tc, pa_parameters = tc_arguments tc,
          pa_description = ts_headline summary, pa_tool_call_id = tc_id tc,
          pa_context_messages = ms, pa_summary = Some summary\<rparr>)"

datatype calls_out = CallsDone "chat_message list" | CallsNeed pending_approval | CallsPanic

fun run_calls ::
  "env \<Rightarrow> incoming_message \<Rightarrow> uuid \<Rightarrow> tool_call list \<Rightarrow> chat_message list \<Rightarrow> agent \<Rightarrow> calls_out \<times> agent" where
  "run_calls E msg tid [] ms a = (CallsDone ms, a)"
| "run_calls E msg tid (tc # tcs) ms a =
     (case (if needs_approval E tc then auto_approved E a (im_user_id msg) tc else Some True) of
        None \<Rightarrow> (CallsPanic, a)
      | Some False \<Rightarrow>
          (let (fresh, a1) = draw_uuid E a in (CallsNeed (make_pending E fresh tc ms), a1))
      | Some True \<Rightarrow>
          (let (r, a1) = run_tool E msg tid (tc_name tc) (tc_arguments tc) a
           in run_calls E msg tid tcs
                (ms @ [tool_result (tc_id tc) (tc_name tc) (result_content E (tc_name tc) r)]) a1))"

subsection \<open>The loop\<close>

datatype loop_out =
    LoopResponse string
  | LoopNeedApproval pending_approval
  | LoopError agent_error
  | LoopPanic

definition MAX_TOOL_ITERATIONS :: nat where
  "MAX_TOOL_ITERATIONS = 10"

definition proceed_prompt :: string where
  "proceed_prompt = ''Please proceed and use the available tools to complete this task.''"

definition call_headline :: "env \<Rightarrow> tool_call \<Rightarrow> string" where
  "call_headline E tc = (case get_tool (ev_tools E) (tc_name tc) of
     Some t \<Rightarrow> ts_headline (tl_summarize t (tc_arguments tc)) | None \<Rightarrow> tc_name tc)"

definition record_cost :: "env \<Rightarrow> datetime \<Rightarrow> uuid \<Rightarrow> token_usage \<Rightarrow> agent \<Rightarrow> agent" where
  "record_cost E now tid usage a = (case ag_store a of
     None \<Rightarrow> a
   | Some db \<Rightarrow>
       (let (fresh, a1) = draw_uuid E a;
            (input_cost, output_cost) = cost_per_token (ev_llm E);
            r = \<lparr>lc_conversation_id = Some tid, lc_routine_run_id = None,
                 lc_provider = model_name (ev_llm E), lc_model = model_name (ev_llm E),
                 lc_input_tokens = tu_input_tokens usage, lc_output_tokens = tu_output_tokens usage,
                 lc_cost = input_cost * of_nat (tu_input_tokens usage) + output_cost * of_nat (tu_output_tokens usage),
                 lc_purpose = Some ''chat''\<rparr>
        in a1\<lparr>ag_store := Some (snd (record_llm_call fresh now r db))\<rparr>))"

text \<open>One iteration after the answer of the model: what the \<open>match\<close> on the result does. \<open>Inl\<close> leaves the
  loop, \<open>Inr\<close> goes on with the given messages.\<close>

definition after_answer ::
  "env \<Rightarrow> incoming_message \<Rightarrow> uuid \<Rightarrow> nat \<Rightarrow> bool \<Rightarrow> bool \<Rightarrow> respond_result \<Rightarrow> chat_message list \<Rightarrow> agent \<Rightarrow>
    (loop_out + bool \<times> chat_message list) \<times> agent" where
  "after_answer E msg tid iteration tools_executed has_tools result ms a = (case result of
     RespText answer \<Rightarrow>
       if \<not> tools_executed \<and> iteration < 3 \<and> has_tools
       then (Inr (False, ms @ [assistant_message answer, user_message proceed_prompt]), a)
       else (Inl (LoopResponse answer), a)
   | RespToolCalls tool_calls content \<Rightarrow>
       (let ms1 = ms @ [assistant_with_tool_calls content tool_calls];
            a1 = send_status (im_channel msg)
                   (Thinking (join '', '' (map (call_headline E) tool_calls) @ ''...'')) a;
            a2 = update_thread (im_user_id msg) tid
                   (on_last_turn (fold (\<lambda>tc. record_tool_call (tc_name tc) (tc_arguments tc)) tool_calls)) a1;
            (out, a3) = run_calls E msg tid tool_calls ms1 a2
        in (case out of
              CallsDone ms2 \<Rightarrow> Inr (True, ms2)
            | CallsNeed p \<Rightarrow> Inl (LoopNeedApproval p)
            | CallsPanic \<Rightarrow> Inl LoopPanic, a3)))"

text \<open>The loop; \<open>left\<close> is the number of iterations still allowed.\<close>

fun loop_from ::
  "env \<Rightarrow> datetime \<Rightarrow> incoming_message \<Rightarrow> uuid \<Rightarrow> string option \<Rightarrow> nat \<Rightarrow> bool \<Rightarrow> chat_message list \<Rightarrow> agent \<Rightarrow>
    loop_out \<times> agent" where
  "loop_from E now msg tid identity 0 tools_executed ms a =
     (LoopError (ErrLlm (InvalidResponse ''agent''
        (''Exceeded maximum tool iterations ('' @ nat_str MAX_TOOL_ITERATIONS @ '')''))), a)"
| "loop_from E now msg tid identity (Suc left) tools_executed ms a =
     (if (case thread_of a (im_user_id msg) tid of Some t \<Rightarrow> th_state t = Interrupted | None \<Rightarrow> False)
      then (LoopError (ErrJob (ContextError tid ''Interrupted'')), a)
      else
        (let defs = tool_definitions (ev_tools E);
             a1 = a\<lparr>ag_llm_calls := Suc (ag_llm_calls a)\<rparr>
         in case respond_with_tools (ev_from_json E) (ev_llm E) identity (ag_llm_calls a)
                   \<lparr>rc_messages = ms, rc_available_tools = defs,
                    rc_metadata = [(''thread_id'', ev_uuid_str E tid)]\<rparr> of
              Inl e \<Rightarrow>
                (LoopError (ErrLlm e),
                 send_status (im_channel msg)
                   (Thinking (''LLM error: '' @ show_llm_error (ev_show_duration E) e)) a1)
            | Inr output \<Rightarrow>
                (case after_answer E msg tid (MAX_TOOL_ITERATIONS - left) tools_executed (defs \<noteq> [])
                        (ro_result output) ms (record_cost E now tid (ro_usage output) a1) of
                   (Inl out, a2) \<Rightarrow> (out, a2)
                 | (Inr (executed, ms'), a2) \<Rightarrow> loop_from E now msg tid identity left executed ms' a2)))"

definition run_agentic_loop ::
  "env \<Rightarrow> datetime \<Rightarrow> incoming_message \<Rightarrow> uuid \<Rightarrow> chat_message list \<Rightarrow> bool \<Rightarrow> agent \<Rightarrow> loop_out \<times> agent" where
  "run_agentic_loop E now msg tid initial_messages resume_after_tool a =
     (let (identity, a1) = (case ag_workspace a of
            None \<Rightarrow> (None, a)
          | Some w \<Rightarrow>
              (let (prompt, w1) = system_prompt w
               in (if prompt \<noteq> [] then Some prompt else None, a\<lparr>ag_workspace := Some w1\<rparr>)))
      in loop_from E now msg tid identity MAX_TOOL_ITERATIONS resume_after_tool initial_messages a1)"

end
