(* ===== verification/Submission.thy ===== *)
theory Submission
  imports Text Json
begin

text \<open>
  What a user types to the agent: the parser of \<open>src/src/agent/submission.rs\<close> and the command
  router of \<open>src/src/agent/router.rs\<close>. \<open>Uuid::parse_str\<close> and \<open>serde_json::from_str\<close> belong to
  third-party crates and are the parameters \<open>parse_uuid\<close> and \<open>from_json\<close>; the decoding of the
  parsed value into a \<open>Submission\<close>, which the source derives, is written out for the one variant
  the parser accepts.
\<close>

subsection \<open>Submissions\<close>

datatype submission =
    UserInput string
  | ExecApproval (sub_request_id: uuid) (sub_approved: bool) (sub_always: bool)
  | ApprovalResponse bool bool
  | SubInterrupt
  | SubCompact
  | SubUndo
  | SubRedo
  | SubResume uuid
  | SubClear
  | SwitchThread uuid
  | NewThread
  | Heartbeat
  | Summarize
  | Suggest
  | Quit
  | SystemCommand string "string list"

definition submission_approval :: "uuid \<Rightarrow> bool \<Rightarrow> submission" where
  "submission_approval request_id approved = ExecApproval request_id approved False"

definition always_approve :: "uuid \<Rightarrow> submission" where
  "always_approve request_id = ExecApproval request_id True True"

fun starts_turn :: "submission \<Rightarrow> bool" where
  "starts_turn (UserInput _) = True"
| "starts_turn _ = False"

fun is_control :: "submission \<Rightarrow> bool" where
  "is_control SubInterrupt = True"
| "is_control SubCompact = True"
| "is_control SubUndo = True"
| "is_control SubRedo = True"
| "is_control SubClear = True"
| "is_control NewThread = True"
| "is_control Heartbeat = True"
| "is_control Summarize = True"
| "is_control Suggest = True"
| "is_control (SystemCommand _ _) = True"
| "is_control _ = False"

subsection \<open>The parser\<close>

definition parse_model_command :: "string \<Rightarrow> string \<Rightarrow> submission option" where
  "parse_model_command trimmed lower =
     (if \<not> str_starts_with lower ''/model'' then None
      else Some (SystemCommand ''model'' (drop 1 (split_whitespace trimmed))))"

definition parse_thread_switch :: "(string \<Rightarrow> uuid option) \<Rightarrow> string \<Rightarrow> submission option" where
  "parse_thread_switch parse_uuid lower = (case strip_prefix ''/thread '' lower of
     None \<Rightarrow> None
   | Some r \<Rightarrow> let rest = trim r in
       if rest = ''new'' then None else map_option SwitchThread (parse_uuid rest))"

definition parse_resume :: "(string \<Rightarrow> uuid option) \<Rightarrow> string \<Rightarrow> submission option" where
  "parse_resume parse_uuid lower = (case strip_prefix ''/resume '' lower of
     None \<Rightarrow> None
   | Some r \<Rightarrow> map_option SubResume (parse_uuid (trim r)))"

text \<open>The derived decoder of the variant \<open>ExecApproval\<close>: an object with that single key, whose
  value holds the three fields, by name or in order.\<close>

fun decode_exec_approval :: "(string \<Rightarrow> uuid option) \<Rightarrow> json \<Rightarrow> submission option" where
  "decode_exec_approval parse_uuid (JObject [(tag, v)]) =
     (if tag \<noteq> ''ExecApproval'' then None else
      case v of
        JObject _ \<Rightarrow>
          (case (Option.bind (get_str v ''request_id'') parse_uuid,
                 Option.bind (json_get v ''approved'') as_bool,
                 Option.bind (json_get v ''always'') as_bool) of
             (Some r, Some a, Some w) \<Rightarrow> Some (ExecApproval r a w)
           | _ \<Rightarrow> None)
      | JArray [r, a, w] \<Rightarrow>
          (case (Option.bind (as_str r) parse_uuid, as_bool a, as_bool w) of
             (Some r, Some a, Some w) \<Rightarrow> Some (ExecApproval r a w)
           | _ \<Rightarrow> None)
      | _ \<Rightarrow> None)"
| "decode_exec_approval parse_uuid _ = None"

definition parse_json_approval ::
  "(string \<Rightarrow> uuid option) \<Rightarrow> (string \<Rightarrow> json option) \<Rightarrow> string \<Rightarrow> submission option" where
  "parse_json_approval parse_uuid from_json trimmed =
     (if \<not> str_starts_with trimmed ''{'' then None
      else Option.bind (from_json trimmed) (decode_exec_approval parse_uuid))"

definition or_else :: "'a option \<Rightarrow> 'a option \<Rightarrow> 'a option" where
  [rust_defs]: "or_else x y = (case x of None \<Rightarrow> y | Some _ \<Rightarrow> x)"

definition parse_complex ::
  "(string \<Rightarrow> uuid option) \<Rightarrow> (string \<Rightarrow> json option) \<Rightarrow> string \<Rightarrow> string \<Rightarrow> string \<Rightarrow> submission" where
  "parse_complex parse_uuid from_json content trimmed lower =
     (case or_else (parse_model_command trimmed lower)
           (or_else (parse_thread_switch parse_uuid lower)
             (or_else (parse_resume parse_uuid lower)
               (parse_json_approval parse_uuid from_json trimmed))) of
        Some s \<Rightarrow> s
      | None \<Rightarrow> UserInput content)"

text \<open>The arms of the \<open>match\<close> with literal patterns, in order.\<close>

definition keyword_commands :: "(string \<times> submission) list" where
  "keyword_commands =
     [(''/undo'', SubUndo), (''/redo'', SubRedo),
      (''/interrupt'', SubInterrupt), (''/stop'', SubInterrupt),
      (''/compact'', SubCompact), (''/clear'', SubClear), (''/heartbeat'', Heartbeat),
      (''/summarize'', Summarize), (''/summary'', Summarize), (''/suggest'', Suggest),
      (''/thread new'', NewThread), (''/new'', NewThread),
      (''/help'', SystemCommand ''help'' []), (''/?'', SystemCommand ''help'' []),
      (''/version'', SystemCommand ''version'' []), (''/tools'', SystemCommand ''tools'' []),
      (''/ping'', SystemCommand ''ping'' []), (''/debug'', SystemCommand ''debug'' []),
      (''/quit'', Quit), (''/exit'', Quit), (''/shutdown'', Quit),
      (''yes'', ApprovalResponse True False), (''y'', ApprovalResponse True False),
      (''approve'', ApprovalResponse True False), (''ok'', ApprovalResponse True False),
      (''always'', ApprovalResponse True True), (''yes always'', ApprovalResponse True True),
      (''approve always'', ApprovalResponse True True),
      (''no'', ApprovalResponse False False), (''n'', ApprovalResponse False False),
      (''deny'', ApprovalResponse False False), (''reject'', ApprovalResponse False False),
      (''cancel'', ApprovalResponse False False)]"

definition parse_submission ::
  "(string \<Rightarrow> uuid option) \<Rightarrow> (string \<Rightarrow> json option) \<Rightarrow> string \<Rightarrow> submission" where
  "parse_submission parse_uuid from_json content =
     (let trimmed = trim content; lower = to_lowercase trimmed in
      case map_of keyword_commands lower of
        Some s \<Rightarrow> s
      | None \<Rightarrow> parse_complex parse_uuid from_json content trimmed lower)"

subsection \<open>The router\<close>

datatype message_intent =
    CreateJob string string "string option"
  | CheckJobStatus "string option"
  | CancelJob string
  | ListJobs "string option"
  | HelpJob string
  | Chat string
  | Command string "string list"
  | UnknownIntent

definition is_command :: "string \<Rightarrow> string \<Rightarrow> bool" where
  "is_command command_prefix content \<longleftrightarrow> str_starts_with (trim content) command_prefix"

definition parse_command :: "string \<Rightarrow> string \<Rightarrow> message_intent" where
  "parse_command command_prefix content =
     (let without_prefix = (case strip_prefix command_prefix content of Some s \<Rightarrow> s | None \<Rightarrow> content);
          parts = split_whitespace without_prefix
      in case parts of
           [] \<Rightarrow> UnknownIntent
         | p # args \<Rightarrow>
             (let cmd = to_lowercase p in
              if cmd = ''job'' \<or> cmd = ''create'' then CreateJob (join '' '' args) (join '' '' args) None
              else if cmd = ''status'' then CheckJobStatus (if args = [] then None else Some (hd args))
              else if cmd = ''cancel'' then (if args = [] then UnknownIntent else CancelJob (hd args))
              else if cmd = ''list'' \<or> cmd = ''jobs'' then ListJobs (if args = [] then None else Some (hd args))
              else if cmd = ''help'' then (if args = [] then Command ''help'' [] else HelpJob (hd args))
              else Command cmd args))"

definition route_command :: "string \<Rightarrow> string \<Rightarrow> message_intent option" where
  "route_command command_prefix content =
     (let c = trim content in
      if str_starts_with c command_prefix then Some (parse_command command_prefix c) else None)"

subsection \<open>What counts as an approval\<close>

lemma keyword_fixed: "map_of keyword_commands k = Some s \<Longrightarrow>
    (case s of UserInput _ \<Rightarrow> False | ExecApproval _ _ _ \<Rightarrow> False | SwitchThread _ \<Rightarrow> False
     | SubResume _ \<Rightarrow> False
     | ApprovalResponse a w \<Rightarrow> (k \<in> {''yes'', ''y'', ''approve'', ''ok''} \<and> a \<and> \<not> w) \<or>
         (k \<in> {''always'', ''yes always'', ''approve always''} \<and> a \<and> w) \<or>
         (k \<in> {''no'', ''n'', ''deny'', ''reject'', ''cancel''} \<and> \<not> a \<and> \<not> w)
     | _ \<Rightarrow> True)"
  (is "_ \<Longrightarrow> ?P k s")
proof -
  assume "map_of keyword_commands k = Some s"
  then have entry: "(k, s) \<in> set keyword_commands" by (rule map_of_SomeD)
  have "list_all (\<lambda>(k, s). ?P k s) keyword_commands" by (simp add: keyword_commands_def)
  then show "?P k s" using entry unfolding list_all_iff by (blast dest: bspec)
qed

lemma decode_exec_approval_form: "decode_exec_approval pu v = Some s \<Longrightarrow> \<exists>r a w. s = ExecApproval r a w"
  by (induction pu v rule: decode_exec_approval.induct)
    (auto split: if_splits json.splits list.splits option.splits)

lemma complex_cases:
  "parse_complex pu fj c t l = UserInput c \<or>
   (\<exists>args. parse_complex pu fj c t l = SystemCommand ''model'' args \<and> str_starts_with l ''/model'') \<or>
   (\<exists>i. parse_complex pu fj c t l = SwitchThread i \<and> str_starts_with l ''/thread '') \<or>
   (\<exists>i. parse_complex pu fj c t l = SubResume i \<and> str_starts_with l ''/resume '') \<or>
   (\<exists>v r a w. str_starts_with t ''{'' \<and> fj t = Some v \<and>
        parse_complex pu fj c t l = ExecApproval r a w \<and>
        decode_exec_approval pu v = Some (ExecApproval r a w))"
proof -
  have m: "parse_model_command t l = Some s \<Longrightarrow> (\<exists>args. s = SystemCommand ''model'' args) \<and> str_starts_with l ''/model''"
    and th: "parse_thread_switch pu l = Some s \<Longrightarrow> (\<exists>i. s = SwitchThread i) \<and> str_starts_with l ''/thread ''"
    and r: "parse_resume pu l = Some s \<Longrightarrow> (\<exists>i. s = SubResume i) \<and> str_starts_with l ''/resume ''"
    and j: "parse_json_approval pu fj t = Some s \<Longrightarrow>
      \<exists>v r a w. str_starts_with t ''{'' \<and> fj t = Some v \<and> s = ExecApproval r a w \<and>
        decode_exec_approval pu v = Some (ExecApproval r a w)" for s
    by (auto simp: parse_model_command_def parse_thread_switch_def parse_resume_def
        parse_json_approval_def strip_prefix_def str_starts_with_def Let_def
        split: if_splits option.splits bind_splits dest: decode_exec_approval_form)
  show ?thesis
    unfolding parse_complex_def or_else_def
    by (auto split: option.splits dest: m th r j)
qed

lemma lower_slash: "str_starts_with (to_lowercase s) (CHR ''/'' # p) \<Longrightarrow> str_starts_with s ''/''"
proof (cases s)
  case (Cons c cs)
  assume "str_starts_with (to_lowercase s) (CHR ''/'' # p)"
  then have c: "ascii_lower c = CHR ''/''"
    using Cons by (simp add: str_starts_with_def to_lowercase_def)
  have "c = CHR ''/''"
  proof (cases "65 \<le> code c \<and> code c \<le> 90")
    case True
    then have "code (CHR ''/'') = code c + 32"
      using c by (simp add: ascii_lower_def code_def flip: c)
    then show ?thesis using True by (simp add: code_def)
  qed (use c in \<open>auto simp: ascii_lower_def split: if_splits\<close>)
  then show ?thesis using Cons by (simp add: str_starts_with_def)
qed (simp add: str_starts_with_def to_lowercase_def)

lemma keyword_slash: "map_of keyword_commands (to_lowercase k) = Some s \<Longrightarrow>
    (\<forall>a w. s \<noteq> ApprovalResponse a w) \<Longrightarrow> str_starts_with k ''/''"
proof -
  assume *: "map_of keyword_commands (to_lowercase k) = Some s" "\<forall>a w. s \<noteq> ApprovalResponse a w"
  have "list_all (\<lambda>(k, s). (\<forall>a w. s \<noteq> ApprovalResponse a w) \<longrightarrow> str_starts_with k ''/'') keyword_commands"
    by (simp add: keyword_commands_def str_starts_with_def) blast
  then have "str_starts_with (to_lowercase k) ''/''"
    using * by (auto simp: list_all_iff dest!: map_of_SomeD)
  then show ?thesis using lower_slash [of k "[]"] by simp
qed

text \<open>C16: What the agent takes for a decision. A line approves or rejects a tool call only if it is,
  up to case and surrounding blanks, exactly one of the keywords, or a JSON approval that names the
  request; \<open>always\<close> needs its own keyword; a command starts with a slash; everything else is user
  input and reaches the agent unchanged.\<close>

theorem approval_needs_keyword:
  "case parse_submission parse_uuid from_json c of
     ApprovalResponse approved always \<Rightarrow>
       (if always then approved \<and> to_lowercase (trim c) \<in> {''always'', ''yes always'', ''approve always''}
        else if approved then to_lowercase (trim c) \<in> {''yes'', ''y'', ''approve'', ''ok''}
        else to_lowercase (trim c) \<in> {''no'', ''n'', ''deny'', ''reject'', ''cancel''})
   | ExecApproval r approved always \<Rightarrow>
       (\<exists>v. from_json (trim c) = Some v \<and>
            decode_exec_approval parse_uuid v = Some (ExecApproval r approved always))
   | UserInput t \<Rightarrow> t = c \<and> map_of keyword_commands (to_lowercase (trim c)) = None
   | _ \<Rightarrow> str_starts_with (trim c) ''/''"
proof (cases "map_of keyword_commands (to_lowercase (trim c))")
  case (Some s)
  then have "parse_submission parse_uuid from_json c = s" by (simp add: parse_submission_def Let_def)
  moreover have "str_starts_with (trim c) ''/''" if "\<forall>a w. s \<noteq> ApprovalResponse a w"
    using keyword_slash [OF Some that] .
  ultimately show ?thesis using keyword_fixed [OF Some] by (cases s) auto
next
  case None
  let ?l = "to_lowercase (trim c)"
  have eq: "parse_submission parse_uuid from_json c =
      parse_complex parse_uuid from_json c (trim c) ?l"
    using None by (simp add: parse_submission_def Let_def)
  show ?thesis
    unfolding eq
    using complex_cases [of parse_uuid from_json c "trim c" ?l] None
    by (auto dest: lower_slash)
qed

end
