(* ===== verification/Agent.thy ===== *)
theory Agent
  imports Agent_Loop Submission
begin

text \<open>
  What an agent does with one message: \<open>src/src/agent/agent_loop.rs\<close>, the approval flow of
  \<open>src/src/agent/approval.rs\<close> and the commands of \<open>src/src/agent/commands.rs\<close>.

  A function returns the result of the method and the new state; the result \<open>None\<close> is a panic, and
  \<open>Some (Inl e)\<close> the error the method returns. \<open>now\<close> is the instant at which the message is
  handled. A session is found under the user of the message, as the handle of the source always is.
\<close>

datatype submission_result =
    Response string
  | NeedApproval uuid string string json "tool_summary option"
  | OkResult "string option"
  | ErrorResult string
  | InterruptedResult

type_synonym 'r outcome = "(agent_error + 'r) option"

definition ok_with_message :: "string \<Rightarrow> submission_result outcome" where
  [rust_defs]: "ok_with_message m = Some (Inr (OkResult (Some m)))"

definition error_result :: "string \<Rightarrow> submission_result outcome" where
  [rust_defs]: "error_result m = Some (Inr (ErrorResult m))"

definition not_found :: "uuid \<Rightarrow> 'r outcome" where
  [rust_defs]: "not_found tid = Some (Inl (ErrJob (JobNotFound tid)))"

subsection \<open>Persistence\<close>

definition persist_turn :: "uuid \<Rightarrow> string \<Rightarrow> string \<Rightarrow> string option \<Rightarrow> agent \<Rightarrow> agent" where
  "persist_turn tid user input response a =
     (if ag_store a = None then a else spawn (SpawnPersist tid user input response) a)"

text \<open>The spawned task: it stops at the first statement that fails.\<close>

definition run_persist ::
  "uuid \<Rightarrow> uuid \<Rightarrow> datetime \<Rightarrow> uuid \<Rightarrow> string \<Rightarrow> string \<Rightarrow> string option \<Rightarrow> conv_db \<Rightarrow> conv_db" where
  "run_persist f1 f2 now tid user input response db =
     (let (ok1, db1) = ensure_conversation now tid ''gateway'' user db in
      if \<not> ok1 then db1 else
      (let (ok2, db2) = add_conversation_message f1 now tid ''user'' input db1 in
       if \<not> ok2 then db2 else
       (case response of
          None \<Rightarrow> db2
        | Some r \<Rightarrow> snd (add_conversation_message f2 now tid ''assistant'' r db2))))"

text \<open>No provider of the program keeps a response chain: \<open>get_response_chain_id\<close> is the default
  of the trait, which answers nothing, and \<open>persist_response_chain\<close> returns at once.\<close>

definition get_response_chain_id :: "string \<Rightarrow> string option" where
  "get_response_chain_id thread_id = None"

definition persist_response_chain :: "env \<Rightarrow> thread \<Rightarrow> thread" where
  "persist_response_chain E t = (case get_response_chain_id (ev_uuid_str E (th_id t)) of
     None \<Rightarrow> t | Some rid \<Rightarrow> t\<lparr>th_last_response_id := Some rid\<rparr>)"

subsection \<open>After the loop\<close>

definition finalize_loop_result ::
  "env \<Rightarrow> datetime \<Rightarrow> incoming_message \<Rightarrow> uuid \<Rightarrow> loop_out \<Rightarrow> (string \<times> string) option \<Rightarrow> agent \<Rightarrow>
    submission_result outcome \<times> agent" where
  "finalize_loop_result E now msg tid result persist a =
     (let user = im_user_id msg; persist_it = (\<lambda>response a. case persist of
            Some (uid, input) \<Rightarrow> persist_turn tid uid input response a | None \<Rightarrow> a)
      in case result of
           LoopResponse response \<Rightarrow>
             (Some (Inr (Response response)),
              persist_it (Some response)
                (send_status (im_channel msg) (StatusText ''Done'')
                  (update_thread user tid (persist_response_chain E \<circ> complete_turn now response) a)))
         | LoopNeedApproval p \<Rightarrow>
             (Some (Inr (NeedApproval (pa_request_id p) (pa_tool_name p) (pa_description p)
                (pa_parameters p) (pa_summary p))),
              send_status (im_channel msg) (StatusText ''Awaiting approval'')
                (update_thread user tid (await_approval now p) a))
         | LoopError e \<Rightarrow>
             (error_result (show_error E e),
              persist_it None (update_thread user tid (fail_turn now (show_error E e)) a))
         | LoopPanic \<Rightarrow> (None, a))"

subsection \<open>Approvals\<close>

definition set_state :: "thread_state \<Rightarrow> thread \<Rightarrow> thread" where
  "set_state s t = t\<lparr>th_state := s\<rparr>"

text \<open>Executing the approved tool and going on with the loop.\<close>

definition continue_approved ::
  "env \<Rightarrow> datetime \<Rightarrow> incoming_message \<Rightarrow> uuid \<Rightarrow> pending_approval \<Rightarrow> bool \<Rightarrow> agent \<Rightarrow>
    submission_result outcome \<times> agent" where
  "continue_approved E now msg tid p always a =
     (let user = im_user_id msg;
          a1 = (if always then (case session_of a user of
                  Some s \<Rightarrow> set_session user (auto_approve_tool (pa_tool_name p) s) a | None \<Rightarrow> a) else a);
          a2 = update_thread user tid (set_state Processing) a1;
          (r, a3) = run_tool E msg tid (pa_tool_name p) (pa_parameters p) a2;
          ms = pa_context_messages p @
                 [tool_result (pa_tool_call_id p) (pa_tool_name p) (result_content E (pa_tool_name p) r)];
          (out, a4) = run_agentic_loop E now msg tid ms True a3
      in case thread_of a4 user tid of
           None \<Rightarrow> (if out = LoopPanic then None else not_found tid, a4)
         | Some _ \<Rightarrow> finalize_loop_result E now msg tid out None a4)"

definition rejected_text :: "string \<Rightarrow> string" where
  "rejected_text name = ''Tool '' @ [CHR 0x27] @ name @ [CHR 0x27] @
     '' was rejected. The agent will not execute this tool.'' @ [CHR 0x0A, CHR 0x0A] @
     ''You can continue the conversation or try a different approach.''"

definition process_approval ::
  "env \<Rightarrow> datetime \<Rightarrow> incoming_message \<Rightarrow> uuid \<Rightarrow> uuid option \<Rightarrow> bool \<Rightarrow> bool \<Rightarrow> agent \<Rightarrow>
    submission_result outcome \<times> agent" where
  "process_approval E now msg tid request_id approved always a =
     (let user = im_user_id msg in
      case thread_of a user tid of
        None \<Rightarrow> (not_found tid, a)
      | Some t \<Rightarrow>
          if th_state t \<noteq> AwaitingToolApproval then (error_result ''No pending approval request.'', a)
          else
            (let (pending, t1) = take_pending_approval t; a1 = update_thread user tid (\<lambda>_. t1) a in
             case pending of
               None \<Rightarrow> (error_result ''No pending approval request.'', a1)
             | Some p \<Rightarrow>
                 if (case request_id of Some r \<Rightarrow> r \<noteq> pa_request_id p | None \<Rightarrow> False)
                 then (error_result ''Request ID mismatch. Use the correct request ID.'',
                       update_thread user tid (await_approval now p) a1)
                 else if approved then continue_approved E now msg tid p always a1
                 else (Some (Inr (Response (rejected_text (pa_tool_name p)))),
                       send_status (im_channel msg) (StatusText ''Rejected'')
                         (update_thread user tid (clear_pending_approval now) a1))))"

subsection \<open>User input\<close>

text \<open>A number with a fixed number of decimals.\<close>

definition fmt_fixed :: "nat \<Rightarrow> rat \<Rightarrow> string" where
  "fmt_fixed d x =
     (let n = nat (round (x * 10 ^ d)); frac = nat_str (n mod 10 ^ d)
      in nat_str (n div 10 ^ d) @
         (if d = 0 then [] else ''.'' @ replicate (d - length frac) (CHR ''0'') @ frac))"

definition compact_thread ::
  "env \<Rightarrow> datetime \<Rightarrow> string \<Rightarrow> uuid \<Rightarrow> compaction_strategy \<Rightarrow> thread \<Rightarrow> agent \<Rightarrow>
    (llm_error + compaction_result) \<times> agent" where
  "compact_thread E now user tid strategy t a =
     (let (r, ws) = compact (ev_fmt_date E) (ev_fmt_time E) (ev_llm E) (ag_llm_calls a) now strategy t (ag_workspace a);
          a1 = a\<lparr>ag_workspace := ws, ag_llm_calls := Suc (ag_llm_calls a)\<rparr>
      in case r of
           Inl e \<Rightarrow> (Inl e, a1)
         | Inr (res, t1) \<Rightarrow> (Inr res, update_thread user tid (\<lambda>_. t1) a1))"

definition auto_compact ::
  "env \<Rightarrow> datetime \<Rightarrow> incoming_message \<Rightarrow> uuid \<Rightarrow> thread \<Rightarrow> agent \<Rightarrow> agent" where
  "auto_compact E now msg tid t a = (case suggest_compaction (ev_monitor E) (messages t) of
     None \<Rightarrow> a
   | Some strategy \<Rightarrow>
       snd (compact_thread E now (im_user_id msg) tid strategy t
         (send_status (im_channel msg) (StatusText (''Context at '' @
            fmt_fixed 0 (usage_percent (ev_monitor E) (messages t)) @ ''% capacity, compacting...'')) a)))"

definition checkpoint_before_turn :: "env \<Rightarrow> uuid \<Rightarrow> thread \<Rightarrow> agent \<Rightarrow> agent" where
  "checkpoint_before_turn E tid t a =
     (let (u, sm) = get_undo_manager tid (ag_sm a);
          (fresh, a1) = draw_uuid E (a\<lparr>ag_sm := sm\<rparr>)
      in set_undo tid (checkpoint_turn fresh (turn_number t) (messages t)
           (''Before turn '' @ nat_str (turn_number t)) u) a1)"

definition with_config_prompt :: "env \<Rightarrow> chat_message list \<Rightarrow> chat_message list" where
  "with_config_prompt E ms = (case ev_config_prompt E of
     Some p \<Rightarrow> if list_ex (\<lambda>m. cm_role m = System) ms then ms else system_message p # ms
   | None \<Rightarrow> ms)"

text \<open>From the start of the turn on.\<close>

definition run_turn ::
  "env \<Rightarrow> datetime \<Rightarrow> incoming_message \<Rightarrow> uuid \<Rightarrow> string \<Rightarrow> agent \<Rightarrow> submission_result outcome \<times> agent" where
  "run_turn E now msg tid content a = (case thread_of a (im_user_id msg) tid of
     None \<Rightarrow> (not_found tid, a)
   | Some t \<Rightarrow>
       (let user = im_user_id msg;
            a1 = checkpoint_before_turn E tid t a;
            a2 = update_thread user tid (start_turn now content) a1;
            ms = with_config_prompt E (messages (start_turn now content t));
            a3 = send_status (im_channel msg) (Thinking ''Processing...'') a2;
            (out, a4) = run_agentic_loop E now msg tid ms False a3
        in if out = LoopPanic then (None, a4)
           else case thread_of a4 user tid of
             None \<Rightarrow> (not_found tid, a4)
           | Some t4 \<Rightarrow>
               if th_state t4 = Interrupted
               then (Some (Inr InterruptedResult), send_status (im_channel msg) (StatusText ''Interrupted'') a4)
               else finalize_loop_result E now msg tid out (Some (user, content)) a4))"

definition process_user_input ::
  "env \<Rightarrow> datetime \<Rightarrow> incoming_message \<Rightarrow> uuid \<Rightarrow> string \<Rightarrow> agent \<Rightarrow> submission_result outcome \<times> agent" where
  "process_user_input E now msg tid content a = (case thread_of a (im_user_id msg) tid of
     None \<Rightarrow> (not_found tid, a)
   | Some t \<Rightarrow>
       (case th_state t of
          Processing \<Rightarrow> (error_result ''Turn in progress. Use /interrupt to cancel.'', a)
        | AwaitingToolApproval \<Rightarrow> (error_result ''Waiting for approval. Use /interrupt to cancel.'', a)
        | ThreadCompleted \<Rightarrow> (error_result ''Thread completed. Use /thread new.'', a)
        | _ \<Rightarrow>
            if \<not> vr_is_valid (validate_input content)
            then (error_result (''Input rejected by safety validation: '' @ validation_details (validate_input content)), a)
            else if PolicyBlock \<in> set (check_policy content)
            then (error_result ''Input rejected by safety policy.'', a)
            else
              (let sender = (case im_user_name msg of Some n \<Rightarrow> n | None \<Rightarrow> im_user_id msg);
                   a1 = (if ev_drafting E
                         then spawn (SpawnDraft content sender (ev_uuid_str E tid) (im_channel msg)) a else a)
               in run_turn E now msg tid content (auto_compact E now msg tid t a1))))"

subsection \<open>Commands\<close>

definition with_undo ::
  "uuid \<Rightarrow> agent \<Rightarrow> undo_manager \<times> agent" where
  "with_undo tid a = (let (u, sm) = get_undo_manager tid (ag_sm a) in (u, a\<lparr>ag_sm := sm\<rparr>))"

definition process_undo :: "env \<Rightarrow> datetime \<Rightarrow> string \<Rightarrow> uuid \<Rightarrow> agent \<Rightarrow> submission_result outcome \<times> agent" where
  "process_undo E now user tid a =
     (let (u, a1) = with_undo tid a in
      if \<not> can_undo u then (ok_with_message ''Nothing to undo.'', a1)
      else case thread_of a1 user tid of
             None \<Rightarrow> (not_found tid, a1)
           | Some t \<Rightarrow>
               (let (fresh, a2) = draw_uuid E a1;
                    (cp, u1) = undo fresh (turn_number t) (messages t) u;
                    a3 = set_undo tid u1 a2
                in case cp of
                     None \<Rightarrow> (error_result ''Undo failed.'', a3)
                   | Some c \<Rightarrow>
                       (ok_with_message (''Undone to turn '' @ nat_str (cp_turn_number c) @ ''. '' @
                          nat_str (undo_count u1) @ '' undo(s) remaining.''),
                        update_thread user tid (restore_from_messages now (cp_messages c)) a3)))"

definition process_redo :: "datetime \<Rightarrow> string \<Rightarrow> uuid \<Rightarrow> agent \<Rightarrow> submission_result outcome \<times> agent" where
  "process_redo now user tid a =
     (let (u, a1) = with_undo tid a in
      if \<not> can_redo u then (ok_with_message ''Nothing to redo.'', a1)
      else (let (cp, u1) = redo u; a2 = set_undo tid u1 a1 in
            case cp of
              None \<Rightarrow> (error_result ''Redo failed.'', a2)
            | Some c \<Rightarrow> (case thread_of a2 user tid of
                  None \<Rightarrow> (not_found tid, a2)
                | Some t \<Rightarrow>
                    (ok_with_message (''Redone to turn '' @ nat_str (cp_turn_number c) @ ''.''),
                     update_thread user tid (restore_from_messages now (cp_messages c)) a2))))"

definition process_interrupt :: "datetime \<Rightarrow> string \<Rightarrow> uuid \<Rightarrow> agent \<Rightarrow> submission_result outcome \<times> agent" where
  "process_interrupt now user tid a = (case thread_of a user tid of
     None \<Rightarrow> (not_found tid, a)
   | Some t \<Rightarrow>
       if th_state t \<in> {Processing, AwaitingToolApproval}
       then (ok_with_message ''Interrupted.'', update_thread user tid (interrupt now) a)
       else (ok_with_message ''Nothing to interrupt.'', a))"

definition process_compact :: "env \<Rightarrow> datetime \<Rightarrow> string \<Rightarrow> uuid \<Rightarrow> agent \<Rightarrow> submission_result outcome \<times> agent" where
  "process_compact E now user tid a = (case thread_of a user tid of
     None \<Rightarrow> (not_found tid, a)
   | Some t \<Rightarrow>
       (let usage = usage_percent (ev_monitor E) (messages t);
            strategy = (case suggest_compaction (ev_monitor E) (messages t) of
                          Some s \<Rightarrow> s | None \<Rightarrow> CompactSummarize 5);
            (r, a1) = compact_thread E now user tid strategy t a
        in case r of
             Inl e \<Rightarrow> (error_result (''Compaction failed: LLM error: '' @ show_llm_error (ev_show_duration E) e), a1)
           | Inr res \<Rightarrow>
               (ok_with_message (''Compacted: '' @ nat_str (cr_turns_removed res) @ '' turns removed, '' @
                  nat_str (cr_tokens_before res) @ '' '' @ [CHR 0xE2, CHR 0x86, CHR 0x92] @ '' '' @
                  nat_str (cr_tokens_after res) @ '' tokens (was '' @ fmt_fixed 1 usage @ ''% full)'' @
                  (if cr_summary_written res then '', summary saved to workspace'' else [])), a1)))"

definition process_clear :: "string \<Rightarrow> uuid \<Rightarrow> agent \<Rightarrow> submission_result outcome \<times> agent" where
  "process_clear user tid a = (case thread_of a user tid of
     None \<Rightarrow> (not_found tid, a)
   | Some t \<Rightarrow>
       (let a1 = update_thread user tid (\<lambda>t. t\<lparr>th_turns := [], th_state := Idle\<rparr>) a;
            (u, a2) = with_undo tid a1
        in (ok_with_message ''Thread cleared.'', set_undo tid (clear_checkpoints u) a2)))"

definition user_session :: "env \<Rightarrow> datetime \<Rightarrow> string \<Rightarrow> agent \<Rightarrow> session \<times> agent" where
  "user_session E now user a =
     (let (s, sm) = get_or_create_session (ev_uuid E (ag_uuids a)) now user (ag_sm a)
      in (s, a\<lparr>ag_sm := sm, ag_uuids := Suc (ag_uuids a)\<rparr>))"

definition process_new_thread ::
  "env \<Rightarrow> datetime \<Rightarrow> string \<Rightarrow> agent \<Rightarrow> submission_result outcome \<times> agent" where
  "process_new_thread E now user a =
     (let (s, a1) = user_session E now user a; (fresh, a2) = draw_uuid E a1
      in (ok_with_message (''New thread: '' @ ev_uuid_str E fresh),
          set_session user (create_thread fresh now s) a2))"

definition process_heartbeat :: "submission_result outcome" where
  "process_heartbeat = ok_with_message ''Heartbeat: not implemented in this version.''"

definition process_switch_thread ::
  "env \<Rightarrow> datetime \<Rightarrow> string \<Rightarrow> uuid \<Rightarrow> agent \<Rightarrow> submission_result outcome \<times> agent" where
  "process_switch_thread E now user target a =
     (let (s, a1) = user_session E now user a; (ok, s1) = switch_thread now target s
      in if ok then (ok_with_message (''Switched to thread '' @ ev_uuid_str E target), set_session user s1 a1)
         else (error_result ''Thread not found.'', a1))"

definition process_resume ::
  "datetime \<Rightarrow> string \<Rightarrow> uuid \<Rightarrow> uuid \<Rightarrow> agent \<Rightarrow> submission_result outcome \<times> agent" where
  "process_resume now user tid checkpoint_id a =
     (let (u, a1) = with_undo tid a; (cp, u1) = restore checkpoint_id u; a2 = set_undo tid u1 a1
      in case cp of
           None \<Rightarrow> (error_result ''Checkpoint not found.'', a2)
         | Some c \<Rightarrow> (case thread_of a2 user tid of
               None \<Rightarrow> (not_found tid, a2)
             | Some t \<Rightarrow> (ok_with_message (''Resumed from checkpoint: '' @ cp_description c),
                 update_thread user tid (restore_from_messages now (cp_messages c)) a2)))"

text \<open>\<open>/summarize\<close> and \<open>/suggest\<close> differ in their texts and the temperature.\<close>

definition ask_about_thread ::
  "env \<Rightarrow> string \<Rightarrow> uuid \<Rightarrow> string \<Rightarrow> string \<Rightarrow> string \<Rightarrow> rat \<Rightarrow> string \<Rightarrow> string \<Rightarrow> agent \<Rightarrow>
    submission_result outcome \<times> agent" where
  "ask_about_thread E user tid empty_text prompt question temperature heading failure a =
     (case thread_of a user tid of
        None \<Rightarrow> (not_found tid, a)
      | Some t \<Rightarrow>
          if messages t = [] then (ok_with_message empty_text, a)
          else
            (let context = system_message prompt # keep_last 20 (messages t) @ [user_message question];
                 a1 = a\<lparr>ag_llm_calls := Suc (ag_llm_calls a)\<rparr>
             in case complete (ev_llm E) (ag_llm_calls a) ((completion_request_new context)
                       \<lparr>rq_max_tokens := Some 512, rq_temperature := Some temperature\<rparr>) of
                  Inr r \<Rightarrow> (Some (Inr (Response (heading @ [CHR 0x0A, CHR 0x0A] @ trim (rs_content r)))), a1)
                | Inl e \<Rightarrow> (error_result (failure @ '' failed: '' @ show_llm_error (ev_show_duration E) e), a1)))"

definition process_summarize :: "env \<Rightarrow> string \<Rightarrow> uuid \<Rightarrow> agent \<Rightarrow> submission_result outcome \<times> agent" where
  "process_summarize E user tid =
     ask_about_thread E user tid ''Nothing to summarize (empty thread).''
       ''Summarize the conversation so far in 3-5 concise bullet points. Focus on decisions made, actions taken, and key outcomes. Be brief and factual.''
       ''Summarize this conversation.'' (3/10) ''Thread Summary:'' ''Summarize''"

definition process_suggest :: "env \<Rightarrow> string \<Rightarrow> uuid \<Rightarrow> agent \<Rightarrow> submission_result outcome \<times> agent" where
  "process_suggest E user tid =
     ask_about_thread E user tid ''Nothing to suggest from (empty thread).''
       ''Based on the conversation so far, suggest 2-4 concrete next steps the user could take. Be actionable and specific. Format as a numbered list.''
       ''What should I do next?'' (5/10) ''Suggested Next Steps:'' ''Suggest''"

definition help_text :: string where
  "help_text = join [CHR 0x0A]
     [''System:'', ''  /help             Show this help'', ''  /model [name]     Show or switch the active model'',
      ''  /version          Show version info'', ''  /tools            List available tools'',
      ''  /debug            Toggle debug mode'', ''  /ping             Connectivity check'', '''',
      ''Session:'', ''  /undo             Undo last turn'', ''  /redo             Redo undone turn'',
      ''  /compact          Compress context window'', ''  /clear            Clear current thread'',
      ''  /interrupt        Stop current operation'', ''  /new              New conversation thread'',
      ''  /thread <id>      Switch to thread'', ''  /resume <id>      Resume from checkpoint'', '''',
      ''Agent:'', ''  /summarize        Summarize current thread'', ''  /suggest          Suggest next steps'', '''',
      ''  /quit             Exit'']"

text \<open>The providers of the program cannot switch models: \<open>set_model\<close> is an error.\<close>

definition set_model_error :: "env \<Rightarrow> llm_error" where
  "set_model_error E = RequestFailed (model_name (ev_llm E))
     ''Runtime model switching not supported for rig-core providers. Restart with a different model configured.''"

definition handle_system_command :: "env \<Rightarrow> string \<Rightarrow> string list \<Rightarrow> submission_result outcome" where
  "handle_system_command E command args =
     (if command = ''help'' then Some (Inr (Response help_text))
      else if command = ''ping'' then Some (Inr (Response ''pong!''))
      else if command = ''version'' then Some (Inr (Response ''ai-assist v0.1.0''))
      else if command = ''tools''
      then Some (Inr (Response (''Available tools: '' @ join '', '' (list_tools (ev_tools E)))))
      else if command = ''debug'' then ok_with_message ''Debug toggle is handled by your client.''
      else if command = ''model'' then
        (case args of
           [] \<Rightarrow> Some (Inr (Response (''Active model: '' @ model_name (ev_llm E))))
         | requested # _ \<Rightarrow>
             (case list_models (ev_llm E) of
                Inr models \<Rightarrow>
                  if models \<noteq> [] \<and> requested \<notin> set models
                  then error_result (''Unknown model: '' @ requested @ ''. Available models:'' @ [CHR 0x0A] @ ''  '' @
                         join ([CHR 0x0A] @ ''  '') models)
                  else error_result (''Failed to switch model: '' @
                         show_llm_error (ev_show_duration E) (set_model_error E))
              | Inl e \<Rightarrow> error_result (''Failed to switch model: '' @
                         show_llm_error (ev_show_duration E) (set_model_error E))))
      else error_result (''Unknown command: '' @ command @ ''. Try /help''))"

subsection \<open>Loading a conversation from the database\<close>

definition history_message :: "conversation_message \<Rightarrow> chat_message option" where
  "history_message m =
     (if vm_role m = ''user'' then Some (user_message (vm_content m))
      else if vm_role m = ''assistant'' then Some (assistant_message (vm_content m))
      else None)"

definition load_history :: "uuid \<Rightarrow> agent \<Rightarrow> chat_message list \<times> agent" where
  "load_history tid a = (case ag_store a of
     None \<Rightarrow> ([], a)
   | Some db \<Rightarrow>
       (let (r, db1) = list_conversation_messages tid db
        in (List.map_filter history_message (case r of Some ms \<Rightarrow> ms | None \<Rightarrow> []), a\<lparr>ag_store := Some db1\<rparr>)))"

definition load_response_id :: "uuid \<Rightarrow> agent \<Rightarrow> string option \<times> agent" where
  "load_response_id tid a = (case ag_store a of
     None \<Rightarrow> (None, a)
   | Some db \<Rightarrow>
       (let (r, db1) = get_conversation_metadata tid db
        in ((case r of Some (Some meta) \<Rightarrow> get_str meta ''last_response_id'' | _ \<Rightarrow> None), a\<lparr>ag_store := Some db1\<rparr>)))"

definition maybe_hydrate_thread :: "env \<Rightarrow> datetime \<Rightarrow> incoming_message \<Rightarrow> string \<Rightarrow> agent \<Rightarrow> agent" where
  "maybe_hydrate_thread E now msg external a = (case ev_parse_uuid E external of
     None \<Rightarrow> a
   | Some tid \<Rightarrow>
       (let user = im_user_id msg; (s, a1) = user_session E now user a in
        if get_thread tid s \<noteq> None then a1
        else
          (let (ms, a2) = load_history tid a1;
               t = thread_with_id now tid (ss_id s);
               t1 = (if ms \<noteq> [] then restore_from_messages now ms t else t);
               (rid, a3) = load_response_id tid a2;
               t2 = (case rid of Some r \<Rightarrow> t1\<lparr>th_last_response_id := Some r\<rparr> | None \<Rightarrow> t1);
               s1 = (put_thread tid t2 s)\<lparr>ss_active_thread := Some tid, ss_last_active_at := now\<rparr>;
               a4 = set_session user s1 a3
           in a4\<lparr>ag_sm := register_thread (ev_uuid_str E) user (im_channel msg) tid s1 (ag_sm a4)\<rparr>)))"

subsection \<open>Handling a message\<close>

definition resolve :: "env \<Rightarrow> datetime \<Rightarrow> incoming_message \<Rightarrow> agent \<Rightarrow> uuid \<times> agent" where
  "resolve E now msg a =
     (let (f1, a1) = draw_uuid E a; (f2, a2) = draw_uuid E a1;
          (tid, sm) = resolve_thread f1 f2 now (im_user_id msg) (im_channel msg) (im_thread_id msg) (ag_sm a2)
      in (tid, a2\<lparr>ag_sm := sm\<rparr>))"

definition process_submission ::
  "env \<Rightarrow> datetime \<Rightarrow> incoming_message \<Rightarrow> uuid \<Rightarrow> submission \<Rightarrow> agent \<Rightarrow> submission_result outcome \<times> agent" where
  "process_submission E now msg tid s a = (let user = im_user_id msg in case s of
     UserInput content \<Rightarrow> process_user_input E now msg tid content a
   | SystemCommand command args \<Rightarrow> (handle_system_command E command args, a)
   | SubUndo \<Rightarrow> process_undo E now user tid a
   | SubRedo \<Rightarrow> process_redo now user tid a
   | SubInterrupt \<Rightarrow> process_interrupt now user tid a
   | SubCompact \<Rightarrow> process_compact E now user tid a
   | SubClear \<Rightarrow> process_clear user tid a
   | NewThread \<Rightarrow> process_new_thread E now user a
   | Heartbeat \<Rightarrow> (process_heartbeat, a)
   | Summarize \<Rightarrow> process_summarize E user tid a
   | Suggest \<Rightarrow> process_suggest E user tid a
   | Quit \<Rightarrow> (Some (Inr (OkResult None)), a)
   | SwitchThread target \<Rightarrow> process_switch_thread E now user target a
   | SubResume checkpoint_id \<Rightarrow> process_resume now user tid checkpoint_id a
   | ExecApproval r approved always \<Rightarrow> process_approval E now msg tid (Some r) approved always a
   | ApprovalResponse approved always \<Rightarrow> process_approval E now msg tid None approved always a)"

definition handle_message :: "env \<Rightarrow> datetime \<Rightarrow> incoming_message \<Rightarrow> agent \<Rightarrow> string option outcome \<times> agent" where
  "handle_message E now msg a =
     (let s = parse_submission (ev_parse_uuid E) (ev_from_json E) (im_content msg);
          a1 = (case im_thread_id msg of Some ext \<Rightarrow> maybe_hydrate_thread E now msg ext a | None \<Rightarrow> a);
          (tid, a2) = resolve E now msg a1;
          (r, a3) = process_submission E now msg tid s a2
      in case r of
           None \<Rightarrow> (None, a3)
         | Some (Inl e) \<Rightarrow> (Some (Inl e), a3)
         | Some (Inr res) \<Rightarrow>
             (case res of
                Response content \<Rightarrow> (Some (Inr (Some content)), a3)
              | OkResult m \<Rightarrow> (Some (Inr m), a3)
              | ErrorResult m \<Rightarrow> (Some (Inr (Some (''Error: '' @ m))), a3)
              | InterruptedResult \<Rightarrow> (Some (Inr (Some ''Interrupted.'')), a3)
              | NeedApproval i name description params summary \<Rightarrow>
                  (Some (Inr (Some [])),
                   send_status (im_channel msg)
                     (ApprovalNeeded (ev_uuid_str E i) name description params summary) a3)))"

text \<open>What the main loop answers to a message: a reply, nothing, or the end of the loop.\<close>

datatype reply = ReplyWith string | NoReply | Shutdown | AgentPanic

definition main_step :: "env \<Rightarrow> datetime \<Rightarrow> incoming_message \<Rightarrow> agent \<Rightarrow> reply \<times> agent" where
  "main_step E now msg a = (case handle_message E now msg a of
     (None, a1) \<Rightarrow> (AgentPanic, a1)
   | (Some (Inl e), a1) \<Rightarrow> (ReplyWith (''Error: '' @ show_error E e), a1)
   | (Some (Inr None), a1) \<Rightarrow> (Shutdown, a1)
   | (Some (Inr (Some s)), a1) \<Rightarrow> (if s = [] then NoReply else ReplyWith s, a1))"

end
