(* ===== verification/Agent_Safety.thy ===== *)
theory Agent_Safety
  imports Agent
begin

text \<open>
  What an agent may do without asking: properties of \<open>Agent_Loop\<close> and \<open>Agent\<close>. The relation
  \<open>loop_rel\<close> says what the loop between model and tools leaves alone; from it follow the gate on
  tool executions, the invariant of the threads between two messages and the undo of a turn.
\<close>

subsection \<open>What the loop leaves alone\<close>

definition thread_rel :: "thread \<Rightarrow> thread \<Rightarrow> bool" where
  "thread_rel t t' \<longleftrightarrow> (\<exists>ts. t' = t\<lparr>th_turns := ts\<rparr> \<and>
     list_all2 (\<lambda>u v. \<exists>cs. v = u\<lparr>tn_tool_calls := cs\<rparr>) (th_turns t) ts)"

definition session_rel :: "uuid \<Rightarrow> session \<Rightarrow> session \<Rightarrow> bool" where
  "session_rel tid s s' \<longleftrightarrow> ss_auto_approved s' = ss_auto_approved s \<and> ss_id s' = ss_id s \<and>
     ss_active_thread s' = ss_active_thread s \<and>
     (\<forall>j. j \<noteq> tid \<longrightarrow> get_thread j s' = get_thread j s) \<and>
     rel_option thread_rel (get_thread tid s) (get_thread tid s')"

text \<open>A call that may run without a question: the tool does not ask for approval, or the user has
  approved it for the session and it is not a destructive shell command.\<close>

definition free_call :: "env \<Rightarrow> string list \<Rightarrow> string \<Rightarrow> json \<Rightarrow> bool" where
  "free_call E auto name params \<longleftrightarrow>
     (\<exists>t. get_tool (ev_tools E) name = Some t \<and>
       (tl_requires_approval t \<longrightarrow> name \<in> set auto \<and>
         (name = ''shell'' \<longrightarrow> (\<forall>c. shell_command E params = Some c \<longrightarrow> \<not> requires_explicit_approval c))))"

definition auto_of :: "agent \<Rightarrow> string \<Rightarrow> string list" where
  "auto_of a user = (case session_of a user of Some s \<Rightarrow> ss_auto_approved s | None \<Rightarrow> [])"

definition ran :: "env \<Rightarrow> string list \<Rightarrow> agent \<Rightarrow> agent \<Rightarrow> bool" where
  "ran E auto a a' \<longleftrightarrow> (\<exists>new. ag_executed a' = ag_executed a @ new \<and>
     (\<forall>(n, p) \<in> set new. free_call E auto n p))"

definition loop_rel :: "env \<Rightarrow> string \<Rightarrow> uuid \<Rightarrow> agent \<Rightarrow> agent \<Rightarrow> bool" where
  "loop_rel E user tid a a' \<longleftrightarrow>
     (\<forall>u. u \<noteq> user \<longrightarrow> session_of a' u = session_of a u) \<and>
     rel_option (session_rel tid) (session_of a user) (session_of a' user) \<and>
     sm_undo (ag_sm a') = sm_undo (ag_sm a) \<and> sm_thread_map (ag_sm a') = sm_thread_map (ag_sm a) \<and>
     ran E (auto_of a user) a a'"

lemma turns_rel_refl: "list_all2 (\<lambda>u v. \<exists>cs. v = u\<lparr>tn_tool_calls := cs\<rparr>) ts (ts :: turn list)"
proof -
  have "u = u\<lparr>tn_tool_calls := tn_tool_calls u\<rparr>" for u :: turn by simp
  then show ?thesis by (intro list_all2_refl) blast
qed

lemma thread_rel_refl [simp]: "thread_rel t t"
proof -
  have "t = t\<lparr>th_turns := th_turns t\<rparr>" by simp
  then show ?thesis unfolding thread_rel_def using turns_rel_refl by blast
qed

lemma thread_rel_trans:
  assumes "thread_rel t u" "thread_rel u v"
  shows "thread_rel t v"
proof -
  let ?R = "\<lambda>u v :: turn. \<exists>cs. v = u\<lparr>tn_tool_calls := cs\<rparr>"
  from assms obtain us vs where u: "u = t\<lparr>th_turns := us\<rparr>" and v: "v = u\<lparr>th_turns := vs\<rparr>"
    and R: "list_all2 ?R (th_turns t) us" "list_all2 ?R us vs"
    by (auto simp: thread_rel_def)
  have "list_all2 ?R (th_turns t) vs"
    by (rule list_all2_trans [OF _ R]) auto
  moreover have "v = t\<lparr>th_turns := vs\<rparr>" by (simp add: u v)
  ultimately show ?thesis by (auto simp: thread_rel_def)
qed

lemma thread_rel_fields: "thread_rel t t' \<Longrightarrow> th_state t' = th_state t \<and>
    th_pending_approval t' = th_pending_approval t \<and> th_id t' = th_id t \<and>
    length (th_turns t') = length (th_turns t)"
  by (auto simp: thread_rel_def dest: list_all2_lengthD)

lemma session_rel_refl [simp]: "session_rel tid s s"
  by (simp add: session_rel_def option.rel_refl)

lemma session_rel_trans: "session_rel tid s s' \<Longrightarrow> session_rel tid s' s'' \<Longrightarrow> session_rel tid s s''"
  unfolding session_rel_def
  by (auto elim!: option.rel_cases intro: thread_rel_trans)

lemma ran_refl [simp]: "ran E auto a a"
  by (auto simp: ran_def)

lemma ran_trans: "ran E auto a b \<Longrightarrow> ran E auto b c \<Longrightarrow> ran E auto a c"
  unfolding ran_def by (auto 0 4)

lemma loop_rel_auto: "loop_rel E user tid a a' \<Longrightarrow> auto_of a' u = auto_of a u"
  by (cases "u = user") (auto simp: loop_rel_def auto_of_def session_rel_def elim: option.rel_cases)

lemma loop_rel_refl [simp]: "loop_rel E user tid a a"
  by (simp add: loop_rel_def option.rel_refl)

lemma loop_rel_trans: "loop_rel E user tid a b \<Longrightarrow> loop_rel E user tid b c \<Longrightarrow> loop_rel E user tid a c"
  using loop_rel_auto [of E user tid a b user]
  unfolding loop_rel_def
  by (auto elim!: option.rel_cases intro: session_rel_trans ran_trans)

subsection \<open>The operations of the loop\<close>

lemma agent_ops [simp]:
  "ag_sm (send_status c st a) = ag_sm a" "ag_executed (send_status c st a) = ag_executed a"
  "ag_sm (spawn x a) = ag_sm a" "ag_executed (spawn x a) = ag_executed a"
  "ag_sm (snd (draw_uuid E a)) = ag_sm a" "ag_executed (snd (draw_uuid E a)) = ag_executed a"
  "ag_executed (set_session u s a) = ag_executed a" "ag_executed (update_thread u tid f a) = ag_executed a"
  by (simp_all add: send_status_def spawn_def draw_uuid_def set_session_def update_thread_def
      split: option.split)

lemma draw_uuidD: "draw_uuid E a = (x, a') \<Longrightarrow> ag_sm a' = ag_sm a \<and> ag_executed a' = ag_executed a"
  by (auto simp: draw_uuid_def)

lemma session_of_cong: "ag_sm b = ag_sm a \<Longrightarrow> session_of b u = session_of a u"
  by (simp add: session_of_def)

lemma session_of_set [simp]:
  "session_of (set_session user s a) u = (if u = user then Some s else session_of a u)"
  by (simp add: session_of_def set_session_def update_conv')

lemma loop_rel_same: "ag_sm a' = ag_sm a \<Longrightarrow> ag_executed a' = ag_executed a \<Longrightarrow> loop_rel E user tid a a'"
  by (simp add: loop_rel_def session_of_cong [of a' a] option.rel_refl ran_def)

lemma session_of_update: "session_of (update_thread user tid f a) u =
    (if u = user then map_option (\<lambda>s. case get_thread tid s of None \<Rightarrow> s | Some t \<Rightarrow> put_thread tid (f t) s)
        (session_of a user)
     else session_of a u)"
  by (auto simp: update_thread_def split: option.splits)

lemma sm_update [simp]: "sm_undo (ag_sm (update_thread user tid f a)) = sm_undo (ag_sm a)"
    "sm_thread_map (ag_sm (update_thread user tid f a)) = sm_thread_map (ag_sm a)"
  by (simp_all add: update_thread_def set_session_def split: option.split)

lemma get_put_thread [simp]: "get_thread j (put_thread tid t s) = (if j = tid then Some t else get_thread j s)"
  by (simp add: get_thread_def put_thread_def update_conv')

lemma put_thread_fields [simp]:
  "ss_auto_approved (put_thread tid t s) = ss_auto_approved s" "ss_id (put_thread tid t s) = ss_id s"
  "ss_active_thread (put_thread tid t s) = ss_active_thread s"
  by (simp_all add: put_thread_def)

lemma thread_rel_on_last_turn:
  assumes "\<And>x. \<exists>cs. f x = x\<lparr>tn_tool_calls := cs\<rparr>"
  shows "thread_rel t (on_last_turn f t)"
proof -
  have "list_all2 (\<lambda>u v. \<exists>cs. v = u\<lparr>tn_tool_calls := cs\<rparr>) (th_turns t) (update_last f (th_turns t))"
    using assms by (cases "th_turns t" rule: rev_cases) (auto intro: list_all2_appendI turns_rel_refl)
  then show ?thesis by (auto simp: thread_rel_def on_last_turn_def)
qed

lemma loop_rel_update:
  assumes "\<And>t. thread_rel t (f t)"
  shows "loop_rel E user tid a (update_thread user tid f a)"
proof -
  have "session_rel tid s (case get_thread tid s of None \<Rightarrow> s | Some t \<Rightarrow> put_thread tid (f t) s)" for s
    using assms by (auto simp: session_rel_def option.rel_refl split: option.split)
  then show ?thesis by (auto simp: loop_rel_def session_of_update ran_def option.rel_map option.rel_refl)
qed

lemma record_outcome_form: "\<exists>cs. record_outcome r E x = x\<lparr>tn_tool_calls := cs\<rparr>"
  by (auto simp: record_outcome_def record_tool_result_def record_tool_error_def split: sum.split)

lemma record_calls_form:
  "\<exists>cs. fold (\<lambda>tc. record_tool_call (tc_name tc) (tc_arguments tc)) tcs x = x\<lparr>tn_tool_calls := cs\<rparr>"
proof (induction tcs arbitrary: x)
  case Nil
  show ?case by (rule exI [of _ "tn_tool_calls x"]) simp
next
  case (Cons tc tcs)
  obtain cs where "fold (\<lambda>tc. record_tool_call (tc_name tc) (tc_arguments tc)) tcs
      (record_tool_call (tc_name tc) (tc_arguments tc) x) =
      (record_tool_call (tc_name tc) (tc_arguments tc) x)\<lparr>tn_tool_calls := cs\<rparr>"
    using Cons.IH by blast
  then have "fold (\<lambda>tc. record_tool_call (tc_name tc) (tc_arguments tc)) (tc # tcs) x = x\<lparr>tn_tool_calls := cs\<rparr>"
    by simp (simp add: record_tool_call_def)
  then show ?case ..
qed

lemma execute_tool_effect:
  assumes "execute_chat_tool E name params a = (r, a')"
  shows "ag_sm a' = ag_sm a \<and> (ag_executed a' = ag_executed a \<or>
     (\<exists>t. get_tool (ev_tools E) name = Some t) \<and> ag_executed a' = ag_executed a @ [(name, params)])"
  using assms by (auto simp: execute_chat_tool_def validate_tool_params_def Let_def split: option.splits)

lemma run_tool_rel:
  assumes "run_tool E msg tid name params a = (r, a')" and "user = im_user_id msg"
    and "\<And>t. get_tool (ev_tools E) name = Some t \<Longrightarrow> free_call E (auto_of a user) name params"
  shows "loop_rel E user tid a a'"
proof -
  let ?a1 = "send_status (im_channel msg) (ToolStarted name) a"
  obtain a2 where ex: "execute_chat_tool E name params ?a1 = (r, a2)"
    using assms(1) by (auto simp: run_tool_def Let_def split: prod.splits)
  then obtain b where b: "a' = update_thread user tid (on_last_turn (record_outcome r E)) b"
    "ag_sm b = ag_sm a2" "ag_executed b = ag_executed a2"
    using assms(1,2) by (auto simp: run_tool_def Let_def split: prod.splits sum.splits if_splits)
  have "loop_rel E user tid a b"
    using execute_tool_effect [OF ex] assms(3) b(2,3)
    by (auto simp: loop_rel_def session_of_cong [of b a] option.rel_refl ran_def)
  then show ?thesis
    unfolding b(1) by (rule loop_rel_trans) (intro loop_rel_update thread_rel_on_last_turn record_outcome_form)
qed

lemma free_call_if_not_asked:
  assumes "(if needs_approval E tc then auto_approved E a user tc else Some True) = Some True"
    and "get_tool (ev_tools E) (tc_name tc) = Some t"
  shows "free_call E (auto_of a user) (tc_name tc) (tc_arguments tc)"
  using assms
  by (auto simp: free_call_def needs_approval_def auto_approved_def auto_of_def is_tool_auto_approved_def Let_def
      split: if_splits option.splits)

lemma run_calls_rel:
  "run_calls E msg tid tcs ms a = (out, a') \<Longrightarrow> loop_rel E (im_user_id msg) tid a a'"
proof (induction tcs arbitrary: ms a)
  case (Cons tc tcs)
  let ?ask = "if needs_approval E tc then auto_approved E a (im_user_id msg) tc else Some True"
  consider "?ask = None" | "?ask = Some False" | "?ask = Some True" by (cases ?ask) auto
  then show ?case
  proof cases
    case 3
    obtain r a1 where r: "run_tool E msg tid (tc_name tc) (tc_arguments tc) a = (r, a1)" by fastforce
    have "loop_rel E (im_user_id msg) tid a a1"
      using run_tool_rel [OF r refl] free_call_if_not_asked [OF 3] by blast
    then show ?thesis
      using Cons.IH [of _ a1] Cons.prems r by (auto simp: 3 intro: loop_rel_trans)
  next
    case 2
    then show ?thesis
      using Cons.prems by (auto split: prod.splits intro!: loop_rel_same dest!: draw_uuidD)
  qed (use Cons.prems in auto)
qed simp

lemma after_answer_rel:
  "after_answer E msg tid i executed has_tools result ms a = (out, a') \<Longrightarrow>
    loop_rel E (im_user_id msg) tid a a'"
proof (cases result)
  case (RespToolCalls tcs content)
  assume run: "after_answer E msg tid i executed has_tools result ms a = (out, a')"
  define a1 where "a1 = send_status (im_channel msg)
                   (Thinking (join '', '' (map (call_headline E) tcs) @ ''...'')) a"
  define a2 where "a2 = update_thread (im_user_id msg) tid
                   (on_last_turn (fold (\<lambda>tc. record_tool_call (tc_name tc) (tc_arguments tc)) tcs)) a1"
  obtain o3 where run3: "run_calls E msg tid tcs (ms @ [assistant_with_tool_calls content tcs]) a2 = (o3, a')"
    using run by (auto simp: after_answer_def RespToolCalls a1_def [symmetric] a2_def [symmetric] Let_def
        split: prod.splits)
  have "loop_rel E (im_user_id msg) tid a a1" by (rule loop_rel_same) (simp_all add: a1_def)
  moreover have "loop_rel E (im_user_id msg) tid a1 a2"
    unfolding a2_def by (intro loop_rel_update thread_rel_on_last_turn record_calls_form)
  ultimately show ?thesis using run_calls_rel [OF run3] by (blast intro: loop_rel_trans)
qed (auto simp: after_answer_def split: if_splits)

lemma record_cost_rel: "loop_rel E user tid a (record_cost E now tid usage a)"
  by (rule loop_rel_same) (auto simp: record_cost_def draw_uuid_def Let_def split: option.split prod.split)

lemma loop_from_rel:
  "loop_from E now msg tid identity left executed ms a = (out, a') \<Longrightarrow>
    loop_rel E (im_user_id msg) tid a a'"
proof (induction left arbitrary: executed ms a)
  case (Suc left)
  let ?a1 = "a\<lparr>ag_llm_calls := Suc (ag_llm_calls a)\<rparr>"
  have a1: "loop_rel E (im_user_id msg) tid a ?a1" by (rule loop_rel_same) simp_all
  let ?R = "respond_with_tools (ev_from_json E) (ev_llm E) identity (ag_llm_calls a)
                   \<lparr>rc_messages = ms, rc_available_tools = tool_definitions (ev_tools E),
                    rc_metadata = [(''thread_id'', ev_uuid_str E tid)]\<rparr>"
  let ?stop = "case thread_of a (im_user_id msg) tid of Some t \<Rightarrow> th_state t = Interrupted | None \<Rightarrow> False"
  consider "?stop" | e where "\<not> ?stop" "?R = Inl e" | r where "\<not> ?stop" "?R = Inr r"
    by (cases ?R) auto
  then show ?case
  proof cases
    case 1
    then show ?thesis using Suc.prems by simp
  next
    case 2
    then show ?thesis using Suc.prems by (auto simp: Let_def intro!: loop_rel_same)
  next
    case (3 res)
    let ?a2 = "record_cost E now tid (ro_usage res) ?a1"
    obtain x a3 where ans: "after_answer E msg tid (MAX_TOOL_ITERATIONS - left) executed
        (tool_definitions (ev_tools E) \<noteq> []) (ro_result res) ms ?a2 = (x, a3)" by fastforce
    have "loop_rel E (im_user_id msg) tid a a3"
      using a1 record_cost_rel after_answer_rel [OF ans] by (blast intro: loop_rel_trans)
    moreover have "loop_rel E (im_user_id msg) tid a3 a'"
      using Suc.prems Suc.IH [of _ _ a3] 3 ans by (cases x) (auto simp: Let_def)
    ultimately show ?thesis by (rule loop_rel_trans)
  qed
qed simp

lemma run_agentic_loop_rel:
  "run_agentic_loop E now msg tid ms executed a = (out, a') \<Longrightarrow>
    loop_rel E (im_user_id msg) tid a a'"
proof -
  assume run: "run_agentic_loop E now msg tid ms executed a = (out, a')"
  obtain identity a1 where pre: "(case ag_workspace a of None \<Rightarrow> (None, a)
      | Some w \<Rightarrow> (let (prompt, w1) = system_prompt w
           in (if prompt \<noteq> [] then Some prompt else None, a\<lparr>ag_workspace := Some w1\<rparr>))) = (identity, a1)"
    by fastforce
  then have same: "ag_sm a1 = ag_sm a" "ag_executed a1 = ag_executed a"
    by (auto split: option.splits prod.splits)
  have loop: "loop_from E now msg tid identity MAX_TOOL_ITERATIONS executed ms a1 = (out, a')"
    using run by (simp add: run_agentic_loop_def pre del: loop_from.simps)
  show ?thesis
    using loop_rel_same [OF same] loop_from_rel [OF loop] by (rule loop_rel_trans)
qed

subsection \<open>The operations around the loop\<close>

text \<open>Operations that execute nothing and approve nothing.\<close>

definition calm :: "agent \<Rightarrow> agent \<Rightarrow> bool" where
  "calm a a' \<longleftrightarrow> ag_executed a' = ag_executed a \<and> (\<forall>u. auto_of a' u = auto_of a u)"

lemma calm_refl [simp]: "calm a a"
  by (simp add: calm_def)

lemma calm_trans: "calm a b \<Longrightarrow> calm b c \<Longrightarrow> calm a c"
  by (simp add: calm_def)

lemma calm_same: "sm_sessions (ag_sm a') = sm_sessions (ag_sm a) \<Longrightarrow> ag_executed a' = ag_executed a \<Longrightarrow> calm a a'"
  by (simp add: calm_def auto_of_def session_of_def)

lemma calm_status [simp]: "calm a (send_status c st b) = calm a b" "calm a (spawn x b) = calm a b"
  "calm a (set_undo tid u b) = calm a b"
  by (simp_all add: calm_def auto_of_def session_of_def send_status_def spawn_def set_undo_def)

lemma auto_of_update [simp]: "auto_of (update_thread user tid f a) u = auto_of a u"
  by (auto simp: auto_of_def session_of_update split: option.split)

lemma auto_of_cong: "ag_sm b = ag_sm a \<Longrightarrow> auto_of b = auto_of a"
  by (simp add: auto_of_def fun_eq_iff session_of_def)

lemma auto_of_set [simp]: "auto_of (set_session user s a) = (auto_of a)(user := ss_auto_approved s)"
  by (simp add: auto_of_def fun_eq_iff)

lemma calm_update [simp]: "calm a (update_thread user tid f b) = calm a b"
  by (simp add: calm_def)

lemma calm_fields [simp]: "calm a (b\<lparr>ag_workspace := w\<rparr>) = calm a b" "calm a (b\<lparr>ag_llm_calls := n\<rparr>) = calm a b"
  "calm a (b\<lparr>ag_store := d\<rparr>) = calm a b" "calm a (b\<lparr>ag_uuids := n\<rparr>) = calm a b"
  by (simp_all add: calm_def auto_of_def session_of_def)

lemma calm_set_session:
  "session_of a user = Some s \<Longrightarrow> ss_auto_approved s' = ss_auto_approved s \<Longrightarrow> calm a (set_session user s' a)"
  by (simp add: calm_def auto_of_def)

lemma draw_uuid_calm: "draw_uuid E a = (x, a') \<Longrightarrow> calm a a'"
  by (auto simp: draw_uuid_def intro!: calm_same)

lemma with_undo_calm: "with_undo tid a = (u, a') \<Longrightarrow> calm a a'"
  by (auto simp: with_undo_def get_undo_manager_def intro!: calm_same split: option.splits)

lemma persist_calm [simp]: "calm a (persist_turn tid user input r b) = calm a b"
  by (simp add: persist_turn_def)

lemma user_session_facts:
  assumes "user_session E now user a = (s, a')"
  shows "calm a a'" "session_of a' user = Some s"
    "session_of a user = Some s \<or> session_of a user = None \<and> s = new_session (ev_uuid E (ag_uuids a)) now user"
    "u \<noteq> user \<Longrightarrow> session_of a' u = session_of a u"
proof -
  have eq: "a' = (case session_of a user of Some _ \<Rightarrow> a | None \<Rightarrow> set_session user s a)\<lparr>ag_uuids := Suc (ag_uuids a)\<rparr> \<and>
      s = (case session_of a user of Some s \<Rightarrow> s | None \<Rightarrow> new_session (ev_uuid E (ag_uuids a)) now user)"
    using assms
    by (auto simp: user_session_def get_or_create_session_def session_of_def set_session_def Let_def split: option.splits)
  have calm: "calm a (set_session user (new_session i now user) a)" if "session_of a user = None" for i
    using that by (simp add: calm_def auto_of_def set_session_def session_of_def update_conv' new_session_def)
  show "calm a a'" using eq calm by (auto split: option.splits)
  show "session_of a' user = Some s"
    "session_of a user = Some s \<or> session_of a user = None \<and> s = new_session (ev_uuid E (ag_uuids a)) now user"
    "u \<noteq> user \<Longrightarrow> session_of a' u = session_of a u"
    using eq by (auto simp: session_of_def set_session_def update_conv' split: option.splits)
qed

lemma ran_calm_left: "calm a b \<Longrightarrow> ran E auto b c \<Longrightarrow> ran E auto a c"
  by (simp add: ran_def calm_def)

lemma ran_calm_right: "ran E auto a b \<Longrightarrow> calm b c \<Longrightarrow> ran E auto a c"
  by (simp add: ran_def calm_def)

lemma finalize_calm: "finalize_loop_result E now msg tid out p a = (r, a') \<Longrightarrow> calm a a'"
  by (cases out) (auto simp: finalize_loop_result_def Let_def split: option.splits)

lemma compact_thread_calm: "compact_thread E now user tid strategy t a = (r, a') \<Longrightarrow> calm a a'"
  by (auto simp: compact_thread_def Let_def split: prod.splits sum.splits)

lemma auto_compact_calm: "calm a (auto_compact E now msg tid t a)"
proof (cases "suggest_compaction (ev_monitor E) (messages t)")
  case (Some strategy)
  have "calm a (snd (compact_thread E now user tid strategy t (send_status c st a)))" for c st user
    using compact_thread_calm [OF prod.collapse [symmetric], where E = E and now = now and user = user and tid = tid and strategy = strategy and t = t and a = "send_status c st a"]
      calm_status(1) [of a c st a] by (blast intro: calm_refl calm_trans)
  then show ?thesis by (simp only: auto_compact_def Some option.case)
qed (simp add: auto_compact_def)

lemma checkpoint_calm: "calm a (checkpoint_before_turn E tid t a)"
  by (auto simp: checkpoint_before_turn_def get_undo_manager_def draw_uuid_def Let_def
      intro!: calm_same split: option.splits)

lemma ask_about_thread_calm: "ask_about_thread E user tid x1 x2 x3 x4 x5 x6 a = (r, a') \<Longrightarrow> calm a a'"
  by (auto simp: ask_about_thread_def Let_def intro!: calm_same split: option.splits if_splits sum.splits)

subsection \<open>What a message may execute\<close>

definition gated :: "env \<Rightarrow> string \<Rightarrow> agent \<Rightarrow> agent \<Rightarrow> bool" where
  "gated E user a a' \<longleftrightarrow> ran E (auto_of a user) a a' \<and> auto_of a' = auto_of a"

lemma gated_calm: "calm a a' \<Longrightarrow> gated E user a a'"
  by (auto simp: gated_def calm_def ran_def)

lemma gated_trans: "gated E user a b \<Longrightarrow> gated E user b c \<Longrightarrow> gated E user a c"
  unfolding gated_def by (auto intro: ran_trans)

lemma gated_loop: "loop_rel E user tid a a' \<Longrightarrow> gated E user a a'"
  unfolding gated_def by (auto simp: fun_eq_iff loop_rel_auto) (simp add: loop_rel_def)

lemma run_turn_gated:
  assumes "run_turn E now msg tid content a = (r, a')"
  shows "gated E (im_user_id msg) a a'"
proof (cases "thread_of a (im_user_id msg) tid")
  case (Some t)
  let ?user = "im_user_id msg"
  define a3 where "a3 = send_status (im_channel msg) (Thinking ''Processing...'')
      (update_thread ?user tid (start_turn now content) (checkpoint_before_turn E tid t a))"
  define ms where "ms = with_config_prompt E (messages (start_turn now content t))"
  obtain out a4 where loop: "run_agentic_loop E now msg tid ms False a3 = (out, a4)" by fastforce
  have "calm a a3" using checkpoint_calm [of a E tid t] by (simp add: a3_def)
  then have "gated E ?user a a4"
    using gated_calm gated_loop [OF run_agentic_loop_rel [OF loop]] gated_trans by blast
  moreover have "calm a4 a'"
    using assms loop finalize_calm
    by (auto simp: run_turn_def Some a3_def [symmetric] ms_def [symmetric] Let_def
        split: if_splits option.splits)
  ultimately show ?thesis using gated_calm gated_trans by blast
qed (use assms in \<open>auto simp: run_turn_def intro!: gated_calm\<close>)

lemma process_user_input_gated:
  assumes "process_user_input E now msg tid content a = (r, a')"
  shows "gated E (im_user_id msg) a a'"
proof -
  have turn: "gated E (im_user_id msg) a a'"
    if "run_turn E now msg tid content (auto_compact E now msg tid t b) = (r, a')" "calm a b" for t b
    using run_turn_gated [OF that(1)] auto_compact_calm [of b E now msg tid t] that(2)
    by (blast intro: gated_calm gated_trans calm_trans)
  show ?thesis
    using assms turn
    by (auto simp: process_user_input_def Let_def intro!: gated_calm [OF calm_refl]
        split: option.splits thread_state.splits if_splits)
qed

definition approves :: "env \<Rightarrow> incoming_message \<Rightarrow> agent \<Rightarrow> string \<Rightarrow> json \<Rightarrow> bool \<Rightarrow> bool" where
  "approves E msg a name params always \<longleftrightarrow>
     (\<exists>tid t p. thread_of a (im_user_id msg) tid = Some t \<and> th_state t = AwaitingToolApproval \<and>
        th_pending_approval t = Some p \<and> pa_tool_name p = name \<and> pa_parameters p = params \<and>
        parse_submission (ev_parse_uuid E) (ev_from_json E) (im_content msg) \<in>
          {ApprovalResponse True always, ExecApproval (pa_request_id p) True always})"

definition approved_gate :: "env \<Rightarrow> string \<Rightarrow> string \<Rightarrow> json \<Rightarrow> bool \<Rightarrow> agent \<Rightarrow> agent \<Rightarrow> bool" where
  "approved_gate E user name params always a a' \<longleftrightarrow>
     auto_of a' = (if always
        then (auto_of a)(user := List.insert name (auto_of a user)) else auto_of a) \<and>
     (\<exists>rest. (ag_executed a' = ag_executed a @ rest \<or> ag_executed a' = ag_executed a @ (name, params) # rest) \<and>
        list_all (\<lambda>(n, p). free_call E (auto_of a' user) n p) rest)"

lemma run_tool_effect:
  assumes "run_tool E msg tid name params a = (r, a')"
  shows "(\<forall>u. auto_of a' u = auto_of a u) \<and>
    (ag_executed a' = ag_executed a \<or> ag_executed a' = ag_executed a @ [(name, params)])"
proof -
  let ?a1 = "send_status (im_channel msg) (ToolStarted name) a"
  obtain a2 where ex: "execute_chat_tool E name params ?a1 = (r, a2)"
    using assms(1) by (auto simp: run_tool_def Let_def split: prod.splits)
  obtain f b where "a' = update_thread (im_user_id msg) tid f b" "ag_sm b = ag_sm a2" "ag_executed b = ag_executed a2"
    using assms ex by (auto simp: run_tool_def Let_def split: prod.splits sum.splits if_splits)
  then show ?thesis
    using execute_tool_effect [OF ex] by (auto simp: auto_of_cong [of b a])
qed

lemma continue_approved_gate:
  assumes "continue_approved E now msg tid p always a = (r, a')" and "session_of a (im_user_id msg) \<noteq> None"
  shows "approved_gate E (im_user_id msg) (pa_tool_name p) (pa_parameters p) always a a'"
proof -
  let ?user = "im_user_id msg"
  define a1 where "a1 = (if always then (case session_of a ?user of
                  Some s \<Rightarrow> set_session ?user (auto_approve_tool (pa_tool_name p) s) a | None \<Rightarrow> a) else a)"
  define a2 where "a2 = update_thread ?user tid (set_state Processing) a1"
  have a2: "auto_of a2 = (if always then (auto_of a)(?user := List.insert (pa_tool_name p) (auto_of a ?user))
        else auto_of a)" "ag_executed a2 = ag_executed a"
    using assms(2) by (auto simp: a2_def a1_def fun_eq_iff auto_approve_tool_def auto_of_def [of a "im_user_id msg"])
  obtain r1 a3 where tool: "run_tool E msg tid (pa_tool_name p) (pa_parameters p) a2 = (r1, a3)" by fastforce
  define ms where "ms = pa_context_messages p @
                 [tool_result (pa_tool_call_id p) (pa_tool_name p) (result_content E (pa_tool_name p) r1)]"
  obtain out a4 where loop: "run_agentic_loop E now msg tid ms True a3 = (out, a4)" by fastforce
  have "calm a4 a'"
    using assms(1) loop tool finalize_calm
    by (auto simp: continue_approved_def a1_def [symmetric] a2_def [symmetric] ms_def [symmetric] Let_def
        split: option.splits)
  then have "gated E ?user a3 a'"
    using gated_loop [OF run_agentic_loop_rel [OF loop]] gated_calm gated_trans by blast
  then obtain rest where rest: "ag_executed a' = ag_executed a3 @ rest" "auto_of a' = auto_of a3"
      "list_all (\<lambda>(n, p). free_call E (auto_of a3 ?user) n p) rest"
    by (auto simp: gated_def ran_def list_all_iff)
  moreover have "auto_of a3 = auto_of a2" using run_tool_effect [OF tool] by (simp add: fun_eq_iff)
  ultimately show ?thesis
    using a2 run_tool_effect [OF tool] assms(2) by (auto simp: approved_gate_def)
qed

lemma process_approval_gate:
  assumes "process_approval E now msg tid request approved always a = (r, a')"
  shows "calm a a' \<or> (\<exists>t p. thread_of a (im_user_id msg) tid = Some t \<and> th_state t = AwaitingToolApproval \<and>
     th_pending_approval t = Some p \<and> approved \<and> (request = None \<or> request = Some (pa_request_id p)) \<and>
     approved_gate E (im_user_id msg) (pa_tool_name p) (pa_parameters p) always a a')"
proof (cases "thread_of a (im_user_id msg) tid")
  case (Some t)
  let ?a1 = "update_thread (im_user_id msg) tid (\<lambda>_. t\<lparr>th_pending_approval := None\<rparr>) a"
  have gate: "approved_gate E (im_user_id msg) (pa_tool_name p) (pa_parameters p) always a a'"
    if "continue_approved E now msg tid p always ?a1 = (r, a')" for p
  proof -
    have "session_of ?a1 (im_user_id msg) \<noteq> None" "session_of a (im_user_id msg) \<noteq> None"
      using Some by (auto simp: session_of_update thread_of_def split: bind_splits)
    moreover have "calm a ?a1" by simp
    ultimately show ?thesis
      using continue_approved_gate [OF that] by (auto simp: approved_gate_def calm_def fun_eq_iff)
  qed
  show ?thesis
    using assms gate Some
    by (auto simp: process_approval_def take_pending_approval_def Let_def split: if_splits option.splits)
qed (use assms in \<open>simp add: process_approval_def\<close>)

lemma resolve_calm: "resolve E now msg a = (tid, a') \<Longrightarrow> calm a a'"
  by (auto simp: resolve_def draw_uuid_def resolve_thread_def get_or_create_session_def Let_def calm_def
      auto_of_def session_of_def update_conv' create_thread_def new_session_def split: option.splits prod.splits if_splits)

lemma load_calm: "load_history tid a = (ms, b) \<Longrightarrow> calm a b" "load_response_id tid a = (x, b) \<Longrightarrow> calm a b"
  by (auto simp: load_history_def load_response_id_def split: option.splits prod.splits)

lemma load_sm: "load_history tid a = (ms, b) \<Longrightarrow> ag_sm b = ag_sm a" "load_response_id tid a = (x, b) \<Longrightarrow> ag_sm b = ag_sm a"
  by (auto simp: load_history_def load_response_id_def split: option.splits prod.splits)

text \<open>Hydration, as one write to the session after calm steps.\<close>

lemma hydrate_form:
  obtains (same) "maybe_hydrate_thread E now msg ext a = a"
  | (found) s a1 where "user_session E now (im_user_id msg) a = (s, a1)" "maybe_hydrate_thread E now msg ext a = a1"
  | (loaded) s a1 a3 tid t where "user_session E now (im_user_id msg) a = (s, a1)" "get_thread tid s = None"
      "ag_sm a3 = ag_sm a1" "calm a1 a3" "ag_llm_calls a3 = ag_llm_calls a1"
      "th_state t = Idle" "th_pending_approval t = None" "thread_inv t" 
      "maybe_hydrate_thread E now msg ext a =
         (let a4 = set_session (im_user_id msg) ((put_thread tid t s)\<lparr>ss_active_thread := Some tid, ss_last_active_at := now\<rparr>) a3
          in a4\<lparr>ag_sm := register_thread (ev_uuid_str E) (im_user_id msg) (im_channel msg) tid
                  ((put_thread tid t s)\<lparr>ss_active_thread := Some tid, ss_last_active_at := now\<rparr>) (ag_sm a4)\<rparr>)"
proof (cases "ev_parse_uuid E ext")
  case None
  then show ?thesis using same by (simp add: maybe_hydrate_thread_def)
next
  case (Some tid)
  obtain s a1 where us: "user_session E now (im_user_id msg) a = (s, a1)" by fastforce
  show ?thesis
  proof (cases "get_thread tid s")
    case None
    obtain ms a2 where lh: "load_history tid a1 = (ms, a2)" by fastforce
    obtain rid a3 where lr: "load_response_id tid a2 = (rid, a3)" by fastforce
    define t1 where "t1 = (if ms \<noteq> [] then restore_from_messages now ms (thread_with_id now tid (ss_id s))
      else thread_with_id now tid (ss_id s))"
    define t where "t = (case rid of Some r \<Rightarrow> t1\<lparr>th_last_response_id := Some r\<rparr> | None \<Rightarrow> t1)"
    have base: "thread_inv (thread_with_id now tid (ss_id s))"
      by (simp add: thread_inv_def thread_with_id_def)
    have "th_state t1 = Idle \<and> th_pending_approval t1 = None \<and> thread_inv t1"
      using base rebuild_turns_numbers [of now 0 ms]
      by (auto simp: t1_def restore_from_messages_def thread_with_id_def thread_inv_alt)
    then have t: "th_state t = Idle \<and> th_pending_approval t = None \<and> thread_inv t"
      by (auto simp: t_def thread_inv_alt split: option.split)
    have llm: "ag_llm_calls a3 = ag_llm_calls a1"
      using lh lr by (auto simp: load_history_def load_response_id_def split: option.splits prod.splits)
    have "maybe_hydrate_thread E now msg ext a =
         (let a4 = set_session (im_user_id msg) ((put_thread tid t s)\<lparr>ss_active_thread := Some tid, ss_last_active_at := now\<rparr>) a3
          in a4\<lparr>ag_sm := register_thread (ev_uuid_str E) (im_user_id msg) (im_channel msg) tid
                  ((put_thread tid t s)\<lparr>ss_active_thread := Some tid, ss_last_active_at := now\<rparr>) (ag_sm a4)\<rparr>)"
      by (cases rid) (simp_all add: maybe_hydrate_thread_def Some us None lh lr t1_def t_def Let_def)
    then show ?thesis
      using loaded [OF us None _ _ llm] t load_sm(1) [OF lh] load_sm(2) [OF lr] load_calm(1) [OF lh] load_calm(2) [OF lr]
      by (auto intro: calm_trans)
  next
    case (Some t)
    then show ?thesis using found us \<open>ev_parse_uuid E ext = Some tid\<close> by (simp add: maybe_hydrate_thread_def)
  qed
qed

lemma session_of_register [simp]:
  "session_of (a\<lparr>ag_sm := register_thread f user c tid s' (ag_sm a)\<rparr>) u =
    (if u = user \<and> session_of a user = None then Some s' else session_of a u)"
  by (auto simp: session_of_def register_thread_def update_conv')

lemma hydrate_calm: "calm a (maybe_hydrate_thread E now msg ext a)"
proof (cases E now msg ext a rule: hydrate_form)
  case (found s a1)
  then show ?thesis using user_session_facts(1) by simp
next
  case (loaded s a1 a3 tid t)
  let ?s = "(put_thread tid t s)\<lparr>ss_active_thread := Some tid, ss_last_active_at := now\<rparr>"
  have s3: "session_of a3 (im_user_id msg) = Some s"
    using user_session_facts(2) [OF loaded(1)] session_of_cong [OF loaded(3)] by simp
  then have "calm a3 (set_session (im_user_id msg) ?s a3)"
    by (rule calm_set_session) simp
  then have "calm a3 (maybe_hydrate_thread E now msg ext a)"
    using s3 by (simp add: loaded(9) Let_def calm_def auto_of_def)
  then show ?thesis
    using user_session_facts(1) [OF loaded(1)] loaded(4) by (blast intro: calm_trans)
qed simp

lemma process_others_calm:
  "process_undo E now user tid a = (r, a') \<Longrightarrow> calm a a'"
  "process_redo now user tid a = (r, a') \<Longrightarrow> calm a a'"
  "process_interrupt now user tid a = (r, a') \<Longrightarrow> calm a a'"
  "process_compact E now user tid a = (r, a') \<Longrightarrow> calm a a'"
  "process_clear user tid a = (r, a') \<Longrightarrow> calm a a'"
  "process_resume now user tid cid a = (r, a') \<Longrightarrow> calm a a'"
proof -
  assume "process_undo E now user tid a = (r, a')"
  then obtain u b where w: "with_undo tid a = (u, b)" and "calm b a'"
    by (auto simp: process_undo_def Let_def draw_uuid_def split: prod.splits if_splits option.splits)
  then show "calm a a'" using with_undo_calm [OF w] by (blast intro: calm_trans)
next
  assume "process_redo now user tid a = (r, a')"
  then show "calm a a'"
    by (auto simp: process_redo_def Let_def split: prod.splits if_splits option.splits dest!: with_undo_calm)
next
  assume "process_interrupt now user tid a = (r, a')"
  then show "calm a a'"
    by (auto simp: process_interrupt_def split: if_splits option.splits)
next
  assume "process_compact E now user tid a = (r, a')"
  then show "calm a a'"
    by (auto simp: process_compact_def Let_def split: prod.splits sum.splits option.splits dest!: compact_thread_calm)
next
  assume "process_clear user tid a = (r, a')"
  then show "calm a a'"
    by (auto simp: process_clear_def Let_def split: prod.splits option.splits dest!: with_undo_calm)
       (simp add: calm_def)
next
  assume "process_resume now user tid cid a = (r, a')"
  then show "calm a a'"
    by (auto simp: process_resume_def Let_def split: prod.splits option.splits dest!: with_undo_calm)
qed

lemma process_threads_calm:
  "process_new_thread E now user a = (r, a') \<Longrightarrow> calm a a'"
  "process_switch_thread E now user target a = (r, a') \<Longrightarrow> calm a a'"
proof -
  assume run: "process_new_thread E now user a = (r, a')"
  obtain s a1 where us: "user_session E now user a = (s, a1)" by fastforce
  obtain x a2 where d: "draw_uuid E a1 = (x, a2)" by fastforce
  have "session_of a2 user = Some s"
    using user_session_facts(2) [OF us] session_of_cong [OF conjunct1 [OF draw_uuidD [OF d]]] by simp
  then have "calm a2 a'"
    using run us d by (auto simp: process_new_thread_def create_thread_def intro!: calm_set_session)
  then show "calm a a'"
    using user_session_facts(1) [OF us] draw_uuid_calm [OF d] by (blast intro: calm_trans)
next
  assume run: "process_switch_thread E now user target a = (r, a')"
  obtain s a1 where us: "user_session E now user a = (s, a1)" by fastforce
  have "calm a1 a'"
    using run us user_session_facts(2) [OF us]
    by (auto simp: process_switch_thread_def switch_thread_def Let_def intro!: calm_set_session split: if_splits)
  then show "calm a a'"
    using user_session_facts(1) [OF us] by (blast intro: calm_trans)
qed

lemma process_submission_gate:
  assumes "process_submission E now msg tid s a = (r, a')"
  shows "gated E (im_user_id msg) a a' \<or> (\<exists>t p always. thread_of a (im_user_id msg) tid = Some t \<and>
     th_state t = AwaitingToolApproval \<and> th_pending_approval t = Some p \<and>
     s \<in> {ApprovalResponse True always, ExecApproval (pa_request_id p) True always} \<and>
     approved_gate E (im_user_id msg) (pa_tool_name p) (pa_parameters p) always a a')"
  using assms
proof (cases s)
  case (ExecApproval req approved always)
  then show ?thesis
    using assms by (auto simp: process_submission_def dest!: process_approval_gate intro: gated_calm)
next
  case (ApprovalResponse approved always)
  then show ?thesis
    using assms by (auto simp: process_submission_def dest!: process_approval_gate intro: gated_calm)
next
  case (UserInput content)
  then show ?thesis using assms by (auto simp: process_submission_def intro: process_user_input_gated)
qed (auto simp: process_submission_def process_summarize_def process_suggest_def intro!: gated_calm
      intro: process_others_calm process_threads_calm ask_about_thread_calm)

subsection \<open>Threads that are made while a message is received\<close>

definition fresh_thread :: "thread \<Rightarrow> bool" where
  "fresh_thread t \<longleftrightarrow> th_state t = Idle \<and> th_pending_approval t = None \<and> thread_inv t"

definition adds_fresh :: "agent \<Rightarrow> agent \<Rightarrow> bool" where
  "adds_fresh a a' \<longleftrightarrow> (\<forall>u j t. thread_of a' u j = Some t \<longrightarrow> thread_of a u j = Some t \<or> fresh_thread t)"

lemma adds_fresh_trans: "adds_fresh a b \<Longrightarrow> adds_fresh b c \<Longrightarrow> adds_fresh a c"
  unfolding adds_fresh_def by blast

lemma thread_of_cong: "ag_sm b = ag_sm a \<Longrightarrow> thread_of b = thread_of a"
  by (simp add: thread_of_def session_of_def fun_eq_iff)

lemma adds_fresh_same: "ag_sm b = ag_sm a \<Longrightarrow> adds_fresh a b"
  using thread_of_cong [of b a] by (simp add: adds_fresh_def)

lemma thread_of_set_session:
  "thread_of (set_session user s a) u j = (if u = user then get_thread j s else thread_of a u j)"
  by (simp add: thread_of_def)

lemma thread_of_register: "session_of a user \<noteq> None \<Longrightarrow>
    thread_of (a\<lparr>ag_sm := register_thread f user c tid s' (ag_sm a)\<rparr>) = thread_of a"
  by (auto simp: thread_of_def fun_eq_iff)

lemma get_new_session [simp]: "get_thread j (new_session i now user) = None"
  by (simp add: get_thread_def new_session_def)

lemma get_thread_fields [simp]: "get_thread j (s\<lparr>ss_active_thread := x\<rparr>) = get_thread j s"
  "get_thread j (s\<lparr>ss_last_active_at := y\<rparr>) = get_thread j s"
  "get_thread j (s\<lparr>ss_auto_approved := z\<rparr>) = get_thread j s"
  by (simp_all add: get_thread_def)

lemma fresh_new_thread [simp]: "fresh_thread (new_thread i now sid)"
  by (simp add: fresh_thread_def new_thread_def thread_with_id_def thread_inv_def)

lemma user_session_threads:
  assumes "user_session E now user a = (s, a')"
  shows "thread_of a' u j = thread_of a u j" "get_thread j s = thread_of a user j"
  using user_session_facts [OF assms] by (cases "u = user"; auto simp: thread_of_def)+

lemma hydrate_adds_fresh: "adds_fresh a (maybe_hydrate_thread E now msg ext a)"
proof (cases E now msg ext a rule: hydrate_form)
  case (found s a1)
  then show ?thesis using user_session_threads(1) by (auto simp: adds_fresh_def)
next
  case (loaded s a1 a3 tid t)
  have s3: "session_of a3 (im_user_id msg) = Some s"
    using user_session_facts(2) [OF loaded(1)] session_of_cong [OF loaded(3)] by simp
  have "thread_of (maybe_hydrate_thread E now msg ext a) u j =
      (if u = im_user_id msg \<and> j = tid then Some t else thread_of a u j)" for u j
    using user_session_threads [OF loaded(1)] s3 thread_of_cong [OF loaded(3)]
    by (auto simp: loaded(9) Let_def thread_of_register thread_of_set_session)
  then show ?thesis using loaded(6-8) by (auto simp: adds_fresh_def fresh_thread_def)
qed (simp add: adds_fresh_def)

lemma get_create_thread: "get_thread j (create_thread i now s) =
    (if j = i then Some (new_thread i now (ss_id s)) else get_thread j s)"
  by (simp add: create_thread_def)

lemma resolve_adds_fresh: "resolve E now msg a = (tid, a') \<Longrightarrow> adds_fresh a a'"
  by (auto simp: resolve_def draw_uuid_def resolve_thread_def get_or_create_session_def Let_def adds_fresh_def
      thread_of_def session_of_def update_conv' get_create_thread split: option.splits prod.splits if_splits)

lemma handle_message_form:
  assumes "handle_message E now msg a = (r, a')"
  obtains tid r1 b c where "calm a b" "adds_fresh a b" 
    "process_submission E now msg tid (parse_submission (ev_parse_uuid E) (ev_from_json E) (im_content msg)) b = (r1, c)"
    "ag_sm a' = ag_sm c" "ag_executed a' = ag_executed c" "ag_llm_calls a' = ag_llm_calls c" "(r = None) = (r1 = None)"
proof -
  define a1 where "a1 = (case im_thread_id msg of Some ext \<Rightarrow> maybe_hydrate_thread E now msg ext a | None \<Rightarrow> a)"
  obtain tid b where res: "resolve E now msg a1 = (tid, b)" by fastforce
  have "calm a b"
    using calm_trans [OF hydrate_calm resolve_calm] res resolve_calm [OF res]
    by (cases "im_thread_id msg") (simp_all add: a1_def)
  moreover have "adds_fresh a a1"
    using hydrate_adds_fresh by (auto simp: a1_def adds_fresh_same split: option.split)
  then have "adds_fresh a b" using resolve_adds_fresh [OF res] adds_fresh_trans by blast
  moreover obtain r1 c where sub: "process_submission E now msg tid
      (parse_submission (ev_parse_uuid E) (ev_from_json E) (im_content msg)) b = (r1, c)" by fastforce
  moreover have "ag_sm a' = ag_sm c \<and> ag_executed a' = ag_executed c \<and> ag_llm_calls a' = ag_llm_calls c \<and>
      (r = None) = (r1 = None)"
    using assms res sub
    by (auto simp: handle_message_def a1_def [symmetric] Let_def send_status_def
        split: option.splits sum.splits submission_result.splits)
  ultimately show thesis using that by blast
qed

subsection \<open>Properties\<close>

text \<open>C1: A tool runs only with leave. Whatever the user writes and whatever the model answers, handling a
  message executes only calls that ask for no approval or that the user approved for the session
  (and no destructive shell command even then); the one exception is the call that was shown to
  the user, executed with the shown parameters, when the thread awaits that approval and this
  message approves it. The list of approved tools grows only by the tool of an ``always''.\<close>

theorem tool_gate:
  "let (r, a') = handle_message E now msg a; user = im_user_id msg
   in (\<exists>new. ag_executed a' = ag_executed a @ new \<and> auto_of a' = auto_of a \<and>
         list_all (\<lambda>(n, p). free_call E (auto_of a user) n p) new) \<or>
      (\<exists>name params always. approves E msg a name params always \<and>
         approved_gate E user name params always a a')"
proof -
  obtain r a' where run: "handle_message E now msg a = (r, a')" by fastforce
  let ?user = "im_user_id msg"
  obtain tid r1 b c where calm: "calm a b" and fresh: "adds_fresh a b"
    and sub: "process_submission E now msg tid (parse_submission (ev_parse_uuid E) (ev_from_json E) (im_content msg)) b = (r1, c)"
    and c: "ag_sm a' = ag_sm c" "ag_executed a' = ag_executed c"
    using handle_message_form [OF run] by metis
  have auto: "auto_of a' = auto_of c" using c(1) by (rule auto_of_cong)
  have b: "ag_executed b = ag_executed a" "auto_of b = auto_of a" using calm by (auto simp: calm_def)
  have old: "thread_of a ?user tid = Some t"
    if "thread_of b ?user tid = Some t" "th_state t = AwaitingToolApproval" for t
  proof -
    have "thread_of a ?user tid = Some t \<or> fresh_thread t"
      using fresh that(1) by (auto simp: adds_fresh_def)
    then show ?thesis using that(2) by (auto simp: fresh_thread_def)
  qed
  show ?thesis
    using process_submission_gate [OF sub]
  proof (elim disjE exE conjE)
    assume "gated E ?user b c"
    then show ?thesis using b auto c by (auto simp: run gated_def ran_def list_all_iff)
  next
    fix t p always
    assume p: "thread_of b ?user tid = Some t" "th_state t = AwaitingToolApproval"
      "th_pending_approval t = Some p"
      "parse_submission (ev_parse_uuid E) (ev_from_json E) (im_content msg)
          \<in> {ApprovalResponse True always, ExecApproval (pa_request_id p) True always}"
      "approved_gate E ?user (pa_tool_name p) (pa_parameters p) always b c"
    have "approves E msg a (pa_tool_name p) (pa_parameters p) always"
      using old [OF p(1,2)] p(2-4) unfolding approves_def by blast
    moreover have "approved_gate E ?user (pa_tool_name p) (pa_parameters p) always a a'"
      using p(5) unfolding approved_gate_def b auto c(2) .
    ultimately show ?thesis unfolding run Let_def by simp blast
  qed
qed

subsection \<open>The threads between two messages\<close>

definition thread_ok :: "thread \<Rightarrow> bool" where
  "thread_ok t \<longleftrightarrow> thread_inv t \<and> th_state t \<noteq> Processing \<and> th_state t \<noteq> ThreadCompleted \<and>
     (th_state t = AwaitingToolApproval \<longrightarrow> th_pending_approval t \<noteq> None)"

definition ok_but :: "string \<Rightarrow> uuid \<Rightarrow> agent \<Rightarrow> bool" where
  "ok_but user tid a \<longleftrightarrow> (\<forall>u j t. u \<noteq> user \<or> j \<noteq> tid \<longrightarrow> thread_of a u j = Some t \<longrightarrow> thread_ok t)"

definition agent_ok :: "agent \<Rightarrow> bool" where
  "agent_ok a \<longleftrightarrow> (\<forall>u j t. thread_of a u j = Some t \<longrightarrow> thread_ok t)"

lemma agent_ok_split: "agent_ok a \<longleftrightarrow> ok_but user tid a \<and> (\<forall>t. thread_of a user tid = Some t \<longrightarrow> thread_ok t)"
  unfolding agent_ok_def ok_but_def by metis

lemma thread_of_update: "thread_of (update_thread user tid f a) u j =
    (if u = user \<and> j = tid then map_option f (thread_of a user tid) else thread_of a u j)"
  by (cases "session_of a user") (auto simp: thread_of_def session_of_update split: option.split)

lemma thread_of_simps [simp]:
  "thread_of (send_status c st a) = thread_of a" "thread_of (spawn x a) = thread_of a"
  "thread_of (set_undo i u a) = thread_of a" "thread_of (persist_turn i us inp r a) = thread_of a"
  "thread_of (a\<lparr>ag_workspace := w\<rparr>) = thread_of a" "thread_of (a\<lparr>ag_llm_calls := n\<rparr>) = thread_of a"
  "thread_of (a\<lparr>ag_uuids := n\<rparr>) = thread_of a"
  by (simp_all add: thread_of_def session_of_def send_status_def spawn_def set_undo_def persist_turn_def fun_eq_iff)

lemma ok_but_cong: "(\<And>u j. u \<noteq> user \<or> j \<noteq> tid \<Longrightarrow> thread_of b u j = thread_of a u j) \<Longrightarrow> ok_but user tid a \<Longrightarrow> ok_but user tid b"
  by (auto simp: ok_but_def)

lemma ok_but_update [simp]: "ok_but user tid (update_thread user tid f a) = ok_but user tid a"
  by (simp add: ok_but_def thread_of_update)

lemma agent_ok_update:
  assumes "ok_but user tid a" and "\<And>t. thread_of a user tid = Some t \<Longrightarrow> thread_ok (f t)"
  shows "agent_ok (update_thread user tid f a)"
  using assms unfolding agent_ok_split [of _ user tid] by (auto simp: thread_of_update)

lemma agent_ok_same: "thread_of b = thread_of a \<Longrightarrow> agent_ok a \<Longrightarrow> agent_ok b"
  by (simp add: agent_ok_def)

lemma loop_rel_threads:
  assumes "loop_rel E user tid a a'"
  shows "u \<noteq> user \<or> j \<noteq> tid \<Longrightarrow> thread_of a' u j = thread_of a u j"
    and "rel_option thread_rel (thread_of a user tid) (thread_of a' user tid)"
proof -
  have other: "\<forall>u. u \<noteq> user \<longrightarrow> session_of a' u = session_of a u"
    and own: "rel_option (session_rel tid) (session_of a user) (session_of a' user)"
    using assms by (simp_all add: loop_rel_def)
  from own show "u \<noteq> user \<or> j \<noteq> tid \<Longrightarrow> thread_of a' u j = thread_of a u j"
    by (cases "u = user") (auto simp: thread_of_def other session_rel_def elim: option.rel_cases)
  from own show "rel_option thread_rel (thread_of a user tid) (thread_of a' user tid)"
    by (auto simp: thread_of_def session_rel_def elim: option.rel_cases)
qed

lemma turn_rel_ok: "turn_ok (u\<lparr>tn_tool_calls := cs\<rparr>) = turn_ok u"
  by (simp add: turn_ok_def)

lemma thread_rel_inv: "thread_rel t t' \<Longrightarrow> thread_inv t' = thread_inv t"
proof -
  have "list_all2 (\<lambda>u v. \<exists>cs. v = u\<lparr>tn_tool_calls := cs\<rparr>) us vs \<Longrightarrow>
      map tn_number vs = map tn_number us \<and> length vs = length us \<and> list_all turn_ok vs = list_all turn_ok us"
    for us vs :: "turn list"
    by (induction rule: list_all2_induct) (auto simp: turn_rel_ok)
  then show "thread_rel t t' \<Longrightarrow> thread_inv t' = thread_inv t"
    by (auto simp: thread_rel_def thread_inv_alt)
qed

lemma fresh_thread_ok: "fresh_thread t \<Longrightarrow> thread_ok t"
  by (simp add: fresh_thread_def thread_ok_def)

lemma adds_fresh_ok: "adds_fresh a b \<Longrightarrow> agent_ok a \<Longrightarrow> agent_ok b"
  unfolding adds_fresh_def agent_ok_def using fresh_thread_ok by blast

lemma thread_ok_ops:
  assumes "thread_inv t"
  shows "thread_ok (complete_turn now r t)" "thread_ok (fail_turn now e t)" "thread_ok (interrupt now t)"
    "thread_ok (restore_from_messages now ms t)" "thread_ok (await_approval now p t)"
    "thread_ok (clear_pending_approval now t)"
  using thread_inv_ops [OF assms]
  by (auto simp: thread_ok_def complete_turn_def fail_turn_def interrupt_def restore_from_messages_def
      await_approval_def clear_pending_approval_def)

lemma agent_ok_butD: "agent_ok a \<Longrightarrow> ok_but user tid a"
  by (auto simp: agent_ok_def ok_but_def)

lemma with_undo_threads: "with_undo tid a = (u, b) \<Longrightarrow> thread_of b = thread_of a"
  by (auto simp: with_undo_def get_undo_manager_def thread_of_def session_of_def fun_eq_iff split: option.splits)

lemma draw_uuid_threads: "draw_uuid E a = (x, b) \<Longrightarrow> thread_of b = thread_of a"
  by (auto simp: draw_uuid_def)

lemma checkpoint_threads [simp]: "thread_of (checkpoint_before_turn E tid t a) = thread_of a"
  by (auto simp: checkpoint_before_turn_def get_undo_manager_def draw_uuid_def thread_of_def session_of_def
      set_undo_def Let_def fun_eq_iff split: option.split)

lemma agent_ok_inv: "agent_ok a \<Longrightarrow> thread_of a user tid = Some t \<Longrightarrow> thread_inv t"
  by (auto simp: agent_ok_def thread_ok_def)

text \<open>The commands that restore a checkpoint.\<close>

lemma restore_ok:
  assumes "agent_ok a" "thread_of b = thread_of a"
  shows "agent_ok (update_thread user tid (restore_from_messages now ms) b)"
  using assms agent_ok_inv [OF assms(1), of user tid] thread_ok_ops(4)
  by (intro agent_ok_update agent_ok_butD) (auto simp: agent_ok_def)

lemma process_restore_ok:
  assumes "agent_ok a"
  shows "process_undo E now user tid a = (r, a') \<Longrightarrow> agent_ok a'"
    "process_redo now user tid a = (r, a') \<Longrightarrow> agent_ok a'"
    "process_resume now user tid cid a = (r, a') \<Longrightarrow> agent_ok a'"
proof -
  obtain u b where w: "with_undo tid a = (u, b)" by fastforce
  note eq = with_undo_threads [OF w]
  obtain x c where d: "draw_uuid E b = (x, c)" by fastforce
  have eq2: "thread_of c = thread_of a" using draw_uuid_threads [OF d] eq by simp
  show "process_undo E now user tid a = (r, a') \<Longrightarrow> agent_ok a'"
    using assms eq eq2
    by (auto simp: process_undo_def w d Let_def intro: restore_ok agent_ok_same [of _ a]
        split: if_splits option.splits prod.splits)
  show "process_redo now user tid a = (r, a') \<Longrightarrow> agent_ok a'"
    using assms eq
    by (auto simp: process_redo_def w Let_def intro: restore_ok agent_ok_same [of _ a]
        split: if_splits option.splits prod.splits)
  show "process_resume now user tid cid a = (r, a') \<Longrightarrow> agent_ok a'"
    using assms eq
    by (auto simp: process_resume_def w Let_def intro: restore_ok agent_ok_same [of _ a]
        split: if_splits option.splits prod.splits)
qed

lemma process_interrupt_ok:
  "agent_ok a \<Longrightarrow> process_interrupt now user tid a = (r, a') \<Longrightarrow> agent_ok a'"
  using agent_ok_inv [of a user tid] thread_ok_ops(3)
  by (auto simp: process_interrupt_def intro!: agent_ok_update agent_ok_butD split: if_splits option.splits)

lemma process_clear_ok:
  assumes "agent_ok a" "process_clear user tid a = (r, a')"
  shows "agent_ok a'"
proof (cases "thread_of a user tid")
  case (Some t)
  let ?a1 = "update_thread user tid (\<lambda>t. t\<lparr>th_turns := [], th_state := Idle\<rparr>) a"
  have ok: "agent_ok ?a1"
    using assms(1) by (intro agent_ok_update agent_ok_butD) (auto simp: thread_ok_def thread_inv_def)
  obtain u b where w: "with_undo tid ?a1 = (u, b)" by fastforce
  show ?thesis
    using assms(2) with_undo_threads [OF w] ok
    by (auto simp: process_clear_def Some w Let_def intro: agent_ok_same)
qed (use assms in \<open>simp add: process_clear_def\<close>)

lemma compact_form: "compact fd ft llm n now strategy t ws = (Inr (r, t'), ws') \<Longrightarrow> \<exists>k. t' = t \<or> t' = truncate_turns k t"
  by (auto simp: compact_def compact_with_summary_def compact_to_workspace_def compact_truncate_eq Let_def
      split: compaction_strategy.splits if_splits sum.splits prod.splits option.splits)

lemma thread_ok_truncate: "thread_ok t \<Longrightarrow> thread_ok (truncate_turns k t)"
  using thread_inv_ops(6) [of t k] by (auto simp: thread_ok_def truncate_turns_def split: if_splits)

lemma compact_thread_ok:
  assumes "agent_ok a" "thread_of a user tid = Some t" "compact_thread E now user tid strategy t a = (r, a')"
  shows "agent_ok a'" "ag_llm_calls a' = Suc (ag_llm_calls a)"
proof -
  obtain rr ws where c: "compact (ev_fmt_date E) (ev_fmt_time E) (ev_llm E) (ag_llm_calls a) now strategy t (ag_workspace a) = (rr, ws)"
    by fastforce
  have t: "thread_ok t" using assms(1,2) by (auto simp: agent_ok_def)
  show "agent_ok a'"
  proof (cases rr)
    case (Inl e)
    then show ?thesis
      using assms(1,3) c by (auto simp: compact_thread_def Let_def intro: agent_ok_same)
  next
    case (Inr p)
    obtain res t1 where p: "p = (res, t1)" by fastforce
    have "thread_ok t1"
      using compact_form c t thread_ok_truncate [OF t] unfolding Inr p by blast
    then show ?thesis
      using assms(3) c agent_ok_butD [OF assms(1), of user tid]
      by (auto simp: compact_thread_def Inr p Let_def ok_but_def intro!: agent_ok_update)
  qed
  show "ag_llm_calls a' = Suc (ag_llm_calls a)"
    using assms(3) c
    by (auto simp: compact_thread_def update_thread_def set_session_def Let_def split: sum.splits prod.splits option.splits)
qed

lemma user_session_ok: "user_session E now user a = (s, b) \<Longrightarrow> agent_ok a \<Longrightarrow> agent_ok b"
  using user_session_threads(1) [of E now user a s b] by (auto simp: agent_ok_def)

lemma process_threads_ok:
  assumes "agent_ok a"
  shows "process_new_thread E now user a = (r, a') \<Longrightarrow> agent_ok a'"
    "process_switch_thread E now user target a = (r, a') \<Longrightarrow> agent_ok a'"
proof -
  obtain s b where us: "user_session E now user a = (s, b)" by fastforce
  note threads = user_session_threads [OF us]
  show "process_new_thread E now user a = (r, a') \<Longrightarrow> agent_ok a'"
    using assms us threads fresh_thread_ok [OF fresh_new_thread]
    by (auto simp: process_new_thread_def draw_uuid_def agent_ok_def thread_of_set_session get_create_thread
        split: if_splits)
  show "process_switch_thread E now user target a = (r, a') \<Longrightarrow> agent_ok a'"
    using assms us threads
    by (auto simp: process_switch_thread_def switch_thread_def agent_ok_def thread_of_set_session Let_def
        split: if_splits)
qed

lemma process_compact_ok: "agent_ok a \<Longrightarrow> process_compact E now user tid a = (r, a') \<Longrightarrow> agent_ok a'"
  using compact_thread_ok(1)
  by (auto simp: process_compact_def Let_def split: option.splits sum.splits prod.splits)

lemma ask_about_thread_threads: "ask_about_thread E user tid x1 x2 x3 x4 x5 x6 a = (r, a') \<Longrightarrow> thread_of a' = thread_of a"
  by (auto simp: ask_about_thread_def Let_def split: option.splits if_splits sum.splits)

text \<open>The turn of a message: before the loop the thread is processing, after it finished or waiting.\<close>

lemma finalize_ok:
  assumes "finalize_loop_result E now msg tid out p a = (r, a')" and "r \<noteq> None"
    and "ok_but (im_user_id msg) tid a"
    and "\<And>t. thread_of a (im_user_id msg) tid = Some t \<Longrightarrow> thread_inv t"
  shows "agent_ok a'"
proof -
  have ok: "agent_ok (update_thread (im_user_id msg) tid f a)"
    if "\<And>t. thread_inv t \<Longrightarrow> thread_ok (f t)" for f
    using assms(3,4) that by (intro agent_ok_update) auto
  have chain: "persist_response_chain E t = t" for t
    by (simp add: persist_response_chain_def get_response_chain_id_def)
  show ?thesis
    using assms(1,2) ok [OF thread_ok_ops(1)] ok [OF thread_ok_ops(2)] ok [OF thread_ok_ops(5)]
    by (cases out)
      (auto simp: finalize_loop_result_def Let_def chain comp_def agent_ok_def split: option.splits)
qed

lemma loop_keeps:
  assumes "loop_rel E user tid a a'" and "ok_but user tid a"
    and "\<And>t. thread_of a user tid = Some t \<Longrightarrow> thread_inv t"
  shows "ok_but user tid a'" and "thread_of a' user tid = Some t' \<Longrightarrow> thread_inv t'"
proof -
  show "ok_but user tid a'"
    by (rule ok_but_cong [OF loop_rel_threads(1) [OF assms(1)] assms(2)])
  show "thread_of a' user tid = Some t' \<Longrightarrow> thread_inv t'"
    using loop_rel_threads(2) [OF assms(1)] assms(3) thread_rel_inv by (auto elim!: option.rel_cases)
qed

lemma auto_compact_ok:
  assumes "agent_ok a" "thread_of a (im_user_id msg) tid = Some t"
  shows "agent_ok (auto_compact E now msg tid t a)"
proof (cases "suggest_compaction (ev_monitor E) (messages t)")
  case (Some strategy)
  have "agent_ok (snd (compact_thread E now (im_user_id msg) tid strategy t (send_status c st a)))" for c st
    by (rule compact_thread_ok(1) [OF _ _ prod.collapse [symmetric]]) (simp_all add: assms agent_ok_same [OF _ assms(1)])
  then show ?thesis by (simp only: auto_compact_def Some option.case)
qed (simp add: auto_compact_def assms)

lemma run_turn_ok:
  assumes "agent_ok a" "run_turn E now msg tid content a = (r, a')" "r \<noteq> None"
  shows "agent_ok a'"
proof (cases "thread_of a (im_user_id msg) tid")
  case (Some t)
  let ?user = "im_user_id msg"
  define a3 where "a3 = send_status (im_channel msg) (Thinking ''Processing...'')
      (update_thread ?user tid (start_turn now content) (checkpoint_before_turn E tid t a))"
  define ms where "ms = with_config_prompt E (messages (start_turn now content t))"
  obtain out a4 where loop: "run_agentic_loop E now msg tid ms False a3 = (out, a4)" by fastforce
  note rel = run_agentic_loop_rel [OF loop]
  have t3: "thread_of a3 ?user tid = Some (start_turn now content t)"
    by (simp add: a3_def thread_of_update Some)
  have inv3: "thread_inv (start_turn now content t)"
    using agent_ok_inv [OF assms(1) Some] by (rule thread_inv_ops)
  have ok3: "ok_but ?user tid a3"
    using agent_ok_butD [OF assms(1)] by (auto simp: a3_def ok_but_def thread_of_update)
  have inv3': "\<And>t. thread_of a3 ?user tid = Some t \<Longrightarrow> thread_inv t" using t3 inv3 by simp
  note keep = loop_keeps [OF rel ok3 inv3']
  obtain t4 where t4: "thread_of a4 ?user tid = Some t4" and "thread_rel (start_turn now content t) t4"
    using loop_rel_threads(2) [OF rel] t3 by (auto elim: option.rel_cases)
  then have "th_state t4 = Processing" using thread_rel_fields by (fastforce simp: start_turn_def)
  then have "finalize_loop_result E now msg tid out (Some (?user, content)) a4 = (r, a')"
    using assms(2,3) loop t4
    by (auto simp: run_turn_def Some a3_def [symmetric] ms_def [symmetric] Let_def split: if_splits)
  then show ?thesis using assms(3) keep by (rule finalize_ok)
qed (use assms in \<open>simp add: run_turn_def\<close>)

lemma process_user_input_ok:
  assumes "agent_ok a" "process_user_input E now msg tid content a = (r, a')" "r \<noteq> None"
  shows "agent_ok a'"
proof -
  have turn: "agent_ok a'"
    if "run_turn E now msg tid content (auto_compact E now msg tid t b) = (r, a')"
      "thread_of b = thread_of a" "thread_of a (im_user_id msg) tid = Some t" for t b
    using run_turn_ok [OF auto_compact_ok that(1) assms(3)] agent_ok_same [OF that(2) assms(1)] that(2,3) by simp
  show ?thesis
    using assms turn
    by (auto simp: process_user_input_def Let_def split: option.splits thread_state.splits if_splits)
qed

lemma run_tool_threads:
  assumes "run_tool E msg tid name params a = (r, a')"
  shows "u \<noteq> im_user_id msg \<or> j \<noteq> tid \<Longrightarrow> thread_of a' u j = thread_of a u j"
    and "rel_option thread_rel (thread_of a (im_user_id msg) tid) (thread_of a' (im_user_id msg) tid)"
proof -
  let ?a1 = "send_status (im_channel msg) (ToolStarted name) a"
  obtain a2 where ex: "execute_chat_tool E name params ?a1 = (r, a2)"
    using assms(1) by (auto simp: run_tool_def Let_def split: prod.splits)
  obtain b where b: "a' = update_thread (im_user_id msg) tid (on_last_turn (record_outcome r E)) b" "ag_sm b = ag_sm a2"
    using assms ex by (auto simp: run_tool_def Let_def split: prod.splits sum.splits if_splits)
  have "ag_sm b = ag_sm a" using b(2) execute_tool_effect [OF ex] by simp
  note eq = thread_of_cong [OF this]
  show "u \<noteq> im_user_id msg \<or> j \<noteq> tid \<Longrightarrow> thread_of a' u j = thread_of a u j"
    by (auto simp: b(1) thread_of_update eq)
  have "thread_rel t (on_last_turn (record_outcome r E) t)" for t
    by (intro thread_rel_on_last_turn record_outcome_form)
  then show "rel_option thread_rel (thread_of a (im_user_id msg) tid) (thread_of a' (im_user_id msg) tid)"
    by (cases "thread_of a (im_user_id msg) tid") (simp_all add: b(1) thread_of_update eq)
qed

lemma continue_approved_ok:
  assumes "ok_but (im_user_id msg) tid a" and "\<And>t. thread_of a (im_user_id msg) tid = Some t \<Longrightarrow> thread_inv t"
    and "thread_of a (im_user_id msg) tid \<noteq> None"
    and "continue_approved E now msg tid p always a = (r, a')" and "r \<noteq> None"
  shows "agent_ok a'"
proof -
  let ?user = "im_user_id msg"
  define a1 where "a1 = (if always then (case session_of a ?user of
                  Some s \<Rightarrow> set_session ?user (auto_approve_tool (pa_tool_name p) s) a | None \<Rightarrow> a) else a)"
  define a2 where "a2 = update_thread ?user tid (set_state Processing) a1"
  obtain r1 a3 where tool: "run_tool E msg tid (pa_tool_name p) (pa_parameters p) a2 = (r1, a3)" by fastforce
  define ms where "ms = pa_context_messages p @
                 [tool_result (pa_tool_call_id p) (pa_tool_name p) (result_content E (pa_tool_name p) r1)]"
  obtain out a4 where loop: "run_agentic_loop E now msg tid ms True a3 = (out, a4)" by fastforce
  have th1: "thread_of a1 = thread_of a"
    by (auto simp: a1_def thread_of_def fun_eq_iff auto_approve_tool_def split: option.split)
  have ok2: "ok_but ?user tid a2" using assms(1) by (simp add: a2_def ok_but_def thread_of_update th1)
  have inv2: "thread_inv t" if "thread_of a2 ?user tid = Some t" for t
    using that assms(2) by (auto simp: a2_def thread_of_update th1 set_state_def thread_inv_alt)
  have ok3: "ok_but ?user tid a3"
    by (rule ok_but_cong [OF run_tool_threads(1) [OF tool] ok2])
  have inv3: "thread_inv t" if "thread_of a3 ?user tid = Some t" for t
    using run_tool_threads(2) [OF tool] that inv2 thread_rel_inv by (auto elim!: option.rel_cases)
  note keep = loop_keeps [OF run_agentic_loop_rel [OF loop] ok3 inv3]
  have "thread_of a4 ?user tid \<noteq> None"
    using loop_rel_threads(2) [OF run_agentic_loop_rel [OF loop]] run_tool_threads(2) [OF tool] assms(3)
    by (auto simp: a2_def thread_of_update th1 elim: option.rel_cases)
  then have "finalize_loop_result E now msg tid out None a4 = (r, a')"
    using assms(4,5) loop tool
    by (auto simp: continue_approved_def a1_def [symmetric] a2_def [symmetric] ms_def [symmetric] Let_def
        split: option.splits)
  then show ?thesis using assms(5) keep by (rule finalize_ok)
qed

lemma process_approval_ok:
  assumes "agent_ok a" "process_approval E now msg tid request approved always a = (r, a')" "r \<noteq> None"
  shows "agent_ok a'"
proof (cases "thread_of a (im_user_id msg) tid")
  case (Some t)
  let ?user = "im_user_id msg"
  let ?t1 = "t\<lparr>th_pending_approval := None\<rparr>"
  let ?a1 = "update_thread ?user tid (\<lambda>_. ?t1) a"
  have t: "thread_ok t" and but: "ok_but ?user tid ?a1"
    using assms(1) Some agent_ok_butD [OF assms(1)] by (auto simp: agent_ok_def)
  have inv1: "thread_inv ?t1" using t by (intro thread_inv_ops) (simp add: thread_ok_def)
  have th1: "thread_of ?a1 ?user tid = Some ?t1" by (simp add: thread_of_update Some)
  have again: "agent_ok (update_thread ?user tid (await_approval now p) ?a1)"
      "agent_ok (update_thread ?user tid (clear_pending_approval now) ?a1)" for p
    using but th1 thread_ok_ops(5,6) [OF inv1] by (auto intro!: agent_ok_update)
  have continue: "agent_ok a'" if "continue_approved E now msg tid p always ?a1 = (r, a')" for p
    by (rule continue_approved_ok [OF but _ _ that assms(3)]) (use th1 inv1 in auto)
  show ?thesis
    using assms Some again continue t
    by (auto simp: process_approval_def take_pending_approval_def thread_ok_def Let_def
        intro: agent_ok_same split: if_splits option.splits)
qed (use assms in \<open>simp add: process_approval_def\<close>)

lemma process_submission_ok:
  assumes "agent_ok a" "process_submission E now msg tid s a = (r, a')" "r \<noteq> None"
  shows "agent_ok a'"
proof -
  have ask: "agent_ok a'" if "ask_about_thread E user tid x1 x2 x3 x4 x5 x6 a = (r, a')" for user x1 x2 x3 x4 x5 x6
    using ask_about_thread_threads [OF that] assms(1) by (rule agent_ok_same)
  show ?thesis
    using assms ask
    by (cases s)
      (auto simp: process_submission_def process_summarize_def process_suggest_def
        dest: process_approval_ok [OF assms(1)] process_user_input_ok [OF assms(1)] process_restore_ok [OF assms(1)]
          process_threads_ok [OF assms(1)] process_interrupt_ok [OF assms(1)] process_clear_ok [OF assms(1)]
          process_compact_ok [OF assms(1)])
qed

lemma handle_message_ok:
  assumes "agent_ok a" "handle_message E now msg a = (r, a')" "r \<noteq> None"
  shows "agent_ok a'"
proof -
  obtain tid r1 b c where fresh: "adds_fresh a b"
    and sub: "process_submission E now msg tid (parse_submission (ev_parse_uuid E) (ev_from_json E) (im_content msg)) b = (r1, c)"
    and c: "ag_sm a' = ag_sm c" "(r = None) = (r1 = None)"
    using handle_message_form [OF assms(2)] by metis
  have "agent_ok c"
    using process_submission_ok [OF adds_fresh_ok [OF fresh assms(1)] sub] assms(3) c(2) by simp
  then show ?thesis using thread_of_cong [OF c(1)] by (rule agent_ok_same [rotated])
qed

subsection \<open>Runs of an agent\<close>

datatype agent_event = Handled datetime incoming_message | Pruned datetime "string list"

definition agent_init :: "agent \<Rightarrow> bool" where
  "agent_init a \<longleftrightarrow> ag_sm a = new_session_manager \<and> ag_executed a = []"

text \<open>Between two messages the pruning task may run; the listed sessions are locked then.\<close>

inductive agent_step :: "env \<Rightarrow> int \<Rightarrow> agent \<Rightarrow> agent_event \<Rightarrow> agent \<Rightarrow> bool" for E idle where
  step_message: "handle_message E now msg a = (Some r, a') \<Longrightarrow> agent_step E idle a (Handled now msg) a'"
| step_prune: "agent_step E idle a (Pruned now locked)
     (a\<lparr>ag_sm := snd (prune_stale_sessions (\<lambda>u. u \<in> set locked) now idle (ag_sm a))\<rparr>)"

lemma map_of_filter_key: "map_of (filter (\<lambda>(u, _). P u) xs) k = (if P k then map_of xs k else None)"
  by (induction xs) auto

lemma prune_ok: "agent_ok a \<Longrightarrow> agent_ok (a\<lparr>ag_sm := snd (prune_stale_sessions locked now idle (ag_sm a))\<rparr>)"
  by (auto simp: agent_ok_def thread_of_def session_of_def prune_stale_sessions_def Let_def map_of_filter_key
      split: if_splits bind_splits)

interpretation agent_runs: invariant_system agent_init "agent_step E idle" "\<lambda>_ a. agent_ok a" for E idle
proof unfold_locales
  show "agent_ok a" if "agent_init a" for a
    using that by (simp add: agent_init_def agent_ok_def thread_of_def session_of_def new_session_manager_def)
  show "agent_ok b" if "agent_ok a" "agent_step E idle a e b" for a e b es
    using that(2,1) by (cases rule: agent_step.cases) (auto intro: handle_message_ok prune_ok)
qed

subsection \<open>Properties of the runs\<close>

text \<open>C5: Between two messages no turn is running. In every reached state each thread has consistent turns, is
  idle, interrupted or waits for an approval, and in the last case holds the request it waits for.\<close>

theorem threads_between_messages:
  assumes "reach agent_init (agent_step E idle) es a" and "thread_of a user tid = Some t"
  shows "thread_inv t \<and> th_state t \<in> {Idle, Interrupted, AwaitingToolApproval} \<and>
    (th_state t = AwaitingToolApproval \<longrightarrow> th_pending_approval t \<noteq> None)"
  using agent_runs.reach_inv [OF assms(1)] assms(2)
  by (cases "th_state t") (auto simp: agent_ok_def thread_ok_def)

text \<open>There is never a turn to interrupt: messages are handled one after the other, so that
  \<open>/interrupt\<close> has an effect only on a thread that waits for an approval, and no message is ever
  told that a turn is in progress.\<close>

theorem no_turn_to_interrupt:
  assumes "reach agent_init (agent_step E idle) es a" and "thread_of a user tid = Some t"
  shows "(fst (process_interrupt now user tid a) = ok_with_message ''Interrupted.'') =
      (th_state t = AwaitingToolApproval) \<and>
    (im_user_id msg = user \<longrightarrow>
      th_state t = AwaitingToolApproval \<and>
        fst (process_user_input E now msg tid content a) = error_result ''Waiting for approval. Use /interrupt to cancel.'' \<or>
      process_user_input E now msg tid content a =
        run_turn E now msg tid content (auto_compact E now msg tid t
          (if ev_drafting E
           then spawn (SpawnDraft content (case im_user_name msg of Some n \<Rightarrow> n | None \<Rightarrow> im_user_id msg)
                  (ev_uuid_str E tid) (im_channel msg)) a
           else a)))"
proof -
  have "thread_ok t" using agent_runs.reach_inv [OF assms(1)] assms(2) by (simp add: agent_ok_def)
  then show ?thesis
    using assms(2)
    by (cases "th_state t")
      (auto simp: process_interrupt_def process_user_input_def thread_ok_def rust_defs validate_input_def
        check_policy_def Let_def)
qed

lemma resolve_result:
  assumes "resolve E now msg a = (tid, b)"
  defines "key \<equiv> \<lparr>key_user_id = im_user_id msg, key_channel = im_channel msg, key_external = im_thread_id msg\<rparr>"
  shows "map_of (sm_thread_map (ag_sm b)) key = Some tid" "thread_of b (im_user_id msg) tid \<noteq> None"
  using assms(1) unfolding key_def
  by (auto simp: resolve_def draw_uuid_def resolve_thread_def get_or_create_session_def thread_of_def
      session_of_def Let_def update_conv' get_create_thread split: option.splits prod.splits if_splits)

lemma resolve_again:
  assumes "map_of (sm_thread_map (ag_sm b))
      \<lparr>key_user_id = im_user_id msg, key_channel = im_channel msg, key_external = im_thread_id msg\<rparr> = Some tid"
    and "thread_of b (im_user_id msg) tid \<noteq> None"
  shows "fst (resolve E now msg b) = tid"
  using assms
  by (auto simp: resolve_def draw_uuid_def resolve_thread_def get_or_create_session_def thread_of_def
      session_of_def Let_def split: option.splits bind_splits)

lemma user_session_map:
  "user_session E now user a = (s, b) \<Longrightarrow> sm_thread_map (ag_sm b) = sm_thread_map (ag_sm a)"
  by (auto simp: user_session_def get_or_create_session_def Let_def split: option.splits)

text \<open>Changing threads has no effect on the conversation: after \<open>/new\<close>, and after \<open>/thread\<close>, the next
  message of the user on the same channel still goes to the thread it went to before.\<close>

theorem thread_switch_ignored:
  "let (tid, a1) = resolve E now msg a; user = im_user_id msg
   in fst (resolve E now' msg (snd (process_new_thread E now user a1))) = tid \<and>
      fst (resolve E now' msg (snd (process_switch_thread E now user target a1))) = tid"
proof -
  obtain tid a1 where res: "resolve E now msg a = (tid, a1)" by fastforce
  note r = resolve_result [OF res]
  obtain s b where us: "user_session E now (im_user_id msg) a1 = (s, b)" by fastforce
  note facts = user_session_threads [OF us] user_session_map [OF us]
  have "thread_of (snd (process_new_thread E now (im_user_id msg) a1)) (im_user_id msg) tid \<noteq> None"
    "thread_of (snd (process_switch_thread E now (im_user_id msg) target a1)) (im_user_id msg) tid \<noteq> None"
    using us facts r(2)
    by (auto simp: process_new_thread_def process_switch_thread_def switch_thread_def draw_uuid_def
        thread_of_set_session get_create_thread Let_def)
  moreover have "sm_thread_map (ag_sm (snd (process_new_thread E now (im_user_id msg) a1))) = sm_thread_map (ag_sm a1)"
    "sm_thread_map (ag_sm (snd (process_switch_thread E now (im_user_id msg) target a1))) = sm_thread_map (ag_sm a1)"
    using us facts
    by (auto simp: process_new_thread_def process_switch_thread_def switch_thread_def draw_uuid_def
        set_session_def Let_def)
  ultimately show ?thesis
    using r(1) by (simp add: res resolve_again)
qed

end
