(* ===== verification/Agent_Flow.thy ===== *)
theory Agent_Flow
  imports Agent_Safety
begin

text \<open>
  How one message flows through an agent: the number of requests to the language model, the
  protocol of tool calls and their results, undo after a turn, and what is written to the database.
\<close>

subsection \<open>Requests to the language model\<close>

lemma llm_calls_simps [simp]:
  "ag_llm_calls (send_status c st a) = ag_llm_calls a" "ag_llm_calls (spawn x a) = ag_llm_calls a"
  "ag_llm_calls (set_session u s a) = ag_llm_calls a" "ag_llm_calls (update_thread u j f a) = ag_llm_calls a"
  "ag_llm_calls (set_undo j m a) = ag_llm_calls a" "ag_llm_calls (persist_turn j u i p a) = ag_llm_calls a"
  "ag_llm_calls (record_cost E now j usage a) = ag_llm_calls a"
  "ag_llm_calls (checkpoint_before_turn E j t a) = ag_llm_calls a"
  by (simp_all add: send_status_def spawn_def set_session_def update_thread_def set_undo_def persist_turn_def
      record_cost_def draw_uuid_def checkpoint_before_turn_def Let_def split: option.split prod.split)

lemma run_tool_llm: "run_tool E msg tid name params a = (r, a') \<Longrightarrow> ag_llm_calls a' = ag_llm_calls a"
  by (auto simp: run_tool_def execute_chat_tool_def validate_tool_params_def Let_def
      split: option.splits prod.splits sum.splits if_splits)

lemma run_calls_llm: "run_calls E msg tid tcs ms a = (out, a') \<Longrightarrow> ag_llm_calls a' = ag_llm_calls a"
proof (induction tcs arbitrary: ms a)
  case (Cons tc tcs)
  obtain r a1 where r: "run_tool E msg tid (tc_name tc) (tc_arguments tc) a = (r, a1)" by fastforce
  show ?case
    using Cons.prems Cons.IH [of _ a1] run_tool_llm [OF r]
    by (auto simp: r draw_uuid_def split: option.splits bool.splits)
qed simp

lemma after_answer_llm:
  "after_answer E msg tid i executed has_tools result ms a = (out, a') \<Longrightarrow> ag_llm_calls a' = ag_llm_calls a"
  by (cases result) (auto simp: after_answer_def Let_def split: prod.splits if_splits dest!: run_calls_llm)

lemma loop_from_llm:
  "loop_from E now msg tid identity left executed ms a = (out, a') \<Longrightarrow> ag_llm_calls a' \<le> ag_llm_calls a + left"
proof (induction left arbitrary: executed ms a)
  case (Suc left)
  let ?R = "respond_with_tools (ev_from_json E) (ev_llm E) identity (ag_llm_calls a)
                   \<lparr>rc_messages = ms, rc_available_tools = tool_definitions (ev_tools E),
                    rc_metadata = [(''thread_id'', ev_uuid_str E tid)]\<rparr>"
  show ?case
  proof (cases ?R)
    case (Inl e)
    then show ?thesis using Suc.prems by (auto simp: Let_def split: if_splits)
  next
    case (Inr res)
    let ?a1 = "record_cost E now tid (ro_usage res) (a\<lparr>ag_llm_calls := Suc (ag_llm_calls a)\<rparr>)"
    obtain x a2 where ans: "after_answer E msg tid (MAX_TOOL_ITERATIONS - left) executed
        (tool_definitions (ev_tools E) \<noteq> []) (ro_result res) ms ?a1 = (x, a2)" by fastforce
    have "ag_llm_calls a2 = Suc (ag_llm_calls a)" using after_answer_llm [OF ans] by simp
    then show ?thesis
      using Suc.prems Suc.IH [of _ _ a2] Inr ans
      by (cases x) (auto simp: Let_def split: if_splits dest!: Suc.IH)
  qed
qed simp

lemma run_agentic_loop_llm:
  "run_agentic_loop E now msg tid ms executed a = (out, a') \<Longrightarrow> ag_llm_calls a' \<le> ag_llm_calls a + 10"
  by (auto simp: run_agentic_loop_def Let_def MAX_TOOL_ITERATIONS_def split: option.splits prod.splits
      dest!: loop_from_llm simp del: loop_from.simps)

lemma finalize_llm: "finalize_loop_result E now msg tid out p a = (r, a') \<Longrightarrow> ag_llm_calls a' = ag_llm_calls a"
  by (cases out) (auto simp: finalize_loop_result_def Let_def split: option.splits)

lemma auto_compact_llm: "ag_llm_calls (auto_compact E now msg tid t a) \<le> Suc (ag_llm_calls a)"
proof -
  have "ag_llm_calls (snd (compact_thread E now user tid s t b)) = Suc (ag_llm_calls b)" for user s b
    by (auto simp: compact_thread_def Let_def split: prod.split sum.split)
  then show ?thesis by (simp add: auto_compact_def split: option.split)
qed

lemma run_turn_llm: "run_turn E now msg tid content a = (r, a') \<Longrightarrow> ag_llm_calls a' \<le> ag_llm_calls a + 10"
  by (auto simp: run_turn_def Let_def split: option.splits prod.splits if_splits
      dest!: run_agentic_loop_llm finalize_llm)

lemma process_user_input_llm:
  assumes "process_user_input E now msg tid content a = (r, a')"
  shows "ag_llm_calls a' \<le> ag_llm_calls a + 11"
proof -
  have "ag_llm_calls a' \<le> ag_llm_calls a + 11"
    if "run_turn E now msg tid content (auto_compact E now msg tid t b) = (r, a')" "ag_llm_calls b = ag_llm_calls a" for t b
    using run_turn_llm [OF that(1)] auto_compact_llm [of E now msg tid t b] that(2) by simp
  then show ?thesis
    using assms by (auto simp: process_user_input_def Let_def split: option.splits thread_state.splits if_splits)
qed

lemma continue_approved_llm:
  assumes "continue_approved E now msg tid p always a = (r, a')"
  shows "ag_llm_calls a' \<le> ag_llm_calls a + 10"
proof -
  define a1 where "a1 = (if always then (case session_of a (im_user_id msg) of
                  Some s \<Rightarrow> set_session (im_user_id msg) (auto_approve_tool (pa_tool_name p) s) a | None \<Rightarrow> a) else a)"
  have a1: "ag_llm_calls a1 = ag_llm_calls a" by (simp add: a1_def split: option.split)
  obtain r1 a3 where tool: "run_tool E msg tid (pa_tool_name p) (pa_parameters p)
      (update_thread (im_user_id msg) tid (set_state Processing) a1) = (r1, a3)" by fastforce
  obtain out a4 where loop: "run_agentic_loop E now msg tid (pa_context_messages p @
      [tool_result (pa_tool_call_id p) (pa_tool_name p) (result_content E (pa_tool_name p) r1)]) True a3 = (out, a4)"
    by fastforce
  show ?thesis
    using assms loop tool a1 run_tool_llm [OF tool] run_agentic_loop_llm [OF loop]
    by (auto simp: continue_approved_def a1_def [symmetric] Let_def split: option.splits dest!: finalize_llm)
qed

lemma process_approval_llm:
  "process_approval E now msg tid request approved always a = (r, a') \<Longrightarrow> ag_llm_calls a' \<le> ag_llm_calls a + 10"
  by (auto simp: process_approval_def Let_def split: option.splits prod.splits if_splits dest!: continue_approved_llm)

lemma user_session_llm: "user_session E now user a = (s, b) \<Longrightarrow> ag_llm_calls b = ag_llm_calls a"
  by (auto simp: user_session_def Let_def split: prod.splits)

lemma with_undo_llm: "with_undo tid a = (u, b) \<Longrightarrow> ag_llm_calls b = ag_llm_calls a"
  by (auto simp: with_undo_def split: prod.splits)

lemma draw_uuid_llm: "draw_uuid E a = (x, b) \<Longrightarrow> ag_llm_calls b = ag_llm_calls a"
  by (auto simp: draw_uuid_def)

lemmas quiet_llm = user_session_llm with_undo_llm draw_uuid_llm

lemma process_others_llm:
  "process_undo E now user tid a = (r, a') \<Longrightarrow> ag_llm_calls a' = ag_llm_calls a"
  "process_redo now user tid a = (r, a') \<Longrightarrow> ag_llm_calls a' = ag_llm_calls a"
  "process_resume now user tid cid a = (r, a') \<Longrightarrow> ag_llm_calls a' = ag_llm_calls a"
  "process_interrupt now user tid a = (r, a') \<Longrightarrow> ag_llm_calls a' = ag_llm_calls a"
  "process_clear user tid a = (r, a') \<Longrightarrow> ag_llm_calls a' = ag_llm_calls a"
  "process_new_thread E now user a = (r, a') \<Longrightarrow> ag_llm_calls a' = ag_llm_calls a"
  "process_switch_thread E now user target a = (r, a') \<Longrightarrow> ag_llm_calls a' = ag_llm_calls a"
  by (auto simp: process_undo_def process_redo_def process_resume_def process_interrupt_def process_clear_def
      process_new_thread_def process_switch_thread_def Let_def
      split: prod.splits if_splits option.splits dest!: quiet_llm)

lemma process_asking_llm:
  "process_compact E now user tid a = (r, a') \<Longrightarrow> ag_llm_calls a' \<le> Suc (ag_llm_calls a)"
  "ask_about_thread E user tid x1 x2 x3 x4 x5 x6 a = (r, a') \<Longrightarrow> ag_llm_calls a' \<le> Suc (ag_llm_calls a)"
  by (auto simp: process_compact_def compact_thread_def ask_about_thread_def Let_def
      split: prod.splits sum.splits if_splits option.splits)

lemma receive_llm:
  "ag_llm_calls (maybe_hydrate_thread E now msg ext a) = ag_llm_calls a"
  "resolve E now msg a = (tid, b) \<Longrightarrow> ag_llm_calls b = ag_llm_calls a"
proof -
  show "ag_llm_calls (maybe_hydrate_thread E now msg ext a) = ag_llm_calls a"
    by (cases E now msg ext a rule: hydrate_form) (auto simp: Let_def dest!: user_session_llm)
  show "resolve E now msg a = (tid, b) \<Longrightarrow> ag_llm_calls b = ag_llm_calls a"
    by (auto simp: resolve_def Let_def split: prod.splits dest!: draw_uuid_llm)
qed

text \<open>C17: A message costs a bounded number of requests: at most ten for the turn, whatever the model
  answers and however many calls it asks for, and one for a compaction before it.\<close>

theorem llm_requests_bounded:
  "ag_llm_calls (snd (handle_message E now msg a)) \<le> ag_llm_calls a + 11"
proof -
  define a1 where "a1 = (case im_thread_id msg of Some ext \<Rightarrow> maybe_hydrate_thread E now msg ext a | None \<Rightarrow> a)"
  obtain tid b where res: "resolve E now msg a1 = (tid, b)" by fastforce
  have b: "ag_llm_calls b = ag_llm_calls a"
    using receive_llm(2) [OF res] receive_llm(1) by (simp add: a1_def split: option.split)
  define s where "s = parse_submission (ev_parse_uuid E) (ev_from_json E) (im_content msg)"
  obtain r c where sub: "process_submission E now msg tid s b = (r, c)" by fastforce
  have "ag_llm_calls c \<le> ag_llm_calls b + 11"
    using sub
    by (cases s) (auto simp: process_submission_def process_summarize_def process_suggest_def
        dest!: process_user_input_llm process_approval_llm process_others_llm process_asking_llm)
  moreover have "ag_llm_calls (snd (handle_message E now msg a)) = ag_llm_calls c"
    by (auto simp: handle_message_def a1_def [symmetric] s_def [symmetric] res sub Let_def
        split: option.split sum.split submission_result.split)
  ultimately show ?thesis by (simp add: b)
qed

subsection \<open>Tool calls and their results\<close>

text \<open>The ids of the calls an assistant message asks for, of the results in a context, and of the calls
  without a result; a provider rejects a context with such a call.\<close>

definition asked :: "chat_message list \<Rightarrow> string list" where
  "asked ms = concat (map (\<lambda>m. case cm_tool_calls m of Some cs \<Rightarrow> map tc_id cs | None \<Rightarrow> []) ms)"

definition answered :: "chat_message list \<Rightarrow> string list" where
  "answered ms = List.map_filter cm_tool_call_id ms"

definition unanswered :: "chat_message list \<Rightarrow> string list" where
  "unanswered ms = filter (\<lambda>i. i \<notin> set (answered ms)) (asked ms)"

lemma protocol_simps [simp]:
  "asked [] = []" "answered [] = []"
  "asked (ms @ ns) = asked ms @ asked ns" "answered (ms @ ns) = answered ms @ answered ns"
  "asked [tool_result i n c] = []" "answered [tool_result i n c] = [i]"
  "asked [user_message s] = []" "answered [user_message s] = []"
  "asked [assistant_message s] = []" "answered [assistant_message s] = []"
  "asked [assistant_with_tool_calls x tcs] = map tc_id tcs" "answered [assistant_with_tool_calls x tcs] = []"
  by (simp_all add: asked_def answered_def List.map_filter_def tool_result_def assistant_with_tool_calls_def rust_defs)

lemma same_prefix: "xs @ x # us = ys @ x # vs \<Longrightarrow> distinct (xs @ x # us) \<Longrightarrow> xs = ys"
proof (induction xs arbitrary: ys)
  case Nil
  then show ?case by (cases ys) auto
next
  case (Cons z zs)
  then show ?case by (cases ys) auto
qed

lemma calls_Cons [simp]:
  "asked (assistant_with_tool_calls x tcs # ms) = map tc_id tcs @ asked ms"
  "answered (assistant_with_tool_calls x tcs # ms) = answered ms"
  using protocol_simps(3,4) [of "[assistant_with_tool_calls x tcs]" ms] by simp_all

lemma result_Cons [simp]:
  "asked (tool_result i n c # ms) = asked ms" "answered (tool_result i n c # ms) = i # answered ms"
  using protocol_simps(3,4) [of "[tool_result i n c]" ms] by simp_all

definition executable :: "env \<Rightarrow> tool_call list \<Rightarrow> (string \<times> json) list" where
  "executable E tcs = map (\<lambda>tc. (tc_name tc, tc_arguments tc))
     (filter (\<lambda>tc. get_tool (ev_tools E) (tc_name tc) \<noteq> None) tcs)"

definition results_of :: "tool_call list \<Rightarrow> chat_message list \<Rightarrow> bool" where
  "results_of tcs rs \<longleftrightarrow> list_all2 (\<lambda>tc m. \<exists>c. m = tool_result (tc_id tc) (tc_name tc) c) tcs rs"

lemma results_of_ids: "results_of tcs rs \<Longrightarrow> asked rs = [] \<and> answered rs = map tc_id tcs"
  unfolding results_of_def
  by (induction rule: list_all2_induct) auto

lemma run_tool_executed:
  assumes "run_tool E msg tid name params a = (r, a')"
  shows "ag_executed a' = ag_executed a @ (if get_tool (ev_tools E) name \<noteq> None then [(name, params)] else [])"
proof -
  let ?a1 = "send_status (im_channel msg) (ToolStarted name) a"
  obtain a2 where ex: "execute_chat_tool E name params ?a1 = (r, a2)"
    using assms(1) by (auto simp: run_tool_def Let_def split: prod.splits)
  have "ag_executed a' = ag_executed a2"
    using assms ex by (auto simp: run_tool_def Let_def split: prod.splits sum.splits if_splits)
  moreover have "ag_executed a2 = ag_executed a @ (if get_tool (ev_tools E) name \<noteq> None then [(name, params)] else [])"
    using ex by (auto simp: execute_chat_tool_def validate_tool_params_def split: option.splits)
  ultimately show ?thesis by simp
qed

lemma run_calls_results:
  assumes "run_calls E msg tid tcs ms a = (out, a')"
  shows "case out of
      CallsDone ms' \<Rightarrow> (\<exists>rs. ms' = ms @ rs \<and> results_of tcs rs \<and> ag_executed a' = ag_executed a @ executable E tcs)
    | CallsNeed p \<Rightarrow> (\<exists>pre tc rest rs. tcs = pre @ tc # rest \<and> needs_approval E tc \<and>
         pa_context_messages p = ms @ rs \<and> results_of pre rs \<and> pa_tool_call_id p = tc_id tc \<and>
         pa_tool_name p = tc_name tc \<and> pa_parameters p = tc_arguments tc \<and>
         ag_executed a' = ag_executed a @ executable E pre)
    | CallsPanic \<Rightarrow> True"
  using assms
proof (induction tcs arbitrary: ms a)
  case Nil
  then show ?case by (auto simp: results_of_def executable_def)
next
  case (Cons tc tcs)
  let ?ask = "if needs_approval E tc then auto_approved E a (im_user_id msg) tc else Some True"
  consider "?ask = None" | "?ask = Some False" | "?ask = Some True" by (cases ?ask) auto
  then show ?case
  proof cases
    case 1
    then show ?thesis using Cons.prems by auto
  next
    case 2
    then obtain x a1 where d: "draw_uuid E a = (x, a1)" and out: "out = CallsNeed (make_pending E x tc ms)" "a' = a1"
      using Cons.prems by (cases "draw_uuid E a") auto
    have need: "needs_approval E tc" using 2 by (auto split: if_splits)
    have "ag_executed a1 = ag_executed a" using draw_uuidD [OF d] by simp
    then show ?thesis
      unfolding out calls_out.case
      by (intro exI [of _ "[]"] exI [of _ tc] exI [of _ tcs])
        (simp add: need make_pending_def results_of_def executable_def Let_def)
  next
    case 3
    obtain r a1 where r: "run_tool E msg tid (tc_name tc) (tc_arguments tc) a = (r, a1)" by fastforce
    let ?m = "tool_result (tc_id tc) (tc_name tc) (result_content E (tc_name tc) r)"
    have run: "run_calls E msg tid tcs (ms @ [?m]) a1 = (out, a')" using Cons.prems r by (simp add: 3)
    have ex: "ag_executed a1 = ag_executed a @ executable E [tc]"
      using run_tool_executed [OF r] by (auto simp: executable_def)
    have split: "executable E (tc # xs) = executable E [tc] @ executable E xs" for xs by (simp add: executable_def)
    have res: "results_of (tc # xs) (?m # rs)" if "results_of xs rs" for xs rs
      using that by (auto simp: results_of_def)
    show ?thesis
    proof (cases out)
      case (CallsDone ms')
      then obtain rs where "ms' = ms @ ?m # rs" "results_of tcs rs" "ag_executed a' = ag_executed a1 @ executable E tcs"
        using Cons.IH [OF run] by auto
      then show ?thesis using CallsDone res ex split [of tcs] by auto
    next
      case (CallsNeed p)
      then obtain pre tc' rest rs where "tcs = pre @ tc' # rest" "needs_approval E tc'"
         "pa_context_messages p = ms @ ?m # rs" "results_of pre rs" "pa_tool_call_id p = tc_id tc'"
         "pa_tool_name p = tc_name tc'" "pa_parameters p = tc_arguments tc'"
         "ag_executed a' = ag_executed a1 @ executable E pre"
        using Cons.IH [OF run] by auto
      then show ?thesis
        unfolding CallsNeed calls_out.case using res [of pre rs] ex split [of pre]
        by (intro exI [of _ "tc # pre"] exI [of _ tc'] exI [of _ rest] exI [of _ "?m # rs"]) simp
    qed simp
  qed
qed

lemma after_answer_calls:
  obtains a2 res a' where "ag_executed a2 = ag_executed a"
    "run_calls E msg tid tcs (ms @ [assistant_with_tool_calls content tcs]) a2 = (res, a')"
    "after_answer E msg tid i executed has_tools (RespToolCalls tcs content) ms a =
      (case res of CallsDone ms2 \<Rightarrow> Inr (True, ms2) | CallsNeed p \<Rightarrow> Inl (LoopNeedApproval p)
         | CallsPanic \<Rightarrow> Inl LoopPanic, a')"
proof -
  define a1 where "a1 = send_status (im_channel msg)
                   (Thinking (join '', '' (map (call_headline E) tcs) @ ''...'')) a"
  define a2 where "a2 = update_thread (im_user_id msg) tid
                   (on_last_turn (fold (\<lambda>tc. record_tool_call (tc_name tc) (tc_arguments tc)) tcs)) a1"
  obtain res a' where run: "run_calls E msg tid tcs (ms @ [assistant_with_tool_calls content tcs]) a2 = (res, a')"
    by fastforce
  show thesis
  proof (rule that [OF _ run])
    show "ag_executed a2 = ag_executed a" by (simp add: a2_def a1_def)
  qed (simp add: after_answer_def a1_def [symmetric] a2_def [symmetric] run Let_def)
qed

text \<open>C6: Every call the model asks for is executed once, in the order asked for, if its tool exists, and
  has its result in the next request under its own id; nothing is left without a result. If a call
  has to be approved, exactly the calls before it were executed, and the request shown to the user
  is that call.\<close>

theorem calls_run_in_order:
  "case after_answer E msg tid i executed has_tools (RespToolCalls tcs content) ms a of
     (Inr (executed', ms'), a') \<Rightarrow>
        ag_executed a' = ag_executed a @ executable E tcs \<and>
        answered ms' = answered ms @ map tc_id tcs \<and> asked ms' = asked ms @ map tc_id tcs \<and>
        set (unanswered ms') \<subseteq> set (unanswered ms)
   | (Inl (LoopNeedApproval p), a') \<Rightarrow>
        (\<exists>pre tc rest. tcs = pre @ tc # rest \<and> needs_approval E tc \<and>
           ag_executed a' = ag_executed a @ executable E pre \<and> pa_tool_call_id p = tc_id tc \<and>
           pa_tool_name p = tc_name tc \<and> pa_parameters p = tc_arguments tc \<and>
           answered (pa_context_messages p) = answered ms @ map tc_id pre)
   | (Inl out, a') \<Rightarrow> out = LoopPanic"
proof -
  obtain a2 o3 a' where a2: "ag_executed a2 = ag_executed a"
    and run: "run_calls E msg tid tcs (ms @ [assistant_with_tool_calls content tcs]) a2 = (o3, a')"
    and eq: "after_answer E msg tid i executed has_tools (RespToolCalls tcs content) ms a =
      (case o3 of CallsDone ms2 \<Rightarrow> Inr (True, ms2) | CallsNeed p \<Rightarrow> Inl (LoopNeedApproval p)
         | CallsPanic \<Rightarrow> Inl LoopPanic, a')"
    by (rule after_answer_calls)
  note res = run_calls_results [OF run]
  show ?thesis
  proof (cases o3)
    case (CallsDone ms2)
    then obtain rs where "ms2 = ms @ [assistant_with_tool_calls content tcs] @ rs" "results_of tcs rs"
        "ag_executed a' = ag_executed a @ executable E tcs"
      using res a2 by auto
    then show ?thesis using results_of_ids [of tcs rs] by (auto simp: eq CallsDone unanswered_def)
  next
    case (CallsNeed p)
    then obtain pre tc rest rs where p: "tcs = pre @ tc # rest" "needs_approval E tc"
        "pa_context_messages p = (ms @ [assistant_with_tool_calls content tcs]) @ rs" "results_of pre rs"
        "pa_tool_call_id p = tc_id tc" "pa_tool_name p = tc_name tc" "pa_parameters p = tc_arguments tc"
        "ag_executed a' = ag_executed a @ executable E pre"
      using res a2 by auto
    then have "answered (pa_context_messages p) = answered ms @ map tc_id pre"
      using results_of_ids [OF p(4)] by simp
    with p have "\<exists>pre tc rest. tcs = pre @ tc # rest \<and> needs_approval E tc \<and>
           ag_executed a' = ag_executed a @ executable E pre \<and> pa_tool_call_id p = tc_id tc \<and>
           pa_tool_name p = tc_name tc \<and> pa_parameters p = tc_arguments tc \<and>
           answered (pa_context_messages p) = answered ms @ map tc_id pre"
      by blast
    then show ?thesis by (simp add: eq CallsNeed)
  qed (simp add: eq)
qed

text \<open>The context the loop goes on with after an approval.\<close>

definition approved_context :: "pending_approval \<Rightarrow> string \<Rightarrow> chat_message list" where
  "approved_context p content =
     pa_context_messages p @ [tool_result (pa_tool_call_id p) (pa_tool_name p) content]"

lemma continue_approved_context:
  "continue_approved E now msg tid p always a =
     (let user = im_user_id msg;
          a1 = (if always then (case session_of a user of
                  Some s \<Rightarrow> set_session user (auto_approve_tool (pa_tool_name p) s) a | None \<Rightarrow> a) else a);
          (r, a3) = run_tool E msg tid (pa_tool_name p) (pa_parameters p) (update_thread user tid (set_state Processing) a1);
          (out, a4) = run_agentic_loop E now msg tid (approved_context p (result_content E (pa_tool_name p) r)) True a3
      in case thread_of a4 user tid of
           None \<Rightarrow> (if out = LoopPanic then None else not_found tid, a4)
         | Some _ \<Rightarrow> finalize_loop_result E now msg tid out None a4)"
  by (simp add: continue_approved_def approved_context_def Let_def)

text \<open>An approval drops the other calls of the same answer: those after the approved call are not
  executed, and the model is asked again with a context in which they have no result.\<close>

theorem approval_drops_later_calls:
  assumes "after_answer E msg tid i executed has_tools (RespToolCalls (pre @ tc # rest) content) ms a =
      (Inl (LoopNeedApproval p), a')"
    and "pa_tool_call_id p = tc_id tc" and "distinct (answered ms @ map tc_id (pre @ tc # rest))"
  shows "ag_executed a' = ag_executed a @ executable E pre \<and>
    set (map tc_id rest) \<subseteq> set (unanswered (approved_context p result))"
proof -
  let ?tcs = "pre @ tc # rest"
  obtain a2 o3 a3 where a2: "ag_executed a2 = ag_executed a"
    and run: "run_calls E msg tid ?tcs (ms @ [assistant_with_tool_calls content ?tcs]) a2 = (o3, a3)"
    and eq: "after_answer E msg tid i executed has_tools (RespToolCalls ?tcs content) ms a =
      (case o3 of CallsDone ms2 \<Rightarrow> Inr (True, ms2) | CallsNeed p \<Rightarrow> Inl (LoopNeedApproval p)
         | CallsPanic \<Rightarrow> Inl LoopPanic, a3)"
    by (rule after_answer_calls)
  have o3: "o3 = CallsNeed p" "a3 = a'" using assms(1) unfolding eq by (auto split: calls_out.splits)
  obtain pre' tc' rest' rs where split: "?tcs = pre' @ tc' # rest'"
    and p: "pa_context_messages p = (ms @ [assistant_with_tool_calls content ?tcs]) @ rs" "results_of pre' rs"
      "pa_tool_call_id p = tc_id tc'" "ag_executed a' = ag_executed a @ executable E pre'"
    using run_calls_results [OF run] by (auto simp: o3 a2)
  have ids: "map tc_id pre @ tc_id tc # map tc_id rest = map tc_id pre' @ tc_id tc # map tc_id rest'"
    using arg_cong [OF split, of "map tc_id"] p(3) assms(2) by simp
  have "map tc_id pre = map tc_id pre'"
    by (rule same_prefix [OF ids]) (use assms(3) in auto)
  then have "length pre = length pre'" by (rule map_eq_imp_length_eq)
  then have same: "pre' = pre" using split by simp
  have "answered (approved_context p result) = answered ms @ map tc_id pre @ [tc_id tc]"
    "asked (approved_context p result) = asked ms @ map tc_id ?tcs"
    using results_of_ids [OF p(2)] by (simp_all add: approved_context_def p(1) assms(2) same)
  moreover have "i \<notin> set (answered ms @ map tc_id pre @ [tc_id tc])" if "i \<in> set (map tc_id rest)" for i
    using assms(3) that by (auto simp: rev_image_eqI)
  ultimately show ?thesis using p(4) same by (auto simp: unanswered_def)
qed

subsection \<open>What reaches the database\<close>

lemma spawned_simps [simp]:
  "ag_spawned (send_status c st a) = ag_spawned a" "ag_spawned (set_session u s a) = ag_spawned a"
  "ag_spawned (update_thread u j f a) = ag_spawned a" "ag_spawned (record_cost E now j usage a) = ag_spawned a"
  by (simp_all add: send_status_def set_session_def update_thread_def record_cost_def draw_uuid_def Let_def
      split: option.split prod.split)

lemma draw_uuid_spawned: "draw_uuid E a = (x, b) \<Longrightarrow> ag_spawned b = ag_spawned a"
  by (auto simp: draw_uuid_def)

lemma run_tool_spawned: "run_tool E msg tid name params a = (r, a') \<Longrightarrow> ag_spawned a' = ag_spawned a"
  by (auto simp: run_tool_def execute_chat_tool_def validate_tool_params_def Let_def
      split: option.splits prod.splits sum.splits if_splits)

lemma run_calls_spawned: "run_calls E msg tid tcs ms a = (out, a') \<Longrightarrow> ag_spawned a' = ag_spawned a"
proof (induction tcs arbitrary: ms a)
  case (Cons tc tcs)
  obtain r a1 where r: "run_tool E msg tid (tc_name tc) (tc_arguments tc) a = (r, a1)" by fastforce
  show ?case
    using Cons.prems Cons.IH [of _ a1] run_tool_spawned [OF r]
    by (auto simp: r draw_uuid_def split: option.splits bool.splits)
qed simp

lemma after_answer_spawned:
  "after_answer E msg tid i executed has_tools result ms a = (out, a') \<Longrightarrow> ag_spawned a' = ag_spawned a"
  by (cases result) (auto simp: after_answer_def Let_def split: prod.splits if_splits dest!: run_calls_spawned)

lemma loop_from_spawned:
  "loop_from E now msg tid identity left executed ms a = (out, a') \<Longrightarrow> ag_spawned a' = ag_spawned a"
proof (induction left arbitrary: executed ms a)
  case (Suc left)
  show ?case
    using Suc.prems
    by (auto simp: Let_def split: if_splits sum.splits prod.splits dest!: after_answer_spawned Suc.IH)
qed simp

lemma run_agentic_loop_spawned:
  "run_agentic_loop E now msg tid ms executed a = (out, a') \<Longrightarrow> ag_spawned a' = ag_spawned a"
  by (auto simp: run_agentic_loop_def Let_def split: option.splits prod.splits dest!: loop_from_spawned
      simp del: loop_from.simps)

lemma finalize_spawned: "finalize_loop_result E now msg tid out None a = (r, a') \<Longrightarrow> ag_spawned a' = ag_spawned a"
  by (cases out) (auto simp: finalize_loop_result_def Let_def)

lemma continue_approved_spawned:
  assumes "continue_approved E now msg tid p always a = (r, a')"
  shows "ag_spawned a' = ag_spawned a"
proof -
  define a1 where "a1 = (if always then (case session_of a (im_user_id msg) of
                  Some s \<Rightarrow> set_session (im_user_id msg) (auto_approve_tool (pa_tool_name p) s) a | None \<Rightarrow> a) else a)"
  have a1: "ag_spawned a1 = ag_spawned a" by (simp add: a1_def split: option.split)
  obtain r1 a3 where tool: "run_tool E msg tid (pa_tool_name p) (pa_parameters p)
      (update_thread (im_user_id msg) tid (set_state Processing) a1) = (r1, a3)" by fastforce
  obtain out a4 where loop: "run_agentic_loop E now msg tid (pa_context_messages p @
      [tool_result (pa_tool_call_id p) (pa_tool_name p) (result_content E (pa_tool_name p) r1)]) True a3 = (out, a4)"
    by fastforce
  show ?thesis
    using assms loop tool a1 run_tool_spawned [OF tool] run_agentic_loop_spawned [OF loop]
    by (auto simp: continue_approved_def a1_def [symmetric] Let_def split: option.splits dest!: finalize_spawned)
qed

text \<open>A turn that needs an approval is never stored: neither when it stops to ask nor when it goes on
  after the answer, whatever the answer is, is anything written to the conversation.\<close>

theorem approval_turn_not_stored:
  "ag_spawned (snd (finalize_loop_result E now msg tid (LoopNeedApproval p) persist a)) = ag_spawned a \<and>
   ag_spawned (snd (process_approval E now msg tid request approved always a)) = ag_spawned a"
proof -
  obtain r b where run: "process_approval E now msg tid request approved always a = (r, b)" by fastforce
  have "ag_spawned b = ag_spawned a"
    using run by (auto simp: process_approval_def Let_def split: option.splits prod.splits if_splits
        dest!: continue_approved_spawned)
  then show ?thesis by (simp add: finalize_loop_result_def Let_def run)
qed

subsection \<open>Conversations across a restart\<close>

definition history_of :: "uuid \<Rightarrow> conv_db \<Rightarrow> chat_message list" where
  "history_of tid db = List.map_filter history_message
     (case fst (list_conversation_messages tid db) of Some ms \<Rightarrow> ms | None \<Rightarrow> [])"

lemma stamp_key_mono: "t \<le> t' \<Longrightarrow> stamp_key (SqlNow t) \<le> stamp_key (SqlNow t')"
proof -
  assume le: "t \<le> t'"
  have "day_of t \<le> day_of t'" using le by (simp add: day_of_def zdiv_mono1 nanos_per_sec_def)
  moreover have "t div nanos_per_sec \<le> t' div nanos_per_sec" using le by (simp add: zdiv_mono1 nanos_per_sec_def)
  then have "t - t mod nanos_per_sec \<le> t' - t' mod nanos_per_sec"
    by (simp add: minus_mod_eq_mult_div mult_le_cancel_left nanos_per_sec_def)
  ultimately show ?thesis by simp
qed

definition persisted :: "uuid \<Rightarrow> uuid \<Rightarrow> uuid \<Rightarrow> datetime \<Rightarrow> string \<Rightarrow> string option \<Rightarrow> conversation_message list" where
  "persisted f1 f2 tid now input response =
     \<lparr>vm_id = f1, vm_conversation = tid, vm_role = ''user'', vm_content = input, vm_created_at = SqlNow now\<rparr> #
     (case response of None \<Rightarrow> [] | Some r \<Rightarrow>
        [\<lparr>vm_id = f2, vm_conversation = tid, vm_role = ''assistant'', vm_content = r, vm_created_at = SqlNow now\<rparr>])"

lemma ensure_conversation_ok:
  assumes "cv_faults db = []"
  obtains db1 where "ensure_conversation now tid c user db = (True, db1)" "cv_messages db1 = cv_messages db"
    "cv_faults db1 = []"
  using assms by (simp add: ensure_conversation_def cv_exec_ok)

lemma add_message_ok:
  assumes "cv_faults db = []"
  obtains db1 where "add_conversation_message f now tid role content db = (True, db1)" "cv_faults db1 = []"
    "cv_messages db1 = cv_messages db @
      [\<lparr>vm_id = f, vm_conversation = tid, vm_role = role, vm_content = content, vm_created_at = SqlNow now\<rparr>]"
  using assms by (simp add: add_conversation_message_def cv_exec_ok)

lemma run_persist_messages:
  assumes "cv_faults db = []" and db'_def: "run_persist f1 f2 now tid user input response db = db'"
  shows "messages_of db' tid = messages_of db tid @ persisted f1 f2 tid now input response" "cv_faults db' = []"
proof -
  obtain db1 where 1: "ensure_conversation now tid ''gateway'' user db = (True, db1)"
    "cv_messages db1 = cv_messages db" "cv_faults db1 = []"
    using ensure_conversation_ok [OF assms(1)] .
  obtain db2 where 2: "add_conversation_message f1 now tid ''user'' input db1 = (True, db2)" "cv_faults db2 = []"
    "cv_messages db2 = cv_messages db1 @
      [\<lparr>vm_id = f1, vm_conversation = tid, vm_role = ''user'', vm_content = input, vm_created_at = SqlNow now\<rparr>]"
    using add_message_ok [OF 1(3)] .
  have "messages_of db' tid = messages_of db tid @ persisted f1 f2 tid now input response \<and> cv_faults db' = []"
  proof (cases response)
    case None
    then show ?thesis
      using 1 2 by (simp add: db'_def [symmetric] run_persist_def Let_def messages_of_def persisted_def)
  next
    case (Some r)
    obtain db3 where 3: "add_conversation_message f2 now tid ''assistant'' r db2 = (True, db3)" "cv_faults db3 = []"
      "cv_messages db3 = cv_messages db2 @
      [\<lparr>vm_id = f2, vm_conversation = tid, vm_role = ''assistant'', vm_content = r, vm_created_at = SqlNow now\<rparr>]"
      using add_message_ok [OF 2(2)] .
    then show ?thesis
      using 1 2 Some by (simp add: db'_def [symmetric] run_persist_def Let_def messages_of_def persisted_def)
  qed
  then show "messages_of db' tid = messages_of db tid @ persisted f1 f2 tid now input response" "cv_faults db' = []"
    by simp_all
qed

lemma history_of_persisted:
  assumes "cv_faults db = []" and "\<forall>m \<in> set (messages_of db tid). created_key m \<le> stamp_key (SqlNow now)"
  shows "history_of tid (run_persist f1 f2 now tid user input response db) =
    history_of tid db @ user_message input # (case response of None \<Rightarrow> [] | Some r \<Rightarrow> [assistant_message r])"
proof -
  have key: "created_key m \<le> created_key x"
    if "m \<in> set (messages_of db tid) \<union> set (persisted f1 f2 tid now input response)"
      "x \<in> set (persisted f1 f2 tid now input response)" for m x
    using that assms(2) by (auto simp: persisted_def created_key_def split: option.splits)
  have app: "sort_key created_key (xs @ ys) = sort_key created_key xs @ ys"
    if "\<And>m x. m \<in> set xs \<union> set ys \<Longrightarrow> x \<in> set ys \<Longrightarrow> created_key m \<le> created_key x" for xs ys
    using that
  proof (induction ys rule: rev_induct)
    case (snoc y ys)
    then have "sort_key created_key ((xs @ ys) @ [y]) = sort_key created_key (xs @ ys) @ [y]"
      by (intro sort_key_snoc) auto
    then show ?case using snoc by simp
  qed simp
  have "sort_key created_key (messages_of db tid @ persisted f1 f2 tid now input response) =
      sort_key created_key (messages_of db tid) @ persisted f1 f2 tid now input response"
    by (rule app) (rule key)
  moreover have "List.map_filter history_message (persisted f1 f2 tid now input response) =
      user_message input # (case response of None \<Rightarrow> [] | Some r \<Rightarrow> [assistant_message r])"
    by (simp add: persisted_def history_message_def List.map_filter_def split: option.split)
  ultimately show ?thesis
    using run_persist_messages [OF assms(1) refl, of f1 f2 now tid user input response] assms(1)
    by (simp add: history_of_def list_conversation_messages_def cv_query_ok List.map_filter_def)
qed

lemma hydrate_loads:
  assumes "ev_parse_uuid E ext = Some tid" and "thread_of a (im_user_id msg) tid = None"
    and "ag_store a = Some db" and "cv_faults db = []"
  obtains t where "thread_of (maybe_hydrate_thread E now msg ext a) (im_user_id msg) tid = Some t"
    "th_turns t = rebuild_turns now 0 (history_of tid db)" "th_state t = Idle"
    "map_of (sm_thread_map (ag_sm (maybe_hydrate_thread E now msg ext a))) =
      (map_of (sm_thread_map (ag_sm a)))
        (\<lparr>key_user_id = im_user_id msg, key_channel = im_channel msg, key_external = Some (ev_uuid_str E tid)\<rparr> \<mapsto> tid)"
proof -
  let ?user = "im_user_id msg"
  obtain s a1 where us: "user_session E now ?user a = (s, a1)" by fastforce
  note us_facts = user_session_facts [OF us] user_session_threads [OF us] user_session_map [OF us]
  have store: "ag_store a1 = Some db"
    using us assms(3) by (auto simp: user_session_def split: prod.splits)
  have lh: "load_history tid a1 = (history_of tid db, a1)"
    using store assms(4)
    by (simp add: load_history_def history_of_def list_conversation_messages_def cv_query_ok)
  obtain rid where lr: "load_response_id tid a1 = (rid, a1)"
    using store assms(4) by (auto simp: load_response_id_def get_conversation_metadata_def cv_query_ok)
  have none: "get_thread tid s = None" using us_facts(6) [of tid] assms(2) by simp
  define t1 where "t1 = (if history_of tid db \<noteq> [] then restore_from_messages now (history_of tid db) (thread_with_id now tid (ss_id s))
      else thread_with_id now tid (ss_id s))"
  define t where "t = (case rid of Some r \<Rightarrow> t1\<lparr>th_last_response_id := Some r\<rparr> | None \<Rightarrow> t1)"
  let ?s = "(put_thread tid t s)\<lparr>ss_active_thread := Some tid, ss_last_active_at := now\<rparr>"
  have eq: "maybe_hydrate_thread E now msg ext a =
      (let a4 = set_session ?user ?s a1
       in a4\<lparr>ag_sm := register_thread (ev_uuid_str E) ?user (im_channel msg) tid ?s (ag_sm a4)\<rparr>)"
    by (cases rid) (simp_all add: maybe_hydrate_thread_def assms(1) us none lh lr t1_def t_def Let_def)
  have turns: "th_turns t1 = rebuild_turns now 0 (history_of tid db)" "th_state t1 = Idle"
    by (simp_all add: t1_def restore_from_messages_def thread_with_id_def)
  show thesis
  proof (rule that)
    show "thread_of (maybe_hydrate_thread E now msg ext a) ?user tid = Some t"
      using us_facts(2) by (simp add: eq Let_def thread_of_register thread_of_set_session)
    show "th_turns t = rebuild_turns now 0 (history_of tid db)" "th_state t = Idle"
      using turns by (simp_all add: t_def split: option.split)
    show "map_of (sm_thread_map (ag_sm (maybe_hydrate_thread E now msg ext a))) =
      (map_of (sm_thread_map (ag_sm a)))
        (\<lparr>key_user_id = ?user, key_channel = im_channel msg, key_external = Some (ev_uuid_str E tid)\<rparr> \<mapsto> tid)"
      using us_facts(7) by (simp add: eq Let_def register_thread_def set_session_def update_conv')
  qed
qed

text \<open>C9: A conversation survives a restart. When the task that stores a turn has run without a failing
  statement, the first message that names the conversation by the text the program prints for its
  id brings back the stored turns followed by this one, and is handled in that thread.\<close>

theorem turn_survives_restart:
  assumes "cv_faults db = []" and "\<forall>m \<in> set (messages_of db tid). created_key m \<le> stamp_key (SqlNow now)"
    and "history_of tid db = concat (map turn_messages ts)"
    and "ag_store a = Some (run_persist f1 f2 now tid user input response db)"
    and "thread_of a (im_user_id msg) tid = None"
    and "im_thread_id msg = Some (ev_uuid_str E tid)" and "ev_parse_uuid E (ev_uuid_str E tid) = Some tid"
  shows "\<exists>t. thread_of (maybe_hydrate_thread E now' msg (ev_uuid_str E tid) a) (im_user_id msg) tid = Some t \<and>
      th_state t = Idle \<and>
      messages t = concat (map turn_messages ts) @ user_message input #
        (case response of None \<Rightarrow> [] | Some r \<Rightarrow> [assistant_message r]) \<and>
      fst (resolve E now' msg (maybe_hydrate_thread E now' msg (ev_uuid_str E tid) a)) = tid"
proof -
  let ?db = "run_persist f1 f2 now tid user input response db"
  define u where "u = (new_turn 0 0 input)\<lparr>tn_response := response\<rparr>"
  have hist: "history_of tid ?db = concat (map turn_messages (ts @ [u]))"
    using history_of_persisted [OF assms(1,2)] assms(3)
    by (simp add: u_def turn_messages_def new_turn_def split: option.split)
  obtain t where t: "thread_of (maybe_hydrate_thread E now' msg (ev_uuid_str E tid) a) (im_user_id msg) tid = Some t"
    "th_turns t = rebuild_turns now' 0 (history_of tid ?db)" "th_state t = Idle"
    "map_of (sm_thread_map (ag_sm (maybe_hydrate_thread E now' msg (ev_uuid_str E tid) a))) =
      (map_of (sm_thread_map (ag_sm a)))
        (\<lparr>key_user_id = im_user_id msg, key_channel = im_channel msg, key_external = Some (ev_uuid_str E tid)\<rparr> \<mapsto> tid)"
    using hydrate_loads [OF assms(7,5,4) run_persist_messages(2) [OF assms(1) refl]] .
  have "messages t = concat (map turn_messages (ts @ [u]))"
    unfolding messages_def t(2) hist rebuild_messages ..
  moreover have "fst (resolve E now' msg (maybe_hydrate_thread E now' msg (ev_uuid_str E tid) a)) = tid"
    using t(1,4) assms(6) by (intro resolve_again) simp_all
  ultimately show ?thesis
    using t(1,3) by (auto simp: u_def turn_messages_def new_turn_def split: option.split)
qed

text \<open>A client that writes the id in another form than the program prints it, for example in capital
  letters, gets an empty thread instead of the loaded one.\<close>

theorem other_spelling_loses_history:
  assumes "ev_parse_uuid E ext = Some tid" and "ev_uuid_str E tid \<noteq> ext" and "im_thread_id msg = Some ext"
    and "thread_of a (im_user_id msg) tid = None" and "ag_store a = Some db" and "cv_faults db = []"
    and "map_of (sm_thread_map (ag_sm a))
        \<lparr>key_user_id = im_user_id msg, key_channel = im_channel msg, key_external = Some ext\<rparr> = None"
  shows "let (i, b) = resolve E now msg (maybe_hydrate_thread E now msg ext a)
    in \<exists>t. thread_of b (im_user_id msg) i = Some t \<and> messages t = []"
proof -
  let ?h = "maybe_hydrate_thread E now msg ext a"
  obtain t where "map_of (sm_thread_map (ag_sm ?h)) = (map_of (sm_thread_map (ag_sm a)))
        (\<lparr>key_user_id = im_user_id msg, key_channel = im_channel msg, key_external = Some (ev_uuid_str E tid)\<rparr> \<mapsto> tid)"
    using hydrate_loads [OF assms(1,4-6)] .
  then have "map_of (sm_thread_map (ag_sm ?h))
        \<lparr>key_user_id = im_user_id msg, key_channel = im_channel msg, key_external = im_thread_id msg\<rparr> = None"
    using assms(2,3,7) by simp
  then show ?thesis
    by (auto simp: resolve_def draw_uuid_def resolve_thread_def get_or_create_session_def thread_of_def
        session_of_def Let_def update_conv' get_create_thread messages_def new_thread_def thread_with_id_def
        split: option.splits prod.splits)
qed

subsection \<open>Undo after a turn\<close>

lemma undo_manager_simps [simp]:
  "sm_undo (ag_sm (send_status c st a)) = sm_undo (ag_sm a)" "sm_undo (ag_sm (persist_turn i u x r a)) = sm_undo (ag_sm a)"
  by (simp_all add: send_status_def persist_turn_def spawn_def)

lemma finalize_undo: "finalize_loop_result E now msg tid out p a = (r, a') \<Longrightarrow> sm_undo (ag_sm a') = sm_undo (ag_sm a)"
  by (cases out) (auto simp: finalize_loop_result_def Let_def split: option.splits)

lemma finalize_thread: "finalize_loop_result E now msg tid out p a = (r, a') \<Longrightarrow>
    thread_of a (im_user_id msg) tid \<noteq> None \<Longrightarrow> thread_of a' (im_user_id msg) tid \<noteq> None"
  by (cases out) (auto simp: finalize_loop_result_def Let_def thread_of_update split: option.splits)

lemma checkpoint_manager:
  "map_of (sm_undo (ag_sm (checkpoint_before_turn E tid t a))) tid =
    Some (checkpoint_turn (ev_uuid E (ag_uuids a)) (turn_number t) (messages t) (''Before turn '' @ nat_str (turn_number t))
      (case map_of (sm_undo (ag_sm a)) tid of Some u \<Rightarrow> u | None \<Rightarrow> new_undo_manager))"
  by (auto simp: checkpoint_before_turn_def get_undo_manager_def draw_uuid_def set_undo_def Let_def update_conv'
      split: option.split)

lemma checkpoint_turn_last:
  "um_max u > 0 \<Longrightarrow> um_undo (checkpoint_turn i n ms d u) \<noteq> [] \<and>
    last (um_undo (checkpoint_turn i n ms d u)) = new_checkpoint i n ms d"
  by (simp add: checkpoint_turn_def add_checkpoint_def pop_front_while_over_eq keep_last_def Suc_diff_le)

text \<open>C21: Undo takes a turn back: after a turn that ended in whatever way, with a reply, an error or a
  question, \<open>/undo\<close> puts the thread back to exactly the messages it had before the turn.\<close>

theorem undo_after_turn:
  assumes "thread_of a (im_user_id msg) tid = Some t"
    and "run_turn E now msg tid content a = (r, b)" and "r \<noteq> None"
    and "case map_of (sm_undo (ag_sm a)) tid of Some u \<Rightarrow> um_max u > 0 | None \<Rightarrow> True"
  shows "\<exists>t' m. thread_of (snd (process_undo E now' (im_user_id msg) tid b)) (im_user_id msg) tid = Some t' \<and>
    messages t' = messages t \<and> th_state t' = Idle \<and>
    fst (process_undo E now' (im_user_id msg) tid b) = ok_with_message m"
proof -
  let ?user = "im_user_id msg"
  define a3 where "a3 = send_status (im_channel msg) (Thinking ''Processing...'')
      (update_thread ?user tid (start_turn now content) (checkpoint_before_turn E tid t a))"
  define ms where "ms = with_config_prompt E (messages (start_turn now content t))"
  obtain out a4 where loop: "run_agentic_loop E now msg tid ms False a3 = (out, a4)" by fastforce
  note rel = run_agentic_loop_rel [OF loop]
  have t3: "thread_of a3 ?user tid = Some (start_turn now content t)"
    by (simp add: a3_def thread_of_update assms(1))
  obtain t4 where t4: "thread_of a4 ?user tid = Some t4" "thread_rel (start_turn now content t) t4"
    using loop_rel_threads(2) [OF rel] t3 by (auto elim: option.rel_cases)
  have "th_state t4 = Processing" using thread_rel_fields [OF t4(2)] by (simp add: start_turn_def)
  then have fin: "finalize_loop_result E now msg tid out (Some (?user, content)) a4 = (r, b)"
    using assms(2,3) loop t4
    by (auto simp: run_turn_def assms(1) a3_def [symmetric] ms_def [symmetric] Let_def split: if_splits)
  obtain tb where tb: "thread_of b ?user tid = Some tb" using finalize_thread [OF fin] t4(1) by auto
  define u where "u = checkpoint_turn (ev_uuid E (ag_uuids a)) (turn_number t) (messages t)
      (''Before turn '' @ nat_str (turn_number t))
      (case map_of (sm_undo (ag_sm a)) tid of Some u \<Rightarrow> u | None \<Rightarrow> new_undo_manager)"
  have "sm_undo (ag_sm b) = sm_undo (ag_sm (checkpoint_before_turn E tid t a))"
    using finalize_undo [OF fin] rel by (simp add: loop_rel_def a3_def)
  then have "map_of (sm_undo (ag_sm b)) tid = Some u" by (simp add: checkpoint_manager u_def)
  then have w: "with_undo tid b = (u, b)" by (simp add: with_undo_def get_undo_manager_def)
  have last: "um_undo u \<noteq> [] \<and> last (um_undo u) = new_checkpoint (ev_uuid E (ag_uuids a)) (turn_number t)
      (messages t) (''Before turn '' @ nat_str (turn_number t))"
    unfolding u_def using assms(4)
    by (intro checkpoint_turn_last) (simp add: new_undo_manager_def DEFAULT_MAX_CHECKPOINTS_def split: option.splits)
  obtain x c where d: "draw_uuid E b = (x, c)" by fastforce
  have tc: "thread_of c ?user tid = Some tb" using draw_uuid_threads [OF d] tb by simp
  have "messages (restore_from_messages now' (messages t) tb) = messages t"
    by (simp add: messages_def restore_from_messages_def rebuild_messages)
  then show ?thesis
    using last tc
    by (auto simp: process_undo_def w d tb can_undo_def undo_def Let_def thread_of_update new_checkpoint_def
        restore_from_messages_def)
qed

subsection \<open>A model that answers with text only\<close>

definition text_answers :: "env \<Rightarrow> (nat \<Rightarrow> string) \<Rightarrow> bool" where
  "text_answers E answer \<longleftrightarrow> (\<forall>identity n ctx. \<exists>usage.
     respond_with_tools (ev_from_json E) (ev_llm E) identity n ctx = Inr \<lparr>ro_result = RespText (answer n), ro_usage = usage\<rparr>)"

lemma loop_text_step:
  assumes "text_answers E answer"
    and "\<forall>t. thread_of a (im_user_id msg) tid = Some t \<longrightarrow> th_state t \<noteq> Interrupted"
  obtains b where "thread_of b = thread_of a" "ag_llm_calls b = Suc (ag_llm_calls a)"
    "loop_from E now msg tid identity (Suc left) executed ms a =
      (if \<not> executed \<and> MAX_TOOL_ITERATIONS - left < 3 \<and> tool_definitions (ev_tools E) \<noteq> []
       then loop_from E now msg tid identity left False
              (ms @ [assistant_message (answer (ag_llm_calls a)), user_message proceed_prompt]) b
       else (LoopResponse (answer (ag_llm_calls a)), b))"
proof -
  let ?ctx = "\<lparr>rc_messages = ms, rc_available_tools = tool_definitions (ev_tools E),
                    rc_metadata = [(''thread_id'', ev_uuid_str E tid)]\<rparr>"
  obtain usage where r: "respond_with_tools (ev_from_json E) (ev_llm E) identity (ag_llm_calls a) ?ctx =
      Inr \<lparr>ro_result = RespText (answer (ag_llm_calls a)), ro_usage = usage\<rparr>"
    using assms(1) unfolding text_answers_def by blast
  let ?b = "record_cost E now tid usage (a\<lparr>ag_llm_calls := Suc (ag_llm_calls a)\<rparr>)"
  have th: "thread_of ?b = thread_of a"
    by (auto simp: record_cost_def draw_uuid_def thread_of_def session_of_def Let_def fun_eq_iff split: option.split prod.split)
  show thesis
    by (rule that [of ?b]) (use assms(2) in \<open>auto simp: th r after_answer_def Let_def split: option.splits\<close>)
qed

text \<open>C22: A model that only talks is asked to use its tools twice and then taken at its word: its third
  answer is the reply if there are tools, its first one if there are none or a tool has run already.\<close>

theorem text_answer_is_delivered:
  assumes "text_answers E answer"
    and "thread_of a (im_user_id msg) tid = Some t" and "th_state t \<noteq> Interrupted"
  shows "fst (run_agentic_loop E now msg tid ms executed a) = LoopResponse
    (answer (ag_llm_calls a + (if executed \<or> tool_definitions (ev_tools E) = [] then 0 else 2)))"
proof -
  obtain identity a0 where pre: "(case ag_workspace a of None \<Rightarrow> (None, a)
      | Some w \<Rightarrow> (let (prompt, w1) = system_prompt w
           in (if prompt \<noteq> [] then Some prompt else None, a\<lparr>ag_workspace := Some w1\<rparr>))) = (identity, a0)"
    by fastforce
  then have a0: "thread_of a0 = thread_of a" "ag_llm_calls a0 = ag_llm_calls a"
    by (auto split: option.splits prod.splits)
  have loop: "run_agentic_loop E now msg tid ms executed a =
      loop_from E now msg tid identity (Suc 9) executed ms a0"
    by (simp add: run_agentic_loop_def pre MAX_TOOL_ITERATIONS_def del: loop_from.simps)
  have alive: "\<forall>t. thread_of b (im_user_id msg) tid = Some t \<longrightarrow> th_state t \<noteq> Interrupted"
    if "thread_of b = thread_of a" for b
    using that assms(2,3) by simp
  have nine: "9 = Suc 8" "8 = Suc 7" by simp_all
  obtain b where b: "thread_of b = thread_of a" "ag_llm_calls b = Suc (ag_llm_calls a)"
    "loop_from E now msg tid identity (Suc 9) executed ms a0 =
      (if \<not> executed \<and> MAX_TOOL_ITERATIONS - 9 < 3 \<and> tool_definitions (ev_tools E) \<noteq> []
       then loop_from E now msg tid identity 9 False (ms @ [assistant_message (answer (ag_llm_calls a)), user_message proceed_prompt]) b
       else (LoopResponse (answer (ag_llm_calls a)), b))"
    using loop_text_step [OF assms(1) alive [OF a0(1)], of now identity 9 executed ms] a0 by metis
  let ?ms1 = "ms @ [assistant_message (answer (ag_llm_calls a)), user_message proceed_prompt]"
  obtain c where c: "thread_of c = thread_of a" "ag_llm_calls c = Suc (Suc (ag_llm_calls a))"
    "loop_from E now msg tid identity (Suc 8) False ?ms1 b =
      (if MAX_TOOL_ITERATIONS - 8 < 3 \<and> tool_definitions (ev_tools E) \<noteq> []
       then loop_from E now msg tid identity 8 False
         (?ms1 @ [assistant_message (answer (ag_llm_calls b)), user_message proceed_prompt]) c
       else (LoopResponse (answer (ag_llm_calls b)), c))"
    using loop_text_step [OF assms(1) alive [OF b(1)], of now identity 8 False ?ms1] b(1,2) by metis
  let ?ms2 = "?ms1 @ [assistant_message (answer (ag_llm_calls b)), user_message proceed_prompt]"
  obtain d where "loop_from E now msg tid identity (Suc 7) False ?ms2 c =
      (if MAX_TOOL_ITERATIONS - 7 < 3 \<and> tool_definitions (ev_tools E) \<noteq> []
       then loop_from E now msg tid identity 7 False
         (?ms2 @ [assistant_message (answer (ag_llm_calls c)), user_message proceed_prompt]) d
       else (LoopResponse (answer (ag_llm_calls c)), d))"
    using loop_text_step [OF assms(1) alive [OF c(1)], of now identity 7 False ?ms2] by metis
  then have third: "fst (loop_from E now msg tid identity (Suc 7) False ?ms2 c) = LoopResponse (answer (ag_llm_calls a + 2))"
    using c(2) by (simp add: MAX_TOOL_ITERATIONS_def del: loop_from.simps)
  show ?thesis
    using b(3) c(3) [folded nine] third [folded nine]
    by (auto simp: loop MAX_TOOL_ITERATIONS_def simp del: loop_from.simps)
qed

end
