(* ===== verification/Agent_Examples.thy ===== *)
theory Agent_Examples
  imports Agent_Flow
begin

text \<open>
  A small agent, with a model of fixed answers, a tool that asks for approval and an empty database,
  on which the properties of \<open>Agent_Safety\<close> and \<open>Agent_Flow\<close> are instantiated.
\<close>

definition talking_model :: "string \<Rightarrow> provider" where
  "talking_model s = \<lparr>model_name = ''m'', cost_per_token = (0, 0),
     complete = \<lambda>_ _. Inr \<lparr>rs_content = s, rs_input_tokens = 1, rs_output_tokens = 1,
       rs_finish_reason = FinishStop, rs_response_id = None\<rparr>,
     complete_with_tools = \<lambda>_ _. Inr \<lparr>tr_content = Some s, tr_tool_calls = [], tr_input_tokens = 1,
       tr_output_tokens = 1, tr_finish_reason = FinishStop, tr_response_id = None\<rparr>, list_models = Inr []\<rparr>"

definition mail_tool :: tool where
  "mail_tool = \<lparr>tl_name = ''mail'', tl_description = ''Send a mail'', tl_parameters_schema = JNull,
     tl_requires_approval = True,
     tl_execution_timeout = duration_secs 60, tl_domain = Orchestrator,
     tl_summarize = \<lambda>p. \<lparr>ts_verb = ''Send'', ts_target = ''mail'', ts_headline = ''Send a mail'', ts_raw_params = []\<rparr>,
     tl_execute = \<lambda>_ _. Some (Inr (JString ''sent''))\<rparr>"

definition uuid_text :: "uuid \<Rightarrow> string" where
  "uuid_text i = nat_str (unat i)"

definition example_env :: "tool list \<Rightarrow> env" where
  "example_env tools = \<lparr>ev_llm = talking_model ''hello'',
     ev_tools = fold register_sync tools new_tool_registry, ev_monitor = monitor_new,
     ev_config_prompt = None, ev_drafting = False, ev_uuid = of_nat, ev_uuid_str = uuid_text,
     ev_parse_uuid = (\<lambda>s. if s = ''7'' \<or> s = ''07'' then Some 7 else None), ev_from_json = (\<lambda>_. None), ev_pretty = (\<lambda>_. ''{}''),
     ev_fmt_date = (\<lambda>_. ''day''), ev_fmt_time = (\<lambda>_. ''time''), ev_show_duration = (\<lambda>_. ''1s'')\<rparr>"

definition example_agent :: agent where
  "example_agent = \<lparr>ag_sm = new_session_manager, ag_workspace = None,
     ag_store = Some \<lparr>cv_conversations = [], cv_messages = [], cv_llm_calls = [], cv_faults = []\<rparr>, ag_uuids = 0,
     ag_llm_calls = 0, ag_runs = 0, ag_executed = [], ag_statuses = [], ag_spawned = []\<rparr>"

definition example_message :: "string \<Rightarrow> string option \<Rightarrow> incoming_message" where
  "example_message content thread = \<lparr>im_channel = ''cli'', im_user_id = ''u'', im_user_name = None,
     im_content = content, im_thread_id = thread, im_metadata = JNull\<rparr>"

lemma parse_ping: "parse_submission pu js ''/ping'' = SystemCommand ''ping'' []"
  by code_simp

definition pinged_agent :: agent where
  "pinged_agent = example_agent\<lparr>ag_uuids := 2, ag_sm :=
        \<lparr>sm_sessions = [(''u'', create_thread 1 0 (new_session 0 0 ''u''))],
         sm_thread_map = [(\<lparr>key_user_id = ''u'', key_channel = ''cli'', key_external = None\<rparr>, 1)],
         sm_undo = [(1, new_undo_manager)]\<rparr>\<rparr>"

lemma resolve_new: "resolve (example_env tools) 0 (example_message s None) example_agent = (1, pinged_agent)"
  by (simp add: resolve_def draw_uuid_def resolve_thread_def get_or_create_session_def example_env_def
      example_agent_def example_message_def new_session_manager_def pinged_agent_def Let_def)

lemma handle_ping: "handle_message (example_env tools) 0 (example_message ''/ping'' None) example_agent =
    (Some (Inr (Some ''pong!'')), pinged_agent)"
proof -
  have "im_content (example_message ''/ping'' None) = ''/ping''" "im_thread_id (example_message ''/ping'' None) = None"
    by (simp_all add: example_message_def)
  then show ?thesis
    by (simp add: handle_message_def parse_ping resolve_new process_submission_def handle_system_command_def)
qed

lemma pinged_reached: "reach agent_init (agent_step (example_env tools) 3600)
    [Handled 0 (example_message ''/ping'' None)] pinged_agent"
proof -
  have "reach agent_init (agent_step (example_env tools) 3600) [] example_agent"
    by (rule reach_init) (simp add: agent_init_def example_agent_def)
  from reach_step [where init = agent_init and step = "agent_step (example_env tools) 3600" and es = "[]",
      OF this step_message [OF handle_ping]]
  show ?thesis by simp
qed

lemma pinged_thread: "thread_of pinged_agent ''u'' 1 = Some (new_thread 1 0 0)"
  by (simp add: pinged_agent_def thread_of_def session_of_def get_create_thread new_session_def)

lemma respond_hello: "respond_with_tools (ev_from_json (example_env tools)) (ev_llm (example_env tools)) identity n ctx =
    Inr \<lparr>ro_result = RespText ''hello'', ro_usage = \<lparr>tu_input_tokens = 1, tu_output_tokens = 1\<rparr>\<rparr>"
proof -
  have "recover_tool_calls_from_content (\<lambda>_. None) ''hello'' defs = []" for defs
    by (simp add: recover_tool_calls_from_content_def recover_delimiters_def recover_loop.simps)
  moreover have "clean_response ''hello'' = ''hello''" by code_simp
  ultimately show ?thesis
    by (simp add: respond_with_tools_def example_env_def talking_model_def Let_def)
qed

lemma hello_text: "text_answers (example_env tools) (\<lambda>_. ''hello'')"
  by (simp add: text_answers_def respond_hello)

lemma run_turn_returns:
  assumes "thread_of a (im_user_id msg) tid = Some t"
    and "run_agentic_loop E now msg tid (with_config_prompt E (messages (start_turn now content t))) False
      (send_status (im_channel msg) (Thinking ''Processing...'')
        (update_thread (im_user_id msg) tid (start_turn now content) (checkpoint_before_turn E tid t a))) =
      (LoopResponse s, a4)"
  shows "fst (run_turn E now msg tid content a) \<noteq> None"
  using assms
  by (simp add: run_turn_def Let_def finalize_loop_result_def not_found_def split: option.split)

subsection \<open>Witnesses\<close>

theorem threads_between_messages_witness:
  "thread_of pinged_agent ''u'' 1 = Some (new_thread 1 0 0) \<and> thread_inv (new_thread 1 0 0)"
  using threads_between_messages [OF pinged_reached pinged_thread] pinged_thread by simp

theorem no_turn_to_interrupt_witness:
  "fst (process_interrupt 5 ''u'' 1 pinged_agent) \<noteq> ok_with_message ''Interrupted.''"
  using no_turn_to_interrupt [OF pinged_reached pinged_thread, of 5]
  by (simp add: new_thread_def thread_with_id_def)

theorem undo_after_turn_witness:
  "\<exists>t' m. thread_of (snd (process_undo (example_env []) 9 ''u'' 1
      (snd (run_turn (example_env []) 5 (example_message ''hi'' None) 1 ''hi'' pinged_agent)))) ''u'' 1 = Some t' \<and>
    messages t' = [] \<and> fst (process_undo (example_env []) 9 ''u'' 1
      (snd (run_turn (example_env []) 5 (example_message ''hi'' None) 1 ''hi'' pinged_agent))) = ok_with_message m"
proof -
  let ?msg = "example_message ''hi'' None"
  have user: "im_user_id ?msg = ''u''" by (simp add: example_message_def)
  have nt: "messages (new_thread 1 0 0) = []" by (simp add: new_thread_def thread_with_id_def messages_def)
  obtain r b where run: "run_turn (example_env []) 5 ?msg 1 ''hi'' pinged_agent = (r, b)" by fastforce
  have "r \<noteq> None"
  proof -
    define a3 where "a3 = send_status (im_channel ?msg) (Thinking ''Processing...'')
      (update_thread ''u'' 1 (start_turn 5 ''hi'') (checkpoint_before_turn (example_env []) 1 (new_thread 1 0 0) pinged_agent))"
    have "thread_of a3 ''u'' 1 = Some (start_turn 5 ''hi'' (new_thread 1 0 0))"
      by (simp add: a3_def thread_of_update pinged_thread)
    then have alive: "\<forall>t. thread_of a3 (im_user_id ?msg) 1 = Some t \<longrightarrow> th_state t \<noteq> Interrupted"
      by (simp add: user start_turn_def)
    obtain c where "run_agentic_loop (example_env []) 5 ?msg 1
        (with_config_prompt (example_env []) (messages (start_turn 5 ''hi'' (new_thread 1 0 0)))) False a3 = (LoopResponse ''hello'', c)"
    proof -
      have ws: "ag_workspace a3 = None"
        by (simp add: a3_def send_status_def update_thread_def set_session_def checkpoint_before_turn_def
            get_undo_manager_def draw_uuid_def set_undo_def pinged_agent_def example_agent_def Let_def
            split: option.split)
      have nine: "MAX_TOOL_ITERATIONS = Suc 9" by (simp add: MAX_TOOL_ITERATIONS_def)
      have none: "tool_definitions (ev_tools (example_env [])) = []"
        by (simp add: tool_definitions_def example_env_def new_tool_registry_def)
      let ?ms = "with_config_prompt (example_env []) (messages (start_turn 5 ''hi'' (new_thread 1 0 0)))"
      obtain c where "loop_from (example_env []) 5 ?msg 1 None (Suc 9) False ?ms a3 =
          (if \<not> False \<and> MAX_TOOL_ITERATIONS - 9 < 3 \<and> tool_definitions (ev_tools (example_env [])) \<noteq> []
           then loop_from (example_env []) 5 ?msg 1 None 9 False (?ms @ [assistant_message ''hello'', user_message proceed_prompt]) c
           else (LoopResponse ''hello'', c))"
        by (rule loop_text_step [OF hello_text alive])
      then show thesis
        by (intro that [of c]) (simp add: run_agentic_loop_def ws none nine del: loop_from.simps)
    qed
    then have "fst (run_turn (example_env []) 5 ?msg 1 ''hi'' pinged_agent) \<noteq> None"
      unfolding a3_def by (intro run_turn_returns) (simp_all add: user pinged_thread del: loop_from.simps)
    then show ?thesis by (simp add: run)
  qed
  then show ?thesis
    using undo_after_turn [OF _ run, of "new_thread 1 0 0" 9] run pinged_thread
    by (auto simp: user nt pinged_agent_def example_agent_def new_undo_manager_def DEFAULT_MAX_CHECKPOINTS_def)
qed

theorem text_answer_is_delivered_witness:
  "fst (run_agentic_loop (example_env [mail_tool]) 0 (example_message ''hi'' None) 1 [] False pinged_agent) =
     LoopResponse ''hello''"
  using text_answer_is_delivered [OF hello_text, of pinged_agent "example_message ''hi'' None" 1 "new_thread 1 0 0"]
    pinged_thread
  by (simp add: example_message_def new_thread_def thread_with_id_def)

theorem turn_survives_restart_witness:
  "\<exists>t. thread_of (maybe_hydrate_thread (example_env []) 9 (example_message ''hi'' (Some ''7'')) ''7''
        (example_agent\<lparr>ag_store := Some (run_persist 1 2 5 7 ''u'' ''ping'' (Some ''pong'')
            \<lparr>cv_conversations = [], cv_messages = [], cv_llm_calls = [], cv_faults = []\<rparr>)\<rparr>)) ''u'' 7 = Some t \<and>
      messages t = [user_message ''ping'', assistant_message ''pong'']"
proof -
  have str: "uuid_text 7 = ''7''" by code_simp
  show ?thesis
    using turn_survives_restart [of "\<lparr>cv_conversations = [], cv_messages = [], cv_llm_calls = [], cv_faults = []\<rparr>"
        7 5 "[]" "example_agent\<lparr>ag_store := Some (run_persist 1 2 5 7 ''u'' ''ping'' (Some ''pong'')
            \<lparr>cv_conversations = [], cv_messages = [], cv_llm_calls = [], cv_faults = []\<rparr>)\<rparr>"
        1 2 "''u''" "''ping''" "Some ''pong''" "example_message ''hi'' (Some ''7'')" "example_env []" 9]
    by (auto simp: example_env_def example_message_def example_agent_def new_session_manager_def str messages_of_def
        history_of_def list_conversation_messages_def cv_query_ok List.map_filter_def thread_of_def session_of_def)
qed

theorem other_spelling_loses_history_witness:
  "let (i, b) = resolve (example_env []) 9 (example_message ''hi'' (Some ''07''))
      (maybe_hydrate_thread (example_env []) 9 (example_message ''hi'' (Some ''07'')) ''07'' example_agent)
   in \<exists>t. thread_of b ''u'' i = Some t \<and> messages t = []"
proof -
  have str: "uuid_text 7 = ''7''" by code_simp
  show ?thesis
    using other_spelling_loses_history [of "example_env []" "''07''" 7 "example_message ''hi'' (Some ''07'')"
        example_agent "the (ag_store example_agent)" 9]
    by (simp add: example_env_def example_message_def example_agent_def new_session_manager_def str thread_of_def
        session_of_def)
qed

definition mail_call :: "string \<Rightarrow> tool_call" where
  "mail_call i = \<lparr>tc_id = i, tc_name = ''mail'', tc_arguments = JNull\<rparr>"

lemma mail_asks: "needs_approval (example_env [mail_tool]) (mail_call i)"
    "auto_approved (example_env [mail_tool]) a ''u'' (mail_call i) = Some (''mail'' \<in> set (auto_of a ''u''))"
  by (simp_all add: needs_approval_def auto_approved_def mail_call_def example_env_def register_sync_def get_tool_def
      new_tool_registry_def mail_tool_def is_tool_auto_approved_def update_conv' auto_of_def Let_def split: option.split)

theorem approval_drops_later_calls_witness:
  "\<exists>p a'. after_answer (example_env [mail_tool]) (example_message ''hi'' None) 1 1 False True
      (RespToolCalls [mail_call ''a'', mail_call ''b''] None) [] pinged_agent = (Inl (LoopNeedApproval p), a') \<and>
    ''b'' \<in> set (unanswered (approved_context p ''sent''))"
proof -
  let ?E = "example_env [mail_tool]" and ?msg = "example_message ''hi'' None"
  have user: "im_user_id ?msg = ''u''" by (simp add: example_message_def)
  have empty: "auto_of (send_status c st pinged_agent) ''u'' = []" for c st
  proof -
    have "auto_of pinged_agent ''u'' = []"
      by (simp add: auto_of_def pinged_agent_def session_of_def create_thread_def new_session_def)
    then show ?thesis using auto_of_cong [OF agent_ops(1), of c st pinged_agent] by simp
  qed
  have asks: "run_calls ?E ?msg 1 (mail_call i # cs) ms b =
      (CallsNeed (make_pending ?E (fst (draw_uuid ?E b)) (mail_call i) ms), snd (draw_uuid ?E b))"
    if "auto_of b ''u'' = []" for i cs ms b
    using that by (simp add: user mail_asks Let_def case_prod_beta)
  have "pa_tool_call_id (make_pending ?E x (mail_call ''a'') ms) = ''a''" for x ms
    by (simp add: make_pending_def mail_call_def Let_def)
  then obtain p a' where run: "after_answer ?E ?msg 1 1 False True (RespToolCalls [mail_call ''a'', mail_call ''b''] None) []
      pinged_agent = (Inl (LoopNeedApproval p), a')" and p: "pa_tool_call_id p = ''a''"
    by (simp add: after_answer_def user asks empty Let_def del: run_calls.simps)
  show ?thesis
    using approval_drops_later_calls [of ?E ?msg 1 1 False True "[]" "mail_call ''a''" "[mail_call ''b'']" None "[]"
        pinged_agent p a' "''sent''"] run p
    by (auto simp: mail_call_def)
qed

end
