(* ===== verification/Pipeline.thy ===== *)
theory Pipeline
  imports Card_Queue Reasoning
begin

text \<open>
  The pipeline for incoming mail: its message types (\<open>src/src/pipeline/types.rs\<close>), the rules before
  the language model (\<open>src/src/pipeline/rules.rs\<close>), the triage by the model and the cards it leads to
  (\<open>src/src/pipeline/processor.rs\<close>), and the task that feeds it from the table of messages
  (\<open>src/src/pipeline/email_processor.rs\<close>).

  A regular expression is kept as its text; \<open>is_match\<close> is the matcher of the \<open>regex\<close> crate. A JSON
  number becomes an \<open>f32\<close> without rounding. The errors keep what their texts are made of.
\<close>

subsection \<open>Messages\<close>

record priority_hints =
  ph_is_reply_to_me :: bool
  ph_is_direct_message :: bool
  ph_has_question :: bool
  ph_sender_is_known :: bool
  ph_age_seconds :: nat

record context_message =
  cx_sender :: string
  cx_content :: string
  cx_timestamp :: "string option"

record inbound_message =
  ib_id :: string
  ib_channel :: string
  ib_sender :: string
  ib_sender_name :: "string option"
  ib_content :: string
  ib_subject :: "string option"
  ib_thread_context :: "context_message list"
  ib_reply_metadata :: json
  ib_received_at :: datetime
  ib_priority_hints :: priority_hints

datatype triage_action =
    Ignore string
  | Notify string
  | DraftReply string string f32 "string option" "string option"
  | Digest string

record processed_message =
  pm_original :: inbound_message
  pm_action :: triage_action
  pm_processed_at :: datetime

fun triage_label :: "triage_action \<Rightarrow> string" where
  "triage_label (Ignore _) = ''ignore''"
| "triage_label (Notify _) = ''notify''"
| "triage_label (DraftReply _ _ _ _ _) = ''draft_reply''"
| "triage_label (Digest _) = ''digest''"

text \<open>\<open>num_seconds\<close> truncates towards zero; a negative age counts as zero.\<close>

definition analyze_hints ::
  "datetime \<Rightarrow> string \<Rightarrow> string \<Rightarrow> string list \<Rightarrow> bool \<Rightarrow> bool \<Rightarrow> datetime \<Rightarrow> priority_hints" where
  "analyze_hints now content sender known_senders is_reply_to_me is_direct_message received_at =
     \<lparr>ph_is_reply_to_me = is_reply_to_me, ph_is_direct_message = is_direct_message,
      ph_has_question = CHR ''?'' \<in> set content,
      ph_sender_is_known = list_ex (\<lambda>s. to_lowercase s = to_lowercase sender) known_senders,
      ph_age_seconds = nat ((now - received_at) div nanos_per_sec)\<rparr>"

subsection \<open>Rules\<close>

datatype rule_field = FieldSender | FieldSubject | FieldContent

record ignore_rule =
  ir_pattern :: string
  ir_regex :: string
  ir_field :: rule_field
  ir_reason :: string

record notify_rule =
  nr_regex :: string
  nr_field :: rule_field
  nr_summary_prefix :: string

record rules_engine =
  re_ignore :: "ignore_rule list"
  re_notify :: "notify_rule list"
  re_always_card :: "string list"

definition default_rules :: rules_engine where
  "default_rules = \<lparr>re_ignore =
     [\<lparr>ir_pattern = ''noreply@*'', ir_regex = ''(?i)^no['' @ [CHR 0x5C] @ ''-_.]?reply@'',
       ir_field = FieldSender, ir_reason = ''noreply sender''\<rparr>,
      \<lparr>ir_pattern = ''*@marketing.*'', ir_regex = ''(?i)@(marketing|newsletter|promo|campaign)'' @ [CHR 0x5C] @ ''b'',
       ir_field = FieldSender, ir_reason = ''marketing/newsletter sender''\<rparr>,
      \<lparr>ir_pattern = ''mailer-daemon'', ir_regex = ''(?i)^(mailer['' @ [CHR 0x5C] @ ''-_]?daemon|postmaster)@'',
       ir_field = FieldSender, ir_reason = ''automated mail system''\<rparr>,
      \<lparr>ir_pattern = ''unsubscribe in subject'', ir_regex = ''(?i)'' @ [CHR 0x5C] @ ''bunsubscribe'' @ [CHR 0x5C] @ ''b'',
       ir_field = FieldSubject, ir_reason = ''newsletter/marketing (unsubscribe in subject)''\<rparr>,
      \<lparr>ir_pattern = ''unsubscribe footer'',
       ir_regex = ''(?i)(click here to unsubscribe|manage your subscription|email preferences|opt[- ]?out)'',
       ir_field = FieldContent, ir_reason = ''bulk/marketing email (unsubscribe footer)''\<rparr>,
      \<lparr>ir_pattern = ''notifications@github.com'', ir_regex = ''(?i)^notifications@github'' @ [CHR 0x5C] @ ''.com$'',
       ir_field = FieldSender, ir_reason = ''GitHub notification''\<rparr>],
    re_notify =
     [\<lparr>nr_regex = ''(?i)(your (order|package|shipment)|tracking (number|update)|has (shipped|been delivered)|out for delivery)'',
       nr_field = FieldContent, nr_summary_prefix = ''Shipping/delivery update''\<rparr>,
      \<lparr>nr_regex = ''(?i)(payment (received|confirmed)|receipt for|invoice #|your (receipt|transaction))'',
       nr_field = FieldContent, nr_summary_prefix = ''Payment/receipt''\<rparr>],
    re_always_card = []\<rparr>"

definition empty_rules :: rules_engine where
  "empty_rules = \<lparr>re_ignore = [], re_notify = [], re_always_card = []\<rparr>"

text \<open>A pattern that does not compile (\<open>compiles\<close>) is an error and changes nothing.\<close>

definition add_always_card :: "(string \<Rightarrow> bool) \<Rightarrow> string \<Rightarrow> rules_engine \<Rightarrow> bool \<times> rules_engine" where
  "add_always_card compiles pattern re =
     (if compiles pattern then (True, re\<lparr>re_always_card := re_always_card re @ [pattern]\<rparr>) else (False, re))"

definition add_ignore_rule ::
  "(string \<Rightarrow> bool) \<Rightarrow> string \<Rightarrow> rule_field \<Rightarrow> string \<Rightarrow> rules_engine \<Rightarrow> bool \<times> rules_engine" where
  "add_ignore_rule compiles pattern field reason re =
     (if compiles pattern
      then (True, re\<lparr>re_ignore := re_ignore re @
             [\<lparr>ir_pattern = pattern, ir_regex = pattern, ir_field = field, ir_reason = reason\<rparr>]\<rparr>)
      else (False, re))"

fun field_value :: "rule_field \<Rightarrow> inbound_message \<Rightarrow> string option" where
  "field_value FieldSender m = Some (ib_sender m)"
| "field_value FieldSubject m = ib_subject m"
| "field_value FieldContent m = Some (ib_content m)"

fun run_ignore :: "(string \<Rightarrow> string \<Rightarrow> bool) \<Rightarrow> ignore_rule list \<Rightarrow> inbound_message \<Rightarrow> triage_action option" where
  "run_ignore is_match [] m = None"
| "run_ignore is_match (r # rs) m = (case field_value (ir_field r) m of
     None \<Rightarrow> run_ignore is_match rs m
   | Some v \<Rightarrow> if is_match (ir_regex r) v then Some (Ignore (ir_reason r)) else run_ignore is_match rs m)"

fun run_notify :: "(string \<Rightarrow> string \<Rightarrow> bool) \<Rightarrow> notify_rule list \<Rightarrow> inbound_message \<Rightarrow> triage_action option" where
  "run_notify is_match [] m = None"
| "run_notify is_match (r # rs) m = (case field_value (nr_field r) m of
     None \<Rightarrow> run_notify is_match rs m
   | Some v \<Rightarrow>
       if is_match (nr_regex r) v
       then Some (Notify (nr_summary_prefix r @ '': from '' @
              (case ib_sender_name m of Some n \<Rightarrow> n | None \<Rightarrow> ib_sender m)))
       else run_notify is_match rs m)"

definition evaluate :: "(string \<Rightarrow> string \<Rightarrow> bool) \<Rightarrow> rules_engine \<Rightarrow> inbound_message \<Rightarrow> triage_action option" where
  "evaluate is_match re m =
     (if list_ex (\<lambda>p. is_match p (ib_sender m)) (re_always_card re) then None
      else case run_ignore is_match (re_ignore re) m of
             Some a \<Rightarrow> Some a
           | None \<Rightarrow> run_notify is_match (re_notify re) m)"

subsection \<open>Asking the model\<close>

definition quoted :: "string \<Rightarrow> string" where
  "quoted s = [CHR 0x22] @ s @ [CHR 0x22]"

definition dash :: string where
  "dash = [CHR 0xE2, CHR 0x80, CHR 0x94]"

definition build_triage_system_prompt :: string where
  "build_triage_system_prompt =
     ''You are a message triage engine. Classify incoming messages into one of four actions.'' @ newlines 2 @
     ''Actions:'' @ newlines 1 @
     ''- '' @ quoted ''ignore'' @ '': spam, newsletters, marketing, automated noise. Provide reason.'' @ newlines 1 @
     ''- '' @ quoted ''notify'' @ '': FYI only '' @ dash @ '' user should see it but no reply needed. Provide summary.'' @ newlines 1 @
     ''- '' @ quoted ''draft_reply'' @ '': needs a response '' @ dash @
       '' draft one. Provide summary, draft, confidence (0.0-1.0).'' @ newlines 1 @
     ''- '' @ quoted ''digest'' @ '': low priority '' @ dash @
       '' can be batched into a periodic summary. Provide summary.'' @ newlines 2 @
     ''Respond with ONLY a JSON object:'' @ newlines 1 @
     ''{'' @ quoted ''action'' @ '': '' @ quoted ''...'' @ '', '' @ quoted ''reason'' @ '': '' @ quoted ''...'' @ '', '' @
       quoted ''summary'' @ '': '' @ quoted ''...'' @ '', '' @ quoted ''draft'' @ '': '' @ quoted ''...'' @ '', '' @
       quoted ''confidence'' @ '': 0.0, '' @ quoted ''tone'' @ '': '' @ quoted ''...'' @ '', '' @
       quoted ''style_notes'' @ '': '' @ quoted ''...'' @ ''}'' @ newlines 2 @
     ''Rules:'' @ newlines 1 @
     ''- Be concise in summaries (1 sentence max)'' @ newlines 1 @
     ''- Draft replies should sound natural, not robotic'' @ newlines 1 @
     ''- High confidence (>0.8) only for straightforward replies'' @ newlines 1 @
     ''- When in doubt between notify and draft_reply, choose notify'' @ newlines 1 @
     ''- Omit fields that don'' @ [CHR 0x27] @ ''t apply (e.g., no '' @ quoted ''draft'' @ '' for notify actions)'' @ newlines 1 @
     ''- For draft_reply: include '' @ quoted ''tone'' @ '' (max 10 words, e.g. '' @ quoted ''casual and friendly'' @
       '') and optionally '' @ quoted ''style_notes'' @ '' (max 15 words, e.g. '' @
       quoted ''uses first names, keep it brief'' @ '')''"

definition first_chars :: "nat \<Rightarrow> string \<Rightarrow> string" where
  "first_chars n s = concat (take n (chars s))"

definition hint_flags :: "priority_hints \<Rightarrow> string list" where
  "hint_flags h =
     (if ph_is_reply_to_me h then [''replying to me''] else []) @
     (if ph_is_direct_message h then [''direct message''] else []) @
     (if ph_has_question h then [''contains question''] else []) @
     (if ph_sender_is_known h then [''known sender''] else [])"

definition build_triage_user_prompt :: "inbound_message \<Rightarrow> string" where
  "build_triage_user_prompt m =
     ''Channel: '' @ ib_channel m @ newlines 1 @ ''From: '' @ ib_sender m @
     (case ib_sender_name m of Some n \<Rightarrow> '' ('' @ n @ '')'' | None \<Rightarrow> []) @ newlines 1 @
     (case ib_subject m of Some s \<Rightarrow> ''Subject: '' @ s @ newlines 1 | None \<Rightarrow> []) @
     (let flags = hint_flags (ib_priority_hints m)
      in if flags \<noteq> [] then ''Signals: '' @ join '', '' flags @ newlines 1 else []) @
     (if ib_thread_context m \<noteq> []
      then newlines 1 @ ''Recent thread:'' @ newlines 1 @
        concat (map (\<lambda>(i, c). ''  ['' @ nat_str (i + 1) @ ''] '' @ cx_sender c @ '': '' @
            first_chars 200 (cx_content c) @ newlines 1) (enumerate 0 (take 3 (ib_thread_context m))))
      else []) @
     newlines 1 @ ''Message:'' @ newlines 1 @ first_chars 1000 (ib_content m)"

subsection \<open>Reading the answer\<close>

text \<open>The text between a first occurrence of \<open>o_tag\<close> and the next \<open>close\<close>.\<close>

definition between :: "string \<Rightarrow> string \<Rightarrow> string \<Rightarrow> string option" where
  "between o_tag close s = (case find_sub o_tag s of
     None \<Rightarrow> None
   | Some start \<Rightarrow>
       (let after = drop (start + length o_tag) s
        in map_option (\<lambda>e. trim (take e after)) (find_sub close after)))"

definition extract_json_object :: "string \<Rightarrow> string" where
  "extract_json_object s =
     (let trimmed = trim s in
      if str_starts_with trimmed ''{'' then trimmed
      else case between ''```json'' ''```'' trimmed of
        Some inner \<Rightarrow> inner
      | None \<Rightarrow>
          (case between ''```'' ''```'' trimmed of
             Some inner \<Rightarrow> if str_starts_with inner ''{'' then inner
                           else (case extract_json trimmed of Some j \<Rightarrow> j | None \<Rightarrow> trimmed)
           | None \<Rightarrow> (case extract_json trimmed of Some j \<Rightarrow> j | None \<Rightarrow> trimmed)))"

definition triage_fields :: "string list" where
  "triage_fields = [''action'', ''reason'', ''summary'', ''draft'', ''confidence'', ''tone'', ''style_notes'']"

text \<open>What the derived deserializer of a struct accepts: an object without duplicate fields, or an array
  with the fields in order; unknown fields are ignored.\<close>

fun struct_fields :: "string list \<Rightarrow> json \<Rightarrow> (string \<Rightarrow> json option) option" where
  "struct_fields names (JObject kvs) =
     (if distinct (filter (\<lambda>k. k \<in> set names) (map fst kvs)) then Some (map_of kvs) else None)"
| "struct_fields names (JArray xs) = (if length xs \<le> length names then Some (map_of (zip names xs)) else None)"
| "struct_fields names _ = None"

definition str_or_default :: "(string \<Rightarrow> json option) \<Rightarrow> string \<Rightarrow> string option" where
  "str_or_default f k = (case f k of None \<Rightarrow> Some [] | Some v \<Rightarrow> as_str v)"

fun json_number_value :: "json_number \<Rightarrow> rat" where
  "json_number_value (PosInt n) = of_nat n"
| "json_number_value (NegInt i) = of_int i"
| "json_number_value (Float x) = x"

definition num_or_default :: "(string \<Rightarrow> json option) \<Rightarrow> string \<Rightarrow> f32 option" where
  "num_or_default f k = (case f k of
     None \<Rightarrow> Some (Fin 0) | Some (JNumber x) \<Rightarrow> Some (Fin (json_number_value x)) | Some _ \<Rightarrow> None)"

record triage_response =
  tg_action :: string
  tg_reason :: string
  tg_summary :: string
  tg_draft :: string
  tg_confidence :: f32
  tg_tone :: string
  tg_style_notes :: string

definition decode_triage :: "json \<Rightarrow> triage_response option" where
  "decode_triage v =
     do {
       f \<leftarrow> struct_fields triage_fields v;
       a \<leftarrow> Option.bind (f ''action'') as_str;
       reason \<leftarrow> str_or_default f ''reason''; summary \<leftarrow> str_or_default f ''summary'';
       draft \<leftarrow> str_or_default f ''draft''; confidence \<leftarrow> num_or_default f ''confidence'';
       tone \<leftarrow> str_or_default f ''tone''; style \<leftarrow> str_or_default f ''style_notes'';
       Some \<lparr>tg_action = a, tg_reason = reason, tg_summary = summary, tg_draft = draft,
             tg_confidence = confidence, tg_tone = tone, tg_style_notes = style\<rparr>
     }"

datatype triage_error = BadJson | DraftMissing | UnknownAction string

definition some_text :: "string \<Rightarrow> string option" where
  "some_text s = (if s = [] then None else Some s)"

definition or_text :: "string \<Rightarrow> string \<Rightarrow> string" where
  "or_text s d = (if s = [] then d else s)"

definition parse_triage_response :: "(string \<Rightarrow> json option) \<Rightarrow> string \<Rightarrow> triage_error + triage_action" where
  "parse_triage_response from_json raw =
     (case Option.bind (from_json (extract_json_object raw)) decode_triage of
        None \<Rightarrow> Inl BadJson
      | Some r \<Rightarrow>
          if tg_action r = ''ignore'' then Inr (Ignore (or_text (tg_reason r) ''LLM triage: ignore''))
          else if tg_action r = ''notify'' then Inr (Notify (or_text (tg_summary r) ''New message''))
          else if tg_action r = ''draft_reply'' then
            (if tg_draft r = [] then Inl DraftMissing
             else Inr (DraftReply (or_text (tg_summary r) ''Message needs reply'') (tg_draft r)
                    (f32_clamp (Fin 0) (Fin 1) (tg_confidence r)) (some_text (tg_tone r)) (some_text (tg_style_notes r))))
          else if tg_action r = ''digest'' then Inr (Digest (or_text (tg_summary r) ''Low priority message''))
          else Inl (UnknownAction (tg_action r)))"

subsection \<open>The processor\<close>

datatype pipeline_error = TriageCall llm_error | TriageParse triage_error

record mail_env =
  me_llm :: provider
  me_rules :: rules_engine
  me_is_match :: "string \<Rightarrow> string \<Rightarrow> bool"
  me_from_json :: "string \<Rightarrow> json option"
  me_card_id :: "nat \<Rightarrow> uuid"

text \<open>The queue with the database behind it, and how many requests and cards were made.\<close>

record pipeline =
  pl_queue :: card_queue
  pl_calls :: nat
  pl_cards :: nat

definition triage :: "mail_env \<Rightarrow> inbound_message \<Rightarrow> pipeline \<Rightarrow> (pipeline_error + triage_action) \<times> pipeline" where
  "triage E m st =
     (case complete (me_llm E) (pl_calls st)
             ((completion_request_new
                 [system_message build_triage_system_prompt, user_message (build_triage_user_prompt m)])
                \<lparr>rq_temperature := Some (1/10), rq_max_tokens := Some 512\<rparr>) of
        Inl e \<Rightarrow> Inl (TriageCall e)
      | Inr r \<Rightarrow> (case parse_triage_response (me_from_json E) (rs_content r) of
            Inl e \<Rightarrow> Inl (TriageParse e) | Inr a \<Rightarrow> Inr a),
      st\<lparr>pl_calls := Suc (pl_calls st)\<rparr>)"

definition CARD_EXPIRE_MINUTES :: "32 word" where
  "CARD_EXPIRE_MINUTES = 60"

definition push_card ::
  "mail_env \<Rightarrow> datetime \<Rightarrow> inbound_message \<Rightarrow> string \<Rightarrow> f32 \<Rightarrow> json \<Rightarrow> 32 word \<Rightarrow> pipeline \<Rightarrow> pipeline" where
  "push_card E now m text confidence metadata expire st =
     st\<lparr>pl_cards := Suc (pl_cards st),
        pl_queue := push now
          (new_card (me_card_id E (pl_cards st)) now
             (Reply \<lparr>r_channel = ib_channel m, r_source_sender = ib_sender m, r_source_message = ib_content m,
                     r_suggested_reply = text, r_confidence = confidence, r_conversation_id = ib_id m,
                     r_thread = [], r_email_thread = [], r_reply_metadata = Some metadata, r_message_id = None\<rparr>)
             Messages expire) (pl_queue st)\<rparr>"

text \<open>Writing a field into metadata that is neither an object nor null panics: the result \<open>None\<close>.\<close>

definition set_field :: "string \<Rightarrow> string option \<Rightarrow> json \<Rightarrow> json option" where
  "set_field k v j = (case v of None \<Rightarrow> Some j | Some s \<Rightarrow> json_set k (JString s) j)"

definition route_to_card :: "mail_env \<Rightarrow> datetime \<Rightarrow> inbound_message \<Rightarrow> triage_action \<Rightarrow> pipeline \<Rightarrow> pipeline option" where
  "route_to_card E now m a st = (case a of
     Ignore reason \<Rightarrow> Some st
   | Notify summary \<Rightarrow>
       Some (push_card E now m (''[Notification] '' @ summary) (Fin 0) (ib_reply_metadata m) CARD_EXPIRE_MINUTES st)
   | DraftReply summary draft confidence tone style \<Rightarrow>
       map_option (\<lambda>metadata. push_card E now m draft (f32_clamp (Fin 0) (Fin 1) confidence) metadata CARD_EXPIRE_MINUTES st)
         (Option.bind (set_field ''tone'' tone (ib_reply_metadata m)) (set_field ''style_notes'' style))
   | Digest summary \<Rightarrow>
       Some (push_card E now m (''[Digest] '' @ summary) (Fin 0) (ib_reply_metadata m) (CARD_EXPIRE_MINUTES * 4) st))"

text \<open>The result \<open>None\<close> is a panic.\<close>

definition process ::
  "mail_env \<Rightarrow> datetime \<Rightarrow> inbound_message \<Rightarrow> pipeline \<Rightarrow> ((pipeline_error + processed_message) \<times> pipeline) option" where
  "process E now m st =
     (let (r, st1) = (case evaluate (me_is_match E) (me_rules E) m of
            Some a \<Rightarrow> (Inr a, st) | None \<Rightarrow> triage E m st)
      in case r of
           Inl e \<Rightarrow> Some (Inl e, st1)
         | Inr a \<Rightarrow> map_option (\<lambda>st2. (Inr \<lparr>pm_original = m, pm_action = a, pm_processed_at = now\<rparr>, st2))
                      (route_to_card E now m a st1))"

fun process_batch ::
  "mail_env \<Rightarrow> datetime \<Rightarrow> inbound_message list \<Rightarrow> pipeline \<Rightarrow> (processed_message list \<times> pipeline) option" where
  "process_batch E now [] st = Some ([], st)"
| "process_batch E now (m # ms) st = do {
     (r, st1) \<leftarrow> process E now m st;
     (rs, st2) \<leftarrow> process_batch E now ms st1;
     Some (case r of Inr p \<Rightarrow> p # rs | Inl _ \<Rightarrow> rs, st2)
   }"

subsection \<open>Pending mails\<close>

definition stored_to_inbound :: "(string \<Rightarrow> json option) \<Rightarrow> datetime \<Rightarrow> stored_message \<Rightarrow> inbound_message" where
  "stored_to_inbound from_json now s =
     (let metadata = (case Option.bind (m_metadata s) from_json of Some v \<Rightarrow> v | None \<Rightarrow> JNull)
      in \<lparr>ib_id = m_id s, ib_channel = m_channel s, ib_sender = m_sender s, ib_sender_name = None,
          ib_content = m_content s, ib_subject = m_subject s, ib_thread_context = [],
          ib_reply_metadata = json_index metadata ''reply_metadata'', ib_received_at = m_received_at s,
          ib_priority_hints = analyze_hints now (m_content s) (m_sender s) [] False True (m_received_at s)\<rparr>)"

fun process_stored :: "mail_env \<Rightarrow> datetime \<Rightarrow> stored_message list \<Rightarrow> pipeline \<Rightarrow> pipeline option" where
  "process_stored E now [] st = Some st"
| "process_stored E now (s # ss) st = do {
     (r, st1) \<leftarrow> process E now (stored_to_inbound (me_from_json E) now s) st;
     process_stored E now ss (case r of
         Inr _ \<Rightarrow> st1\<lparr>pl_queue := queue_update_message_status now (m_id s) MsgReplied (pl_queue st1)\<rparr>
       | Inl _ \<Rightarrow> st1)
   }"

definition process_pending_emails :: "mail_env \<Rightarrow> datetime \<Rightarrow> pipeline \<Rightarrow> pipeline option" where
  "process_pending_emails E now st = (case q_db (pl_queue st) of
     None \<Rightarrow> Some st
   | Some db \<Rightarrow>
       (let (r, db1) = get_pending_messages db;
            st1 = st\<lparr>pl_queue := (pl_queue st)\<lparr>q_db := Some db1\<rparr>\<rparr>
        in case r of
             Inl _ \<Rightarrow> Some st1
           | Inr ms \<Rightarrow> process_stored E now (filter (\<lambda>m. m_channel m = ''email'') ms) st1))"

end
