(* ===== verification/Pipeline_Safety.thy ===== *)
theory Pipeline_Safety
  imports Pipeline Agent_Examples
begin

text \<open>
  What the pipeline for incoming mail promises: the rules against a declarative reading, the cards that
  reach the user, and which stored mails are marked as replied.
\<close>

subsection \<open>The rules\<close>

definition rule_applies :: "(string \<Rightarrow> string \<Rightarrow> bool) \<Rightarrow> inbound_message \<Rightarrow> rule_field \<Rightarrow> string \<Rightarrow> bool" where
  "rule_applies is_match m fld regex = (\<exists>v. field_value fld m = Some v \<and> is_match regex v)"

definition display_name :: "inbound_message \<Rightarrow> string" where
  "display_name m = (case ib_sender_name m of Some n \<Rightarrow> n | None \<Rightarrow> ib_sender m)"

lemma run_ignore_find:
  "run_ignore is_match rs m =
     map_option (\<lambda>r. Ignore (ir_reason r)) (List.find (\<lambda>r. rule_applies is_match m (ir_field r) (ir_regex r)) rs)"
  by (induction rs) (auto simp: rule_applies_def split: option.split)

lemma run_notify_find:
  "run_notify is_match rs m =
     map_option (\<lambda>r. Notify (nr_summary_prefix r @ '': from '' @ display_name m))
       (List.find (\<lambda>r. rule_applies is_match m (nr_field r) (nr_regex r)) rs)"
  by (induction rs) (auto simp: rule_applies_def display_name_def split: option.split)

text \<open>C34: The rules engine computes this function: an always-card sender is left to the model; otherwise
  the first ignore rule that applies decides, then the first notify rule that applies, and nothing else.
  So an ignore rule wins over every notify rule, whatever order they were added in.\<close>

theorem evaluate_first_rule:
  "evaluate is_match re m =
     (if \<exists>p. p \<in> set (re_always_card re) \<and> is_match p (ib_sender m) then None
      else case List.find (\<lambda>r. rule_applies is_match m (ir_field r) (ir_regex r)) (re_ignore re) of
        Some r \<Rightarrow> Some (Ignore (ir_reason r))
      | None \<Rightarrow> map_option (\<lambda>r. Notify (nr_summary_prefix r @ '': from '' @ display_name m))
          (List.find (\<lambda>r. rule_applies is_match m (nr_field r) (nr_regex r)) (re_notify re)))"
  by (auto simp: evaluate_def run_ignore_find run_notify_find list_ex_iff split: option.split)

lemma rules_kind: "evaluate is_match re m = Some a \<Longrightarrow> (\<exists>r. a = Ignore r) \<or> (\<exists>s. a = Notify s)"
  by (auto simp: evaluate_def run_ignore_find run_notify_find split: if_splits option.splits)

subsection \<open>Cards\<close>

fun is_ignore :: "triage_action \<Rightarrow> bool" where
  "is_ignore (Ignore _) = True"
| "is_ignore _ = False"

definition card_for :: "datetime \<Rightarrow> inbound_message \<Rightarrow> approval_card \<Rightarrow> bool" where
  "card_for now m c \<longleftrightarrow> c_status c = CardPending \<and> c_silo c = Messages \<and> c_created_at c = now \<and>
     c_expires_at c \<in> Some ` {now + duration_minutes 60, now + duration_minutes 240} \<and>
     (\<exists>r. c_payload c = Reply r \<and> r_channel r = ib_channel m \<and> r_source_sender r = ib_sender m \<and>
        r_source_message r = ib_content m \<and> r_conversation_id r = ib_id m \<and> r_message_id r = None)"

lemma push_card_cards:
  "expire \<in> {CARD_EXPIRE_MINUTES, CARD_EXPIRE_MINUTES * 4} \<Longrightarrow>
   \<exists>c. pl_queue (push_card E now m text conf md expire st) = push now c (pl_queue st) \<and> card_for now m c"
  by (auto simp: push_card_def card_for_def new_card_def CARD_EXPIRE_MINUTES_def)

lemma route_cards:
  assumes "route_to_card E now m a st = Some st'"
  shows "if is_ignore a then st' = st
         else \<exists>c. pl_queue st' = push now c (pl_queue st) \<and> card_for now m c"
  using assms by (cases a) (auto simp: route_to_card_def intro!: push_card_cards)

lemma triage_queue [simp]: "pl_queue (snd (triage E m st)) = pl_queue st"
  by (simp add: triage_def)

lemma process_cards:
  assumes "process E now m st = Some (r, st')"
  shows "case r of
      Inr p \<Rightarrow> pm_original p = m \<and>
        (if is_ignore (pm_action p) then pl_queue st' = pl_queue st
         else \<exists>c. pl_queue st' = push now c (pl_queue st) \<and> card_for now m c)
    | Inl e \<Rightarrow> pl_queue st' = pl_queue st"
proof (cases "evaluate (me_is_match E) (me_rules E) m")
  case None
  obtain x st1 where t: "triage E m st = (x, st1)" by (cases "triage E m st") auto
  then have q: "pl_queue st1 = pl_queue st" using triage_queue [of E m st] by simp
  show ?thesis
    using assms None t q by (auto simp: process_def Let_def dest!: route_cards split: sum.splits if_splits)
next
  case (Some a)
  then show ?thesis
    using assms by (auto simp: process_def Let_def dest!: route_cards split: if_splits)
qed


subsection \<open>Stored mails\<close>

definition replied :: "datetime \<Rightarrow> message_row \<Rightarrow> message_row" where
  "replied now r = r\<lparr>mr_status := ''replied'', mr_replied_at := Some now, mr_updated_at := now\<rparr>"

definition triage_ok :: "mail_env \<Rightarrow> nat \<Rightarrow> inbound_message \<Rightarrow> bool" where
  "triage_ok E n m = (case fst (triage E m \<lparr>pl_queue = new_queue, pl_calls = n, pl_cards = 0\<rparr>) of
     Inr _ \<Rightarrow> True | Inl _ \<Rightarrow> False)"

text \<open>The mails settled by a pass, when \<open>n\<close> requests were made before.\<close>

fun settled :: "mail_env \<Rightarrow> datetime \<Rightarrow> nat \<Rightarrow> stored_message list \<Rightarrow> string set" where
  "settled E now n [] = {}"
| "settled E now n (s # ss) =
     (let m = stored_to_inbound (me_from_json E) now s in
      if evaluate (me_is_match E) (me_rules E) m \<noteq> None then insert (m_id s) (settled E now n ss)
      else if triage_ok E n m then insert (m_id s) (settled E now (Suc n) ss)
      else settled E now (Suc n) ss)"

lemma triage_fst: "fst (triage E m st) = fst (triage E m \<lparr>pl_queue = q, pl_calls = pl_calls st, pl_cards = k\<rparr>)"
  by (simp add: triage_def)

lemma route_calls: "route_to_card E now m a st = Some st' \<Longrightarrow> pl_calls st' = pl_calls st"
  by (cases a) (auto simp: route_to_card_def push_card_def)

lemma process_outcome:
  assumes "process E now m st = Some (r, st')"
  shows "pl_calls st' = (if evaluate (me_is_match E) (me_rules E) m = None then Suc (pl_calls st) else pl_calls st)"
    and "(\<exists>p. r = Inr p) \<longleftrightarrow> evaluate (me_is_match E) (me_rules E) m \<noteq> None \<or> triage_ok E (pl_calls st) m"
proof -
  obtain x st1 where t: "triage E m st = (x, st1)" by (cases "triage E m st") auto
  have c: "pl_calls st1 = Suc (pl_calls st)" using t by (auto simp: triage_def)
  have x: "triage_ok E (pl_calls st) m \<longleftrightarrow> (\<exists>a. x = Inr a)"
    using t triage_fst [of E m st new_queue 0] by (auto simp: triage_ok_def split: sum.splits)
  show "pl_calls st' = (if evaluate (me_is_match E) (me_rules E) m = None then Suc (pl_calls st) else pl_calls st)"
    using assms t c by (auto simp: process_def Let_def dest: route_calls split: sum.splits option.splits)
  show "(\<exists>p. r = Inr p) \<longleftrightarrow> evaluate (me_is_match E) (me_rules E) m \<noteq> None \<or> triage_ok E (pl_calls st) m"
    using assms t x by (auto simp: process_def Let_def split: sum.splits option.splits)
qed

definition messages_of :: "pipeline \<Rightarrow> message_row list" where
  "messages_of st = (case q_db (pl_queue st) of None \<Rightarrow> [] | Some db \<Rightarrow> db_messages db)"

lemma push_messages:
  assumes "q_db q = Some db"
  shows "\<exists>db'. q_db (push now c q) = Some db' \<and> db_messages db' = db_messages db \<and>
     (db_faults db = [] \<longrightarrow> db_faults db' = [])"
  using assms
  by (auto simp: push_def Let_def persist_db insert_card_def execute_def tick_def)

lemma process_messages:
  assumes "process E now m st = Some (r, st')" "q_db (pl_queue st) = Some db"
  shows "\<exists>db'. q_db (pl_queue st') = Some db' \<and> db_messages db' = db_messages db \<and>
     (db_faults db = [] \<longrightarrow> db_faults db' = [])"
proof -
  have "pl_queue st' = pl_queue st \<or> (\<exists>c. pl_queue st' = push now c (pl_queue st))"
    using process_cards [OF assms(1)] by (auto split: sum.splits if_splits)
  then show ?thesis using assms(2) push_messages by auto
qed

definition mark_replied :: "datetime \<Rightarrow> string set \<Rightarrow> message_row list \<Rightarrow> message_row list" where
  "mark_replied now ids rs = map (\<lambda>r. if mr_id r \<in> ids then replied now r else r) rs"

lemma replied_simps [simp]: "mr_id (replied now r) = mr_id r" "replied now (replied now r) = replied now r"
  by (simp_all add: replied_def)

lemma mark_replied_insert: "mark_replied now ids (mark_replied now {i} rs) = mark_replied now (insert i ids) rs"
  by (auto simp: mark_replied_def)

lemma mark_replied_empty: "mark_replied now {} rs = rs"
  by (simp add: mark_replied_def)

lemma update_marks:
  "q_db q = Some db \<Longrightarrow> db_faults db = [] \<Longrightarrow>
   \<exists>db'. q_db (queue_update_message_status now i MsgReplied q) = Some db' \<and> db_faults db' = [] \<and>
     db_messages db' = mark_replied now {i} (db_messages db)"
  by (auto simp: queue_update_message_status_def persist_db update_message_status_def execute_def fault_def
      mark_replied_def replied_def tick_def)

lemma process_stored_marks:
  "process_stored E now ss st = Some st' \<Longrightarrow> q_db (pl_queue st) = Some db \<Longrightarrow> db_faults db = [] \<Longrightarrow>
   \<exists>db'. q_db (pl_queue st') = Some db' \<and> db_faults db' = [] \<and>
     db_messages db' = mark_replied now (settled E now (pl_calls st) ss) (db_messages db)"
proof (induction ss arbitrary: st db)
  case Nil
  then show ?case by (simp add: mark_replied_empty)
next
  case (Cons s ss)
  let ?m = "stored_to_inbound (me_from_json E) now s"
  obtain r st1 where run: "process E now ?m st = Some (r, st1)"
    using Cons.prems(1) by (auto split: Option.bind_splits)
  note out = process_outcome [OF run]
  obtain db1 where db1: "q_db (pl_queue st1) = Some db1" "db_messages db1 = db_messages db" "db_faults db1 = []"
    using process_messages [OF run Cons.prems(2)] Cons.prems(3) by auto
  show ?case
  proof (cases r)
    case (Inl e)
    then show ?thesis
      using Cons.IH [of st1 db1] Cons.prems(1) run db1 out by (auto simp: Let_def)
  next
    case (Inr p)
    let ?st2 = "st1\<lparr>pl_queue := queue_update_message_status now (m_id s) MsgReplied (pl_queue st1)\<rparr>"
    obtain db2 where db2: "q_db (pl_queue ?st2) = Some db2" "db_faults db2 = []"
        "db_messages db2 = mark_replied now {m_id s} (db_messages db)"
      using update_marks [OF db1(1,3)] db1(2) by auto
    have "process_stored E now ss ?st2 = Some st'" using Cons.prems(1) run Inr by simp
    from Cons.IH [OF this db2(1,2)]
    have "\<exists>db'. q_db (pl_queue st') = Some db' \<and> db_faults db' = [] \<and>
        db_messages db' = mark_replied now (insert (m_id s) (settled E now (pl_calls st1) ss)) (db_messages db)"
      using db2(3) by (simp add: mark_replied_insert)
    moreover have "settled E now (pl_calls st) (s # ss) = insert (m_id s) (settled E now (pl_calls st1) ss)"
      using out Inr by (auto simp: Let_def)
    ultimately show ?thesis by (simp only:)
  qed
qed

text \<open>The e-mails a pass looks at.\<close>

definition pending_emails :: "database \<Rightarrow> stored_message list" where
  "pending_emails db = filter (\<lambda>m. m_channel m = ''email'') (map row_to_message
     (sort_key mr_received_at (filter (\<lambda>r. mr_status r = ''pending'') (db_messages db))))"

text \<open>C33: A pass over the pending mails marks exactly those as replied that were classified, by a rule or
  by a usable answer of the model, counting the requests in the order the mails arrived; every other row
  stays as it is, so that a mail whose triage failed is tried again at the next pass. A mail that is
  only ignored or shown as a notification is marked as replied too, although nothing was answered.\<close>

theorem pending_mails_settled:
  assumes "q_db (pl_queue st) = Some db" "db_faults db = []" "process_pending_emails E now st = Some st'"
  shows "\<exists>db'. q_db (pl_queue st') = Some db' \<and>
     db_messages db' = mark_replied now (settled E now (pl_calls st) (pending_emails db)) (db_messages db)"
proof -
  let ?st1 = "st\<lparr>pl_queue := (pl_queue st)\<lparr>q_db := Some (tick db)\<rparr>\<rparr>"
  have "process_stored E now (pending_emails db) ?st1 = Some st'"
    using assms by (auto simp: process_pending_emails_def get_pending_messages_def query_def fault_def
        pending_emails_def Let_def)
  moreover have "q_db (pl_queue ?st1) = Some (tick db)" "db_faults (tick db) = []" "pl_calls ?st1 = pl_calls st"
      "db_messages (tick db) = db_messages db"
    using assms(2) by (auto simp: tick_def)
  ultimately show ?thesis
    using process_stored_marks by metis
qed

lemma settled_by_rule:
  "s \<in> set ss \<Longrightarrow> evaluate (me_is_match E) (me_rules E) (stored_to_inbound (me_from_json E) now s) \<noteq> None \<Longrightarrow>
   m_id s \<in> settled E now n ss"
  by (induction ss arbitrary: n) (auto simp: Let_def)

lemma settled_subset: "settled E now n ss \<subseteq> m_id ` set ss"
  by (induction ss arbitrary: n) (auto simp: Let_def split: if_splits)


text \<open>The comments in the code say that an always-card sender always gets a card and that transactional
  mail is not ignored. The rules only leave the first to the model, which may still ignore the mail, and the
  second is ignored when it comes from a noreply address.\<close>

lemma always_card_left_to_model:
  "compiles p \<Longrightarrow> is_match p (ib_sender m) \<Longrightarrow>
   evaluate is_match (snd (add_always_card compiles p re)) m = None"
  by (simp add: add_always_card_def evaluate_def)

lemma transactional_noreply_ignored:
  "is_match (ir_regex (hd (re_ignore default_rules))) (ib_sender m) \<Longrightarrow>
   evaluate is_match default_rules m = Some (Ignore ''noreply sender'')"
  by (simp add: evaluate_def default_rules_def)

subsection \<open>Witnesses\<close>

definition spam_rule :: rules_engine where
  "spam_rule = snd (add_ignore_rule (\<lambda>_. True) ''spam'' FieldSender ''junk'' empty_rules)"

definition example_mail_env :: mail_env where
  "example_mail_env = \<lparr>me_llm = talking_model ''hello'', me_rules = spam_rule, me_is_match = (\<lambda>p s. p = s),
     me_from_json = (\<lambda>_. None), me_card_id = of_nat\<rparr>"

definition mail_row :: "string \<Rightarrow> string \<Rightarrow> message_row" where
  "mail_row i sender = \<lparr>mr_id = i, mr_external_id = i, mr_channel = ''email'', mr_sender = sender, mr_subject = None,
     mr_content = ''Hi?'', mr_received_at = 0, mr_status = ''pending'', mr_replied_at = None, mr_metadata = None,
     mr_created_at = 0, mr_updated_at = 0\<rparr>"

definition example_mails :: database where
  "example_mails = empty_db\<lparr>db_messages := [mail_row ''1'' ''spam'', mail_row ''2'' ''ann'']\<rparr>"

definition example_pipeline :: pipeline where
  "example_pipeline = \<lparr>pl_queue = with_db 0 example_mails, pl_calls = 0, pl_cards = 0\<rparr>"

lemma example_evaluate:
  "evaluate (me_is_match example_mail_env) (me_rules example_mail_env) m =
     (if ib_sender m = ''spam'' then Some (Ignore ''junk'') else None)"
  by (auto simp: example_mail_env_def spam_rule_def add_ignore_rule_def empty_rules_def evaluate_def)

lemma example_triage: "fst (triage example_mail_env m st) = Inl (TriageParse BadJson)"
  by (simp add: triage_def example_mail_env_def talking_model_def parse_triage_response_def)

lemma example_process:
  "process example_mail_env now m st =
     (if ib_sender m = ''spam'' then Some (Inr \<lparr>pm_original = m, pm_action = Ignore ''junk'', pm_processed_at = now\<rparr>, st)
      else Some (Inl (TriageParse BadJson), snd (triage example_mail_env m st)))"
  using example_triage [of m st]
  by (cases "triage example_mail_env m st") (auto simp: process_def example_evaluate route_to_card_def)


lemma example_emails:
  "pending_emails example_mails = [row_to_message (mail_row ''1'' ''spam''), row_to_message (mail_row ''2'' ''ann'')]"
  by (simp add: pending_emails_def example_mails_def mail_row_def row_to_message_def)

lemma process_stored_returns:
  "(\<And>m st. process E now m st \<noteq> None) \<Longrightarrow> process_stored E now ss st \<noteq> None"
proof (induction ss arbitrary: st)
  case (Cons s ss)
  obtain r st1 where "process E now (stored_to_inbound (me_from_json E) now s) st = Some (r, st1)"
    using Cons.prems by fastforce
  then show ?case using Cons by simp
qed simp

lemma process_pending_returns:
  assumes "\<And>m st. process E now m st \<noteq> None"
  obtains st' where "process_pending_emails E now st = Some st'"
proof -
  have "process_pending_emails E now st \<noteq> None"
    using process_stored_returns [OF assms]
    by (simp add: process_pending_emails_def Let_def split: option.splits prod.splits sum.splits)
  then show ?thesis using that by auto
qed

theorem pending_mails_settled_witness:
  "\<exists>db'. q_db (pl_queue (the (process_pending_emails example_mail_env 5 example_pipeline))) = Some db' \<and>
     map mr_status (db_messages db') = [''replied'', ''pending'']"
proof -
  have db: "q_db (pl_queue example_pipeline) = Some (tick example_mails)" "db_faults (tick example_mails) = []"
    by (simp_all add: example_pipeline_def with_db_def get_pending_cards_def query_def fault_def example_mails_def
        empty_db_def tick_def)
  have "process example_mail_env now m st \<noteq> None" for now m st by (simp add: example_process)
  then obtain st' where run: "process_pending_emails example_mail_env 5 example_pipeline = Some st'"
    using process_pending_returns by blast
  have "pending_emails (tick example_mails) = pending_emails example_mails"
    by (simp add: pending_emails_def)
  moreover have "settled example_mail_env 5 n (pending_emails example_mails) = {''1''}" for n
    by (simp add: example_emails example_evaluate triage_ok_def example_triage Let_def
        stored_to_inbound_def row_to_message_def mail_row_def)
  ultimately show ?thesis
    using pending_mails_settled [OF db run] run
    by (auto simp: mark_replied_def replied_def example_mails_def mail_row_def)
qed

end
