(* ===== verification/Routines.thy ===== *)
theory Routines
  imports Store Text
begin

text \<open>
  Routines (\<open>src/src/agent/routine.rs\<close>) and the tables \<open>routines\<close>, \<open>routine_runs\<close> and \<open>settings\<close> of
  \<open>src/src/store/libsql_backend.rs\<close>.

  A JSON column holds the value whose text is stored. Times are written in RFC 3339 with all their digits,
  except where SQLite writes the time itself, in whole seconds. A statement fails by the pattern
  \<open>rb_faults\<close>; \<open>rb_foreign_keys\<close> says whether the connection enforces foreign keys, which the build of
  libsql decides.
\<close>

subsection \<open>Routines\<close>

datatype trigger =
    CronTrigger string
  | EventTrigger "string option" string
  | WebhookTrigger "string option" "string option"
  | ManualTrigger

datatype routine_action =
    Lightweight string "string list" "32 word"
  | FullJob string string "32 word"

record guardrails =
  gr_cooldown :: duration
  gr_max_concurrent :: "32 word"
  gr_dedup_window :: "duration option"

record notify_config =
  nc_channel :: "string option"
  nc_user :: string
  nc_on_attention :: bool
  nc_on_failure :: bool
  nc_on_success :: bool

record routine =
  ro_id :: uuid
  ro_name :: string
  ro_description :: string
  ro_user_id :: string
  ro_enabled :: bool
  ro_trigger :: trigger
  ro_action :: routine_action
  ro_guardrails :: guardrails
  ro_notify :: notify_config
  ro_last_run_at :: "datetime option"
  ro_next_fire_at :: "datetime option"
  ro_run_count :: "64 word"
  ro_consecutive_failures :: "32 word"
  ro_state :: json
  ro_created_at :: datetime
  ro_updated_at :: datetime

definition default_guardrails :: guardrails where
  "default_guardrails = \<lparr>gr_cooldown = duration_secs 300, gr_max_concurrent = 1, gr_dedup_window = None\<rparr>"

definition default_notify :: notify_config where
  "default_notify = \<lparr>nc_channel = None, nc_user = ''default'', nc_on_attention = True, nc_on_failure = True,
     nc_on_success = False\<rparr>"

fun trigger_tag :: "trigger \<Rightarrow> string" where
  "trigger_tag (CronTrigger _) = ''cron''"
| "trigger_tag (EventTrigger _ _) = ''event''"
| "trigger_tag (WebhookTrigger _ _) = ''webhook''"
| "trigger_tag ManualTrigger = ''manual''"

definition trigger_from_db :: "string \<Rightarrow> json \<Rightarrow> string + trigger" where
  "trigger_from_db tag config =
     (if tag = ''cron'' then
        (case get_str config ''schedule'' of
           None \<Rightarrow> Inl (''cron trigger missing '' @ [CHR 0x27] @ ''schedule'' @ [CHR 0x27])
         | Some s \<Rightarrow> Inr (CronTrigger s))
      else if tag = ''event'' then
        (case get_str config ''pattern'' of
           None \<Rightarrow> Inl (''event trigger missing '' @ [CHR 0x27] @ ''pattern'' @ [CHR 0x27])
         | Some p \<Rightarrow> Inr (EventTrigger (get_str config ''channel'') p))
      else if tag = ''webhook'' then Inr (WebhookTrigger (get_str config ''path'') (get_str config ''secret''))
      else if tag = ''manual'' then Inr ManualTrigger
      else Inl (''unknown trigger type: '' @ tag))"

definition opt_json :: "string option \<Rightarrow> json" where
  "opt_json = json_opt JString"

fun trigger_config :: "trigger \<Rightarrow> json" where
  "trigger_config (CronTrigger s) = JObject [(''schedule'', JString s)]"
| "trigger_config (EventTrigger c p) = JObject [(''pattern'', JString p), (''channel'', opt_json c)]"
| "trigger_config (WebhookTrigger p s) = JObject [(''path'', opt_json p), (''secret'', opt_json s)]"
| "trigger_config ManualTrigger = JObject []"

definition default_max_tokens :: "32 word" where
  "default_max_tokens = 4096"

definition default_max_iterations :: "32 word" where
  "default_max_iterations = 10"

fun action_tag :: "routine_action \<Rightarrow> string" where
  "action_tag (Lightweight _ _ _) = ''lightweight''"
| "action_tag (FullJob _ _ _) = ''full_job''"

definition get_array :: "json \<Rightarrow> string \<Rightarrow> json list option" where
  "get_array v k = Option.bind (json_get v k) as_array"

definition get_u64 :: "json \<Rightarrow> string \<Rightarrow> nat option" where
  "get_u64 v k = Option.bind (json_get v k) as_u64"

text \<open>\<open>as u32\<close> keeps the low bits.\<close>

definition u32_or :: "32 word \<Rightarrow> nat option \<Rightarrow> 32 word" where
  "u32_or d x = (case x of None \<Rightarrow> d | Some n \<Rightarrow> of_nat n)"

definition action_from_db :: "string \<Rightarrow> json \<Rightarrow> string + routine_action" where
  "action_from_db tag config =
     (if tag = ''lightweight'' then
        (case get_str config ''prompt'' of
           None \<Rightarrow> Inl (''lightweight action missing '' @ [CHR 0x27] @ ''prompt'' @ [CHR 0x27])
         | Some p \<Rightarrow> Inr (Lightweight p
             (case get_array config ''context_paths'' of None \<Rightarrow> [] | Some xs \<Rightarrow> List.map_filter as_str xs)
             (u32_or default_max_tokens (get_u64 config ''max_tokens''))))
      else if tag = ''full_job'' then
        (case get_str config ''title'' of
           None \<Rightarrow> Inl (''full_job action missing '' @ [CHR 0x27] @ ''title'' @ [CHR 0x27])
         | Some t \<Rightarrow> (case get_str config ''description'' of
             None \<Rightarrow> Inl (''full_job action missing '' @ [CHR 0x27] @ ''description'' @ [CHR 0x27])
           | Some d \<Rightarrow> Inr (FullJob t d (u32_or default_max_iterations (get_u64 config ''max_iterations'')))))
      else Inl (''unknown action type: '' @ tag))"

fun action_config :: "routine_action \<Rightarrow> json" where
  "action_config (Lightweight p cs n) = JObject [(''prompt'', JString p),
     (''context_paths'', JArray (map JString cs)), (''max_tokens'', JNumber (PosInt (unat n)))]"
| "action_config (FullJob t d n) = JObject [(''title'', JString t), (''description'', JString d),
     (''max_iterations'', JNumber (PosInt (unat n)))]"

subsection \<open>Runs\<close>

datatype run_status = RunRunning | RunOk | RunAttention | RunFailed

fun show_run_status :: "run_status \<Rightarrow> string" where
  "show_run_status RunRunning = ''running''"
| "show_run_status RunOk = ''ok''"
| "show_run_status RunAttention = ''attention''"
| "show_run_status RunFailed = ''failed''"

definition parse_run_status :: "string \<Rightarrow> string + run_status" where
  "parse_run_status s =
     (if s = ''running'' then Inr RunRunning else if s = ''ok'' then Inr RunOk
      else if s = ''attention'' then Inr RunAttention else if s = ''failed'' then Inr RunFailed
      else Inl (''unknown run status: '' @ s))"

record routine_run =
  ru_id :: uuid
  ru_routine_id :: uuid
  ru_trigger_type :: string
  ru_trigger_detail :: "string option"
  ru_started_at :: datetime
  ru_completed_at :: "datetime option"
  ru_status :: run_status
  ru_result_summary :: "string option"
  ru_tokens_used :: "32 word option"
  ru_job_id :: "uuid option"
  ru_created_at :: datetime

subsection \<open>Rows\<close>

text \<open>Casts between the unsigned types and the 64-bit column.\<close>

definition as_i64 :: "int \<Rightarrow> int" where
  "as_i64 n = sint (word_of_int n :: 64 word)"

definition as_u64_cast :: "int \<Rightarrow> int" where
  "as_u64_cast i = uint (word_of_int i :: 64 word)"

definition whole_secs :: "duration \<Rightarrow> int" where
  "whole_secs d = d div nanos_per_sec"

record routine_row =
  rr_id :: uuid
  rr_name :: string
  rr_description :: string
  rr_user_id :: string
  rr_enabled :: bool
  rr_trigger_type :: string
  rr_trigger_config :: json
  rr_action_type :: string
  rr_action_config :: json
  rr_cooldown_secs :: int
  rr_max_concurrent :: int
  rr_dedup_window_secs :: "int option"
  rr_notify_channel :: "string option"
  rr_notify_user :: string
  rr_notify_on_success :: bool
  rr_notify_on_failure :: bool
  rr_notify_on_attention :: bool
  rr_state :: json
  rr_last_run_at :: "datetime option"
  rr_next_fire_at :: "datetime option"
  rr_run_count :: int
  rr_consecutive_failures :: int
  rr_created_at :: datetime
  rr_updated_at :: datetime

definition routine_to_row :: "datetime \<Rightarrow> routine \<Rightarrow> routine_row" where
  "routine_to_row now r =
     \<lparr>rr_id = ro_id r, rr_name = ro_name r, rr_description = ro_description r, rr_user_id = ro_user_id r,
      rr_enabled = ro_enabled r, rr_trigger_type = trigger_tag (ro_trigger r),
      rr_trigger_config = trigger_config (ro_trigger r), rr_action_type = action_tag (ro_action r),
      rr_action_config = action_config (ro_action r),
      rr_cooldown_secs = as_i64 (whole_secs (gr_cooldown (ro_guardrails r))),
      rr_max_concurrent = uint (gr_max_concurrent (ro_guardrails r)),
      rr_dedup_window_secs = map_option (\<lambda>d. as_i64 (whole_secs d)) (gr_dedup_window (ro_guardrails r)),
      rr_notify_channel = nc_channel (ro_notify r), rr_notify_user = nc_user (ro_notify r),
      rr_notify_on_success = nc_on_success (ro_notify r), rr_notify_on_failure = nc_on_failure (ro_notify r),
      rr_notify_on_attention = nc_on_attention (ro_notify r), rr_state = ro_state r,
      rr_last_run_at = ro_last_run_at r, rr_next_fire_at = ro_next_fire_at r,
      rr_run_count = sint (ro_run_count r), rr_consecutive_failures = uint (ro_consecutive_failures r),
      rr_created_at = now, rr_updated_at = now\<rparr>"

definition read_text :: "string option \<Rightarrow> string option" where
  "read_text x = (case x of Some [] \<Rightarrow> None | _ \<Rightarrow> x)"

definition row_to_routine :: "routine_row \<Rightarrow> database_error + routine" where
  "row_to_routine k = (case trigger_from_db (rr_trigger_type k) (rr_trigger_config k) of
     Inl e \<Rightarrow> Inl (SerializationError e)
   | Inr t \<Rightarrow> (case action_from_db (rr_action_type k) (rr_action_config k) of
       Inl e \<Rightarrow> Inl (SerializationError e)
     | Inr a \<Rightarrow> Inr
         \<lparr>ro_id = rr_id k, ro_name = rr_name k, ro_description = rr_description k, ro_user_id = rr_user_id k,
          ro_enabled = rr_enabled k, ro_trigger = t, ro_action = a,
          ro_guardrails = \<lparr>gr_cooldown = duration_secs (as_u64_cast (rr_cooldown_secs k)),
             gr_max_concurrent = word_of_int (rr_max_concurrent k),
             gr_dedup_window = map_option (\<lambda>s. duration_secs (as_u64_cast s)) (rr_dedup_window_secs k)\<rparr>,
          ro_notify = \<lparr>nc_channel = read_text (rr_notify_channel k), nc_user = rr_notify_user k,
             nc_on_attention = rr_notify_on_attention k, nc_on_failure = rr_notify_on_failure k,
             nc_on_success = rr_notify_on_success k\<rparr>,
          ro_last_run_at = rr_last_run_at k, ro_next_fire_at = rr_next_fire_at k,
          ro_run_count = word_of_int (rr_run_count k),
          ro_consecutive_failures = word_of_int (rr_consecutive_failures k), ro_state = rr_state k,
          ro_created_at = rr_created_at k, ro_updated_at = rr_updated_at k\<rparr>))"

record run_row =
  rw_id :: uuid
  rw_routine_id :: uuid
  rw_trigger_type :: string
  rw_trigger_detail :: "string option"
  rw_started_at :: datetime
  rw_completed_at :: "datetime option"
  rw_status :: string
  rw_result_summary :: "string option"
  rw_tokens_used :: "int option"
  rw_job_id :: "uuid option"
  rw_created_at :: datetime

definition row_to_routine_run :: "run_row \<Rightarrow> database_error + routine_run" where
  "row_to_routine_run k = (case parse_run_status (rw_status k) of
     Inl e \<Rightarrow> Inl (SerializationError e)
   | Inr s \<Rightarrow> Inr
       \<lparr>ru_id = rw_id k, ru_routine_id = rw_routine_id k, ru_trigger_type = rw_trigger_type k,
        ru_trigger_detail = read_text (rw_trigger_detail k), ru_started_at = rw_started_at k,
        ru_completed_at = rw_completed_at k, ru_status = s, ru_result_summary = read_text (rw_result_summary k),
        ru_tokens_used = map_option word_of_int (rw_tokens_used k), ru_job_id = rw_job_id k,
        ru_created_at = rw_created_at k\<rparr>)"

subsection \<open>Tables\<close>

record routine_db =
  rb_routines :: "routine_row list"
  rb_runs :: "run_row list"
  rb_settings :: "((string \<times> string) \<times> (json \<times> datetime)) list"
  rb_foreign_keys :: bool
  rb_faults :: "bool list"

definition rb_fault :: "routine_db \<Rightarrow> bool" where
  "rb_fault db = (case rb_faults db of [] \<Rightarrow> False | b # _ \<Rightarrow> b)"

definition rb_tick :: "routine_db \<Rightarrow> routine_db" where
  "rb_tick db = db\<lparr>rb_faults := tl (rb_faults db)\<rparr>"

text \<open>A statement; \<open>ok\<close> is what the constraints of the table ask for.\<close>

definition rb_exec ::
  "string \<Rightarrow> bool \<Rightarrow> 'a \<Rightarrow> (routine_db \<Rightarrow> routine_db) \<Rightarrow> routine_db \<Rightarrow> (database_error + 'a) \<times> routine_db" where
  "rb_exec what ok x f db =
     (if rb_fault db \<or> \<not> ok then (Inl (QueryError what), rb_tick db) else (Inr x, f (rb_tick db)))"

definition rb_query :: "string \<Rightarrow> (routine_db \<Rightarrow> 'a) \<Rightarrow> routine_db \<Rightarrow> (database_error + 'a) \<times> routine_db" where
  "rb_query what f db = (if rb_fault db then Inl (QueryError what) else Inr (f db), rb_tick db)"

text \<open>\<open>UNIQUE (user_id, name)\<close> and the primary key.\<close>

definition create_routine :: "datetime \<Rightarrow> routine \<Rightarrow> routine_db \<Rightarrow> (database_error + unit) \<times> routine_db" where
  "create_routine now r db = rb_exec ''create_routine''
     (list_all (\<lambda>k. rr_id k \<noteq> ro_id r \<and> (rr_user_id k, rr_name k) \<noteq> (ro_user_id r, ro_name r)) (rb_routines db)) ()
     (\<lambda>db. db\<lparr>rb_routines := rb_routines db @ [routine_to_row now r]\<rparr>) db"

text \<open>A row that cannot be read is an error for one routine and is skipped in a list.\<close>

definition read_one :: "(database_error + routine_row option) \<Rightarrow> database_error + routine option" where
  "read_one x = (case x of Inl e \<Rightarrow> Inl e | Inr None \<Rightarrow> Inr None
     | Inr (Some k) \<Rightarrow> (case row_to_routine k of Inl e \<Rightarrow> Inl e | Inr r \<Rightarrow> Inr (Some r)))"

definition readable_rows :: "routine_row list \<Rightarrow> routine list" where
  "readable_rows ks = List.map_filter (\<lambda>k. case row_to_routine k of Inl _ \<Rightarrow> None | Inr r \<Rightarrow> Some r) ks"

definition get_routine :: "uuid \<Rightarrow> routine_db \<Rightarrow> (database_error + routine option) \<times> routine_db" where
  "get_routine i db = (let (x, db1) = rb_query ''get_routine''
     (\<lambda>db. List.find (\<lambda>k. rr_id k = i) (rb_routines db)) db in (read_one x, db1))"

definition get_routine_by_name ::
  "string \<Rightarrow> string \<Rightarrow> routine_db \<Rightarrow> (database_error + routine option) \<times> routine_db" where
  "get_routine_by_name user name db = (let (x, db1) = rb_query ''get_routine_by_name''
     (\<lambda>db. List.find (\<lambda>k. rr_user_id k = user \<and> rr_name k = name) (rb_routines db)) db in (read_one x, db1))"

text \<open>\<open>ORDER BY name\<close> compares bytes.\<close>

definition byte_key :: "string \<Rightarrow> nat list" where
  "byte_key s = map of_char s"

fun lex_le :: "nat list \<Rightarrow> nat list \<Rightarrow> bool" where
  "lex_le [] _ = True"
| "lex_le (_ # _) [] = False"
| "lex_le (x # xs) (y # ys) = (x < y \<or> (x = y \<and> lex_le xs ys))"

fun insert_by_name :: "routine_row \<Rightarrow> routine_row list \<Rightarrow> routine_row list" where
  "insert_by_name k [] = [k]"
| "insert_by_name k (x # xs) =
     (if lex_le (byte_key (rr_name k)) (byte_key (rr_name x)) then k # x # xs else x # insert_by_name k xs)"

definition order_by_name :: "routine_row list \<Rightarrow> routine_row list" where
  "order_by_name ks = foldr insert_by_name ks []"

definition list_routines :: "string \<Rightarrow> routine_db \<Rightarrow> (database_error + routine list) \<times> routine_db" where
  "list_routines user = rb_query ''list_routines''
     (\<lambda>db. readable_rows (order_by_name (filter (\<lambda>k. rr_user_id k = user) (rb_routines db))))"

definition list_event_routines :: "routine_db \<Rightarrow> (database_error + routine list) \<times> routine_db" where
  "list_event_routines = rb_query ''list_event_routines''
     (\<lambda>db. readable_rows (filter (\<lambda>k. rr_enabled k \<and> rr_trigger_type k = ''event'') (rb_routines db)))"

definition cron_due :: "datetime \<Rightarrow> routine_row \<Rightarrow> bool" where
  "cron_due now k \<longleftrightarrow> rr_enabled k \<and> rr_trigger_type k = ''cron'' \<and>
     (case rr_next_fire_at k of None \<Rightarrow> True | Some t \<Rightarrow> t \<le> now)"

definition list_due_cron_routines :: "datetime \<Rightarrow> routine_db \<Rightarrow> (database_error + routine list) \<times> routine_db" where
  "list_due_cron_routines now = rb_query ''list_due_cron_routines'' (\<lambda>db. readable_rows (filter (cron_due now) (rb_routines db)))"

text \<open>Everything but the owner, the times of running, the counters and the time of creation.\<close>

definition update_row :: "datetime \<Rightarrow> routine \<Rightarrow> routine_row \<Rightarrow> routine_row" where
  "update_row now r k = (routine_to_row now r)
     \<lparr>rr_id := rr_id k, rr_user_id := rr_user_id k, rr_last_run_at := rr_last_run_at k,
      rr_next_fire_at := rr_next_fire_at k, rr_run_count := rr_run_count k,
      rr_consecutive_failures := rr_consecutive_failures k, rr_created_at := rr_created_at k\<rparr>"

definition update_routine :: "datetime \<Rightarrow> routine \<Rightarrow> routine_db \<Rightarrow> (database_error + unit) \<times> routine_db" where
  "update_routine now r db = rb_exec ''update_routine''
     (case List.find (\<lambda>k. rr_id k = ro_id r) (rb_routines db) of
        None \<Rightarrow> True
      | Some own \<Rightarrow> list_all (\<lambda>k. rr_id k = ro_id r \<or> (rr_user_id k, rr_name k) \<noteq> (rr_user_id own, ro_name r)) (rb_routines db)) ()
     (\<lambda>db. db\<lparr>rb_routines := map (\<lambda>k. if rr_id k = ro_id r then update_row now r k else k) (rb_routines db)\<rparr>) db"

definition update_routine_runtime ::
  "datetime \<Rightarrow> uuid \<Rightarrow> datetime \<Rightarrow> datetime option \<Rightarrow> 64 word \<Rightarrow> 32 word \<Rightarrow> json \<Rightarrow> routine_db \<Rightarrow>
   (database_error + unit) \<times> routine_db" where
  "update_routine_runtime now i last_run next_fire run_count failures state =
     rb_exec ''update_routine_runtime'' True ()
       (\<lambda>db. db\<lparr>rb_routines := map (\<lambda>k. if rr_id k = i
          then k\<lparr>rr_last_run_at := Some last_run, rr_next_fire_at := next_fire, rr_run_count := sint run_count,
                 rr_consecutive_failures := uint failures, rr_state := state, rr_updated_at := now\<rparr> else k) (rb_routines db)\<rparr>)"

definition delete_routine :: "uuid \<Rightarrow> routine_db \<Rightarrow> (database_error + bool) \<times> routine_db" where
  "delete_routine i db = rb_exec ''delete_routine'' True (list_ex (\<lambda>k. rr_id k = i) (rb_routines db))
     (\<lambda>db. db\<lparr>rb_routines := filter (\<lambda>k. rr_id k \<noteq> i) (rb_routines db),
             rb_runs := (if rb_foreign_keys db then filter (\<lambda>k. rw_routine_id k \<noteq> i) (rb_runs db) else rb_runs db)\<rparr>) db"

definition create_routine_run :: "datetime \<Rightarrow> routine_run \<Rightarrow> routine_db \<Rightarrow> (database_error + unit) \<times> routine_db" where
  "create_routine_run now r db = rb_exec ''create_routine_run''
     (list_all (\<lambda>k. rw_id k \<noteq> ru_id r) (rb_runs db) \<and>
      (rb_foreign_keys db \<longrightarrow> list_ex (\<lambda>k. rr_id k = ru_routine_id r) (rb_routines db))) ()
     (\<lambda>db. db\<lparr>rb_runs := rb_runs db @
        [\<lparr>rw_id = ru_id r, rw_routine_id = ru_routine_id r, rw_trigger_type = ru_trigger_type r,
          rw_trigger_detail = ru_trigger_detail r, rw_started_at = ru_started_at r, rw_completed_at = None,
          rw_status = show_run_status (ru_status r), rw_result_summary = None, rw_tokens_used = None,
          rw_job_id = ru_job_id r, rw_created_at = now div nanos_per_sec * nanos_per_sec\<rparr>]\<rparr>) db"

definition complete_routine_run ::
  "datetime \<Rightarrow> uuid \<Rightarrow> run_status \<Rightarrow> string option \<Rightarrow> 32 word option \<Rightarrow> routine_db \<Rightarrow> (database_error + unit) \<times> routine_db" where
  "complete_routine_run now i status summary tokens = rb_exec ''complete_routine_run'' True ()
     (\<lambda>db. db\<lparr>rb_runs := map (\<lambda>k. if rw_id k = i
        then k\<lparr>rw_status := show_run_status status, rw_completed_at := Some now, rw_result_summary := summary,
               rw_tokens_used := map_option sint tokens\<rparr> else k) (rb_runs db)\<rparr>)"

text \<open>A negative limit is no limit.\<close>

definition list_routine_runs :: "uuid \<Rightarrow> int \<Rightarrow> routine_db \<Rightarrow> (database_error + routine_run list) \<times> routine_db" where
  "list_routine_runs i limit = rb_query ''list_routine_runs''
     (\<lambda>db. let ks = sort_key (\<lambda>k. - rw_started_at k) (filter (\<lambda>k. rw_routine_id k = i) (rb_runs db))
           in List.map_filter (\<lambda>k. case row_to_routine_run k of Inl _ \<Rightarrow> None | Inr r \<Rightarrow> Some r)
                (if limit < 0 then ks else take (nat limit) ks))"

definition count_running :: "uuid \<Rightarrow> routine_db \<Rightarrow> nat" where
  "count_running i db = length (filter (\<lambda>k. rw_routine_id k = i \<and> rw_status k = ''running'') (rb_runs db))"

definition count_running_routine_runs :: "uuid \<Rightarrow> routine_db \<Rightarrow> (database_error + nat) \<times> routine_db" where
  "count_running_routine_runs i = rb_query ''count_running'' (count_running i)"

subsection \<open>Settings\<close>

definition get_setting :: "string \<Rightarrow> string \<Rightarrow> routine_db \<Rightarrow> (database_error + json option) \<times> routine_db" where
  "get_setting user key = rb_query ''get_setting'' (\<lambda>db. map_option fst (map_of (rb_settings db) (user, key)))"

definition set_setting :: "datetime \<Rightarrow> string \<Rightarrow> string \<Rightarrow> json \<Rightarrow> routine_db \<Rightarrow> (database_error + unit) \<times> routine_db" where
  "set_setting now user key v = rb_exec ''set_setting'' True ()
     (\<lambda>db. db\<lparr>rb_settings := AList.update (user, key) (v, now) (rb_settings db)\<rparr>)"

definition delete_setting :: "string \<Rightarrow> string \<Rightarrow> routine_db \<Rightarrow> (database_error + bool) \<times> routine_db" where
  "delete_setting user key db = rb_exec ''delete_setting'' True (map_of (rb_settings db) (user, key) \<noteq> None)
     (\<lambda>db. db\<lparr>rb_settings := AList.delete (user, key) (rb_settings db)\<rparr>) db"

subsection \<open>What the tables keep\<close>

lemma cast_roundtrip: "0 \<le> n \<Longrightarrow> n < 2 ^ 64 \<Longrightarrow> as_u64_cast (as_i64 n) = n"
  by (simp add: as_u64_cast_def as_i64_def uint_word_of_int)

lemma opt_json_roundtrip: "Option.bind (Some (opt_json x)) as_str = x"
  by (cases x) (simp_all add: opt_json_def json_opt_def)

interpretation trigger_codec: codec "\<lambda>t. (trigger_tag t, trigger_config t)"
  "\<lambda>(tag, c). case trigger_from_db tag c of Inl _ \<Rightarrow> None | Inr t \<Rightarrow> Some t"
proof unfold_locales
  show "(case (trigger_tag t, trigger_config t) of
      (tag, c) \<Rightarrow> case trigger_from_db tag c of Inl _ \<Rightarrow> None | Inr t \<Rightarrow> Some t) = Some t" for t
    using opt_json_roundtrip by (cases t) (simp_all add: trigger_from_db_def get_str_def)
qed

lemma map_filter_strings: "List.map_filter as_str (map JString xs) = xs"
  by (induction xs) (simp_all add: List.map_filter_simps)

interpretation action_codec: codec "\<lambda>a. (action_tag a, action_config a)"
  "\<lambda>(tag, c). case action_from_db tag c of Inl _ \<Rightarrow> None | Inr a \<Rightarrow> Some a"
proof unfold_locales
  show "(case (action_tag a, action_config a) of
      (tag, c) \<Rightarrow> case action_from_db tag c of Inl _ \<Rightarrow> None | Inr a \<Rightarrow> Some a) = Some a" for a
    by (cases a) (simp_all add: action_from_db_def get_str_def get_array_def get_u64_def u32_or_def map_filter_strings)
qed

interpretation status_codec: codec show_run_status
  "\<lambda>s. case parse_run_status s of Inl _ \<Rightarrow> None | Inr x \<Rightarrow> Some x"
proof unfold_locales
  show "(case parse_run_status (show_run_status x) of Inl _ \<Rightarrow> None | Inr x \<Rightarrow> Some x) = Some x" for x
    by (cases x) (simp_all add: parse_run_status_def)
qed

lemma trigger_roundtrip: "trigger_from_db (trigger_tag t) (trigger_config t) = Inr t"
  using trigger_codec.dec_enc [of t] by (auto split: sum.splits)

lemma action_roundtrip: "action_from_db (action_tag a) (action_config a) = Inr a"
  using action_codec.dec_enc [of a] by (auto split: sum.splits)

text \<open>Durations are cut to whole seconds, an empty channel is none, and the table sets both of its times.\<close>

definition stored_guardrails :: "guardrails \<Rightarrow> guardrails" where
  "stored_guardrails g = g\<lparr>gr_cooldown := duration_secs (whole_secs (gr_cooldown g)),
     gr_dedup_window := map_option (\<lambda>d. duration_secs (whole_secs d)) (gr_dedup_window g)\<rparr>"

definition stored_routine :: "datetime \<Rightarrow> routine \<Rightarrow> routine" where
  "stored_routine now r = r\<lparr>ro_guardrails := stored_guardrails (ro_guardrails r),
     ro_notify := (ro_notify r)\<lparr>nc_channel := read_text (nc_channel (ro_notify r))\<rparr>,
     ro_created_at := now, ro_updated_at := now\<rparr>"

text \<open>What Rust's \<open>Duration\<close> can hold.\<close>

definition rust_duration :: "duration \<Rightarrow> bool" where
  "rust_duration d \<longleftrightarrow> 0 \<le> d \<and> d < duration_secs (2 ^ 64)"

definition rust_guardrails :: "guardrails \<Rightarrow> bool" where
  "rust_guardrails g \<longleftrightarrow> rust_duration (gr_cooldown g) \<and> (case gr_dedup_window g of None \<Rightarrow> True | Some d \<Rightarrow> rust_duration d)"

lemma secs_roundtrip: "rust_duration d \<Longrightarrow> as_u64_cast (as_i64 (whole_secs d)) = whole_secs d"
  by (intro cast_roundtrip)
    (auto simp: rust_duration_def whole_secs_def duration_secs_def nanos_per_sec_def div_less_iff_less_mult)

lemma row_roundtrip:
  "rust_guardrails (ro_guardrails r) \<Longrightarrow> row_to_routine (routine_to_row now r) = Inr (stored_routine now r)"
  by (cases r, cases "ro_guardrails r", cases "ro_notify r")
    (auto simp: row_to_routine_def routine_to_row_def trigger_roundtrip action_roundtrip stored_routine_def
      stored_guardrails_def rust_guardrails_def secs_roundtrip split: option.splits)

lemma find_none_append: "list_all (\<lambda>k. \<not> P k) xs \<Longrightarrow> P x \<Longrightarrow> List.find P (xs @ [x]) = Some x"
  by (induction xs) auto

text \<open>C40: A routine stored while its id and its name are free is found again by its id and by its owner and name,
  with every field as it was, except that durations are cut to whole seconds, an empty notification
  channel becomes none, and both times of the row are the time of the insertion; a taken id or name is
  refused and nothing is stored.\<close>

theorem routine_roundtrip:
  assumes "rust_guardrails (ro_guardrails r)" "rb_faults db = []" "create_routine now r db = (x, db1)"
  shows "if list_all (\<lambda>k. rr_id k \<noteq> ro_id r \<and> (rr_user_id k, rr_name k) \<noteq> (ro_user_id r, ro_name r)) (rb_routines db)
    then x = Inr () \<and> fst (get_routine (ro_id r) db1) = Inr (Some (stored_routine now r)) \<and>
      fst (get_routine_by_name (ro_user_id r) (ro_name r) db1) = Inr (Some (stored_routine now r))
    else x = Inl (QueryError ''create_routine'') \<and> rb_routines db1 = rb_routines db"
proof (cases "list_all (\<lambda>k. rr_id k \<noteq> ro_id r \<and> (rr_user_id k, rr_name k) \<noteq> (ro_user_id r, ro_name r)) (rb_routines db)")
  case False
  then show ?thesis using assms(3) by (auto simp: create_routine_def rb_exec_def rb_tick_def)
next
  case True
  let ?k = "routine_to_row now r"
  have x: "x = Inr ()" and db1: "rb_routines db1 = rb_routines db @ [?k]" "rb_faults db1 = []"
    using True assms(2,3) by (auto simp: create_routine_def rb_exec_def rb_fault_def rb_tick_def)
  have k: "rr_id ?k = ro_id r" "rr_user_id ?k = ro_user_id r" "rr_name ?k = ro_name r"
    by (simp_all add: routine_to_row_def)
  have "List.find (\<lambda>k. rr_id k = ro_id r) (rb_routines db1) = Some ?k"
    unfolding db1 by (rule find_none_append) (use True k in \<open>auto elim: list.pred_mono_strong\<close>)
  moreover have "List.find (\<lambda>k. rr_user_id k = ro_user_id r \<and> rr_name k = ro_name r) (rb_routines db1) = Some ?k"
    unfolding db1 by (rule find_none_append) (use True k in \<open>auto elim: list.pred_mono_strong\<close>)
  ultimately show ?thesis
    using x True db1(2) row_roundtrip [OF assms(1), of now]
    by (simp add: get_routine_def get_routine_by_name_def rb_query_def rb_fault_def read_one_def)
qed

definition sample_routine :: routine where
  "sample_routine = \<lparr>ro_id = 7, ro_name = ''n'', ro_description = ''d'', ro_user_id = ''u'', ro_enabled = True,
     ro_trigger = EventTrigger None ''hi'', ro_action = Lightweight ''p'' [] 100, ro_guardrails = default_guardrails,
     ro_notify = default_notify, ro_last_run_at = None, ro_next_fire_at = None, ro_run_count = 0,
     ro_consecutive_failures = 0, ro_state = JObject [], ro_created_at = 0, ro_updated_at = 0\<rparr>"

definition empty_routine_db :: routine_db where
  "empty_routine_db = \<lparr>rb_routines = [], rb_runs = [], rb_settings = [], rb_foreign_keys = True, rb_faults = []\<rparr>"

lemma sample_guardrails: "rust_guardrails (ro_guardrails sample_routine)"
  by (simp add: sample_routine_def default_guardrails_def rust_guardrails_def rust_duration_def
      duration_secs_def nanos_per_sec_def)

theorem routine_roundtrip_witness:
  "fst (get_routine 7 (snd (create_routine 5 sample_routine empty_routine_db))) =
     Inr (Some (stored_routine 5 sample_routine))"
  using routine_roundtrip [OF sample_guardrails, of empty_routine_db 5]
  by (cases "create_routine 5 sample_routine empty_routine_db")
    (simp add: empty_routine_db_def sample_routine_def)

end
