(* ===== verification/Worker.thy ===== *)
theory Worker
  imports Agent_Loop
begin

text \<open>
  Jobs and their execution: the job state machine (\<open>src/src/worker/state.rs\<close>), the memory of a job
  (\<open>src/src/worker/memory.rs\<close>), the manager of all jobs (\<open>src/src/worker/context.rs\<close>), tasks
  (\<open>src/src/worker/task.rs\<close>), the tool executor (\<open>src/src/worker/worker.rs\<close>) and the scheduler
  (\<open>src/src/worker/scheduler.rs\<close>).

  Each operation takes the instant it happens at; counters are words and wrap around as in a release
  build. The closures given to \<open>update_context\<close> and \<open>update_memory\<close> are functions.
\<close>

subsection \<open>The state machine\<close>

datatype job_state = JobPending | JobInProgress | JobCompleted | JobFailed | JobStuck | JobCancelled

definition can_transition_to :: "job_state \<Rightarrow> job_state \<Rightarrow> bool" where
  "can_transition_to s t \<longleftrightarrow> (s, t) \<in> set
     [(JobPending, JobInProgress), (JobPending, JobCancelled),
      (JobInProgress, JobCompleted), (JobInProgress, JobFailed), (JobInProgress, JobStuck), (JobInProgress, JobCancelled),
      (JobCompleted, JobFailed),
      (JobStuck, JobInProgress), (JobStuck, JobFailed), (JobStuck, JobCancelled)]"

definition is_terminal :: "job_state \<Rightarrow> bool" where
  "is_terminal s \<longleftrightarrow> s \<in> set [JobCompleted, JobFailed, JobCancelled]"

definition is_active :: "job_state \<Rightarrow> bool" where
  "is_active s \<longleftrightarrow> \<not> is_terminal s"

fun show_job_state :: "job_state \<Rightarrow> string" where
  "show_job_state JobPending = ''pending''"
| "show_job_state JobInProgress = ''in_progress''"
| "show_job_state JobCompleted = ''completed''"
| "show_job_state JobFailed = ''failed''"
| "show_job_state JobStuck = ''stuck''"
| "show_job_state JobCancelled = ''cancelled''"

record state_transition =
  sx_from :: job_state
  sx_to :: job_state
  sx_timestamp :: datetime
  sx_reason :: "string option"

record worker_job =
  wj_id :: uuid
  wj_state :: job_state
  wj_user_id :: string
  wj_conversation_id :: "uuid option"
  wj_title :: string
  wj_description :: string
  wj_tokens :: "64 word"
  wj_max_tokens :: "64 word"
  wj_created_at :: datetime
  wj_started_at :: "datetime option"
  wj_completed_at :: "datetime option"
  wj_repair_attempts :: "32 word"
  wj_transitions :: "state_transition list"
  wj_metadata :: json

definition job_with_user :: "uuid \<Rightarrow> datetime \<Rightarrow> string \<Rightarrow> string \<Rightarrow> string \<Rightarrow> worker_job" where
  "job_with_user fresh now user title description =
     \<lparr>wj_id = fresh, wj_state = JobPending, wj_user_id = user, wj_conversation_id = None, wj_title = title,
      wj_description = description, wj_tokens = 0, wj_max_tokens = 0, wj_created_at = now,
      wj_started_at = None, wj_completed_at = None, wj_repair_attempts = 0, wj_transitions = [],
      wj_metadata = JNull\<rparr>"

definition new_job :: "uuid \<Rightarrow> datetime \<Rightarrow> string \<Rightarrow> string \<Rightarrow> worker_job" where
  "new_job fresh now = job_with_user fresh now ''default''"

definition MAX_TRANSITIONS :: nat where
  "MAX_TRANSITIONS = 200"

definition transition_to :: "datetime \<Rightarrow> job_state \<Rightarrow> string option \<Rightarrow> worker_job \<Rightarrow> (string + unit) \<times> worker_job" where
  "transition_to now new reason j =
     (if \<not> can_transition_to (wj_state j) new
      then (Inl (''Cannot transition from '' @ show_job_state (wj_state j) @ '' to '' @ show_job_state new), j)
      else
        (let ts = wj_transitions j @ [\<lparr>sx_from = wj_state j, sx_to = new, sx_timestamp = now, sx_reason = reason\<rparr>];
             j1 = j\<lparr>wj_transitions := (if length ts > MAX_TRANSITIONS then drop (length ts - MAX_TRANSITIONS) ts else ts),
                    wj_state := new\<rparr>
         in (Inr (),
             if new = JobInProgress \<and> wj_started_at j1 = None then j1\<lparr>wj_started_at := Some now\<rparr>
             else if new \<in> set [JobCompleted, JobFailed, JobCancelled] then j1\<lparr>wj_completed_at := Some now\<rparr>
             else j1)))"

definition add_tokens :: "64 word \<Rightarrow> worker_job \<Rightarrow> (string + unit) \<times> worker_job" where
  "add_tokens tokens j =
     (let j1 = j\<lparr>wj_tokens := wj_tokens j + tokens\<rparr>
      in (if wj_max_tokens j1 > 0 \<and> wj_tokens j1 > wj_max_tokens j1
          then Inl (''Token budget exceeded: used '' @ nat_str (unat (wj_tokens j1)) @ '' of '' @
                 nat_str (unat (wj_max_tokens j1)) @ '' allowed tokens'')
          else Inr (), j1))"

text \<open>Whole seconds; \<open>num_seconds\<close> truncates, and a negative duration counts as zero.\<close>

definition elapsed :: "datetime \<Rightarrow> worker_job \<Rightarrow> duration option" where
  "elapsed now j = map_option (\<lambda>start.
     let t_end = (case wj_completed_at j of Some t \<Rightarrow> t | None \<Rightarrow> now)
     in duration_secs (max ((t_end - start) div nanos_per_sec) 0)) (wj_started_at j)"

definition mark_stuck :: "datetime \<Rightarrow> string \<Rightarrow> worker_job \<Rightarrow> (string + unit) \<times> worker_job" where
  "mark_stuck now reason = transition_to now JobStuck (Some reason)"

definition attempt_recovery :: "datetime \<Rightarrow> worker_job \<Rightarrow> (string + unit) \<times> worker_job" where
  "attempt_recovery now j =
     (if wj_state j \<noteq> JobStuck then (Inl ''Job is not stuck'', j)
      else transition_to now JobInProgress (Some ''Recovery attempt'') (j\<lparr>wj_repair_attempts := wj_repair_attempts j + 1\<rparr>))"

text \<open>The public context a tool is given.\<close>

datatype public_state = PublicPending | PublicRunning | PublicCompleted | PublicFailed | PublicCancelled

fun public_state_of :: "job_state \<Rightarrow> public_state" where
  "public_state_of JobPending = PublicPending"
| "public_state_of JobInProgress = PublicRunning"
| "public_state_of JobCompleted = PublicCompleted"
| "public_state_of JobFailed = PublicFailed"
| "public_state_of JobStuck = PublicFailed"
| "public_state_of JobCancelled = PublicCancelled"

record job_context =
  jc_job_id :: uuid
  jc_state :: public_state
  jc_user_id :: string
  jc_conversation_id :: "uuid option"
  jc_title :: string
  jc_description :: string
  jc_actual_cost :: rat
  jc_total_tokens_used :: "64 word"
  jc_max_tokens :: "64 word"
  jc_created_at :: datetime
  jc_metadata :: json

definition to_job_context :: "worker_job \<Rightarrow> job_context" where
  "to_job_context j =
     \<lparr>jc_job_id = wj_id j, jc_state = public_state_of (wj_state j), jc_user_id = wj_user_id j,
      jc_conversation_id = wj_conversation_id j, jc_title = wj_title j, jc_description = wj_description j,
      jc_actual_cost = 0, jc_total_tokens_used = wj_tokens j, jc_max_tokens = wj_max_tokens j,
      jc_created_at = wj_created_at j, jc_metadata = wj_metadata j\<rparr>"

subsection \<open>Memory\<close>

record action_record =
  ar_id :: uuid
  ar_sequence :: "32 word"
  ar_tool_name :: string
  ar_input :: json
  ar_output :: "string option"
  ar_duration :: duration
  ar_success :: bool
  ar_error :: "string option"
  ar_executed_at :: datetime

definition new_action_record :: "uuid \<Rightarrow> datetime \<Rightarrow> 32 word \<Rightarrow> string \<Rightarrow> json \<Rightarrow> action_record" where
  "new_action_record fresh now seq tool_name input =
     \<lparr>ar_id = fresh, ar_sequence = seq, ar_tool_name = tool_name, ar_input = input, ar_output = None,
      ar_duration = 0, ar_success = False, ar_error = None, ar_executed_at = now\<rparr>"

definition action_succeed :: "string option \<Rightarrow> duration \<Rightarrow> action_record \<Rightarrow> action_record" where
  "action_succeed res d r = r\<lparr>ar_success := True, ar_output := res, ar_duration := d\<rparr>"

definition action_fail :: "string \<Rightarrow> duration \<Rightarrow> action_record \<Rightarrow> action_record" where
  "action_fail e d r = r\<lparr>ar_success := False, ar_error := Some e, ar_duration := d\<rparr>"

record conversation_memory =
  ct_messages :: "chat_message list"
  ct_max_messages :: nat

text \<open>The loop that trims the conversation: a system message in front is kept, except that a limit of zero
  stops the loop with it.\<close>

fun trim_messages :: "nat \<Rightarrow> chat_message list \<Rightarrow> chat_message list" where
  "trim_messages n [] = []"
| "trim_messages n [m] = (if length [m] > n then (if cm_role m = System then [m] else trim_messages n []) else [m])"
| "trim_messages n (m # m' # ms) =
     (if length (m # m' # ms) > n
      then (if cm_role m = System then trim_messages n (m # ms) else trim_messages n (m' # ms))
      else m # m' # ms)"

definition memory_add :: "chat_message \<Rightarrow> conversation_memory \<Rightarrow> conversation_memory" where
  "memory_add m c = c\<lparr>ct_messages := trim_messages (ct_max_messages c) (ct_messages c @ [m])\<rparr>"

definition last_n :: "nat \<Rightarrow> conversation_memory \<Rightarrow> chat_message list" where
  "last_n n c = drop (length (ct_messages c) - n) (ct_messages c)"

definition memory_clear :: "conversation_memory \<Rightarrow> conversation_memory" where
  "memory_clear c = c\<lparr>ct_messages := []\<rparr>"

record memory =
  my_job_id :: uuid
  my_conversation :: conversation_memory
  my_actions :: "action_record list"
  my_next_sequence :: "32 word"

definition new_memory :: "uuid \<Rightarrow> memory" where
  "new_memory i = \<lparr>my_job_id = i, my_conversation = \<lparr>ct_messages = [], ct_max_messages = 100\<rparr>,
     my_actions = [], my_next_sequence = 0\<rparr>"

definition add_message :: "chat_message \<Rightarrow> memory \<Rightarrow> memory" where
  "add_message m y = y\<lparr>my_conversation := memory_add m (my_conversation y)\<rparr>"

definition create_action :: "uuid \<Rightarrow> datetime \<Rightarrow> string \<Rightarrow> json \<Rightarrow> memory \<Rightarrow> action_record \<times> memory" where
  "create_action fresh now tool_name input y =
     (new_action_record fresh now (my_next_sequence y) tool_name input, y\<lparr>my_next_sequence := my_next_sequence y + 1\<rparr>)"

definition record_action :: "action_record \<Rightarrow> memory \<Rightarrow> memory" where
  "record_action r y = y\<lparr>my_actions := my_actions y @ [r]\<rparr>"

definition total_duration :: "memory \<Rightarrow> duration" where
  "total_duration y = fold (\<lambda>d acc. acc + d) (map ar_duration (my_actions y)) 0"

definition successful_actions :: "memory \<Rightarrow> nat" where
  "successful_actions y = length (filter ar_success (my_actions y))"

definition failed_actions :: "memory \<Rightarrow> nat" where
  "failed_actions y = length (filter (\<lambda>a. \<not> ar_success a) (my_actions y))"

definition last_action :: "memory \<Rightarrow> action_record option" where
  "last_action y = (if my_actions y = [] then None else Some (last (my_actions y)))"

definition actions_by_tool :: "string \<Rightarrow> memory \<Rightarrow> action_record list" where
  "actions_by_tool name y = filter (\<lambda>a. ar_tool_name a = name) (my_actions y)"

subsection \<open>All jobs\<close>

record context_manager =
  cx_contexts :: "(uuid \<times> worker_job) list"
  cx_memories :: "(uuid \<times> memory) list"
  cx_max_jobs :: nat

definition new_context_manager :: "nat \<Rightarrow> context_manager" where
  "new_context_manager max_jobs = \<lparr>cx_contexts = [], cx_memories = [], cx_max_jobs = max_jobs\<rparr>"

definition active_job_count :: "context_manager \<Rightarrow> nat" where
  "active_job_count cm = length (filter (\<lambda>(_, j). is_active (wj_state j)) (cx_contexts cm))"

definition register_job :: "worker_job \<Rightarrow> context_manager \<Rightarrow> (job_error + unit) \<times> context_manager" where
  "register_job j cm =
     (if active_job_count cm \<ge> cx_max_jobs cm then (Inl (MaxJobsExceeded (cx_max_jobs cm)), cm)
      else (Inr (), cm\<lparr>cx_contexts := AList.update (wj_id j) j (cx_contexts cm),
                       cx_memories := AList.update (wj_id j) (new_memory (wj_id j)) (cx_memories cm)\<rparr>))"

definition create_job_for_user ::
  "uuid \<Rightarrow> datetime \<Rightarrow> string \<Rightarrow> string \<Rightarrow> string \<Rightarrow> context_manager \<Rightarrow> (job_error + uuid) \<times> context_manager" where
  "create_job_for_user fresh now user title description cm =
     (if active_job_count cm \<ge> cx_max_jobs cm then (Inl (MaxJobsExceeded (cx_max_jobs cm)), cm)
      else (let j = job_with_user fresh now user title description
            in (Inr (wj_id j), cm\<lparr>cx_contexts := AList.update (wj_id j) j (cx_contexts cm),
                                  cx_memories := AList.update (wj_id j) (new_memory (wj_id j)) (cx_memories cm)\<rparr>)))"

definition create_job ::
  "uuid \<Rightarrow> datetime \<Rightarrow> string \<Rightarrow> string \<Rightarrow> context_manager \<Rightarrow> (job_error + uuid) \<times> context_manager" where
  "create_job fresh now = create_job_for_user fresh now ''default''"

definition get_context :: "uuid \<Rightarrow> context_manager \<Rightarrow> job_error + worker_job" where
  "get_context i cm = (case map_of (cx_contexts cm) i of Some j \<Rightarrow> Inr j | None \<Rightarrow> Inl (JobNotFound i))"

definition update_context ::
  "uuid \<Rightarrow> (worker_job \<Rightarrow> 'r \<times> worker_job) \<Rightarrow> context_manager \<Rightarrow> (job_error + 'r) \<times> context_manager" where
  "update_context i f cm = (case map_of (cx_contexts cm) i of
     None \<Rightarrow> (Inl (JobNotFound i), cm)
   | Some j \<Rightarrow> (Inr (fst (f j)), cm\<lparr>cx_contexts := AList.update i (snd (f j)) (cx_contexts cm)\<rparr>))"

definition get_memory :: "uuid \<Rightarrow> context_manager \<Rightarrow> job_error + memory" where
  "get_memory i cm = (case map_of (cx_memories cm) i of Some y \<Rightarrow> Inr y | None \<Rightarrow> Inl (JobNotFound i))"

definition update_memory ::
  "uuid \<Rightarrow> (memory \<Rightarrow> 'r \<times> memory) \<Rightarrow> context_manager \<Rightarrow> (job_error + 'r) \<times> context_manager" where
  "update_memory i f cm = (case map_of (cx_memories cm) i of
     None \<Rightarrow> (Inl (JobNotFound i), cm)
   | Some y \<Rightarrow> (Inr (fst (f y)), cm\<lparr>cx_memories := AList.update i (snd (f y)) (cx_memories cm)\<rparr>))"

definition active_jobs :: "context_manager \<Rightarrow> uuid list" where
  "active_jobs cm = map fst (filter (\<lambda>(_, j). is_active (wj_state j)) (cx_contexts cm))"

text \<open>A job without memory loses its context before the error is returned.\<close>

definition remove_job :: "uuid \<Rightarrow> context_manager \<Rightarrow> (job_error + (worker_job \<times> memory)) \<times> context_manager" where
  "remove_job i cm = (case map_of (cx_contexts cm) i of
     None \<Rightarrow> (Inl (JobNotFound i), cm)
   | Some j \<Rightarrow>
       (let cm1 = cm\<lparr>cx_contexts := AList.delete i (cx_contexts cm)\<rparr>
        in case map_of (cx_memories cm1) i of
             None \<Rightarrow> (Inl (JobNotFound i), cm1)
           | Some y \<Rightarrow> (Inr (j, y), cm1\<lparr>cx_memories := AList.delete i (cx_memories cm1)\<rparr>)))"

definition find_stuck_jobs :: "context_manager \<Rightarrow> uuid list" where
  "find_stuck_jobs cm = map fst (filter (\<lambda>(_, j). wj_state j = JobStuck) (cx_contexts cm))"

record context_summary =
  su_total :: nat
  su_pending :: nat
  su_in_progress :: nat
  su_completed :: nat
  su_failed :: nat
  su_stuck :: nat
  su_cancelled :: nat

definition count_job :: "worker_job \<Rightarrow> context_summary \<Rightarrow> context_summary" where
  "count_job j su = (case wj_state j of
     JobPending \<Rightarrow> su\<lparr>su_pending := su_pending su + 1\<rparr>
   | JobInProgress \<Rightarrow> su\<lparr>su_in_progress := su_in_progress su + 1\<rparr>
   | JobCompleted \<Rightarrow> su\<lparr>su_completed := su_completed su + 1\<rparr>
   | JobFailed \<Rightarrow> su\<lparr>su_failed := su_failed su + 1\<rparr>
   | JobStuck \<Rightarrow> su\<lparr>su_stuck := su_stuck su + 1\<rparr>
   | JobCancelled \<Rightarrow> su\<lparr>su_cancelled := su_cancelled su + 1\<rparr>)"

definition jobs_summary :: "context_manager \<Rightarrow> context_summary" where
  "jobs_summary cm =
     (fold count_job (map snd (cx_contexts cm))
        \<lparr>su_total = 0, su_pending = 0, su_in_progress = 0, su_completed = 0, su_failed = 0, su_stuck = 0, su_cancelled = 0\<rparr>)
     \<lparr>su_total := length (cx_contexts cm)\<rparr>"

subsection \<open>Tasks\<close>

record task_output =
  to_result :: json
  to_duration :: duration

definition task_output_text :: "string \<Rightarrow> duration \<Rightarrow> task_output" where
  "task_output_text s d = \<lparr>to_result = JString s, to_duration = d\<rparr>"

definition task_output_empty :: "duration \<Rightarrow> task_output" where
  "task_output_empty d = \<lparr>to_result = JNull, to_duration = d\<rparr>"

record task_context =
  tx_task_id :: uuid
  tx_parent_id :: "uuid option"
  tx_metadata :: json

definition new_task_context :: "uuid \<Rightarrow> task_context" where
  "new_task_context i = \<lparr>tx_task_id = i, tx_parent_id = None, tx_metadata = JNull\<rparr>"

record task_handler =
  hd_run :: "task_context \<Rightarrow> agent_error + task_output"
  hd_description :: string

datatype sched_task =
    TaskJob uuid string string
  | TaskToolExec uuid string json
  | TaskBackground uuid task_handler

fun task_id :: "sched_task \<Rightarrow> uuid option" where
  "task_id (TaskJob i _ _) = Some i"
| "task_id (TaskToolExec _ _ _) = None"
| "task_id (TaskBackground i _) = Some i"

fun task_parent_id :: "sched_task \<Rightarrow> uuid option" where
  "task_parent_id (TaskJob _ _ _) = None"
| "task_parent_id (TaskToolExec p _ _) = Some p"
| "task_parent_id (TaskBackground _ _) = None"

fun task_description :: "sched_task \<Rightarrow> string" where
  "task_description (TaskJob _ title _) = ''job: '' @ title"
| "task_description (TaskToolExec _ name _) = ''tool: '' @ name"
| "task_description (TaskBackground _ h) = ''background: '' @ hd_description h"

subsection \<open>Executing tools\<close>

text \<open>The jobs, and what the tools were asked to do: how many executions and which.\<close>

record worker_deps =
  wd_contexts :: context_manager
  wd_runs :: nat
  wd_executed :: "(string \<times> json) list"

text \<open>What an execution draws: the id and time of its record and how long it took.\<close>

record stamp =
  sp_id :: uuid
  sp_now :: datetime
  sp_elapsed :: duration

text \<open>The checks before a tool runs.\<close>

definition begin_tool :: "env \<Rightarrow> uuid \<Rightarrow> string \<Rightarrow> json \<Rightarrow> context_manager \<Rightarrow> agent_error + tool" where
  "begin_tool E job name params cm = (case get_tool (ev_tools E) name of
     None \<Rightarrow> Inl (ErrTool (ToolNotFound name))
   | Some t \<Rightarrow> (case get_context job cm of
       Inl e \<Rightarrow> Inl (ErrJob e)
     | Inr ctx \<Rightarrow>
         if wj_state ctx = JobCancelled then Inl (ErrTool (ToolFailed name ''Job is cancelled''))
         else (let v = validate_tool_params params in
           if \<not> vr_is_valid v
           then Inl (ErrTool (ToolInvalid name (''Invalid tool parameters: '' @ validation_details v)))
           else Inr t)))"

text \<open>The outcome of the tool, as the result of the call and as the record of the action.\<close>

definition tool_outcome ::
  "env \<Rightarrow> string \<Rightarrow> tool \<Rightarrow> (tool_error + json) option \<Rightarrow> agent_error + string" where
  "tool_outcome E name t out = (case out of
     None \<Rightarrow> Inl (ErrTool (ToolTimedOut name (tl_execution_timeout t)))
   | Some (Inl e) \<Rightarrow> Inl (ErrTool (ToolFailed name (show_tool_error (ev_show_duration E) e)))
   | Some (Inr v) \<Rightarrow> Inr (ev_pretty E v))"

definition finish_action ::
  "env \<Rightarrow> string \<Rightarrow> (tool_error + json) option \<Rightarrow> duration \<Rightarrow> action_record \<Rightarrow> action_record" where
  "finish_action E name out d r = (case out of
     None \<Rightarrow> action_fail ''Execution timeout'' d r
   | Some (Inl e) \<Rightarrow> action_fail (show_tool_error (ev_show_duration E) e) d r
   | Some (Inr v) \<Rightarrow> action_succeed (Some (fst (sanitize_tool_output name (ev_pretty E v)))) d r)"

definition remember_call ::
  "env \<Rightarrow> stamp \<Rightarrow> uuid \<Rightarrow> string \<Rightarrow> json \<Rightarrow> (tool_error + json) option \<Rightarrow> worker_deps \<Rightarrow> worker_deps" where
  "remember_call E sp job name params out w =
     w\<lparr>wd_contexts := snd (update_memory job
        (\<lambda>y. let (r, y1) = create_action (sp_id sp) (sp_now sp) name params y
             in ((), record_action (finish_action E name out (sp_elapsed sp) r) y1))
        (wd_contexts w))\<rparr>"

definition count_run :: "string \<Rightarrow> json \<Rightarrow> worker_deps \<Rightarrow> worker_deps" where
  "count_run name params w = w\<lparr>wd_runs := Suc (wd_runs w), wd_executed := wd_executed w @ [(name, params)]\<rparr>"

definition execute_tool_inner ::
  "env \<Rightarrow> stamp \<Rightarrow> uuid \<Rightarrow> string \<Rightarrow> json \<Rightarrow> worker_deps \<Rightarrow> (agent_error + string) \<times> worker_deps" where
  "execute_tool_inner E sp job name params w = (case begin_tool E job name params (wd_contexts w) of
     Inl e \<Rightarrow> (Inl e, w)
   | Inr t \<Rightarrow>
       (let out = tl_execute t (wd_runs w) params
        in (tool_outcome E name t out, remember_call E sp job name params out (count_run name params w))))"

text \<open>In parallel: all calls start in order, and finish in some order \<open>ord\<close> of their positions.\<close>

fun start_calls ::
  "env \<Rightarrow> uuid \<Rightarrow> (string \<times> json) list \<Rightarrow> worker_deps \<Rightarrow>
   (agent_error + (tool \<times> (tool_error + json) option)) list \<times> worker_deps" where
  "start_calls E job [] w = ([], w)"
| "start_calls E job ((name, params) # cs) w = (case begin_tool E job name params (wd_contexts w) of
     Inl e \<Rightarrow> (let (rs, w') = start_calls E job cs w in (Inl e # rs, w'))
   | Inr t \<Rightarrow>
       (let (rs, w') = start_calls E job cs (count_run name params w)
        in (Inr (t, tl_execute t (wd_runs w) params) # rs, w')))"

definition finish_call ::
  "env \<Rightarrow> (nat \<Rightarrow> stamp) \<Rightarrow> uuid \<Rightarrow> (string \<times> json) list \<Rightarrow>
   (agent_error + (tool \<times> (tool_error + json) option)) list \<Rightarrow> nat \<Rightarrow> worker_deps \<Rightarrow> worker_deps" where
  "finish_call E sp job calls rs i w = (case rs ! i of
     Inl e \<Rightarrow> w
   | Inr (t, out) \<Rightarrow> remember_call E (sp i) job (fst (calls ! i)) (snd (calls ! i)) out w)"

definition execute_tools_parallel ::
  "env \<Rightarrow> (nat \<Rightarrow> stamp) \<Rightarrow> nat list \<Rightarrow> uuid \<Rightarrow> (string \<times> json) list \<Rightarrow> worker_deps \<Rightarrow>
   (agent_error + string) list \<times> worker_deps" where
  "execute_tools_parallel E sp ord job calls w =
     (let (rs, w1) = start_calls E job calls w
      in (map (\<lambda>((name, _), r). case r of Inl e \<Rightarrow> Inl e | Inr (t, out) \<Rightarrow> tool_outcome E name t out) (zip calls rs),
          fold (finish_call E sp job calls rs) ord w1))"

subsection \<open>The scheduler\<close>

text \<open>
  \<open>sd_jobs\<close> and \<open>sd_subtasks\<close> are the two maps; the handle in \<open>sd_subtasks\<close> belongs to a watcher of the
  task and not to the task itself. \<open>sd_running\<close> holds the spawned tasks that have not finished,
  \<open>sd_results\<close> what was sent to their receivers, \<open>sd_persisted\<close> the status updates handed to the
  database.
\<close>

record scheduler =
  sd_max_parallel :: nat
  sd_worker :: worker_deps
  sd_store :: bool
  sd_jobs :: "uuid list"
  sd_subtasks :: "uuid list"
  sd_running :: "(uuid \<times> uuid \<times> sched_task) list"
  sd_results :: "(uuid \<times> (agent_error + task_output)) list"
  sd_persisted :: "(uuid \<times> string \<times> string option) list"

definition new_scheduler :: "nat \<Rightarrow> bool \<Rightarrow> context_manager \<Rightarrow> scheduler" where
  "new_scheduler max_parallel store cm =
     \<lparr>sd_max_parallel = max_parallel, sd_worker = \<lparr>wd_contexts = cm, wd_runs = 0, wd_executed = []\<rparr>,
      sd_store = store, sd_jobs = [], sd_subtasks = [], sd_running = [], sd_results = [], sd_persisted = []\<rparr>"

definition on_contexts :: "(context_manager \<Rightarrow> 'a \<times> context_manager) \<Rightarrow> scheduler \<Rightarrow> 'a \<times> scheduler" where
  "on_contexts f sd = (let (x, cm) = f (wd_contexts (sd_worker sd))
     in (x, sd\<lparr>sd_worker := (sd_worker sd)\<lparr>wd_contexts := cm\<rparr>\<rparr>))"

definition schedule :: "datetime \<Rightarrow> uuid \<Rightarrow> scheduler \<Rightarrow> (job_error + unit) \<times> scheduler" where
  "schedule now i sd =
     (if i \<in> set (sd_jobs sd) then (Inr (), sd)
      else if length (sd_jobs sd) \<ge> sd_max_parallel sd then (Inl (MaxJobsExceeded (sd_max_parallel sd)), sd)
      else
        (let (r, sd1) = on_contexts (update_context i
               (transition_to now JobInProgress (Some ''Scheduled (awaiting agent system)''))) sd
         in (case r of Inl e \<Rightarrow> Inl e | Inr (Inl s) \<Rightarrow> Inl (ContextError i s) | Inr (Inr ()) \<Rightarrow> Inr (), sd1)))"

definition scheduler_execute_tool ::
  "env \<Rightarrow> stamp \<Rightarrow> uuid \<Rightarrow> string \<Rightarrow> json \<Rightarrow> scheduler \<Rightarrow> (agent_error + string) \<times> scheduler" where
  "scheduler_execute_tool E sp job name params sd =
     (let (r, w) = execute_tool_inner E sp job name params (sd_worker sd) in (r, sd\<lparr>sd_worker := w\<rparr>))"

definition spawn_subtask :: "uuid \<Rightarrow> uuid \<Rightarrow> sched_task \<Rightarrow> scheduler \<Rightarrow> (job_error + uuid) \<times> scheduler" where
  "spawn_subtask fresh parent t sd = (case t of
     TaskJob _ _ _ \<Rightarrow> (Inl (ContextError parent ''Use schedule() for Job tasks, not spawn_subtask()''), sd)
   | _ \<Rightarrow> (Inr fresh, sd\<lparr>sd_running := sd_running sd @ [(fresh, parent, t)], sd_subtasks := List.insert fresh (sd_subtasks sd)\<rparr>))"

text \<open>A tool run as a subtask: the same checks, no record in the memory, the raw result.\<close>

definition execute_tool_task ::
  "env \<Rightarrow> duration \<Rightarrow> uuid \<Rightarrow> string \<Rightarrow> json \<Rightarrow> worker_deps \<Rightarrow> (agent_error + task_output) \<times> worker_deps" where
  "execute_tool_task E elap job name params w = (case begin_tool E job name params (wd_contexts w) of
     Inl e \<Rightarrow> (Inl e, w)
   | Inr t \<Rightarrow>
       (case tl_execute t (wd_runs w) params of
          None \<Rightarrow> Inl (ErrTool (ToolTimedOut name (tl_execution_timeout t)))
        | Some (Inl e) \<Rightarrow> Inl (ErrTool (ToolFailed name (show_tool_error (ev_show_duration E) e)))
        | Some (Inr v) \<Rightarrow> Inr \<lparr>to_result = v, to_duration = elap\<rparr>,
        count_run name params w))"

definition run_subtask :: "env \<Rightarrow> duration \<Rightarrow> uuid \<Rightarrow> scheduler \<Rightarrow> scheduler" where
  "run_subtask E elap i sd = (case map_of (sd_running sd) i of
     None \<Rightarrow> sd
   | Some (parent, t) \<Rightarrow>
       (let (r, w) = (case t of
              TaskToolExec job name params \<Rightarrow> execute_tool_task E elap job name params (sd_worker sd)
            | TaskBackground _ h \<Rightarrow>
                (hd_run h ((new_task_context i)\<lparr>tx_parent_id := Some parent\<rparr>), sd_worker sd)
            | TaskJob _ _ _ \<Rightarrow> (Inl (ErrJob (ContextError parent [])), sd_worker sd))
        in sd\<lparr>sd_worker := w, sd_running := AList.delete i (sd_running sd), sd_results := sd_results sd @ [(i, r)]\<rparr>))"

definition cleanup_subtask :: "uuid \<Rightarrow> scheduler \<Rightarrow> scheduler" where
  "cleanup_subtask i sd =
     (if map_of (sd_running sd) i = None then sd\<lparr>sd_subtasks := filter (\<lambda>k. k \<noteq> i) (sd_subtasks sd)\<rparr> else sd)"

definition stop_job :: "datetime \<Rightarrow> uuid \<Rightarrow> scheduler \<Rightarrow> (job_error + unit) \<times> scheduler" where
  "stop_job now i sd =
     (if i \<in> set (sd_jobs sd) then
        (let sd1 = sd\<lparr>sd_jobs := filter (\<lambda>k. k \<noteq> i) (sd_jobs sd)\<rparr>;
             (r, sd2) = on_contexts (update_context i (\<lambda>j. ((), snd (transition_to now JobCancelled (Some ''Stopped by scheduler'') j)))) sd1
         in case r of
              Inl e \<Rightarrow> (Inl e, sd2)
            | Inr _ \<Rightarrow> (Inr (), if sd_store sd2
                then sd2\<lparr>sd_persisted := sd_persisted sd2 @ [(i, ''cancelled'', Some ''Stopped by scheduler'')]\<rparr> else sd2))
      else (Inr (), sd))"

definition is_running :: "uuid \<Rightarrow> scheduler \<Rightarrow> bool" where
  "is_running i sd \<longleftrightarrow> i \<in> set (sd_jobs sd)"

definition running_count :: "scheduler \<Rightarrow> nat" where
  "running_count sd = length (sd_jobs sd)"

definition subtask_count :: "scheduler \<Rightarrow> nat" where
  "subtask_count sd = length (sd_subtasks sd)"

definition running_jobs :: "scheduler \<Rightarrow> uuid list" where
  "running_jobs sd = sd_jobs sd"

definition stop_all :: "datetime \<Rightarrow> scheduler \<Rightarrow> scheduler" where
  "stop_all now sd =
     (fold (\<lambda>i sd. snd (stop_job now i sd)) (sd_jobs sd) sd)\<lparr>sd_subtasks := []\<rparr>"

end
