(* ===== verification/Routine_Engine.thy ===== *)
theory Routine_Engine
  imports Routines Worker Conversations Todos Reasoning
begin

text \<open>
  The routine engine (\<open>src/src/agent/routine_engine.rs\<close>): the cache of event routines, the triggers, the
  guardrails and the execution of a routine, which runs in a task of its own. A task is spawned
  (\<open>en_spawned\<close>), begins (\<open>begin_run\<close>, which first records the run if that is still to be done) and
  finishes after the call of the model (\<open>finish_run\<close>); between these steps anything else may happen.

  The tables of the one database are three parts of the state. The cron crate (\<open>rn_cron\<close>: the next instant
  after a given one) and the regex crate are parameters; a compiled regex is kept as its text.
\<close>

subsection \<open>State\<close>

record routine_env =
  rn_llm :: provider
  rn_compiles :: "string \<Rightarrow> bool"
  rn_is_match :: "string \<Rightarrow> string \<Rightarrow> bool"
  rn_cron :: "string \<Rightarrow> datetime \<Rightarrow> string + datetime option"
  rn_uuid :: "nat \<Rightarrow> uuid"
  rn_uuid_str :: "uuid \<Rightarrow> string"
  rn_show_duration :: "duration \<Rightarrow> string"
  rn_system_prompt :: "string option"
  rn_max_concurrent :: nat
  rn_max_tokens :: "32 word"

record outgoing_response =
  og_content :: string
  og_thread_id :: "string option"
  og_metadata :: json

record routine_engine =
  en_db :: routine_db
  en_costs :: conv_db
  en_todos :: todo_store
  en_scheduler :: "scheduler option"
  en_running :: nat
  en_cache :: "routine list"
  en_spawned :: "(routine \<times> routine_run \<times> bool) list"
  en_active :: "(routine \<times> routine_run) list"
  en_sent :: "outgoing_response list"
  en_uuids :: nat
  en_calls :: nat

definition draw_id :: "routine_env \<Rightarrow> routine_engine \<Rightarrow> uuid \<times> routine_engine" where
  "draw_id E s = (rn_uuid E (en_uuids s), s\<lparr>en_uuids := Suc (en_uuids s)\<rparr>)"

definition on_db :: "(routine_db \<Rightarrow> 'a \<times> routine_db) \<Rightarrow> routine_engine \<Rightarrow> 'a \<times> routine_engine" where
  "on_db f s = (let (x, db) = f (en_db s) in (x, s\<lparr>en_db := db\<rparr>))"

definition show_database_error :: "database_error \<Rightarrow> string" where
  "show_database_error e = (case e of
     QueryError s \<Rightarrow> ''Query failed: '' @ s | SerializationError s \<Rightarrow> ''Serialization error: '' @ s)"

definition next_cron_fire :: "routine_env \<Rightarrow> datetime \<Rightarrow> string \<Rightarrow> string + datetime option" where
  "next_cron_fire E now spec = (case rn_cron E spec now of
     Inl e \<Rightarrow> Inl (''invalid cron: '' @ e) | Inr t \<Rightarrow> Inr t)"

subsection \<open>Triggers\<close>

fun event_pattern :: "trigger \<Rightarrow> string option" where
  "event_pattern (EventTrigger _ p) = Some p"
| "event_pattern _ = None"

definition refresh_event_cache :: "routine_env \<Rightarrow> routine_engine \<Rightarrow> routine_engine" where
  "refresh_event_cache E s = (case on_db list_event_routines s of
     (Inl _, s1) \<Rightarrow> s1
   | (Inr rs, s1) \<Rightarrow> s1\<lparr>en_cache :=
       filter (\<lambda>r. case event_pattern (ro_trigger r) of None \<Rightarrow> False | Some p \<Rightarrow> rn_compiles E p) rs\<rparr>)"

text \<open>\<open>chrono::Duration\<close> holds milliseconds in 64 bits; a longer cooldown counts as 300 seconds.\<close>

definition chrono_max :: duration where
  "chrono_max = (2 ^ 63 - 1) * 1000000"

definition check_cooldown :: "datetime \<Rightarrow> routine \<Rightarrow> bool" where
  "check_cooldown now r = (case ro_last_run_at r of
     None \<Rightarrow> True
   | Some last_run \<Rightarrow>
       (let cooldown = (if gr_cooldown (ro_guardrails r) \<le> chrono_max then gr_cooldown (ro_guardrails r)
                        else duration_secs 300)
        in \<not> now - last_run < cooldown))"

definition check_concurrent :: "routine \<Rightarrow> routine_engine \<Rightarrow> bool \<times> routine_engine" where
  "check_concurrent r s = (case on_db (count_running_routine_runs (ro_id r)) s of
     (Inl _, s1) \<Rightarrow> (False, s1)
   | (Inr n, s1) \<Rightarrow> (n < unat (gr_max_concurrent (ro_guardrails r)), s1))"

definition new_run :: "uuid \<Rightarrow> datetime \<Rightarrow> routine \<Rightarrow> string \<Rightarrow> string option \<Rightarrow> routine_run" where
  "new_run fresh now r trigger_type detail =
     \<lparr>ru_id = fresh, ru_routine_id = ro_id r, ru_trigger_type = trigger_type, ru_trigger_detail = detail,
      ru_started_at = now, ru_completed_at = None, ru_status = RunRunning, ru_result_summary = None,
      ru_tokens_used = None, ru_job_id = None, ru_created_at = now\<rparr>"

definition spawn_fire ::
  "routine_env \<Rightarrow> datetime \<Rightarrow> routine \<Rightarrow> string \<Rightarrow> string option \<Rightarrow> routine_engine \<Rightarrow> routine_engine" where
  "spawn_fire E now r trigger_type detail s =
     (let (i, s1) = draw_id E s
      in s1\<lparr>en_spawned := en_spawned s1 @ [(r, new_run i now r trigger_type detail, True)]\<rparr>)"

definition truncate_detail :: "string \<Rightarrow> nat \<Rightarrow> string" where
  "truncate_detail s n = (if length s \<le> n then s else take (floor_from s n) s @ ''...'')"

definition channel_matches :: "string \<Rightarrow> routine \<Rightarrow> bool" where
  "channel_matches chan r = (case ro_trigger r of EventTrigger (Some ch) _ \<Rightarrow> ch = chan | _ \<Rightarrow> True)"

definition pattern_matches :: "routine_env \<Rightarrow> string \<Rightarrow> routine \<Rightarrow> bool" where
  "pattern_matches E content r =
     (case event_pattern (ro_trigger r) of None \<Rightarrow> False | Some p \<Rightarrow> rn_is_match E p content)"

fun fire_events ::
  "routine_env \<Rightarrow> datetime \<Rightarrow> string \<Rightarrow> string \<Rightarrow> routine list \<Rightarrow> routine_engine \<Rightarrow> nat \<times> routine_engine" where
  "fire_events E now chan content [] s = (0, s)"
| "fire_events E now chan content (r # rs) s =
     (if \<not> channel_matches chan r \<or> \<not> pattern_matches E content r \<or> \<not> check_cooldown now r
      then fire_events E now chan content rs s
      else
        (let (free, s1) = check_concurrent r s
         in if \<not> free \<or> en_running s1 \<ge> rn_max_concurrent E then fire_events E now chan content rs s1
            else
              (let s2 = spawn_fire E now r ''event'' (Some (truncate_detail content 200)) s1;
                   (n, s3) = fire_events E now chan content rs s2
               in (Suc n, s3))))"

definition check_event_triggers ::
  "routine_env \<Rightarrow> datetime \<Rightarrow> string \<Rightarrow> string \<Rightarrow> routine_engine \<Rightarrow> nat \<times> routine_engine" where
  "check_event_triggers E now chan content s = fire_events E now chan content (en_cache s) s"

fun cron_schedule :: "trigger \<Rightarrow> string option" where
  "cron_schedule (CronTrigger s) = Some s"
| "cron_schedule _ = None"

fun fire_crons :: "routine_env \<Rightarrow> datetime \<Rightarrow> routine list \<Rightarrow> routine_engine \<Rightarrow> routine_engine" where
  "fire_crons E now [] s = s"
| "fire_crons E now (r # rs) s =
     (if en_running s \<ge> rn_max_concurrent E then s
      else if \<not> check_cooldown now r then fire_crons E now rs s
      else
        (let (free, s1) = check_concurrent r s
         in if \<not> free then fire_crons E now rs s1
            else fire_crons E now rs (spawn_fire E now r ''cron'' (cron_schedule (ro_trigger r)) s1)))"

definition check_cron_triggers :: "routine_env \<Rightarrow> datetime \<Rightarrow> routine_engine \<Rightarrow> routine_engine" where
  "check_cron_triggers E now s = (case on_db (list_due_cron_routines now) s of
     (Inl _, s1) \<Rightarrow> s1 | (Inr rs, s1) \<Rightarrow> fire_crons E now rs s1)"

definition in_quotes :: "string \<Rightarrow> string" where
  "in_quotes s = [CHR 0x27] @ s @ [CHR 0x27]"

text \<open>A manual run is recorded before its task is spawned; the other checks do not apply to it.\<close>

definition fire_manual :: "routine_env \<Rightarrow> datetime \<Rightarrow> uuid \<Rightarrow> routine_engine \<Rightarrow> (string + uuid) \<times> routine_engine" where
  "fire_manual E now i s = (case on_db (get_routine i) s of
     (Inl e, s1) \<Rightarrow> (Inl (''DB error: '' @ show_database_error e), s1)
   | (Inr None, s1) \<Rightarrow> (Inl (''routine '' @ rn_uuid_str E i @ '' not found''), s1)
   | (Inr (Some r), s1) \<Rightarrow>
       if \<not> ro_enabled r then (Inl (''routine '' @ in_quotes (ro_name r) @ '' is disabled''), s1)
       else
         (let (free, s2) = check_concurrent r s1
          in if \<not> free then (Inl (''routine '' @ in_quotes (ro_name r) @ '' already at max concurrent runs''), s2)
             else
               (let (k, s3) = draw_id E s2; run = new_run k now r ''manual'' None
                in case on_db (create_routine_run now run) s3 of
                     (Inl e, s4) \<Rightarrow> (Inl (''failed to create run record: '' @ show_database_error e), s4)
                   | (Inr _, s4) \<Rightarrow> (Inr k, s4\<lparr>en_spawned := en_spawned s4 @ [(r, run, False)]\<rparr>))))"

subsection \<open>Execution\<close>

definition drop_nth :: "nat \<Rightarrow> 'a list \<Rightarrow> 'a list" where
  "drop_nth i xs = take i xs @ drop (Suc i) xs"

text \<open>The \<open>i\<close>-th spawned task begins.\<close>

definition begin_run :: "routine_env \<Rightarrow> datetime \<Rightarrow> nat \<Rightarrow> routine_engine \<Rightarrow> routine_engine" where
  "begin_run E now i s =
     (let (r, run, to_record) = en_spawned s ! i;
          s1 = s\<lparr>en_spawned := drop_nth i (en_spawned s)\<rparr>;
          (ok, s2) = (if to_record then on_db (create_routine_run now run) s1 else (Inr (), s1))
      in case ok of
           Inl _ \<Rightarrow> s2
         | Inr _ \<Rightarrow> s2\<lparr>en_running := Suc (en_running s2), en_active := en_active s2 @ [(r, run)]\<rparr>)"

definition routine_prompt :: "string \<Rightarrow> string" where
  "routine_prompt prompt = prompt @ newlines 2 @ ''---'' @ newlines 2 @
     ''If nothing needs attention, reply EXACTLY with: ROUTINE_OK'' @ newlines 1 @
     ''If something needs attention, provide a concise summary.''"

definition execute_lightweight ::
  "routine_env \<Rightarrow> datetime \<Rightarrow> uuid \<Rightarrow> string \<Rightarrow> 32 word \<Rightarrow> routine_engine \<Rightarrow>
   (string + (run_status \<times> string option \<times> 32 word option)) \<times> routine_engine" where
  "execute_lightweight E now run_id prompt max_tokens s =
     (let system = (case rn_system_prompt E of None \<Rightarrow> [] | Some p \<Rightarrow> p);
          full = routine_prompt prompt;
          messages = (if system = [] then [user_message full] else [system_message system, user_message full]);
          rq = (completion_request_new messages)\<lparr>rq_max_tokens := Some (unat max_tokens), rq_temperature := Some (3/10)\<rparr>;
          s1 = s\<lparr>en_calls := Suc (en_calls s)\<rparr>
      in case complete (rn_llm E) (en_calls s) rq of
           Inl e \<Rightarrow> (Inl (''LLM call failed: '' @ show_llm_error (rn_show_duration E) e), s1)
         | Inr resp \<Rightarrow>
             (let content = trim (rs_content resp);
                  tokens = Some (of_nat (rs_input_tokens resp + rs_output_tokens resp));
                  (k, s2) = draw_id E s1;
                  s3 = s2\<lparr>en_costs := snd (record_llm_call k now
                    \<lparr>lc_conversation_id = None, lc_routine_run_id = Some run_id, lc_provider = model_name (rn_llm E),
                     lc_model = model_name (rn_llm E), lc_input_tokens = rs_input_tokens resp,
                     lc_output_tokens = rs_output_tokens resp,
                     lc_cost = calculate_cost (rn_llm E) (rs_input_tokens resp) (rs_output_tokens resp),
                     lc_purpose = Some ''routine''\<rparr> (en_costs s2))\<rparr>
              in (if content = [] then
                    Inl (if rs_finish_reason resp = FinishLength
                         then ''LLM response truncated (finish_reason=length) with no content. '' @
                              ''Model may have exhausted token budget on reasoning.''
                         else ''LLM returned empty content.'')
                  else if content = ''ROUTINE_OK'' \<or> find_sub ''ROUTINE_OK'' content \<noteq> None
                  then Inr (RunOk, None, tokens)
                  else Inr (RunAttention, Some content, tokens), s3)))"

definition with_description :: "string \<Rightarrow> todo_item \<Rightarrow> todo_item" where
  "with_description d t = t\<lparr>t_description := Some d\<rparr>"

definition as_agent_internal :: "todo_item \<Rightarrow> todo_item" where
  "as_agent_internal t = t\<lparr>t_is_agent_internal := True\<rparr>"

definition on_todos :: "(todo_store \<Rightarrow> 'a \<times> todo_store) \<Rightarrow> routine_engine \<Rightarrow> 'a \<times> routine_engine" where
  "on_todos f s = (let (x, td) = f (en_todos s) in (x, s\<lparr>en_todos := td\<rparr>))"

definition execute_full_job ::
  "routine_env \<Rightarrow> datetime \<Rightarrow> routine \<Rightarrow> uuid \<Rightarrow> string \<Rightarrow> string \<Rightarrow> routine_engine \<Rightarrow>
   (string + (run_status \<times> string option \<times> 32 word option)) \<times> routine_engine" where
  "execute_full_job E now r run_id title description s = (case en_scheduler s of
     None \<Rightarrow> execute_lightweight E now run_id description (rn_max_tokens E) s
   | Some sd \<Rightarrow>
       (let (todo_id, s1) = draw_id E s;
            todo = as_agent_internal (with_description description
              (new_todo todo_id now ''system'' (''[routine:'' @ ro_name r @ ''] '' @ title) Deliverable AgentStartable))
        in case on_todos (create_todo todo) s1 of
             (Inl e, s2) \<Rightarrow> (Inl (''Failed to create todo for FullJob: '' @ show_database_error e), s2)
           | (Inr _, s2) \<Rightarrow> (case on_todos (update_todo_status now todo_id AgentWorking) s2 of
               (Inl e, s3) \<Rightarrow> (Inl (''Failed to update todo status: '' @ show_database_error e), s3)
             | (Inr _, s3) \<Rightarrow>
                 (let (k, s4) = draw_id E s3
                  in case on_contexts (create_job_for_user k now ''system'' title description) sd of
                       (Inl e, sd1) \<Rightarrow> (Inl (''Failed to create job context: '' @
                           show_job_error (rn_uuid_str E) (rn_show_duration E) e), s4\<lparr>en_scheduler := Some sd1\<rparr>)
                     | (Inr job_id, sd1) \<Rightarrow> (case schedule now job_id sd1 of
                         (Inl e, sd2) \<Rightarrow> (Inl (''Failed to schedule job: '' @
                             show_job_error (rn_uuid_str E) (rn_show_duration E) e), s4\<lparr>en_scheduler := Some sd2\<rparr>)
                       | (Inr _, sd2) \<Rightarrow> (Inr (RunOk, Some (''FullJob scheduled: job='' @ rn_uuid_str E job_id @
                             '', todo='' @ rn_uuid_str E todo_id), None), s4\<lparr>en_scheduler := Some sd2\<rparr>))))))"

definition should_notify :: "notify_config \<Rightarrow> run_status \<Rightarrow> bool" where
  "should_notify n status = (case status of
     RunOk \<Rightarrow> nc_on_success n | RunAttention \<Rightarrow> nc_on_attention n | RunFailed \<Rightarrow> nc_on_failure n | RunRunning \<Rightarrow> False)"

fun status_icon :: "run_status \<Rightarrow> string" where
  "status_icon RunOk = [CHR 0xE2, CHR 0x9C, CHR 0x85]"
| "status_icon RunAttention = [CHR 0xF0, CHR 0x9F, CHR 0x94, CHR 0x94]"
| "status_icon RunFailed = [CHR 0xE2, CHR 0x9D, CHR 0x8C]"
| "status_icon RunRunning = [CHR 0xE2, CHR 0x8F, CHR 0xB3]"

definition send_notification ::
  "notify_config \<Rightarrow> string \<Rightarrow> run_status \<Rightarrow> string option \<Rightarrow> routine_engine \<Rightarrow> routine_engine" where
  "send_notification n name status summary s =
     (if \<not> should_notify n status then s
      else s\<lparr>en_sent := en_sent s @
        [\<lparr>og_content = status_icon status @ '' *Routine '' @ in_quotes name @ ''*: '' @ show_run_status status @
            (case summary of Some t \<Rightarrow> newlines 2 @ t | None \<Rightarrow> []),
          og_thread_id = None,
          og_metadata = JObject [(''source'', JString ''routine''), (''routine_name'', JString name),
            (''status'', JString (show_run_status status))]\<rparr>]\<rparr>)"

definition execute_action ::
  "routine_env \<Rightarrow> datetime \<Rightarrow> routine \<Rightarrow> routine_run \<Rightarrow> routine_engine \<Rightarrow>
   (run_status \<times> string option \<times> 32 word option) \<times> routine_engine" where
  "execute_action E now r run s =
     (let (result, s1) = (case ro_action r of
            Lightweight prompt _ max_tokens \<Rightarrow> execute_lightweight E now (ru_id run) prompt max_tokens s
          | FullJob title description _ \<Rightarrow> execute_full_job E now r (ru_id run) title description s)
      in (case result of Inr x \<Rightarrow> x | Inl e \<Rightarrow> (RunFailed, Some e, None), s1))"

definition record_result ::
  "routine_env \<Rightarrow> datetime \<Rightarrow> routine \<Rightarrow> routine_run \<Rightarrow> run_status \<Rightarrow> string option \<Rightarrow> 32 word option \<Rightarrow>
   routine_db \<Rightarrow> routine_db" where
  "record_result E now r run status summary tokens db =
     (let db1 = snd (complete_routine_run now (ru_id run) status summary tokens db);
          next_fire = (case ro_trigger r of
              CronTrigger spec \<Rightarrow> (case next_cron_fire E now spec of Inl _ \<Rightarrow> None | Inr t \<Rightarrow> t)
            | _ \<Rightarrow> None);
          failures = (if status = RunFailed then ro_consecutive_failures r + 1 else 0)
      in snd (update_routine_runtime now (ro_id r) now next_fire (ro_run_count r + 1) failures (ro_state r) db1))"

text \<open>The \<open>i\<close>-th active run executes its action and finishes.\<close>

definition finish_run :: "routine_env \<Rightarrow> datetime \<Rightarrow> nat \<Rightarrow> routine_engine \<Rightarrow> routine_engine" where
  "finish_run E now i s =
     (let (r, run) = en_active s ! i;
          s1 = s\<lparr>en_active := drop_nth i (en_active s)\<rparr>;
          ((status, summary, tokens), s2) = execute_action E now r run s1;
          s3 = s2\<lparr>en_running := en_running s2 - 1, en_db := record_result E now r run status summary tokens (en_db s2)\<rparr>
      in send_notification (ro_notify r) (ro_name r) status summary s3)"

subsection \<open>Runs of the engine\<close>

datatype engine_event =
    Refreshed
  | Message datetime string string
  | Tick datetime
  | Manual datetime uuid
  | Began datetime nat
  | Finished datetime nat

inductive engine_step :: "routine_env \<Rightarrow> routine_engine \<Rightarrow> engine_event \<Rightarrow> routine_engine \<Rightarrow> bool" for E where
  step_refresh: "engine_step E s Refreshed (refresh_event_cache E s)"
| step_message: "engine_step E s (Message now chan content) (snd (check_event_triggers E now chan content s))"
| step_tick: "engine_step E s (Tick now) (check_cron_triggers E now s)"
| step_manual: "engine_step E s (Manual now i) (snd (fire_manual E now i s))"
| step_begin: "i < length (en_spawned s) \<Longrightarrow> engine_step E s (Began now i) (begin_run E now i s)"
| step_finish: "i < length (en_active s) \<Longrightarrow> engine_step E s (Finished now i) (finish_run E now i s)"

inductive_cases engine_stepE: "engine_step E s e t"

end
