(* ===== verification/Worker_Safety.thy ===== *)
theory Worker_Safety
  imports Worker
begin

text \<open>
  What the job manager promises: every job follows the state machine and keeps a true history, the number of
  active jobs is bounded, the memory of a job is bounded and numbered. And what the scheduler does not do: it
  never tracks a job.
\<close>

subsection \<open>One job\<close>

definition job_ok :: "worker_job \<Rightarrow> bool" where
  "job_ok j \<longleftrightarrow>
     (\<forall>x \<in> set (wj_transitions j). can_transition_to (sx_from x) (sx_to x)) \<and>
     successively (\<lambda>x y. sx_to x = sx_from y) (wj_transitions j) \<and>
     (if wj_transitions j = [] then wj_state j = JobPending else sx_to (last (wj_transitions j)) = wj_state j) \<and>
     length (wj_transitions j) \<le> MAX_TRANSITIONS \<and>
     (wj_completed_at j \<noteq> None \<longleftrightarrow> is_terminal (wj_state j)) \<and>
     (wj_state j \<in> {JobInProgress, JobCompleted, JobFailed, JobStuck} \<longrightarrow> wj_started_at j \<noteq> None)"

lemma job_ok_new: "job_ok (job_with_user fresh now user title description)"
  by (simp add: job_ok_def job_with_user_def is_terminal_def)

lemma successively_drop: "successively R xs \<Longrightarrow> successively R (drop n xs)"
  by (metis append_take_drop_id successively_append_iff)

lemma transition_fields:
  "can_transition_to (wj_state j) new \<Longrightarrow>
   wj_state (snd (transition_to now new reason j)) = new \<and>
   wj_transitions (snd (transition_to now new reason j)) = keep_last MAX_TRANSITIONS (wj_transitions j @
      [\<lparr>sx_from = wj_state j, sx_to = new, sx_timestamp = now, sx_reason = reason\<rparr>])"
  by (auto simp: transition_to_def Let_def keep_last_def)

lemma transition_times:
  assumes "can_transition_to (wj_state j) new"
  shows "wj_started_at (snd (transition_to now new reason j)) =
      (if new = JobInProgress \<and> wj_started_at j = None then Some now else wj_started_at j)"
    and "wj_completed_at (snd (transition_to now new reason j)) =
      (if is_terminal new then Some now else wj_completed_at j)"
  using assms by (auto simp: transition_to_def Let_def is_terminal_def)

lemma terminal_stays: "is_terminal s \<Longrightarrow> can_transition_to s t \<Longrightarrow> is_terminal t"
  by (auto simp: is_terminal_def can_transition_to_def)

lemma transition_ok:
  assumes "job_ok j"
  shows "job_ok (snd (transition_to now new reason j))"
proof (cases "can_transition_to (wj_state j) new")
  case False
  then show ?thesis using assms by (simp add: transition_to_def)
next
  case True
  let ?x = "\<lparr>sx_from = wj_state j, sx_to = new, sx_timestamp = now, sx_reason = reason\<rparr>"
  let ?ts = "wj_transitions j @ [?x]" and ?j = "snd (transition_to now new reason j)"
  have old: "\<forall>x \<in> set (wj_transitions j). can_transition_to (sx_from x) (sx_to x)"
      "successively (\<lambda>x y. sx_to x = sx_from y) (wj_transitions j)"
      "wj_transitions j \<noteq> [] \<Longrightarrow> sx_to (last (wj_transitions j)) = wj_state j"
      "wj_completed_at j \<noteq> None \<longleftrightarrow> is_terminal (wj_state j)"
      "wj_state j \<in> {JobInProgress, JobCompleted, JobFailed, JobStuck} \<Longrightarrow> wj_started_at j \<noteq> None"
    using assms by (simp_all add: job_ok_def)
  have ts: "wj_transitions ?j = keep_last MAX_TRANSITIONS ?ts" and st: "wj_state ?j = new"
    using transition_fields [OF True, of now reason] by simp_all
  have snoc: "keep_last MAX_TRANSITIONS ?ts = keep_last (MAX_TRANSITIONS - 1) (wj_transitions j) @ [?x]"
    by (rule keep_last_snoc) (simp add: MAX_TRANSITIONS_def)
  have "successively (\<lambda>x y. sx_to x = sx_from y) ?ts"
    using old(2,3) by (auto simp: successively_append_iff)
  then have chain: "successively (\<lambda>x y. sx_to x = sx_from y) (keep_last MAX_TRANSITIONS ?ts)"
    unfolding keep_last_def by (rule successively_drop)
  have "\<forall>x \<in> set ?ts. can_transition_to (sx_from x) (sx_to x)"
    using old(1) True by simp
  then have steps: "\<forall>x \<in> set (keep_last MAX_TRANSITIONS ?ts). can_transition_to (sx_from x) (sx_to x)"
    unfolding keep_last_def by (meson in_set_dropD)
  have completed: "wj_completed_at ?j \<noteq> None \<longleftrightarrow> is_terminal new"
    using old(4) terminal_stays [OF _ True] by (auto simp: transition_times(2) [OF True])
  have started: "new \<in> {JobInProgress, JobCompleted, JobFailed, JobStuck} \<longrightarrow> wj_started_at ?j \<noteq> None"
    using old(5) True by (auto simp: transition_times(1) [OF True] can_transition_to_def)
  have "length (keep_last MAX_TRANSITIONS ?ts) \<le> MAX_TRANSITIONS" by simp
  with chain steps completed started show ?thesis
    unfolding job_ok_def ts st by (simp add: snoc)
qed

lemma add_tokens_ok: "job_ok j \<Longrightarrow> job_ok (snd (add_tokens n j))"
  by (simp add: add_tokens_def Let_def job_ok_def)

lemma job_ok_counters [simp]:
  "job_ok (j\<lparr>wj_repair_attempts := n\<rparr>) = job_ok j" "job_ok (j\<lparr>wj_max_tokens := m\<rparr>) = job_ok j"
  by (simp_all add: job_ok_def)

lemma recovery_ok: "job_ok j \<Longrightarrow> job_ok (snd (attempt_recovery now j))"
  by (simp add: attempt_recovery_def transition_ok)

lemma transition_active:
  "is_active (wj_state (snd (transition_to now new reason j))) \<Longrightarrow> is_active (wj_state j)"
proof (cases "can_transition_to (wj_state j) new")
  case True
  then show "is_active (wj_state (snd (transition_to now new reason j))) \<Longrightarrow> is_active (wj_state j)"
    by (auto simp: is_active_def transition_fields dest: terminal_stays)
qed (simp add: transition_to_def)

text \<open>The only updates of a context: moves of the state machine and the token count.\<close>

datatype job_update = Move job_state "string option" | Tokens "64 word" | Recover | LimitTokens "64 word"

fun apply_update :: "datetime \<Rightarrow> job_update \<Rightarrow> worker_job \<Rightarrow> (string + unit) \<times> worker_job" where
  "apply_update now (Move s r) j = transition_to now s r j"
| "apply_update now (Tokens n) j = add_tokens n j"
| "apply_update now Recover j = attempt_recovery now j"
| "apply_update now (LimitTokens n) j = (Inr (), j\<lparr>wj_max_tokens := n\<rparr>)"

lemma update_ok: "job_ok j \<Longrightarrow> job_ok (snd (apply_update now u j))"
  by (cases u) (simp_all add: transition_ok add_tokens_ok recovery_ok)

lemma tokens_state [simp]: "wj_state (snd (add_tokens n j)) = wj_state j"
  by (simp add: add_tokens_def Let_def)

lemma recovery_active: "is_active (wj_state (snd (attempt_recovery now j))) \<Longrightarrow> is_active (wj_state j)"
  by (cases "wj_state j = JobStuck") (simp_all add: attempt_recovery_def is_active_def is_terminal_def)

lemma update_active: "is_active (wj_state (snd (apply_update now u j))) \<Longrightarrow> is_active (wj_state j)"
  by (cases u) (auto dest: transition_active recovery_active)

subsection \<open>The number of active jobs\<close>

lemma count_update_le:
  "length (filter (\<lambda>(_, j). P j) (AList.update k v xs)) \<le> Suc (length (filter (\<lambda>(_, j). P j) xs))"
  by (induction xs) auto

lemma count_update_same:
  "map_of xs k = Some j \<Longrightarrow> (P v \<Longrightarrow> P j) \<Longrightarrow>
   length (filter (\<lambda>(_, j). P j) (AList.update k v xs)) \<le> length (filter (\<lambda>(_, j). P j) xs)"
  by (induction xs) (auto split: if_splits)

lemma count_delete_le:
  "length (filter (\<lambda>(_, j). P j) (AList.delete k xs)) \<le> length (filter (\<lambda>(_, j). P j) xs)"
  by (induction xs) auto

subsection \<open>Memory\<close>

lemma keep_last_Cons: "n \<le> length xs \<Longrightarrow> keep_last n (x # xs) = keep_last n xs"
  by (simp add: keep_last_def Suc_diff_le)

lemma trim_messages_id: "length ms \<le> n \<Longrightarrow> trim_messages n ms = ms"
  by (cases "(n, ms)" rule: trim_messages.cases) auto

text \<open>Adding a message to a conversation within its limit appends it, and when the limit is reached drops
  one message, the oldest that is not a system message in front: the loop computes the system message
  followed by the last messages that fit. So the conversation of a job never has more messages than
  its limit, and the system prompt is never forgotten.\<close>

theorem conversation_window:
  assumes "0 < ct_max_messages c" "length (ct_messages c) \<le> ct_max_messages c"
  shows "ct_messages (memory_add m c) =
      (case ct_messages c of
         [] \<Rightarrow> [m]
       | f # rest \<Rightarrow>
           if cm_role f = System then f # keep_last (ct_max_messages c - 1) (rest @ [m])
           else keep_last (ct_max_messages c) (f # rest @ [m]))
    \<and> length (ct_messages (memory_add m c)) \<le> ct_max_messages c"
proof (cases "length (ct_messages c) < ct_max_messages c")
  case True
  then show ?thesis
    by (cases "ct_messages c") (auto simp: memory_add_def trim_messages_id keep_last_id)
next
  case False
  then obtain f rest where ms: "ct_messages c = f # rest" and n: "ct_max_messages c = Suc (length rest)"
    using assms by (cases "ct_messages c") auto
  obtain x xs where snoc: "rest @ [m] = x # xs" and len: "length xs = length rest"
    by (cases "rest @ [m]") (auto simp: append_eq_Cons_conv)
  show ?thesis
    by (simp add: memory_add_def ms n snoc len trim_messages_id keep_last_def)
qed

text \<open>A limit of zero is not kept: a single system message stays.\<close>

lemma zero_limit_not_kept:
  "cm_role m = System \<Longrightarrow> ct_messages (memory_add m \<lparr>ct_messages = [], ct_max_messages = 0\<rparr>) = [m]"
  by (simp add: memory_add_def)

text \<open>The records of a job are numbered from zero; its conversation keeps its limit.\<close>

definition memory_ok :: "memory \<Rightarrow> bool" where
  "memory_ok y \<longleftrightarrow>
     map ar_sequence (my_actions y) = map of_nat [0..<length (my_actions y)] \<and>
     my_next_sequence y = of_nat (length (my_actions y))"

lemma memory_ok_new: "memory_ok (new_memory i)"
  by (simp add: memory_ok_def new_memory_def)

lemma finish_action_sequence [simp]: "ar_sequence (finish_action E name out d r) = ar_sequence r"
  by (auto simp: finish_action_def action_fail_def action_succeed_def split: option.split sum.split)

lemma memory_ok_recorded:
  "memory_ok y \<Longrightarrow> create_action fresh now name params y = (r, y1) \<Longrightarrow>
   memory_ok (record_action (finish_action E name out d r) y1)"
  by (auto simp: memory_ok_def create_action_def record_action_def new_action_record_def)

subsection \<open>Runs of the scheduler\<close>

text \<open>What the rest of the program can do with jobs and subtasks. A job registered from outside has been
  built and moved by the operations on jobs.\<close>

datatype job_event =
    Create uuid datetime string string string
  | Register worker_job
  | Update uuid datetime job_update
  | Remove uuid
  | Schedule datetime uuid
  | Execute stamp uuid string json
  | Spawn uuid uuid sched_task
  | RunSubtask duration uuid
  | Cleanup uuid
  | Stop datetime uuid
  | StopAll datetime

fun apply_event :: "env \<Rightarrow> job_event \<Rightarrow> scheduler \<Rightarrow> scheduler" where
  "apply_event E (Create fresh now user title descr) sd = snd (on_contexts (create_job_for_user fresh now user title descr) sd)"
| "apply_event E (Register j) sd = snd (on_contexts (register_job j) sd)"
| "apply_event E (Update i now u) sd = snd (on_contexts (update_context i (apply_update now u)) sd)"
| "apply_event E (Remove i) sd = snd (on_contexts (remove_job i) sd)"
| "apply_event E (Schedule now i) sd = snd (schedule now i sd)"
| "apply_event E (Execute sp i name params) sd = snd (scheduler_execute_tool E sp i name params sd)"
| "apply_event E (Spawn fresh parent t) sd = snd (spawn_subtask fresh parent t sd)"
| "apply_event E (RunSubtask d i) sd = run_subtask E d i sd"
| "apply_event E (Cleanup i) sd = cleanup_subtask i sd"
| "apply_event E (Stop now i) sd = snd (stop_job now i sd)"
| "apply_event E (StopAll now) sd = stop_all now sd"

fun event_ok :: "job_event \<Rightarrow> bool" where
  "event_ok (Register j) = job_ok j"
| "event_ok _ = True"

definition job_step :: "env \<Rightarrow> scheduler \<Rightarrow> job_event \<Rightarrow> scheduler \<Rightarrow> bool" where
  "job_step E sd e sd' \<longleftrightarrow> event_ok e \<and> sd' = apply_event E e sd"

definition contexts_ok :: "context_manager \<Rightarrow> bool" where
  "contexts_ok cm \<longleftrightarrow> (\<forall>i j. map_of (cx_contexts cm) i = Some j \<longrightarrow> job_ok j) \<and>
     (\<forall>i y. map_of (cx_memories cm) i = Some y \<longrightarrow> memory_ok y) \<and>
     active_job_count cm \<le> cx_max_jobs cm"

definition scheduler_ok :: "scheduler \<Rightarrow> bool" where
  "scheduler_ok sd \<longleftrightarrow> contexts_ok (wd_contexts (sd_worker sd)) \<and> sd_jobs sd = [] \<and> sd_persisted sd = []"

lemma update_context_ok:
  assumes "contexts_ok cm" "\<And>j. job_ok j \<Longrightarrow> job_ok (snd (f j))"
    "\<And>j. is_active (wj_state (snd (f j))) \<Longrightarrow> is_active (wj_state j)"
  shows "contexts_ok (snd (update_context i f cm))"
proof (cases "map_of (cx_contexts cm) i")
  case (Some j)
  have "active_job_count (snd (update_context i f cm)) \<le> active_job_count cm"
    using count_update_same [OF Some, of "\<lambda>j. is_active (wj_state j)" "snd (f j)"] assms(3) Some
    by (simp add: active_job_count_def update_context_def)
  then show ?thesis
    using assms Some by (auto simp: contexts_ok_def update_context_def update_conv')
qed (use assms in \<open>simp add: update_context_def\<close>)

lemma update_memory_ok:
  "contexts_ok cm \<Longrightarrow> (\<And>y. memory_ok y \<Longrightarrow> memory_ok (snd (f y))) \<Longrightarrow> contexts_ok (snd (update_memory i f cm))"
  by (auto simp: contexts_ok_def update_memory_def update_conv' active_job_count_def split: option.split)

lemma insert_job_ok:
  assumes "contexts_ok cm" "active_job_count cm < cx_max_jobs cm" "job_ok j"
  shows "contexts_ok (cm\<lparr>cx_contexts := AList.update i j (cx_contexts cm),
     cx_memories := AList.update i (new_memory i) (cx_memories cm)\<rparr>)"
  using assms count_update_le [of "\<lambda>j. is_active (wj_state j)" i j "cx_contexts cm"] memory_ok_new
  by (auto simp: contexts_ok_def update_conv' active_job_count_def)

lemma register_ok: "contexts_ok cm \<Longrightarrow> job_ok j \<Longrightarrow> contexts_ok (snd (register_job j cm))"
  by (auto simp: register_job_def intro!: insert_job_ok)

lemma create_ok: "contexts_ok cm \<Longrightarrow> contexts_ok (snd (create_job_for_user fresh now u t d cm))"
  by (auto simp: create_job_for_user_def Let_def job_ok_new intro!: insert_job_ok)

lemma remove_ok: "contexts_ok cm \<Longrightarrow> contexts_ok (snd (remove_job i cm))"
  using count_delete_le [of "\<lambda>j. is_active (wj_state j)" i "cx_contexts cm"]
  by (auto simp: contexts_ok_def remove_job_def active_job_count_def Let_def delete_conv' split: option.split if_splits)

lemma remember_ok: "contexts_ok (wd_contexts w) \<Longrightarrow> contexts_ok (wd_contexts (remember_call E sp i name params out w))"
  by (auto simp: remember_call_def intro!: update_memory_ok memory_ok_recorded split: prod.split)

lemma count_run_contexts [simp]: "wd_contexts (count_run name params w) = wd_contexts w"
  by (simp add: count_run_def)

lemma execute_ok:
  "contexts_ok (wd_contexts w) \<Longrightarrow> contexts_ok (wd_contexts (snd (execute_tool_inner E sp i name params w)))"
  by (auto simp: execute_tool_inner_def Let_def intro!: remember_ok split: sum.split)

lemma tool_task_contexts [simp]: "wd_contexts (snd (execute_tool_task E d i name params w)) = wd_contexts w"
  by (simp add: execute_tool_task_def split: sum.split)

lemma on_contexts_ok:
  "scheduler_ok sd \<Longrightarrow> (\<And>cm. contexts_ok cm \<Longrightarrow> contexts_ok (snd (f cm))) \<Longrightarrow> scheduler_ok (snd (on_contexts f sd))"
  by (auto simp: scheduler_ok_def on_contexts_def Let_def split: prod.split) (metis snd_conv)

lemma move_ok: "contexts_ok cm \<Longrightarrow> contexts_ok (snd (update_context i (apply_update now u) cm))"
  by (rule update_context_ok) (auto intro: update_ok dest: update_active)

lemma move_to_ok: "contexts_ok cm \<Longrightarrow> contexts_ok (snd (update_context i (transition_to now s r) cm))"
  by (rule update_context_ok) (auto intro: transition_ok dest: transition_active)

lemma schedule_ok: "scheduler_ok sd \<Longrightarrow> scheduler_ok (snd (schedule now i sd))"
proof -
  assume ok: "scheduler_ok sd"
  have "scheduler_ok (snd (on_contexts (update_context i (transition_to now JobInProgress reason)) sd))" for reason
    by (rule on_contexts_ok [OF ok move_to_ok])
  then show ?thesis using ok by (simp add: schedule_def Let_def split_beta)
qed

lemma run_subtask_ok: "scheduler_ok sd \<Longrightarrow> scheduler_ok (run_subtask E d i sd)"
  unfolding run_subtask_def
  by (auto simp: scheduler_ok_def Let_def split: option.splits sched_task.splits prod.splits
      dest: arg_cong [where f = "\<lambda>x. wd_contexts (snd x)"])

lemma stop_nothing: "sd_jobs sd = [] \<Longrightarrow> stop_job now i sd = (Inr (), sd)"
  by (simp add: stop_job_def)

lemma event_keeps_ok:
  assumes "scheduler_ok sd" "event_ok e"
  shows "scheduler_ok (apply_event E e sd)"
  using assms
proof (cases e)
  case (Spawn fresh parent t)
  then show ?thesis using assms by (cases t) (auto simp: spawn_subtask_def scheduler_ok_def)
next
  case (Execute sp i name params)
  then show ?thesis
    using assms execute_ok [of "sd_worker sd" E sp i name params]
    by (auto simp: scheduler_execute_tool_def scheduler_ok_def split: prod.split)
next
  case (Cleanup i)
  then show ?thesis using assms by (simp add: cleanup_subtask_def scheduler_ok_def)
next
  case (Stop now i)
  then show ?thesis using assms by (simp add: stop_nothing scheduler_ok_def)
next
  case (StopAll now)
  then show ?thesis using assms by (simp add: stop_all_def scheduler_ok_def)
qed (auto intro!: on_contexts_ok create_ok register_ok move_ok remove_ok schedule_ok run_subtask_ok)

definition job_init :: "scheduler \<Rightarrow> bool" where
  "job_init sd \<longleftrightarrow> (\<exists>n store m. sd = new_scheduler n store (new_context_manager m))"

interpretation job_runs: invariant_system job_init "job_step E" "\<lambda>_ sd. scheduler_ok sd" for E
proof unfold_locales
  show "scheduler_ok sd" if "job_init sd" for sd
    using that by (auto simp: job_init_def scheduler_ok_def contexts_ok_def new_scheduler_def
        new_context_manager_def active_job_count_def)
  show "scheduler_ok t" if "scheduler_ok s" "job_step E s e t" for s e t es
    using that by (auto simp: job_step_def intro: event_keeps_ok)
qed

text \<open>C35: In every run, whatever is created, registered, moved, removed or executed in which order, each job
  has followed the state machine: its recorded transitions are permitted, each starts where the one
  before ended, the last one ends in its state, and there are at most 200; it has a completion time
  exactly if it is completed, failed or cancelled; a job that has run has a start time; the actions in
  its memory are numbered from zero; and never more jobs are active than allowed.\<close>

theorem jobs_follow_state_machine:
  assumes "reach job_init (job_step E) es sd"
  shows "(\<forall>i j. get_context i (wd_contexts (sd_worker sd)) = Inr j \<longrightarrow> job_ok j) \<and>
     (\<forall>i y. get_memory i (wd_contexts (sd_worker sd)) = Inr y \<longrightarrow> memory_ok y) \<and>
     active_job_count (wd_contexts (sd_worker sd)) \<le> cx_max_jobs (wd_contexts (sd_worker sd))"
  using job_runs.reach_inv [OF assms]
  by (auto simp: scheduler_ok_def contexts_ok_def get_context_def get_memory_def split: option.splits)

text \<open>The scheduler never tracks a job: in every run its count of running jobs is zero, so that the limit on
  parallel jobs is never what refuses a job (unless it is zero), stopping a job leaves everything as
  it is, the job included, and no cancellation is ever stored.\<close>

theorem scheduler_tracks_nothing:
  assumes "reach job_init (job_step E) es sd"
  shows "running_count sd = 0 \<and> stop_job now i sd = (Inr (), sd) \<and> sd_persisted sd = [] \<and>
     (0 < sd_max_parallel sd \<longrightarrow> (\<forall>n. fst (schedule now i sd) \<noteq> Inl (MaxJobsExceeded n)))"
proof -
  have sd: "sd_jobs sd = []" "sd_persisted sd = []"
    using job_runs.reach_inv [OF assms] by (simp_all add: scheduler_ok_def)
  have "fst (on_contexts (update_context i f) sd) \<noteq> Inl (MaxJobsExceeded n)" for f :: "worker_job \<Rightarrow> (string + unit) \<times> worker_job" and n
    by (simp add: on_contexts_def update_context_def split: option.split)
  then have "fst (schedule now i sd) \<noteq> Inl (MaxJobsExceeded n)" if "0 < sd_max_parallel sd" for n
    using sd(1) that by (auto simp: schedule_def Let_def split_beta split: sum.split unit.split)
  then show ?thesis
    using sd by (simp add: running_count_def stop_nothing)
qed

text \<open>Aborting all subtasks aborts the watchers only: a spawned task still runs to its end.\<close>

lemma stop_all_keeps_tasks:
  "sd_jobs sd = [] \<Longrightarrow> sd_running (stop_all now sd) = sd_running sd \<and> subtask_count (stop_all now sd) = 0"
  by (simp add: stop_all_def subtask_count_def)

subsection \<open>Calls in parallel\<close>

lemma remember_frame [simp]:
  "wd_runs (remember_call E sp job name params out w) = wd_runs w"
  "wd_executed (remember_call E sp job name params out w) = wd_executed w"
  by (simp_all add: remember_call_def)

lemma finish_calls_frame:
  "wd_runs (fold (finish_call E sp job calls rs) ord w) = wd_runs w"
  "wd_executed (fold (finish_call E sp job calls rs) ord w) = wd_executed w"
  by (induction ord arbitrary: w) (auto simp: finish_call_def split: sum.split)

text \<open>The tools executed and their runs, as sequential calls would have them.\<close>

fun sequential_calls ::
  "env \<Rightarrow> uuid \<Rightarrow> (string \<times> json) list \<Rightarrow> context_manager \<Rightarrow> nat \<Rightarrow> (agent_error + string) list \<times> (string \<times> json) list" where
  "sequential_calls E job [] cm n = ([], [])"
| "sequential_calls E job ((name, params) # cs) cm n = (case begin_tool E job name params cm of
     Inl e \<Rightarrow> (let (rs, xs) = sequential_calls E job cs cm n in (Inl e # rs, xs))
   | Inr t \<Rightarrow> (let (rs, xs) = sequential_calls E job cs cm (Suc n)
       in (tool_outcome E name t (tl_execute t n params) # rs, (name, params) # xs)))"

lemma start_calls_sequential:
  "(case sequential_calls E job calls (wd_contexts w) (wd_runs w) of (rs, xs) \<Rightarrow>
     map (\<lambda>((name, _), r). case r of Inl e \<Rightarrow> Inl e | Inr (t, out) \<Rightarrow> tool_outcome E name t out)
       (zip calls (fst (start_calls E job calls w))) = rs \<and>
     wd_executed (snd (start_calls E job calls w)) = wd_executed w @ xs)"
proof (induction calls arbitrary: w)
  case (Cons c cs)
  obtain name params where c: "c = (name, params)" by (cases c)
  show ?case
  proof (cases "begin_tool E job name params (wd_contexts w)")
    case (Inl e)
    then show ?thesis using Cons.IH [of w] c by (auto split: prod.splits)
  next
    case (Inr t)
    then show ?thesis using Cons.IH [of "count_run name params w"] c
      by (auto simp: count_run_def split: prod.splits)
  qed
qed simp


subsection \<open>Witnesses\<close>

theorem conversation_window_witness:
  "ct_messages (memory_add (user_message ''b'')
      \<lparr>ct_messages = [system_message ''s'', user_message ''a''], ct_max_messages = 2\<rparr>) =
     [system_message ''s'', user_message ''b'']"
  using conversation_window [of "\<lparr>ct_messages = [system_message ''s'', user_message ''a''], ct_max_messages = 2\<rparr>" "user_message ''b''"]
  by (simp add: rust_defs keep_last_def)

definition empty_scheduler :: scheduler where
  "empty_scheduler = new_scheduler 3 True (new_context_manager 2)"

lemma one_job_reached:
  "reach job_init (job_step E) [Create 7 5 ''u'' ''t'' ''d'']
     (snd (on_contexts (create_job_for_user 7 5 ''u'' ''t'' ''d'') empty_scheduler))"
proof -
  have "reach job_init (job_step E) [] empty_scheduler"
    by (rule reach_init) (auto simp: job_init_def empty_scheduler_def)
  then show ?thesis
    using reach_step [of job_init "job_step E" "[]" empty_scheduler "Create 7 5 ''u'' ''t'' ''d''"]
    by (simp add: job_step_def)
qed

theorem jobs_follow_state_machine_witness:
  "active_job_count (wd_contexts (sd_worker
      (snd (on_contexts (create_job_for_user 7 5 ''u'' ''t'' ''d'') empty_scheduler)))) \<le> 2"
  using jobs_follow_state_machine [OF one_job_reached]
  by (simp add: on_contexts_def create_job_for_user_def empty_scheduler_def new_scheduler_def new_context_manager_def
      active_job_count_def Let_def)

theorem scheduler_tracks_nothing_witness:
  "running_count (snd (on_contexts (create_job_for_user 7 5 ''u'' ''t'' ''d'') empty_scheduler)) = 0"
  using scheduler_tracks_nothing [OF one_job_reached] by blast

end
