(* ===== verification/Routine_Safety.thy ===== *)
theory Routine_Safety
  imports Routine_Engine Worker_Safety Agent_Examples
begin

text \<open>
  What the guardrails of the routine engine give in its runs: which routines a message fires, what a run left
  over from a crash does, and what becomes of routines that start jobs.
\<close>

subsection \<open>Statements without faults\<close>

lemma rb_tick_id: "rb_faults db = [] \<Longrightarrow> rb_tick db = db"
  by (simp add: rb_tick_def)

lemma rb_query_ok: "rb_faults db = [] \<Longrightarrow> rb_query what f db = (Inr (f db), db)"
  by (simp add: rb_query_def rb_fault_def rb_tick_id)

lemma check_concurrent_ok:
  "rb_faults (en_db s) = [] \<Longrightarrow>
   check_concurrent r s = (count_running (ro_id r) (en_db s) < unat (gr_max_concurrent (ro_guardrails r)), s)"
  by (simp add: check_concurrent_def on_db_def count_running_routine_runs_def rb_query_ok)

lemma spawn_fire_frame [simp]:
  "en_db (spawn_fire E now r ty d s) = en_db s" "en_running (spawn_fire E now r ty d s) = en_running s"
  "en_active (spawn_fire E now r ty d s) = en_active s" "en_cache (spawn_fire E now r ty d s) = en_cache s"
  "en_scheduler (spawn_fire E now r ty d s) = en_scheduler s"
  by (simp_all add: spawn_fire_def draw_id_def)

lemma spawn_fire_spawned:
  "\<exists>i. en_spawned (spawn_fire E now r ty d s) = en_spawned s @ [(r, new_run i now r ty d, True)] \<and> i = rn_uuid E (en_uuids s)"
  by (simp add: spawn_fire_def draw_id_def)

lemma spawn_fire_routines [simp]: "map fst (en_spawned (spawn_fire E now r ty d s)) = map fst (en_spawned s) @ [r]"
  by (simp add: spawn_fire_def draw_id_def)

subsection \<open>Which routines a message fires\<close>

definition event_due :: "routine_env \<Rightarrow> datetime \<Rightarrow> string \<Rightarrow> string \<Rightarrow> routine_db \<Rightarrow> routine \<Rightarrow> bool" where
  "event_due E now chan content db r \<longleftrightarrow>
     channel_matches chan r \<and> pattern_matches E content r \<and> check_cooldown now r \<and>
     count_running (ro_id r) db < unat (gr_max_concurrent (ro_guardrails r))"

lemma fire_events_spec:
  assumes "rb_faults (en_db s) = []" "fire_events E now chan content rs s = (n, t)"
  shows "n = (if en_running s < rn_max_concurrent E then length (filter (event_due E now chan content (en_db s)) rs) else 0) \<and>
    map fst (en_spawned t) = map fst (en_spawned s) @
      (if en_running s < rn_max_concurrent E then filter (event_due E now chan content (en_db s)) rs else []) \<and>
    en_running t = en_running s \<and> en_active t = en_active s \<and> en_cache t = en_cache s"
  using assms
proof (induction rs arbitrary: s n t)
  case (Cons r rs)
  show ?case
  proof (cases "event_due E now chan content (en_db s) r \<and> en_running s < rn_max_concurrent E")
    case True
    let ?s = "spawn_fire E now r ''event'' (Some (truncate_detail content 200)) s"
    obtain m where m: "fire_events E now chan content rs ?s = (m, t)" "n = Suc m"
      using Cons.prems True by (auto simp: event_due_def check_concurrent_ok split: prod.splits)
    then show ?thesis
      using Cons.IH [of ?s m t] Cons.prems(1) True by simp
  next
    case False
    then have "fire_events E now chan content rs s = (n, t)"
      using Cons.prems by (auto simp: event_due_def check_concurrent_ok split: if_splits)
    then show ?thesis using Cons.IH [of s n t] Cons.prems(1) False by auto
  qed
qed simp


subsection \<open>Frames\<close>

lemma on_db_frame [simp]:
  "en_running (snd (on_db f s)) = en_running s" "en_active (snd (on_db f s)) = en_active s"
  "en_cache (snd (on_db f s)) = en_cache s" "en_spawned (snd (on_db f s)) = en_spawned s"
  "en_scheduler (snd (on_db f s)) = en_scheduler s" "en_db (snd (on_db f s)) = snd (f (en_db s))"
  "fst (on_db f s) = fst (f (en_db s))"
  by (simp_all add: on_db_def split_beta)

lemma on_db_pair: "on_db f s = (x, t) \<Longrightarrow> t = snd (on_db f s) \<and> x = fst (f (en_db s))"
  by (auto simp: on_db_def split_beta)

lemma check_concurrent_state: "snd (check_concurrent r s) = snd (on_db (count_running_routine_runs (ro_id r)) s)"
  by (auto simp: check_concurrent_def split: prod.split sum.split)

definition same_core :: "routine_engine \<Rightarrow> routine_engine \<Rightarrow> bool" where
  "same_core s t \<longleftrightarrow> en_running t = en_running s \<and> en_active t = en_active s \<and> en_cache t = en_cache s \<and>
     en_scheduler t = en_scheduler s"

lemma same_core_trans: "same_core s t \<Longrightarrow> same_core t u \<Longrightarrow> same_core s u"
  by (simp add: same_core_def)

lemma same_core_ops [simp]:
  "same_core s s" "same_core s (snd (on_db f s))" "same_core s (snd (check_concurrent r s))"
  "same_core s (spawn_fire E now r ty d s)" "same_core s (snd (draw_id E s))"
  by (simp_all add: same_core_def check_concurrent_state draw_id_def)

lemma fire_events_core: "same_core s (snd (fire_events E now chan content rs s))"
proof (induction rs arbitrary: s)
  case (Cons r rs)
  obtain b s1 where c: "check_concurrent r s = (b, s1)" by (cases "check_concurrent r s")
  then have "same_core s s1" using same_core_ops(3) [of s r] by simp
  moreover have "same_core s1 (snd (fire_events E now chan content rs s1))" by (rule Cons.IH)
  moreover have "same_core s1 (snd (fire_events E now chan content rs (spawn_fire E now r ty d s1)))" for ty d
    using same_core_trans [OF same_core_ops(4) Cons.IH] .
  ultimately show ?case
    using Cons.IH [of s] c by (auto intro: same_core_trans simp: split_beta Let_def)
qed simp

lemma fire_crons_core: "same_core s (fire_crons E now rs s)"
proof (induction rs arbitrary: s)
  case (Cons r rs)
  obtain b s1 where c: "check_concurrent r s = (b, s1)" by (cases "check_concurrent r s")
  then have "same_core s s1" using same_core_ops(3) [of s r] by simp
  moreover have "same_core s1 (fire_crons E now rs s1)" by (rule Cons.IH)
  moreover have "same_core s1 (fire_crons E now rs (spawn_fire E now r ty d s1))" for ty d
    using same_core_trans [OF same_core_ops(4) Cons.IH] .
  ultimately show ?case
    using Cons.IH [of s] c by (auto intro: same_core_trans)
qed simp

lemma fire_manual_core: "same_core s (snd (fire_manual E now i s))"
proof -
  obtain x s1 where g: "on_db (get_routine i) s = (x, s1)" by (cases "on_db (get_routine i) s")
  have s1: "same_core s s1" using same_core_ops(2) [of s "get_routine i"] g by simp
  show ?thesis
  proof (cases "\<exists>r. x = Inr (Some r) \<and> ro_enabled r")
    case False
    then show ?thesis using g s1 by (auto simp: fire_manual_def split: sum.splits option.splits)
  next
    case True
    then obtain r where r: "x = Inr (Some r)" "ro_enabled r" by blast
    obtain b s2 where c: "check_concurrent r s1 = (b, s2)" by (cases "check_concurrent r s1")
    have s2: "same_core s1 s2" using same_core_ops(3) [of s1 r] c by simp
    obtain k s3 where d: "draw_id E s2 = (k, s3)" by (cases "draw_id E s2")
    have s3: "same_core s2 s3" using same_core_ops(5) [of s2 E] d by simp
    let ?run = "new_run k now r ''manual'' None"
    obtain y s4 where e: "on_db (create_routine_run now ?run) s3 = (y, s4)" by (cases "on_db (create_routine_run now ?run) s3")
    have s4: "same_core s3 s4" using same_core_ops(2) [of s3 "create_routine_run now ?run"] e by simp
    have "same_core s3 (snd (fire_manual E now i s))" if b
      using g r c d e s4 that by (cases y) (simp_all add: fire_manual_def Let_def same_core_def)
    moreover have "snd (fire_manual E now i s) = s2" if "\<not> b"
      using g r c that by (simp add: fire_manual_def Let_def)
    ultimately show ?thesis
      using same_core_trans [OF s1 s2] same_core_trans [OF same_core_trans [OF s1 s2] s3]
      by (cases b) (blast intro: same_core_trans, simp)
  qed
qed

lemma refresh_frame [simp]:
  "en_running (refresh_event_cache E s) = en_running s" "en_active (refresh_event_cache E s) = en_active s"
  "en_scheduler (refresh_event_cache E s) = en_scheduler s" "en_spawned (refresh_event_cache E s) = en_spawned s"
  by (auto simp: refresh_event_cache_def dest!: on_db_pair split: prod.split sum.split)

lemma check_event_core: "same_core s (snd (check_event_triggers E now chan content s))"
  by (simp add: check_event_triggers_def fire_events_core)

lemma check_cron_core: "same_core s (check_cron_triggers E now s)"
proof -
  obtain x s1 where g: "on_db (list_due_cron_routines now) s = (x, s1)" by (cases "on_db (list_due_cron_routines now) s")
  then have "same_core s s1" using same_core_ops(2) [of s "list_due_cron_routines now"] by simp
  then show ?thesis
    using g by (auto simp: check_cron_triggers_def intro: same_core_trans fire_crons_core split: sum.split)
qed

lemma lightweight_frame [simp]:
  "en_running (snd (execute_lightweight E now i p n s)) = en_running s"
  "en_active (snd (execute_lightweight E now i p n s)) = en_active s"
  "en_cache (snd (execute_lightweight E now i p n s)) = en_cache s"
  "en_spawned (snd (execute_lightweight E now i p n s)) = en_spawned s"
  "en_scheduler (snd (execute_lightweight E now i p n s)) = en_scheduler s"
  "en_db (snd (execute_lightweight E now i p n s)) = en_db s"
  by (simp_all add: execute_lightweight_def Let_def draw_id_def split: sum.split)

lemma on_todos_frame:
  "on_todos f s = (x, t) \<Longrightarrow> en_running t = en_running s \<and> en_active t = en_active s \<and> en_cache t = en_cache s \<and>
     en_spawned t = en_spawned s \<and> en_db t = en_db s \<and> en_scheduler t = en_scheduler s"
  by (auto simp: on_todos_def split_beta)

lemma draw_id_frame:
  "draw_id E s = (x, t) \<Longrightarrow> en_running t = en_running s \<and> en_active t = en_active s \<and> en_cache t = en_cache s \<and>
     en_spawned t = en_spawned s \<and> en_db t = en_db s \<and> en_scheduler t = en_scheduler s"
  by (auto simp: draw_id_def)

lemma full_job_frame [simp]:
  "en_running (snd (execute_full_job E now r i title d s)) = en_running s"
  "en_active (snd (execute_full_job E now r i title d s)) = en_active s"
  "en_cache (snd (execute_full_job E now r i title d s)) = en_cache s"
  "en_spawned (snd (execute_full_job E now r i title d s)) = en_spawned s"
  "en_db (snd (execute_full_job E now r i title d s)) = en_db s"
  by (auto simp: execute_full_job_def Let_def dest!: on_todos_frame draw_id_frame
      split: option.split prod.split sum.split unit.split)

lemma action_frame [simp]:
  "en_running (snd (execute_action E now r run s)) = en_running s"
  "en_active (snd (execute_action E now r run s)) = en_active s"
  "en_cache (snd (execute_action E now r run s)) = en_cache s"
  "en_spawned (snd (execute_action E now r run s)) = en_spawned s"
  "en_db (snd (execute_action E now r run s)) = en_db s"
  by (cases "ro_action r"; simp add: execute_action_def split_beta)+

lemma notification_frame [simp]:
  "en_running (send_notification n name st su s) = en_running s" "en_active (send_notification n name st su s) = en_active s"
  "en_cache (send_notification n name st su s) = en_cache s" "en_spawned (send_notification n name st su s) = en_spawned s"
  "en_db (send_notification n name st su s) = en_db s" "en_scheduler (send_notification n name st su s) = en_scheduler s"
  by (simp_all add: send_notification_def)

subsection \<open>The counter of running routines\<close>

definition engine_start :: "routine_engine \<Rightarrow> bool" where
  "engine_start s \<longleftrightarrow> en_running s = 0 \<and> en_spawned s = [] \<and> en_active s = []"

lemma length_drop_nth [simp]: "i < length xs \<Longrightarrow> length (drop_nth i xs) = length xs - 1"
  by (simp add: drop_nth_def)

lemma set_drop_nth: "set (drop_nth i xs) \<subseteq> set xs"
  by (auto simp: drop_nth_def dest: in_set_takeD in_set_dropD)

lemma begin_counter: "en_running s = length (en_active s) \<Longrightarrow> en_running (begin_run E now i s) = length (en_active (begin_run E now i s))"
  by (auto simp: begin_run_def Let_def split: prod.split sum.split dest!: on_db_pair)

lemma finish_run_frame:
  assumes "en_active s ! i = (r, run)"
  shows "en_running (finish_run E now i s) = en_running s - 1"
    "en_active (finish_run E now i s) = drop_nth i (en_active s)"
    "en_cache (finish_run E now i s) = en_cache s"
    "en_spawned (finish_run E now i s) = en_spawned s"
    "en_scheduler (finish_run E now i s) =
       en_scheduler (snd (execute_action E now r run (s\<lparr>en_active := drop_nth i (en_active s)\<rparr>)))"
    "\<exists>status summary tokens. en_db (finish_run E now i s) = record_result E now r run status summary tokens (en_db s)"
proof -
  let ?s1 = "s\<lparr>en_active := drop_nth i (en_active s)\<rparr>"
  obtain st su tk s2 where act: "execute_action E now r run ?s1 = ((st, su, tk), s2)"
    by (cases "execute_action E now r run ?s1") auto
  have s2: "en_running s2 = en_running s" "en_active s2 = drop_nth i (en_active s)" "en_cache s2 = en_cache s"
      "en_spawned s2 = en_spawned s" "en_db s2 = en_db s"
    using action_frame [of E now r run ?s1] act by simp_all
  show "en_running (finish_run E now i s) = en_running s - 1"
    "en_active (finish_run E now i s) = drop_nth i (en_active s)"
    "en_cache (finish_run E now i s) = en_cache s"
    "en_spawned (finish_run E now i s) = en_spawned s"
    "en_scheduler (finish_run E now i s) = en_scheduler (snd (execute_action E now r run ?s1))"
    "\<exists>status summary tokens. en_db (finish_run E now i s) = record_result E now r run status summary tokens (en_db s)"
    using assms act s2 by (auto simp: finish_run_def Let_def)
qed

definition counter_ok :: "routine_engine \<Rightarrow> bool" where
  "counter_ok s \<longleftrightarrow> en_running s = length (en_active s)"

lemma counter_step: "counter_ok s \<Longrightarrow> engine_step E s e t \<Longrightarrow> counter_ok t"
proof (erule engine_stepE)
  fix now i
  assume "counter_ok s" "t = finish_run E now i s" "i < length (en_active s)"
  then show "counter_ok t"
    by (cases "en_active s ! i") (simp add: counter_ok_def finish_run_frame)
next
  fix now chan content
  assume "counter_ok s" "t = snd (check_event_triggers E now chan content s)"
  then show "counter_ok t"
    using check_event_core [of s E now chan content] by (simp add: counter_ok_def same_core_def)
next
  fix now
  assume "counter_ok s" "t = check_cron_triggers E now s"
  then show "counter_ok t"
    using check_cron_core [of s E now] by (simp add: counter_ok_def same_core_def)
next
  fix now i
  assume "counter_ok s" "t = snd (fire_manual E now i s)"
  then show "counter_ok t"
    using fire_manual_core [of s E now i] by (simp add: counter_ok_def same_core_def)
next
  fix now i
  assume "counter_ok s" "t = begin_run E now i s"
  then show "counter_ok t" using begin_counter [of s E now i] by (simp add: counter_ok_def)
qed (simp add: counter_ok_def)

interpretation engine_counter: invariant_system engine_start "engine_step E" "\<lambda>_. counter_ok" for E
  by unfold_locales (auto simp: engine_start_def counter_ok_def intro: counter_step [unfolded counter_ok_def])

subsection \<open>The cache is only changed by a refresh\<close>

lemma step_cache: "engine_step E s e t \<Longrightarrow> e \<noteq> Refreshed \<Longrightarrow> en_cache t = en_cache s"
proof (erule engine_stepE)
  fix now i
  assume "t = finish_run E now i s"
  then show "en_cache t = en_cache s" by (cases "en_active s ! i") (simp add: finish_run_frame)
next
  fix now i
  assume "t = begin_run E now i s"
  then show "en_cache t = en_cache s"
    by (auto simp: begin_run_def Let_def split: prod.split sum.split dest!: on_db_pair)
next
  fix now chan content
  assume "t = snd (check_event_triggers E now chan content s)"
  then show "en_cache t = en_cache s" using check_event_core [of s E now chan content] by (simp add: same_core_def)
next
  fix now
  assume "t = check_cron_triggers E now s"
  then show "en_cache t = en_cache s" using check_cron_core [of s E now] by (simp add: same_core_def)
next
  fix now i
  assume "t = snd (fire_manual E now i s)"
  then show "en_cache t = en_cache s" using fire_manual_core [of s E now i] by (simp add: same_core_def)
qed simp

lemma reach_cache:
  "reach (\<lambda>s. s = s0) (engine_step E) es s \<Longrightarrow> Refreshed \<notin> set es \<Longrightarrow> en_cache s = en_cache s0"
  by (induction rule: reach.induct) (auto dest: step_cache)

text \<open>The cooldown of an event routine is not enforced between refreshes of the cache: however often the
  routine has run and finished since, a message at any later time fires it again if its copy in the cache
  has no last run and its own limit and the global maximum leave room.\<close>

theorem event_cooldown_not_enforced:
  assumes "reach (\<lambda>s. s = s0) (engine_step E) es s" "Refreshed \<notin> set es"
    and "r \<in> set (en_cache s0)" "ro_last_run_at r = None" "channel_matches chan r" "pattern_matches E content r"
    and "rb_faults (en_db s) = []" "en_running s < rn_max_concurrent E"
    and "count_running (ro_id r) (en_db s) < unat (gr_max_concurrent (ro_guardrails r))"
  shows "r \<in> fst ` set (en_spawned (snd (check_event_triggers E now chan content s)))"
proof -
  obtain n t where run: "fire_events E now chan content (en_cache s) s = (n, t)" by (cases "fire_events E now chan content (en_cache s) s")
  have "event_due E now chan content (en_db s) r"
    using assms by (simp add: event_due_def check_cooldown_def)
  moreover have "r \<in> set (en_cache s)" using reach_cache [OF assms(1,2)] assms(3) by simp
  ultimately have "r \<in> set (map fst (en_spawned t))"
    using fire_events_spec [OF assms(7) run] assms(8) by simp
  then show ?thesis using run by (simp add: check_event_triggers_def)
qed

subsection \<open>Runs left over\<close>

text \<open>Rows of runs that no task of this process owns, because the process that owned them ended.\<close>

definition left_over :: "uuid set \<Rightarrow> uuid \<Rightarrow> routine_db \<Rightarrow> nat" where
  "left_over X i db = length (filter (\<lambda>k. rw_id k \<in> X \<and> rw_routine_id k = i \<and> rw_status k = ''running'') (rb_runs db))"

definition blocked_ok :: "uuid set \<Rightarrow> uuid \<Rightarrow> nat \<Rightarrow> routine_engine \<Rightarrow> bool" where
  "blocked_ok X i n s \<longleftrightarrow> n \<le> left_over X i (en_db s) \<and>
     (\<forall>(r, run, b) \<in> set (en_spawned s). ru_id run \<notin> X \<and> (ro_id r = i \<longrightarrow> n < unat (gr_max_concurrent (ro_guardrails r)))) \<and>
     (\<forall>(r, run) \<in> set (en_active s). ru_id run \<notin> X \<and> (ro_id r = i \<longrightarrow> n < unat (gr_max_concurrent (ro_guardrails r))))"

lemma left_over_count: "left_over X i db \<le> count_running i db"
proof -
  have "length (filter (\<lambda>k. P k \<and> Q k) xs) \<le> length (filter Q xs)" for P Q :: "run_row \<Rightarrow> bool" and xs
    by (induction xs) auto
  then show ?thesis by (simp add: left_over_def count_running_def)
qed

lemma left_over_query [simp]: "left_over X i (snd (rb_query what f db)) = left_over X i db"
  by (simp add: rb_query_def rb_tick_def left_over_def)

lemma left_over_reads [simp]:
  "left_over X i (snd (list_event_routines db)) = left_over X i db"
  "left_over X i (snd (list_due_cron_routines now db)) = left_over X i db"
  "left_over X i (snd (get_routine j db)) = left_over X i db"
  "left_over X i (snd (count_running_routine_runs j db)) = left_over X i db"
  by (simp_all add: list_event_routines_def list_due_cron_routines_def get_routine_def
      count_running_routine_runs_def Let_def split_beta)

lemma left_over_create: "left_over X i db \<le> left_over X i (snd (create_routine_run now run db))"
  by (simp add: create_routine_run_def rb_exec_def rb_tick_def left_over_def)

lemma left_over_map:
  assumes "\<And>k. k \<in> set ks \<Longrightarrow> rw_id k \<in> X \<Longrightarrow> g k = k" "\<And>k. rw_id (g k) = rw_id k"
  shows "length (filter (\<lambda>k. rw_id k \<in> X \<and> rw_routine_id k = i \<and> rw_status k = ''running'') (map g ks)) =
    length (filter (\<lambda>k. rw_id k \<in> X \<and> rw_routine_id k = i \<and> rw_status k = ''running'') ks)"
  using assms by (induction ks) auto

lemma left_over_result:
  assumes "ru_id run \<notin> X"
  shows "left_over X i (record_result E now r run status summary tokens db) = left_over X i db"
proof -
  have "left_over X i (snd (complete_routine_run now (ru_id run) status summary tokens db)) = left_over X i db" for db
  proof -
    let ?g = "\<lambda>k. if rw_id k = ru_id run
        then k\<lparr>rw_status := show_run_status status, rw_completed_at := Some now, rw_result_summary := summary,
               rw_tokens_used := map_option sint tokens\<rparr> else k"
    have "length (filter (\<lambda>k. rw_id k \<in> X \<and> rw_routine_id k = i \<and> rw_status k = ''running'') (map ?g (rb_runs db))) =
        length (filter (\<lambda>k. rw_id k \<in> X \<and> rw_routine_id k = i \<and> rw_status k = ''running'') (rb_runs db))"
      by (rule left_over_map) (use assms in auto)
    then show ?thesis by (simp add: complete_routine_run_def rb_exec_def rb_tick_def left_over_def)
  qed
  moreover have "left_over X i (snd (update_routine_runtime now j l n c f st db)) = left_over X i db" for j l n c f st db
    by (simp add: update_routine_runtime_def rb_exec_def rb_tick_def left_over_def)
  ultimately show ?thesis by (simp add: record_result_def Let_def)
qed

lemma concurrent_blocked:
  assumes "n \<le> left_over X i (en_db s)" "check_concurrent r s = (b, t)"
  shows "n \<le> left_over X i (en_db t)" "en_spawned t = en_spawned s" "en_active t = en_active s"
    "b \<Longrightarrow> ro_id r = i \<Longrightarrow> n < unat (gr_max_concurrent (ro_guardrails r))"
proof -
  have t: "t = snd (on_db (count_running_routine_runs (ro_id r)) s)"
    using assms(2) check_concurrent_state [of r s] by simp
  show "n \<le> left_over X i (en_db t)" "en_spawned t = en_spawned s" "en_active t = en_active s"
    using assms(1) by (simp_all add: t)
  assume "b" "ro_id r = i"
  then have "count_running i (en_db s) < unat (gr_max_concurrent (ro_guardrails r))"
    using assms(2) by (auto simp: check_concurrent_def on_db_def count_running_routine_runs_def rb_query_def split: if_splits)
  then show "n < unat (gr_max_concurrent (ro_guardrails r))"
    using assms(1) left_over_count [of X i "en_db s"] by linarith
qed

lemma spawn_blocked:
  assumes "blocked_ok X i n s" "\<And>k. rn_uuid E k \<notin> X" "ro_id r = i \<Longrightarrow> n < unat (gr_max_concurrent (ro_guardrails r))"
  shows "blocked_ok X i n (spawn_fire E now r ty d s)"
  using assms by (auto simp: blocked_ok_def spawn_fire_def draw_id_def new_run_def)

lemma concurrent_ok: "blocked_ok X i n s \<Longrightarrow> check_concurrent r s = (b, t) \<Longrightarrow> blocked_ok X i n t"
  using concurrent_blocked [of n X i s r b t] by (auto simp: blocked_ok_def)

lemma concurrent_max:
  "blocked_ok X i n s \<Longrightarrow> check_concurrent r s = (True, t) \<Longrightarrow> ro_id r = i \<Longrightarrow>
   n < unat (gr_max_concurrent (ro_guardrails r))"
  using concurrent_blocked(4) [of n X i s r True t] by (simp add: blocked_ok_def)

lemma fire_events_blocked:
  assumes "blocked_ok X i n s" "\<And>k. rn_uuid E k \<notin> X"
  shows "blocked_ok X i n (snd (fire_events E now chan content rs s))"
  using assms(1)
proof (induction rs arbitrary: s)
  case (Cons r rs)
  obtain b t where c: "check_concurrent r s = (b, t)" by (cases "check_concurrent r s")
  have t: "blocked_ok X i n t" using concurrent_ok [OF Cons.prems c] .
  have "blocked_ok X i n (spawn_fire E now r ty d t)" if b for ty d
    using spawn_blocked [OF t assms(2)] concurrent_max [OF Cons.prems] c that by simp
  then show ?case using Cons.IH Cons.prems c t by (auto simp: split_beta Let_def)
qed simp

lemma fire_crons_blocked:
  assumes "blocked_ok X i n s" "\<And>k. rn_uuid E k \<notin> X"
  shows "blocked_ok X i n (fire_crons E now rs s)"
  using assms(1)
proof (induction rs arbitrary: s)
  case (Cons r rs)
  obtain b t where c: "check_concurrent r s = (b, t)" by (cases "check_concurrent r s")
  have t: "blocked_ok X i n t" using concurrent_ok [OF Cons.prems c] .
  have "blocked_ok X i n (spawn_fire E now r ty d t)" if b for ty d
    using spawn_blocked [OF t assms(2)] concurrent_max [OF Cons.prems] c that by simp
  then show ?case using Cons.IH Cons.prems c t by auto
qed simp

lemma on_db_blocked:
  "blocked_ok X i n s \<Longrightarrow> left_over X i (en_db s) \<le> left_over X i (snd (f (en_db s))) \<Longrightarrow> blocked_ok X i n (snd (on_db f s))"
  by (auto simp: blocked_ok_def)

lemma manual_blocked:
  assumes "blocked_ok X i n s" "\<And>k. rn_uuid E k \<notin> X"
  shows "blocked_ok X i n (snd (fire_manual E now j s))"
proof -
  obtain x s1 where g: "on_db (get_routine j) s = (x, s1)" by (cases "on_db (get_routine j) s")
  have s1: "blocked_ok X i n s1" using on_db_blocked [OF assms(1), of "get_routine j"] g by simp
  show ?thesis
  proof (cases "\<exists>r. x = Inr (Some r) \<and> ro_enabled r")
    case False
    then show ?thesis using g s1 by (auto simp: fire_manual_def split: sum.splits option.splits)
  next
    case True
    then obtain r where r: "x = Inr (Some r)" "ro_enabled r" by blast
    obtain b s2 where c: "check_concurrent r s1 = (b, s2)" by (cases "check_concurrent r s1")
    have s2: "blocked_ok X i n s2" using concurrent_ok [OF s1 c] .
    show ?thesis
    proof (cases b)
      case False
      then show ?thesis using g r c s2 by (simp add: fire_manual_def Let_def)
    next
      case True
      let ?s3 = "s2\<lparr>en_uuids := Suc (en_uuids s2)\<rparr>"
      let ?run = "new_run (rn_uuid E (en_uuids s2)) now r ''manual'' None"
      obtain y s4 where e: "on_db (create_routine_run now ?run) ?s3 = (y, s4)" by (cases "on_db (create_routine_run now ?run) ?s3")
      have "blocked_ok X i n ?s3" using s2 by (simp add: blocked_ok_def)
      then have s4: "blocked_ok X i n s4"
        using on_db_blocked [of X i n ?s3 "create_routine_run now ?run"] left_over_create e by simp
      have max: "ro_id r = i \<Longrightarrow> n < unat (gr_max_concurrent (ro_guardrails r))"
        using concurrent_max [OF s1] c True by simp
      show ?thesis
        using g r c True e s4 max assms(2)
        by (cases y) (auto simp: fire_manual_def Let_def draw_id_def blocked_ok_def new_run_def)
    qed
  qed
qed

lemma begin_blocked:
  assumes "blocked_ok X i n s" "j < length (en_spawned s)"
  shows "blocked_ok X i n (begin_run E now j s)"
proof -
  obtain r run b where t: "en_spawned s ! j = (r, run, b)" by (cases "en_spawned s ! j") auto
  then have mem: "(r, run, b) \<in> set (en_spawned s)" using assms(2) by (metis nth_mem)
  let ?s1 = "s\<lparr>en_spawned := drop_nth j (en_spawned s)\<rparr>"
  have s1: "blocked_ok X i n ?s1" using assms(1) set_drop_nth by (fastforce simp: blocked_ok_def)
  obtain x s2 where x: "(if b then on_db (create_routine_run now run) ?s1 else (Inr (), ?s1)) = (x, s2)"
    by (cases "if b then on_db (create_routine_run now run) ?s1 else (Inr (), ?s1)") auto
  have s2: "blocked_ok X i n s2"
    using x s1 on_db_blocked [OF s1, of "create_routine_run now run"] left_over_create by (auto split: if_splits)
  then have "blocked_ok X i n (s2\<lparr>en_running := Suc (en_running s2), en_active := en_active s2 @ [(r, run)]\<rparr>)"
    using mem assms(1) by (auto simp: blocked_ok_def)
  then show ?thesis using t x s2 by (auto simp: begin_run_def Let_def split: sum.split)
qed

lemma finish_blocked:
  assumes "blocked_ok X i n s" "j < length (en_active s)"
  shows "blocked_ok X i n (finish_run E now j s)"
proof -
  obtain r run where t: "en_active s ! j = (r, run)" by (cases "en_active s ! j")
  then have "(r, run) \<in> set (en_active s)" using assms(2) by (metis nth_mem)
  then have "ru_id run \<notin> X" using assms(1) by (auto simp: blocked_ok_def)
  then show ?thesis
    using assms(1) set_drop_nth [of j "en_active s"] finish_run_frame [OF t, of E now] left_over_result
    by (fastforce simp: blocked_ok_def)
qed

lemma step_blocked:
  assumes "blocked_ok X i n s" "\<And>k. rn_uuid E k \<notin> X" "engine_step E s e t"
  shows "blocked_ok X i n t"
  using assms(3)
proof (rule engine_stepE)
  assume "t = refresh_event_cache E s"
  then show ?thesis
    using on_db_blocked [OF assms(1), of list_event_routines]
    by (cases "on_db list_event_routines s") (auto simp: refresh_event_cache_def blocked_ok_def split: sum.split)
next
  fix now
  assume "t = check_cron_triggers E now s"
  then show ?thesis
    using on_db_blocked [OF assms(1), of "list_due_cron_routines now"] fire_crons_blocked [OF _ assms(2)]
    by (cases "on_db (list_due_cron_routines now) s") (auto simp: check_cron_triggers_def split: sum.split)
qed (use assms fire_events_blocked manual_blocked begin_blocked finish_blocked in
    \<open>auto simp: check_event_triggers_def\<close>)

lemma reach_blocked:
  assumes "reach (\<lambda>s. s = s0) (engine_step E) es s" "blocked_ok X i n s0" "\<And>k. rn_uuid E k \<notin> X"
  shows "blocked_ok X i n s"
  using assms by (induction rule: reach.induct) (auto intro: step_blocked)

text \<open>C37: Runs that the database still holds as running when the process starts, because the process before
  was stopped in the middle of them, block their routine for good: in every run of the engine that draws
  other ids, no run of the routine is ever spawned or begun by a message, by the clock or by hand, as long as
  its limit is not above the number of those runs.\<close>

theorem left_over_runs_block_routine:
  assumes "engine_start s0" "reach (\<lambda>s. s = s0) (engine_step E) es s" "\<And>k. rn_uuid E k \<notin> X"
    and "(r, run, b) \<in> set (en_spawned s) \<or> (r, run) \<in> set (en_active s)"
  shows "left_over X (ro_id r) (en_db s0) < unat (gr_max_concurrent (ro_guardrails r))"
proof -
  have "blocked_ok X (ro_id r) (left_over X (ro_id r) (en_db s0)) s0"
    using assms(1) by (simp add: blocked_ok_def engine_start_def)
  from reach_blocked [OF assms(2) this assms(3)] show ?thesis
    using assms(4) by (auto simp: blocked_ok_def)
qed

subsection \<open>Routines that start jobs\<close>

definition active_jobs_of :: "scheduler \<Rightarrow> nat" where
  "active_jobs_of sd = active_job_count (wd_contexts (sd_worker sd))"

definition job_limit :: "scheduler \<Rightarrow> nat" where
  "job_limit sd = cx_max_jobs (wd_contexts (sd_worker sd))"

lemma count_update_active:
  "P v \<Longrightarrow> length (filter (\<lambda>(_, j). P j) xs) \<le> length (filter (\<lambda>(_, j). P j) (AList.update k v xs))"
  by (induction xs) auto

lemma count_update_new:
  "map_of xs k = None \<Longrightarrow> P v \<Longrightarrow>
   length (filter (\<lambda>(_, j). P j) (AList.update k v xs)) = Suc (length (filter (\<lambda>(_, j). P j) xs))"
  by (induction xs) (auto split: if_splits)

lemma create_job_counts:
  assumes "on_contexts (create_job_for_user k now u t d) sd = (x, sd1)"
  shows "active_jobs_of sd \<le> active_jobs_of sd1" "job_limit sd1 = job_limit sd"
    "job_limit sd \<le> active_jobs_of sd \<Longrightarrow> x = Inl (MaxJobsExceeded (job_limit sd)) \<and> sd1 = sd"
    "active_jobs_of sd < job_limit sd \<Longrightarrow> x = Inr k"
  using assms count_update_active [of "\<lambda>j. is_active (wj_state j)" "job_with_user k now u t d" "cx_contexts (wd_contexts (sd_worker sd))" k]
  by (auto simp: on_contexts_def create_job_for_user_def active_jobs_of_def job_limit_def active_job_count_def Let_def
      job_with_user_def is_active_def is_terminal_def split: if_splits)

lemma progress_active: "is_active (wj_state j) \<Longrightarrow> is_active (wj_state (snd (transition_to now JobInProgress r j)))"
  by (cases "can_transition_to (wj_state j) JobInProgress")
    (simp_all add: transition_fields is_active_def is_terminal_def, simp add: transition_to_def)

lemma count_update_keeps:
  "map_of xs k = Some j \<Longrightarrow> (P j \<Longrightarrow> P v) \<Longrightarrow>
   length (filter (\<lambda>(_, j). P j) xs) \<le> length (filter (\<lambda>(_, j). P j) (AList.update k v xs))"
  by (induction xs) (auto split: if_splits)

lemma schedule_counts:
  assumes "schedule now i sd = (x, sd1)"
  shows "active_jobs_of sd \<le> active_jobs_of sd1" "job_limit sd1 = job_limit sd"
proof -
  let ?f = "transition_to now JobInProgress (Some ''Scheduled (awaiting agent system)'')"
  have "active_jobs_of sd \<le> active_jobs_of (snd (on_contexts (update_context i ?f) sd)) \<and>
      job_limit (snd (on_contexts (update_context i ?f) sd)) = job_limit sd"
  proof (cases "map_of (cx_contexts (wd_contexts (sd_worker sd))) i")
    case (Some j)
    then show ?thesis
      using count_update_keeps [OF Some, of "\<lambda>j. is_active (wj_state j)" "snd (?f j)"] progress_active
      by (simp add: on_contexts_def update_context_def active_jobs_of_def job_limit_def active_job_count_def)
  qed (simp add: on_contexts_def update_context_def active_jobs_of_def job_limit_def active_job_count_def)
  then show "active_jobs_of sd \<le> active_jobs_of sd1" "job_limit sd1 = job_limit sd"
    using assms by (auto simp: schedule_def Let_def split_beta split: if_splits)
qed

definition jobs_grow :: "scheduler option \<Rightarrow> scheduler option \<Rightarrow> bool" where
  "jobs_grow x y = rel_option (\<lambda>sd sd1. active_jobs_of sd \<le> active_jobs_of sd1 \<and> job_limit sd1 = job_limit sd) x y"

lemma jobs_grow_refl [simp]: "jobs_grow x x"
  by (simp add: jobs_grow_def option.rel_refl)

lemma jobs_grow_trans: "jobs_grow x y \<Longrightarrow> jobs_grow y z \<Longrightarrow> jobs_grow x z"
  by (cases x; cases y; cases z) (auto simp: jobs_grow_def)

lemma create_job_grows: "on_contexts (create_job_for_user k now u t d) sd = (x, sd1) \<Longrightarrow> jobs_grow (Some sd) (Some sd1)"
  by (simp add: jobs_grow_def create_job_counts)

lemma schedule_grows: "schedule now i sd = (x, sd1) \<Longrightarrow> jobs_grow (Some sd) (Some sd1)"
  by (simp add: jobs_grow_def schedule_counts)

lemma full_job_grows: "jobs_grow (en_scheduler s) (en_scheduler (snd (execute_full_job E now r i title d s)))"
proof (cases "en_scheduler s")
  case None
  then show ?thesis by (simp add: execute_full_job_def)
next
  case (Some sd)
  have "jobs_grow (Some sd) (en_scheduler t)" if "execute_full_job E now r i title d s = (x, t)" for x t
    using that Some
    by (auto simp: execute_full_job_def Let_def dest!: on_todos_frame draw_id_frame create_job_grows schedule_grows
        intro: jobs_grow_trans split: prod.splits sum.splits)
  then show ?thesis using Some by (metis surjective_pairing)
qed

lemma step_grows: "engine_step E s e t \<Longrightarrow> jobs_grow (en_scheduler s) (en_scheduler t)"
proof (erule engine_stepE)
  fix now i
  assume t: "t = finish_run E now i s"
  obtain r run where a: "en_active s ! i = (r, run)" by (cases "en_active s ! i")
  have "jobs_grow (en_scheduler s) (en_scheduler (snd (execute_action E now r run (s\<lparr>en_active := drop_nth i (en_active s)\<rparr>))))"
    using full_job_grows [of "s\<lparr>en_active := drop_nth i (en_active s)\<rparr>"]
    by (cases "ro_action r") (simp_all add: execute_action_def split_beta)
  then show "jobs_grow (en_scheduler s) (en_scheduler t)"
    using finish_run_frame(5) [OF a, of E now] t by simp
next
  fix now i
  assume "t = begin_run E now i s"
  then have "en_scheduler t = en_scheduler s"
    by (auto simp: begin_run_def Let_def split: prod.split sum.split dest!: on_db_pair)
  then show "jobs_grow (en_scheduler s) (en_scheduler t)" by simp
next
  fix now chan content
  assume "t = snd (check_event_triggers E now chan content s)"
  then show "jobs_grow (en_scheduler s) (en_scheduler t)"
    using check_event_core [of s E now chan content] by (simp add: same_core_def)
next
  fix now
  assume "t = check_cron_triggers E now s"
  then show "jobs_grow (en_scheduler s) (en_scheduler t)" using check_cron_core [of s E now] by (simp add: same_core_def)
next
  fix now i
  assume "t = snd (fire_manual E now i s)"
  then show "jobs_grow (en_scheduler s) (en_scheduler t)" using fire_manual_core [of s E now i] by (simp add: same_core_def)
qed simp

lemma reach_grows: "reach (\<lambda>s. s = s0) (engine_step E) es s \<Longrightarrow> jobs_grow (en_scheduler s0) (en_scheduler s)"
  by (induction rule: reach.induct) (auto intro: jobs_grow_trans step_grows)

lemma todo_left_working:
  assumes "td_faults (en_todos s) = []" "t_id t \<notin> set (map t_id (td_rows (en_todos s)))"
    "on_todos (create_todo t) s = (x, s1)"
  shows "x = Inr () \<and> td_faults (en_todos s1) = [] \<and> td_rows (en_todos s1) = td_rows (en_todos s) @ [as_stored t]"
  using assms by (auto simp: on_todos_def create_todo_def td_fault_def td_tick_def)

lemma full_job_at_limit:
  assumes "en_scheduler s = Some sd" "job_limit sd \<le> active_jobs_of sd"
  shows "\<exists>e. fst (execute_full_job E now r i title d s) = Inl e"
proof -
  obtain todo_id s1 where d1: "draw_id E s = (todo_id, s1)" by (cases "draw_id E s")
  show ?thesis
    using assms d1
    by (auto simp: execute_full_job_def Let_def dest!: create_job_counts(3) [OF _ assms(2)] split: prod.split sum.split)
qed


text \<open>An answer that reports something and also names the sentinel counts as nothing to report.\<close>

lemma alert_with_sentinel_lost:
  assumes "complete (rn_llm E) (en_calls s) rq = Inr resp" "find_sub ''ROUTINE_OK'' (trim (rs_content resp)) \<noteq> None"
    and "rq = (completion_request_new (case rn_system_prompt E of
        None \<Rightarrow> [user_message (routine_prompt p)] | Some t \<Rightarrow> if t = [] then [user_message (routine_prompt p)]
          else [system_message t, user_message (routine_prompt p)]))\<lparr>rq_max_tokens := Some (unat n), rq_temperature := Some (3/10)\<rparr>"
    and "trim (rs_content resp) \<noteq> []"
  shows "fst (execute_lightweight E now i p n s) = Inr (RunOk, None, Some (of_nat (rs_input_tokens resp + rs_output_tokens resp)))"
  using assms by (auto simp: execute_lightweight_def Let_def draw_id_def split: option.splits)

subsection \<open>Witnesses\<close>

definition example_routine_env :: routine_env where
  "example_routine_env = \<lparr>rn_llm = talking_model ''ROUTINE_OK'', rn_compiles = (\<lambda>_. True), rn_is_match = (\<lambda>p s. p = s),
     rn_cron = (\<lambda>_ t. Inr (Some (t + 1))), rn_uuid = (\<lambda>_. 1), rn_uuid_str = uuid_text, rn_show_duration = (\<lambda>_. ''1s''),
     rn_system_prompt = None, rn_max_concurrent = 1, rn_max_tokens = 100\<rparr>"

definition example_engine :: "routine list \<Rightarrow> run_row list \<Rightarrow> routine_engine" where
  "example_engine cache runs = \<lparr>en_db = empty_routine_db\<lparr>rb_runs := runs\<rparr>,
     en_costs = \<lparr>cv_conversations = [], cv_messages = [], cv_llm_calls = [], cv_faults = []\<rparr>,
     en_todos = \<lparr>td_rows = [], td_faults = []\<rparr>, en_scheduler = Some (new_scheduler 3 True (new_context_manager 0)),
     en_running = 0, en_cache = cache, en_spawned = [], en_active = [], en_sent = [], en_uuids = 0, en_calls = 0\<rparr>"

lemma example_due:
  "event_due example_routine_env 9 ''cli'' ''hi'' (en_db (example_engine c [])) sample_routine"
  by (simp add: event_due_def channel_matches_def pattern_matches_def sample_routine_def example_routine_env_def
      check_cooldown_def count_running_def example_engine_def empty_routine_db_def default_guardrails_def)


theorem event_cooldown_not_enforced_witness:
  "sample_routine \<in> fst ` set (en_spawned (snd (check_event_triggers example_routine_env 9 ''cli'' ''hi''
     (example_engine [sample_routine] []))))"
proof (rule event_cooldown_not_enforced)
  show "reach (\<lambda>s. s = example_engine [sample_routine] []) (engine_step example_routine_env) [] (example_engine [sample_routine] [])"
    by (rule reach_init) simp
qed (simp_all add: example_engine_def empty_routine_db_def sample_routine_def channel_matches_def pattern_matches_def
      example_routine_env_def count_running_def default_guardrails_def)

definition old_run :: run_row where
  "old_run = \<lparr>rw_id = 5, rw_routine_id = 7, rw_trigger_type = ''event'', rw_trigger_detail = None, rw_started_at = 0,
     rw_completed_at = None, rw_status = ''running'', rw_result_summary = None, rw_tokens_used = None, rw_job_id = None,
     rw_created_at = 0\<rparr>"

theorem left_over_runs_block_routine_witness:
  "sample_routine \<notin> fst ` set (en_spawned (snd (check_event_triggers example_routine_env 9 ''cli'' ''hi''
     (example_engine [sample_routine] [old_run]))))"
proof -
  let ?s0 = "example_engine [sample_routine] [old_run]"
  have "reach (\<lambda>s. s = ?s0) (engine_step example_routine_env) ([] @ [Message 9 ''cli'' ''hi''])
      (snd (check_event_triggers example_routine_env 9 ''cli'' ''hi'' ?s0))"
    by (rule reach_step, rule reach_init, simp, rule engine_step.step_message)
  moreover have "engine_start ?s0" by (simp add: engine_start_def example_engine_def)
  moreover have "rn_uuid example_routine_env k \<notin> {5}" for k by (simp add: example_routine_env_def)
  moreover have "left_over {5} (ro_id sample_routine) (en_db ?s0) = 1"
    by (simp add: left_over_def example_engine_def old_run_def sample_routine_def empty_routine_db_def)
  moreover have "unat (gr_max_concurrent (ro_guardrails sample_routine)) = 1"
    by (simp add: sample_routine_def default_guardrails_def)
  ultimately show ?thesis
    using left_over_runs_block_routine [of ?s0 example_routine_env _ _ "{5}" sample_routine] by fastforce
qed


end
