(* ===== verification/Files.thy ===== *)
theory Files
  imports Reasoning Routines Tools
begin

text \<open>
  Typed parameters (\<open>src/src/tools/params.rs\<close>) and the file tools
  (\<open>src/src/tools/builtin/file.rs\<close>) on a file system with symbolic links.

  A path is the list of its components as the operating system reads them: a path in the source is the text,
  a trailing slash reads as a final \<open>.\<close>. Names are the bytes of valid UTF-8. A file system is an
  association list from absolute locations to nodes, in the order in which a directory is listed;
  \<open>fs_link_limit\<close> is the number of links one path may follow (40 on Linux). Between the calls of one tool no
  other process changes it. Permissions and full disks are the pattern \<open>fs_faults\<close> of failing calls. The text of an error of the
  operating system (\<open>show_io\<close>) and the decimals of \<open>{:.1}\<close> (\<open>fmt1\<close>) are parameters. A result \<open>None\<close> of a
  tool is a panic.
\<close>

subsection \<open>Parameters\<close>

definition optional_str :: "json \<Rightarrow> string \<Rightarrow> string option" where
  "optional_str params name = get_str params name"

definition optional_u64 :: "json \<Rightarrow> string \<Rightarrow> nat option" where
  "optional_u64 params name = get_u64 params name"

definition u64_or :: "json \<Rightarrow> string \<Rightarrow> nat \<Rightarrow> nat" where
  "u64_or params name d = (case optional_u64 params name of Some n \<Rightarrow> n | None \<Rightarrow> d)"

definition quoted :: "string \<Rightarrow> string" where
  "quoted s = [CHR 0x27] @ s @ [CHR 0x27]"

definition require_uuid :: "(string \<Rightarrow> uuid option) \<Rightarrow> json \<Rightarrow> string \<Rightarrow> tool_error + uuid" where
  "require_uuid parse_uuid params name = (case require_str params name of
     Inl e \<Rightarrow> Inl e
   | Inr s \<Rightarrow> (case parse_uuid s of
       None \<Rightarrow> Inl (InvalidParameters (''invalid UUID for '' @ quoted name))
     | Some i \<Rightarrow> Inr i))"

definition optional_uuid :: "(string \<Rightarrow> uuid option) \<Rightarrow> json \<Rightarrow> string \<Rightarrow> tool_error + uuid option" where
  "optional_uuid parse_uuid params name = (case optional_str params name of
     None \<Rightarrow> Inr None
   | Some s \<Rightarrow> (case parse_uuid s of
       None \<Rightarrow> Inl (InvalidParameters (''invalid UUID for '' @ quoted name))
     | Some i \<Rightarrow> Inr (Some i)))"

definition optional_json :: "json \<Rightarrow> string \<Rightarrow> json option" where
  "optional_json params name = json_get params name"

definition optional_bool :: "json \<Rightarrow> string \<Rightarrow> bool option" where
  "optional_bool params name = Option.bind (json_get params name) as_bool"

definition tool_exec_error :: "string \<Rightarrow> string \<Rightarrow> tool_error" where
  "tool_exec_error context e = ExecutionFailed (context @ '': '' @ e)"

subsection \<open>Paths\<close>

datatype component = RootDir | CurDir | ParentDir | Normal string

type_synonym path = "component list"
type_synonym location = "string list"

text \<open>The segments between slashes. An empty segment counts only at the end of the path.\<close>

definition segment :: "string \<Rightarrow> path" where
  "segment s = (if s = [] then [] else if s = ''.'' then [CurDir] else if s = ''..'' then [ParentDir]
     else [Normal s])"

fun segments :: "string \<Rightarrow> string \<Rightarrow> path" where
  "segments cur [] = (if cur = [] then [CurDir] else segment cur)"
| "segments cur (c # cs) = (if c = CHR ''/'' then segment cur @ segments [] cs else segments (cur @ [c]) cs)"

definition parse_path :: "string \<Rightarrow> path" where
  "parse_path s = (if s = [] then [] else if s = ''/'' then [RootDir]
     else if hd s = CHR ''/'' then RootDir # segments [] (tl s) else segments [] s)"

definition is_absolute :: "path \<Rightarrow> bool" where
  "is_absolute p \<longleftrightarrow> p \<noteq> [] \<and> hd p = RootDir"

definition path_join :: "path \<Rightarrow> path \<Rightarrow> path" where
  "path_join base p = (if is_absolute p \<or> base = [] then p else if p = [] then base @ [CurDir] else base @ p)"

fun component_text :: "component \<Rightarrow> string" where
  "component_text RootDir = []"
| "component_text CurDir = ''.''"
| "component_text ParentDir = ''..''"
| "component_text (Normal n) = n"

definition show_path :: "path \<Rightarrow> string" where
  "show_path p = (if p = [RootDir] then ''/'' else join ''/'' (map component_text p))"

definition abs_path :: "location \<Rightarrow> path" where
  "abs_path q = RootDir # map Normal q"

text \<open>\<open>Path::parent\<close>, which overlooks a \<open>.\<close> at the end.\<close>

definition trim_cur :: "path \<Rightarrow> path" where
  "trim_cur p = rev (dropWhile ((=) CurDir) (rev p))"

definition path_parent :: "path \<Rightarrow> path option" where
  "path_parent p = (let q = trim_cur p in if q = [] \<or> q = [RootDir] then None else Some (trim_cur (butlast q)))"

lemma length_trim_cur: "length (trim_cur p) \<le> length p"
  using length_dropWhile_le [of "(=) CurDir" "rev p"] by (simp add: trim_cur_def)

lemma path_parent_shorter:
  assumes "path_parent p = Some d" shows "length d < length p"
proof -
  let ?q = "trim_cur p"
  have "?q \<noteq> []" "d = trim_cur (butlast ?q)" using assms by (auto simp: path_parent_def Let_def split: if_splits)
  then have "length d \<le> length ?q - 1" "0 < length ?q" using length_trim_cur [of "butlast ?q"] by simp_all
  then show ?thesis using length_trim_cur [of p] by linarith
qed

fun is_name :: "component \<Rightarrow> bool" where
  "is_name (Normal _) = True"
| "is_name _ = False"

fun normal_step :: "component \<Rightarrow> path \<Rightarrow> path" where
  "normal_step ParentDir acc = (if acc \<noteq> [] \<and> is_name (last acc) then butlast acc else acc)"
| "normal_step CurDir acc = acc"
| "normal_step c acc = acc @ [c]"

definition normalize_lexical :: "path \<Rightarrow> path" where
  "normalize_lexical p = fold normal_step p []"

subsection \<open>The file system\<close>

datatype node = FileNode string | DirNode | LinkNode string

datatype io_error = NotFound | NotADirectory | LinkLoop | InvalidName | AlreadyExists | IsADirectory | InvalidData | Refused

record file_system =
  fs_nodes :: "(location \<times> node) list"
  fs_cwd :: "location option"
  fs_dir_size :: nat
  fs_link_limit :: nat
  fs_faults :: "bool list"

definition fs_node :: "file_system \<Rightarrow> location \<Rightarrow> node option" where
  "fs_node fs q = (if q = [] then Some DirNode else map_of (fs_nodes fs) q)"

text \<open>Resolution of a path from a directory. With \<open>create\<close> the last name may be missing.\<close>

function walk :: "bool \<Rightarrow> file_system \<Rightarrow> nat \<Rightarrow> location \<Rightarrow> path \<Rightarrow> io_error + location" where
  "walk create fs links cur [] = Inr cur"
| "walk create fs links cur (RootDir # p) = walk create fs links [] p"
| "walk create fs links cur (CurDir # p) =
     (if fs_node fs cur = Some DirNode then walk create fs links cur p else Inl NotADirectory)"
| "walk create fs links cur (ParentDir # p) =
     (if fs_node fs cur = Some DirNode then walk create fs links (butlast cur) p else Inl NotADirectory)"
| "walk create fs links cur (Normal n # p) =
     (if fs_node fs cur \<noteq> Some DirNode then Inl NotADirectory
      else if CHR 0x00 \<in> set n then Inl InvalidName
      else case fs_node fs (cur @ [n]) of
        None \<Rightarrow> if create \<and> p = [] then Inr (cur @ [n]) else Inl NotFound
      | Some (LinkNode t) \<Rightarrow>
          (case links of 0 \<Rightarrow> Inl LinkLoop | Suc l \<Rightarrow> walk create fs l cur (parse_path t @ p))
      | Some (FileNode s) \<Rightarrow> walk create fs links (cur @ [n]) p
      | Some DirNode \<Rightarrow> walk create fs links (cur @ [n]) p)"
  by pat_completeness auto
termination
  by (relation "measures [\<lambda>(create, fs, links, cur, p). links, \<lambda>(create, fs, links, cur, p). length p]") auto

definition fs_resolve :: "bool \<Rightarrow> file_system \<Rightarrow> path \<Rightarrow> io_error + location" where
  "fs_resolve create fs p =
     (if p = [] then Inl NotFound
      else if is_absolute p then walk create fs (fs_link_limit fs) [] p
      else case fs_cwd fs of None \<Rightarrow> Inl NotFound | Some cwd \<Rightarrow> walk create fs (fs_link_limit fs) cwd p)"

definition canonicalize :: "file_system \<Rightarrow> path \<Rightarrow> path option" where
  "canonicalize fs p = (case fs_resolve False fs p of Inl _ \<Rightarrow> None | Inr q \<Rightarrow> Some (abs_path q))"

definition path_exists :: "file_system \<Rightarrow> path \<Rightarrow> bool" where
  "path_exists fs p \<longleftrightarrow> canonicalize fs p \<noteq> None"

definition is_dir_path :: "file_system \<Rightarrow> path \<Rightarrow> bool" where
  "is_dir_path fs p = (case fs_resolve False fs p of Inl _ \<Rightarrow> False | Inr q \<Rightarrow> fs_node fs q = Some DirNode)"

subsection \<open>Validation\<close>

definition canonical_or :: "file_system \<Rightarrow> path \<Rightarrow> path \<Rightarrow> path" where
  "canonical_or fs p d = (case canonicalize fs p of Some c \<Rightarrow> c | None \<Rightarrow> d)"

definition resolve_requested :: "file_system \<Rightarrow> path \<Rightarrow> path option \<Rightarrow> path" where
  "resolve_requested fs p base =
     (if is_absolute p then canonical_or fs p (normalize_lexical p)
      else case base of
        Some b \<Rightarrow> canonical_or fs (path_join b p) (normalize_lexical (path_join b p))
      | None \<Rightarrow> normalize_lexical
          (path_join (case fs_cwd fs of Some cwd \<Rightarrow> abs_path cwd | None \<Rightarrow> [CurDir]) p))"

text \<open>From the path upwards to the nearest ancestor that exists.\<close>

function check_ancestor :: "file_system \<Rightarrow> path \<Rightarrow> path \<Rightarrow> path \<Rightarrow> path" where
  "check_ancestor fs resolved ancestor tail_parts =
     (if path_exists fs ancestor then canonical_or fs ancestor ancestor @ tail_parts
      else if ancestor = [] \<or> ancestor = [RootDir] then resolved
      else check_ancestor fs resolved (butlast ancestor)
             (if is_name (last ancestor) then last ancestor # tail_parts else tail_parts))"
  by pat_completeness auto
termination by (relation "measure (\<lambda>(fs, resolved, ancestor, tail_parts). length ancestor)") auto

declare check_ancestor.simps [simp del]

definition check_path :: "file_system \<Rightarrow> path \<Rightarrow> path" where
  "check_path fs resolved =
     (if path_exists fs resolved then canonical_or fs resolved resolved
      else check_ancestor fs resolved resolved [])"

definition validate_path :: "file_system \<Rightarrow> string \<Rightarrow> path option \<Rightarrow> tool_error + path" where
  "validate_path fs path_str base =
     (let resolved = resolve_requested fs (parse_path path_str) base
      in case base of
           None \<Rightarrow> Inr resolved
         | Some b \<Rightarrow>
             if prefix (canonical_or fs b (normalize_lexical b)) (check_path fs resolved) then Inr resolved
             else Inl (NotAuthorized (''Path escapes sandbox: '' @ path_str)))"

subsection \<open>System calls\<close>

definition fs_fault :: "file_system \<Rightarrow> bool" where
  "fs_fault fs = (case fs_faults fs of [] \<Rightarrow> False | b # _ \<Rightarrow> b)"

definition fs_tick :: "file_system \<Rightarrow> file_system" where
  "fs_tick fs = fs\<lparr>fs_faults := tl (fs_faults fs)\<rparr>"

definition fs_put :: "location \<Rightarrow> node \<Rightarrow> file_system \<Rightarrow> file_system" where
  "fs_put q x fs = fs\<lparr>fs_nodes := AList.update q x (fs_nodes fs)\<rparr>"

definition fs_metadata_len :: "path \<Rightarrow> file_system \<Rightarrow> (io_error + nat) \<times> file_system" where
  "fs_metadata_len p fs =
     (if fs_fault fs then Inl Refused
      else case fs_resolve False fs p of
        Inl e \<Rightarrow> Inl e
      | Inr q \<Rightarrow> (case fs_node fs q of Some (FileNode s) \<Rightarrow> Inr (length s) | _ \<Rightarrow> Inr (fs_dir_size fs)),
      fs_tick fs)"

text \<open>Well-formed UTF-8, without surrogates and overlong forms.\<close>

fun valid_utf8 :: "string \<Rightarrow> bool" where
  "valid_utf8 [] = True"
| "valid_utf8 (a # s) =
     (if code a < 128 then valid_utf8 s
      else case s of
        [] \<Rightarrow> False
      | b # s1 \<Rightarrow>
          if 194 \<le> code a \<and> code a < 224 then continuation b \<and> valid_utf8 s1
          else case s1 of
            [] \<Rightarrow> False
          | c # s2 \<Rightarrow>
              if 224 \<le> code a \<and> code a < 240 then
                continuation b \<and> continuation c \<and> (code a = 224 \<longrightarrow> 160 \<le> code b) \<and>
                (code a = 237 \<longrightarrow> code b < 160) \<and> valid_utf8 s2
              else case s2 of
                [] \<Rightarrow> False
              | d # s3 \<Rightarrow>
                  240 \<le> code a \<and> code a < 245 \<and> continuation b \<and> continuation c \<and> continuation d \<and>
                  (code a = 240 \<longrightarrow> 144 \<le> code b) \<and> (code a = 244 \<longrightarrow> code b < 144) \<and> valid_utf8 s3)"

definition fs_read_to_string :: "path \<Rightarrow> file_system \<Rightarrow> (io_error + string) \<times> file_system" where
  "fs_read_to_string p fs =
     (if fs_fault fs then Inl Refused
      else case fs_resolve False fs p of
        Inl e \<Rightarrow> Inl e
      | Inr q \<Rightarrow> (case fs_node fs q of
          Some (FileNode s) \<Rightarrow> if valid_utf8 s then Inr s else Inl InvalidData
        | _ \<Rightarrow> Inl IsADirectory),
      fs_tick fs)"

definition fs_write :: "path \<Rightarrow> string \<Rightarrow> file_system \<Rightarrow> (io_error + unit) \<times> file_system" where
  "fs_write p content fs =
     (if fs_fault fs then (Inl Refused, fs_tick fs)
      else case fs_resolve True fs p of
        Inl e \<Rightarrow> (Inl e, fs_tick fs)
      | Inr q \<Rightarrow> (case fs_node fs q of
          Some DirNode \<Rightarrow> (Inl IsADirectory, fs_tick fs)
        | _ \<Rightarrow> (Inr (), fs_put q (FileNode content) (fs_tick fs))))"

text \<open>\<open>mkdir\<close> does not follow a link in the last place.\<close>

definition fs_mkdir :: "path \<Rightarrow> file_system \<Rightarrow> (io_error + unit) \<times> file_system" where
  "fs_mkdir p fs =
     (if fs_fault fs then (Inl Refused, fs_tick fs)
      else if p = [] then (Inl NotFound, fs_tick fs)
      else case last p of
        Normal n \<Rightarrow>
          (case (if butlast p = [] then fs_resolve False fs [CurDir] else fs_resolve False fs (butlast p)) of
             Inl e \<Rightarrow> (Inl e, fs_tick fs)
           | Inr q \<Rightarrow>
               if fs_node fs q \<noteq> Some DirNode then (Inl NotADirectory, fs_tick fs)
               else if CHR 0x00 \<in> set n then (Inl InvalidName, fs_tick fs)
               else if fs_node fs (q @ [n]) \<noteq> None then (Inl AlreadyExists, fs_tick fs)
               else (Inr (), fs_put (q @ [n]) DirNode (fs_tick fs)))
      | _ \<Rightarrow> (case fs_resolve False fs p of Inl e \<Rightarrow> Inl e | Inr q \<Rightarrow> Inl AlreadyExists, fs_tick fs))"

text \<open>\<open>std::fs::create_dir_all\<close>.\<close>

function create_dir_all :: "path \<Rightarrow> file_system \<Rightarrow> (io_error + unit) \<times> file_system" where
  "create_dir_all p fs =
     (if p = [] then (Inr (), fs)
      else case fs_mkdir p fs of
        (Inr u, fs1) \<Rightarrow> (Inr (), fs1)
      | (Inl e, fs1) \<Rightarrow>
          if e \<noteq> NotFound then (if is_dir_path fs1 p then Inr () else Inl e, fs1)
          else case path_parent p of
            None \<Rightarrow> (Inl e, fs1)
          | Some d \<Rightarrow> (case create_dir_all d fs1 of
              (Inl e2, fs2) \<Rightarrow> (Inl e2, fs2)
            | (Inr u, fs2) \<Rightarrow> (case fs_mkdir p fs2 of
                (Inr u, fs3) \<Rightarrow> (Inr (), fs3)
              | (Inl e3, fs3) \<Rightarrow> (if is_dir_path fs3 p then Inr () else Inl e3, fs3))))"
  by pat_completeness auto
termination by (relation "measure (\<lambda>(p, fs). length p)") (auto dest: path_parent_shorter)

declare create_dir_all.simps [simp del]

subsection \<open>read_file\<close>

definition MAX_READ_SIZE :: nat where
  "MAX_READ_SIZE = 1024 * 1024"

definition MAX_WRITE_SIZE :: nat where
  "MAX_WRITE_SIZE = 5 * 1024 * 1024"

definition MAX_DIR_ENTRIES :: nat where
  "MAX_DIR_ENTRIES = 500"

definition json_nat :: "nat \<Rightarrow> json" where
  "json_nat n = JNumber (PosInt n)"

text \<open>\<open>{:>6}\<close> and the bar U+2502.\<close>

definition pad_left :: "nat \<Rightarrow> string \<Rightarrow> string" where
  "pad_left w s = replicate (w - length s) (CHR '' '') @ s"

definition numbered_line :: "nat \<Rightarrow> string \<Rightarrow> string" where
  "numbered_line n line = pad_left 6 (nat_str n) @ [CHR 0xE2, CHR 0x94, CHR 0x82] @ '' '' @ line"

text \<open>The range of lines. The sum of \<open>usize\<close> values wraps (a build with overflow checks panics there,
  which the slice does next). \<open>None\<close>: the slice panics.\<close>

definition line_range :: "nat \<Rightarrow> nat option \<Rightarrow> nat \<Rightarrow> (nat \<times> nat) option" where
  "line_range offset limit total_lines =
     (let start_line = (if offset > 0 then offset - 1 else 0);
          end_line = (case limit of
             Some n \<Rightarrow> min (unat (of_nat start_line + of_nat n :: 64 word)) total_lines
           | None \<Rightarrow> total_lines)
      in if start_line \<le> end_line \<and> end_line \<le> total_lines then Some (start_line, end_line) else None)"

definition read_file_page :: "path \<Rightarrow> string \<Rightarrow> nat \<Rightarrow> nat option \<Rightarrow> json option" where
  "read_file_page p content offset limit =
     (let ls = str_lines content
      in map_option (\<lambda>(s, e). JObject
           [(''content'', JString (join [CHR 0x0A]
               (map (\<lambda>(i, line). numbered_line (s + i + 1) line)
                 (List.enumerate 0 (take (e - s) (drop s ls)))))),
            (''total_lines'', json_nat (length ls)), (''lines_shown'', json_nat (e - s)),
            (''path'', JString (show_path p))])
         (line_range offset limit (length ls)))"

definition file_too_large :: "nat \<Rightarrow> tool_error" where
  "file_too_large len = ExecutionFailed (''File too large ('' @ nat_str len @ '' bytes). Maximum is '' @
     nat_str MAX_READ_SIZE @ '' bytes. Use offset/limit for partial reads.'')"

definition read_file_execute ::
  "(io_error \<Rightarrow> string) \<Rightarrow> path option \<Rightarrow> json \<Rightarrow> file_system \<Rightarrow> (tool_error + json) option \<times> file_system" where
  "read_file_execute show_io base params fs = (case require_str params ''path'' of
     Inl e \<Rightarrow> (Some (Inl e), fs)
   | Inr path_str \<Rightarrow> (case validate_path fs path_str base of
       Inl e \<Rightarrow> (Some (Inl e), fs)
     | Inr p \<Rightarrow> (case fs_metadata_len p fs of
         (Inl e, fs1) \<Rightarrow> (Some (Inl (tool_exec_error ''Cannot access file'' (show_io e))), fs1)
       | (Inr len, fs1) \<Rightarrow>
           if len > MAX_READ_SIZE then (Some (Inl (file_too_large len)), fs1)
           else (case fs_read_to_string p fs1 of
             (Inl e, fs2) \<Rightarrow> (Some (Inl (tool_exec_error ''Read file'' (show_io e))), fs2)
           | (Inr content, fs2) \<Rightarrow>
               (map_option Inr (read_file_page p content (u64_or params ''offset'' 0) (optional_u64 params ''limit'')),
                fs2)))))"

subsection \<open>write_file\<close>

definition write_file_execute ::
  "(io_error \<Rightarrow> string) \<Rightarrow> path option \<Rightarrow> json \<Rightarrow> file_system \<Rightarrow> (tool_error + json) \<times> file_system" where
  "write_file_execute show_io base params fs = (case require_str params ''path'' of
     Inl e \<Rightarrow> (Inl e, fs)
   | Inr path_str \<Rightarrow> (case require_str params ''content'' of
       Inl e \<Rightarrow> (Inl e, fs)
     | Inr content \<Rightarrow>
         if length content > MAX_WRITE_SIZE then
           (Inl (InvalidParameters (''Content too large ('' @ nat_str (length content) @
              '' bytes). Maximum is '' @ nat_str MAX_WRITE_SIZE @ '' bytes.'')), fs)
         else (case validate_path fs path_str base of
           Inl e \<Rightarrow> (Inl e, fs)
         | Inr p \<Rightarrow>
             (case (case path_parent p of None \<Rightarrow> (Inr (), fs) | Some d \<Rightarrow> create_dir_all d fs) of
                (Inl e, fs1) \<Rightarrow> (Inl (tool_exec_error ''Create directories'' (show_io e)), fs1)
              | (Inr u, fs1) \<Rightarrow> (case fs_write p content fs1 of
                  (Inl e, fs2) \<Rightarrow> (Inl (tool_exec_error ''Write file'' (show_io e)), fs2)
                | (Inr u, fs2) \<Rightarrow>
                    (Inr (JObject [(''path'', JString (show_path p)),
                       (''bytes_written'', json_nat (length content)), (''success'', JBool True)]), fs2))))))"

subsection \<open>list_dir\<close>

definition format_size :: "(rat \<Rightarrow> string) \<Rightarrow> nat \<Rightarrow> string" where
  "format_size fmt1 bytes =
     (if bytes \<ge> 1024 * 1024 * 1024 then fmt1 (of_nat bytes / (1024 * 1024 * 1024)) @ ''GB''
      else if bytes \<ge> 1024 * 1024 then fmt1 (of_nat bytes / (1024 * 1024)) @ ''MB''
      else if bytes \<ge> 1024 then fmt1 (of_nat bytes / 1024) @ ''KB''
      else nat_str bytes @ ''B'')"

definition SKIPPED_DIRS :: "string list" where
  "SKIPPED_DIRS = [''node_modules'', ''target'', ''.git'', ''__pycache__'', ''venv'', ''.venv'']"

definition children :: "file_system \<Rightarrow> location \<Rightarrow> location list" where
  "children fs q = filter (\<lambda>c. c \<noteq> [] \<and> butlast c = q) (map fst (fs_nodes fs))"

fun node_size :: "node \<Rightarrow> nat" where
  "node_size (FileNode s) = length s"
| "node_size (LinkNode t) = length t"
| "node_size DirNode = 0"

text \<open>The text of an entry: its path below the listed directory. Its metadata may be unreadable.\<close>

definition display_entry :: "(rat \<Rightarrow> string) \<Rightarrow> location \<Rightarrow> node option \<Rightarrow> location \<Rightarrow> string" where
  "display_entry fmt1 dir meta c =
     (let relative = join ''/'' (drop (length dir) c)
      in case meta of
           Some DirNode \<Rightarrow> relative @ ''/''
         | Some x \<Rightarrow> relative @ '' ('' @ format_size fmt1 (node_size x) @ '')''
         | None \<Rightarrow> relative @ '' ('' @ format_size fmt1 0 @ '')'')"

definition entry_metadata :: "location \<Rightarrow> file_system \<Rightarrow> node option \<times> file_system" where
  "entry_metadata c fs = (if fs_fault fs then None else fs_node fs c, fs_tick fs)"

definition dir_error :: "(io_error \<Rightarrow> string) \<Rightarrow> string \<Rightarrow> io_error \<Rightarrow> tool_error" where
  "dir_error show_io what e = ExecutionFailed (''Failed to read '' @ what @ '': '' @ show_io e)"

definition fs_read_dir :: "path \<Rightarrow> file_system \<Rightarrow> (io_error + location) \<times> file_system" where
  "fs_read_dir p fs =
     (if fs_fault fs then Inl Refused
      else case fs_resolve False fs p of
        Inl e \<Rightarrow> Inl e
      | Inr q \<Rightarrow> if fs_node fs q = Some DirNode then Inr q else Inl NotADirectory,
      fs_tick fs)"

text \<open>The loop over an open directory; \<open>depth\<close> is how many levels it may still descend. A subdirectory is
  opened by its own path, in which no link is followed.\<close>

function list_entries ::
  "(io_error \<Rightarrow> string) \<Rightarrow> (rat \<Rightarrow> string) \<Rightarrow> location \<Rightarrow> bool \<Rightarrow> nat \<Rightarrow> location list \<Rightarrow> string list \<Rightarrow>
    file_system \<Rightarrow> (tool_error + string list) \<times> file_system" where
  "list_entries show_io fmt1 dir rec depth [] entries fs =
     (if fs_fault fs then Inl (dir_error show_io ''entry'' Refused) else Inr entries, fs_tick fs)"
| "list_entries show_io fmt1 dir rec depth (c # cs) entries fs =
     (if fs_fault fs then (Inl (dir_error show_io ''entry'' Refused), fs_tick fs)
      else if length entries \<ge> MAX_DIR_ENTRIES then (Inr entries, fs_tick fs)
      else let (meta, fs1) = entry_metadata c (fs_tick fs);
               entries1 = entries @ [display_entry fmt1 dir meta c]
           in if rec \<and> meta = Some DirNode \<and> 0 < depth \<and> last c \<notin> set SKIPPED_DIRS then
                (case (if length entries1 \<ge> MAX_DIR_ENTRIES then (Inr entries1, fs1)
                       else if fs_fault fs1 then (Inl (dir_error show_io ''directory'' Refused), fs_tick fs1)
                       else list_entries show_io fmt1 dir rec (depth - 1) (children fs1 c) entries1 (fs_tick fs1)) of
                   (Inl e, fs2) \<Rightarrow> (Inl e, fs2)
                 | (Inr entries2, fs2) \<Rightarrow> list_entries show_io fmt1 dir rec depth cs entries2 fs2)
              else list_entries show_io fmt1 dir rec depth cs entries1 fs1)"
  by pat_completeness auto
termination
  by (relation "measures [\<lambda>(si, f1, dir, rec, depth, cs, entries, fs). depth,
                          \<lambda>(si, f1, dir, rec, depth, cs, entries, fs). length cs]") auto

definition list_dir_inner ::
  "(io_error \<Rightarrow> string) \<Rightarrow> (rat \<Rightarrow> string) \<Rightarrow> path \<Rightarrow> bool \<Rightarrow> nat \<Rightarrow> file_system \<Rightarrow>
    (tool_error + string list) \<times> file_system" where
  "list_dir_inner show_io fmt1 p rec max_depth fs = (case fs_read_dir p fs of
     (Inl e, fs1) \<Rightarrow> (Inl (dir_error show_io ''directory'' e), fs1)
   | (Inr q, fs1) \<Rightarrow> list_entries show_io fmt1 q rec max_depth (children fs1 q) [] fs1)"

text \<open>Directories first, then by bytes.\<close>

definition entry_le :: "string \<Rightarrow> string \<Rightarrow> bool" where
  "entry_le a b =
     (let da = str_ends_with a ''/''; db = str_ends_with b ''/''
      in if da \<and> \<not> db then True else if \<not> da \<and> db then False else lex_le (byte_key a) (byte_key b))"

fun insert_entry :: "string \<Rightarrow> string list \<Rightarrow> string list" where
  "insert_entry a [] = [a]"
| "insert_entry a (b # bs) = (if entry_le a b then a # b # bs else b # insert_entry a bs)"

definition sort_entries :: "string list \<Rightarrow> string list" where
  "sort_entries xs = foldr insert_entry xs []"

definition list_dir_execute ::
  "(io_error \<Rightarrow> string) \<Rightarrow> (rat \<Rightarrow> string) \<Rightarrow> path option \<Rightarrow> json \<Rightarrow> file_system \<Rightarrow> (tool_error + json) \<times> file_system" where
  "list_dir_execute show_io fmt1 base params fs =
     (let path_str = (case optional_str params ''path'' of Some s \<Rightarrow> s | None \<Rightarrow> ''.'');
          rec = (case optional_bool params ''recursive'' of Some b \<Rightarrow> b | None \<Rightarrow> False);
          max_depth = u64_or params ''max_depth'' 3
      in case validate_path fs path_str base of
           Inl e \<Rightarrow> (Inl e, fs)
         | Inr p \<Rightarrow> (case list_dir_inner show_io fmt1 p rec max_depth fs of
             (Inl e, fs1) \<Rightarrow> (Inl e, fs1)
           | (Inr entries, fs1) \<Rightarrow>
               let sorted = sort_entries entries;
                   truncated = (length sorted > MAX_DIR_ENTRIES);
                   shown = (if truncated then take MAX_DIR_ENTRIES sorted else sorted)
               in (Inr (JObject [(''path'', JString (show_path p)), (''entries'', JArray (map JString shown)),
                      (''count'', json_nat (length shown)), (''truncated'', JBool truncated)]), fs1)))"

subsection \<open>apply_patch\<close>

text \<open>\<open>str::replace\<close> and \<open>str::matches\<close>, also for the empty pattern, which matches at every boundary.\<close>

definition str_replace :: "string \<Rightarrow> string \<Rightarrow> string \<Rightarrow> string" where
  "str_replace s old new =
     (if old = [] then new @ concat (map (\<lambda>c. c @ new) (chars s)) else replace_all old new s)"

definition str_replace_once :: "string \<Rightarrow> string \<Rightarrow> string \<Rightarrow> string" where
  "str_replace_once s old new = (case find_sub old s of
     None \<Rightarrow> s | Some i \<Rightarrow> take i s @ new @ drop (i + length old) s)"

function count_matches :: "string \<Rightarrow> string \<Rightarrow> nat" where
  "count_matches s old = (case find_sub old s of
     None \<Rightarrow> 0
   | Some i \<Rightarrow> if old = [] then length (chars s) + 1 else Suc (count_matches (drop (i + length old) s) old))"
  by pat_completeness auto
termination
proof (relation "measure (\<lambda>(s, old). length s)", goal_cases)
  case (2 s old i)
  then show ?case using find_sub_Some [OF 2(1)] by (cases old) auto
qed simp

declare count_matches.simps [simp del]

definition apply_patch_execute ::
  "(io_error \<Rightarrow> string) \<Rightarrow> path option \<Rightarrow> json \<Rightarrow> file_system \<Rightarrow> (tool_error + json) \<times> file_system" where
  "apply_patch_execute show_io base params fs =
     (case require_str params ''path'' of Inl e \<Rightarrow> (Inl e, fs) | Inr path_str \<Rightarrow>
      case require_str params ''old_string'' of Inl e \<Rightarrow> (Inl e, fs) | Inr old_string \<Rightarrow>
      case require_str params ''new_string'' of Inl e \<Rightarrow> (Inl e, fs) | Inr new_string \<Rightarrow>
      let all = (case optional_bool params ''replace_all'' of Some b \<Rightarrow> b | None \<Rightarrow> False)
      in case validate_path fs path_str base of Inl e \<Rightarrow> (Inl e, fs) | Inr p \<Rightarrow>
      case fs_read_to_string p fs of
        (Inl e, fs1) \<Rightarrow> (Inl (tool_exec_error ''Read file'' (show_io e)), fs1)
      | (Inr content, fs1) \<Rightarrow>
          if \<not> str_contains content old_string then
            (Inl (ExecutionFailed (''Could not find the specified text in '' @ show_path p @
               ''. Make sure old_string matches exactly.'')), fs1)
          else
            let new_content = (if all then str_replace content old_string new_string
                               else str_replace_once content old_string new_string);
                replacements = (if all then count_matches content old_string else 1)
            in case fs_write p new_content fs1 of
                 (Inl e, fs2) \<Rightarrow> (Inl (tool_exec_error ''Write file'' (show_io e)), fs2)
               | (Inr u, fs2) \<Rightarrow> (Inr (JObject [(''path'', JString (show_path p)),
                   (''replacements'', json_nat replacements), (''success'', JBool True)]), fs2))"

end
