(* ===== verification/Memory.thy ===== *)
theory Memory
  imports Files Workspace
begin

text \<open>
  The workspace directory as it lies on the file system (\<open>src/src/workspace.rs\<close>), with listing and search, and
  the memory tools over it (\<open>src/src/tools/builtin/memory.rs\<close>). Theory \<open>Workspace\<close> describes reading, writing
  and the prompts by file names alone; here a name is a path that the operating system resolves, with its
  links, \<open>.\<close> and \<open>..\<close>. \<open>base\<close> is the path of the workspace. The seeds of \<open>USER.md\<close> and \<open>WORKER.md\<close> that the
  build includes are parameters.
\<close>

subsection \<open>Files of the workspace\<close>

type_synonym 'a io = "file_system \<Rightarrow> (io_error + 'a) \<times> file_system"

definition memory_path :: "path \<Rightarrow> string \<Rightarrow> path" where
  "memory_path base relative = path_join base (parse_path relative)"

definition memory_read :: "path \<Rightarrow> string \<Rightarrow> file_system \<Rightarrow> (workspace_error + string) \<times> file_system" where
  "memory_read base rel fs =
     (if \<not> path_exists fs (memory_path base rel) then (Inl (WsFileNotFound rel), fs)
      else case fs_read_to_string (memory_path base rel) fs of
        (Inl _, fs1) \<Rightarrow> (Inl WsIo, fs1) | (Inr s, fs1) \<Rightarrow> (Inr s, fs1))"

definition make_parent :: "path \<Rightarrow> unit io" where
  "make_parent p fs = (case path_parent p of None \<Rightarrow> (Inr (), fs) | Some d \<Rightarrow> create_dir_all d fs)"

definition memory_write :: "path \<Rightarrow> string \<Rightarrow> string \<Rightarrow> file_system \<Rightarrow> (workspace_error + unit) \<times> file_system" where
  "memory_write base rel content fs = (case make_parent (memory_path base rel) fs of
     (Inl _, fs1) \<Rightarrow> (Inl WsIo, fs1)
   | (Inr _, fs1) \<Rightarrow> (case fs_write (memory_path base rel) content fs1 of
       (Inl _, fs2) \<Rightarrow> (Inl WsIo, fs2) | (Inr _, fs2) \<Rightarrow> (Inr (), fs2)))"

definition memory_append :: "path \<Rightarrow> string \<Rightarrow> string \<Rightarrow> file_system \<Rightarrow> (workspace_error + unit) \<times> file_system" where
  "memory_append base rel content fs =
     (let p = memory_path base rel
      in case make_parent p fs of
        (Inl _, fs1) \<Rightarrow> (Inl WsIo, fs1)
      | (Inr _, fs1) \<Rightarrow>
          (case (if path_exists fs1 p then fs_read_to_string p fs1 else (Inr [], fs1)) of
             (Inl _, fs2) \<Rightarrow> (Inl WsIo, fs2)
           | (Inr existing, fs2) \<Rightarrow> (case fs_write p (appended (Some existing) content) fs2 of
               (Inl _, fs3) \<Rightarrow> (Inl WsIo, fs3) | (Inr _, fs3) \<Rightarrow> (Inr (), fs3))))"

definition seed :: "path \<Rightarrow> string \<Rightarrow> string \<Rightarrow> unit io" where
  "seed base name content fs =
     (if path_exists fs (memory_path base name) then (Inr (), fs) else fs_write (memory_path base name) content fs)"

definition AGENTS_SEED :: string where
  "AGENTS_SEED = ''# Agent Instructions'' @ [CHR 0x0A, CHR 0x0A] @
     ''You are an autonomous agent executing tasks on behalf of the user.'' @ [CHR 0x0A] @
     ''Be thorough, check your work, and report clearly when done.'' @ [CHR 0x0A] @
     ''If you encounter issues you cannot fs_resolve, explain what went wrong.'' @ [CHR 0x0A]"

fun in_sequence :: "unit io list \<Rightarrow> unit io" where
  "in_sequence [] fs = (Inr (), fs)"
| "in_sequence (f # gs) fs = (case f fs of (Inl e, fs1) \<Rightarrow> (Inl e, fs1) | (Inr _, fs1) \<Rightarrow> in_sequence gs fs1)"

definition ensure_dirs :: "string \<Rightarrow> string \<Rightarrow> path \<Rightarrow> unit io" where
  "ensure_dirs user_seed worker_seed base = in_sequence
     [create_dir_all base, create_dir_all (memory_path base ''memory''), seed base ''AGENTS.md'' AGENTS_SEED,
      seed base ''USER.md'' user_seed, seed base ''WORKER.md'' worker_seed]"

subsection \<open>Listing\<close>

record file_entry =
  fe_path :: string
  fe_size :: nat
  fe_is_directory :: bool

text \<open>\<open>Path::file_name\<close>: the last component, if it is a name.\<close>

definition entry_name :: "file_entry \<Rightarrow> string" where
  "entry_name e = (let p = trim_cur (parse_path (fe_path e))
     in if p \<noteq> [] \<and> is_name (last p) then component_text (last p) else fe_path e)"

text \<open>The path of an entry is its name below the listed directory, with the part of the request that lies
  below the base; a request that leaves the base keeps its own spelling.\<close>

definition entry_path :: "path \<Rightarrow> path \<Rightarrow> string \<Rightarrow> string" where
  "entry_path base dir name =
     (let b = filter ((\<noteq>) CurDir) base; d = filter ((\<noteq>) CurDir) dir
      in if prefix b d then show_path (drop (length b) d @ [Normal name]) else show_path (d @ [Normal name]))"

definition entry_of :: "file_system \<Rightarrow> path \<Rightarrow> path \<Rightarrow> location \<Rightarrow> file_entry" where
  "entry_of fs base dir c =
     \<lparr>fe_path = entry_path base dir (last c),
      fe_size = (case fs_node fs c of Some DirNode \<Rightarrow> fs_dir_size fs | Some x \<Rightarrow> node_size x | None \<Rightarrow> 0),
      fe_is_directory = (fs_node fs c = Some DirNode)\<rparr>"

fun read_entries :: "path \<Rightarrow> path \<Rightarrow> location list \<Rightarrow> file_entry list io" where
  "read_entries base dir [] fs = (if fs_fault fs then Inl Refused else Inr [], fs_tick fs)"
| "read_entries base dir (c # cs) fs =
     (if fs_fault fs then (Inl Refused, fs_tick fs)
      else let fs1 = fs_tick fs
           in if fs_fault fs1 then (Inl Refused, fs_tick fs1)
              else case read_entries base dir cs (fs_tick fs1) of
                (Inl e, fs2) \<Rightarrow> (Inl e, fs2)
              | (Inr es, fs2) \<Rightarrow> (Inr (entry_of fs1 base dir c # es), fs2))"

fun insert_by_path :: "file_entry \<Rightarrow> file_entry list \<Rightarrow> file_entry list" where
  "insert_by_path e [] = [e]"
| "insert_by_path e (x # xs) =
     (if lex_le (byte_key (fe_path e)) (byte_key (fe_path x)) then e # x # xs else x # insert_by_path e xs)"

definition memory_list :: "path \<Rightarrow> string \<Rightarrow> file_system \<Rightarrow> (workspace_error + file_entry list) \<times> file_system" where
  "memory_list base sub fs =
     (let dir = (if sub = [] then base else memory_path base sub)
      in if \<not> path_exists fs dir then (Inr [], fs)
         else case fs_read_dir dir fs of
           (Inl _, fs1) \<Rightarrow> (Inl WsIo, fs1)
         | (Inr q, fs1) \<Rightarrow> (case read_entries base dir (children fs1 q) fs1 of
             (Inl _, fs2) \<Rightarrow> (Inl WsIo, fs2)
           | (Inr es, fs2) \<Rightarrow> (Inr (foldr insert_by_path es []), fs2)))"

subsection \<open>Search\<close>

record search_result =
  sr_path :: string
  sr_line_number :: nat
  sr_snippet :: string
  sr_score :: rat

definition SEARCHED_EXTENSIONS :: "string list" where
  "SEARCHED_EXTENSIONS = [''md'', ''txt'', ''toml'', ''yaml'', ''yml'']"

text \<open>\<open>Path::extension\<close>: what follows the last dot of a name, unless the dot is its first character.\<close>

definition extension :: "string \<Rightarrow> string option" where
  "extension name = (case rfind_index ((=) (CHR ''.'')) name of
     None \<Rightarrow> None | Some i \<Rightarrow> if i = 0 \<or> name = ''..'' then None else Some (drop (i + 1) name))"

definition matched_terms :: "string list \<Rightarrow> string \<Rightarrow> nat" where
  "matched_terms terms line = length (filter (\<lambda>t. str_contains (to_lowercase line) t) terms)"

definition search_lines :: "string list \<Rightarrow> string \<Rightarrow> string \<Rightarrow> search_result list" where
  "search_lines terms rel content = List.map_filter
     (\<lambda>(i, line). let matched = matched_terms terms line
        in if matched = 0 then None
           else Some \<lparr>sr_path = rel, sr_line_number = i + 1, sr_snippet = concat (take 200 (chars line)),
                  sr_score = of_nat matched / of_nat (length terms)\<rparr>)
     (List.enumerate 0 (str_lines content))"

definition searched_dir :: "string \<Rightarrow> bool" where
  "searched_dir name \<longleftrightarrow> \<not> str_starts_with name ''.'' \<and> name \<noteq> ''node_modules'' \<and> name \<noteq> ''target''"

text \<open>The files below a directory whose nodes are \<open>tree\<close>, in the order of the walk. \<open>levels\<close> bounds the
  depth; that of the tree suffices. A failing call ends the search with an error, except when the text of a
  file cannot be read.\<close>

function search_entries ::
  "nat \<Rightarrow> location \<Rightarrow> string list \<Rightarrow> location list \<Rightarrow> search_result list \<Rightarrow> search_result list io" where
  "search_entries levels dir terms [] found fs = (if fs_fault fs then Inl Refused else Inr found, fs_tick fs)"
| "search_entries levels dir terms (c # cs) found fs =
     (if fs_fault fs then (Inl Refused, fs_tick fs)
      else let fs1 = fs_tick fs
           in if fs_fault fs1 then (Inl Refused, fs_tick fs1)
              else let fs2 = fs_tick fs1
                   in (case fs_node fs c of
                      Some DirNode \<Rightarrow>
                        (case (if levels = 0 \<or> \<not> searched_dir (last c) then (Inr found, fs2)
                               else if fs_fault fs2 then (Inl Refused, fs_tick fs2)
                               else search_entries (levels - 1) dir terms (children fs2 c) found (fs_tick fs2)) of
                           (Inl e, fs3) \<Rightarrow> (Inl e, fs3)
                         | (Inr found1, fs3) \<Rightarrow> search_entries levels dir terms cs found1 fs3)
                    | Some (FileNode s) \<Rightarrow>
                        (case extension (last c) of
                           None \<Rightarrow> search_entries levels dir terms cs found fs2
                         | Some x \<Rightarrow>
                             if x \<notin> set SEARCHED_EXTENSIONS then search_entries levels dir terms cs found fs2
                             else search_entries levels dir terms cs
                                    (if fs_fault fs2 \<or> \<not> valid_utf8 s then found
                                     else found @ search_lines terms (join ''/'' (drop (length dir) c)) s) (fs_tick fs2))
                    | _ \<Rightarrow> search_entries levels dir terms cs found fs2))"
  by pat_completeness auto
termination
  by (relation "measures [\<lambda>(levels, dir, terms, cs, found, fs). levels, \<lambda>(levels, dir, terms, cs, found, fs). length cs]") auto

definition tree_depth :: "file_system \<Rightarrow> nat" where
  "tree_depth fs = foldr max (map (length \<circ> fst) (fs_nodes fs)) 0"

definition memory_search ::
  "path \<Rightarrow> string \<Rightarrow> nat \<Rightarrow> file_system \<Rightarrow> (workspace_error + search_result list) \<times> file_system" where
  "memory_search base q limit fs =
     (let terms = split_whitespace (to_lowercase q)
      in if terms = [] then (Inr [], fs)
         else if \<not> path_exists fs base then (Inr [], fs)
         else case fs_read_dir base fs of
           (Inl _, fs1) \<Rightarrow> (Inl WsIo, fs1)
         | (Inr d, fs1) \<Rightarrow> (case search_entries (tree_depth fs) d terms (children fs1 d) [] fs1 of
             (Inl _, fs2) \<Rightarrow> (Inl WsIo, fs2)
           | (Inr rs, fs2) \<Rightarrow> (Inr (take limit (sort_key (\<lambda>r. - sr_score r) rs)), fs2)))"

subsection \<open>The tools\<close>

record memory_env =
  me_stamp :: "datetime \<Rightarrow> string"
  me_date :: "datetime \<Rightarrow> string"
  me_clock :: "datetime \<Rightarrow> string"
  me_show :: "workspace_error \<Rightarrow> string"

definition PROTECTED_IDENTITY_FILES :: "string list" where
  "PROTECTED_IDENTITY_FILES = [''IDENTITY.md'', ''SOUL.md'', ''AGENTS.md'', ''USER.md'']"

definition ws_failure :: "memory_env \<Rightarrow> string \<Rightarrow> workspace_error \<Rightarrow> tool_error" where
  "ws_failure M context e = tool_exec_error context (me_show M e)"

definition result_json :: "search_result \<Rightarrow> json" where
  "result_json r = JObject [(''path'', JString (sr_path r)), (''line_number'', json_nat (sr_line_number r)),
     (''snippet'', JString (sr_snippet r)), (''score'', JNumber (Float (sr_score r)))]"

definition tool_memory_search ::
  "memory_env \<Rightarrow> path \<Rightarrow> json \<Rightarrow> file_system \<Rightarrow> (tool_error + json) \<times> file_system" where
  "tool_memory_search M base params fs =
     (case require_str params ''query'' of Inl e \<Rightarrow> (Inl e, fs) | Inr q \<Rightarrow>
      case memory_search base q (min (u64_or params ''limit'' 5) 20) fs of
        (Inl e, fs1) \<Rightarrow> (Inl (ws_failure M ''Search memory'' e), fs1)
      | (Inr rs, fs1) \<Rightarrow> (Inr (JObject [(''query'', JString q), (''results'', JArray (map result_json rs)),
          (''result_count'', json_nat (length rs))]), fs1))"

definition identity_protected :: "string \<Rightarrow> tool_error" where
  "identity_protected s = NotAuthorized (''writing to '' @ quoted s @ '' is not allowed (identity file protected)'')"

definition append_or_write ::
  "bool \<Rightarrow> path \<Rightarrow> string \<Rightarrow> string \<Rightarrow> file_system \<Rightarrow> (workspace_error + unit) \<times> file_system" where
  "append_or_write append_it base rel content =
     (if append_it then memory_append base rel content else memory_write base rel content)"

definition memory_entry :: "memory_env \<Rightarrow> datetime \<Rightarrow> string \<Rightarrow> string" where
  "memory_entry M now content = [CHR 0x0A] @ ''---'' @ [CHR 0x0A] @ ''*Updated: '' @ me_stamp M now @ ''*'' @
     [CHR 0x0A, CHR 0x0A] @ content"

definition daily_entry :: "memory_env \<Rightarrow> datetime \<Rightarrow> string \<Rightarrow> string" where
  "daily_entry M now content = [CHR 0x0A] @ ''## '' @ me_clock M now @ [CHR 0x0A, CHR 0x0A] @ content"

definition daily_path :: "memory_env \<Rightarrow> datetime \<Rightarrow> string" where
  "daily_path M now = ''memory/'' @ me_date M now @ ''.md''"

text \<open>The text without its leading slashes, compared with the protected names in either case.\<close>

definition names_identity_file :: "string \<Rightarrow> bool" where
  "names_identity_file target =
     list_ex (\<lambda>p. to_lowercase (dropWhile ((=) (CHR ''/'')) target) = to_lowercase p) PROTECTED_IDENTITY_FILES"

definition write_target ::
  "memory_env \<Rightarrow> path \<Rightarrow> datetime \<Rightarrow> bool \<Rightarrow> string \<Rightarrow> string \<Rightarrow> file_system \<Rightarrow> (tool_error + string) \<times> file_system" where
  "write_target M base now append_it target content fs =
     (let done_at = (\<lambda>p (r, fs1). (case r of Inl e \<Rightarrow> Inl (ws_failure M ''Write memory'' e) | Inr _ \<Rightarrow> Inr p, fs1))
      in if target = ''memory'' then
           done_at ''MEMORY.md'' (if append_it then memory_append base ''MEMORY.md'' (memory_entry M now content) fs
                                  else memory_write base ''MEMORY.md'' content fs)
         else if target = ''daily_log'' then
           done_at (daily_path M now) (memory_append base (daily_path M now) (daily_entry M now content) fs)
         else if target = ''heartbeat'' then done_at ''HEARTBEAT.md'' (append_or_write append_it base ''HEARTBEAT.md'' content fs)
         else if names_identity_file target then (Inl (identity_protected target), fs)
         else done_at target (append_or_write append_it base target content fs))"

definition tool_memory_write ::
  "memory_env \<Rightarrow> path \<Rightarrow> datetime \<Rightarrow> json \<Rightarrow> file_system \<Rightarrow> (tool_error + json) \<times> file_system" where
  "tool_memory_write M base now params fs =
     (case require_str params ''content'' of Inl e \<Rightarrow> (Inl e, fs) | Inr content \<Rightarrow>
      if trim content = [] then (Inl (InvalidParameters ''content cannot be empty''), fs)
      else let target = (case optional_str params ''target'' of Some s \<Rightarrow> s | None \<Rightarrow> ''daily_log'');
               append_it = (case optional_bool params ''append'' of Some b \<Rightarrow> b | None \<Rightarrow> True)
           in if target \<in> set PROTECTED_IDENTITY_FILES then (Inl (identity_protected target), fs)
              else case write_target M base now append_it target content fs of
                (Inl e, fs1) \<Rightarrow> (Inl e, fs1)
              | (Inr p, fs1) \<Rightarrow> (Inr (JObject [(''status'', JString ''written''), (''path'', JString p),
                  (''append'', JBool append_it), (''content_length'', json_nat (length content))]), fs1))"

text \<open>As with \<open>read_file\<close>, \<open>None\<close> is the panic of the slice.\<close>

definition tool_memory_read ::
  "memory_env \<Rightarrow> path \<Rightarrow> json \<Rightarrow> file_system \<Rightarrow> (tool_error + json) option \<times> file_system" where
  "tool_memory_read M base params fs =
     (case require_str params ''path'' of Inl e \<Rightarrow> (Some (Inl e), fs) | Inr rel \<Rightarrow>
      case memory_read base rel fs of
        (Inl e, fs1) \<Rightarrow> (Some (Inl (ws_failure M ''Read memory'' e)), fs1)
      | (Inr content, fs1) \<Rightarrow>
          let ls = str_lines content
          in (map_option (\<lambda>(s, e). Inr (JObject [(''path'', JString rel),
                (''content'', JString (join [CHR 0x0A] (take (e - s) (drop s ls)))),
                (''total_lines'', json_nat (length ls)), (''lines_shown'', json_nat (e - s))]))
              (line_range (u64_or params ''offset'' 0) (optional_u64 params ''limit'') (length ls)), fs1))"

definition tree_json :: "file_entry \<Rightarrow> json" where
  "tree_json e = (if fe_is_directory e then JObject [(''name'', JString (entry_name e @ ''/'')), (''type'', JString ''dir'')]
     else JObject [(''name'', JString (entry_name e)), (''type'', JString ''file''), (''size'', json_nat (fe_size e))])"

definition tool_memory_tree ::
  "memory_env \<Rightarrow> path \<Rightarrow> json \<Rightarrow> file_system \<Rightarrow> (tool_error + json) \<times> file_system" where
  "tool_memory_tree M base params fs =
     (let rel = (case optional_str params ''path'' of Some s \<Rightarrow> s | None \<Rightarrow> [])
      in case memory_list base rel fs of
           (Inl e, fs1) \<Rightarrow> (Inl (ws_failure M ''List memory'' e), fs1)
         | (Inr es, fs1) \<Rightarrow> (Inr (JObject [(''path'', JString rel), (''entries'', JArray (map tree_json es)),
             (''count'', json_nat (length es))]), fs1))"

end
