(* ===== verification/Files_Safety.thy ===== *)
theory Files_Safety
  imports Files
begin

text \<open>
  What the file tools keep: the confinement of writes to the base directory, with the symbolic link that
  breaks it, the page of lines that \<open>read_file\<close> shows, the bound of \<open>list_dir\<close> and the effect of a patch.
\<close>

subsection \<open>Resolution\<close>

definition solid :: "file_system \<Rightarrow> location \<Rightarrow> bool" where
  "solid fs q = (case fs_node fs q of Some (FileNode s) \<Rightarrow> True | Some DirNode \<Rightarrow> True | _ \<Rightarrow> False)"

text \<open>A tree: what contains a node is a directory, names have no NUL, and the process is in a directory.\<close>

definition fs_wf :: "file_system \<Rightarrow> bool" where
  "fs_wf fs \<longleftrightarrow> list_all (\<lambda>(q, x). q \<noteq> [] \<and> fs_node fs (butlast q) = Some DirNode \<and> CHR 0x00 \<notin> set (last q)) (fs_nodes fs)
     \<and> (case fs_cwd fs of None \<Rightarrow> True | Some c \<Rightarrow> fs_node fs c = Some DirNode)"

lemma solid_cases:
  assumes "solid fs q"
  obtains s where "fs_node fs q = Some (FileNode s)" | "fs_node fs q = Some DirNode"
  using assms by (auto simp: solid_def split: option.splits node.splits)

lemma solidI: "fs_node fs q = Some DirNode \<Longrightarrow> solid fs q" "fs_node fs q = Some (FileNode s) \<Longrightarrow> solid fs q"
  by (simp_all add: solid_def)

lemma fs_node_root [simp]: "fs_node fs [] = Some DirNode"
  by (simp add: fs_node_def)

lemma fs_tick_node [simp]: "fs_node (fs_tick fs) = fs_node fs"
  by (simp add: fs_node_def fs_tick_def fun_eq_iff)

lemma fs_tick_fields [simp]:
  "fs_cwd (fs_tick fs) = fs_cwd fs" "fs_link_limit (fs_tick fs) = fs_link_limit fs" "fs_nodes (fs_tick fs) = fs_nodes fs"
  by (simp_all add: fs_tick_def)

lemma fs_put_fields [simp]: "fs_cwd (fs_put q x fs) = fs_cwd fs" "fs_link_limit (fs_put q x fs) = fs_link_limit fs"
  by (simp_all add: fs_put_def)

lemma fs_put_node: "fs_node (fs_put q x fs) p = (if p = q \<and> q \<noteq> [] then Some x else fs_node fs p)"
  by (simp add: fs_node_def fs_put_def update_conv')

lemma wf_parent: "fs_wf fs \<Longrightarrow> fs_node fs (q @ [n]) = Some x \<Longrightarrow> fs_node fs q = Some DirNode \<and> CHR 0x00 \<notin> set n"
  by (auto simp: fs_wf_def fs_node_def list_all_iff dest!: map_of_SomeD)

lemma wf_prefix:
  assumes "fs_wf fs" "fs_node fs (q @ r) \<noteq> None" "r \<noteq> []"
  shows "fs_node fs q = Some DirNode"
  using assms
proof (induction r rule: rev_induct)
  case (snoc n r)
  then have "fs_node fs (q @ r) = Some DirNode" using wf_parent [of fs "q @ r" n] by auto
  then show ?case using snoc by (cases "r = []") auto
qed simp

lemma wf_cwd: "fs_wf fs \<Longrightarrow> fs_cwd fs = Some c \<Longrightarrow> fs_node fs c = Some DirNode"
  by (simp add: fs_wf_def)

lemma wf_tick [simp]: "fs_wf (fs_tick fs) = fs_wf fs"
  by (simp add: fs_wf_def split: option.split)

lemma solid_root [simp]: "solid fs []"
  by (simp add: solid_def)

lemma walk_solid:
  assumes "fs_wf fs"
  shows "walk False fs l cur p = Inr q \<Longrightarrow> solid fs cur \<Longrightarrow> solid fs q"
  using assms
proof (induction "False" fs l cur p rule: walk.induct)
  case (4 fs l cur p)
  then have "solid fs (butlast cur)"
    by (cases cur rule: rev_cases) (auto split: if_splits dest!: wf_parent intro: solidI)
  with 4 show ?case by (auto split: if_splits)
next
  case (5 fs l cur n p)
  then show ?case by (auto split: if_splits option.splits node.splits nat.splits intro: solidI)
qed (auto split: if_splits)

text \<open>The part of a walk after a prefix that resolves, in any file system with the same nodes and more.\<close>

definition extends :: "file_system \<Rightarrow> file_system \<Rightarrow> bool" where
  "extends fs fs' \<longleftrightarrow> (\<forall>q. fs_node fs q \<noteq> None \<longrightarrow> fs_node fs' q = fs_node fs q)"

lemma extends_refl [simp]: "extends fs fs"
  by (simp add: extends_def)

lemma extendsD: "extends fs fs' \<Longrightarrow> fs_node fs q = Some x \<Longrightarrow> fs_node fs' q = Some x"
  by (simp add: extends_def)

lemma walk_prefix:
  "walk False fs l cur p = Inr c \<Longrightarrow>
    \<exists>l'. \<forall>fs' create r. extends fs fs' \<longrightarrow> walk create fs' l cur (p @ r) = walk create fs' l' c r"
proof (induction "False" fs l cur p rule: walk.induct)
  case (5 fs l cur n p)
  show ?case
  proof (cases "fs_node fs (cur @ [n])")
    case (Some x)
    then have d: "fs_node fs cur = Some DirNode" "CHR 0x00 \<notin> set n" using 5 by (auto split: if_splits)
    show ?thesis
    proof (cases x)
      case (LinkNode t)
      then obtain k where k: "l = Suc k" "walk False fs k cur (parse_path t @ p) = Inr c"
        using 5(4) Some d by (auto split: nat.splits)
      from 5(3) [OF _ d(2) Some LinkNode k] d(1) show ?thesis
        using Some LinkNode d k(1) by (auto simp: extends_def) 
    next
      case (FileNode s)
      with 5(1) [OF _ d(2) Some FileNode] 5(4) Some d show ?thesis
        by (auto simp: extends_def) 
    next
      case DirNode
      with 5(2) [OF _ d(2) Some DirNode] 5(4) Some d show ?thesis
        by (auto simp: extends_def)
    qed
  qed (use 5 in \<open>auto split: if_splits\<close>)
qed (auto split: if_splits simp: extends_def intro: exI)

lemma walk_fails:
  "walk False fs l cur p = Inl e \<Longrightarrow> r \<noteq> [] \<Longrightarrow> walk create fs l cur (p @ r) = Inl e"
proof (induction "False" fs l cur p rule: walk.induct)
  case (5 fs l cur n p)
  then show ?case by (auto split: if_splits option.splits node.splits nat.splits)
qed (auto split: if_splits)

lemma walk_create: "walk False fs l cur p = Inr q \<Longrightarrow> walk True fs l cur p = Inr q"
proof (induction "False" fs l cur p rule: walk.induct)
  case (5 fs l cur n p)
  then show ?case by (auto split: if_splits option.splits node.splits nat.splits)
qed (auto split: if_splits)

text \<open>What only a creating walk reaches is reached by no other, however many links it may follow.\<close>

lemma walk_missing:
  "walk True fs l cur p = Inr q \<Longrightarrow> walk False fs l cur p = Inl e \<Longrightarrow> \<exists>e'. walk False fs k cur p = Inl e'"
proof (induction "True" fs l cur p arbitrary: k rule: walk.induct)
  case (5 fs l cur n p)
  show ?case
  proof (cases "fs_node fs (cur @ [n])")
    case (Some x)
    then have d: "\<not> fs_node fs cur \<noteq> Some DirNode" "CHR 0x00 \<notin> set n" using 5 by (auto split: if_splits)
    show ?thesis
    proof (cases x)
      case (LinkNode t)
      then obtain j where j: "l = Suc j" using 5(4) Some d by (auto split: nat.splits)
      show ?thesis
        using 5(3) [OF d Some LinkNode j, of "k - 1"] 5(4,5) Some LinkNode d j by (cases k) auto
    next
      case (FileNode s)
      with 5(1) [OF d Some FileNode, of k] 5(4,5) Some d show ?thesis by auto
    next
      case DirNode
      with 5(2) [OF d Some DirNode, of k] 5(4,5) Some d show ?thesis by auto
    qed
  qed (use 5 in \<open>auto split: if_splits\<close>)
qed (auto split: if_splits)

lemma walk_names_solid:
  assumes "fs_wf fs" "solid fs (q @ ns)"
  shows "walk create fs l q (map Normal ns @ p) = walk create fs l (q @ ns) p"
  using assms(2)
proof (induction ns arbitrary: q)
  case (Cons n ns)
  have some: "fs_node fs (q @ n # ns) \<noteq> None" using Cons.prems by (auto simp: solid_def split: option.splits)
  then have q: "fs_node fs q = Some DirNode" using wf_prefix [OF assms(1)] by blast
  have n: "solid fs (q @ [n])"
    using wf_prefix [OF assms(1), of "q @ [n]" ns] some Cons.prems by (cases "ns = []") (auto intro: solidI)
  then have "CHR 0x00 \<notin> set n" using wf_parent [OF assms(1), of q n] by (auto elim!: solid_cases)
  with n q have "walk create fs l q (Normal n # map Normal ns @ p) = walk create fs l (q @ [n]) (map Normal ns @ p)"
    by (auto elim!: solid_cases)
  with Cons.IH [of "q @ [n]"] Cons.prems show ?case by simp
qed simp

text \<open>Where there are only directories and gaps, a walk along names stays on them.\<close>

lemma walk_names:
  assumes "\<forall>r. r \<noteq> [] \<and> prefix r ns \<longrightarrow> fs_node fs (q @ r) \<in> {None, Some DirNode}"
    and "walk create fs l q (map Normal ns) = Inr z"
  shows "z = q @ ns"
  using assms
proof (induction ns arbitrary: q)
  case (Cons n ns)
  have "fs_node fs (q @ [n]) \<in> {None, Some DirNode}" using Cons.prems(1) by (elim allE [of _ "[n]"]) simp
  moreover have "\<forall>r. r \<noteq> [] \<and> prefix r ns \<longrightarrow> fs_node fs ((q @ [n]) @ r) \<in> {None, Some DirNode}"
    using Cons.prems(1) by (auto elim!: allE [of _ "n # _"])
  ultimately show ?case
    using Cons.IH [of "q @ [n]"] Cons.prems(2) by (auto split: if_splits)
qed simp

lemma walk_extends: "walk False fs l cur p = Inr q \<Longrightarrow> extends fs fs' \<Longrightarrow> walk create fs' l cur p = Inr q"
  using walk_prefix [of fs l cur p q] by (metis append_Nil2 walk.simps(1))

lemma walk_cong:
  assumes "\<And>q. fs_node fs' q = fs_node fs q"
  shows "walk create fs' l cur p = walk create fs l cur p"
  using assms
proof (induction create fs l cur p rule: walk.induct)
  case (5 create fs l cur n p)
  then show ?case by (auto split: option.splits node.splits nat.splits)
qed auto

subsection \<open>Paths made of names\<close>

definition named :: "bool \<Rightarrow> location \<Rightarrow> path" where
  "named a ns = (if a then [RootDir] else []) @ map Normal ns"

definition start_of :: "file_system \<Rightarrow> bool \<Rightarrow> location option" where
  "start_of fs a = (if a then Some [] else fs_cwd fs)"

lemma abs_path_named: "abs_path q = named True q"
  by (simp add: abs_path_def named_def)

lemma prefix_abs_path [simp]: "prefix (abs_path p) (abs_path q) = prefix p q"
  by (auto simp: abs_path_def prefix_map_rightE prefix_def map_eq_append_conv)
     (metis component.inject list.inj_map_strong map_append)+

lemma named_snoc: "last (named a (ns @ [n])) = Normal n" "butlast (named a (ns @ [n])) = named a ns"
  "named a (ns @ [n]) \<noteq> []"
  by (auto simp: named_def butlast_append)

lemma trim_cur_names [simp]: "trim_cur (named a ns) = named a ns"
  by (cases ns rule: rev_cases) (auto simp: trim_cur_def named_def)

lemma path_parent_named: "path_parent (named a []) = None" "path_parent (named a (ns @ [n])) = Some (named a ns)"
proof -
  show "path_parent (named a []) = None" by (simp add: path_parent_def named_def trim_cur_def)
  have "named a (ns @ [n]) \<noteq> [RootDir]" by (auto simp: named_def)
  then show "path_parent (named a (ns @ [n])) = Some (named a ns)"
    by (simp add: path_parent_def Let_def named_snoc)
qed

lemma resolve_root [simp]: "fs_resolve create fs [RootDir] = Inr []"
  by (simp add: fs_resolve_def is_absolute_def)

lemma segments_no_root: "RootDir \<notin> set (segments cur s)"
  by (induction cur s rule: segments.induct) (auto simp: segment_def)

lemma parse_path_shape: "\<exists>p. RootDir \<notin> set p \<and> (parse_path s = p \<or> parse_path s = RootDir # p)"
  using segments_no_root [of "[]" s] segments_no_root [of "[]" "tl s"]
  by (cases "s = ''/''") (auto simp: parse_path_def intro: exI [of _ "[]"])

lemma normal_fold: "RootDir \<notin> set p \<Longrightarrow> \<exists>ms. fold normal_step p (named a ns) = named a ms"
proof (induction p arbitrary: ns)
  case (Cons c p)
  have "\<exists>ms. normal_step c (named a ns) = named a ms"
  proof (cases c)
    case ParentDir
    then show ?thesis
    proof (cases ns rule: rev_cases)
      case Nil
      then show ?thesis using ParentDir by (intro exI [of _ "[]"]) (simp add: named_def)
    next
      case (snoc ms m)
      then show ?thesis using ParentDir by (intro exI [of _ ms]) (simp add: named_snoc)
    qed
  next
    case (Normal n)
    then show ?thesis by (intro exI [of _ "ns @ [n]"]) (simp add: named_def)
  qed (use Cons.prems in auto)
  then show ?case using Cons by auto
qed auto

lemma normalize_named:
  assumes "RootDir \<notin> set p" shows "\<exists>a ns. normalize_lexical p = named a ns"
    and "\<exists>a ns. normalize_lexical (RootDir # p) = named a ns"
  using normal_fold [OF assms, of False "[]"] normal_fold [OF assms, of True "[]"]
  by (auto simp: normalize_lexical_def named_def)

lemma canonical_or_named: "(\<exists>a ns. d = named a ns) \<Longrightarrow> \<exists>a ns. canonical_or fs p d = named a ns"
  by (auto simp: canonical_or_def canonicalize_def abs_path_named split: option.splits sum.splits)

lemma resolve_requested_named: "\<exists>a ns. resolve_requested fs (parse_path s) (Some (parse_path b)) = named a ns"
proof -
  obtain p where p: "RootDir \<notin> set p" "parse_path s = p \<or> parse_path s = RootDir # p"
    using parse_path_shape by blast
  obtain q where q: "RootDir \<notin> set q" "parse_path b = q \<or> parse_path b = RootDir # q"
    using parse_path_shape by blast
  have abs: "is_absolute (parse_path s) \<longleftrightarrow> parse_path s = RootDir # p"
    using p by (cases p) (auto simp: is_absolute_def)
  show ?thesis
  proof (cases "is_absolute (parse_path s)")
    case True
    then show ?thesis
      using abs p normalize_named(2) [of p] canonical_or_named by (simp add: resolve_requested_def)
  next
    case False
    then have s: "parse_path s = p" using p abs by auto
    have "\<exists>r. RootDir \<notin> set r \<and> (path_join (parse_path b) p = r \<or> path_join (parse_path b) p = RootDir # r)"
      using False p(1) q unfolding s
      by (intro exI [of _ "if parse_path b = [] then p else q @ (if p = [] then [CurDir] else p)"]) (auto simp: path_join_def)
    then have "\<exists>a ns. normalize_lexical (path_join (parse_path b) p) = named a ns"
      using normalize_named by metis
    then show ?thesis using False canonical_or_named by (simp add: resolve_requested_def s)
  qed
qed

lemma resolve_named:
  "start_of fs a = Some d \<Longrightarrow> named a ns \<noteq> [] \<Longrightarrow> fs_resolve create fs (named a ns) = walk create fs (fs_link_limit fs) d (map Normal ns)"
  by (cases ns) (auto simp: fs_resolve_def named_def start_of_def is_absolute_def simp del: walk.simps(1,3,4,5)
    split: if_splits)

lemma resolve_no_start: "start_of fs a = None \<Longrightarrow> fs_resolve create fs (named a ns) = Inl NotFound"
  by (cases ns) (auto simp: fs_resolve_def named_def start_of_def is_absolute_def split: if_splits)

lemma start_dir: "fs_wf fs \<Longrightarrow> start_of fs a = Some d \<Longrightarrow> fs_node fs d = Some DirNode"
  by (auto simp: start_of_def wf_cwd split: if_splits)

lemma fs_mkdir_snoc:
  assumes "fs_wf fs" "start_of fs a = Some d"
  shows "fs_mkdir (named a (ns @ [n])) fs =
     (if fs_fault fs then (Inl Refused, fs_tick fs)
      else case walk False fs (fs_link_limit fs) d (map Normal ns) of
        Inl e \<Rightarrow> (Inl e, fs_tick fs)
      | Inr q \<Rightarrow>
          if fs_node fs q \<noteq> Some DirNode then (Inl NotADirectory, fs_tick fs)
          else if CHR 0x00 \<in> set n then (Inl InvalidName, fs_tick fs)
          else if fs_node fs (q @ [n]) \<noteq> None then (Inl AlreadyExists, fs_tick fs)
          else (Inr (), fs_put (q @ [n]) DirNode (fs_tick fs)))"
proof -
  have "(if named a ns = [] then fs_resolve False fs [CurDir] else fs_resolve False fs (named a ns))
      = walk False fs (fs_link_limit fs) d (map Normal ns)"
    using resolve_named [OF assms(2)] start_dir [OF assms] assms(2)
    by (auto simp: fs_resolve_def named_def start_of_def is_absolute_def split: if_splits)
  then show ?thesis by (simp only: fs_mkdir_def named_snoc component.case if_False if_True simp_thms)
qed

subsection \<open>The accepted path\<close>

lemma canonicalize_eq: "canonicalize fs p = Some (abs_path q) \<longleftrightarrow> fs_resolve False fs p = Inr q"
  by (auto simp: canonicalize_def abs_path_def split: sum.splits)
     (metis component.inject list.inj_map_strong)

lemma path_exists_iff: "path_exists fs p \<longleftrightarrow> (\<exists>q. fs_resolve False fs p = Inr q)"
  by (auto simp: path_exists_def canonicalize_def split: sum.splits)

lemma take_named: "k < length ns \<Longrightarrow> named a (take (Suc k) ns) = named a (take k ns @ [ns ! k])"
  by (simp add: take_Suc_conv_app_nth)

lemma check_ancestor_named:
  assumes "\<not> path_exists fs (named a (take k ns))" "k \<le> length ns"
  shows "check_ancestor fs r (named a (take k ns)) (map Normal (drop k ns)) = r \<and> \<not> a \<or>
    (\<exists>j c. j < k \<and> \<not> path_exists fs (named a (take (Suc j) ns)) \<and> fs_resolve False fs (named a (take j ns)) = Inr c \<and>
       check_ancestor fs r (named a (take k ns)) (map Normal (drop k ns)) = abs_path c @ map Normal (drop j ns))"
  using assms
proof (induction k)
  case 0
  have "a \<Longrightarrow> path_exists fs (named a [])" by (simp add: path_exists_iff fs_resolve_def is_absolute_def named_def)
  with 0 show ?case by (subst check_ancestor.simps) (auto simp: named_def)
next
  case (Suc k)
  let ?p = "named a (take k ns)" and ?n = "ns ! k"
  have split: "named a (take (Suc k) ns) = named a (take k ns @ [?n])" and k: "k < length ns"
    using Suc.prems(2) by (auto simp: take_named)
  have no_root: "named a (take (Suc k) ns) \<noteq> [RootDir]"
    unfolding split by (auto simp: named_def)
  have "Normal ?n # map Normal (drop (Suc k) ns) = map Normal (drop k ns)"
    using Cons_nth_drop_Suc [OF k] by (metis list.simps(9))
  then have step: "check_ancestor fs r (named a (take (Suc k) ns)) (map Normal (drop (Suc k) ns))
      = check_ancestor fs r ?p (map Normal (drop k ns))"
    using Suc.prems(1) no_root by (subst check_ancestor.simps) (simp add: split named_snoc)
  show ?case
  proof (cases "path_exists fs ?p")
    case True
    then obtain c where c: "fs_resolve False fs ?p = Inr c" by (auto simp: path_exists_iff)
    then have "check_ancestor fs r ?p (map Normal (drop k ns)) = abs_path c @ map Normal (drop k ns)"
      by (subst check_ancestor.simps) (simp add: path_exists_iff canonical_or_def canonicalize_def)
    with step c Suc.prems(1) show ?thesis by (intro disjI2 exI [of _ k] exI [of _ c]) simp
  next
    case False
    with Suc.IH k step show ?thesis by (auto simp: less_Suc_eq)
  qed
qed

text \<open>The two ways to be accepted: the path exists below the base, or its last existing ancestor with the
  missing names does.\<close>

definition accepted :: "file_system \<Rightarrow> location \<Rightarrow> bool \<Rightarrow> location \<Rightarrow> nat \<Rightarrow> location \<Rightarrow> bool" where
  "accepted fs bc a ns k c \<longleftrightarrow> k \<le> length ns \<and> fs_resolve False fs (named a (take k ns)) = Inr c \<and>
     prefix bc (c @ drop k ns) \<and> (k < length ns \<longrightarrow> (\<exists>e. fs_resolve False fs (named a (take (Suc k) ns)) = Inl e))"

lemma validate_path_accepts:
  assumes "validate_path fs s (Some (parse_path b)) = Inr p" and "canonicalize fs (parse_path b) = Some (abs_path bc)"
  obtains a ns k c where "p = named a ns" "accepted fs bc a ns k c"
proof -
  have "p = resolve_requested fs (parse_path s) (Some (parse_path b))"
    using assms(1) by (auto simp: validate_path_def Let_def split: if_splits)
  then obtain a ns where p: "p = named a ns" using resolve_requested_named [of fs s b] by metis
  have check: "prefix (abs_path bc) (check_path fs p)"
    using assms by (auto simp: validate_path_def Let_def canonical_or_def split: if_splits)
  show ?thesis
  proof (cases "path_exists fs p")
    case True
    then obtain c where "fs_resolve False fs p = Inr c" by (auto simp: path_exists_iff)
    with check True have "accepted fs bc a ns (length ns) c"
      by (auto simp: accepted_def p check_path_def canonical_or_def canonicalize_def)
    with p show ?thesis by (rule that)
  next
    case False
    then have "check_path fs p = p \<and> \<not> a \<or> (\<exists>j c. j < length ns \<and> \<not> path_exists fs (named a (take (Suc j) ns)) \<and>
        fs_resolve False fs (named a (take j ns)) = Inr c \<and> check_path fs p = abs_path c @ map Normal (drop j ns))"
      using check_ancestor_named [of fs a "length ns" ns p] by (simp add: p check_path_def)
    moreover have "\<not> (check_path fs p = p \<and> \<not> a)"
      using check by (cases ns) (auto simp: p named_def abs_path_def)
    ultimately obtain j c where j: "j < length ns" "\<not> path_exists fs (named a (take (Suc j) ns))"
      "fs_resolve False fs (named a (take j ns)) = Inr c" "check_path fs p = abs_path c @ map Normal (drop j ns)" by blast
    have "abs_path c @ map Normal (drop j ns) = abs_path (c @ drop j ns)" by (simp add: abs_path_def)
    with j check have "accepted fs bc a ns j c"
      by (cases "fs_resolve False fs (named a (take (Suc j) ns))") (auto simp: accepted_def path_exists_iff)
    with p show ?thesis by (rule that)
  qed
qed

subsection \<open>Creating directories\<close>

lemma wf_put:
  assumes "fs_wf fs" "fs_node fs q = Some DirNode" "CHR 0x00 \<notin> set n" "fs_node fs (q @ [n]) \<noteq> Some DirNode"
  shows "fs_wf (fs_put (q @ [n]) x fs)"
proof -
  have "p \<noteq> [] \<and> fs_node (fs_put (q @ [n]) x fs) (butlast p) = Some DirNode \<and> CHR 0x00 \<notin> set (last p)"
    if "(p, y) \<in> set (AList.update (q @ [n]) x (fs_nodes fs))" for p y
  proof (cases "p = q @ [n]")
    case True
    then show ?thesis using assms(2,3) by (simp add: fs_put_node)
  next
    case False
    then have "map_of (AList.update (q @ [n]) x (fs_nodes fs)) p \<noteq> None \<and> p \<noteq> q @ [n]"
      using that weak_map_of_SomeI by fastforce
    then have "map_of (fs_nodes fs) p \<noteq> None" by (auto simp: update_conv')
    then obtain z where "(p, z) \<in> set (fs_nodes fs)" by (auto dest: map_of_SomeD)
    then have "p \<noteq> []" "fs_node fs (butlast p) = Some DirNode" "CHR 0x00 \<notin> set (last p)"
      using assms(1) by (auto simp: fs_wf_def list_all_iff)
    then show ?thesis using assms(4) by (auto simp: fs_put_node)
  qed
  then have "list_all (\<lambda>(p, y). p \<noteq> [] \<and> fs_node (fs_put (q @ [n]) x fs) (butlast p) = Some DirNode \<and>
      CHR 0x00 \<notin> set (last p)) (fs_nodes (fs_put (q @ [n]) x fs))"
    by (auto simp: list_all_iff fs_put_def)
  moreover have "case fs_cwd fs of None \<Rightarrow> True | Some c \<Rightarrow> fs_node (fs_put (q @ [n]) x fs) c = Some DirNode"
    using assms by (auto simp: fs_wf_def fs_put_node split: option.splits)
  ultimately show ?thesis unfolding fs_wf_def by (simp split: option.split)
qed

text \<open>Only directories appear, and only in gaps at or below a location.\<close>

definition only_below :: "file_system \<Rightarrow> location \<Rightarrow> file_system \<Rightarrow> bool" where
  "only_below fs b fs' \<longleftrightarrow> fs_wf fs' \<and> fs_cwd fs' = fs_cwd fs \<and> fs_link_limit fs' = fs_link_limit fs \<and>
     (\<forall>q. fs_node fs' q \<noteq> fs_node fs q \<longrightarrow> prefix b q \<and> fs_node fs q = None \<and> fs_node fs' q = Some DirNode)"

lemma only_below_extends: "only_below fs b fs' \<Longrightarrow> extends fs fs'"
  by (auto simp: only_below_def extends_def)

lemma only_below_tick: "only_below fs b fs' \<Longrightarrow> only_below fs b (fs_tick fs')"
  by (simp add: only_below_def)

lemma only_below_start: "only_below fs b fs' \<Longrightarrow> start_of fs' a = start_of fs a"
  by (simp add: only_below_def start_of_def)

text \<open>Where something other than a directory is, nothing changes.\<close>

lemma only_below_blocked:
  assumes "only_below fs b fs'" "fs_node fs b = Some x" "x \<noteq> DirNode"
  shows "fs_node fs' q = fs_node fs q"
proof (rule ccontr)
  assume "fs_node fs' q \<noteq> fs_node fs q"
  then have "prefix b q" and q: "fs_node fs q = None" "fs_node fs' q = Some DirNode"
    using assms(1) unfolding only_below_def by blast+
  then obtain r where r: "q = b @ r" by (auto simp: prefix_def)
  have "r \<noteq> []" using assms(2) q r by auto
  moreover have "fs_wf fs'" using assms(1) by (simp add: only_below_def)
  ultimately have "fs_node fs' b = Some DirNode" using q r wf_prefix [of fs' b r] by simp
  moreover have "fs_node fs' b = Some x"
    using only_below_extends [OF assms(1)] assms(2) by (rule extendsD)
  ultimately show False using assms(3) by simp
qed

lemma only_below_gaps:
  assumes "only_below fs b fs'" "fs_wf fs" "fs_node fs b = None" "prefix b q"
  shows "fs_node fs' q \<in> {None, Some DirNode}"
proof -
  have "fs_node fs q = None"
    using assms(2,3,4) wf_prefix [of fs b] by (cases "q = b") (auto simp: prefix_def)
  then show ?thesis using assms(1) unfolding only_below_def by (metis insertCI)
qed

lemma create_dir_all_invariant:
  assumes "\<And>j fs. j \<le> length ns \<Longrightarrow> P fs \<Longrightarrow> P (snd (fs_mkdir (named a (take j ns)) fs))"
    and "P fs" "j \<le> length ns"
  shows "P (snd (create_dir_all (named a (take j ns)) fs))"
  using assms(2,3)
proof (induction j arbitrary: fs)
  case 0
  then show ?case
    using assms(1) [of 0 fs]
    by (cases a; subst create_dir_all.simps) (auto simp: named_def fs_mkdir_def is_dir_path_def split: if_splits)
next
  case (Suc j)
  have split: "named a (take (Suc j) ns) = named a (take j ns @ [ns ! j])" using Suc.prems by (simp add: take_named)
  have mk: "P (snd (fs_mkdir (named a (take j ns @ [ns ! j])) fs))" if "P fs" for fs
    using assms(1) [of "Suc j" fs] Suc.prems(2) that split by simp
  have rec: "P (snd (create_dir_all (named a (take j ns)) fs))" if "P fs" for fs
    using Suc.IH [OF that] Suc.prems(2) by simp
  let ?p = "named a (take j ns @ [ns ! j])"
  obtain x fs1 where 1: "fs_mkdir ?p fs = (x, fs1)" by fastforce
  obtain y fs2 where 2: "create_dir_all (named a (take j ns)) fs1 = (y, fs2)" by fastforce
  obtain z fs3 where 3: "fs_mkdir ?p fs2 = (z, fs3)" by fastforce
  have "P fs1" "P fs2" "P fs3" using mk [OF Suc.prems(1)] rec [of fs1] mk [of fs2] by (simp_all add: 1 2 3)
  then show ?case
    unfolding split by (subst create_dir_all.simps) (cases x; cases y; cases z; simp add: path_parent_named named_snoc 1 2 3)
qed

text \<open>The accepted path, seen from the directory in which its resolution starts.\<close>

lemma accepted_walk:
  assumes "fs_wf fs" "accepted fs bc a ns k c"
  obtains d where "start_of fs a = Some d" "solid fs d"
    "walk False fs (fs_link_limit fs) d (map Normal (take k ns)) = Inr c" "solid fs c"
    "k < length ns \<Longrightarrow> \<exists>e. walk False fs (fs_link_limit fs) d (map Normal (take (Suc k) ns)) = Inl e"
proof (cases "start_of fs a")
  case None
  then show ?thesis using assms(2) resolve_no_start [OF None] by (auto simp: accepted_def)
next
  case (Some d)
  have "named a (take k ns) \<noteq> []" using assms(2) by (auto simp: accepted_def fs_resolve_def)
  then have w: "walk False fs (fs_link_limit fs) d (map Normal (take k ns)) = Inr c"
    using assms(2) resolve_named [OF Some, of "take k ns" False] by (auto simp: accepted_def)
  have d: "solid fs d" using start_dir [OF assms(1) Some] by (rule solidI)
  have "\<exists>e. walk False fs (fs_link_limit fs) d (map Normal (take (Suc k) ns)) = Inl e" if "k < length ns"
  proof -
    have "named a (take (Suc k) ns) \<noteq> []" using that by (simp add: take_named named_snoc)
    then show ?thesis
      using that assms(2) resolve_named [OF Some, of "take (Suc k) ns" False] by (auto simp: accepted_def)
  qed
  then show ?thesis using that Some d w walk_solid [OF assms(1) w d] by blast
qed

lemma fs_mkdir_root: "snd (fs_mkdir (named a []) fs) = fs_tick fs"
  by (simp add: named_def fs_mkdir_def split: sum.split)

text \<open>Nothing is made where the path resolves already.\<close>

lemma fs_mkdir_existing:
  assumes "fs_wf fs" "start_of fs a = Some d" "walk False fs (fs_link_limit fs) d (map Normal (ns @ [n])) = Inr q"
  shows "snd (fs_mkdir (named a (ns @ [n])) fs) = fs_tick fs"
proof -
  obtain c where c: "walk False fs (fs_link_limit fs) d (map Normal ns) = Inr c"
    using assms(3) walk_fails [of fs "fs_link_limit fs" d "map Normal ns" _ "[Normal n]" False]
    by (cases "walk False fs (fs_link_limit fs) d (map Normal ns)") auto
  from walk_prefix [OF c] obtain l where "walk False fs l c [Normal n] = Inr q"
    using assms(3) by auto
  then have "fs_node fs (c @ [n]) \<noteq> None" by (auto split: if_splits option.splits)
  with c show ?thesis by (auto simp: fs_mkdir_snoc [OF assms(1,2)])
qed

lemma walk_take:
  assumes "walk False fs l d (map Normal (take k ns)) = Inr c" "j \<le> k"
  obtains q where "walk False fs l d (map Normal (take j ns)) = Inr q"
proof (cases "walk False fs l d (map Normal (take j ns))")
  case (Inl e)
  have "take k ns = take j ns @ take (k - j) (drop j ns)" using assms(2) by (metis le_add_diff_inverse take_add)
  with assms(1) Inl walk_fails [OF Inl, of "map Normal (take (k - j) (drop j ns))" False] show ?thesis
    by (cases "take (k - j) (drop j ns) = []") auto
qed (use that in auto)

text \<open>What a walk past the last existing ancestor finds, while directories are being made.\<close>

lemma walk_from_gap:
  assumes wf: "fs_wf fs0"
    and c: "walk False fs0 L d (map Normal (take k ns)) = Inr c"
    and miss: "walk False fs0 L d (map Normal (take (Suc k) ns)) = Inl e" "k < length ns"
    and inv: "only_below fs0 (c @ [ns ! k]) fs"
    and z: "walk create fs L d (map Normal (take k ns @ ms)) = Inr z" "prefix ms (drop k ns)" "ms \<noteq> []"
  shows "fs_node fs0 (c @ [ns ! k]) = None \<and> z = c @ ms \<or>
    create \<and> ms = [ns ! k] \<and> (\<exists>t. fs_node fs0 (c @ [ns ! k]) = Some (LinkNode t)) \<and>
    (\<exists>l e. walk True fs0 l c [Normal (ns ! k)] = Inr z \<and> walk False fs0 l c [Normal (ns ! k)] = Inl e)"
proof -
  let ?n = "ns ! k"
  obtain l where l: "\<And>fs' create r. extends fs0 fs' \<Longrightarrow> walk create fs' L d (map Normal (take k ns) @ r) = walk create fs' l c r"
    using walk_prefix [OF c] by blast
  have m: "walk False fs0 l c [Normal ?n] = Inl e"
    using miss l [OF extends_refl, of False "[Normal ?n]"] by (simp add: take_Suc_conv_app_nth)
  have zl: "walk create fs l c (map Normal ms) = Inr z"
    using z(1) l [OF only_below_extends [OF inv], of create "map Normal ms"] by simp
  obtain rest where ms: "ms = ?n # rest"
    using z(2,3) miss(2) by (metis Cons_nth_drop_Suc prefix_Cons)
  show ?thesis
  proof (cases "fs_node fs0 (c @ [?n])")
    case None
    have "fs_node fs (c @ r) \<in> {None, Some DirNode}" if "r \<noteq> []" "prefix r ms" for r
    proof -
      obtain r' where "r = ?n # r'" using \<open>r \<noteq> []\<close> \<open>prefix r ms\<close> by (cases r) (auto simp: ms)
      then have "prefix (c @ [?n]) (c @ r)" by simp
      then show ?thesis by (rule only_below_gaps [OF inv wf None])
    qed
    then show ?thesis using walk_names [OF _ zl] None by blast
  next
    case (Some x)
    obtain t where t: "x = LinkNode t"
      using m Some wf_parent [OF wf Some] by (cases x) auto
    have same: "walk b fs i u p = walk b fs0 i u p" for b i u p
      using only_below_blocked [OF inv Some] t by (intro walk_cong) simp
    have rest: "rest = []"
      using zl walk_fails [OF m, of "map Normal rest" create] by (auto simp: same ms simp del: walk.simps)
    then have zn: "walk create fs0 l c [Normal ?n] = Inr z" using zl same by (simp add: ms del: walk.simps)
    with m have "create" by (cases create) (auto simp del: walk.simps)
    with zn m rest Some t show ?thesis by (auto simp: ms simp del: walk.simps)
  qed
qed

lemma put_below:
  assumes "only_below fs b fs'" "prefix b q" "fs_node fs' q = None" "fs_wf (fs_put q DirNode (fs_tick fs'))"
  shows "only_below fs b (fs_put q DirNode (fs_tick fs'))"
proof -
  have "fs_node fs q = None" using assms(1,3) unfolding only_below_def by metis
  with assms show ?thesis by (auto simp: only_below_def fs_put_node)
qed

lemma mkdir_step:
  assumes wf: "fs_wf fs0" and d: "start_of fs0 a = Some d" "solid fs0 d"
    and c: "walk False fs0 (fs_link_limit fs0) d (map Normal (take k ns)) = Inr c"
    and miss: "walk False fs0 (fs_link_limit fs0) d (map Normal (take (Suc k) ns)) = Inl e" "k < length ns"
    and inv: "only_below fs0 (c @ [ns ! k]) fs" and j: "j \<le> length ns"
  shows "only_below fs0 (c @ [ns ! k]) (snd (fs_mkdir (named a (take j ns)) fs))"
proof (cases j)
  case 0
  then show ?thesis using inv by (simp add: fs_mkdir_root only_below_tick)
next
  case (Suc i)
  let ?L = "fs_link_limit fs0" and ?b = "c @ [ns ! k]"
  have fs: "fs_wf fs" "start_of fs a = Some d" "fs_link_limit fs = ?L" "extends fs0 fs"
    using inv d(1) only_below_start [OF inv] only_below_extends [OF inv] by (auto simp: only_below_def)
  have split: "take j ns = take i ns @ [ns ! i]" using Suc j by (simp add: take_Suc_conv_app_nth)
  show ?thesis
  proof (cases "i < k")
    case True
    then obtain q where "walk False fs0 ?L d (map Normal (take j ns)) = Inr q" using walk_take [OF c, of j] Suc by auto
    then have "walk False fs ?L d (map Normal (take i ns @ [ns ! i])) = Inr q"
      using walk_extends fs(4) split by metis
    then show ?thesis using fs_mkdir_existing [OF fs(1,2)] fs(3) inv by (simp add: split only_below_tick)
  next
    case False
    show ?thesis
    proof (cases "walk False fs ?L d (map Normal (take i ns))")
      case (Inl e)
      then show ?thesis using inv by (simp add: split fs_mkdir_snoc [OF fs(1,2)] fs(3) only_below_tick)
    next
      case (Inr q)
      have drop: "take i ns = take k ns @ take (i - k) (drop k ns)" using False by (metis le_add_diff_inverse not_less take_add)
      have q: "q = c @ take (i - k) (drop k ns)"
      proof (cases "i = k")
        case True
        then show ?thesis using Inr walk_extends [OF c fs(4), of False] by simp
      next
        case False
        with \<open>\<not> i < k\<close> j Suc have "take (i - k) (drop k ns) \<noteq> []" by simp
        then show ?thesis
          using walk_from_gap [OF wf c miss inv, of False "take (i - k) (drop k ns)" q] Inr drop
          by (auto simp: take_is_prefix)
      qed
      have below: "prefix ?b (q @ [ns ! i])"
      proof (cases "i = k")
        case False
        with \<open>\<not> i < k\<close> j Suc have "take (i - k) (drop k ns) = ns ! k # take (i - k - 1) (drop (Suc k) ns)"
          by (cases "i - k") (auto simp: Cons_nth_drop_Suc [symmetric])
        then show ?thesis by (simp add: q)
      qed (simp add: q)
      show ?thesis
      proof (cases "snd (fs_mkdir (named a (take j ns)) fs) = fs_tick fs")
        case True
        then show ?thesis using inv by (simp add: only_below_tick)
      next
        case False
        then have put: "snd (fs_mkdir (named a (take j ns)) fs) = fs_put (q @ [ns ! i]) DirNode (fs_tick fs)"
          "fs_node fs q = Some DirNode" "CHR 0x00 \<notin> set (ns ! i)" "fs_node fs (q @ [ns ! i]) = None"
          by (auto simp: split fs_mkdir_snoc [OF fs(1,2)] fs(3) Inr split: if_splits)
        then show ?thesis using put_below [OF inv below put(4)] wf_put [of "fs_tick fs" q "ns ! i"] fs(1) by simp
      qed
    qed
  qed
qed

subsection \<open>Confinement\<close>

definition no_broken_links :: "file_system \<Rightarrow> location \<Rightarrow> bool" where
  "no_broken_links fs b \<longleftrightarrow>
     list_all (\<lambda>(q, x). prefix b q \<longrightarrow> (case x of LinkNode t \<Rightarrow> path_exists fs (abs_path q) | _ \<Rightarrow> True)) (fs_nodes fs)"

lemma broken_link:
  assumes "no_broken_links fs b" "fs_wf fs" "prefix b (c @ [n])" "fs_node fs (c @ [n]) = Some (LinkNode t)" "solid fs c"
    and "walk True fs l c [Normal n] = Inr z" "walk False fs l c [Normal n] = Inl e"
  shows False
proof -
  obtain e' where e': "walk False fs (fs_link_limit fs) c [Normal n] = Inl e'" using walk_missing [OF assms(6,7)] by blast
  have "fs_resolve False fs (abs_path (c @ [n])) = walk False fs (fs_link_limit fs) [] (map Normal c @ [Normal n])"
    by (simp add: fs_resolve_def abs_path_def is_absolute_def)
  also have "\<dots> = Inl e'" using walk_names_solid [OF assms(2), of "[]" c] assms(5) e' by simp
  finally have "\<not> path_exists fs (abs_path (c @ [n]))" by (simp add: path_exists_iff)
  moreover have "(c @ [n], LinkNode t) \<in> set (fs_nodes fs)" using assms(4) by (auto simp: fs_node_def dest: map_of_SomeD)
  ultimately show False using assms(1,3) by (auto simp: no_broken_links_def list_all_iff)
qed

text \<open>The base exists, so it is not below the gap.\<close>

lemma base_above:
  assumes "fs_wf fs" "solid fs bc" "prefix bc (c @ drop k ns)" "k < length ns"
    and "walk False fs L d (map Normal (take k ns)) = Inr c" "walk False fs L d (map Normal (take (Suc k) ns)) = Inl e"
  shows "prefix bc c"
proof (rule ccontr)
  assume "\<not> prefix bc c"
  then obtain m where m: "bc = c @ m" "m \<noteq> []" "prefix m (drop k ns)"
    using assms(3) by (auto simp: prefix_append)
  then obtain r where r: "m = ns ! k # r" using assms(4) by (metis Cons_nth_drop_Suc prefix_Cons)
  have "solid fs (c @ [ns ! k])"
    using assms(1,2) wf_prefix [of fs "c @ [ns ! k]" r] by (cases "r = []") (auto simp: m(1) r solid_def split: option.splits)
  then have "walk False fs l c [Normal (ns ! k)] = Inr (c @ [ns ! k])" for l
    using walk_names_solid [OF assms(1), of c "[ns ! k]" False l "[]"] by simp
  moreover obtain l where "walk False fs L d (map Normal (take k ns) @ [Normal (ns ! k)]) = walk False fs l c [Normal (ns ! k)]"
    using walk_prefix [OF assms(5)] by (metis extends_refl)
  ultimately show False using assms(4,6) by (simp add: take_Suc_conv_app_nth)
qed

text \<open>After some directories were made for an accepted path, whatever a creating walk along it reaches is below
  the base.\<close>

definition making :: "file_system \<Rightarrow> location \<Rightarrow> nat \<Rightarrow> location \<Rightarrow> file_system \<Rightarrow> bool" where
  "making fs0 c k ns fs = (if k < length ns then only_below fs0 (c @ [ns ! k]) fs
     else fs_wf fs \<and> fs_cwd fs = fs_cwd fs0 \<and> fs_link_limit fs = fs_link_limit fs0 \<and> (\<forall>q. fs_node fs q = fs_node fs0 q))"

lemma making_refl: "fs_wf fs \<Longrightarrow> making fs c k ns fs"
  by (simp add: making_def only_below_def)

lemma making_mkdir:
  assumes "fs_wf fs0" "accepted fs0 bc a ns k c" "making fs0 c k ns fs" "j \<le> length ns"
  shows "making fs0 c k ns (snd (fs_mkdir (named a (take j ns)) fs))"
proof -
  obtain d where d: "start_of fs0 a = Some d" "solid fs0 d"
    "walk False fs0 (fs_link_limit fs0) d (map Normal (take k ns)) = Inr c"
    "k < length ns \<Longrightarrow> \<exists>e. walk False fs0 (fs_link_limit fs0) d (map Normal (take (Suc k) ns)) = Inl e"
    using accepted_walk [OF assms(1,2)] by metis
  show ?thesis
  proof (cases "k < length ns")
    case True
    then show ?thesis using d assms mkdir_step [OF assms(1) d(1,2,3)] by (auto simp: making_def)
  next
    case False
    then have k: "k = length ns" using assms(2) by (simp add: accepted_def)
    have fs: "fs_wf fs" "start_of fs a = Some d" "fs_link_limit fs = fs_link_limit fs0"
      and same: "\<And>q. fs_node fs q = fs_node fs0 q"
      using assms(3) d(1) False by (auto simp: making_def start_of_def)
    have "snd (fs_mkdir (named a (take j ns)) fs) = fs_tick fs"
    proof (cases j)
      case (Suc i)
      then have split: "take j ns = take i ns @ [ns ! i]" using assms(4) by (simp add: take_Suc_conv_app_nth)
      obtain q where "walk False fs0 (fs_link_limit fs0) d (map Normal (take j ns)) = Inr q"
        using walk_take [OF d(3), of j] assms(4) k by auto
      then show ?thesis using fs_mkdir_existing [OF fs(1,2)] walk_cong [OF same] by (simp add: split fs(3))
    qed (simp add: fs_mkdir_root)
    then show ?thesis using assms(3) False by (simp add: making_def)
  qed
qed

lemma making_nodes:
  assumes "fs_wf fs0" "accepted fs0 bc a ns k c" "solid fs0 bc" "making fs0 c k ns fs"
    and "fs_node fs q \<noteq> fs_node fs0 q"
  shows "prefix bc q"
proof (cases "k < length ns")
  case True
  obtain d e where "walk False fs0 (fs_link_limit fs0) d (map Normal (take k ns)) = Inr c"
    "walk False fs0 (fs_link_limit fs0) d (map Normal (take (Suc k) ns)) = Inl e"
    using accepted_walk [OF assms(1,2)] True by metis
  moreover have "prefix bc (c @ drop k ns)" using assms(2) by (simp add: accepted_def)
  ultimately have "prefix bc c" using base_above [OF assms(1,3)] True by blast
  moreover have "prefix (c @ [ns ! k]) q" using assms(4,5) True by (auto simp: making_def only_below_def)
  ultimately show ?thesis by (meson prefix_order.trans prefixI)
qed (use assms(4,5) in \<open>simp add: making_def\<close>)

lemma making_target:
  assumes "fs_wf fs0" "accepted fs0 bc a ns k c" "no_broken_links fs0 bc" "solid fs0 bc" "making fs0 c k ns fs"
    and "fs_resolve True fs (named a ns) = Inr z"
  shows "prefix bc z"
proof -
  obtain d where d: "start_of fs0 a = Some d" "solid fs0 d" "solid fs0 c"
    "walk False fs0 (fs_link_limit fs0) d (map Normal (take k ns)) = Inr c"
    "k < length ns \<Longrightarrow> \<exists>e. walk False fs0 (fs_link_limit fs0) d (map Normal (take (Suc k) ns)) = Inl e"
    using accepted_walk [OF assms(1,2)] by metis
  have fs: "start_of fs a = Some d" "fs_link_limit fs = fs_link_limit fs0"
    using assms(5) d(1) by (auto simp: making_def only_below_def start_of_def split: if_splits)
  have bc: "prefix bc (c @ drop k ns)" using assms(2) by (simp add: accepted_def)
  have ne: "named a ns \<noteq> []" using assms(6) by (auto simp: fs_resolve_def)
  have z: "walk True fs (fs_link_limit fs0) d (map Normal ns) = Inr z"
    using assms(6) resolve_named [OF fs(1) ne] fs(2) by simp
  show ?thesis
  proof (cases "k < length ns")
    case True
    then obtain e where e: "walk False fs0 (fs_link_limit fs0) d (map Normal (take (Suc k) ns)) = Inl e" using d(5) by blast
    have inv: "only_below fs0 (c @ [ns ! k]) fs" using assms(5) True by (simp add: making_def)
    have "walk True fs (fs_link_limit fs0) d (map Normal (take k ns @ drop k ns)) = Inr z" using z by simp
    from walk_from_gap [OF assms(1) d(4) e True inv this prefix_order.refl] True
    consider "z = c @ drop k ns" | t l e where "drop k ns = [ns ! k]" "fs_node fs0 (c @ [ns ! k]) = Some (LinkNode t)"
      "walk True fs0 l c [Normal (ns ! k)] = Inr z" "walk False fs0 l c [Normal (ns ! k)] = Inl e" by (auto simp del: walk.simps)
    then show ?thesis
    proof cases
      case 1
      then show ?thesis using bc by simp
    next
      case 2
      then show ?thesis using bc broken_link [OF assms(3,1) _ 2(2) d(3) 2(3,4)] by simp
    qed
  next
    case False
    then have "walk True fs (fs_link_limit fs0) d (map Normal ns) = walk True fs0 (fs_link_limit fs0) d (map Normal ns)"
      using assms(5) by (intro walk_cong) (simp add: making_def)
    then show ?thesis using walk_create [OF d(4)] z bc False by simp
  qed
qed

lemma canonical_solid:
  assumes "fs_wf fs" "canonicalize fs p = Some (abs_path q)"
  shows "solid fs q"
proof -
  have "fs_resolve False fs p = Inr q" using assms(2) by (simp add: canonicalize_eq)
  then obtain cur where "walk False fs (fs_link_limit fs) cur p = Inr q" "cur = [] \<or> fs_cwd fs = Some cur"
    by (auto simp: fs_resolve_def split: if_splits option.splits)
  moreover from this(2) have "solid fs cur" using wf_cwd [OF assms(1)] by (auto intro: solidI)
  ultimately show ?thesis using walk_solid [OF assms(1)] by blast
qed

lemma fs_write_frame:
  "fs_node (snd (fs_write p content fs)) q \<noteq> fs_node fs q \<Longrightarrow> fs_resolve True fs p = Inr q"
  by (auto simp: fs_write_def fs_put_node split: if_splits sum.splits option.splits node.splits)

lemma parent_named: "path_parent (named a ns) = Some d \<Longrightarrow> \<exists>j. j \<le> length ns \<and> d = named a (take j ns)"
  by (cases ns rule: rev_cases) (auto simp: path_parent_named intro: exI [of _ "length ns - 1"])

lemma making_dirs:
  assumes "fs_wf fs" "accepted fs bc a ns k c" "path_parent (named a ns) = Some d"
  shows "making fs c k ns (snd (create_dir_all d fs))"
proof -
  obtain j where j: "j \<le> length ns" "d = named a (take j ns)" using parent_named [OF assms(3)] by blast
  have "making fs c k ns (snd (create_dir_all (named a (take j ns)) fs))"
    by (rule create_dir_all_invariant [where P = "making fs c k ns"])
      (use making_mkdir [OF assms(1,2)] making_refl [OF assms(1)] j in auto)
  then show ?thesis by (simp add: j)
qed

lemma write_file_cases:
  "snd (write_file_execute show_io base params fs) = fs \<or>
    (\<exists>s p. validate_path fs s base = Inr p \<and>
       (let fs1 = (case path_parent p of None \<Rightarrow> fs | Some d \<Rightarrow> snd (create_dir_all d fs))
        in snd (write_file_execute show_io base params fs) = fs1 \<or>
           (\<exists>content. snd (write_file_execute show_io base params fs) = snd (fs_write p content fs1))))"
proof (cases "require_str params ''path''")
  case (Inr s)
  show ?thesis
  proof (cases "validate_path fs s base")
    case (Inr p)
    then show ?thesis
      using \<open>require_str params ''path'' = Inr s\<close>
      by (cases "snd (write_file_execute show_io base params fs) = fs", blast, intro disjI2 exI [of _ s] exI [of _ p])
        (auto simp: write_file_execute_def Let_def split: sum.splits option.splits prod.splits if_splits; metis snd_conv)
  qed (use Inr in \<open>auto simp: write_file_execute_def split: sum.splits\<close>)
qed (simp add: write_file_execute_def)

lemma write_file_node:
  assumes "fs_node (snd (write_file_execute show_io base params fs)) q \<noteq> fs_node fs q"
  obtains s p fs1 where "validate_path fs s base = Inr p"
    "fs1 = (case path_parent p of None \<Rightarrow> fs | Some d \<Rightarrow> snd (create_dir_all d fs))"
    "fs_node fs1 q \<noteq> fs_node fs q \<or> fs_resolve True fs1 p = Inr q"
  using write_file_cases [of show_io base params fs] assms fs_write_frame unfolding Let_def by metis

lemma apply_patch_node:
  assumes "fs_node (snd (apply_patch_execute show_io base params fs)) q \<noteq> fs_node fs q"
  obtains s p fs1 where "validate_path fs s base = Inr p" "fs_node fs1 = fs_node fs" "fs_cwd fs1 = fs_cwd fs"
    "fs_link_limit fs1 = fs_link_limit fs" "fs_wf fs1 = fs_wf fs" "fs_resolve True fs1 p = Inr q"
proof -
  have read: "snd (fs_read_to_string p fs) = fs_tick fs" for p by (simp add: fs_read_to_string_def)
  from assms obtain s p new where "validate_path fs s base = Inr p"
      "fs_node (snd (fs_write p new (fs_tick fs))) q \<noteq> fs_node (fs_tick fs) q"
    by (auto simp: apply_patch_execute_def Let_def split: sum.splits if_splits prod.splits)
       (metis read fs_tick_node snd_conv)+
  then show ?thesis using that fs_write_frame by (metis fs_tick_node fs_tick_fields(1,2) wf_tick)
qed

text \<open>C12: Writes stay below the base directory. If the file tools have a base directory that exists and no
  symbolic link below it points to something missing, then whatever the parameters, \<open>write_file\<close> and
  \<open>apply_patch\<close> change no node of the file system outside the base: neither the file nor one of the
  directories that \<open>write_file\<close> makes on the way, even through links, \<open>..\<close>, failing system calls and
  directories that do not exist yet.\<close>

theorem writes_stay_in_base:
  assumes "fs_wf fs" "canonicalize fs (parse_path b) = Some (abs_path bc)" "no_broken_links fs bc"
    and "run \<in> {write_file_execute show_io, apply_patch_execute show_io}"
    and "fs_node (snd (run (Some (parse_path b)) params fs)) q \<noteq> fs_node fs q"
  shows "prefix bc q"
proof -
  have solid: "solid fs bc" using canonical_solid [OF assms(1,2)] .
  show ?thesis
  proof (cases "run = write_file_execute show_io")
    case True
    with assms(5) obtain s p fs1 where v: "validate_path fs s (Some (parse_path b)) = Inr p"
      and fs1: "fs1 = (case path_parent p of None \<Rightarrow> fs | Some d \<Rightarrow> snd (create_dir_all d fs))"
      and q: "fs_node fs1 q \<noteq> fs_node fs q \<or> fs_resolve True fs1 p = Inr q"
      by (auto elim: write_file_node)
    obtain a ns k c where p: "p = named a ns" and acc: "accepted fs bc a ns k c" using validate_path_accepts [OF v assms(2)] .
    have mk: "making fs c k ns fs1"
      using fs1 making_refl [OF assms(1)] making_dirs [OF assms(1) acc] by (auto simp: p split: option.splits)
    show ?thesis
      using q making_nodes [OF assms(1) acc solid mk] making_target [OF assms(1) acc assms(3) solid mk] by (auto simp: p)
  next
    case False
    with assms(4,5) obtain s p fs1 where v: "validate_path fs s (Some (parse_path b)) = Inr p"
      and fs1: "fs_node fs1 = fs_node fs" "fs_cwd fs1 = fs_cwd fs" "fs_link_limit fs1 = fs_link_limit fs" "fs_wf fs1 = fs_wf fs"
      and q: "fs_resolve True fs1 p = Inr q"
      by (auto elim: apply_patch_node)
    obtain a ns k c where p: "p = named a ns" and acc: "accepted fs bc a ns k c" using validate_path_accepts [OF v assms(2)] .
    have "making fs c k ns fs1" using fs1 assms(1) by (simp add: making_def only_below_def)
    then show ?thesis using making_target [OF assms(1) acc assms(3) solid] q by (simp add: p)
  qed
qed

text \<open>What a creating walk adds was not there.\<close>

lemma walk_created:
  "walk True fs l cur p = Inr q \<Longrightarrow> walk False fs l cur p = Inl e \<Longrightarrow> fs_node fs q = None"
proof (induction "True" fs l cur p rule: walk.induct)
  case (5 fs l cur n p)
  show ?case
  proof (cases "fs_node fs (cur @ [n])")
    case (Some x)
    then have d: "\<not> fs_node fs cur \<noteq> Some DirNode" "CHR 0x00 \<notin> set n" using 5 by (auto split: if_splits)
    show ?thesis
    proof (cases x)
      case (LinkNode t)
      then obtain j where j: "l = Suc j" using 5(4) Some d by (auto split: nat.splits)
      show ?thesis using 5(3) [OF d Some LinkNode j] 5(4,5) Some LinkNode d j by simp
    qed (use 5 Some d in auto)
  qed (use 5 in \<open>auto split: if_splits\<close>)
qed (auto split: if_splits)

lemma tick_id: "fs_faults fs = [] \<Longrightarrow> fs_tick fs = fs"
  by (simp add: fs_tick_def)

lemma resolve_solid:
  assumes "fs_wf fs" "solid fs q" shows "fs_resolve create fs (abs_path q) = Inr q"
  using walk_names_solid [OF assms(1), of "[]" q create "fs_link_limit fs" "[]"] assms(2)
  by (simp add: fs_resolve_def abs_path_def is_absolute_def)

lemma normalize_names: "normalize_lexical (abs_path q) = abs_path q"
proof -
  have "fold normal_step (map Normal q) acc = acc @ map Normal q" for acc
    by (induction q arbitrary: acc) auto
  then show ?thesis by (simp add: normalize_lexical_def abs_path_def)
qed

lemma create_dir_existing:
  assumes "fs_wf fs" "fs_faults fs = []" "fs_node fs q = Some DirNode"
  shows "create_dir_all (abs_path q) fs = (Inr (), fs)"
proof -
  have solid: "solid fs q" using assms(3) by (rule solidI)
  have "fst (fs_mkdir (abs_path q) fs) = Inl AlreadyExists \<and> snd (fs_mkdir (abs_path q) fs) = fs"
  proof (cases q rule: rev_cases)
    case Nil
    then show ?thesis using assms(2) by (simp add: abs_path_def fs_mkdir_def fs_fault_def tick_id)
  next
    case (snoc r n)
    have r: "fs_node fs r = Some DirNode" "CHR 0x00 \<notin> set n" using wf_parent [OF assms(1)] assms(3) snoc by auto
    then have "walk False fs (fs_link_limit fs) [] (map Normal r) = Inr r"
      using walk_names_solid [OF assms(1), of "[]" r False "fs_link_limit fs" "[]"] by (simp add: solidI)
    then show ?thesis
      using fs_mkdir_snoc [OF assms(1), of True "[]" r n] r assms(2,3)
      by (simp add: snoc abs_path_named start_of_def fs_fault_def tick_id)
  qed
  then obtain fs1 where "fs_mkdir (abs_path q) fs = (Inl AlreadyExists, fs)" by (metis prod.collapse)
  then show ?thesis
    using resolve_solid [OF assms(1) solid] assms(3)
    by (subst create_dir_all.simps) (simp add: is_dir_path_def abs_path_def)
qed

text \<open>The gap in the confinement. A symbolic link below the base that points to a file that does not
  exist yet is accepted by the validation, which cannot resolve it and checks its name only; \<open>write_file\<close> then follows
  the link and creates the file at its target, wherever that is.\<close>

theorem dangling_link_escapes:
  assumes "fs_wf fs" "fs_faults fs = []" "fs_node fs bc = Some DirNode" "parse_path b = abs_path bc"
    and "parse_path n = [Normal n]" "fs_node fs (bc @ [n]) = Some (LinkNode t)"
    and "fs_resolve False fs (abs_path (bc @ [n])) = Inl e" "fs_resolve True fs (abs_path (bc @ [n])) = Inr q"
    and "get_str params ''path'' = Some n" "get_str params ''content'' = Some content" "length content \<le> MAX_WRITE_SIZE"
  shows "fs_node (snd (write_file_execute show_io (Some (parse_path b)) params fs)) q = Some (FileNode content) \<and>
    (\<exists>out. fst (write_file_execute show_io (Some (parse_path b)) params fs) = Inr out)"
proof -
  let ?p = "abs_path (bc @ [n])"
  have p: "?p = abs_path bc @ [Normal n]" "butlast ?p = abs_path bc" "last ?p = Normal n" "?p \<noteq> []" "?p \<noteq> [RootDir]"
    by (auto simp: abs_path_def butlast_append)
  have base: "canonicalize fs (abs_path bc) = Some (abs_path bc)"
    using resolve_solid [OF assms(1)] assms(3) by (simp add: canonicalize_eq solidI)
  have broken: "canonicalize fs ?p = None" using assms(7) by (simp add: canonicalize_def)
  have "path_join (abs_path bc) [Normal n] = ?p" by (simp add: path_join_def is_absolute_def abs_path_def)
  then have "resolve_requested fs [Normal n] (Some (abs_path bc)) = ?p"
    using broken normalize_names [of "bc @ [n]"]
    by (simp only: resolve_requested_def canonical_or_def option.case) (simp add: is_absolute_def)
  moreover have "check_ancestor fs ?p (abs_path bc) [Normal n] = ?p"
    using base p(1) by (subst check_ancestor.simps) (simp add: canonical_or_def path_exists_def)
  then have "check_ancestor fs ?p ?p [] = ?p"
    using broken p(2-5) by (subst check_ancestor.simps) (simp add: path_exists_def)
  then have "check_path fs ?p = ?p" using broken by (simp add: check_path_def path_exists_def)
  ultimately have v: "validate_path fs n (Some (abs_path bc)) = Inr ?p"
    using base p(1) by (simp add: validate_path_def assms(5) canonical_or_def)
  have q: "fs_node fs q = None"
    using walk_created [of fs "fs_link_limit fs" "[]"] assms(7,8) by (auto simp: fs_resolve_def abs_path_def is_absolute_def simp del: walk.simps(1,3,4,5))
  have "q \<noteq> []" using q by auto
  have w: "fs_write ?p content fs = (Inr (), fs_put q (FileNode content) fs)"
    using assms(2,8) q by (simp add: fs_write_def fs_fault_def tick_id)
  have "path_parent ?p = Some (abs_path bc)" using path_parent_named(2) by (simp add: abs_path_named)
  with v w create_dir_existing [OF assms(1-3)] assms(4,9-11) \<open>q \<noteq> []\<close>
  show ?thesis by (simp add: write_file_execute_def require_str_def fs_put_node)
qed

subsection \<open>Pages, listings and patches\<close>

lemma line_range_eq:
  assumes "offset < 2 ^ 64" "case limit of None \<Rightarrow> True | Some n \<Rightarrow> (offset - 1) + n < 2 ^ 64"
  shows "line_range offset limit whole = (if offset - 1 \<le> whole
     then Some (offset - 1, case limit of None \<Rightarrow> whole | Some n \<Rightarrow> min (offset - 1 + n) whole) else None)"
proof (cases limit)
  case (Some n)
  have "unat (of_nat (offset - 1) + of_nat n :: 64 word) = offset - 1 + n"
    using assms(2) Some by (simp only: of_nat_add [symmetric] unat_of_nat) simp
  moreover have "(if offset > 0 then offset - 1 else 0) = offset - 1" by simp
  ultimately show ?thesis by (simp add: line_range_def Some Let_def)
qed (simp add: line_range_def Let_def)

text \<open>The part of the lines a reader asked for: from line \<open>offset\<close> (counted from 1), at most \<open>limit\<close> lines.\<close>

definition wanted_lines :: "string \<Rightarrow> nat \<Rightarrow> nat option \<Rightarrow> string list" where
  "wanted_lines content offset limit =
     (let rest = drop (offset - 1) (str_lines content)
      in case limit of None \<Rightarrow> rest | Some n \<Rightarrow> take n rest)"

definition page_json :: "path \<Rightarrow> string \<Rightarrow> nat \<Rightarrow> string list \<Rightarrow> json" where
  "page_json p content first shown = JObject
     [(''content'', JString (join [CHR 0x0A] (map (\<lambda>(i, line). numbered_line i line) (List.enumerate first shown)))),
      (''total_lines'', json_nat (length (str_lines content))), (''lines_shown'', json_nat (length shown)),
      (''path'', JString (show_path p))]"

lemma enumerate_shift: "map (\<lambda>(i, x). f (k + i) x) (List.enumerate n xs) = map (\<lambda>(i, x). f i x) (List.enumerate (k + n) xs)"
  by (induction xs arbitrary: n) auto

lemma read_file_page_eq:
  assumes "offset < 2 ^ 64" "case limit of None \<Rightarrow> True | Some n \<Rightarrow> (offset - 1) + n < 2 ^ 64"
  shows "read_file_page p content offset limit =
     (if offset - 1 \<le> length (str_lines content)
      then Some (page_json p content (offset - 1 + 1) (wanted_lines content offset limit)) else None)"
proof -
  let ?ls = "str_lines content" and ?s = "offset - 1"
  have "map (\<lambda>(i, line). numbered_line (?s + i + 1) line) (List.enumerate 0 xs)
      = map (\<lambda>(i, line). numbered_line i line) (List.enumerate (?s + 1) xs)" for xs
    using enumerate_shift [of numbered_line "?s + 1" 0 xs] by (simp add: add.commute add.left_commute)
  moreover have "take (min (?s + n) (length ?ls) - ?s) (drop ?s ?ls) = take n (drop ?s ?ls)" for n
    by (simp add: min_def)
  ultimately show ?thesis
    unfolding read_file_page_def Let_def line_range_eq [OF assms]
    by (auto simp: page_json_def wanted_lines_def Let_def min_def split: option.splits intro!: arg_cong [where f = json_nat])
qed

text \<open>C25: What \<open>read_file\<close> shows, and where it breaks. For a readable file of at most one megabyte the answer
  holds exactly the requested lines with their numbers, and the counts of lines shown and in the file. An
  \<open>offset\<close> of more than one line past the end is not an error or an empty page: the slice panics.\<close>

theorem read_file_outcome:
  assumes "get_str params ''path'' = Some s" "validate_path fs s base = Inr p" "fs_faults fs = []"
    and "fs_resolve False fs p = Inr q" "fs_node fs q = Some (FileNode content)"
    and "length content \<le> MAX_READ_SIZE" "valid_utf8 content"
    and "offset = u64_or params ''offset'' 0" "limit = optional_u64 params ''limit''"
    and "offset < 2 ^ 64" "case limit of None \<Rightarrow> True | Some n \<Rightarrow> (offset - 1) + n < 2 ^ 64"
  shows "fst (read_file_execute show_io base params fs) =
     (if offset > length (str_lines content) + 1 then None
      else Some (Inr (page_json p content (offset - 1 + 1) (wanted_lines content offset limit))))"
proof -
  have "fs_metadata_len p fs = (Inr (length content), fs)" "fs_read_to_string p fs = (Inr content, fs)"
    using assms(3-7) by (simp_all add: fs_metadata_len_def fs_read_to_string_def fs_fault_def tick_id)
  then show ?thesis
    using assms(1,2,6) read_file_page_eq [OF assms(10,11), of p content]
    by (auto simp: read_file_execute_def require_str_def assms(8,9))
qed

lemma list_entries_bound:
  "list_entries show_io fmt1 dir rec depth cs entries fs = (Inr out, fs') \<Longrightarrow> length entries \<le> MAX_DIR_ENTRIES \<Longrightarrow>
    length out \<le> MAX_DIR_ENTRIES"
proof (induction show_io fmt1 dir rec depth cs entries fs arbitrary: out fs' rule: list_entries.induct)
  case (2 show_io fmt1 dir rec depth c cs entries fs)
  obtain meta fs1 where m: "entry_metadata c (fs_tick fs) = (meta, fs1)" by fastforce
  let ?e1 = "entries @ [display_entry fmt1 dir meta c]"
  let ?sub = "if length ?e1 \<ge> MAX_DIR_ENTRIES then (Inr ?e1, fs1)
    else if fs_fault fs1 then (Inl (dir_error show_io ''directory'' Refused), fs_tick fs1)
    else list_entries show_io fmt1 dir rec (depth - 1) (children fs1 c) ?e1 (fs_tick fs1)"
  show ?case
  proof (cases "fs_fault fs \<or> length entries \<ge> MAX_DIR_ENTRIES")
    case True
    then show ?thesis using 2(4,5) by (auto split: if_splits)
  next
    case False
    then have f: "\<not> fs_fault fs" "\<not> MAX_DIR_ENTRIES \<le> length entries" "length ?e1 \<le> MAX_DIR_ENTRIES" by auto
    note ih = 2(1-3) [OF f(1,2) m [symmetric] refl refl]
    show ?thesis
    proof (cases "rec \<and> meta = Some DirNode \<and> 0 < depth \<and> last c \<notin> set SKIPPED_DIRS")
      case True
      obtain x fs2 where x: "?sub = (x, fs2)" by fastforce
      have "list_entries show_io fmt1 dir rec depth (c # cs) entries fs = (case ?sub of (Inl e, fs2) \<Rightarrow> (Inl e, fs2)
          | (Inr entries2, fs2) \<Rightarrow> list_entries show_io fmt1 dir rec depth cs entries2 fs2)"
        using True f(1,2) m by (auto simp: Let_def split: prod.split sum.split)
      with 2(4) x obtain e2 where e2: "x = Inr e2" "list_entries show_io fmt1 dir rec depth cs e2 fs2 = (Inr out, fs')"
        by (cases x) auto
      have "length e2 \<le> MAX_DIR_ENTRIES"
        using ih(1) [OF True] x e2(1) f(3) by (auto split: if_splits)
      then show ?thesis using ih(2) [OF True x [symmetric] e2] by simp
    next
      case no: False
      then show ?thesis using ih(3) [OF no] 2(4) f m by (auto simp: Let_def)
    qed
  qed
qed (auto split: if_splits)

lemma list_entries_flat:
  assumes "fs_faults fs = []" "length entries \<le> MAX_DIR_ENTRIES"
  shows "\<exists>out. list_entries show_io fmt1 dir False depth cs entries fs = (Inr out, fs) \<and>
    length out = min MAX_DIR_ENTRIES (length entries + length cs)"
  using assms(2)
proof (induction cs arbitrary: entries)
  case (Cons c cs)
  show ?case
  proof (cases "length entries < MAX_DIR_ENTRIES")
    case True
    then show ?thesis
      using Cons.IH [of "entries @ [display_entry fmt1 dir (fs_node fs c) c]"] assms(1)
      by (simp add: fs_fault_def tick_id entry_metadata_def Let_def)
  next
    case False
    then show ?thesis using assms(1) Cons.prems by (simp add: fs_fault_def tick_id)
  qed
qed (use assms(1) in \<open>simp add: fs_fault_def tick_id\<close>)

lemma length_sort_entries [simp]: "length (sort_entries xs) = length xs"
proof -
  have "length (insert_entry a ys) = Suc (length ys)" for a ys by (induction ys) auto
  then show ?thesis by (induction xs) (auto simp: sort_entries_def)
qed

lemma list_dir_inner_bound: "list_dir_inner show_io fmt1 p rec depth fs = (Inr out, fs') \<Longrightarrow> length out \<le> MAX_DIR_ENTRIES"
  by (auto simp: list_dir_inner_def split: prod.splits sum.splits dest: list_entries_bound)

text \<open>A listing is bounded, and it never says that it was cut. A successful \<open>list_dir\<close> returns at most
  500 entries whatever the tree; since the walk itself stops at 500, the flag \<open>truncated\<close> is false in every answer.
  A flat listing of a directory with more entries shows 500 of them.\<close>

theorem list_dir_bound:
  assumes "fst (list_dir_execute show_io fmt1 base params fs) = Inr out"
  shows "\<exists>entries p. out = JObject [(''path'', JString (show_path p)), (''entries'', JArray (map JString entries)),
      (''count'', json_nat (length entries)), (''truncated'', JBool False)] \<and>
    length entries \<le> MAX_DIR_ENTRIES \<and>
    (fs_faults fs = [] \<and> optional_bool params ''recursive'' \<noteq> Some True \<longrightarrow>
      (\<exists>q. fs_resolve False fs p = Inr q \<and> length entries = min MAX_DIR_ENTRIES (length (children fs q))))"
proof -
  let ?rec = "case optional_bool params ''recursive'' of Some b \<Rightarrow> b | None \<Rightarrow> False"
  let ?depth = "u64_or params ''max_depth'' 3"
  obtain p entries fs1 where e: "list_dir_inner show_io fmt1 p ?rec ?depth fs = (Inr entries, fs1)"
    and o: "out = JObject [(''path'', JString (show_path p)), (''entries'', JArray (map JString
        (if MAX_DIR_ENTRIES < length entries then take MAX_DIR_ENTRIES (sort_entries entries) else sort_entries entries))),
      (''count'', json_nat (length (if MAX_DIR_ENTRIES < length entries then take MAX_DIR_ENTRIES (sort_entries entries)
        else sort_entries entries))), (''truncated'', JBool (MAX_DIR_ENTRIES < length entries))]"
    using assms unfolding list_dir_execute_def Let_def by (force split: sum.splits prod.splits)
  have bound: "length entries \<le> MAX_DIR_ENTRIES" using list_dir_inner_bound [OF e] .
  with o have out: "out = JObject [(''path'', JString (show_path p)), (''entries'', JArray (map JString (sort_entries entries))),
      (''count'', json_nat (length entries)), (''truncated'', JBool False)]" by simp
  have "\<exists>q. fs_resolve False fs p = Inr q \<and> length entries = min MAX_DIR_ENTRIES (length (children fs q))"
    if f: "fs_faults fs = []" and r: "optional_bool params ''recursive'' \<noteq> Some True"
  proof -
    have "\<not> ?rec" using r by (auto split: option.split)
    then obtain q where q: "fs_resolve False fs p = Inr q" "list_entries show_io fmt1 q False ?depth (children fs q) [] fs = (Inr entries, fs1)"
      using e f by (auto simp: list_dir_inner_def fs_read_dir_def fs_fault_def tick_id split: sum.splits if_splits prod.splits)
    with list_entries_flat [of fs "[]" show_io fmt1 q ?depth "children fs q"] f show ?thesis by auto
  qed
  then show ?thesis
    using out bound by (intro exI [of _ "sort_entries entries"] exI [of _ p]) auto
qed

text \<open>A patch replaces the first occurrence. When \<open>apply_patch\<close> succeeds without \<open>replace_all\<close>, the file
  held the old text, and now holds the same bytes before and after its first occurrence, with the new text in
  between; no other node changes.\<close>

theorem patch_replaces_first:
  assumes "fst (apply_patch_execute show_io base params fs) = Inr out" "optional_bool params ''replace_all'' \<noteq> Some True"
  shows "\<exists>q old new before after. get_str params ''old_string'' = Some old \<and> get_str params ''new_string'' = Some new \<and>
    fs_node fs q = Some (FileNode (before @ old @ after)) \<and> find_sub old (before @ old @ after) = Some (length before) \<and>
    fs_node (snd (apply_patch_execute show_io base params fs)) = (fs_node fs)(q \<mapsto> FileNode (before @ new @ after))"
proof -
  obtain old where old: "get_str params ''old_string'' = Some old"
    using assms(1) by (auto simp: apply_patch_execute_def require_str_def split: sum.splits option.splits)
  obtain new where new: "get_str params ''new_string'' = Some new"
    using assms(1) old by (auto simp: apply_patch_execute_def require_str_def split: sum.splits option.splits)
  have all: "\<not> (case optional_bool params ''replace_all'' of Some b \<Rightarrow> b | None \<Rightarrow> False)"
    using assms(2) by (auto split: option.split)
  obtain p content where c: "fs_read_to_string p fs = (Inr content, fs_tick fs)" "str_contains content old"
    and w: "fst (fs_write p (str_replace_once content old new) (fs_tick fs)) = Inr ()"
    and snd: "snd (apply_patch_execute show_io base params fs) = snd (fs_write p (str_replace_once content old new) (fs_tick fs))"
    using assms(1) all
    by (force simp: apply_patch_execute_def require_str_def old new fs_read_to_string_def Let_def
        split: sum.splits if_splits prod.splits option.splits)
  obtain q where q: "fs_resolve False fs p = Inr q" "fs_node fs q = Some (FileNode content)"
    using c(1) by (auto simp: fs_read_to_string_def split: if_splits sum.splits option.splits node.splits)
  have "fs_resolve True fs p = Inr q" using q(1) walk_create by (auto simp: fs_resolve_def split: if_splits option.splits)
  moreover have "fs_resolve True (fs_tick fs) p = fs_resolve True fs p"
    by (auto simp: fs_resolve_def intro!: walk_cong split: option.split)
  ultimately have node: "fs_node (snd (apply_patch_execute show_io base params fs)) = (fs_node fs)(q \<mapsto> FileNode (str_replace_once content old new))"
    using w q(2) unfolding snd by (auto simp: fs_write_def fs_put_node fun_eq_iff split: if_splits)
  obtain i where i: "find_sub old content = Some i" using c(2) find_sub_None [of old content] by (auto simp: str_contains_iff)
  have "content = take i content @ old @ drop (i + length old) content"
    using find_sub_Some [OF i] by (metis append_take_drop_id drop_drop add.commute prefix_def append_eq_conv_conj)
  with i find_sub_Some [OF i] old new q(2) node show ?thesis
    by (intro exI [of _ q] exI [of _ old] exI [of _ new] exI [of _ "take i content"] exI [of _ "drop (i + length old) content"])
      (simp add: str_replace_once_def)
qed

subsection \<open>Examples\<close>

text \<open>A base directory with a link to a directory that exists, and with a link to a file that does not.\<close>

definition sample_fs :: file_system where
  "sample_fs = \<lparr>fs_nodes = [([''base''], DirNode), ([''base'', ''up''], LinkNode ''/other''), ([''other''], DirNode),
       ([''base'', ''a''], FileNode ''xyx'')],
     fs_cwd = Some [''base''], fs_dir_size = 4096, fs_link_limit = 40, fs_faults = []\<rparr>"

definition trap_fs :: file_system where
  "trap_fs = \<lparr>fs_nodes = [([''base''], DirNode), ([''base'', ''new''], LinkNode ''/other/key''), ([''other''], DirNode)],
     fs_cwd = Some [''base''], fs_dir_size = 4096, fs_link_limit = 40, fs_faults = []\<rparr>"

definition write_params :: "string \<Rightarrow> string \<Rightarrow> json" where
  "write_params p content = JObject [(''path'', JString p), (''content'', JString content)]"

lemma sample_fs_facts: "fs_wf sample_fs" "canonicalize sample_fs (parse_path ''/base'') = Some (abs_path [''base''])"
  "no_broken_links sample_fs [''base'']" "fs_faults sample_fs = []"
  by code_simp+

lemma sample_write:
  "fs_node (snd (write_file_execute (\<lambda>e. []) (Some (parse_path ''/base'')) (write_params ''d/../x'' ''hi'') sample_fs)) [''base'', ''x'']
     = Some (FileNode ''hi'')"
proof -
  let ?p = "abs_path [''base'', ''x'']"
  have "get_str (write_params ''d/../x'' ''hi'') ''path'' = Some ''d/../x''" "get_str (write_params ''d/../x'' ''hi'') ''content'' = Some ''hi''"
    "validate_path sample_fs ''d/../x'' (Some (parse_path ''/base'')) = Inr ?p" "path_parent ?p = Some (abs_path [''base''])"
    "create_dir_all (abs_path [''base'']) sample_fs = (Inr (), sample_fs)"
    by (code_simp | rule create_dir_existing)+
  moreover have "fst (fs_write ?p ''hi'' sample_fs) = Inr ()" "fs_node (snd (fs_write ?p ''hi'' sample_fs)) [''base'', ''x''] = Some (FileNode ''hi'')"
    by code_simp+
  ultimately show ?thesis
    by (cases "fs_write ?p ''hi'' sample_fs") (simp add: write_file_execute_def require_str_def MAX_WRITE_SIZE_def)
qed

theorem writes_stay_in_base_witness: "prefix [''base''] [''base'', ''x'']"
proof -
  have "fs_node sample_fs [''base'', ''x''] = None" by code_simp
  then show ?thesis
    using writes_stay_in_base [OF sample_fs_facts(1-3), of "write_file_execute (\<lambda>e. [])" "\<lambda>e. []"
        "write_params ''d/../x'' ''hi''" "[''base'', ''x'']"] sample_write by simp
qed

theorem dangling_link_escapes_witness:
  "fs_node (snd (write_file_execute (\<lambda>e. []) (Some (parse_path ''/base'')) (write_params ''new'' ''hi'') trap_fs)) [''other'', ''key'']
     = Some (FileNode ''hi'')"
proof -
  have "fs_wf trap_fs" "fs_faults trap_fs = []" "fs_node trap_fs [''base''] = Some DirNode"
    "parse_path ''/base'' = abs_path [''base'']" "parse_path ''new'' = [Normal ''new'']"
    "fs_node trap_fs ([''base''] @ [''new'']) = Some (LinkNode ''/other/key'')"
    "fs_resolve False trap_fs (abs_path ([''base''] @ [''new''])) = Inl NotFound"
    "fs_resolve True trap_fs (abs_path ([''base''] @ [''new''])) = Inr [''other'', ''key'']"
    "get_str (write_params ''new'' ''hi'') ''path'' = Some ''new''" "get_str (write_params ''new'' ''hi'') ''content'' = Some ''hi''"
    by code_simp+
  moreover have "length ''hi'' \<le> MAX_WRITE_SIZE" by (simp add: MAX_WRITE_SIZE_def)
  ultimately show ?thesis by (rule dangling_link_escapes [THEN conjunct1])
qed

theorem read_file_outcome_witness:
  "fst (read_file_execute (\<lambda>e. []) None (JObject [(''path'', JString ''a''), (''offset'', JNumber (PosInt 5))]) sample_fs) = None"
proof -
  let ?params = "JObject [(''path'', JString ''a''), (''offset'', JNumber (PosInt 5))]"
  have "validate_path sample_fs ''a'' None = Inr (abs_path [''base'', ''a''])" "valid_utf8 ''xyx''"
    "fs_resolve False sample_fs (abs_path [''base'', ''a'']) = Inr [''base'', ''a'']"
    "fs_node sample_fs [''base'', ''a''] = Some (FileNode ''xyx'')" "str_lines ''xyx'' = [''xyx'']"
    by code_simp+
  then show ?thesis
    using read_file_outcome [of ?params "''a''" sample_fs None "abs_path [''base'', ''a'']" "[''base'', ''a'']" "''xyx''"
        "5" None "\<lambda>e. []"] sample_fs_facts(4)
    by (simp add: get_str_def u64_or_def optional_u64_def get_u64_def MAX_READ_SIZE_def)
qed

definition patch_params :: json where
  "patch_params = JObject [(''path'', JString ''a''), (''old_string'', JString ''x''), (''new_string'', JString ''z'')]"

theorem patch_replaces_first_witness:
  "\<exists>q old new before after. get_str patch_params ''old_string'' = Some old \<and> get_str patch_params ''new_string'' = Some new \<and>
    fs_node sample_fs q = Some (FileNode (before @ old @ after)) \<and> find_sub old (before @ old @ after) = Some (length before) \<and>
    fs_node (snd (apply_patch_execute (\<lambda>e. []) None patch_params sample_fs)) = (fs_node sample_fs)(q \<mapsto> FileNode (before @ new @ after))"
proof -
  have "\<exists>out. fst (apply_patch_execute (\<lambda>e. []) None patch_params sample_fs) = Inr out"
    "optional_bool patch_params ''replace_all'' \<noteq> Some True"
    by (rule exI [of _ "JObject [(''path'', JString ''/base/a''), (''replacements'', json_nat 1), (''success'', JBool True)]"]) code_simp+
  then show ?thesis using patch_replaces_first by blast
qed

theorem list_dir_bound_witness:
  "\<exists>out. fst (list_dir_execute (\<lambda>e. []) (\<lambda>r. []) None (JObject []) sample_fs) = Inr out \<and>
     json_get out ''count'' = Some (json_nat 2) \<and> json_get out ''truncated'' = Some (JBool False)"
proof -
  have v: "validate_path sample_fs ''.'' None = Inr (abs_path [''base''])"
    "fs_read_dir (abs_path [''base'']) sample_fs = (Inr [''base''], sample_fs)"
    "length (children sample_fs [''base'']) = 2" "fs_resolve False sample_fs (abs_path [''base'']) = Inr [''base'']"
    by code_simp+
  obtain es where es: "list_entries (\<lambda>e. []) (\<lambda>r. []) [''base''] False 3 (children sample_fs [''base'']) [] sample_fs = (Inr es, sample_fs)" "length es = 2"
    using list_entries_flat [OF sample_fs_facts(4), of "[]" "\<lambda>e. []" "\<lambda>r. []" "[''base'']" 3 "children sample_fs [''base'']"] v(3)
    by (auto simp: MAX_DIR_ENTRIES_def)
  let ?out = "JObject [(''path'', JString (show_path (abs_path [''base'']))), (''entries'', JArray (map JString
      (if MAX_DIR_ENTRIES < length es then take MAX_DIR_ENTRIES (sort_entries es) else sort_entries es))),
    (''count'', json_nat (length (if MAX_DIR_ENTRIES < length es then take MAX_DIR_ENTRIES (sort_entries es) else sort_entries es))),
    (''truncated'', JBool (MAX_DIR_ENTRIES < length es))]"
  have out: "fst (list_dir_execute (\<lambda>e. []) (\<lambda>r. []) None (JObject []) sample_fs) = Inr ?out"
    using v es(1) by (simp add: list_dir_execute_def list_dir_inner_def optional_str_def optional_bool_def u64_or_def
        optional_u64_def get_u64_def get_str_def Let_def)
  from list_dir_bound [OF this] obtain entries p q where
    e: "?out = JObject [(''path'', JString (show_path p)), (''entries'', JArray (map JString entries)),
      (''count'', json_nat (length entries)), (''truncated'', JBool False)]"
    by blast
  then have "\<not> MAX_DIR_ENTRIES < length es" by simp
  then show ?thesis using out es(2) by simp
qed

end
