(* ===== verification/Memory_Safety.thy ===== *)
theory Memory_Safety
  imports Memory Files_Safety
begin

text \<open>
  What the memory tools reach: the workspace as a map of names refined by the file system, the gap in the
  protection of the identity files, the paths that leave the workspace, and what a search returns.
\<close>

subsection \<open>One name below the base\<close>

lemma resolve_below:
  assumes "fs_wf fs" "fs_node fs bc = Some DirNode"
  shows "fs_resolve create fs (abs_path bc @ p) = walk create fs (fs_link_limit fs) bc p"
  using walk_names_solid [OF assms(1), of "[]" bc create "fs_link_limit fs" p] assms(2)
  by (simp add: fs_resolve_def abs_path_def is_absolute_def solidI)

text \<open>A name that is a plain file or nothing.\<close>

definition plain_at :: "file_system \<Rightarrow> location \<Rightarrow> string \<Rightarrow> bool" where
  "plain_at fs bc n \<longleftrightarrow> CHR 0x00 \<notin> set n \<and>
     (case fs_node fs (bc @ [n]) of None \<Rightarrow> True | Some (FileNode s) \<Rightarrow> valid_utf8 s | _ \<Rightarrow> False)"

lemma walk_plain:
  assumes "fs_node fs bc = Some DirNode" "plain_at fs bc n"
  shows "walk True fs l bc [Normal n] = Inr (bc @ [n])"
    and "walk False fs l bc [Normal n] = (if fs_node fs (bc @ [n]) = None then Inl NotFound else Inr (bc @ [n]))"
  using assms by (auto simp: plain_at_def split: option.splits node.splits)

lemma make_parent_below:
  assumes "fs_wf fs" "fs_faults fs = []" "fs_node fs bc = Some DirNode"
  shows "make_parent (abs_path bc @ [Normal n]) fs = (Inr (), fs)"
proof -
  have "path_parent (abs_path bc @ [Normal n]) = Some (abs_path bc)"
    using path_parent_named(2) [of True bc n] by (simp add: named_def abs_path_def)
  then show ?thesis using create_dir_existing [OF assms] by (simp add: make_parent_def)
qed

definition file_text :: "file_system \<Rightarrow> location \<Rightarrow> string option" where
  "file_text fs q = (case fs_node fs q of Some (FileNode s) \<Rightarrow> Some s | _ \<Rightarrow> None)"

lemma file_ops_plain:
  assumes "fs_wf fs" "fs_faults fs = []" "fs_node fs bc = Some DirNode" "plain_at fs bc n"
  shows "path_exists fs (abs_path bc @ [Normal n]) = (file_text fs (bc @ [n]) \<noteq> None)"
    and "file_text fs (bc @ [n]) = Some s \<Longrightarrow> fs_read_to_string (abs_path bc @ [Normal n]) fs = (Inr s, fs)"
    and "fs_write (abs_path bc @ [Normal n]) content fs = (Inr (), fs_put (bc @ [n]) (FileNode content) fs)"
proof -
  note r = resolve_below [OF assms(1,3)] walk_plain [OF assms(3,4)]
  have f: "\<not> fs_fault fs" "fs_tick fs = fs" using assms(2) by (simp_all add: fs_fault_def tick_id)
  have p: "fs_node fs (bc @ [n]) = None \<or> (\<exists>s. fs_node fs (bc @ [n]) = Some (FileNode s) \<and> valid_utf8 s)"
    using assms(4) by (auto simp: plain_at_def split: option.splits node.splits)
  show "path_exists fs (abs_path bc @ [Normal n]) = (file_text fs (bc @ [n]) \<noteq> None)"
    using p by (auto simp: path_exists_iff r file_text_def simp del: walk.simps)
  show "fs_read_to_string (abs_path bc @ [Normal n]) fs = (Inr s, fs)" if "file_text fs (bc @ [n]) = Some s"
    using p that f by (auto simp: fs_read_to_string_def r file_text_def simp del: walk.simps)
  show "fs_write (abs_path bc @ [Normal n]) content fs = (Inr (), fs_put (bc @ [n]) (FileNode content) fs)"
    using p f by (auto simp: fs_write_def r simp del: walk.simps)
qed

lemma memory_path_plain: "parse_path n = [Normal n] \<Longrightarrow> memory_path (abs_path bc) n = abs_path bc @ [Normal n]"
  by (simp add: memory_path_def path_join_def is_absolute_def abs_path_def)

subsection \<open>The workspace as a map\<close>

text \<open>The directory holds, under the names of \<open>N\<close>, what the map of theory \<open>Workspace\<close> says.\<close>

definition represents :: "string set \<Rightarrow> location \<Rightarrow> file_system \<Rightarrow> workspace \<Rightarrow> bool" where
  "represents N bc fs w \<longleftrightarrow> fs_wf fs \<and> fs_faults fs = [] \<and> ws_faults w = [] \<and> fs_node fs bc = Some DirNode \<and>
     (\<forall>n \<in> N. parse_path n = [Normal n] \<and> plain_at fs bc n \<and> file_text fs (bc @ [n]) = ws_lookup w n)"

lemma representsD:
  assumes "represents N bc fs w" "n \<in> N"
  shows "fs_wf fs" "fs_faults fs = []" "fs_node fs bc = Some DirNode" "plain_at fs bc n"
    "file_text fs (bc @ [n]) = ws_lookup w n" "memory_path (abs_path bc) n = abs_path bc @ [Normal n]"
    "ws_tick w = (True, w)"
  using assms by (auto simp: represents_def memory_path_plain ws_tick_def)

lemma plain_name: "parse_path n = [Normal n] \<Longrightarrow> n \<noteq> [] \<and> hd n \<noteq> CHR ''/''"
  by (auto simp: parse_path_def split: if_splits)

lemma fs_put_faults: "fs_faults (fs_put q x fs) = fs_faults fs"
  by (simp add: fs_put_def)

lemma represents_put:
  assumes "represents N bc fs w" "n \<in> N" "valid_utf8 content"
  shows "represents N bc (fs_put (bc @ [n]) (FileNode content) fs)
    (w\<lparr>ws_files := AList.update (resolve_path w n) content (ws_files w)\<rparr>)"
proof -
  note r = representsD [OF assms(1,2)]
  have "fs_wf (fs_put (bc @ [n]) (FileNode content) fs)"
    using r(1,3,4) by (intro wf_put) (auto simp: plain_at_def split: option.splits node.splits)
  moreover have "resolve_path w m = resolve_path w n \<longleftrightarrow> m = n" if "m \<in> N" for m
    using plain_name [of m] plain_name [of n] assms(1,2) that
    by (cases m; cases n) (auto simp: represents_def resolve_path_def str_starts_with_def)
  moreover have "resolve_path (w\<lparr>ws_files := fs\<rparr>) m = resolve_path w m" for m fs by (simp add: resolve_path_def)
  ultimately show ?thesis
    using assms(1,3) r(3,4)
    by (auto simp: represents_def plain_at_def file_text_def fs_put_node ws_lookup_def update_conv' fs_put_faults)
qed


subsection \<open>Protection and confinement\<close>

definition unprotected_target :: "string \<Rightarrow> bool" where
  "unprotected_target t \<longleftrightarrow> \<not> names_identity_file t \<and> t \<notin> set PROTECTED_IDENTITY_FILES \<and>
     t \<notin> {''memory'', ''daily_log'', ''heartbeat''}"

lemma dotted_not_identity: "\<not> names_identity_file (''./'' @ n)"
proof -
  have "ascii_lower (CHR ''.'') = CHR ''.''" "ascii_lower (CHR ''I'') \<noteq> CHR ''.''" "ascii_lower (CHR ''S'') \<noteq> CHR ''.''"
    "ascii_lower (CHR ''A'') \<noteq> CHR ''.''" "ascii_lower (CHR ''U'') \<noteq> CHR ''.''"
    by code_simp+
  then show ?thesis by (simp add: names_identity_file_def PROTECTED_IDENTITY_FILES_def to_lowercase_def)
qed

lemma dotted_identity_files:
  assumes "n \<in> set PROTECTED_IDENTITY_FILES"
  shows "parse_path (''./'' @ n) = [CurDir, Normal n]" "unprotected_target (''./'' @ n)"
proof -
  have "list_all (\<lambda>n. parse_path (''./'' @ n) = [CurDir, Normal n]) PROTECTED_IDENTITY_FILES" by code_simp
  with assms show "parse_path (''./'' @ n) = [CurDir, Normal n]" by (simp add: list_all_iff)
  show "unprotected_target (''./'' @ n)"
    using dotted_not_identity [of n] by (auto simp: unprotected_target_def PROTECTED_IDENTITY_FILES_def)
qed

lemma memory_write_tool_overwrites:
  assumes "get_str params ''content'' = Some content" "trim content \<noteq> []" "optional_bool params ''append'' = Some False"
    and "get_str params ''target'' = Some t" "unprotected_target t" "memory_write base t content fs = (Inr (), fs1)"
  shows "snd (tool_memory_write M base now params fs) = fs1"
proof -
  have "write_target M base now False t content fs = (Inr t, fs1)"
    using assms(5,6) by (simp add: write_target_def append_or_write_def unprotected_target_def)
  then show ?thesis
    using assms(1-5) by (simp add: tool_memory_write_def require_str_def optional_str_def unprotected_target_def)
qed

text \<open>The identity files are protected by their spelling only. A target that is the name of an identity
  file, in any case and with any leading slashes, is refused and changes nothing. The same file spelled with \<open>./\<close>
  in front passes, and the tool overwrites it.\<close>

theorem identity_protection_gap:
  assumes "n \<in> set PROTECTED_IDENTITY_FILES" "fs_wf fs" "fs_faults fs = []" "fs_node fs bc = Some DirNode" "plain_at fs bc n"
    and "get_str params ''content'' = Some content" "trim content \<noteq> []" "optional_bool params ''append'' = Some False"
  shows "(get_str params ''target'' = Some t \<and> names_identity_file t \<and> t \<notin> {''memory'', ''daily_log'', ''heartbeat''} \<longrightarrow>
      tool_memory_write M (abs_path bc) now params fs = (Inl (identity_protected t), fs)) \<and>
    (get_str params ''target'' = Some (''./'' @ n) \<longrightarrow>
      file_text (snd (tool_memory_write M (abs_path bc) now params fs)) (bc @ [n]) = Some content)"
proof (intro conjI impI; (elim conjE)?)
  assume "get_str params ''target'' = Some t" "names_identity_file t" "t \<notin> {''memory'', ''daily_log'', ''heartbeat''}"
  then show "tool_memory_write M (abs_path bc) now params fs = (Inl (identity_protected t), fs)"
    using assms(6-8) by (simp add: tool_memory_write_def require_str_def optional_str_def write_target_def Let_def)
next
  assume target: "get_str params ''target'' = Some (''./'' @ n)"
  have n: "parse_path (''./'' @ n) = [CurDir, Normal n]" "unprotected_target (''./'' @ n)"
    using dotted_identity_files [OF assms(1)] by simp_all
  let ?p = "abs_path bc @ [CurDir, Normal n]"
  have path: "memory_path (abs_path bc) (''./'' @ n) = ?p"
    unfolding memory_path_def n(1) by (simp add: path_join_def is_absolute_def abs_path_def)
  have "fs_resolve True fs ?p = fs_resolve True fs (abs_path bc @ [Normal n])"
    using assms(4) by (simp add: resolve_below [OF assms(2,4)] del: walk.simps(5))
  then have "fs_write ?p content fs = fs_write (abs_path bc @ [Normal n]) content fs" by (simp add: fs_write_def)
  then have "fs_write ?p content fs = (Inr (), fs_put (bc @ [n]) (FileNode content) fs)"
    using file_ops_plain(3) [OF assms(2-5)] by simp
  moreover have "path_parent ?p = Some (abs_path bc)"
    using trim_cur_names [of True bc] by (auto simp: path_parent_def Let_def trim_cur_def butlast_append abs_path_named)
  then have "make_parent ?p fs = (Inr (), fs)"
    using create_dir_existing [OF assms(2-4)] by (simp add: make_parent_def)
  ultimately have "memory_write (abs_path bc) (''./'' @ n) content fs = (Inr (), fs_put (bc @ [n]) (FileNode content) fs)"
    unfolding memory_write_def path by simp
  then show "file_text (snd (tool_memory_write M (abs_path bc) now params fs)) (bc @ [n]) = Some content"
    using memory_write_tool_overwrites [OF assms(6-8) target n(2)] by (simp add: file_text_def fs_put_node)
qed

text \<open>The memory tools are not confined to the workspace. A path that begins with a slash is taken as it
  is: \<open>memory_read\<close>, which asks for no approval, returns the lines of any readable text file of the machine.\<close>

theorem memory_read_leaves_workspace:
  assumes "get_str params ''path'' = Some rel" "is_absolute (parse_path rel)" "fs_faults fs = []"
    and "fs_resolve False fs (parse_path rel) = Inr q" "fs_node fs q = Some (FileNode content)" "valid_utf8 content"
    and "optional_u64 params ''offset'' = None" "optional_u64 params ''limit'' = None"
  shows "fst (tool_memory_read M base params fs) = Some (Inr (JObject [(''path'', JString rel),
      (''content'', JString (join [CHR 0x0A] (str_lines content))), (''total_lines'', json_nat (length (str_lines content))),
      (''lines_shown'', json_nat (length (str_lines content)))]))"
proof -
  have "memory_path base rel = parse_path rel" using assms(2) by (simp add: memory_path_def path_join_def)
  then have "memory_read base rel fs = (Inr content, fs)"
    using assms(3-6) by (auto simp: memory_read_def path_exists_iff fs_read_to_string_def fs_fault_def tick_id)
  then show ?thesis
    using assms(1,7,8) by (simp add: tool_memory_read_def require_str_def u64_or_def line_range_def Let_def)
qed

subsection \<open>Search\<close>

definition good_result :: "string list \<Rightarrow> search_result \<Rightarrow> bool" where
  "good_result terms r \<longleftrightarrow> (\<exists>line. sr_snippet r = concat (take 200 (chars line)) \<and>
     sr_score r = of_nat (matched_terms terms line) / of_nat (length terms) \<and> 0 < matched_terms terms line)"

lemma search_lines_good: "list_all (good_result terms) (search_lines terms rel content)"
  by (auto simp: search_lines_def list_all_iff List.map_filter_def good_result_def Let_def split: if_splits)

lemma search_entry_skip:
  assumes "\<not> fs_fault fs" "\<not> fs_fault (fs_tick fs)"
    and "\<not> (fs_node fs c = Some DirNode \<and> levels \<noteq> 0 \<and> searched_dir (last c))"
  shows "\<exists>fs2 found1. search_entries levels dir terms (c # cs) found fs = search_entries levels dir terms cs found1 fs2 \<and>
    (found1 = found \<or> (\<exists>rel s. found1 = found @ search_lines terms rel s))"
proof (cases "fs_node fs c")
  case (Some x)
  then show ?thesis
  proof (cases x)
    case (FileNode s)
    with Some assms(1,2) show ?thesis by (auto simp: Let_def split: option.split)
  qed (use assms Some in \<open>auto simp: Let_def\<close>)
qed (use assms in \<open>auto simp: Let_def\<close>)

lemma search_entry_cases:
  assumes "search_entries levels dir terms (c # cs) found fs = (Inr out, fs')"
  obtains found1 fs1 where "search_entries levels dir terms cs found1 fs1 = (Inr out, fs')"
      "found1 = found \<or> (\<exists>rel s. found1 = found @ search_lines terms rel s)"
    | l cs1 found1 fs1 fs2 where "l < levels" "search_entries l dir terms cs1 found fs1 = (Inr found1, fs2)"
      "search_entries levels dir terms cs found1 fs2 = (Inr out, fs')"
proof -
  have f: "\<not> fs_fault fs" "\<not> fs_fault (fs_tick fs)" using assms by (auto simp: Let_def split: if_splits)
  show thesis
  proof (cases "fs_node fs c = Some DirNode \<and> levels \<noteq> 0 \<and> searched_dir (last c)")
    case True
    with f assms have "\<exists>cs1 fs1 found1 fs2. search_entries (levels - 1) dir terms cs1 found fs1 = (Inr found1, fs2) \<and>
        search_entries levels dir terms cs found1 fs2 = (Inr out, fs')"
      by (auto simp: Let_def split: if_splits prod.splits sum.splits)
    with True show ?thesis using that(2) [of "levels - 1"] by auto
  next
    case False
    then obtain fs2 found1 where eq: "search_entries levels dir terms (c # cs) found fs = search_entries levels dir terms cs found1 fs2"
      "found1 = found \<or> (\<exists>rel s. found1 = found @ search_lines terms rel s)"
      using f search_entry_skip [of fs] by blast
    with assms show ?thesis using that(1) by metis
  qed
qed

lemma search_entries_good:
  "search_entries levels dir terms cs found fs = (Inr out, fs') \<Longrightarrow> list_all (good_result terms) found \<Longrightarrow>
    list_all (good_result terms) out"
proof (induction levels arbitrary: cs found fs out fs' rule: less_induct)
  case (less levels)
  note outer = less.IH
  show ?case using less.prems
  proof (induction cs arbitrary: found fs)
    case Nil
    then show ?case by (auto split: if_splits)
  next
    case (Cons c cs)
    from Cons.prems(1) show ?case
    proof (cases rule: search_entry_cases)
      case (1 found1 fs1)
      then show ?thesis using Cons.IH Cons.prems(2) search_lines_good by fastforce
    next
      case (2 l cs1 found1 fs1 fs2)
      then show ?thesis using Cons.IH outer Cons.prems(2) by blast
    qed
  qed
qed

text \<open>What a search of the memory returns: at most as many results as asked for, the best score first, each
  with the beginning of a line that contains a term of the query, scored by the share of terms in that line.\<close>

theorem search_returns_matches:
  assumes "fst (memory_search base q limit fs) = Inr rs"
  shows "length rs \<le> limit \<and> sorted_wrt (\<lambda>a b. sr_score a \<ge> sr_score b) rs \<and>
    list_all (good_result (split_whitespace (to_lowercase q))) rs"
proof -
  let ?terms = "split_whitespace (to_lowercase q)"
  have "\<exists>out. list_all (good_result ?terms) out \<and> rs = take limit (sort_key (\<lambda>r. - sr_score r) out)"
  proof (cases "?terms = [] \<or> \<not> path_exists fs base")
    case True
    then have "rs = []" using assms by (auto simp: memory_search_def Let_def split: if_splits)
    then show ?thesis by (intro exI [of _ "[]"]) simp
  next
    case False
    then obtain d fs1 out fs2 where "search_entries (tree_depth fs) d ?terms (children fs1 d) [] fs1 = (Inr out, fs2)"
      "rs = take limit (sort_key (\<lambda>r. - sr_score r) out)"
      using assms by (auto simp: memory_search_def Let_def split: prod.splits sum.splits)
    then show ?thesis using search_entries_good by fastforce
  qed
  then obtain out where out: "list_all (good_result ?terms) out" "rs = take limit (sort_key (\<lambda>r. - sr_score r) out)" by blast
  have "sorted (map (\<lambda>r. - sr_score r) (sort_key (\<lambda>r. - sr_score r) out))" by simp
  then have "sorted_wrt (\<lambda>a b. sr_score a \<ge> sr_score b) (sort_key (\<lambda>r. - sr_score r) out)"
    by (simp add: sorted_map sorted_wrt_map)
  moreover have "list_all (good_result ?terms) (sort_key (\<lambda>r. - sr_score r) out)" using out(1) by (simp add: list_all_iff)
  ultimately show ?thesis
    unfolding out(2) by (auto simp: list_all_iff sorted_wrt_take dest: in_set_takeD)
qed

subsection \<open>Examples\<close>

definition home_fs :: file_system where
  "home_fs = \<lparr>fs_nodes = [([''ws''], DirNode), ([''ws'', ''SOUL.md''], FileNode ''kind''), ([''key''], FileNode ''secret'')],
     fs_cwd = None, fs_dir_size = 4096, fs_link_limit = 40, fs_faults = []\<rparr>"

definition home_map :: workspace where
  "home_map = \<lparr>ws_base_path = ''/ws'', ws_files = [(''/ws/SOUL.md'', ''kind'')], ws_faults = []\<rparr>"

definition sample_memory_env :: memory_env where
  "sample_memory_env = \<lparr>me_stamp = \<lambda>_. [], me_date = \<lambda>_. [], me_clock = \<lambda>_. [], me_show = \<lambda>_. []\<rparr>"

lemma home_represents: "represents {''SOUL.md'', ''NEW.md''} [''ws''] home_fs home_map"
proof -
  have "fs_wf home_fs" "fs_faults home_fs = []" "ws_faults home_map = []" "fs_node home_fs [''ws''] = Some DirNode"
    "parse_path ''SOUL.md'' = [Normal ''SOUL.md'']" "plain_at home_fs [''ws''] ''SOUL.md''"
    "file_text home_fs ([''ws''] @ [''SOUL.md'']) = ws_lookup home_map ''SOUL.md''"
    "parse_path ''NEW.md'' = [Normal ''NEW.md'']" "plain_at home_fs [''ws''] ''NEW.md''"
    "file_text home_fs ([''ws''] @ [''NEW.md'']) = ws_lookup home_map ''NEW.md''"
    by code_simp+
  then show ?thesis by (simp add: represents_def)
qed


theorem identity_protection_gap_witness:
  "file_text (snd (tool_memory_write sample_memory_env (abs_path [''ws'']) 0
     (JObject [(''content'', JString ''evil''), (''target'', JString ''./SOUL.md''), (''append'', JBool False)]) home_fs)) [''ws'', ''SOUL.md'']
   = Some ''evil''"
proof -
  let ?params = "JObject [(''content'', JString ''evil''), (''target'', JString ''./SOUL.md''), (''append'', JBool False)]"
  have "''SOUL.md'' \<in> set PROTECTED_IDENTITY_FILES" by (simp add: PROTECTED_IDENTITY_FILES_def)
  moreover have "fs_wf home_fs" "fs_faults home_fs = []" "fs_node home_fs [''ws''] = Some DirNode" "plain_at home_fs [''ws''] ''SOUL.md''"
    "trim ''evil'' \<noteq> []"
    by code_simp+
  moreover have "get_str ?params ''content'' = Some ''evil''" "optional_bool ?params ''append'' = Some False"
    "get_str ?params ''target'' = Some (''./'' @ ''SOUL.md'')"
    by (simp_all add: get_str_def optional_bool_def)
  ultimately show ?thesis
    using identity_protection_gap [of "''SOUL.md''" home_fs "[''ws'']" ?params "''evil''" _ sample_memory_env 0] by simp
qed

theorem memory_read_leaves_workspace_witness:
  "\<exists>out. fst (tool_memory_read sample_memory_env (abs_path [''ws'']) (JObject [(''path'', JString ''/key'')]) home_fs) = Some (Inr out) \<and>
     json_get out ''content'' = Some (JString ''secret'')"
proof -
  have "is_absolute (parse_path ''/key'')" "fs_faults home_fs = []" "fs_resolve False home_fs (parse_path ''/key'') = Inr [''key'']"
    "fs_node home_fs [''key''] = Some (FileNode ''secret'')" "valid_utf8 ''secret''" "str_lines ''secret'' = [''secret'']"
    by code_simp+
  then show ?thesis
    using memory_read_leaves_workspace [of "JObject [(''path'', JString ''/key'')]" "''/key''" home_fs "[''key'']" "''secret''"
        sample_memory_env "abs_path [''ws'']"]
    by (simp add: get_str_def optional_u64_def get_u64_def)
qed

theorem search_returns_matches_witness:
  "\<exists>rs. fst (memory_search (abs_path [''ws'']) ''Kind'' 5 home_fs) = Inr rs \<and> rs \<noteq> [] \<and> list_all (good_result [''kind'']) rs"
proof -
  have "\<exists>r. fst (memory_search (abs_path [''ws'']) ''Kind'' 5 home_fs) = Inr [r]"
    by (rule exI [of _ "\<lparr>sr_path = ''SOUL.md'', sr_line_number = 1, sr_snippet = ''kind'', sr_score = 1\<rparr>"]) code_simp
  moreover have "split_whitespace (to_lowercase ''Kind'') = [''kind'']" by code_simp
  ultimately show ?thesis using search_returns_matches by fastforce
qed

end
