(* ===== verification/Documents.thy ===== *)
theory Documents
  imports Files Todos
begin

text \<open>
  Documents written by agents (\<open>src/src/documents/model.rs\<close>), the tables \<open>documents\<close> and
  \<open>job_actions\<close> of \<open>src/src/store/libsql_backend.rs\<close> with the text search over documents and to-dos,
  and the REST endpoints of \<open>src/src/documents/routes.rs\<close>. A row of \<open>documents\<close> is the document a reader
  gets back: every column is text that was written by the same code. Statements fail by the pattern \<open>dd_faults\<close>.
  Rows of the same time come in the order of insertion.
\<close>

subsection \<open>Documents\<close>

datatype document_type =
  DocResearch | DocInstructions | DocNotes | DocReport | DocDesign | DocSummary | DocOther

record document =
  doc_id :: uuid
  doc_todo_id :: uuid
  doc_title :: string
  doc_content :: string
  doc_type :: document_type
  doc_created_by :: string
  doc_created_at :: datetime
  doc_updated_at :: datetime

fun doc_type_to_str :: "document_type \<Rightarrow> string" where
  "doc_type_to_str DocResearch = ''research''"
| "doc_type_to_str DocInstructions = ''instructions''"
| "doc_type_to_str DocNotes = ''notes''"
| "doc_type_to_str DocReport = ''report''"
| "doc_type_to_str DocDesign = ''design''"
| "doc_type_to_str DocSummary = ''summary''"
| "doc_type_to_str DocOther = ''other''"

definition document_types :: "document_type list" where
  "document_types = [DocResearch, DocInstructions, DocNotes, DocReport, DocDesign, DocSummary, DocOther]"

text \<open>The decoder serde derives from the same names.\<close>

definition str_to_doc_type :: "string \<Rightarrow> document_type option" where
  "str_to_doc_type s = List.find (\<lambda>d. doc_type_to_str d = s) document_types"

definition new_document ::
  "uuid \<Rightarrow> datetime \<Rightarrow> uuid \<Rightarrow> string \<Rightarrow> string \<Rightarrow> document_type \<Rightarrow> string \<Rightarrow> document" where
  "new_document fresh now todo title content ty by_whom =
     \<lparr>doc_id = fresh, doc_todo_id = todo, doc_title = title, doc_content = content, doc_type = ty,
      doc_created_by = by_whom, doc_created_at = now, doc_updated_at = now\<rparr>"

subsection \<open>Pattern matching of SQLite\<close>

text \<open>\<open>LIKE\<close> with \<open>COLLATE NOCASE\<close>, on characters: a percent sign stands for any text, an underscore for
  any character, and ASCII letters match in both cases.\<close>

function like :: "string list \<Rightarrow> string list \<Rightarrow> bool" where
  "like [] s = (s = [])"
| "like (p # ps) s =
     (if p = ''%'' then like ps s \<or> (case s of [] \<Rightarrow> False | c # cs \<Rightarrow> like (p # ps) cs)
      else case s of
        [] \<Rightarrow> False
      | c # cs \<Rightarrow> (p = ''_'' \<or> to_lowercase p = to_lowercase c) \<and> like ps cs)"
  by pat_completeness auto
termination by (relation "measure (\<lambda>(p, s). length p + length s)") auto

definition like_query :: "string \<Rightarrow> string \<Rightarrow> bool" where
  "like_query q s = like (''%'' # chars q @ [''%'']) (chars s)"

subsection \<open>Tables\<close>

record job_action =
  ja_id :: uuid
  ja_job_id :: string
  ja_todo_id :: "uuid option"
  ja_action_type :: string
  ja_action_data :: string
  ja_created_at :: datetime

record document_db =
  dd_documents :: "document list"
  dd_actions :: "job_action list"
  dd_faults :: "bool list"

definition dd_fault :: "document_db \<Rightarrow> bool" where
  "dd_fault db = (case dd_faults db of [] \<Rightarrow> False | b # _ \<Rightarrow> b)"

definition dd_tick :: "document_db \<Rightarrow> document_db" where
  "dd_tick db = db\<lparr>dd_faults := tl (dd_faults db)\<rparr>"

definition dd_exec ::
  "string \<Rightarrow> bool \<Rightarrow> 'a \<Rightarrow> (document_db \<Rightarrow> document_db) \<Rightarrow> document_db \<Rightarrow> (database_error + 'a) \<times> document_db" where
  "dd_exec what ok x f db =
     (if dd_fault db \<or> \<not> ok then (Inl (QueryError what), dd_tick db) else (Inr x, f (dd_tick db)))"

definition dd_query :: "string \<Rightarrow> (document_db \<Rightarrow> 'a) \<Rightarrow> document_db \<Rightarrow> (database_error + 'a) \<times> document_db" where
  "dd_query what f db = (if dd_fault db then Inl (QueryError what) else Inr (f db), dd_tick db)"

definition create_document :: "document \<Rightarrow> document_db \<Rightarrow> (database_error + unit) \<times> document_db" where
  "create_document d db = dd_exec ''create_document'' (doc_id d \<notin> set (map doc_id (dd_documents db))) ()
     (\<lambda>db. db\<lparr>dd_documents := dd_documents db @ [d]\<rparr>) db"

definition get_document :: "uuid \<Rightarrow> document_db \<Rightarrow> (database_error + document option) \<times> document_db" where
  "get_document i = dd_query ''get_document'' (\<lambda>db. List.find (\<lambda>d. doc_id d = i) (dd_documents db))"

text \<open>The statement leaves the to-do, the author and the time of creation alone, and it succeeds without a row.\<close>

definition update_document :: "document \<Rightarrow> document_db \<Rightarrow> (database_error + unit) \<times> document_db" where
  "update_document d = dd_exec ''update_document'' True () (\<lambda>db. db\<lparr>dd_documents :=
     map (\<lambda>r. if doc_id r = doc_id d then r\<lparr>doc_title := doc_title d, doc_content := doc_content d,
       doc_type := doc_type d, doc_updated_at := doc_updated_at d\<rparr> else r) (dd_documents db)\<rparr>)"

definition delete_document :: "uuid \<Rightarrow> document_db \<Rightarrow> (database_error + bool) \<times> document_db" where
  "delete_document i db = dd_exec ''delete_document'' True (i \<in> set (map doc_id (dd_documents db)))
     (\<lambda>db. db\<lparr>dd_documents := filter (\<lambda>d. doc_id d \<noteq> i) (dd_documents db)\<rparr>) db"

definition newest_first :: "document list \<Rightarrow> document list" where
  "newest_first = sort_key (\<lambda>d. - doc_created_at d)"

definition list_documents :: "nat \<Rightarrow> document_db \<Rightarrow> (database_error + document list) \<times> document_db" where
  "list_documents limit = dd_query ''list_documents'' (\<lambda>db. take limit (newest_first (dd_documents db)))"

definition list_documents_by_todo :: "uuid \<Rightarrow> document_db \<Rightarrow> (database_error + document list) \<times> document_db" where
  "list_documents_by_todo todo = dd_query ''list_documents_by_todo''
     (\<lambda>db. newest_first (filter (\<lambda>d. doc_todo_id d = todo) (dd_documents db)))"

definition search_documents ::
  "string \<Rightarrow> document_type option \<Rightarrow> nat \<Rightarrow> document_db \<Rightarrow> (database_error + document list) \<times> document_db" where
  "search_documents q ty limit = dd_query ''search_documents''
     (\<lambda>db. take limit (newest_first (filter
        (\<lambda>d. (like_query q (doc_title d) \<or> like_query q (doc_content d)) \<and>
             (case ty of None \<Rightarrow> True | Some t \<Rightarrow> doc_type d = t)) (dd_documents db))))"

text \<open>Matches in the title first, then by priority, the newest first.\<close>

definition search_todos ::
  "string \<Rightarrow> string \<Rightarrow> nat \<Rightarrow> todo_store \<Rightarrow> (database_error + todo_item list) \<times> todo_store" where
  "search_todos user q limit = td_query ''search_todos''
     (\<lambda>ts. take limit (sort_key (\<lambda>t. (\<not> like_query q (t_title t), t_priority t, - t_created_at t))
        (filter (\<lambda>t. t_user_id t = user \<and> \<not> t_is_agent_internal t \<and>
           (like_query q (t_title t) \<or> (case t_description t of None \<Rightarrow> False | Some d \<Rightarrow> like_query q d))) ts)))"

definition oldest_first :: "job_action list \<Rightarrow> job_action list" where
  "oldest_first = sort_key ja_created_at"

definition save_job_action ::
  "uuid \<Rightarrow> datetime \<Rightarrow> string \<Rightarrow> uuid option \<Rightarrow> string \<Rightarrow> string \<Rightarrow> document_db \<Rightarrow>
    (database_error + unit) \<times> document_db" where
  "save_job_action fresh now job todo ty data db =
     dd_exec ''save_job_action'' (fresh \<notin> set (map ja_id (dd_actions db))) ()
       (\<lambda>db. db\<lparr>dd_actions := dd_actions db @ [\<lparr>ja_id = fresh, ja_job_id = job, ja_todo_id = todo,
          ja_action_type = ty, ja_action_data = data, ja_created_at = now\<rparr>]\<rparr>) db"

definition get_job_actions :: "string \<Rightarrow> document_db \<Rightarrow> (database_error + string list) \<times> document_db" where
  "get_job_actions job = dd_query ''get_job_actions''
     (\<lambda>db. map ja_action_data (oldest_first (filter (\<lambda>a. ja_job_id a = job) (dd_actions db))))"

definition get_activity_for_todo :: "uuid \<Rightarrow> document_db \<Rightarrow> (database_error + string list) \<times> document_db" where
  "get_activity_for_todo todo = dd_query ''get_activity_for_todo''
     (\<lambda>db. map ja_action_data (oldest_first (filter (\<lambda>a. ja_todo_id a = Some todo) (dd_actions db))))"

definition update_job_status ::
  "(json \<Rightarrow> string) \<Rightarrow> uuid \<Rightarrow> datetime \<Rightarrow> string \<Rightarrow> string \<Rightarrow> string option \<Rightarrow> document_db \<Rightarrow>
    (database_error + unit) \<times> document_db" where
  "update_job_status to_json fresh now job status reason =
     save_job_action fresh now job None ''status_change''
       (to_json (JObject [(''status'', JString status), (''reason'', json_opt JString reason)]))"

definition record_tool_failure ::
  "(json \<Rightarrow> string) \<Rightarrow> uuid \<Rightarrow> datetime \<Rightarrow> string \<Rightarrow> string \<Rightarrow> document_db \<Rightarrow> (database_error + unit) \<times> document_db" where
  "record_tool_failure to_json fresh now tool_name e db =
     dd_exec ''record_tool_failure'' (fresh \<notin> set (map ja_id (dd_actions db))) ()
       (\<lambda>db. db\<lparr>dd_actions := dd_actions db @ [\<lparr>ja_id = fresh, ja_job_id = ''global'', ja_todo_id = None,
          ja_action_type = ''tool_failure'',
          ja_action_data = to_json (JObject [(''tool_name'', JString tool_name), (''error'', JString e)]),
          ja_created_at = now\<rparr>]\<rparr>) db"

subsection \<open>Endpoints\<close>

text \<open>An answer is a status and a body; \<open>doc_json\<close> is the encoder of a document that serde derives. The
  framework decodes path, query and body.\<close>

type_synonym response = "nat \<times> json"

definition error_body :: "string \<Rightarrow> json" where
  "error_body e = JObject [(''error'', JString e)]"

definition doc_json :: "(uuid \<Rightarrow> string) \<Rightarrow> (datetime \<Rightarrow> string) \<Rightarrow> document \<Rightarrow> json" where
  "doc_json uuid_str fmt d = JObject
     [(''id'', JString (uuid_str (doc_id d))), (''todo_id'', JString (uuid_str (doc_todo_id d))),
      (''title'', JString (doc_title d)), (''content'', JString (doc_content d)),
      (''doc_type'', JString (doc_type_to_str (doc_type d))), (''created_by'', JString (doc_created_by d)),
      (''created_at'', JString (fmt (doc_created_at d))), (''updated_at'', JString (fmt (doc_updated_at d)))]"

record document_request =
  dq_title :: string
  dq_content :: string
  dq_doc_type :: document_type
  dq_todo_id :: string
  dq_created_by :: "string option"

record document_changes =
  dc_title :: "string option"
  dc_content :: "string option"
  dc_doc_type :: "document_type option"

record web_env =
  we_parse_uuid :: "string \<Rightarrow> uuid option"
  we_uuid_str :: "uuid \<Rightarrow> string"
  we_time :: "datetime \<Rightarrow> string"
  we_db_error :: "database_error \<Rightarrow> string"

definition web_doc :: "web_env \<Rightarrow> document \<Rightarrow> json" where
  "web_doc W = doc_json (we_uuid_str W) (we_time W)"

definition documents_answer :: "web_env \<Rightarrow> (database_error + document list) \<Rightarrow> response" where
  "documents_answer W r = (case r of
     Inr ds \<Rightarrow> (200, JObject [(''documents'', JArray (map (web_doc W) ds))])
   | Inl e \<Rightarrow> (500, error_body (we_db_error W e)))"

definition route_list_documents ::
  "web_env \<Rightarrow> string option \<Rightarrow> nat option \<Rightarrow> document_db \<Rightarrow> response \<times> document_db" where
  "route_list_documents W todo_id limit db = (case todo_id of
     Some s \<Rightarrow> (case we_parse_uuid W s of
       None \<Rightarrow> ((400, error_body ''Invalid todo_id UUID''), db)
     | Some i \<Rightarrow> (let (r, db1) = list_documents_by_todo i db in (documents_answer W r, db1)))
   | None \<Rightarrow> (let (r, db1) = list_documents (case limit of Some n \<Rightarrow> n | None \<Rightarrow> 50) db in (documents_answer W r, db1)))"

definition route_get_document :: "web_env \<Rightarrow> string \<Rightarrow> document_db \<Rightarrow> response \<times> document_db" where
  "route_get_document W s db = (case we_parse_uuid W s of
     None \<Rightarrow> ((400, error_body ''Invalid document ID''), db)
   | Some i \<Rightarrow> (let (r, db1) = get_document i db
       in (case r of
             Inr (Some d) \<Rightarrow> (200, web_doc W d)
           | Inr None \<Rightarrow> (404, error_body ''Document not found'')
           | Inl e \<Rightarrow> (500, error_body (we_db_error W e)), db1)))"

definition route_create_document ::
  "web_env \<Rightarrow> uuid \<Rightarrow> datetime \<Rightarrow> document_request \<Rightarrow> document_db \<Rightarrow> response \<times> document_db" where
  "route_create_document W fresh now req db = (case we_parse_uuid W (dq_todo_id req) of
     None \<Rightarrow> ((400, error_body ''Invalid todo_id UUID''), db)
   | Some todo \<Rightarrow>
       (let d = new_document fresh now todo (dq_title req) (dq_content req) (dq_doc_type req)
              (case dq_created_by req of Some s \<Rightarrow> s | None \<Rightarrow> ''agent'');
            (r, db1) = create_document d db
        in (case r of
              Inr _ \<Rightarrow> (201, JObject [(''id'', JString (we_uuid_str W fresh)), (''document'', web_doc W d)])
            | Inl e \<Rightarrow> (500, error_body (we_db_error W e)), db1)))"

definition merge_document :: "datetime \<Rightarrow> document_changes \<Rightarrow> document \<Rightarrow> document" where
  "merge_document now c d = d\<lparr>doc_title := (case dc_title c of Some s \<Rightarrow> s | None \<Rightarrow> doc_title d),
     doc_content := (case dc_content c of Some s \<Rightarrow> s | None \<Rightarrow> doc_content d),
     doc_type := (case dc_doc_type c of Some t \<Rightarrow> t | None \<Rightarrow> doc_type d), doc_updated_at := now\<rparr>"

definition route_update_document ::
  "web_env \<Rightarrow> datetime \<Rightarrow> string \<Rightarrow> document_changes \<Rightarrow> document_db \<Rightarrow> response \<times> document_db" where
  "route_update_document W now s c db = (case we_parse_uuid W s of
     None \<Rightarrow> ((400, error_body ''Invalid document ID''), db)
   | Some i \<Rightarrow> (case get_document i db of
       (Inr None, db1) \<Rightarrow> ((404, error_body ''Document not found''), db1)
     | (Inl e, db1) \<Rightarrow> ((500, error_body (we_db_error W e)), db1)
     | (Inr (Some d), db1) \<Rightarrow>
         (let u = merge_document now c d; (r, db2) = update_document u db1
          in (case r of
                Inr _ \<Rightarrow> (200, JObject [(''document'', web_doc W u)])
              | Inl e \<Rightarrow> (500, error_body (we_db_error W e)), db2))))"

definition route_delete_document :: "web_env \<Rightarrow> string \<Rightarrow> document_db \<Rightarrow> response \<times> document_db" where
  "route_delete_document W s db = (case we_parse_uuid W s of
     None \<Rightarrow> ((400, error_body ''Invalid document ID''), db)
   | Some i \<Rightarrow> (let (r, db1) = delete_document i db
       in (case r of
             Inr True \<Rightarrow> (200, JObject [(''deleted'', JBool True)])
           | Inr False \<Rightarrow> (404, error_body ''Document not found'')
           | Inl e \<Rightarrow> (500, error_body (we_db_error W e)), db1)))"

end
