(* ===== verification/Tool_Store.thy ===== *)
theory Tool_Store
  imports Documents Routine_Engine Card_Queue Registries
begin

text \<open>
  The built-in tools that work on the tables and on the card queue: documents
  (\<open>src/src/tools/builtin/document.rs\<close>), to-dos (\<open>todo.rs\<close>), routines (\<open>routine.rs\<close>), drafts of messages
  (\<open>message.rs\<close>) and questions to the user (\<open>ask_user.rs\<close>). A tool returns the value of its output or an
  error, and the state. \<open>te_parse_time\<close> is the RFC 3339 parser of the chrono crate.
\<close>

subsection \<open>Values\<close>

record tool_env =
  te_parse_uuid :: "string \<Rightarrow> uuid option"
  te_uuid_str :: "uuid \<Rightarrow> string"
  te_time :: "datetime \<Rightarrow> string"
  te_parse_time :: "string \<Rightarrow> string + datetime"
  te_regex_error :: "string \<Rightarrow> string"

definition db_failure :: "string \<Rightarrow> database_error \<Rightarrow> tool_error" where
  "db_failure context e = tool_exec_error context (show_database_error e)"

definition json_int :: "int \<Rightarrow> json" where
  "json_int i = JNumber (if 0 \<le> i then PosInt (nat i) else NegInt i)"

text \<open>\<open>Value::as_i64\<close>, and \<open>as i32\<close>, which keeps the low bits.\<close>

definition json_i64 :: "json \<Rightarrow> int option" where
  "json_i64 v = (case v of
     JNumber (PosInt n) \<Rightarrow> if n < 2 ^ 63 then Some (int n) else None
   | JNumber (NegInt i) \<Rightarrow> Some i
   | _ \<Rightarrow> None)"

definition cast_i32 :: "int \<Rightarrow> int" where
  "cast_i32 i = sint (word_of_int i :: 32 word)"

fun todo_type_str :: "todo_type \<Rightarrow> string" where
  "todo_type_str Deliverable = ''deliverable''"
| "todo_type_str Research = ''research''"
| "todo_type_str Errand = ''errand''"
| "todo_type_str Learning = ''learning''"
| "todo_type_str Administrative = ''administrative''"
| "todo_type_str Creative = ''creative''"
| "todo_type_str Review = ''review''"

fun todo_bucket_str :: "todo_bucket \<Rightarrow> string" where
  "todo_bucket_str AgentStartable = ''agent_startable''"
| "todo_bucket_str HumanOnly = ''human_only''"

fun todo_status_str :: "todo_status \<Rightarrow> string" where
  "todo_status_str Created = ''created''"
| "todo_status_str AgentQueued = ''agent_queued''"
| "todo_status_str AgentWorking = ''agent_working''"
| "todo_status_str AwaitingApproval = ''awaiting_approval''"
| "todo_status_str ReadyForReview = ''ready_for_review''"
| "todo_status_str WaitingOnYou = ''waiting_on_you''"
| "todo_status_str Snoozed = ''snoozed''"
| "todo_status_str Completed = ''completed''"

definition parse_todo_type :: "string \<Rightarrow> todo_type option" where
  "parse_todo_type s = List.find (\<lambda>x. todo_type_str x = s)
     [Deliverable, Research, Errand, Learning, Administrative, Creative, Review]"

definition parse_todo_bucket :: "string \<Rightarrow> todo_bucket option" where
  "parse_todo_bucket s = List.find (\<lambda>x. todo_bucket_str x = s) [AgentStartable, HumanOnly]"

definition parse_todo_status :: "string \<Rightarrow> todo_status option" where
  "parse_todo_status s = List.find (\<lambda>x. todo_status_str x = s)
     [Created, AgentQueued, AgentWorking, AwaitingApproval, ReadyForReview, WaitingOnYou, Snoozed, Completed]"

subsection \<open>Document tools\<close>

definition created_answer :: "tool_env \<Rightarrow> document \<Rightarrow> json" where
  "created_answer T d = JObject [(''id'', JString (te_uuid_str T (doc_id d))), (''title'', JString (doc_title d)),
     (''doc_type'', JString (doc_type_to_str (doc_type d))), (''message'', JString ''Document created successfully'')]"

definition tool_create_document ::
  "tool_env \<Rightarrow> string \<Rightarrow> uuid \<Rightarrow> datetime \<Rightarrow> json \<Rightarrow> document_db \<Rightarrow> (tool_error + json) \<times> document_db" where
  "tool_create_document T user fresh now params db =
     (case require_str params ''title'' of Inl e \<Rightarrow> (Inl e, db) | Inr title \<Rightarrow>
      case require_str params ''content'' of Inl e \<Rightarrow> (Inl e, db) | Inr content \<Rightarrow>
      let ty = (case Option.bind (optional_str params ''doc_type'') str_to_doc_type of Some t \<Rightarrow> t | None \<Rightarrow> DocOther)
      in case require_uuid (te_parse_uuid T) params ''todo_id'' of Inl e \<Rightarrow> (Inl e, db) | Inr todo \<Rightarrow>
      let d = new_document fresh now todo title content ty (if user = [] then ''agent'' else user)
      in case create_document d db of
           (Inl e, db1) \<Rightarrow> (Inl (db_failure ''Create document'' e), db1)
         | (Inr _, db1) \<Rightarrow> (Inr (created_answer T d), db1))"

definition tool_update_document ::
  "tool_env \<Rightarrow> datetime \<Rightarrow> json \<Rightarrow> document_db \<Rightarrow> (tool_error + json) \<times> document_db" where
  "tool_update_document T now params db =
     (case require_uuid (te_parse_uuid T) params ''id'' of Inl e \<Rightarrow> (Inl e, db) | Inr i \<Rightarrow>
      case get_document i db of
        (Inl e, db1) \<Rightarrow> (Inl (db_failure ''Get document'' e), db1)
      | (Inr None, db1) \<Rightarrow> (Inl (InvalidParameters ''Document not found''), db1)
      | (Inr (Some existing), db1) \<Rightarrow>
          let updated = merge_document now
                \<lparr>dc_title = optional_str params ''title'', dc_content = optional_str params ''content'',
                 dc_doc_type = Option.bind (optional_str params ''doc_type'') str_to_doc_type\<rparr> existing
          in case update_document updated db1 of
               (Inl e, db2) \<Rightarrow> (Inl (db_failure ''Update document'' e), db2)
             | (Inr _, db2) \<Rightarrow> (Inr (JObject [(''id'', JString (te_uuid_str T i)), (''title'', JString (doc_title updated)),
                 (''message'', JString ''Document updated successfully'')]), db2))"

definition doc_summary :: "tool_env \<Rightarrow> document \<Rightarrow> (string \<times> json) list" where
  "doc_summary T d = [(''id'', JString (te_uuid_str T (doc_id d))), (''title'', JString (doc_title d)),
     (''doc_type'', JString (doc_type_to_str (doc_type d))), (''todo_id'', JString (te_uuid_str T (doc_todo_id d))),
     (''created_by'', JString (doc_created_by d)), (''created_at'', JString (te_time T (doc_created_at d)))]"

definition tool_list_documents ::
  "tool_env \<Rightarrow> json \<Rightarrow> document_db \<Rightarrow> (tool_error + json) \<times> document_db" where
  "tool_list_documents T params db =
     (case optional_uuid (te_parse_uuid T) params ''todo_id'' of Inl e \<Rightarrow> (Inl e, db) | Inr todo \<Rightarrow>
      case (case todo of
              Some i \<Rightarrow> list_documents_by_todo i db
            | None \<Rightarrow> list_documents (min (u64_or params ''limit'' 20) 100) db) of
        (Inl e, db1) \<Rightarrow> (Inl (db_failure ''List documents'' e), db1)
      | (Inr ds, db1) \<Rightarrow> (Inr (JObject [(''count'', json_nat (length ds)),
          (''documents'', JArray (map (\<lambda>d. JObject (doc_summary T d)) ds))]), db1))"

definition take_chars :: "nat \<Rightarrow> string \<Rightarrow> string" where
  "take_chars n s = concat (take n (chars s))"

definition tool_find_document ::
  "tool_env \<Rightarrow> json \<Rightarrow> document_db \<Rightarrow> (tool_error + json) \<times> document_db" where
  "tool_find_document T params db =
     (case require_str params ''query'' of Inl e \<Rightarrow> (Inl e, db) | Inr q \<Rightarrow>
      let ty = Option.bind (optional_str params ''doc_type'') str_to_doc_type;
          limit = min (u64_or params ''limit'' 10) 50
      in case search_documents q ty limit db of
           (Inl e, db1) \<Rightarrow> (Inl (db_failure ''Search documents'' e), db1)
         | (Inr ds, db1) \<Rightarrow> (Inr (JObject [(''count'', json_nat (length ds)), (''query'', JString q),
             (''documents'', JArray (map (\<lambda>d. JObject (doc_summary T d @
                [(''content_preview'', JString (take_chars 200 (doc_content d)))])) ds))]), db1))"

subsection \<open>To-do tools\<close>

text \<open>The table and what was sent on the channel of to-do messages.\<close>

type_synonym todo_side = "todo_store \<times> todo_ws_message list"

definition invalid :: "string \<Rightarrow> string \<Rightarrow> tool_error" where
  "invalid what s = InvalidParameters (''Invalid '' @ what @ '': '' @ s)"

definition parse_due :: "tool_env \<Rightarrow> json \<Rightarrow> tool_error + datetime option" where
  "parse_due T params = (case optional_str params ''due_date'' of
     None \<Rightarrow> Inr None
   | Some s \<Rightarrow> (case te_parse_time T s of Inl e \<Rightarrow> Inl (invalid ''due_date'' e) | Inr t \<Rightarrow> Inr (Some t)))"

definition requested_priority :: "json \<Rightarrow> int option" where
  "requested_priority params = map_option cast_i32 (Option.bind (json_get params ''priority'') json_i64)"

text \<open>\<open>value_or\<close> is an optional new value before the old one.\<close>

definition value_or :: "'a option \<Rightarrow> 'a \<Rightarrow> 'a" where
  "value_or x d = (case x of Some y \<Rightarrow> y | None \<Rightarrow> d)"

definition some_or :: "'a option \<Rightarrow> 'a option \<Rightarrow> 'a option" where
  "some_or x d = (case x of Some y \<Rightarrow> Some y | None \<Rightarrow> d)"

definition tool_create_todo ::
  "tool_env \<Rightarrow> string \<Rightarrow> uuid \<Rightarrow> datetime \<Rightarrow> json \<Rightarrow> todo_side \<Rightarrow> (tool_error + json) \<times> todo_side" where
  "tool_create_todo T user fresh now params s =
     (case require_str params ''title'' of Inl e \<Rightarrow> (Inl e, s) | Inr title \<Rightarrow>
      case require_str params ''todo_type'' of Inl e \<Rightarrow> (Inl e, s) | Inr ty_str \<Rightarrow>
      case parse_todo_type ty_str of None \<Rightarrow> (Inl (invalid ''todo_type'' ty_str), s) | Some ty \<Rightarrow>
      let bucket = value_or (Option.bind (optional_str params ''bucket'') parse_todo_bucket) HumanOnly;
          t = new_todo fresh now (if user = [] then ''default'' else user) title ty bucket;
          t1 = t\<lparr>t_description := optional_str params ''description'', t_priority := value_or (requested_priority params) 0\<rparr>
      in case parse_due T params of Inl e \<Rightarrow> (Inl e, s) | Inr dd \<Rightarrow>
      let t2 = t1\<lparr>t_due_date := dd, t_context := json_get params ''context''\<rparr>
      in case create_todo t2 (fst s) of
           (Inl e, td) \<Rightarrow> (Inl (db_failure ''Create todo'' e), (td, snd s))
         | (Inr _, td) \<Rightarrow> (Inr (JObject [(''id'', JString (te_uuid_str T fresh)), (''title'', JString title),
             (''message'', JString ''Todo created successfully'')]), (td, snd s @ [TodoCreated t2])))"

definition parse_status_param :: "json \<Rightarrow> tool_error + todo_status option" where
  "parse_status_param params = (case optional_str params ''status'' of
     None \<Rightarrow> Inr None
   | Some s \<Rightarrow> (case parse_todo_status s of None \<Rightarrow> Inl (invalid ''status'' s) | Some st \<Rightarrow> Inr (Some st)))"

definition tool_update_todo ::
  "tool_env \<Rightarrow> datetime \<Rightarrow> json \<Rightarrow> todo_side \<Rightarrow> (tool_error + json) \<times> todo_side" where
  "tool_update_todo T now params s =
     (case require_uuid (te_parse_uuid T) params ''id'' of Inl e \<Rightarrow> (Inl e, s) | Inr i \<Rightarrow>
      case get_todo i (fst s) of
        (Inl e, td) \<Rightarrow> (Inl (db_failure ''Get todo'' e), (td, snd s))
      | (Inr None, td) \<Rightarrow> (Inl (InvalidParameters ''Todo not found''), (td, snd s))
      | (Inr (Some t), td) \<Rightarrow>
          case parse_status_param params of Inl e \<Rightarrow> (Inl e, (td, snd s)) | Inr st \<Rightarrow>
          case parse_due T params of Inl e \<Rightarrow> (Inl e, (td, snd s)) | Inr dd \<Rightarrow>
          let u = t\<lparr>t_title := value_or (optional_str params ''title'') (t_title t),
                    t_description := some_or (optional_str params ''description'') (t_description t),
                    t_status := value_or st (t_status t),
                    t_priority := value_or (requested_priority params) (t_priority t),
                    t_due_date := some_or dd (t_due_date t),
                    t_context := some_or (json_get params ''context'') (t_context t), t_updated_at := now\<rparr>
          in case update_todo u td of
               (Inl e, td2) \<Rightarrow> (Inl (db_failure ''Update todo'' e), (td2, snd s))
             | (Inr _, td2) \<Rightarrow> (Inr (JObject [(''id'', JString (te_uuid_str T i)), (''title'', JString (t_title u)),
                 (''message'', JString ''Todo updated successfully'')]), (td2, snd s @ [TodoUpdated u])))"

definition tool_delete_todo :: "tool_env \<Rightarrow> json \<Rightarrow> todo_side \<Rightarrow> (tool_error + json) \<times> todo_side" where
  "tool_delete_todo T params s =
     (case require_uuid (te_parse_uuid T) params ''id'' of Inl e \<Rightarrow> (Inl e, s) | Inr i \<Rightarrow>
      case delete_todo i (fst s) of
        (Inl e, td) \<Rightarrow> (Inl (db_failure ''Delete todo'' e), (td, snd s))
      | (Inr False, td) \<Rightarrow> (Inl (InvalidParameters ''Todo not found''), (td, snd s))
      | (Inr True, td) \<Rightarrow> (Inr (JObject [(''id'', JString (te_uuid_str T i)),
          (''message'', JString ''Todo deleted successfully'')]), (td, snd s @ [TodoDeleted i])))"

definition todo_summary :: "tool_env \<Rightarrow> todo_item \<Rightarrow> json" where
  "todo_summary T t = JObject
     ([(''id'', JString (te_uuid_str T (t_id t))), (''title'', JString (t_title t)),
       (''status'', JString (todo_status_str (t_status t))), (''priority'', json_int (t_priority t)),
       (''todo_type'', JString (todo_type_str (t_todo_type t))), (''bucket'', JString (todo_bucket_str (t_bucket t)))]
      @ (case t_description t of None \<Rightarrow> [] | Some d \<Rightarrow> [(''description_preview'', JString (take_chars 100 d))])
      @ (case t_due_date t of None \<Rightarrow> [] | Some d \<Rightarrow> [(''due_date'', JString (te_time T d))]))"

text \<open>The list is that of the user \<open>default\<close>, whoever asks.\<close>

definition tool_list_todos :: "tool_env \<Rightarrow> json \<Rightarrow> todo_store \<Rightarrow> (tool_error + json) \<times> todo_store" where
  "tool_list_todos T params td =
     (case parse_status_param params of Inl e \<Rightarrow> (Inl e, td) | Inr st \<Rightarrow>
      case (case st of Some x \<Rightarrow> list_todos_by_status ''default'' x td | None \<Rightarrow> list_user_todos ''default'' td) of
        (Inl e, td1) \<Rightarrow> (Inl (db_failure ''List todos'' e), td1)
      | (Inr ts, td1) \<Rightarrow>
          let shown = map (todo_summary T) (take (min (u64_or params ''limit'' 20) 100) ts)
          in (Inr (JObject [(''count'', json_nat (length shown)), (''todos'', JArray shown)]), td1))"

text \<open>The short id of a summary is the slice of the first eight bytes, which panics inside a character.\<close>

definition short_id :: "string \<Rightarrow> string option" where
  "short_id s = (let n = min (length s) 8 in if is_char_boundary s n then Some (take n s) else None)"

subsection \<open>Routine tools\<close>

definition parse_trigger :: "tool_env \<Rightarrow> routine_env \<Rightarrow> datetime \<Rightarrow> string \<Rightarrow> json \<Rightarrow> tool_error + trigger" where
  "parse_trigger T E now ty params =
     (if ty = ''cron'' then
        (case optional_str params ''schedule'' of
           None \<Rightarrow> Inl (InvalidParameters (''cron trigger requires '' @ quoted ''schedule''))
         | Some s \<Rightarrow> (case next_cron_fire E now s of
             Inl e \<Rightarrow> Inl (InvalidParameters (''invalid cron: '' @ e)) | Inr _ \<Rightarrow> Inr (CronTrigger s)))
      else if ty = ''event'' then
        (case optional_str params ''event_pattern'' of
           None \<Rightarrow> Inl (InvalidParameters (''event trigger requires '' @ quoted ''event_pattern''))
         | Some p \<Rightarrow>
             if rn_compiles E p then Inr (EventTrigger (optional_str params ''event_channel'') p)
             else Inl (InvalidParameters (''invalid regex: '' @ te_regex_error T p)))
      else if ty = ''webhook'' then Inr (WebhookTrigger None None)
      else if ty = ''manual'' then Inr ManualTrigger
      else Inl (InvalidParameters (''unknown trigger_type: '' @ ty)))"

definition parse_action :: "string \<Rightarrow> string \<Rightarrow> json \<Rightarrow> tool_error + routine_action" where
  "parse_action name prompt params =
     (let ty = value_or (optional_str params ''action_type'') ''lightweight'';
          paths = (case get_array params ''context_paths'' of None \<Rightarrow> [] | Some xs \<Rightarrow> List.map_filter as_str xs)
      in if ty = ''lightweight'' then Inr (Lightweight prompt paths 4096)
         else if ty = ''full_job'' then Inr (FullJob name prompt 10)
         else Inl (InvalidParameters (''unknown action_type: '' @ ty)))"

definition first_fire :: "routine_env \<Rightarrow> datetime \<Rightarrow> trigger \<Rightarrow> datetime option" where
  "first_fire E now t = (case t of
     CronTrigger s \<Rightarrow> (case next_cron_fire E now s of Inl _ \<Rightarrow> None | Inr x \<Rightarrow> x) | _ \<Rightarrow> None)"

definition time_json :: "tool_env \<Rightarrow> datetime option \<Rightarrow> json" where
  "time_json T = json_opt (\<lambda>t. JString (te_time T t))"

definition tool_routine_create ::
  "tool_env \<Rightarrow> routine_env \<Rightarrow> string \<Rightarrow> datetime \<Rightarrow> json \<Rightarrow> routine_engine \<Rightarrow> (tool_error + json) \<times> routine_engine" where
  "tool_routine_create T E user now params s =
     (case require_str params ''name'' of Inl e \<Rightarrow> (Inl e, s) | Inr name \<Rightarrow>
      case require_str params ''trigger_type'' of Inl e \<Rightarrow> (Inl e, s) | Inr ty \<Rightarrow>
      case require_str params ''prompt'' of Inl e \<Rightarrow> (Inl e, s) | Inr prompt \<Rightarrow>
      case parse_trigger T E now ty params of Inl e \<Rightarrow> (Inl e, s) | Inr trig \<Rightarrow>
      case parse_action name prompt params of Inl e \<Rightarrow> (Inl e, s) | Inr act \<Rightarrow>
      let (i, s1) = draw_id E s;
          r = \<lparr>ro_id = i, ro_name = name, ro_description = value_or (optional_str params ''description'') [],
               ro_user_id = user, ro_enabled = True, ro_trigger = trig, ro_action = act,
               ro_guardrails = \<lparr>gr_cooldown = duration_secs (int (u64_or params ''cooldown_secs'' 300)),
                  gr_max_concurrent = 1, gr_dedup_window = None\<rparr>,
               ro_notify = default_notify, ro_last_run_at = None, ro_next_fire_at = first_fire E now trig,
               ro_run_count = 0, ro_consecutive_failures = 0, ro_state = JObject [], ro_created_at = now, ro_updated_at = now\<rparr>
      in case on_db (create_routine now r) s1 of
           (Inl e, s2) \<Rightarrow> (Inl (db_failure ''Create routine'' e), s2)
         | (Inr _, s2) \<Rightarrow>
             (Inr (JObject [(''id'', JString (te_uuid_str T i)), (''name'', JString name),
                (''trigger_type'', JString (trigger_tag trig)), (''next_fire_at'', time_json T (ro_next_fire_at r)),
                (''status'', JString ''created'')]),
              if trigger_tag trig = ''event'' then refresh_event_cache E s2 else s2))"

definition routine_summary :: "tool_env \<Rightarrow> routine \<Rightarrow> json" where
  "routine_summary T r = JObject
     [(''id'', JString (te_uuid_str T (ro_id r))), (''name'', JString (ro_name r)),
      (''description'', JString (ro_description r)), (''enabled'', JBool (ro_enabled r)),
      (''trigger_type'', JString (trigger_tag (ro_trigger r))), (''action_type'', JString (action_tag (ro_action r))),
      (''last_run_at'', time_json T (ro_last_run_at r)), (''next_fire_at'', time_json T (ro_next_fire_at r)),
      (''run_count'', json_nat (unat (ro_run_count r))),
      (''consecutive_failures'', json_nat (unat (ro_consecutive_failures r)))]"

definition tool_routine_list ::
  "tool_env \<Rightarrow> string \<Rightarrow> routine_engine \<Rightarrow> (tool_error + json) \<times> routine_engine" where
  "tool_routine_list T user s = (case on_db (list_routines user) s of
     (Inl e, s1) \<Rightarrow> (Inl (db_failure ''List routines'' e), s1)
   | (Inr rs, s1) \<Rightarrow> (Inr (JObject [(''count'', json_nat (length rs)), (''routines'', JArray (map (routine_summary T) rs))]), s1))"

text \<open>The lookup by name that three of the tools begin with.\<close>

definition find_named ::
  "string \<Rightarrow> string \<Rightarrow> routine_engine \<Rightarrow> (tool_error + routine) \<times> routine_engine" where
  "find_named user name s = (case on_db (get_routine_by_name user name) s of
     (Inl e, s1) \<Rightarrow> (Inl (db_failure ''Get routine'' e), s1)
   | (Inr None, s1) \<Rightarrow> (Inl (ExecutionFailed (''routine '' @ quoted name @ '' not found'')), s1)
   | (Inr (Some r), s1) \<Rightarrow> (Inr r, s1))"

fun with_prompt :: "string \<Rightarrow> routine_action \<Rightarrow> routine_action" where
  "with_prompt p (Lightweight _ cs n) = Lightweight p cs n"
| "with_prompt p (FullJob t _ n) = FullJob t p n"

definition changed_routine :: "json \<Rightarrow> routine \<Rightarrow> routine" where
  "changed_routine params r = r\<lparr>ro_enabled := value_or (optional_bool params ''enabled'') (ro_enabled r),
     ro_description := value_or (optional_str params ''description'') (ro_description r),
     ro_action := (case optional_str params ''prompt'' of None \<Rightarrow> ro_action r | Some p \<Rightarrow> with_prompt p (ro_action r))\<rparr>"

definition rescheduled :: "routine_env \<Rightarrow> datetime \<Rightarrow> json \<Rightarrow> routine \<Rightarrow> tool_error + routine" where
  "rescheduled E now params r = (case optional_str params ''schedule'' of
     None \<Rightarrow> Inr r
   | Some s \<Rightarrow> (case next_cron_fire E now s of
       Inl e \<Rightarrow> Inl (InvalidParameters (''invalid cron: '' @ e))
     | Inr t \<Rightarrow> Inr (r\<lparr>ro_trigger := CronTrigger s, ro_next_fire_at := t\<rparr>)))"

definition tool_routine_update ::
  "tool_env \<Rightarrow> routine_env \<Rightarrow> string \<Rightarrow> datetime \<Rightarrow> json \<Rightarrow> routine_engine \<Rightarrow> (tool_error + json) \<times> routine_engine" where
  "tool_routine_update T E user now params s =
     (case require_str params ''name'' of Inl e \<Rightarrow> (Inl e, s) | Inr name \<Rightarrow>
      case find_named user name s of (Inl e, s1) \<Rightarrow> (Inl e, s1) | (Inr r0, s1) \<Rightarrow>
      case rescheduled E now params (changed_routine params r0) of Inl e \<Rightarrow> (Inl e, s1) | Inr r \<Rightarrow>
      case on_db (update_routine now r) s1 of
        (Inl e, s2) \<Rightarrow> (Inl (db_failure ''Update routine'' e), s2)
      | (Inr _, s2) \<Rightarrow>
          (Inr (JObject [(''name'', JString (ro_name r)), (''enabled'', JBool (ro_enabled r)),
             (''trigger_type'', JString (trigger_tag (ro_trigger r))), (''next_fire_at'', time_json T (ro_next_fire_at r)),
             (''status'', JString ''updated'')]), refresh_event_cache E s2))"

definition tool_routine_delete ::
  "routine_env \<Rightarrow> string \<Rightarrow> json \<Rightarrow> routine_engine \<Rightarrow> (tool_error + json) \<times> routine_engine" where
  "tool_routine_delete E user params s =
     (case require_str params ''name'' of Inl e \<Rightarrow> (Inl e, s) | Inr name \<Rightarrow>
      case find_named user name s of (Inl e, s1) \<Rightarrow> (Inl e, s1) | (Inr r, s1) \<Rightarrow>
      case on_db (delete_routine (ro_id r)) s1 of
        (Inl e, s2) \<Rightarrow> (Inl (db_failure ''Delete routine'' e), s2)
      | (Inr deleted, s2) \<Rightarrow> (Inr (JObject [(''name'', JString name), (''deleted'', JBool deleted)]), refresh_event_cache E s2))"

text \<open>\<open>num_seconds\<close> rounds towards zero.\<close>

definition num_seconds :: "duration \<Rightarrow> int" where
  "num_seconds d = (if d < 0 then - (- d div nanos_per_sec) else d div nanos_per_sec)"

definition run_summary :: "tool_env \<Rightarrow> routine_run \<Rightarrow> json" where
  "run_summary T r = JObject
     [(''id'', JString (te_uuid_str T (ru_id r))), (''trigger_type'', JString (ru_trigger_type r)),
      (''trigger_detail'', json_opt JString (ru_trigger_detail r)), (''started_at'', JString (te_time T (ru_started_at r))),
      (''completed_at'', time_json T (ru_completed_at r)),
      (''duration_secs'', json_opt (\<lambda>c. json_int (num_seconds (c - ru_started_at r))) (ru_completed_at r)),
      (''status'', JString (show_run_status (ru_status r))), (''result_summary'', json_opt JString (ru_result_summary r)),
      (''tokens_used'', json_opt (\<lambda>n. json_int (sint n)) (ru_tokens_used r))]"

definition tool_routine_history ::
  "tool_env \<Rightarrow> string \<Rightarrow> json \<Rightarrow> routine_engine \<Rightarrow> (tool_error + json) \<times> routine_engine" where
  "tool_routine_history T user params s =
     (case require_str params ''name'' of Inl e \<Rightarrow> (Inl e, s) | Inr name \<Rightarrow>
      case find_named user name s of (Inl e, s1) \<Rightarrow> (Inl e, s1) | (Inr r, s1) \<Rightarrow>
      case on_db (list_routine_runs (ro_id r) (int (min (u64_or params ''limit'' 10) 50))) s1 of
        (Inl e, s2) \<Rightarrow> (Inl (db_failure ''List routine runs'' e), s2)
      | (Inr runs, s2) \<Rightarrow> (Inr (JObject [(''routine'', JString name), (''total_runs'', json_nat (unat (ro_run_count r))),
          (''runs'', JArray (map (run_summary T) runs))]), s2))"

subsection \<open>Drafts and questions\<close>

definition tool_create_message ::
  "tool_env \<Rightarrow> uuid \<Rightarrow> datetime \<Rightarrow> json \<Rightarrow> card_queue \<Rightarrow> (tool_error + json) \<times> card_queue" where
  "tool_create_message T fresh now params q =
     (case require_str params ''recipient'' of Inl e \<Rightarrow> (Inl e, q) | Inr recipient \<Rightarrow>
      case require_str params ''channel'' of Inl e \<Rightarrow> (Inl e, q) | Inr chan \<Rightarrow>
      case require_str params ''draft_body'' of Inl e \<Rightarrow> (Inl e, q) | Inr draft \<Rightarrow>
      case require_uuid (te_parse_uuid T) params ''todo_id'' of Inl e \<Rightarrow> (Inl e, q) | Inr todo \<Rightarrow>
      let c = without_expiry (with_todo_id todo
            (new_compose fresh now chan recipient (optional_str params ''subject'') draft (Fin (9 / 10)) 30))
      in (Inr (JObject [(''card_id'', JString (te_uuid_str T fresh)), (''recipient'', JString recipient),
            (''channel'', JString chan), (''message'',
             JString ''Message draft created as approval card. User will review and approve before sending.'')]),
          push now c q))"

text \<open>A question: the tool registers its channel, pushes the card and waits; \<open>tool_ask_answered\<close> is what it
  does when the channel answers, is closed, or ten minutes pass.\<close>

datatype ask_outcome = Answered choice_result | AskClosed | AskTimeout

definition ASK_TIMEOUT :: duration where
  "ASK_TIMEOUT = duration_secs 600"

definition tool_ask_user ::
  "uuid \<Rightarrow> nat \<Rightarrow> datetime \<Rightarrow> json \<Rightarrow> choice_registry \<times> card_queue \<Rightarrow> (tool_error + string) \<times> choice_registry \<times> card_queue" where
  "tool_ask_user fresh tx now params s =
     (case require_str params ''question'' of Inl e \<Rightarrow> (Inl e, s) | Inr question \<Rightarrow>
      case require_param params ''options'' of Inl e \<Rightarrow> (Inl e, s) | Inr v \<Rightarrow>
      case as_array v of None \<Rightarrow> (Inl (InvalidParameters (quoted ''options'' @ '' must be an array'')), s) | Some xs \<Rightarrow>
      let options = List.map_filter as_str xs
      in if options = [] \<or> length options > 3 then (Inl (InvalidParameters ''options must contain 1-3 items''), s)
         else (Inr question, register_choice fresh tx (fst s), push now (new_multiple_choice fresh now question options Messages) (snd s)))"

definition tool_ask_answered ::
  "uuid \<Rightarrow> string \<Rightarrow> ask_outcome \<Rightarrow> choice_registry \<Rightarrow> (tool_error + json) \<times> choice_registry" where
  "tool_ask_answered i question outcome r = (case outcome of
     Answered (Selected opt) \<Rightarrow> (Inr (JObject [(''selected'', JString opt), (''question'', JString question)]), r)
   | Answered ChoiceDismissed \<Rightarrow> (Inr (JString ''User dismissed the question without choosing an option.''), r)
   | AskClosed \<Rightarrow> (Inl (ExecutionFailed ''Choice channel closed unexpectedly''), remove_choice i r)
   | AskTimeout \<Rightarrow> (Inl (ToolTimeout ASK_TIMEOUT), remove_choice i r))"

end
