(* ===== verification/Tool_Store_Safety.thy ===== *)
theory Tool_Store_Safety
  imports Tool_Store Routine_Safety
begin

text \<open>
  What the store tools do to the tables: a failing call leaves no trace, rows keep their types and owners,
  the list a user gets, the time of a rescheduled routine, and the text search of documents.
\<close>

subsection \<open>Failing calls\<close>

lemma document_tools_fail:
  "fst (tool_create_document T user fresh now params db) = Inl e \<Longrightarrow>
    dd_documents (snd (tool_create_document T user fresh now params db)) = dd_documents db"
  "fst (tool_update_document T now params db) = Inl e \<Longrightarrow>
    dd_documents (snd (tool_update_document T now params db)) = dd_documents db"
  by (auto simp: tool_create_document_def tool_update_document_def Let_def create_document_def update_document_def
      get_document_def dd_tick_def dd_exec_def dd_query_def split: sum.splits prod.splits option.splits if_splits)

definition same_todos :: "todo_side \<Rightarrow> todo_side \<Rightarrow> bool" where
  "same_todos s s' \<longleftrightarrow> td_rows (fst s') = td_rows (fst s) \<and> snd s' = snd s"

lemma todo_create_fails:
  "fst (tool_create_todo T user fresh now params s) = Inl e \<Longrightarrow> same_todos s (snd (tool_create_todo T user fresh now params s))"
  by (auto simp: same_todos_def tool_create_todo_def Let_def create_todo_def td_tick_def
      split: sum.splits prod.splits option.splits if_splits)

lemma todo_update_fails:
  "fst (tool_update_todo T now params s) = Inl e \<Longrightarrow> same_todos s (snd (tool_update_todo T now params s))"
  by (auto simp: same_todos_def tool_update_todo_def Let_def get_todo_def update_todo_def td_tick_def td_query_def td_execute_def
      split: sum.splits prod.splits option.splits if_splits)

lemma todo_delete_fails:
  "fst (tool_delete_todo T params s) = Inl e \<Longrightarrow> same_todos s (snd (tool_delete_todo T params s))"
  by (auto simp: same_todos_def tool_delete_todo_def delete_todo_def td_tick_def intro!: filter_True
      split: sum.splits prod.splits option.splits if_splits bool.splits)

text \<open>What a failing call of a routine tool may change: the pattern of failing statements and the counter of ids.\<close>

definition same_routines :: "routine_engine \<Rightarrow> routine_engine \<Rightarrow> bool" where
  "same_routines s s' \<longleftrightarrow> rb_routines (en_db s') = rb_routines (en_db s) \<and> rb_runs (en_db s') = rb_runs (en_db s) \<and>
     en_cache s' = en_cache s \<and> en_spawned s' = en_spawned s \<and> en_active s' = en_active s"

lemma on_db_same:
  "on_db (get_routine_by_name user name) s = (y, s') \<Longrightarrow> same_routines s s'"
  "on_db (create_routine now r) s = (Inl e, s') \<Longrightarrow> same_routines s s'"
  "on_db (update_routine now r) s = (Inl e, s') \<Longrightarrow> same_routines s s'"
  "on_db (delete_routine i) s = (Inl e, s') \<Longrightarrow> same_routines s s'"
  by (auto simp: on_db_def get_routine_by_name_def create_routine_def update_routine_def delete_routine_def rb_query_def
      rb_exec_def rb_tick_def same_routines_def split: prod.splits if_splits)

lemma same_routines_refl: "same_routines s s"
  by (simp add: same_routines_def)

lemma same_routines_trans: "same_routines s t \<Longrightarrow> same_routines t u \<Longrightarrow> same_routines s u"
  by (simp add: same_routines_def)

lemma same_routines_draw: "draw_id E s = (i, s') \<Longrightarrow> same_routines s s'"
  by (auto simp: draw_id_def same_routines_def)

lemma find_named_same: "find_named user name s = (y, s') \<Longrightarrow> same_routines s s'"
  by (auto simp: find_named_def dest: on_db_same(1) split: prod.splits sum.splits option.splits)

lemma routine_create_fails:
  assumes "fst (tool_routine_create T E user now params s) = Inl e"
  shows "same_routines s (snd (tool_routine_create T E user now params s))"
  using assms
  by (auto simp: tool_routine_create_def Let_def same_routines_refl
      intro: same_routines_trans [OF same_routines_draw on_db_same(2)] split: sum.splits prod.splits)

lemma routine_update_fails:
  assumes "fst (tool_routine_update T E user now params s) = Inl e"
  shows "same_routines s (snd (tool_routine_update T E user now params s))"
  using assms
  by (auto simp: tool_routine_update_def same_routines_refl
      intro: find_named_same same_routines_trans [OF find_named_same on_db_same(3)] split: sum.splits prod.splits)

lemma routine_delete_fails:
  assumes "fst (tool_routine_delete E user params s) = Inl e"
  shows "same_routines s (snd (tool_routine_delete E user params s))"
  using assms
  by (auto simp: tool_routine_delete_def same_routines_refl
      intro: find_named_same same_routines_trans [OF find_named_same on_db_same(4)] split: sum.splits prod.splits)

lemma message_tools_fail:
  "fst (tool_create_message T fresh now params q) = Inl e \<Longrightarrow> snd (tool_create_message T fresh now params q) = q"
  "fst (tool_ask_user fresh tx now params c) = Inl e \<Longrightarrow> snd (tool_ask_user fresh tx now params c) = c"
  by (auto simp: tool_create_message_def tool_ask_user_def Let_def split: sum.splits option.splits if_splits)


subsection \<open>To-dos\<close>

text \<open>A table of to-dos: one row per id, priorities in the range of \<open>i32\<close>.\<close>

definition typed_todo :: "todo_item \<Rightarrow> bool" where
  "typed_todo t \<longleftrightarrow> - (2 ^ 31) \<le> t_priority t \<and> t_priority t < 2 ^ 31"

definition typed_todos :: "todo_store \<Rightarrow> bool" where
  "typed_todos td \<longleftrightarrow> distinct (map t_id (td_rows td)) \<and> list_all typed_todo (td_rows td)"

fun typed_message :: "todo_ws_message \<Rightarrow> bool" where
  "typed_message (TodoCreated t) = typed_todo t"
| "typed_message (TodoUpdated t) = typed_todo t"
| "typed_message (TodosSync ts) = list_all typed_todo ts"
| "typed_message (SearchResults q ts) = list_all typed_todo ts"
| "typed_message _ = True"

lemma cast_i32_range: "- (2 ^ 31) \<le> cast_i32 i" "cast_i32 i < 2 ^ 31"
  using sint_greater_eq [of "word_of_int i :: 32 word"] sint_less [of "word_of_int i :: 32 word"] by (simp_all add: cast_i32_def)

lemma requested_priority_typed:
  "- (2 ^ 31) \<le> d \<Longrightarrow> d < 2 ^ 31 \<Longrightarrow> - (2 ^ 31) \<le> value_or (requested_priority params) d \<and> value_or (requested_priority params) d < 2 ^ 31"
  using cast_i32_range by (auto simp: value_or_def requested_priority_def split: option.splits)

lemma typed_as_stored: "typed_todo (as_stored t) = typed_todo t" "t_id (as_stored t) = t_id t"
  by (simp_all add: typed_todo_def as_stored_def)

lemma tool_create_todo_inr:
  assumes "tool_create_todo T user fresh now params s = (Inr out, s')"
  obtains t where "t_id t = fresh" "t_user_id t = (if user = [] then ''default'' else user)" "typed_todo t" "fresh \<notin> set (map t_id (td_rows (fst s)))"
    "td_rows (fst s') = td_rows (fst s) @ [as_stored t]" "snd s' = snd s @ [TodoCreated t]" "td_faults (fst s') = tl (td_faults (fst s))"
proof -
  from assms obtain title ty bucket d p dd where *: "requested_priority params = p"
    "s' = ((td_tick (fst s))\<lparr>td_rows := td_rows (fst s) @ [as_stored (new_todo fresh now (if user = [] then ''default'' else user) title ty bucket
        \<lparr>t_description := d, t_priority := value_or p 0, t_due_date := dd, t_context := json_get params ''context''\<rparr>)]\<rparr>,
      snd s @ [TodoCreated (new_todo fresh now (if user = [] then ''default'' else user) title ty bucket
        \<lparr>t_description := d, t_priority := value_or p 0, t_due_date := dd, t_context := json_get params ''context''\<rparr>)])"
    "fresh \<notin> set (map t_id (td_rows (fst s)))"
    by (auto simp: tool_create_todo_def Let_def create_todo_def new_todo_def split: sum.splits prod.splits option.splits if_splits)
  show thesis
    by (rule that [of "new_todo fresh now (if user = [] then ''default'' else user) title ty bucket
        \<lparr>t_description := d, t_priority := value_or p 0, t_due_date := dd, t_context := json_get params ''context''\<rparr>"])
      (use * requested_priority_typed [of 0 params] in \<open>auto simp: new_todo_def typed_todo_def td_tick_def\<close>)
qed

text \<open>An update: the item read, and the item written over the row and broadcast.\<close>

definition same_identity :: "todo_item \<Rightarrow> todo_item \<Rightarrow> bool" where
  "same_identity t u \<longleftrightarrow> t_id u = t_id t \<and> t_user_id u = t_user_id t \<and> t_todo_type u = t_todo_type t \<and>
     t_bucket u = t_bucket t \<and> t_source_card_id u = t_source_card_id t \<and> t_snoozed_until u = t_snoozed_until t \<and>
     t_parent_id u = t_parent_id t \<and> t_is_agent_internal u = t_is_agent_internal t \<and>
     t_agent_progress u = t_agent_progress t \<and> t_thread_id u = t_thread_id t \<and> t_created_at u = t_created_at t"

lemma tool_update_todo_inr:
  assumes "tool_update_todo T now params s = (Inr out, s')"
  obtains i t u where "require_uuid (te_parse_uuid T) params ''id'' = Inr i" "List.find (\<lambda>t. t_id t = i) (td_rows (fst s)) = Some t"
    "same_identity t u" "t_updated_at u = now" "t_priority u = value_or (requested_priority params) (t_priority t)"
    "td_rows (fst s') = map (\<lambda>r. if t_id r = i then (as_stored u)\<lparr>t_user_id := t_user_id r, t_created_at := t_created_at r\<rparr> else r) (td_rows (fst s))"
    "snd s' = snd s @ [TodoUpdated u]"
proof -
  from assms obtain i where i: "require_uuid (te_parse_uuid T) params ''id'' = Inr i"
    by (auto simp: tool_update_todo_def split: sum.splits)
  from assms i obtain t where t: "List.find (\<lambda>t. t_id t = i) (td_rows (fst s)) = Some t" "\<not> td_fault (fst s)"
    by (auto simp: tool_update_todo_def get_todo_def td_query_def split: sum.splits option.splits if_splits)
  have ti: "t_id t = i" using t(1) by (auto simp: find_Some_iff)
  from assms i t obtain st dd where *: "parse_status_param params = Inr st" "parse_due T params = Inr dd"
    by (auto simp: tool_update_todo_def get_todo_def td_query_def split: sum.splits)
  show thesis
    by (rule that [OF i t(1), of "t\<lparr>t_title := value_or (optional_str params ''title'') (t_title t),
          t_description := some_or (optional_str params ''description'') (t_description t),
          t_status := value_or st (t_status t), t_priority := value_or (requested_priority params) (t_priority t),
          t_due_date := some_or dd (t_due_date t), t_context := some_or (json_get params ''context'') (t_context t), t_updated_at := now\<rparr>"])
      (use assms i t ti * in \<open>auto simp: tool_update_todo_def get_todo_def td_query_def update_todo_def td_execute_def td_tick_def
        same_identity_def Let_def split: sum.splits prod.splits if_splits\<close>)
qed


text \<open>An update by the tool is an edit: it finds the row of the id, keeps its owner, type, bucket, origin,
  parent and time of creation, writes the row and no other, and broadcasts what it wrote.\<close>

theorem todo_update_is_edit:
  assumes "distinct (map t_id (td_rows (fst s)))" "tool_update_todo T now params s = (Inr out, s')"
  shows "\<exists>i t u. require_uuid (te_parse_uuid T) params ''id'' = Inr i \<and> t \<in> set (td_rows (fst s)) \<and> t_id t = i \<and>
    same_identity t u \<and> t_updated_at u = now \<and> snd s' = snd s @ [TodoUpdated u] \<and>
    td_rows (fst s') = map (\<lambda>r. if t_id r = i then as_stored u else r) (td_rows (fst s))"
  using assms(2)
proof (rule tool_update_todo_inr)
  fix i t u
  assume *: "require_uuid (te_parse_uuid T) params ''id'' = Inr i" "List.find (\<lambda>t. t_id t = i) (td_rows (fst s)) = Some t"
    "same_identity t u" "t_updated_at u = now" "snd s' = snd s @ [TodoUpdated u]"
    and rows: "td_rows (fst s') = map (\<lambda>r. if t_id r = i then (as_stored u)\<lparr>t_user_id := t_user_id r, t_created_at := t_created_at r\<rparr> else r) (td_rows (fst s))"
  have t: "t \<in> set (td_rows (fst s))" "t_id t = i" using *(2) by (auto simp: find_Some_iff)
  then have "r = t" if "r \<in> set (td_rows (fst s))" "t_id r = i" for r
    using assms(1) that by (metis distinct_map inj_onD)
  moreover have "(as_stored u)\<lparr>t_user_id := t_user_id t, t_created_at := t_created_at t\<rparr> = as_stored u"
    using *(3) by (simp add: same_identity_def as_stored_def)
  ultimately have "td_rows (fst s') = map (\<lambda>r. if t_id r = i then as_stored u else r) (td_rows (fst s))"
    unfolding rows by (intro map_cong) auto
  then show ?thesis using * t by blast
qed

text \<open>A to-do created through the tool belongs to the user who asked, but the list of the tool is always
  that of the user \<open>default\<close>: anyone else never sees it there, under any filter and limit.\<close>

theorem other_users_todo_not_listed:
  assumes "user \<notin> {[], ''default''}" "td_faults (fst s) = []" "tool_create_todo T user fresh now params s = (Inr out, s')"
  shows "(\<exists>t. td_rows (fst s') = td_rows (fst s) @ [t] \<and> t_id t = fresh \<and> t_user_id t = user) \<and>
    fst (tool_list_todos T p (fst s')) = fst (tool_list_todos T p (fst s))"
  using assms(3)
proof (rule tool_create_todo_inr)
  fix t
  assume "t_id t = fresh" "t_user_id t = (if user = [] then ''default'' else user)" "td_rows (fst s') = td_rows (fst s) @ [as_stored t]"
    "td_faults (fst s') = tl (td_faults (fst s))"
  then show ?thesis
    using assms(1,2)
    by (auto simp: as_stored_def tool_list_todos_def list_todos_by_status_def list_user_todos_def td_query_def td_fault_def
        by_priority_def Let_def split: sum.split option.split)
qed

subsection \<open>Search\<close>

declare like.simps(2) [simp del]

lemma like_all: "like [''%''] s"
  by (induction s) (simp_all add: like.simps(2) [of "''%''"])

lemma like_plain_prefix:
  assumes "\<forall>p \<in> set ps. p \<noteq> ''%'' \<and> p \<noteq> ''_''"
  shows "like (ps @ [''%'']) s = prefix (map to_lowercase ps) (map to_lowercase s)"
  using assms
proof (induction ps arbitrary: s)
  case Nil
  then show ?case by (simp add: like_all)
next
  case (Cons p ps)
  then show ?case by (cases s) (simp_all add: like.simps(2) [of p])
qed

lemma like_plain_sublist:
  assumes "\<forall>p \<in> set ps. p \<noteq> ''%'' \<and> p \<noteq> ''_''"
  shows "like (''%'' # ps @ [''%'']) s = sublist (map to_lowercase ps) (map to_lowercase s)"
proof (induction s)
  case Nil
  show ?case by (simp add: like.simps(2) [of "''%''"] like_plain_prefix [OF assms])
next
  case (Cons c s)
  then show ?case by (simp add: like.simps(2) [of "''%''" _ "c # s"] like_plain_prefix [OF assms] sublist_Cons_right)
qed

text \<open>The meaning of a search: the characters of the query occur in a row, in either case.\<close>

definition contains_ignoring_case :: "string \<Rightarrow> string \<Rightarrow> bool" where
  "contains_ignoring_case q s = sublist (map to_lowercase (chars q)) (map to_lowercase (chars s))"

lemma like_query_plain:
  assumes "CHR ''%'' \<notin> set q" "CHR ''_'' \<notin> set q"
  shows "like_query q s = contains_ignoring_case q s"
proof -
  have "\<forall>p \<in> set (chars q). set p \<subseteq> set q" using concat_chars [of q] by (metis UN_upper set_concat)
  then have "\<forall>p \<in> set (chars q). p \<noteq> ''%'' \<and> p \<noteq> ''_''" using assms by fastforce
  then show ?thesis by (simp add: like_query_def contains_ignoring_case_def like_plain_sublist)
qed

text \<open>C28: For a query without a percent sign and an underscore, the pattern match of the database is a search
  for a piece of text in either case: \<open>find_document\<close> returns the newest documents that contain the query in
  the title or the content, and of the type asked for, and a search of to-dos those of the user.\<close>

theorem search_is_containment:
  assumes "CHR ''%'' \<notin> set q" "CHR ''_'' \<notin> set q"
  shows "fst (search_documents q ty limit db) = (if dd_fault db then Inl (QueryError ''search_documents'') else
      Inr (take limit (newest_first [d \<leftarrow> dd_documents db. (contains_ignoring_case q (doc_title d) \<or> contains_ignoring_case q (doc_content d)) \<and>
        (ty = None \<or> ty = Some (doc_type d))]))) \<and>
    (\<forall>ts. fst (search_todos user q limit td) = Inr ts \<longrightarrow> length ts \<le> limit \<and>
      (\<forall>t \<in> set ts. t \<in> set (td_rows td) \<and> t_user_id t = user \<and> \<not> t_is_agent_internal t \<and>
        (contains_ignoring_case q (t_title t) \<or> (\<exists>d. t_description t = Some d \<and> contains_ignoring_case q d))))"
proof (intro conjI allI impI)
  show "fst (search_documents q ty limit db) = (if dd_fault db then Inl (QueryError ''search_documents'') else
      Inr (take limit (newest_first [d \<leftarrow> dd_documents db. (contains_ignoring_case q (doc_title d) \<or> contains_ignoring_case q (doc_content d)) \<and>
        (ty = None \<or> ty = Some (doc_type d))])))"
    by (cases ty) (simp_all add: search_documents_def dd_query_def like_query_plain [OF assms] eq_commute)
next
  fix ts assume "fst (search_todos user q limit td) = Inr ts"
  then have ts: "ts = take limit (sort_key (\<lambda>t. (\<not> contains_ignoring_case q (t_title t), t_priority t, - t_created_at t))
      (filter (\<lambda>t. t_user_id t = user \<and> \<not> t_is_agent_internal t \<and> (contains_ignoring_case q (t_title t) \<or>
        (case t_description t of None \<Rightarrow> False | Some d \<Rightarrow> contains_ignoring_case q d))) (td_rows td)))"
    by (auto simp: search_todos_def td_query_def like_query_plain [OF assms] cong: option.case_cong split: if_splits)
  show "length ts \<le> limit" by (simp add: ts)
  show "\<forall>t \<in> set ts. t \<in> set (td_rows td) \<and> t_user_id t = user \<and> \<not> t_is_agent_internal t \<and>
      (contains_ignoring_case q (t_title t) \<or> (\<exists>d. t_description t = Some d \<and> contains_ignoring_case q d))"
    unfolding ts by (auto dest!: in_set_takeD split: option.splits)
qed

subsection \<open>Rescheduled routines\<close>

lemma find_the_one: "x \<in> set xs \<Longrightarrow> P x \<Longrightarrow> (\<And>y. y \<in> set xs \<Longrightarrow> P y \<Longrightarrow> y = x) \<Longrightarrow> List.find P xs = Some x"
proof (induction xs)
  case (Cons a xs)
  show ?case
  proof (cases "P a")
    case True
    then show ?thesis using Cons.prems(3) [of a] by simp
  next
    case False
    then show ?thesis using Cons.prems(1,2) Cons.IH [OF _ Cons.prems(2)] Cons.prems(3) by fastforce
  qed
qed simp

text \<open>A new schedule is stored without its time. The answer of \<open>routine_update\<close> names the first time of
  the new schedule, but the row keeps the time of the old one, and until then, or at once if there was none, the
  ticker goes by it.\<close>

theorem rescheduled_time_not_stored:
  assumes "rb_faults (en_db s) = []" "distinct (map rr_id (rb_routines (en_db s)))"
    "distinct (map (\<lambda>k. (rr_user_id k, rr_name k)) (rb_routines (en_db s)))"
    and "get_str params ''name'' = Some name" "get_str params ''schedule'' = Some sched" "rn_cron E sched now = Inr t"
    and "k \<in> set (rb_routines (en_db s))" "rr_user_id k = user" "rr_name k = name" "row_to_routine k = Inr r"
  shows "\<exists>out s' k'. tool_routine_update T E user now params s = (Inr out, s') \<and> json_get out ''next_fire_at'' = Some (time_json T t) \<and>
    k' \<in> set (rb_routines (en_db s')) \<and> rr_id k' = rr_id k \<and> rr_trigger_type k' = ''cron'' \<and>
    rr_trigger_config k' = JObject [(''schedule'', JString sched)] \<and> rr_next_fire_at k' = rr_next_fire_at k \<and>
    (\<forall>later. cron_due later k' \<longleftrightarrow> rr_enabled k' \<and> (case rr_next_fire_at k of None \<Rightarrow> True | Some old \<Rightarrow> old \<le> later))"
proof -
  let ?db = "en_db s"
  let ?r = "(changed_routine params r)\<lparr>ro_trigger := CronTrigger sched, ro_next_fire_at := t\<rparr>"
  have r: "ro_id r = rr_id k" "ro_name r = name" "ro_user_id r = user"
    using assms(8-10) by (auto simp: row_to_routine_def split: sum.splits)
  have tick: "rb_tick ?db = ?db" "\<not> rb_fault ?db" using assms(1) by (simp_all add: rb_tick_def rb_fault_def)
  have eq: "x = k" if "x \<in> set (rb_routines ?db)" "rr_user_id x = user" "rr_name x = name" for x
    using assms(3,7-9) that by (metis (mono_tags, lifting) distinct_map inj_onD)
  have "List.find (\<lambda>k. rr_user_id k = user \<and> rr_name k = name) (rb_routines ?db) = Some k"
    by (rule find_the_one [OF assms(7)]) (use assms(8,9) eq in simp_all)
  then have named: "find_named user name s = (Inr r, s)"
    using tick assms(10) by (simp add: find_named_def on_db_def get_routine_by_name_def rb_query_def read_one_def)
  have re: "rescheduled E now params (changed_routine params r) = Inr ?r"
    using assms(5,6) by (simp add: rescheduled_def optional_str_def next_cron_fire_def)
  have own: "x = k" if "x \<in> set (rb_routines ?db)" "rr_id x = rr_id k" for x
    using assms(2,7) that by (metis distinct_map inj_onD)
  have "List.find (\<lambda>x. rr_id x = rr_id k) (rb_routines ?db) = Some k"
    by (rule find_the_one [OF assms(7)]) (use own in simp_all)
  moreover have "list_all (\<lambda>x. rr_id x = rr_id k \<or> (rr_user_id x, rr_name x) \<noteq> (user, name)) (rb_routines ?db)"
    using eq by (auto simp: list_all_iff)
  ultimately have up: "update_routine now ?r ?db = (Inr (), ?db\<lparr>rb_routines := map (\<lambda>x. if rr_id x = rr_id k then update_row now ?r x else x) (rb_routines ?db)\<rparr>)"
    using tick assms(8) r by (simp add: update_routine_def rb_exec_def changed_routine_def)
  let ?s1 = "s\<lparr>en_db := ?db\<lparr>rb_routines := map (\<lambda>x. if rr_id x = rr_id k then update_row now ?r x else x) (rb_routines ?db)\<rparr>\<rparr>"
  have rows: "rb_routines (en_db (refresh_event_cache E ?s1)) = rb_routines (en_db ?s1)"
    by (auto simp: refresh_event_cache_def on_db_def list_event_routines_def rb_query_def rb_tick_def split: sum.splits)
  have new: "update_row now ?r k \<in> set (rb_routines (en_db (refresh_event_cache E ?s1)))"
    unfolding rows using assms(7) by force
  have k: "rr_id (update_row now ?r k) = rr_id k" "rr_trigger_type (update_row now ?r k) = ''cron''"
    "rr_trigger_config (update_row now ?r k) = JObject [(''schedule'', JString sched)]"
    "rr_next_fire_at (update_row now ?r k) = rr_next_fire_at k"
    by (simp_all add: update_row_def routine_to_row_def)
  have "tool_routine_update T E user now params s = (Inr (JObject [(''name'', JString (ro_name ?r)), (''enabled'', JBool (ro_enabled ?r)),
      (''trigger_type'', JString ''cron''), (''next_fire_at'', time_json T t), (''status'', JString ''updated'')]), refresh_event_cache E ?s1)"
    using assms(4) named re up by (simp add: tool_routine_update_def require_str_def on_db_def)
  then obtain out where "tool_routine_update T E user now params s = (Inr out, refresh_event_cache E ?s1)"
    "json_get out ''next_fire_at'' = Some (time_json T t)"
    by simp
  with new k show ?thesis
    unfolding cron_due_def by (intro exI [of _ out] exI [of _ "refresh_event_cache E ?s1"] exI [of _ "update_row now ?r k"]) simp
qed

subsection \<open>Examples\<close>

definition sample_tool_env :: tool_env where
  "sample_tool_env = \<lparr>te_parse_uuid = (\<lambda>s. if s = ''3'' then Some 3 else None), te_uuid_str = (\<lambda>_. ''3''),
     te_time = (\<lambda>_. ''t''), te_parse_time = (\<lambda>_. Inl ''bad''), te_regex_error = (\<lambda>_. ''bad'')\<rparr>"

definition sample_td :: todo_store where
  "sample_td = \<lparr>td_rows = [new_todo 3 0 ''default'' ''t'' Research HumanOnly], td_faults = []\<rparr>"

definition update_params :: json where
  "update_params = JObject [(''id'', JString ''3''), (''title'', JString ''u''), (''priority'', JNumber (PosInt 4294967297))]"

definition create_params :: json where
  "create_params = JObject [(''title'', JString ''u''), (''todo_type'', JString ''errand'')]"


lemma sample_update: "\<exists>out s'. tool_update_todo sample_tool_env 1 update_params (sample_td, []) = (Inr out, s')"
  by (simp add: tool_update_todo_def require_uuid_def require_str_def get_str_def update_params_def sample_tool_env_def sample_td_def
      get_todo_def update_todo_def td_query_def td_execute_def td_fault_def parse_status_param_def parse_due_def optional_str_def new_todo_def Let_def)


theorem todo_update_is_edit_witness:
  "\<exists>u. td_rows (fst (snd (tool_update_todo sample_tool_env 1 update_params (sample_td, [])))) = [as_stored u] \<and> t_user_id u = ''default''"
proof -
  obtain out s' where e: "tool_update_todo sample_tool_env 1 update_params (sample_td, []) = (Inr out, s')" using sample_update by blast
  have "distinct (map t_id (td_rows (fst (sample_td, []))))" by (simp add: sample_td_def)
  from todo_update_is_edit [OF this e] have "\<exists>u. td_rows (fst s') = [as_stored u] \<and> t_user_id u = ''default''"
    by (auto simp: sample_td_def same_identity_def new_todo_def)
  then show ?thesis by (simp add: e)
qed

theorem other_users_todo_not_listed_witness:
  "fst (tool_list_todos sample_tool_env (JObject []) (fst (snd (tool_create_todo sample_tool_env ''eve'' 9 1 create_params (sample_td, []))))) =
    fst (tool_list_todos sample_tool_env (JObject []) sample_td)"
proof -
  have "\<exists>out s'. tool_create_todo sample_tool_env ''eve'' 9 1 create_params (sample_td, []) = (Inr out, s')"
    by (simp add: tool_create_todo_def require_str_def get_str_def create_params_def sample_td_def Let_def parse_todo_type_def
        parse_due_def optional_str_def create_todo_def td_fault_def new_todo_def)
  then obtain out s' where e: "tool_create_todo sample_tool_env ''eve'' 9 1 create_params (sample_td, []) = (Inr out, s')" by blast
  show ?thesis using other_users_todo_not_listed [OF _ _ e, where p = "JObject []"] e by (simp add: sample_td_def)
qed

theorem search_is_containment_witness:
  "fst (search_documents ''A'' None 1 \<lparr>dd_documents = [new_document 1 0 3 ''x'' ''say'' DocNotes ''u''], dd_actions = [], dd_faults = []\<rparr>) =
    Inr [new_document 1 0 3 ''x'' ''say'' DocNotes ''u'']"
proof -
  have "contains_ignoring_case ''A'' ''say''" by code_simp
  then show ?thesis
    using search_is_containment [of "''A''" None 1 "\<lparr>dd_documents = [new_document 1 0 3 ''x'' ''say'' DocNotes ''u''], dd_actions = [], dd_faults = []\<rparr>"]
    by (simp add: new_document_def newest_first_def dd_fault_def)
qed

theorem rescheduled_time_not_stored_witness:
  "\<exists>k'. k' \<in> set (rb_routines (en_db (snd (tool_routine_update sample_tool_env example_routine_env ''u'' 9
       (JObject [(''name'', JString ''n''), (''schedule'', JString ''daily'')])
       ((example_engine [] [])\<lparr>en_db := empty_routine_db\<lparr>rb_routines := [routine_to_row 5 sample_routine]\<rparr>\<rparr>))))) \<and>
     rr_trigger_type k' = ''cron'' \<and> rr_next_fire_at k' = None"
proof -
  let ?k = "routine_to_row 5 sample_routine"
  let ?s = "(example_engine [] [])\<lparr>en_db := empty_routine_db\<lparr>rb_routines := [?k]\<rparr>\<rparr>"
  let ?p = "JObject [(''name'', JString ''n''), (''schedule'', JString ''daily'')]"
  have "\<exists>r. row_to_routine ?k = Inr r"
    using row_roundtrip [OF sample_guardrails, of 5] by blast
  then obtain r where "row_to_routine ?k = Inr r" by blast
  then show ?thesis
    using rescheduled_time_not_stored [of ?s ?p "''n''" "''daily''" example_routine_env 9 "Some 10" ?k "''u''" r sample_tool_env]
    by (auto simp: empty_routine_db_def routine_to_row_def sample_routine_def get_str_def example_routine_env_def)
qed

end
