(* ===== verification/Todo_Socket.thy ===== *)
theory Todo_Socket
  imports Documents Card_Queue Routine_Engine
begin

text \<open>
  The to-do server: the client actions, the socket of a client and the REST endpoints of
  \<open>src/src/todos/ws.rs\<close>, and the activity stream of \<open>src/src/todos/activity.rs\<close> with its follow-ups.

  The broadcast channel is the list of the messages sent so far; a receiver is its position in it, and one that
  is more than \<open>channel_capacity\<close> messages behind has lost the older ones. A client is its phase and the frames
  sent to it. serde decodes the actions and encodes the answers: an action is its value (\<open>None\<close> if the text is
  none), an answer a value of \<open>todo_body\<close>.
\<close>

subsection \<open>Actions of a client\<close>

datatype todo_action =
    ActCreate string "string option" todo_type "todo_bucket option" "datetime option" "json option"
  | ActComplete uuid
  | ActDelete uuid
  | ActUpdate uuid "string option" "string option" "todo_status option" "int option" "datetime option" "json option"
  | ActSnooze uuid datetime
  | ActCreateSubtask uuid string "string option" "todo_type option"
  | ActSearch string nat

record todo_socket =
  sk_todos :: todo_store
  sk_tx :: "todo_ws_message list"
  sk_cards :: "card_queue option"

definition with_due_date :: "datetime \<Rightarrow> todo_item \<Rightarrow> todo_item" where
  "with_due_date d t = t\<lparr>t_due_date := Some d\<rparr>"

definition with_context :: "json \<Rightarrow> todo_item \<Rightarrow> todo_item" where
  "with_context c t = t\<lparr>t_context := Some c\<rparr>"

definition with_parent :: "uuid \<Rightarrow> todo_item \<Rightarrow> todo_item" where
  "with_parent p t = t\<lparr>t_parent_id := Some p\<rparr>"

text \<open>\<open>if let Some(x)\<close> before a builder.\<close>

definition if_some :: "('a \<Rightarrow> 'b \<Rightarrow> 'b) \<Rightarrow> 'a option \<Rightarrow> 'b \<Rightarrow> 'b" where
  "if_some f x y = (case x of Some a \<Rightarrow> f a y | None \<Rightarrow> y)"

definition sk_send :: "todo_ws_message \<Rightarrow> todo_socket \<Rightarrow> todo_socket" where
  "sk_send m s = s\<lparr>sk_tx := sk_tx s @ [m]\<rparr>"

definition on_table :: "(todo_store \<Rightarrow> 'a \<times> todo_store) \<Rightarrow> todo_socket \<Rightarrow> 'a \<times> todo_socket" where
  "on_table f s = (let (x, td) = f (sk_todos s) in (x, s\<lparr>sk_todos := td\<rparr>))"

text \<open>The card that asks whether an agent may start.\<close>

definition offer_agent :: "uuid \<Rightarrow> datetime \<Rightarrow> todo_item \<Rightarrow> todo_socket \<Rightarrow> todo_socket" where
  "offer_agent card_id now t s = (case sk_cards s of
     Some q \<Rightarrow>
       if t_bucket t = AgentStartable
       then s\<lparr>sk_cards := Some (push now (with_todo_id (t_id t)
              (new_action card_id now (''Add to agent queue: '' @ t_title t @ ''?'') (t_description t) Todos 60)) q)\<rparr>
       else s
   | None \<Rightarrow> s)"

definition announce_created :: "uuid \<Rightarrow> datetime \<Rightarrow> todo_item \<Rightarrow> todo_socket \<Rightarrow> todo_socket" where
  "announce_created card_id now t s = offer_agent card_id now t (sk_send (TodoCreated t) s)"

text \<open>Reading an item, changing it and writing it back.\<close>

definition change_todo :: "uuid \<Rightarrow> (todo_item \<Rightarrow> todo_item) \<Rightarrow> todo_socket \<Rightarrow> todo_socket" where
  "change_todo i f s = (case on_table (get_todo i) s of
     (Inr (Some t), s1) \<Rightarrow>
       (case on_table (update_todo (f t)) s1 of
          (Inr _, s2) \<Rightarrow> sk_send (TodoUpdated (f t)) s2
        | (Inl _, s2) \<Rightarrow> s2)
   | (_, s1) \<Rightarrow> s1)"

definition edited ::
  "datetime \<Rightarrow> string option \<Rightarrow> string option \<Rightarrow> todo_status option \<Rightarrow> int option \<Rightarrow> datetime option \<Rightarrow> json option \<Rightarrow>
    todo_item \<Rightarrow> todo_item" where
  "edited now title desc st prio due_at ctx t =
     (if_some with_context ctx (if_some with_due_date due_at (if_some (\<lambda>p t. t\<lparr>t_priority := p\<rparr>) prio
       (if_some (\<lambda>x t. t\<lparr>t_status := x\<rparr>) st (if_some with_description desc (if_some (\<lambda>x t. t\<lparr>t_title := x\<rparr>) title t))))))
     \<lparr>t_updated_at := now\<rparr>"

definition default_user :: string where
  "default_user = ''default''"

definition handle_client_action ::
  "uuid \<Rightarrow> uuid \<Rightarrow> datetime \<Rightarrow> todo_action option \<Rightarrow> todo_socket \<Rightarrow> todo_ws_message option \<times> todo_socket" where
  "handle_client_action fresh card_id now action s = (case action of
     None \<Rightarrow> (None, s)
   | Some (ActCreate title desc ty bucket due_at ctx) \<Rightarrow>
       let t = if_some with_context ctx (if_some with_due_date due_at (if_some with_description desc
             (new_todo fresh now default_user title ty (case bucket of Some b \<Rightarrow> b | None \<Rightarrow> HumanOnly))))
       in (None, case on_table (create_todo t) s of
             (Inr _, s1) \<Rightarrow> announce_created card_id now t s1 | (Inl _, s1) \<Rightarrow> s1)
   | Some (ActComplete i) \<Rightarrow>
       (None, case on_table (complete_todo now i) s of
          (Inl _, s1) \<Rightarrow> s1
        | (Inr _, s1) \<Rightarrow> (case on_table (get_todo i) s1 of
            (Inr (Some t), s2) \<Rightarrow> sk_send (TodoUpdated t) s2 | (_, s2) \<Rightarrow> sk_send (TodoDeleted i) s2))
   | Some (ActDelete i) \<Rightarrow>
       (None, case on_table (delete_todo i) s of
          (Inr True, s1) \<Rightarrow> sk_send (TodoDeleted i) s1 | (_, s1) \<Rightarrow> s1)
   | Some (ActUpdate i title desc st prio due_at ctx) \<Rightarrow>
       (None, change_todo i (edited now title desc st prio due_at ctx) s)
   | Some (ActCreateSubtask parent title desc ty) \<Rightarrow>
       let t = if_some with_description desc (as_agent_internal (with_parent parent
             (new_todo fresh now default_user title (case ty of Some x \<Rightarrow> x | None \<Rightarrow> Deliverable) AgentStartable)))
       in (None, snd (on_table (create_todo t) s))
   | Some (ActSnooze i until) \<Rightarrow>
       (None, change_todo i (\<lambda>t. t\<lparr>t_status := Snoozed, t_snoozed_until := Some until, t_updated_at := now\<rparr>) s)
   | Some (ActSearch q limit) \<Rightarrow> (case on_table (search_todos default_user q (min limit 100)) s of
       (Inr ts, s1) \<Rightarrow> (Some (SearchResults q ts), s1) | (Inl _, s1) \<Rightarrow> (Some (SearchResults q []), s1)))"

subsection \<open>The socket\<close>

definition channel_capacity :: nat where
  "channel_capacity = 256"

text \<open>The items a client starts from.\<close>

definition load_sync :: "todo_socket \<Rightarrow> todo_ws_message option \<times> todo_socket" where
  "load_sync s = (case on_table (list_user_todos default_user) s of
     (Inr ts, s1) \<Rightarrow> (Some (TodosSync (filter (\<lambda>t. t_status t \<noteq> Completed) ts)), s1)
   | (Inl _, s1) \<Rightarrow> (None, s1))"

definition should_skip :: "todo_ws_message \<Rightarrow> bool" where
  "should_skip m = (case m of TodoCreated t \<Rightarrow> t_is_agent_internal t | TodoUpdated t \<Rightarrow> t_is_agent_internal t | _ \<Rightarrow> False)"

datatype phase = Connecting | Synced | Subscribed nat | Closed

record todo_client =
  cl_phase :: phase
  cl_frames :: "todo_ws_message list"

definition frame :: "todo_ws_message option \<Rightarrow> todo_client \<Rightarrow> todo_client" where
  "frame m c = (case m of Some x \<Rightarrow> c\<lparr>cl_frames := cl_frames c @ [x]\<rparr> | None \<Rightarrow> c)"

text \<open>The steps of \<open>handle_socket\<close>: the first frame, the subscription, and one turn of the loop that finds a
  message in the channel. \<open>sent\<close> is false when the client is gone; a failed send of a frame ends the connection.\<close>

definition client_sync :: "bool \<Rightarrow> todo_client \<Rightarrow> todo_socket \<Rightarrow> todo_client \<times> todo_socket" where
  "client_sync sent c s =
     (let (m, s1) = load_sync s
      in (if m = None then c\<lparr>cl_phase := Synced\<rparr>
          else if sent then frame m (c\<lparr>cl_phase := Synced\<rparr>) else c\<lparr>cl_phase := Closed\<rparr>, s1))"

definition client_subscribe :: "todo_client \<Rightarrow> todo_socket \<Rightarrow> todo_client" where
  "client_subscribe c s = c\<lparr>cl_phase := Subscribed (length (sk_tx s))\<rparr>"

definition client_receive :: "bool \<Rightarrow> nat \<Rightarrow> todo_client \<Rightarrow> todo_socket \<Rightarrow> todo_client \<times> todo_socket" where
  "client_receive sent pos c s =
     (if length (sk_tx s) - pos > channel_capacity then
        (let (m, s1) = load_sync s; c1 = c\<lparr>cl_phase := Subscribed (length (sk_tx s) - channel_capacity)\<rparr>
         in (if m = None then c1 else if sent then frame m c1 else c\<lparr>cl_phase := Closed\<rparr>, s1))
      else let m = sk_tx s ! pos; c1 = c\<lparr>cl_phase := Subscribed (Suc pos)\<rparr>
           in (if should_skip m then c1 else if sent then frame (Some m) c1 else c\<lparr>cl_phase := Closed\<rparr>, s))"

definition client_request ::
  "bool \<Rightarrow> uuid \<Rightarrow> uuid \<Rightarrow> datetime \<Rightarrow> todo_action option \<Rightarrow> todo_client \<Rightarrow> todo_socket \<Rightarrow> todo_client \<times> todo_socket" where
  "client_request sent fresh card_id now action c s =
     (let (m, s1) = handle_client_action fresh card_id now action s
      in (if m = None then c else if sent then frame m c else c\<lparr>cl_phase := Closed\<rparr>, s1))"

subsection \<open>Endpoints\<close>

datatype todo_body =
    TodoDetail todo_item "document list"
  | Deliverables "document list" "approval_card list"
  | TestCreated uuid
  | TodoError string

definition get_todo_detail ::
  "web_env \<Rightarrow> string \<Rightarrow> todo_store \<times> document_db \<Rightarrow> (nat \<times> todo_body) \<times> todo_store \<times> document_db" where
  "get_todo_detail W s st = (case we_parse_uuid W s of
     None \<Rightarrow> ((400, TodoError ''Invalid UUID''), st)
   | Some i \<Rightarrow> (case get_todo i (fst st) of
       (Inl e, td) \<Rightarrow> ((500, TodoError (we_db_error W e)), td, snd st)
     | (Inr None, td) \<Rightarrow> ((404, TodoError ''Todo not found''), td, snd st)
     | (Inr (Some t), td) \<Rightarrow>
         if t_status t \<in> {Completed, ReadyForReview} then
           (let (r, dd) = list_documents_by_todo i (snd st)
            in ((200, TodoDetail t (case r of Inr ds \<Rightarrow> ds | Inl _ \<Rightarrow> [])), td, dd))
         else ((200, TodoDetail t []), td, snd st)))"

definition get_todo_deliverables ::
  "web_env \<Rightarrow> string \<Rightarrow> document_db \<times> database \<Rightarrow> (nat \<times> todo_body) \<times> document_db \<times> database" where
  "get_todo_deliverables W s st = (case we_parse_uuid W s of
     None \<Rightarrow> ((400, TodoError ''Invalid UUID''), st)
   | Some i \<Rightarrow> (case list_documents_by_todo i (fst st) of
       (Inl e, dd) \<Rightarrow> ((500, TodoError (we_db_error W e)), dd, snd st)
     | (Inr ds, dd) \<Rightarrow> (case get_cards_by_todo i (snd st) of
         (Inl e, cs) \<Rightarrow> ((500, TodoError (we_db_error W e)), dd, cs)
       | (Inr cards, cs) \<Rightarrow> ((200, Deliverables ds cards), dd, cs))))"

record test_todo_request =
  tt_title :: string
  tt_description :: "string option"
  tt_todo_type :: todo_type
  tt_bucket :: "todo_bucket option"
  tt_priority :: "int option"
  tt_due_date :: "datetime option"
  tt_context :: "string option"
  tt_status :: "todo_status option"
  tt_parent_id :: "uuid option"
  tt_is_agent_internal :: "bool option"

definition test_todo :: "uuid \<Rightarrow> datetime \<Rightarrow> test_todo_request \<Rightarrow> todo_item" where
  "test_todo fresh now b =
     (let t = if_some with_parent (tt_parent_id b) (if_some (\<lambda>x t. t\<lparr>t_status := x\<rparr>) (tt_status b)
            (if_some (\<lambda>p t. t\<lparr>t_priority := p\<rparr>) (tt_priority b) (if_some (\<lambda>c. with_context (JString c)) (tt_context b)
              (if_some with_due_date (tt_due_date b) (if_some with_description (tt_description b)
                (new_todo fresh now default_user (tt_title b) (tt_todo_type b)
                  (case tt_bucket b of Some x \<Rightarrow> x | None \<Rightarrow> HumanOnly)))))))
      in if tt_is_agent_internal b = Some True then as_agent_internal t else t)"

definition create_test_todo ::
  "web_env \<Rightarrow> uuid \<Rightarrow> uuid \<Rightarrow> datetime \<Rightarrow> test_todo_request \<Rightarrow> todo_socket \<Rightarrow> (nat \<times> todo_body) \<times> todo_socket" where
  "create_test_todo W fresh card_id now b s =
     (let t = test_todo fresh now b
      in case on_table (create_todo t) s of
           (Inl e, s1) \<Rightarrow> ((500, TodoError (we_db_error W e)), s1)
         | (Inr _, s1) \<Rightarrow> ((201, TestCreated fresh), announce_created card_id now t s1))"

subsection \<open>Activity\<close>

record transcript_message =
  tr_role :: string
  tr_content :: string
  tr_tool_name :: "string option"
  tr_tool_args :: "string option"
  tr_timestamp :: string

datatype activity_event =
    EvStarted uuid "uuid option"
  | EvThinking uuid "32 word"
  | EvToolCompleted uuid string bool string
  | EvReasoning uuid string
  | EvAgentResponse uuid string
  | EvCompleted uuid string
  | EvFailed uuid string
  | EvTranscript uuid "transcript_message list"
  | EvApprovalNeeded uuid uuid string string
  | EvApprovalResolved uuid uuid bool
  | EvUserMessage uuid string

definition nil_uuid :: uuid where
  "nil_uuid = 0"

fun event_job_id :: "activity_event \<Rightarrow> uuid" where
  "event_job_id (EvStarted j _) = j"
| "event_job_id (EvThinking j _) = j"
| "event_job_id (EvToolCompleted j _ _ _) = j"
| "event_job_id (EvReasoning j _) = j"
| "event_job_id (EvAgentResponse j _) = j"
| "event_job_id (EvCompleted j _) = j"
| "event_job_id (EvFailed j _) = j"
| "event_job_id (EvTranscript j _) = j"
| "event_job_id (EvApprovalNeeded j _ _ _) = j"
| "event_job_id (EvApprovalResolved j _ _) = j"
| "event_job_id (EvUserMessage _ _) = nil_uuid"

definition event_todo_id :: "activity_event \<Rightarrow> uuid option" where
  "event_todo_id e = (case e of EvStarted _ t \<Rightarrow> t | EvUserMessage t _ \<Rightarrow> Some t | _ \<Rightarrow> None)"

definition ends_activity :: "activity_event \<Rightarrow> bool" where
  "ends_activity e = (case e of EvCompleted _ _ \<Rightarrow> True | EvFailed _ _ \<Rightarrow> True | EvTranscript _ _ \<Rightarrow> True | _ \<Rightarrow> False)"

fun action_type :: "activity_event \<Rightarrow> string" where
  "action_type (EvStarted _ _) = ''started''"
| "action_type (EvThinking _ _) = ''thinking''"
| "action_type (EvToolCompleted _ _ _ _) = ''tool_completed''"
| "action_type (EvReasoning _ _) = ''reasoning''"
| "action_type (EvAgentResponse _ _) = ''agent_response''"
| "action_type (EvCompleted _ _) = ''completed''"
| "action_type (EvFailed _ _) = ''failed''"
| "action_type (EvTranscript _ _) = ''transcript''"
| "action_type (EvApprovalNeeded _ _ _ _) = ''approval_needed''"
| "action_type (EvApprovalResolved _ _ _) = ''approval_resolved''"
| "action_type (EvUserMessage _ _) = ''user_message''"

text \<open>The stored events a new watcher gets. A row that cannot be read is logged with its first 100 bytes, a
  slice that panics inside a character: \<open>None\<close>.\<close>

fun replay_history :: "(string \<Rightarrow> activity_event option) \<Rightarrow> string list \<Rightarrow> activity_event list option" where
  "replay_history decode [] = Some []"
| "replay_history decode (a # as) = (case decode a of
     Some e \<Rightarrow> map_option ((#) e) (replay_history decode as)
   | None \<Rightarrow> if is_char_boundary a (min (length a) 100) then replay_history decode as else None)"

text \<open>Which live events a watcher of an item gets.\<close>

definition relevant :: "uuid \<Rightarrow> activity_event \<Rightarrow> bool" where
  "relevant i e = (case e of EvStarted _ t \<Rightarrow> t = Some i | _ \<Rightarrow> True)"

text \<open>A message of the user on the activity socket is broadcast and starts three tasks, which run in any order.\<close>

datatype followup_task = SaveMessage uuid string | MarkWorking uuid | StartFollowup uuid string

definition activity_text :: "uuid \<Rightarrow> json option \<Rightarrow> activity_event list \<times> followup_task list" where
  "activity_text i payload = (case payload of
     None \<Rightarrow> ([], [])
   | Some v \<Rightarrow>
       if get_str v ''type'' = Some ''user_message'' then
         (case get_str v ''content'' of
            None \<Rightarrow> ([], [])
          | Some content \<Rightarrow> ([EvUserMessage i content], [SaveMessage i content, MarkWorking i, StartFollowup i content]))
       else ([], []))"

definition run_followup ::
  "(activity_event \<Rightarrow> string) \<Rightarrow> (uuid \<Rightarrow> string) \<Rightarrow> uuid \<Rightarrow> datetime \<Rightarrow> followup_task \<Rightarrow> document_db \<times> agent_queue \<Rightarrow>
    document_db \<times> agent_queue" where
  "run_followup encode uuid_str fresh now tk s = (case tk of
     SaveMessage i content \<Rightarrow>
       (snd (save_job_action fresh now (uuid_str nil_uuid) (Some i) ''user_message'' (encode (EvUserMessage i content)) (fst s)), snd s)
   | MarkWorking i \<Rightarrow> (fst s, broadcast_todo_update i (snd (set_todo_status now i AgentWorking (snd s))))
   | StartFollowup i content \<Rightarrow> (fst s, snd (enqueue_followup now i content (snd s))))"

end
