(* ===== verification/Todo_Socket_Safety.thy ===== *)
theory Todo_Socket_Safety
  imports Todo_Socket
begin

text \<open>
  The to-do server with one client and everything else that acts on the table and the channel: what the client
  is sent, and the two races of the server.
\<close>

subsection \<open>Runs\<close>

record socket_system =
  sy_server :: todo_socket
  sy_client :: todo_client

datatype socket_event = SyncSent | SubscribedFrom nat | Delivered | Lagged | Requested | OtherActed | Disconnected

text \<open>What may be broadcast on the channel.\<close>

definition broadcast_kind :: "todo_ws_message \<Rightarrow> bool" where
  "broadcast_kind m = (case m of TodosSync _ \<Rightarrow> False | SearchResults _ _ \<Rightarrow> False | _ \<Rightarrow> True)"

text \<open>Other clients act, the test endpoint creates items, and agents and tools change the table and broadcast.\<close>

inductive others_act :: "todo_socket \<Rightarrow> todo_socket \<Rightarrow> bool" where
  other_client: "others_act s (snd (handle_client_action fresh card_id now action s))"
| rest_client: "others_act s (snd (create_test_todo W fresh card_id now b s))"
| agents: "list_all broadcast_kind ms \<Longrightarrow> others_act s (s\<lparr>sk_todos := td, sk_tx := sk_tx s @ ms, sk_cards := q\<rparr>)"

inductive socket_step :: "socket_system \<Rightarrow> socket_event \<Rightarrow> socket_system \<Rightarrow> bool" where
  step_sync: "cl_phase c = Connecting \<Longrightarrow> client_sync sent c s = (c', s') \<Longrightarrow>
    socket_step \<lparr>sy_server = s, sy_client = c\<rparr> SyncSent \<lparr>sy_server = s', sy_client = c'\<rparr>"
| step_subscribe: "cl_phase c = Synced \<Longrightarrow>
    socket_step \<lparr>sy_server = s, sy_client = c\<rparr> (SubscribedFrom (length (sk_tx s))) \<lparr>sy_server = s, sy_client = client_subscribe c s\<rparr>"
| step_receive: "cl_phase c = Subscribed pos \<Longrightarrow> pos < length (sk_tx s) \<Longrightarrow> client_receive sent pos c s = (c', s') \<Longrightarrow>
    socket_step \<lparr>sy_server = s, sy_client = c\<rparr> (if length (sk_tx s) - pos > channel_capacity then Lagged else Delivered)
      \<lparr>sy_server = s', sy_client = c'\<rparr>"
| step_request: "cl_phase c = Subscribed pos \<Longrightarrow> client_request sent fresh card_id now action c s = (c', s') \<Longrightarrow>
    socket_step \<lparr>sy_server = s, sy_client = c\<rparr> Requested \<lparr>sy_server = s', sy_client = c'\<rparr>"
| step_others: "others_act s s' \<Longrightarrow>
    socket_step \<lparr>sy_server = s, sy_client = c\<rparr> OtherActed \<lparr>sy_server = s', sy_client = c\<rparr>"
| step_disconnect: "socket_step \<lparr>sy_server = s, sy_client = c\<rparr> Disconnected \<lparr>sy_server = s, sy_client = c\<lparr>cl_phase := Closed\<rparr>\<rparr>"

inductive_cases socket_stepE: "socket_step s e t"

definition socket_start :: "socket_system \<Rightarrow> bool" where
  "socket_start s \<longleftrightarrow> list_all broadcast_kind (sk_tx (sy_server s)) \<and> sy_client s = \<lparr>cl_phase = Connecting, cl_frames = []\<rparr>"

subsection \<open>The channel only grows\<close>

definition channel_grows :: "todo_socket \<Rightarrow> todo_socket \<Rightarrow> bool" where
  "channel_grows s s' \<longleftrightarrow> (\<exists>ms. sk_tx s' = sk_tx s @ ms \<and> list_all broadcast_kind ms)"

lemma sk_tx_simps:
  "on_table f s = (x, s') \<Longrightarrow> sk_tx s' = sk_tx s" "sk_tx (sk_send m s) = sk_tx s @ [m]"
  "sk_tx (snd (on_table f s)) = sk_tx s" "sk_tx (offer_agent card_id now t s) = sk_tx s" "sk_tx (announce_created card_id now t s) = sk_tx s @ [TodoCreated t]"
  by (auto simp: on_table_def sk_send_def offer_agent_def announce_created_def split: prod.splits option.splits)

lemma broadcast_kinds:
  "broadcast_kind (TodoCreated t)" "broadcast_kind (TodoUpdated t)" "broadcast_kind (TodoDeleted i)"
  by (simp_all add: broadcast_kind_def)

lemma change_todo_grows: "channel_grows s (change_todo i f s)"
  unfolding change_todo_def
  by (auto simp: channel_grows_def sk_tx_simps(2) broadcast_kinds split: prod.splits sum.splits option.splits
      dest!: sk_tx_simps(1))

lemma action_grows: "channel_grows s (snd (handle_client_action fresh card_id now action s))"
proof (cases action)
  case (Some a)
  then show ?thesis
    using change_todo_grows
    by (cases a) (auto simp: channel_grows_def handle_client_action_def Let_def sk_tx_simps(2,3,5) broadcast_kinds
        split: prod.splits sum.splits option.splits bool.splits dest!: sk_tx_simps(1))
qed (simp add: handle_client_action_def channel_grows_def)

lemma others_grow: "others_act s s' \<Longrightarrow> channel_grows s s'"
proof (induction rule: others_act.induct)
  case (other_client s fresh card_id now action)
  show ?case by (rule action_grows)
next
  case (rest_client s W fresh card_id now b)
  show ?case
    by (auto simp: channel_grows_def create_test_todo_def Let_def sk_tx_simps(5) broadcast_kinds
        split: prod.splits sum.splits dest!: sk_tx_simps(1))
qed (auto simp: channel_grows_def)

lemma load_sync_tx: "load_sync s = (m, s') \<Longrightarrow> sk_tx s' = sk_tx s"
  by (auto simp: load_sync_def split: prod.splits sum.splits dest!: sk_tx_simps(1))

subsection \<open>What a client is sent\<close>

definition visible :: "todo_ws_message \<Rightarrow> bool" where
  "visible m = (case m of
     TodosSync ts \<Rightarrow> list_all (\<lambda>t. \<not> t_is_agent_internal t \<and> t_user_id t = default_user \<and> t_status t \<noteq> Completed) ts
   | SearchResults _ ts \<Rightarrow> list_all (\<lambda>t. \<not> t_is_agent_internal t \<and> t_user_id t = default_user) ts
   | TodoCreated t \<Rightarrow> \<not> t_is_agent_internal t
   | TodoUpdated t \<Rightarrow> \<not> t_is_agent_internal t
   | _ \<Rightarrow> True)"

lemma visible_sync: "load_sync s = (Some m, s') \<Longrightarrow> visible m \<and> \<not> broadcast_kind m"
  by (auto simp: load_sync_def on_table_def list_user_todos_def td_query_def visible_def broadcast_kind_def by_priority_def
      list_all_iff split: prod.splits sum.splits if_splits)

lemma visible_response: "handle_client_action fresh card_id now action s = (Some m, s') \<Longrightarrow> visible m \<and> \<not> broadcast_kind m"
  by (cases action; cases "the action")
    (auto simp: handle_client_action_def Let_def on_table_def search_todos_def td_query_def visible_def broadcast_kind_def
      list_all_iff dest!: in_set_takeD split: prod.splits sum.splits if_splits)

lemma visible_broadcast: "broadcast_kind m \<Longrightarrow> \<not> should_skip m \<Longrightarrow> visible m"
  by (cases m) (simp_all add: broadcast_kind_def should_skip_def visible_def)

text \<open>The frames of a client: first the items it starts from, then every broadcast since the subscription that
  is not about an internal item, once and in order; what it asked for and the items sent again after a lag come
  in between. A client that lagged has no guarantee.\<close>

definition delivered :: "nat \<Rightarrow> nat \<Rightarrow> todo_ws_message list \<Rightarrow> todo_ws_message list \<Rightarrow> bool" where
  "delivered start pos frames tx \<longleftrightarrow> start \<le> pos \<and>
     filter broadcast_kind frames = filter (\<lambda>m. \<not> should_skip m) (take (pos - start) (drop start tx))"

definition socket_inv :: "socket_event list \<Rightarrow> socket_system \<Rightarrow> bool" where
  "socket_inv es s \<longleftrightarrow> list_all broadcast_kind (sk_tx (sy_server s)) \<and> list_all visible (cl_frames (sy_client s)) \<and>
     (cl_phase (sy_client s) \<in> {Connecting, Synced} \<longrightarrow> filter broadcast_kind (cl_frames (sy_client s)) = []) \<and>
     (\<forall>pos. cl_phase (sy_client s) = Subscribed pos \<longrightarrow> pos \<le> length (sk_tx (sy_server s)) \<and>
       (Lagged \<notin> set es \<longrightarrow> (\<exists>start. SubscribedFrom start \<in> set es \<and>
         delivered start pos (cl_frames (sy_client s)) (sk_tx (sy_server s)))))"

lemma delivered_grows: "pos \<le> length tx \<Longrightarrow> delivered start pos frames tx \<Longrightarrow> delivered start pos frames (tx @ ms)"
  by (simp add: delivered_def drop_append)

lemma delivered_other: "\<not> broadcast_kind m \<Longrightarrow> delivered start pos (frames @ [m]) tx = delivered start pos frames tx"
  by (simp add: delivered_def)

lemma delivered_next:
  assumes "delivered start pos frames tx" "pos < length tx" "broadcast_kind (tx ! pos)"
  shows "delivered start (Suc pos) (if should_skip (tx ! pos) then frames else frames @ [tx ! pos]) tx"
proof -
  have "start \<le> pos" using assms(1) by (simp add: delivered_def)
  then have "take (Suc pos - start) (drop start tx) = take (pos - start) (drop start tx) @ [tx ! pos]"
    using assms(2) by (simp add: Suc_diff_le take_Suc_conv_app_nth)
  with assms \<open>start \<le> pos\<close> show ?thesis by (simp add: delivered_def)
qed

lemma delivered_start: "filter broadcast_kind frames = [] \<Longrightarrow> delivered pos pos frames tx"
  by (simp add: delivered_def)

lemma socket_inv_grows:
  assumes "socket_inv es \<lparr>sy_server = s, sy_client = c\<rparr>" "channel_grows s s'" "e \<noteq> Lagged"
  shows "socket_inv (es @ [e]) \<lparr>sy_server = s', sy_client = c\<rparr>"
proof -
  obtain ms where ms: "sk_tx s' = sk_tx s @ ms" "list_all broadcast_kind ms" using assms(2) by (auto simp: channel_grows_def)
  show ?thesis
    using assms(1,3) unfolding socket_inv_def by (auto simp: ms intro: delivered_grows)
qed

lemma socket_inv_frame:
  assumes "socket_inv es \<lparr>sy_server = s, sy_client = c\<rparr>" "visible m" "\<not> broadcast_kind m"
  shows "socket_inv es \<lparr>sy_server = s, sy_client = frame (Some m) c\<rparr>"
  using assms unfolding socket_inv_def by (simp add: frame_def delivered_other)

lemma socket_inv_closed:
  assumes "socket_inv es \<lparr>sy_server = s, sy_client = c\<rparr>"
  shows "socket_inv (es @ [e]) \<lparr>sy_server = s, sy_client = c\<lparr>cl_phase := Closed\<rparr>\<rparr>"
  using assms unfolding socket_inv_def by simp

lemma client_request_inv:
  assumes "socket_inv es \<lparr>sy_server = s, sy_client = c\<rparr>" "client_request sent fresh card_id now action c s = (c', s')"
  shows "socket_inv (es @ [Requested]) \<lparr>sy_server = s', sy_client = c'\<rparr>"
proof -
  obtain m where m: "handle_client_action fresh card_id now action s = (m, s')"
    and c': "c' = (if m = None then c else if sent then frame m c else c\<lparr>cl_phase := Closed\<rparr>)"
    using assms(2) by (auto simp: client_request_def split: prod.splits)
  have "channel_grows s s'" using action_grows [of s fresh card_id now action] by (simp add: m)
  then have i: "socket_inv (es @ [Requested]) \<lparr>sy_server = s', sy_client = c\<rparr>" using socket_inv_grows assms(1) by blast
  then have closed: "socket_inv (es @ [Requested]) \<lparr>sy_server = s', sy_client = c\<lparr>cl_phase := Closed\<rparr>\<rparr>"
    by (simp add: socket_inv_def)
  show ?thesis
  proof (cases m)
    case None
    then show ?thesis using i c' by simp
  next
    case (Some x)
    then have "visible x" "\<not> broadcast_kind x" using visible_response m by blast+
    then show ?thesis using Some c' closed socket_inv_frame [OF i] by (cases sent) simp_all
  qed
qed

lemma client_receive_inv:
  assumes "socket_inv es \<lparr>sy_server = s, sy_client = c\<rparr>" "cl_phase c = Subscribed pos" "pos < length (sk_tx s)"
    and "client_receive sent pos c s = (c', s')"
  shows "socket_inv (es @ [if length (sk_tx s) - pos > channel_capacity then Lagged else Delivered]) \<lparr>sy_server = s', sy_client = c'\<rparr>"
proof (cases "length (sk_tx s) - pos > channel_capacity")
  case True
  then obtain m where m: "load_sync s = (m, s')" and c': "c' = (let c1 = c\<lparr>cl_phase := Subscribed (length (sk_tx s) - channel_capacity)\<rparr> in
      if m = None then c1 else if sent then frame m c1 else c\<lparr>cl_phase := Closed\<rparr>)"
    using assms(4) by (auto simp: client_receive_def Let_def split: prod.splits)
  show ?thesis
    using True assms(1) m c' load_sync_tx [OF m] visible_sync [of s _ s'] unfolding socket_inv_def
    by (auto simp: Let_def frame_def)
next
  case False
  let ?m = "sk_tx s ! pos"
  have e: "s' = s" "c' = (let c1 = c\<lparr>cl_phase := Subscribed (Suc pos)\<rparr> in
      if should_skip ?m then c1 else if sent then frame (Some ?m) c1 else c\<lparr>cl_phase := Closed\<rparr>)"
    using False assms(4) by (auto simp: client_receive_def Let_def)
  have k: "broadcast_kind ?m" using assms(1,3) by (simp add: socket_inv_def list_all_length)
  have bound: "Suc pos \<le> length (sk_tx s)" using assms(3) by simp
  show ?thesis
    using False assms(1,2) bound k visible_broadcast [OF k] delivered_next [OF _ assms(3) k] unfolding socket_inv_def e
    by (auto simp: Let_def frame_def split: if_splits)
qed

interpretation todo_client: invariant_system socket_start socket_step socket_inv
proof
  show "socket_inv [] s" if "socket_start s" for s
    using that by (simp add: socket_start_def socket_inv_def)
next
  fix es s e t
  assume inv: "socket_inv es s" and "socket_step s e t"
  from this(2) show "socket_inv (es @ [e]) t"
  proof (cases rule: socket_step.cases)
    case (step_sync c sent sv c' sv')
    then show ?thesis
      using inv visible_sync [of sv _ sv'] load_sync_tx [of sv _ sv'] unfolding socket_inv_def client_sync_def
      by (auto simp: frame_def split: prod.splits if_splits)
  next
    case (step_subscribe c sv)
    then show ?thesis using inv unfolding socket_inv_def client_subscribe_def
      by (auto intro: delivered_start)
  next
    case (step_receive c pos sv sent c' sv')
    then show ?thesis using inv client_receive_inv by simp
  next
    case (step_request c pos sent fresh card_id now action sv c' sv')
    then show ?thesis using inv client_request_inv by simp
  next
    case (step_others sv sv' c)
    then show ?thesis using inv socket_inv_grows [OF _ others_grow] by simp
  next
    case (step_disconnect sv c)
    then show ?thesis using inv socket_inv_closed by simp
  qed
qed


text \<open>The first frame is read before the subscription. An item deleted in between is on the list the client
  starts from, and the message about its deletion is before the position the client reads from, so the client
  goes on showing it.\<close>

theorem deleted_before_subscription_stays:
  assumes "td_faults (sk_todos s) = []" "t \<in> set (td_rows (sk_todos s))" "t_user_id t = default_user" "\<not> t_is_agent_internal t"
    "t_status t \<noteq> Completed"
  shows "\<exists>c1 s1 s2 ts. client_sync True \<lparr>cl_phase = Connecting, cl_frames = []\<rparr> s = (c1, s1) \<and>
    s2 = snd (handle_client_action fresh card_id now (Some (ActDelete (t_id t))) s1) \<and>
    cl_frames (client_subscribe c1 s2) = [TodosSync ts] \<and> t \<in> set ts \<and>
    t_id t \<notin> t_id ` set (td_rows (sk_todos s2)) \<and> last (sk_tx s2) = TodoDeleted (t_id t) \<and>
    cl_phase (client_subscribe c1 s2) = Subscribed (length (sk_tx s2))"
  using assms
  by (auto simp: client_sync_def load_sync_def on_table_def list_user_todos_def td_query_def handle_client_action_def
      delete_todo_def sk_send_def client_subscribe_def frame_def)

subsection \<open>Follow-ups\<close>

text \<open>The item of an id is \<open>t\<close> and the database works.\<close>

definition holds :: "agent_queue \<Rightarrow> uuid \<Rightarrow> todo_item \<Rightarrow> bool" where
  "holds q i t \<longleftrightarrow> working_db q \<and> List.find (\<lambda>t. t_id t = i) (todo_rows q) = Some t"

lemma find_marked:
  "List.find (\<lambda>t. t_id t = i) ts = Some t \<Longrightarrow> List.find (\<lambda>t. t_id t = i) (mark_ids now st {i} ts) = Some (mark now st t)"
  by (induction ts) (auto simp: mark_ids_def)

lemma status_broadcast:
  assumes "holds q i t"
  shows "\<exists>q'. set_todo_status now i st q = (True, q') \<and> holds (broadcast_todo_update i q') i (mark now st t) \<and>
    aq_channel (broadcast_todo_update i q') = aq_channel q \<and> aq_permits (broadcast_todo_update i q') = aq_permits q \<and>
    aq_followup (broadcast_todo_update i q') = aq_followup q"
  using assms set_todo_status_ok [of q now i st] find_marked [of i "todo_rows q" t now st]
  by (simp add: holds_def broadcast_ok)

lemma mark_working:
  assumes "holds q i t"
  shows "\<exists>q'. run_followup encode uuid_str fresh now (MarkWorking i) (dd, q) = (dd, q') \<and> holds q' i (mark now AgentWorking t) \<and>
    aq_channel q' = aq_channel q \<and> aq_permits q' = aq_permits q \<and> aq_followup q' = aq_followup q"
  using status_broadcast [OF assms, of now AgentWorking] by (auto simp: run_followup_def)

lemma start_followup:
  assumes "holds q i t"
  shows "\<exists>q'. run_followup encode uuid_str fresh now (StartFollowup i content) (dd, q) = (dd, q') \<and> holds q' i (mark now AgentQueued t) \<and>
    aq_channel q' = aq_channel q @ [i] \<and> aq_permits q' = aq_permits q \<and> map_of (aq_followup q') i = Some content"
proof -
  have "holds (q\<lparr>aq_followup := AList.update i content (aq_followup q)\<rparr>) i t" using assms by (simp add: holds_def)
  from status_broadcast [OF this, of now AgentQueued] show ?thesis
    by (auto simp: run_followup_def enqueue_followup_def enqueue_def Let_def holds_def update_conv')
qed

lemma dispatch_one:
  assumes "holds q i t" "aq_channel q = [i]" "0 < aq_permits q"
  shows "if t_status t = AgentQueued then \<exists>q'. dispatch now True q = Some (Some (t, map_of (aq_followup q) i), q')
    else dispatch now True q = Some (None, q\<lparr>aq_channel := []\<rparr>)"
proof -
  let ?q = "q\<lparr>aq_channel := [], aq_permits := aq_permits q - Suc 0\<rparr>"
  have h: "holds ?q i t" using assms(1) by (simp add: holds_def)
  have get: "get_todo i (aq_todos q) = (Inr (Some t), aq_todos q)" using assms(1) by (simp add: holds_def get_todo_def td_query_def)
  obtain q' where q': "set_todo_status now i AgentWorking ?q = (True, q')" "aq_followup (broadcast_todo_update i q') = aq_followup q"
    using status_broadcast [OF h, of now AgentWorking] by auto
  show ?thesis
    using assms(2,3) get q' by (simp add: dispatch_def Let_def take_followup_context_def broadcast_status_def)
qed


subsection \<open>Examples\<close>

definition visible_item :: todo_item where
  "visible_item = new_todo 3 0 default_user ''t'' Research HumanOnly"

definition sample_socket :: todo_socket where
  "sample_socket = \<lparr>sk_todos = \<lparr>td_rows = [visible_item], td_faults = []\<rparr>, sk_tx = [], sk_cards = None\<rparr>"

theorem deleted_before_subscription_stays_witness:
  "\<exists>c1 s1. client_sync True \<lparr>cl_phase = Connecting, cl_frames = []\<rparr> sample_socket = (c1, s1) \<and>
    (\<exists>ts. cl_frames (client_subscribe c1 (snd (handle_client_action 9 9 1 (Some (ActDelete 3)) s1))) = [TodosSync ts] \<and> visible_item \<in> set ts)"
  using deleted_before_subscription_stays [of sample_socket visible_item 9 9 1]
  by (simp add: sample_socket_def visible_item_def new_todo_def) blast



end
