(* ===== verification/Llm_Adapter.thy ===== *)
theory Llm_Adapter
  imports Routine_Safety
begin

text \<open>
  The adapter between the language models of the rig crate and \<open>LlmProvider\<close>
  (\<open>src/src/llm/rig_adapter.rs\<close>), the prices of models (\<open>src/src/llm/costs.rs\<close>), the back-off of
  \<open>src/src/llm/retry.rs\<close> and the drafts of replies (\<open>src/src/cards/reply_drafter.rs\<close>).

  A model of rig is a function of the number of the call and the request. Of rig's messages the constructors the
  adapter builds or reads are kept. The random offset of the back-off is an argument.
\<close>

subsection \<open>Back-off\<close>

definition is_retryable_status :: "16 word \<Rightarrow> bool" where
  "is_retryable_status s \<longleftrightarrow> s \<in> {429, 500, 502, 503, 504}"

definition backoff_base :: "nat \<Rightarrow> nat" where
  "backoff_base attempt = min (1000 * min (2 ^ attempt) (2 ^ 64 - 1)) (2 ^ 64 - 1)"

definition jitter_range :: "nat \<Rightarrow> nat" where
  "jitter_range base = base div 4"

text \<open>The sum of \<open>i64\<close> values wraps; a build with overflow checks panics there.\<close>

definition retry_backoff_delay :: "nat \<Rightarrow> nat \<Rightarrow> duration" where
  "retry_backoff_delay attempt offset =
     (let base = backoff_base attempt;
          jitter = (if jitter_range base > 0 then as_i64 (int offset) - as_i64 (int (jitter_range base)) else 0)
      in max (as_i64 (as_i64 (int base) + jitter)) 100 * 1000000)"

subsection \<open>Prices\<close>

definition after_last_slash :: "string \<Rightarrow> string" where
  "after_last_slash s = (case rfind_index ((=) (CHR ''/'')) s of None \<Rightarrow> s | Some i \<Rightarrow> drop (i + 1) s)"

definition PRICES :: "(string list \<times> rat \<times> rat) list" where
  "PRICES =
     [([''gpt-4o'', ''gpt-4o-2024-11-20'', ''gpt-4o-2024-08-06''], 25 / 10 ^ 7, 1 / 10 ^ 5),
      ([''gpt-4o-mini'', ''gpt-4o-mini-2024-07-18''], 15 / 10 ^ 8, 6 / 10 ^ 7),
      ([''gpt-4-turbo'', ''gpt-4-turbo-2024-04-09''], 1 / 10 ^ 5, 3 / 10 ^ 5),
      ([''gpt-4'', ''gpt-4-0613''], 3 / 10 ^ 5, 6 / 10 ^ 5),
      ([''gpt-3.5-turbo'', ''gpt-3.5-turbo-0125''], 5 / 10 ^ 7, 15 / 10 ^ 7),
      ([''o1'', ''o1-2024-12-17''], 15 / 10 ^ 6, 6 / 10 ^ 5),
      ([''o1-mini'', ''o1-mini-2024-09-12''], 3 / 10 ^ 6, 12 / 10 ^ 6),
      ([''o3-mini'', ''o3-mini-2025-01-31''], 11 / 10 ^ 7, 44 / 10 ^ 7),
      ([''claude-3-5-sonnet-20241022'', ''claude-3-5-sonnet-latest'', ''claude-sonnet-4-20250514''], 3 / 10 ^ 6, 15 / 10 ^ 6),
      ([''claude-3-5-haiku-20241022'', ''claude-3-5-haiku-latest''], 8 / 10 ^ 7, 4 / 10 ^ 6),
      ([''claude-3-opus-20240229'', ''claude-3-opus-latest'', ''claude-opus-4-20250514''], 15 / 10 ^ 6, 75 / 10 ^ 6),
      ([''claude-3-haiku-20240307''], 25 / 10 ^ 8, 125 / 10 ^ 8)]"

definition LOCAL_PREFIXES :: "string list" where
  "LOCAL_PREFIXES = [''llama'', ''mistral'', ''mixtral'', ''phi'', ''gemma'', ''qwen'', ''codellama'', ''deepseek'',
     ''starcoder'', ''vicuna'', ''yi'']"

definition is_local_model :: "string \<Rightarrow> bool" where
  "is_local_model s = (let lower = to_lowercase s
     in list_ex (str_starts_with lower) LOCAL_PREFIXES \<or> str_contains lower '':latest'' \<or> str_contains lower '':instruct'')"

definition model_cost :: "string \<Rightarrow> (rat \<times> rat) option" where
  "model_cost model_id =
     (let i = after_last_slash model_id
      in case List.find (\<lambda>(names, p). i \<in> set names) PRICES of
           Some (_, p) \<Rightarrow> Some p
         | None \<Rightarrow> if is_local_model i then Some (0, 0) else None)"

definition default_cost :: "rat \<times> rat" where
  "default_cost = (25 / 10 ^ 7, 1 / 10 ^ 5)"

subsection \<open>The adapter\<close>

datatype assistant_content = AText string | AToolCall tool_call | AOther

datatype rig_message =
    RigUser string
  | RigToolResult string string
  | RigAssistant "assistant_content list"

datatype rig_tool_choice = ChoiceAuto | ChoiceRequired | ChoiceNone

record rig_request =
  rg_preamble :: "string option"
  rg_history :: "rig_message list"
  rg_tools :: "tool_definition list"
  rg_temperature :: "rat option"
  rg_max_tokens :: "nat option"
  rg_tool_choice :: "rig_tool_choice option"

record rig_response =
  rp_choice :: "assistant_content list"
  rp_input_tokens :: nat
  rp_output_tokens :: nat

definition assistant_contents :: "chat_message \<Rightarrow> assistant_content list" where
  "assistant_contents m = (case cm_tool_calls m of
     None \<Rightarrow> [AText (cm_content m)]
   | Some tcs \<Rightarrow>
       let contents = (if cm_content m = [] then [] else [AText (cm_content m)]) @ map AToolCall tcs
       in if contents = [] then [AText (cm_content m)] else contents)"

definition add_preamble :: "string \<Rightarrow> string option \<Rightarrow> string option" where
  "add_preamble s p = (case p of Some x \<Rightarrow> Some (x @ [CHR 0x0A] @ s) | None \<Rightarrow> Some s)"

definition convert_one :: "chat_message \<Rightarrow> string option \<times> rig_message list \<Rightarrow> string option \<times> rig_message list" where
  "convert_one m acc = (let (preamble, history) = acc in (case cm_role m of
     System \<Rightarrow> (add_preamble (cm_content m) preamble, history)
   | User \<Rightarrow> (preamble, history @ [RigUser (cm_content m)])
   | Assistant \<Rightarrow> (preamble, history @ [RigAssistant (assistant_contents m)])
   | Tool \<Rightarrow> (preamble, history @
       [RigToolResult (case cm_tool_call_id m of Some i \<Rightarrow> i | None \<Rightarrow> []) (cm_content m)])))"

definition convert_messages :: "chat_message list \<Rightarrow> string option \<times> rig_message list" where
  "convert_messages ms = fold convert_one ms (None, [])"

definition convert_tool_choice :: "string option \<Rightarrow> rig_tool_choice option" where
  "convert_tool_choice choice = (case map_option to_lowercase choice of
     None \<Rightarrow> None
   | Some s \<Rightarrow> if s = ''auto'' then Some ChoiceAuto else if s = ''required'' then Some ChoiceRequired
       else if s = ''none'' then Some ChoiceNone else None)"

definition extract_response :: "assistant_content list \<Rightarrow> string option \<times> tool_call list \<times> finish_reason" where
  "extract_response choice =
     (let texts = List.map_filter (\<lambda>c. case c of AText t \<Rightarrow> if t = [] then None else Some t | _ \<Rightarrow> None) choice;
          calls = List.map_filter (\<lambda>c. case c of AToolCall tc \<Rightarrow> Some tc | _ \<Rightarrow> None) choice
      in (if texts = [] then None else Some (concat texts), calls, if calls = [] then FinishStop else FinishToolUse))"

definition saturate_u32 :: "nat \<Rightarrow> nat" where
  "saturate_u32 n = min n (2 ^ 32 - 1)"

text \<open>With a message put into an empty history, building the request cannot fail.\<close>

definition build_rig_request ::
  "string option \<Rightarrow> rig_message list \<Rightarrow> tool_definition list \<Rightarrow> rig_tool_choice option \<Rightarrow> rat option \<Rightarrow> nat option \<Rightarrow> rig_request" where
  "build_rig_request preamble history tools choice temperature max_tokens =
     \<lparr>rg_preamble = preamble, rg_history = (if history = [] then [RigUser ''Hello''] else history), rg_tools = tools,
      rg_temperature = temperature, rg_max_tokens = max_tokens, rg_tool_choice = choice\<rparr>"

type_synonym rig_model = "nat \<Rightarrow> rig_request \<Rightarrow> string + rig_response"

definition adapter_complete :: "string \<Rightarrow> rig_model \<Rightarrow> nat \<Rightarrow> completion_request \<Rightarrow> llm_error + completion_response" where
  "adapter_complete name model n rq =
     (let (preamble, history) = convert_messages (rq_messages rq)
      in case model n (build_rig_request preamble history [] None (rq_temperature rq) (rq_max_tokens rq)) of
           Inl e \<Rightarrow> Inl (RequestFailed name e)
         | Inr r \<Rightarrow>
             let (content, calls, finish) = extract_response (rp_choice r)
             in Inr \<lparr>rs_content = (case content of Some t \<Rightarrow> t | None \<Rightarrow> []),
                     rs_input_tokens = saturate_u32 (rp_input_tokens r), rs_output_tokens = saturate_u32 (rp_output_tokens r),
                     rs_finish_reason = finish, rs_response_id = None\<rparr>)"

definition adapter_complete_with_tools ::
  "string \<Rightarrow> rig_model \<Rightarrow> nat \<Rightarrow> tool_completion_request \<Rightarrow> llm_error + tool_completion_response" where
  "adapter_complete_with_tools name model n rq =
     (let (preamble, history) = convert_messages (tq_messages rq)
      in case model n (build_rig_request preamble history (tq_tools rq) (convert_tool_choice (tq_tool_choice rq))
           (tq_temperature rq) (tq_max_tokens rq)) of
           Inl e \<Rightarrow> Inl (RequestFailed name e)
         | Inr r \<Rightarrow>
             let (content, calls, finish) = extract_response (rp_choice r)
             in Inr \<lparr>tr_content = content, tr_tool_calls = calls,
                     tr_input_tokens = saturate_u32 (rp_input_tokens r), tr_output_tokens = saturate_u32 (rp_output_tokens r),
                     tr_finish_reason = finish, tr_response_id = None\<rparr>)"

definition rig_adapter :: "rig_model \<Rightarrow> string \<Rightarrow> provider" where
  "rig_adapter model name =
     \<lparr>model_name = name, cost_per_token = (case model_cost name of Some p \<Rightarrow> p | None \<Rightarrow> default_cost),
      complete = adapter_complete name model, complete_with_tools = adapter_complete_with_tools name model,
      list_models = Inr []\<rparr>"

definition adapter_set_model :: "string \<Rightarrow> string \<Rightarrow> llm_error + unit" where
  "adapter_set_model name other = Inl (RequestFailed name (''Runtime model switching not supported for rig-core providers. '' @
     ''Restart with a different model configured.''))"

subsection \<open>Drafts of replies\<close>

record generator_config =
  gc_expire_minutes :: "32 word"
  gc_max_suggestions :: nat
  gc_temperature :: rat
  gc_max_tokens :: nat

definition default_generator_config :: generator_config where
  "default_generator_config = \<lparr>gc_expire_minutes = 15, gc_max_suggestions = 3, gc_temperature = 3 / 10, gc_max_tokens = 256\<rparr>"

record draft_reply =
  dr_text :: string
  dr_confidence :: f32

text \<open>What the drafter relies on: \<open>serde_json\<close> reading a list of suggestions, and the Unicode table of
  \<open>char::is_alphanumeric\<close>.\<close>

record drafter =
  rd_llm :: provider
  rd_config :: generator_config
  rd_suggestions :: "string \<Rightarrow> (string \<times> f32) list option"
  rd_alphanumeric :: "string \<Rightarrow> bool"

definition should_draft :: "drafter \<Rightarrow> string \<Rightarrow> bool" where
  "should_draft D content =
     (trim content \<noteq> [] \<and> \<not> str_starts_with content ''/'' \<and>
      \<not> (length (trim content) \<le> 2 \<and> list_all (\<lambda>c. \<not> rd_alphanumeric D c) (chars (trim content))))"

text \<open>The text between two fences, if both are there.\<close>

definition fenced :: "string \<Rightarrow> string \<Rightarrow> string option" where
  "fenced opening s = (case find_sub opening s of
     None \<Rightarrow> None
   | Some i \<Rightarrow> let after = drop (i + length opening) s
       in map_option (\<lambda>e. trim (take e after)) (find_sub ''```'' after))"

definition extract_json_array :: "string \<Rightarrow> string" where
  "extract_json_array text =
     (let s = trim text
      in if str_starts_with s ''['' then s
         else case fenced ''```json'' s of Some x \<Rightarrow> x | None \<Rightarrow>
           case (case fenced ''```'' s of Some x \<Rightarrow> if str_starts_with x ''['' then Some x else None | None \<Rightarrow> None) of
             Some x \<Rightarrow> x
           | None \<Rightarrow> (case (find_sub ''['' s, rfind_index ((=) (CHR '']'')) s) of
               (Some a, Some b) \<Rightarrow> if b > a then take (b + 1 - a) (drop a s) else s
             | _ \<Rightarrow> s))"

definition parse_suggestions :: "drafter \<Rightarrow> string \<Rightarrow> draft_reply list" where
  "parse_suggestions D response = (case rd_suggestions D (extract_json_array response) of
     None \<Rightarrow> []
   | Some xs \<Rightarrow> map (\<lambda>(t, c). \<lparr>dr_text = t, dr_confidence = f32_clamp (Fin 0) (Fin 1) c\<rparr>)
       (filter (\<lambda>(t, c). trim t \<noteq> []) (take (gc_max_suggestions (rd_config D)) xs)))"

definition draft_system_prompt :: "nat \<Rightarrow> string" where
  "draft_system_prompt n =
     (let nl = [CHR 0x0A]; q = [CHR 0x22]; dash = [CHR 0xE2, CHR 0x80, CHR 0x94]
      in ''You are a reply suggestion engine. Given a message from someone, generate 1-'' @ nat_str n @
         '' short, natural reply suggestions that sound like a real person (not an AI).'' @ nl @ nl @
         ''Rules:'' @ nl @ ''- Keep replies casual and conversational'' @ nl @
         ''- Match the energy/tone of the incoming message'' @ nl @
         ''- Each reply should be different in approach (e.g., enthusiastic, brief, question-back)'' @ nl @
         ''- No emoji overload '' @ dash @ '' use sparingly like a real texter'' @ nl @
         ''- Replies should be 1-3 sentences max'' @ nl @ nl @
         ''Respond with a JSON array of objects, each with:'' @ nl @
         ''- '' @ q @ ''text'' @ q @ '': the suggested reply'' @ nl @
         ''- '' @ q @ ''confidence'' @ q @ '': 0.0-1.0 how appropriate this reply is'' @ nl @ nl @
         ''Example output:'' @ nl @
         ''[{'' @ q @ ''text'' @ q @ '': '' @ q @ ''haha yeah totally'' @ q @ '', '' @ q @ ''confidence'' @ q @ '': 0.9}, '' @
         ''{'' @ q @ ''text'' @ q @ '': '' @ q @ ''wait really? tell me more'' @ q @ '', '' @ q @ ''confidence'' @ q @ '': 0.7}]'' @ nl @ nl @
         ''ONLY output the JSON array. No other text.'')"

definition drafter_request :: "drafter \<Rightarrow> string \<Rightarrow> string \<Rightarrow> completion_request" where
  "drafter_request D system user =
     (completion_request_new [system_message system, user_message user])
       \<lparr>rq_temperature := Some (gc_temperature (rd_config D)), rq_max_tokens := Some (gc_max_tokens (rd_config D))\<rparr>"

text \<open>A stable sort by falling confidence, in which a NaN is equal to everything, has this first element.\<close>

fun best_draft :: "draft_reply list \<Rightarrow> draft_reply option" where
  "best_draft [] = None"
| "best_draft (d # ds) = (case best_draft ds of
     None \<Rightarrow> Some d
   | Some b \<Rightarrow> Some (if f32_lt (dr_confidence d) (dr_confidence b) then b else d))"

definition draft_request :: "drafter \<Rightarrow> string \<Rightarrow> string \<Rightarrow> completion_request" where
  "draft_request D message sender = drafter_request D (draft_system_prompt (gc_max_suggestions (rd_config D)))
     (''Message from '' @ sender @ '': '' @ [CHR 0x22] @ message @ [CHR 0x22])"

definition draft :: "drafter \<Rightarrow> nat \<Rightarrow> string \<Rightarrow> string \<Rightarrow> llm_error + draft_reply option" where
  "draft D n message sender =
     (if \<not> should_draft D message then Inr None
      else case complete (rd_llm D) n (draft_request D message sender) of
        Inl e \<Rightarrow> Inl e
      | Inr r \<Rightarrow> Inr (best_draft (parse_suggestions D (rs_content r))))"

definition refine_system_prompt :: string where
  "refine_system_prompt =
     ''You are a reply rewrite engine. The user has reviewed an AI-drafted reply and wants it rewritten according to their instruction. '' @
     ''Completely rewrite the draft from scratch based on the instruction '' @ [CHR 0xE2, CHR 0x80, CHR 0x94] @ '' do not '' @
     ''append to or minimally edit the existing draft. Output ONLY the new reply text '' @ [CHR 0xE2, CHR 0x80, CHR 0x94] @
     '' no explanation, no JSON, no quotes.''"

definition refine_context :: "reply_data \<Rightarrow> string \<Rightarrow> string" where
  "refine_context r instruction =
     (let nl = [CHR 0x0A]; q = [CHR 0x22]
      in ''Original message from '' @ r_source_sender r @ '': '' @ q @ r_source_message r @ q @
         (if r_email_thread r = [] then []
          else nl @ nl @ ''Email thread context:'' @
            concat (map (\<lambda>m. nl @ ''  From '' @ em_from m @ '': '' @ q @ concat (take 300 (chars (em_content m))) @ q) (r_email_thread r))) @
         nl @ nl @ ''Current draft reply: '' @ q @ r_suggested_reply r @ q @ nl @ nl @ ''User instruction: '' @ instruction)"

definition refine_card :: "drafter \<Rightarrow> nat \<Rightarrow> approval_card \<Rightarrow> string \<Rightarrow> llm_error + draft_reply" where
  "refine_card D n c instruction = (case c_payload c of
     Reply r \<Rightarrow> (case complete (rd_llm D) n (drafter_request D refine_system_prompt (refine_context r instruction)) of
         Inl e \<Rightarrow> Inl e
       | Inr rs \<Rightarrow> Inr \<lparr>dr_text = trim (rs_content rs), dr_confidence = Fin (85 / 100)\<rparr>)
   | _ \<Rightarrow> Inl (InvalidResponse ''refine'' ''Can only refine Reply cards''))"

subsection \<open>Properties\<close>

lemma convert_fold:
  "fold convert_one ms (p, h) =
     (fold (\<lambda>m. add_preamble (cm_content m)) (filter (\<lambda>m. cm_role m = System) ms) p,
      h @ concat (map (\<lambda>m. snd (convert_one m (None, []))) ms))"
  by (induction ms arbitrary: p h) (auto simp: convert_one_def split: role.split)

definition same_message :: "chat_message \<Rightarrow> rig_message \<Rightarrow> bool" where
  "same_message m r = (case cm_role m of
     System \<Rightarrow> False
   | User \<Rightarrow> r = RigUser (cm_content m)
   | Tool \<Rightarrow> r = RigToolResult (case cm_tool_call_id m of Some i \<Rightarrow> i | None \<Rightarrow> []) (cm_content m)
   | Assistant \<Rightarrow> (\<exists>cs. r = RigAssistant cs \<and> cs \<noteq> [] \<and>
       List.map_filter (\<lambda>c. case c of AToolCall tc \<Rightarrow> Some tc | _ \<Rightarrow> None) cs = (case cm_tool_calls m of None \<Rightarrow> [] | Some tcs \<Rightarrow> tcs) \<and>
       concat (List.map_filter (\<lambda>c. case c of AText t \<Rightarrow> Some t | _ \<Rightarrow> None) cs) = cm_content m))"

lemma convert_one_same: "cm_role m \<noteq> System \<Longrightarrow> \<exists>r. snd (convert_one m (None, [])) = [r] \<and> same_message m r"
  by (cases "cm_role m")
    (auto simp: convert_one_def same_message_def assistant_contents_def Let_def List.map_filter_def o_def split: option.split)

text \<open>C27: The adapter loses no message: every message of the conversation other than the system messages
  becomes one message of rig, in the same order, with its text, its tool calls and the id of the call it
  answers; the system messages become the preamble, one line break between two of them.\<close>

theorem adapter_keeps_conversation:
  "(case fst (convert_messages ms) of None \<Rightarrow> filter (\<lambda>m. cm_role m = System) ms = []
     | Some p \<Rightarrow> filter (\<lambda>m. cm_role m = System) ms \<noteq> [] \<and>
         p = join [CHR 0x0A] (map cm_content (filter (\<lambda>m. cm_role m = System) ms))) \<and>
   list_all2 same_message (filter (\<lambda>m. cm_role m \<noteq> System) ms) (snd (convert_messages ms))"
proof -
  have join: "fold (\<lambda>m. add_preamble (cm_content m)) xs (Some p) = Some (p @ concat (map (\<lambda>m. [CHR 0x0A] @ cm_content m) xs))" for xs p
    by (induction xs arbitrary: p) (simp_all add: add_preamble_def)
  have joined: "join [CHR 0x0A] (y # ys) = y @ concat (map (\<lambda>s. [CHR 0x0A] @ s) ys)" for y ys
    by (induction ys arbitrary: y) simp_all
  have pre: "fst (convert_messages ms) = fold (\<lambda>m. add_preamble (cm_content m)) (filter (\<lambda>m. cm_role m = System) ms) None"
    by (simp add: convert_messages_def convert_fold)
  have one: "case fold (\<lambda>m. add_preamble (cm_content m)) xs None of None \<Rightarrow> xs = []
      | Some p \<Rightarrow> xs \<noteq> [] \<and> p = join [CHR 0x0A] (map cm_content xs)" for xs
  proof (cases xs)
    case (Cons x ys)
    then show ?thesis by (simp add: joined join add_preamble_def o_def)
  qed simp
  have "list_all2 same_message (filter (\<lambda>m. cm_role m \<noteq> System) ms) (concat (map (\<lambda>m. snd (convert_one m (None, []))) ms))"
  proof (induction ms)
    case (Cons m ms)
    show ?case
    proof (cases "cm_role m = System")
      case True
      then show ?thesis using Cons by (simp add: convert_one_def)
    next
      case False
      then show ?thesis using Cons convert_one_same [OF False] by auto
    qed
  qed simp
  then show ?thesis using one pre by (simp add: convert_messages_def convert_fold)
qed

text \<open>With a model behind the adapter a truncated answer cannot be told from a complete one: the finish
  reason is never that of a full token budget, so a routine whose answer was cut off before any text is recorded
  as empty, never as truncated.\<close>

theorem truncation_never_reported:
  assumes "rn_llm E = rig_adapter model name"
  shows "fst (execute_lightweight E now i p k s) \<noteq>
    Inl (''LLM response truncated (finish_reason=length) with no content. '' @
         ''Model may have exhausted token budget on reasoning.'')"
proof -
  have "rs_finish_reason r \<noteq> FinishLength" if "complete (rn_llm E) n rq = Inr r" for n rq r
    using that assms by (auto simp: rig_adapter_def adapter_complete_def Let_def extract_response_def split: sum.splits prod.splits if_splits)
  then show ?thesis
    by (auto simp: execute_lightweight_def Let_def split: sum.splits prod.splits if_splits)
qed

lemma best_draft_max:
  "best_draft ds = Some d \<Longrightarrow> (\<forall>x \<in> set ds. f32_unit_interval (dr_confidence x) \<and> dr_confidence x \<noteq> NaN) \<Longrightarrow>
    d \<in> set ds \<and> (\<forall>x \<in> set ds. \<not> f32_lt (dr_confidence d) (dr_confidence x))"
proof (induction ds arbitrary: d)
  case (Cons a ds)
  have fin: "\<exists>q. dr_confidence x = Fin q" if "x \<in> set (a # ds)" for x
    using Cons.prems(2) that by (cases "dr_confidence x") (auto simp: f32_unit_interval_def)
  show ?case
  proof (cases "best_draft ds")
    case None
    then have "ds = []" by (cases ds) (auto split: option.splits)
    then show ?thesis using None Cons.prems(1) fin [of a] by auto
  next
    case (Some b)
    then have b: "b \<in> set ds" "\<forall>x \<in> set ds. \<not> f32_lt (dr_confidence b) (dr_confidence x)"
      using Cons.IH [OF Some] Cons.prems(2) by auto
    obtain qa qb where q: "dr_confidence a = Fin qa" "dr_confidence b = Fin qb" using fin b(1) by fastforce
    have "\<not> f32_lt (Fin qa) (dr_confidence x)" if "\<not> qa < qb" "x \<in> set ds" for x
      using b(2) fin [of x] that q by fastforce
    then show ?thesis using Some Cons.prems(1) b q by (auto split: if_splits)
  qed
qed simp

text \<open>The draft of a reply. Of the first usable suggestions in the answer of the model, at most as many as
  configured, the drafter returns the one the model is most confident about, with a text and a confidence between
  0 and 1, and none exactly if there is no usable suggestion. A number read from JSON is never NaN.\<close>

theorem draft_is_best:
  assumes "\<forall>s xs. rd_suggestions D s = Some xs \<longrightarrow> (\<forall>(t, c) \<in> set xs. c \<noteq> NaN)" "should_draft D message"
    and "complete (rd_llm D) n (draft_request D message sender) = Inr rs" "ds = parse_suggestions D (rs_content rs)"
  shows "\<exists>r. draft D n message sender = Inr r \<and> length ds \<le> gc_max_suggestions (rd_config D) \<and> (r = None \<longleftrightarrow> ds = []) \<and>
    (\<forall>d. r = Some d \<longrightarrow> d \<in> set ds \<and> trim (dr_text d) \<noteq> [] \<and> f32_unit_interval (dr_confidence d) \<and>
      (\<forall>x \<in> set ds. \<not> f32_lt (dr_confidence d) (dr_confidence x)))"
proof -
  have ok: "\<forall>x \<in> set ds. f32_unit_interval (dr_confidence x) \<and> dr_confidence x \<noteq> NaN \<and> trim (dr_text x) \<noteq> []"
  proof (cases "rd_suggestions D (extract_json_array (rs_content rs))")
    case (Some xs)
    have "f32_clamp (Fin 0) (Fin 1) c \<noteq> NaN" if "(t, c) \<in> set xs" for t c
    proof -
      have "c \<noteq> NaN" using assms(1) Some that by blast
      then show ?thesis by (cases c) (auto simp: f32_clamp_def Let_def)
    qed
    then show ?thesis using Some assms(4) by (auto simp: parse_suggestions_def dest!: in_set_takeD)
  qed (simp add: assms(4) parse_suggestions_def)
  have "length ds \<le> gc_max_suggestions (rd_config D)"
    by (auto simp: assms(4) parse_suggestions_def intro: order_trans [OF length_filter_le] split: option.split)
  moreover have "draft D n message sender = Inr (best_draft ds)" using assms(2-4) by (simp add: draft_def)
  moreover have "best_draft ds = None \<longleftrightarrow> ds = []" by (cases ds) (auto split: option.splits)
  ultimately show ?thesis using best_draft_max [of ds] ok by fastforce
qed

lemma as_i64_id: "0 \<le> x \<Longrightarrow> x < 2 ^ 63 \<Longrightarrow> as_i64 x = x"
  by (simp add: as_i64_def int_word_sint)

text \<open>The back-off before a further attempt is a second doubled per attempt, a quarter more or less, for the
  first 53 attempts and any random offset; nothing wraps in this range.\<close>

theorem backoff_within_quarter:
  assumes "attempt \<le> 52" "offset \<le> jitter_range (backoff_base attempt) * 2"
  shows "backoff_base attempt = 1000 * 2 ^ attempt \<and>
    int (1000 * 2 ^ attempt - 250 * 2 ^ attempt) * 1000000 \<le> retry_backoff_delay attempt offset \<and>
    retry_backoff_delay attempt offset \<le> int (1000 * 2 ^ attempt + 250 * 2 ^ attempt) * 1000000"
proof -
  define p where "p = (2::nat) ^ attempt"
  have p: "1 \<le> p" "p \<le> 4503599627370496" using power_increasing [OF assms(1), of "2::nat"] by (simp_all add: p_def)
  have base: "backoff_base attempt = 1000 * p" using p by (simp add: backoff_base_def p_def [symmetric])
  then have range: "jitter_range (backoff_base attempt) = 250 * p" by (simp add: jitter_range_def)
  with assms(2) have off: "offset \<le> 500 * p" by simp
  have "as_i64 (int (backoff_base attempt)) = 1000 * int p" "as_i64 (int offset) = int offset"
    "as_i64 (int (jitter_range (backoff_base attempt))) = 250 * int p"
    unfolding range unfolding base using p off by (simp_all add: as_i64_id)
  moreover have "as_i64 (1000 * int p + (int offset - 250 * int p)) = 1000 * int p + (int offset - 250 * int p)"
  proof (rule as_i64_id)
    have "int offset \<le> 500 * int p" "int p \<le> 4503599627370496" "1 \<le> int p" using p off by simp_all
    then show "0 \<le> 1000 * int p + (int offset - 250 * int p)" "1000 * int p + (int offset - 250 * int p) < 2 ^ 63" by simp_all
  qed
  ultimately have "retry_backoff_delay attempt offset = max (1000 * int p + (int offset - 250 * int p)) 100 * 1000000"
    using p range by (simp add: retry_backoff_delay_def Let_def)
  then show ?thesis using p off base by (simp add: p_def [symmetric])
qed

subsection \<open>Examples\<close>

definition silent_model :: rig_model where
  "silent_model = (\<lambda>n rq. Inr \<lparr>rp_choice = [AText ''''], rp_input_tokens = 5, rp_output_tokens = 100\<rparr>)"

definition sample_drafter :: drafter where
  "sample_drafter = \<lparr>rd_llm = rig_adapter (\<lambda>n rq. Inr \<lparr>rp_choice = [AText ''[1]''], rp_input_tokens = 1, rp_output_tokens = 1\<rparr>) ''m'',
     rd_config = default_generator_config, rd_suggestions = (\<lambda>s. if s = ''[1]'' then Some [(''no'', Fin (1 / 2)), (''yes'', Fin 2)] else None),
     rd_alphanumeric = (\<lambda>c. True)\<rparr>"

theorem truncation_never_reported_witness:
  "fst (execute_lightweight (example_routine_env\<lparr>rn_llm := rig_adapter silent_model ''m''\<rparr>) 9 1 ''p'' 100 (example_engine [] [])) \<noteq>
    Inl (''LLM response truncated (finish_reason=length) with no content. '' @
         ''Model may have exhausted token budget on reasoning.'')"
  by (rule truncation_never_reported) simp

theorem draft_is_best_witness:
  "draft sample_drafter 0 ''hello?'' ''Ann'' = Inr (Some \<lparr>dr_text = ''yes'', dr_confidence = Fin 1\<rparr>)"
proof -
  have ad: "complete (rd_llm sample_drafter) 0 rq = Inr \<lparr>rs_content = ''[1]'', rs_input_tokens = 1, rs_output_tokens = 1, rs_finish_reason = FinishStop, rs_response_id = None\<rparr>" for rq
    by (simp add: sample_drafter_def rig_adapter_def adapter_complete_def extract_response_def List.map_filter_def saturate_u32_def split: prod.split)
  have "extract_json_array ''[1]'' = ''[1]''" "trim ''no'' \<noteq> []" "trim ''yes'' \<noteq> []" by code_simp+
  then have ds: "parse_suggestions sample_drafter ''[1]'' = [\<lparr>dr_text = ''no'', dr_confidence = Fin (1 / 2)\<rparr>, \<lparr>dr_text = ''yes'', dr_confidence = Fin 1\<rparr>]"
    by (simp add: parse_suggestions_def sample_drafter_def default_generator_config_def f32_clamp_def)
  have "should_draft sample_drafter ''hello?''" unfolding should_draft_def sample_drafter_def by code_simp
  moreover have "\<forall>s xs. rd_suggestions sample_drafter s = Some xs \<longrightarrow> (\<forall>(t, c) \<in> set xs. c \<noteq> NaN)"
    by (auto simp: sample_drafter_def split: if_splits)
  ultimately obtain r where r: "draft sample_drafter 0 ''hello?'' ''Ann'' = Inr r" "r \<noteq> None"
    and best: "\<forall>d. r = Some d \<longrightarrow> d \<in> set (parse_suggestions sample_drafter ''[1]'') \<and>
      (\<forall>x \<in> set (parse_suggestions sample_drafter ''[1]''). \<not> f32_lt (dr_confidence d) (dr_confidence x))"
    using draft_is_best [of sample_drafter "''hello?''" 0 "''Ann''", OF _ _ ad refl] ds by auto
  then show ?thesis by (cases r) (auto simp: ds)
qed

theorem backoff_within_quarter_witness:
  "3000 * 1000000 \<le> retry_backoff_delay 2 0 \<and> retry_backoff_delay 2 0 \<le> 5000 * 1000000"
  using backoff_within_quarter [of 2 0] by simp

end
