(* ===== verification/Telegram.thy ===== *)
theory Telegram
  imports Tool_Store Agent_Loop
begin

text \<open>
  The channels: the Telegram channel (\<open>src/src/channels/telegram.rs\<close>) and the manager that routes to the
  channels by name (\<open>src/src/channels/manager.rs\<close>).

  The HTTP client is a function of the number of the request and the request; every request made is kept in
  \<open>tg_requests\<close>. A reply is its status, whether that is a success, and its body or the error of reading it.
  The map of the manager is an association list, in the order in which the map is visited.
\<close>

subsection \<open>Requests\<close>

datatype chan_error =
    ChanStartupFailed string string
  | ChanDisconnected string string
  | ChanSendFailed string string
  | ChanInvalidMessage string
  | ChanAuthFailed string string
  | ChanRateLimited string
  | ChanHttp string
  | ChanHealthCheckFailed string

datatype form_part = FormText string | FormFile string string

datatype http_body = NoBody | JsonBody json | FormBody "(string \<times> form_part) list"

record http_request =
  hq_url :: string
  hq_body :: http_body

record http_reply =
  hr_success :: bool
  hr_status :: string
  hr_text :: "string + string"

type_synonym http_client = "nat \<Rightarrow> http_request \<Rightarrow> string + http_reply"

definition TELEGRAM_MAX_MESSAGE_LENGTH :: nat where
  "TELEGRAM_MAX_MESSAGE_LENGTH = 4096"

record telegram =
  tg_bot_token :: string
  tg_allowed_users :: "string list"
  tg_requests :: "http_request list"

definition new_telegram :: "string \<Rightarrow> string list \<Rightarrow> telegram" where
  "new_telegram token allowed = \<lparr>tg_bot_token = token, tg_allowed_users = allowed, tg_requests = []\<rparr>"

definition api_url :: "telegram \<Rightarrow> string \<Rightarrow> string" where
  "api_url c meth = ''https://api.telegram.org/bot'' @ tg_bot_token c @ ''/'' @ meth"

definition is_user_allowed :: "telegram \<Rightarrow> string \<Rightarrow> bool" where
  "is_user_allowed c username = list_ex (\<lambda>u. u = ''*'' \<or> u = username) (tg_allowed_users c)"

definition is_any_user_allowed :: "telegram \<Rightarrow> string list \<Rightarrow> bool" where
  "is_any_user_allowed c ids = list_ex (is_user_allowed c) ids"

definition check_user_allowed :: "string list \<Rightarrow> string list \<Rightarrow> bool" where
  "check_user_allowed allowed ids = list_ex (\<lambda>u. u = ''*'' \<or> u \<in> set ids) allowed"

definition tg_call :: "http_client \<Rightarrow> string \<Rightarrow> http_body \<Rightarrow> telegram \<Rightarrow> (string + http_reply) \<times> telegram" where
  "tg_call H meth body c =
     (let rq = \<lparr>hq_url = api_url c meth, hq_body = body\<rparr>
      in (H (length (tg_requests c)) rq, c\<lparr>tg_requests := tg_requests c @ [rq]\<rparr>))"

subsection \<open>Text messages\<close>

text \<open>\<open>None\<close> is the panic of a slice inside a character, and the loop that never ends for the length 0.\<close>

definition split_point :: "nat \<Rightarrow> string \<Rightarrow> nat" where
  "split_point max_len remaining =
     (let chunk = take max_len remaining;
          cut = (case rfind_index ((=) (CHR 0x0A)) chunk of
                  Some i \<Rightarrow> i
                | None \<Rightarrow> (case rfind_index ((=) (CHR '' '')) chunk of Some i \<Rightarrow> i | None \<Rightarrow> max_len))
      in if cut = 0 then max_len else cut)"

lemma split_point_pos: "0 < max_len \<Longrightarrow> 0 < split_point max_len s"
  by (simp add: split_point_def Let_def)

lemma length_trim_start_drop: "0 < n \<Longrightarrow> s \<noteq> [] \<Longrightarrow> length (trim_start (drop n s)) < length s"
  using length_trim_start [of "drop n s"] by (cases s) auto

function split_loop :: "nat \<Rightarrow> string \<Rightarrow> string list option" where
  "split_loop max_len remaining =
     (if remaining = [] then Some []
      else if length remaining \<le> max_len then Some [remaining]
      else if max_len = 0 \<or> \<not> is_char_boundary remaining max_len then None
      else map_option ((#) (take (split_point max_len remaining) remaining))
             (split_loop max_len (trim_start (drop (split_point max_len remaining) remaining))))"
  by pat_completeness auto
termination
  by (relation "measure (\<lambda>(m, s). length s)") (auto intro!: length_trim_start_drop split_point_pos)

declare split_loop.simps [simp del]

definition split_message :: "string \<Rightarrow> nat \<Rightarrow> string list option" where
  "split_message s max_len = (if length s \<le> max_len then Some [s] else split_loop max_len s)"

definition tg_failed :: "string \<Rightarrow> chan_error" where
  "tg_failed reason = ChanSendFailed ''telegram'' reason"

definition send_message_chunk ::
  "http_client \<Rightarrow> string \<Rightarrow> string \<Rightarrow> telegram \<Rightarrow> (chan_error + unit) \<times> telegram" where
  "send_message_chunk H chat_id content c =
     (case tg_call H ''sendMessage'' (JsonBody (JObject [(''chat_id'', JString chat_id), (''text'', JString content),
         (''parse_mode'', JString ''Markdown'')])) c of
        (Inl e, c1) \<Rightarrow> (Inl (tg_failed e), c1)
      | (Inr r, c1) \<Rightarrow>
          if hr_success r then (Inr (), c1)
          else (case tg_call H ''sendMessage'' (JsonBody (JObject [(''chat_id'', JString chat_id), (''text'', JString content)])) c1 of
              (Inl e, c2) \<Rightarrow> (Inl (tg_failed e), c2)
            | (Inr r2, c2) \<Rightarrow>
                if hr_success r2 then (Inr (), c2)
                else (Inl (tg_failed (''sendMessage failed (markdown: '' @ hr_status r @ '', plain: '' @
                        (case hr_text r2 of Inl _ \<Rightarrow> [] | Inr t \<Rightarrow> t) @ '')'')), c2)))"

fun send_chunks :: "http_client \<Rightarrow> string \<Rightarrow> string list \<Rightarrow> telegram \<Rightarrow> (chan_error + unit) \<times> telegram" where
  "send_chunks H chat_id [] c = (Inr (), c)"
| "send_chunks H chat_id (x # xs) c = (case send_message_chunk H chat_id x c of
     (Inl e, c1) \<Rightarrow> (Inl e, c1) | (Inr _, c1) \<Rightarrow> send_chunks H chat_id xs c1)"

text \<open>A result \<open>None\<close> is the panic of the split.\<close>

definition send_message :: "http_client \<Rightarrow> string \<Rightarrow> string \<Rightarrow> telegram \<Rightarrow> (chan_error + unit) option \<times> telegram" where
  "send_message H chat_id content c = (case split_message content TELEGRAM_MAX_MESSAGE_LENGTH of
     None \<Rightarrow> (None, c)
   | Some chunks \<Rightarrow> (let (r, c1) = send_chunks H chat_id chunks c in (Some r, c1)))"

definition tg_respond ::
  "http_client \<Rightarrow> incoming_message \<Rightarrow> outgoing_response \<Rightarrow> telegram \<Rightarrow> (chan_error + unit) option \<times> telegram" where
  "tg_respond H m response c = (case get_str (im_metadata m) ''chat_id'' of
     None \<Rightarrow> (Some (Inl (tg_failed ''No chat_id in message metadata'')), c)
   | Some chat_id \<Rightarrow> send_message H chat_id (og_content response) c)"

definition tg_send_status ::
  "http_client \<Rightarrow> status_update \<Rightarrow> json \<Rightarrow> telegram \<Rightarrow> (chan_error + unit) option \<times> telegram" where
  "tg_send_status H status metadata c = (case get_str metadata ''chat_id'' of
     None \<Rightarrow> (Some (Inr ()), c)
   | Some chat_id \<Rightarrow>
       let typing = (Some (Inr ()), snd (tg_call H ''sendChatAction''
             (JsonBody (JObject [(''chat_id'', JString chat_id), (''action'', JString ''typing'')])) c))
       in (case status of
             Thinking _ \<Rightarrow> typing
           | ToolStarted _ \<Rightarrow> typing
           | StatusText s \<Rightarrow>
               if s = [] then (Some (Inr ()), c)
               else (case send_message H chat_id ([CHR 0xE2, CHR 0x84, CHR 0xB9, CHR 0xEF, CHR 0xB8, CHR 0x8F] @ '' '' @ s) c of
                   (None, c1) \<Rightarrow> (None, c1) | (Some _, c1) \<Rightarrow> (Some (Inr ()), c1))
           | _ \<Rightarrow> (Some (Inr ()), c)))"

definition tg_health_check :: "http_client \<Rightarrow> telegram \<Rightarrow> (chan_error + unit) \<times> telegram" where
  "tg_health_check H c = (case tg_call H ''getMe'' NoBody c of
     (Inl e, c1) \<Rightarrow> (Inl (ChanStartupFailed ''telegram'' e), c1)
   | (Inr r, c1) \<Rightarrow> (if hr_success r then Inr () else Inl (ChanStartupFailed ''telegram'' (''getMe returned '' @ hr_status r)), c1))"

subsection \<open>Files\<close>

definition fs_read_bytes :: "path \<Rightarrow> file_system \<Rightarrow> (io_error + string) \<times> file_system" where
  "fs_read_bytes p fs =
     (if fs_fault fs then Inl Refused
      else case fs_resolve False fs p of
        Inl e \<Rightarrow> Inl e
      | Inr q \<Rightarrow> (case fs_node fs q of Some (FileNode s) \<Rightarrow> Inr s | _ \<Rightarrow> Inl IsADirectory),
      fs_tick fs)"

definition file_name :: "path \<Rightarrow> string option" where
  "file_name p = (let q = trim_cur p in if q = [] then None else case last q of Normal n \<Rightarrow> Some n | _ \<Rightarrow> None)"

definition media_result :: "string \<Rightarrow> http_reply \<Rightarrow> string + unit" where
  "media_result what r =
     (if hr_success r then Inr ()
      else case hr_text r of Inl e \<Rightarrow> Inl e | Inr t \<Rightarrow> Inl (''Telegram '' @ what @ '' failed: '' @ t))"

text \<open>A form with a file: chat, file, and the caption if there is one.\<close>

definition send_form ::
  "string \<Rightarrow> string \<Rightarrow> http_client \<Rightarrow> string \<Rightarrow> string \<Rightarrow> string \<Rightarrow> string option \<Rightarrow> telegram \<Rightarrow> (string + unit) \<times> telegram" where
  "send_form meth field H chat_id content name caption c =
     (case tg_call H meth (FormBody ([(''chat_id'', FormText chat_id), (field, FormFile name content)] @
         (case caption of None \<Rightarrow> [] | Some cap \<Rightarrow> [(''caption'', FormText cap)]))) c of
        (Inl e, c1) \<Rightarrow> (Inl e, c1)
      | (Inr r, c1) \<Rightarrow> (media_result meth r, c1))"

definition send_file ::
  "string \<Rightarrow> string \<Rightarrow> string \<Rightarrow> http_client \<Rightarrow> (io_error \<Rightarrow> string) \<Rightarrow> string \<Rightarrow> path \<Rightarrow> string option \<Rightarrow>
    telegram \<times> file_system \<Rightarrow> (string + unit) \<times> telegram \<times> file_system" where
  "send_file meth field default_name H show_io chat_id p caption s =
     (case fs_read_bytes p (snd s) of
        (Inl e, fs1) \<Rightarrow> (Inl (show_io e), fst s, fs1)
      | (Inr content, fs1) \<Rightarrow>
          (let (r, c1) = send_form meth field H chat_id content
                 (case file_name p of Some n \<Rightarrow> n | None \<Rightarrow> default_name) caption (fst s)
           in (r, c1, fs1)))"

definition send_document where "send_document = send_file ''sendDocument'' ''document'' ''file''"
definition send_photo where "send_photo = send_file ''sendPhoto'' ''photo'' ''photo.jpg''"
definition send_video where "send_video = send_file ''sendVideo'' ''video'' ''video.mp4''"
definition send_audio where "send_audio = send_file ''sendAudio'' ''audio'' ''audio.mp3''"
definition send_voice where "send_voice = send_file ''sendVoice'' ''voice'' ''voice.ogg''"
definition send_document_bytes where "send_document_bytes = send_form ''sendDocument'' ''document''"
definition send_photo_bytes where "send_photo_bytes = send_form ''sendPhoto'' ''photo''"

definition send_by_url ::
  "string \<Rightarrow> string \<Rightarrow> http_client \<Rightarrow> string \<Rightarrow> string \<Rightarrow> string option \<Rightarrow> telegram \<Rightarrow> (string + unit) \<times> telegram" where
  "send_by_url meth field H chat_id url caption c =
     (case tg_call H meth (JsonBody (JObject ([(''chat_id'', JString chat_id), (field, JString url)] @
         (case caption of None \<Rightarrow> [] | Some cap \<Rightarrow> [(''caption'', JString cap)])))) c of
        (Inl e, c1) \<Rightarrow> (Inl e, c1)
      | (Inr r, c1) \<Rightarrow> (media_result (meth @ '' by URL'') r, c1))"

definition send_document_by_url where "send_document_by_url = send_by_url ''sendDocument'' ''document''"
definition send_photo_by_url where "send_photo_by_url = send_by_url ''sendPhoto'' ''photo''"

subsection \<open>Polling\<close>

definition i64_str :: "int \<Rightarrow> string" where
  "i64_str i = (if i < 0 then ''-'' @ nat_str (nat (- i)) else nat_str (nat i))"

definition get_i64 :: "json \<Rightarrow> string \<Rightarrow> int option" where
  "get_i64 v k = Option.bind (json_get v k) json_i64"

text \<open>A field of an object in a field.\<close>

definition sub_field :: "json \<Rightarrow> string \<Rightarrow> (json \<Rightarrow> string \<Rightarrow> 'a option) \<Rightarrow> string \<Rightarrow> 'a option" where
  "sub_field v k get k2 = Option.bind (json_get v k) (\<lambda>x. get x k2)"

definition sender_ids :: "json \<Rightarrow> string \<times> string option" where
  "sender_ids m = (case sub_field m ''from'' get_str ''username'' of Some u \<Rightarrow> u | None \<Rightarrow> ''unknown'',
     map_option i64_str (sub_field m ''from'' get_i64 ''id''))"

definition telegram_message :: "string list \<Rightarrow> json \<Rightarrow> incoming_message option" where
  "telegram_message allowed update = (case json_get update ''message'' of
     None \<Rightarrow> None
   | Some m \<Rightarrow> (case get_str m ''text'' of
       None \<Rightarrow> None
     | Some content \<Rightarrow>
         (let (username, user_id) = sender_ids m;
              chat_id = (case sub_field m ''chat'' get_i64 ''id'' of Some i \<Rightarrow> i64_str i | None \<Rightarrow> [])
          in if \<not> check_user_allowed allowed (username # (case user_id of Some i \<Rightarrow> [i] | None \<Rightarrow> [])) then None
             else Some \<lparr>im_channel = ''telegram'', im_user_id = (case user_id of Some i \<Rightarrow> i | None \<Rightarrow> username),
                    im_user_name = Some (case sub_field m ''from'' get_str ''first_name'' of Some n \<Rightarrow> n | None \<Rightarrow> username),
                    im_content = content, im_thread_id = None,
                    im_metadata = JObject [(''chat_id'', JString chat_id), (''username'', JString username)]\<rparr>)))"

text \<open>The updates of one answer. \<open>open_rx\<close> says whether the receiver is still there when the \<open>n\<close>th message is
  sent; without it the loop ends, which is the flag of the result. The next offset wraps at the end of \<open>i64\<close>.\<close>

fun process_updates ::
  "(nat \<Rightarrow> bool) \<Rightarrow> string list \<Rightarrow> json list \<Rightarrow> int \<Rightarrow> incoming_message list \<Rightarrow> bool \<times> int \<times> incoming_message list" where
  "process_updates open_rx allowed [] offset sent = (True, offset, sent)"
| "process_updates open_rx allowed (u # us) offset sent =
     (let offset1 = (case get_i64 u ''update_id'' of Some i \<Rightarrow> as_i64 (i + 1) | None \<Rightarrow> offset)
      in case telegram_message allowed u of
           None \<Rightarrow> process_updates open_rx allowed us offset1 sent
         | Some m \<Rightarrow> if open_rx (length sent) then process_updates open_rx allowed us offset1 (sent @ [m])
             else (False, offset1, sent))"

text \<open>One turn of the polling loop: the answer decoded, or none on an error of the request or the decoder.\<close>

definition poll_request :: "int \<Rightarrow> json" where
  "poll_request offset = JObject [(''offset'', json_int offset), (''timeout'', JNumber (PosInt 30)),
     (''allowed_updates'', JArray [JString ''message''])]"

definition poll_turn ::
  "(nat \<Rightarrow> bool) \<Rightarrow> string list \<Rightarrow> json option \<Rightarrow> int \<Rightarrow> incoming_message list \<Rightarrow> bool \<times> int \<times> incoming_message list" where
  "poll_turn open_rx allowed answer offset sent = (case Option.bind answer (\<lambda>d. get_array d ''result'') of
     None \<Rightarrow> (True, offset, sent)
   | Some us \<Rightarrow> process_updates open_rx allowed us offset sent)"

subsection \<open>The manager\<close>

text \<open>A channel is the record of its methods on a state \<open>'w\<close> of the outside; a stream is a value \<open>'s\<close>.\<close>

record ('w, 's) channel =
  chn_name :: string
  chn_start :: "'w \<Rightarrow> (chan_error + 's) \<times> 'w"
  chn_respond :: "incoming_message \<Rightarrow> outgoing_response \<Rightarrow> 'w \<Rightarrow> (chan_error + unit) \<times> 'w"
  chn_status :: "status_update \<Rightarrow> json \<Rightarrow> 'w \<Rightarrow> (chan_error + unit) \<times> 'w"
  chn_broadcast :: "string \<Rightarrow> outgoing_response \<Rightarrow> 'w \<Rightarrow> (chan_error + unit) \<times> 'w"
  chn_health :: "'w \<Rightarrow> (chan_error + unit) \<times> 'w"
  chn_shutdown :: "'w \<Rightarrow> (chan_error + unit) \<times> 'w"

type_synonym ('w, 's) manager = "(string \<times> ('w, 's) channel) list"

definition manager_add :: "bool \<Rightarrow> ('w, 's) channel \<Rightarrow> ('w, 's) manager \<Rightarrow> ('w, 's) manager" where
  "manager_add lock_free ch M = (if lock_free then AList.update (chn_name ch) ch M else M)"

fun start_channels :: "('w, 's) manager \<Rightarrow> 'w \<Rightarrow> 's list \<times> 'w" where
  "start_channels [] w = ([], w)"
| "start_channels ((n, ch) # M) w = (case chn_start ch w of
     (Inr st, w1) \<Rightarrow> (let (sts, w2) = start_channels M w1 in (st # sts, w2))
   | (Inl _, w1) \<Rightarrow> start_channels M w1)"

definition start_all :: "('w, 's) manager \<Rightarrow> 'w \<Rightarrow> (chan_error + 's list) \<times> 'w" where
  "start_all M w = (let (sts, w1) = start_channels M w
     in (if sts = [] then Inl (ChanStartupFailed ''all'' ''No channels started successfully'') else Inr sts, w1))"

definition manager_respond ::
  "('w, 's) manager \<Rightarrow> incoming_message \<Rightarrow> outgoing_response \<Rightarrow> 'w \<Rightarrow> (chan_error + unit) \<times> 'w" where
  "manager_respond M m response w = (case map_of M (im_channel m) of
     Some ch \<Rightarrow> chn_respond ch m response w
   | None \<Rightarrow> (Inl (ChanSendFailed (im_channel m) ''Channel not found''), w))"

definition manager_status ::
  "('w, 's) manager \<Rightarrow> string \<Rightarrow> status_update \<Rightarrow> json \<Rightarrow> 'w \<Rightarrow> (chan_error + unit) \<times> 'w" where
  "manager_status M name status metadata w = (case map_of M name of
     Some ch \<Rightarrow> chn_status ch status metadata w | None \<Rightarrow> (Inr (), w))"

definition manager_broadcast ::
  "('w, 's) manager \<Rightarrow> string \<Rightarrow> string \<Rightarrow> outgoing_response \<Rightarrow> 'w \<Rightarrow> (chan_error + unit) \<times> 'w" where
  "manager_broadcast M name user response w = (case map_of M name of
     Some ch \<Rightarrow> chn_broadcast ch user response w
   | None \<Rightarrow> (Inl (ChanSendFailed name ''Channel not found''), w))"

text \<open>An operation on every channel, with the result under its name.\<close>

fun on_all :: "(('w, 's) channel \<Rightarrow> 'w \<Rightarrow> 'r \<times> 'w) \<Rightarrow> ('w, 's) manager \<Rightarrow> 'w \<Rightarrow> (string \<times> 'r) list \<times> 'w" where
  "on_all f [] w = ([], w)"
| "on_all f ((n, ch) # M) w = (let (r, w1) = f ch w; (rs, w2) = on_all f M w1 in ((n, r) # rs, w2))"

definition broadcast_all ::
  "('w, 's) manager \<Rightarrow> string \<Rightarrow> outgoing_response \<Rightarrow> 'w \<Rightarrow> (string \<times> (chan_error + unit)) list \<times> 'w" where
  "broadcast_all M user response = on_all (\<lambda>ch. chn_broadcast ch user response) M"

definition health_check_all :: "('w, 's) manager \<Rightarrow> 'w \<Rightarrow> (string \<times> (chan_error + unit)) list \<times> 'w" where
  "health_check_all M = on_all chn_health M"

definition shutdown_all :: "('w, 's) manager \<Rightarrow> 'w \<Rightarrow> (chan_error + unit) \<times> 'w" where
  "shutdown_all M w = (Inr (), snd (on_all chn_shutdown M w))"

definition channel_names :: "('w, 's) manager \<Rightarrow> string list" where
  "channel_names M = map fst M"

end
