(* ===== verification/Ios_Chat.thy ===== *)
theory Ios_Chat
  imports Telegram
begin

text \<open>
  The chat channel of the iOS app (\<open>src/src/channels/ios.rs\<close>) and the channel of the terminal
  (\<open>src/src/channels/cli.rs\<close>).

  The outgoing channel is the list of what was broadcast; a client is the position it reads from, and one that is
  more than 256 messages behind has lost the older ones. The incoming channel is the list of what was sent and
  whether its receiver is still there.
\<close>

subsection \<open>The channel\<close>

datatype server_message =
    SmResponse string "string option"
  | SmThinking string
  | SmToolStarted string
  | SmToolCompleted string bool
  | SmToolResult string string
  | SmStatus string
  | SmError string
  | SmStreamChunk string "string option"

record ios_channel =
  io_receiver :: bool
  io_open :: bool
  io_incoming :: "incoming_message list"
  io_outgoing :: "server_message list"

definition new_ios :: ios_channel where
  "new_ios = \<lparr>io_receiver = True, io_open = True, io_incoming = [], io_outgoing = []\<rparr>"

definition ios_start :: "ios_channel \<Rightarrow> (chan_error + unit) \<times> ios_channel" where
  "ios_start c = (if io_receiver c then (Inr (), c\<lparr>io_receiver := False\<rparr>)
     else (Inl (ChanStartupFailed ''ios'' ''start() already called''), c))"

definition ios_send :: "server_message \<Rightarrow> ios_channel \<Rightarrow> ios_channel" where
  "ios_send m c = c\<lparr>io_outgoing := io_outgoing c @ [m]\<rparr>"

definition ios_respond :: "incoming_message \<Rightarrow> outgoing_response \<Rightarrow> ios_channel \<Rightarrow> ios_channel" where
  "ios_respond m response = ios_send (SmResponse (og_content response) (im_thread_id m))"

definition server_status :: "status_update \<Rightarrow> server_message" where
  "server_status u = (case u of
     Thinking s \<Rightarrow> SmThinking s
   | ToolStarted n \<Rightarrow> SmToolStarted n
   | ToolCompleted n success \<Rightarrow> SmToolCompleted n success
   | ToolPreview n preview \<Rightarrow> SmToolResult n preview
   | StreamChunk s \<Rightarrow> SmStreamChunk s None
   | StatusText s \<Rightarrow> SmStatus s
   | JobStarted _ title _ \<Rightarrow> SmStatus title
   | ApprovalNeeded _ tool description _ summary \<Rightarrow>
       SmStatus (case summary of Some t \<Rightarrow> ts_headline t | None \<Rightarrow> tool @ '': '' @ description)
   | AuthRequired name _ _ _ \<Rightarrow> SmStatus name
   | AuthCompleted name success message \<Rightarrow> SmStatus (name @ '': '' @ (if success then message else ''auth failed'')))"

definition ios_send_status :: "status_update \<Rightarrow> ios_channel \<Rightarrow> ios_channel" where
  "ios_send_status u = ios_send (server_status u)"

subsection \<open>A client\<close>

record chat_client =
  cc_position :: nat
  cc_received :: "server_message list"
  cc_connected :: bool

definition outgoing_capacity :: nat where
  "outgoing_capacity = 256"

definition chat_connect :: "ios_channel \<Rightarrow> chat_client" where
  "chat_connect c = \<lparr>cc_position = length (io_outgoing c), cc_received = [], cc_connected = True\<rparr>"

text \<open>One message from the broadcast; \<open>sent\<close> says whether the socket takes it.\<close>

definition chat_receive :: "bool \<Rightarrow> ios_channel \<Rightarrow> chat_client \<Rightarrow> chat_client" where
  "chat_receive sent c k =
     (let n = length (io_outgoing c); p = cc_position k
      in if \<not> cc_connected k \<or> n \<le> p then k
         else if outgoing_capacity < n - p then k\<lparr>cc_position := n - outgoing_capacity\<rparr>
         else if sent then k\<lparr>cc_position := p + 1, cc_received := cc_received k @ [io_outgoing c ! p]\<rparr>
         else k\<lparr>cc_position := p + 1, cc_connected := False\<rparr>)"

text \<open>A text frame of the client: the content and the thread, or none if it cannot be read.\<close>

definition chat_text :: "(string \<times> string option) option \<Rightarrow> ios_channel \<times> chat_client \<Rightarrow> ios_channel \<times> chat_client" where
  "chat_text frame w = (case frame of
     None \<Rightarrow> w
   | Some (s, thread) \<Rightarrow>
       (let content = trim s
        in if content = [] then w
           else if io_open (fst w) then
             ((fst w)\<lparr>io_incoming := io_incoming (fst w) @ [\<lparr>im_channel = ''ios'', im_user_id = ''ios-user'',
                im_user_name = None, im_content = content, im_thread_id = thread, im_metadata = JNull\<rparr>]\<rparr>, snd w)
           else (fst w, (snd w)\<lparr>cc_connected := False\<rparr>)))"

subsection \<open>History\<close>

record chat_history_message =
  hm_id :: uuid
  hm_role :: string
  hm_content :: string
  hm_timestamp :: string

datatype history_answer =
    History string "chat_history_message list" bool
  | BadThread
  | HistoryFailed

definition history_message_of :: "conversation_message \<Rightarrow> chat_history_message" where
  "history_message_of m = \<lparr>hm_id = vm_id m, hm_role = vm_role m, hm_content = vm_content m, hm_timestamp = []\<rparr>"

definition history_handler ::
  "(string \<Rightarrow> uuid option) \<Rightarrow> string option \<Rightarrow> nat option \<Rightarrow> conv_db option \<Rightarrow> history_answer \<times> conv_db option" where
  "history_handler parse_uuid thread limit store =
     (let bound = min (case limit of Some n \<Rightarrow> n | None \<Rightarrow> 50) 200
      in case thread of
           None \<Rightarrow> (History [] [] False, store)
         | Some t \<Rightarrow> (case parse_uuid t of
             None \<Rightarrow> (BadThread, store)
           | Some i \<Rightarrow> (case store of
               None \<Rightarrow> (History t [] False, store)
             | Some db \<Rightarrow> (case list_conversation_messages i db of
                 (None, db1) \<Rightarrow> (HistoryFailed, Some db1)
               | (Some ms, db1) \<Rightarrow>
                   (History t (map history_message_of (drop (length ms - bound) ms)) (bound < length ms), Some db1)))))"

subsection \<open>The terminal\<close>

text \<open>Lines are read until the input ends or fails; blank ones are skipped.\<close>

definition cli_messages :: "string list \<Rightarrow> incoming_message list" where
  "cli_messages lines = map (\<lambda>l. \<lparr>im_channel = ''cli'', im_user_id = ''local-user'', im_user_name = None, im_content = l,
     im_thread_id = None, im_metadata = JNull\<rparr>) (filter (\<lambda>l. l \<noteq> []) (map trim lines))"

definition cli_respond :: "outgoing_response \<Rightarrow> string" where
  "cli_respond response = [CHR 0x0A] @ og_content response @ [CHR 0x0A, CHR 0x0A]"

text \<open>The lines written to the error stream.\<close>

definition cli_status :: "status_update \<Rightarrow> string list" where
  "cli_status u = (case u of
     Thinking s \<Rightarrow> [[CHR 0xE2, CHR 0x8F, CHR 0xB3] @ '' '' @ s]
   | ToolStarted n \<Rightarrow> [[CHR 0xF0, CHR 0x9F, CHR 0x94, CHR 0xA7] @ '' Running '' @ n @ ''...'']
   | ToolCompleted n success \<Rightarrow>
       [if success then [CHR 0xE2, CHR 0x9C, CHR 0x85] @ '' '' @ n @ '' done'' else [CHR 0xE2, CHR 0x9D, CHR 0x8C] @ '' '' @ n @ '' failed'']
   | ToolPreview n preview \<Rightarrow> [''   '' @ n @ '' '' @ [CHR 0xE2, CHR 0x86, CHR 0x92] @ '' '' @ preview]
   | ApprovalNeeded _ tool description _ _ \<Rightarrow>
       [[CHR 0xE2, CHR 0x9A, CHR 0xA0, CHR 0xEF, CHR 0xB8, CHR 0x8F] @ ''  Approval needed: '' @ tool @ '' '' @
          [CHR 0xE2, CHR 0x80, CHR 0x94] @ '' '' @ description,
        ''   Type '' @ [CHR 0x27] @ ''yes'' @ [CHR 0x27] @ '' to approve, '' @ [CHR 0x27] @ ''no'' @ [CHR 0x27] @ '' to reject'']
   | StatusText s \<Rightarrow> [[CHR 0xE2, CHR 0x84, CHR 0xB9, CHR 0xEF, CHR 0xB8, CHR 0x8F] @ ''  '' @ s]
   | _ \<Rightarrow> [])"

subsection \<open>Properties\<close>

text \<open>A page of the history is the end of the conversation: at most 200 messages, the newest ones in their order, and it
  says that there are more exactly if some were left out.\<close>

theorem history_is_end_of_conversation:
  assumes "history_handler parse_uuid thread limit (Some db) = (History t page has_more, store)" "thread \<noteq> None"
  shows "\<exists>i ms older. parse_uuid t = Some i \<and> fst (list_conversation_messages i db) = Some ms \<and>
    map history_message_of ms = older @ page \<and> length page \<le> 200 \<and> (has_more \<longleftrightarrow> older \<noteq> []) \<and>
    (has_more \<longrightarrow> length page = min (case limit of Some n \<Rightarrow> n | None \<Rightarrow> 50) 200)"
proof -
  let ?b = "min (case limit of Some n \<Rightarrow> n | None \<Rightarrow> 50) 200 :: nat"
  obtain i where i: "parse_uuid t = Some i" "thread = Some t"
    using assms by (auto simp: history_handler_def Let_def split: option.splits prod.splits)
  obtain r db1 where run: "list_conversation_messages i db = (r, db1)" by fastforce
  with assms i obtain ms where ms: "r = Some ms" and page: "page = map history_message_of (drop (length ms - ?b) ms)"
    and has_more: "has_more \<longleftrightarrow> ?b < length ms"
    by (auto simp: history_handler_def Let_def split: option.splits)
  have "map history_message_of ms = map history_message_of (take (length ms - ?b) ms) @ page"
    unfolding page map_append [symmetric] by simp
  moreover have "length page \<le> 200" "has_more \<longrightarrow> length page = ?b" using page has_more by auto
  moreover have "has_more \<longleftrightarrow> map history_message_of (take (length ms - ?b) ms) \<noteq> []"
    using has_more by (cases ms) (auto split: nat.split)
  ultimately show ?thesis using i(1) run ms by (intro exI conjI) (auto simp del: map_is_Nil_conv)
qed

theorem history_is_end_of_conversation_witness:
  "\<exists>ms older. map history_message_of ms = older @ [] \<and> length ([] :: chat_history_message list) \<le> 200"
proof -
  have "history_handler (\<lambda>_. Some 7) (Some ''x'') None (Some \<lparr>cv_conversations = [], cv_messages = [], cv_llm_calls = [], cv_faults = []\<rparr>)
      = (History ''x'' [] False, Some \<lparr>cv_conversations = [], cv_messages = [], cv_llm_calls = [], cv_faults = []\<rparr>)"
    by code_simp
  from history_is_end_of_conversation [OF this] show ?thesis by auto
qed

lemma ios_frames_in_order:
  "outgoing_capacity \<ge> length (io_outgoing c) - cc_position k \<Longrightarrow> cc_connected k \<Longrightarrow> cc_position k < length (io_outgoing c) \<Longrightarrow>
   cc_received (chat_receive True c k) = cc_received k @ [io_outgoing c ! cc_position k]"
  by (simp add: chat_receive_def Let_def)

end
