(* ===== verification/Telegram_Safety.thy ===== *)
theory Telegram_Safety
  imports Telegram
begin

text \<open>
  Properties of the Telegram channel (\<open>src/src/channels/telegram.rs\<close>): the parts of a long message and the
  requests they are sent with, and the senders whose messages reach the agent.
\<close>

subsection \<open>The parts of a message\<close>

text \<open>The parts give the text again when the white space after each of them is put back.\<close>

fun rejoins :: "string list \<Rightarrow> string \<Rightarrow> bool" where
  "rejoins [] s \<longleftrightarrow> s = []"
| "rejoins (c # cs) s \<longleftrightarrow> prefix c s \<and> rejoins cs (trim_start (drop (length c) s))"

lemma trim_start_Nil: "trim_start [] = []"
  by (subst trim_start.simps) (simp add: ws_len_Nil)

lemma rfind_index_lt: "rfind_index P xs = Some i \<Longrightarrow> i < length xs"
  by (induction xs arbitrary: i) (auto split: option.splits if_splits)

lemma split_point_le: "split_point n s \<le> n"
  by (auto simp: split_point_def Let_def split: option.splits dest!: rfind_index_lt)

lemma length_split_point: "length (take (split_point n s) s) \<le> n"
  using split_point_le [of n s] by (simp add: min_def)

lemma split_loop_parts:
  "split_loop n s = Some cs \<Longrightarrow> list_all (\<lambda>c. length c \<le> n) cs \<and> rejoins cs s"
proof (induction n s arbitrary: cs rule: split_loop.induct)
  case (1 n s)
  consider "s = []" | "s \<noteq> []" "length s \<le> n" | "s \<noteq> []" "n < length s" by linarith
  then show ?case
  proof cases
    case 3
    then obtain ds where guard: "\<not> (n = 0 \<or> \<not> is_char_boundary s n)"
      and ds: "split_loop n (trim_start (drop (split_point n s) s)) = Some ds"
      and cs: "cs = take (split_point n s) s # ds"
      using "1.prems" by (subst (asm) split_loop.simps) (auto split: if_splits)
    have "length (take (split_point n s) s) = split_point n s"
      using 3 split_point_le [of n s] by simp
    then show ?thesis
      using "1.IH" [OF _ _ guard ds] 3 cs length_split_point [of n s]
      by (simp add: take_is_prefix)
  qed (use "1.prems" in \<open>subst (asm) split_loop.simps, force simp: trim_start_Nil\<close>)+
qed

lemma ascii_boundary: "is_ascii s \<Longrightarrow> n < length s \<Longrightarrow> is_char_boundary s n"
  by (auto simp: is_ascii_def is_char_boundary_def continuation_def dest!: bspec [where x = "s ! n"])

lemma is_ascii_suffix: "is_ascii s \<Longrightarrow> suffix t s \<Longrightarrow> is_ascii t"
  by (auto simp: is_ascii_def suffix_def)

lemma split_loop_ascii: "is_ascii s \<Longrightarrow> 0 < n \<Longrightarrow> split_loop n s \<noteq> None"
proof (induction n s rule: split_loop.induct)
  case (1 n s)
  show ?case
  proof (cases "s \<noteq> [] \<and> n < length s")
    case True
    have "is_ascii (trim_start (drop (split_point n s) s))"
      by (rule is_ascii_suffix [OF "1.prems"(1)])
        (rule suffix_order.trans [OF trim_start_suffix suffix_drop])
    with 1 True ascii_boundary [of s n] show ?thesis
      by (subst split_loop.simps) auto
  qed (subst split_loop.simps, auto)
qed

lemma split_message_parts:
  assumes "split_message s n = Some cs"
  shows "list_all (\<lambda>c. length c \<le> n) cs \<and> rejoins cs s"
  using assms split_loop_parts [of n s cs] by (auto simp: split_message_def trim_start_Nil split: if_splits)

lemma split_message_ascii: "is_ascii s \<Longrightarrow> 0 < n \<Longrightarrow> split_message s n \<noteq> None"
  using split_loop_ascii by (auto simp: split_message_def)

subsection \<open>The requests of a message\<close>

text \<open>The requests for a part: with Markdown, and a second one without when \<open>again\<close>.\<close>

definition part_request :: "telegram \<Rightarrow> string \<Rightarrow> bool \<Rightarrow> string \<Rightarrow> http_request" where
  "part_request c chat_id markdown content =
     \<lparr>hq_url = api_url c ''sendMessage'', hq_body = JsonBody (JObject ([(''chat_id'', JString chat_id), (''text'', JString content)] @
        (if markdown then [(''parse_mode'', JString ''Markdown'')] else [])))\<rparr>"

definition part_requests :: "telegram \<Rightarrow> string \<Rightarrow> string \<Rightarrow> bool \<Rightarrow> http_request list" where
  "part_requests c chat_id content again =
     part_request c chat_id True content # (if again then [part_request c chat_id False content] else [])"

lemma part_requests_cong:
  "tg_bot_token c' = tg_bot_token c \<Longrightarrow> part_requests c' = part_requests c"
  by (simp add: fun_eq_iff part_requests_def part_request_def api_url_def)

lemma send_message_chunk_requests:
  assumes "send_message_chunk H chat_id content c = (r, c')"
  shows "\<exists>b. c' = c\<lparr>tg_requests := tg_requests c @ part_requests c chat_id content b\<rparr>"
  using assms unfolding send_message_chunk_def tg_call_def
  by (auto simp: Let_def part_requests_def part_request_def api_url_def split: sum.splits if_splits
      intro: exI [of _ True] exI [of _ False])

lemma send_chunks_requests:
  "send_chunks H chat_id cs c = (r, c') \<Longrightarrow>
   \<exists>bs. length bs \<le> length cs \<and> (r = Inr () \<longrightarrow> length bs = length cs) \<and>
     c' = c\<lparr>tg_requests := tg_requests c @ concat (map2 (part_requests c chat_id) cs bs)\<rparr>"
proof (induction cs arbitrary: c)
  case (Cons k cs)
  obtain q c1 where one: "send_message_chunk H chat_id k c = (q, c1)" by fastforce
  then obtain b where c1: "c1 = c\<lparr>tg_requests := tg_requests c @ part_requests c chat_id k b\<rparr>"
    using send_message_chunk_requests by blast
  show ?case
  proof (cases q)
    case (Inl e)
    with Cons.prems one c1 show ?thesis by (intro exI [of _ "[b]"]) auto
  next
    case (Inr u)
    with Cons.prems one have "send_chunks H chat_id cs c1 = (r, c')" by simp
    from Cons.IH [OF this] obtain bs where bs: "length bs \<le> length cs" "r = Inr () \<longrightarrow> length bs = length cs"
      "c' = c1\<lparr>tg_requests := tg_requests c1 @ concat (map2 (part_requests c1 chat_id) cs bs)\<rparr>" by blast
    have "part_requests c1 = part_requests c" by (rule part_requests_cong) (simp add: c1)
    with bs c1 show ?thesis by (intro exI [of _ "b # bs"]) auto
  qed
qed auto

text \<open>C24: A message is cut into parts of at most 4096 bytes that lose nothing but the white space at the cuts, and the
  requests made are those of the parts in their order: all of them if the send succeeds, those up to the failing part
  if not. A message of ASCII characters is always sent; otherwise the cut may fall inside a character, which ends
  the task without a request.\<close>

theorem message_parts_within_limit:
  "case send_message H chat_id content c of
     (None, c') \<Rightarrow> c' = c \<and> \<not> is_ascii content
   | (Some r, c') \<Rightarrow>
       (\<exists>cs bs. list_all (\<lambda>k. length k \<le> 4096) cs \<and> rejoins cs content \<and> length bs \<le> length cs \<and>
          (r = Inr () \<longrightarrow> length bs = length cs) \<and>
          c' = c\<lparr>tg_requests := tg_requests c @ concat (map2 (part_requests c chat_id) cs bs)\<rparr>)"
proof (cases "split_message content 4096")
  case None
  then show ?thesis
    using split_message_ascii [of content 4096] by (auto simp: send_message_def TELEGRAM_MAX_MESSAGE_LENGTH_def)
next
  case (Some cs)
  obtain r c' where run: "send_chunks H chat_id cs c = (r, c')" by fastforce
  with Some have send: "send_message H chat_id content c = (Some r, c')"
    by (simp add: send_message_def TELEGRAM_MAX_MESSAGE_LENGTH_def)
  show ?thesis
    using send_chunks_requests [OF run] split_message_parts [OF Some] by (simp only: send prod.case option.case) blast
qed

definition sample_http :: http_client where
  "sample_http n rq = Inr \<lparr>hr_success = True, hr_status = ''200 OK'', hr_text = Inr []\<rparr>"

theorem message_parts_within_limit_witness:
  "fst (send_message sample_http ''7'' ''hello'' (new_telegram ''t'' [])) = Some (Inr ()) \<and>
   (\<exists>cs bs. list_all (\<lambda>k. length k \<le> 4096) cs \<and> rejoins cs ''hello'' \<and> length bs = length cs \<and>
      tg_requests (snd (send_message sample_http ''7'' ''hello'' (new_telegram ''t'' []))) =
        concat (map2 (part_requests (new_telegram ''t'' []) ''7'') cs bs))"
proof -
  let ?c = "new_telegram ''t'' []"
  have ok: "fst (send_message sample_http ''7'' ''hello'' ?c) = Some (Inr ())"
    by (simp add: send_message_def split_message_def TELEGRAM_MAX_MESSAGE_LENGTH_def send_message_chunk_def
        tg_call_def sample_http_def new_telegram_def Let_def)
  then obtain c' where send: "send_message sample_http ''7'' ''hello'' ?c = (Some (Inr ()), c')"
    by (metis prod.collapse)
  with message_parts_within_limit [where H = sample_http and chat_id = "''7''" and content = "''hello''" and c = ?c]
  obtain cs bs where "list_all (\<lambda>k. length k \<le> 4096) cs" "rejoins cs ''hello''" "length bs = length cs"
    "c' = ?c\<lparr>tg_requests := tg_requests ?c @ concat (map2 (part_requests ?c ''7'') cs bs)\<rparr>" by auto
  moreover from this(4) have "tg_requests c' = concat (map2 (part_requests ?c ''7'') cs bs)"
    by (simp add: new_telegram_def)
  ultimately show ?thesis using ok send by (simp only: snd_conv) blast
qed

text \<open>A long message whose byte 4096 lies inside a character is not sent: the split ends in a panic before the first
  request.\<close>

theorem cut_inside_character_panics:
  assumes "4096 < length content" and "continuation (content ! 4096)"
  shows "send_message H chat_id content c = (None, c)"
proof -
  have "\<not> is_char_boundary content 4096" using assms by (simp add: is_char_boundary_def)
  then have "split_loop 4096 content = None" using assms by (subst split_loop.simps) auto
  with assms show ?thesis by (simp add: send_message_def split_message_def TELEGRAM_MAX_MESSAGE_LENGTH_def)
qed

theorem cut_inside_character_panics_witness:
  "send_message sample_http ''7'' (replicate 4095 (CHR ''a'') @ [CHR 0xC3, CHR 0xA9, CHR ''!'']) (new_telegram ''t'' []) =
     (None, new_telegram ''t'' [])"
  by (rule cut_inside_character_panics) (simp_all add: nth_append continuation_def code_def)

subsection \<open>The senders\<close>

lemma telegram_message_allowed:
  assumes "telegram_message allowed u = Some m"
  shows "im_channel m = ''telegram'' \<and>
     (''*'' \<in> set allowed \<or> im_user_id m \<in> set allowed \<or> (\<exists>n \<in> set allowed. get_str (im_metadata m) ''username'' = Some n))"
  using assms
  by (auto simp: telegram_message_def Let_def check_user_allowed_def list_ex_iff get_str_def
      split: option.splits if_splits prod.splits)

lemma process_updates_allowed:
  "process_updates open_rx allowed us offset sent = (k, offset', sent') \<Longrightarrow>
   \<exists>new. sent' = sent @ new \<and> (\<forall>m \<in> set new. \<exists>u \<in> set us. telegram_message allowed u = Some m)"
proof (induction us arbitrary: offset sent)
  case (Cons u us)
  show ?case
  proof (cases "telegram_message allowed u")
    case None
    with Cons show ?thesis by (fastforce simp: Let_def)
  next
    case (Some m)
    show ?thesis
    proof (cases "open_rx (length sent)")
      case True
      with Cons.prems Some obtain off where "process_updates open_rx allowed us off (sent @ [m]) = (k, offset', sent')"
        by (auto simp: Let_def)
      from Cons.IH [OF this] obtain new where "sent' = (sent @ [m]) @ new"
        "\<forall>m \<in> set new. \<exists>u \<in> set us. telegram_message allowed u = Some m" by blast
      with Some show ?thesis by (intro exI [of _ "m # new"]) auto
    next
      case False
      with Cons.prems Some show ?thesis by (auto simp: Let_def)
    qed
  qed
qed auto

text \<open>A turn of the polling forwards only messages whose sender is allowed by the star, by the id or by the user name; a
  sender without a user name is called \<open>unknown\<close>, so an allowed user \<open>unknown\<close> lets all of them in.\<close>

theorem forwarded_sender_allowed:
  assumes "poll_turn open_rx allowed answer offset sent = (k, offset', sent')"
  shows "\<exists>new. sent' = sent @ new \<and> (\<forall>m \<in> set new. im_channel m = ''telegram'' \<and>
     (''*'' \<in> set allowed \<or> im_user_id m \<in> set allowed \<or> (\<exists>n \<in> set allowed. get_str (im_metadata m) ''username'' = Some n)))"
proof (cases "Option.bind answer (\<lambda>d. get_array d ''result'')")
  case None
  with assms show ?thesis by (simp add: poll_turn_def)
next
  case (Some us)
  with assms have "process_updates open_rx allowed us offset sent = (k, offset', sent')" by (simp add: poll_turn_def)
  from process_updates_allowed [OF this] obtain new where new: "sent' = sent @ new"
    "\<forall>m \<in> set new. \<exists>u \<in> set us. telegram_message allowed u = Some m" by blast
  show ?thesis
  proof (intro exI [of _ new] conjI [OF new(1)] ballI)
    fix m assume "m \<in> set new"
    with new(2) obtain u where "telegram_message allowed u = Some m" by blast
    then show "im_channel m = ''telegram'' \<and> (''*'' \<in> set allowed \<or> im_user_id m \<in> set allowed \<or>
        (\<exists>n \<in> set allowed. get_str (im_metadata m) ''username'' = Some n))" by (rule telegram_message_allowed)
  qed
qed

text \<open>An update as the server sends it, from a sender with the given fields.\<close>

definition sample_update :: "(string \<times> json) list \<Rightarrow> json" where
  "sample_update sender = JObject [(''update_id'', JNumber (PosInt 5)), (''message'', JObject [(''text'', JString ''hi''),
     (''from'', JObject sender)])]"

theorem forwarded_sender_allowed_witness:
  "\<exists>new. snd (snd (poll_turn (\<lambda>_. True) [''unknown''] (Some (JObject [(''result'', JArray [sample_update []])])) 0 [])) = [] @ new \<and>
     length new = 1 \<and> (\<forall>m \<in> set new. get_str (im_metadata m) ''username'' = Some ''unknown'')"
proof -
  let ?turn = "poll_turn (\<lambda>_. True) [''unknown''] (Some (JObject [(''result'', JArray [sample_update []])])) 0 []"
  note defs = poll_turn_def get_array_def get_i64_def telegram_message_def sender_ids_def sub_field_def get_str_def
    sample_update_def check_user_allowed_def Let_def
  have one: "length (snd (snd ?turn)) = 1" by (simp add: defs)
  obtain k o' ms where turn: "?turn = (k, o', ms)" by (metis prod.collapse)
  have id: "\<forall>m \<in> set (snd (snd ?turn)). im_user_id m = ''unknown'' \<and> get_str (im_metadata m) ''username'' = Some ''unknown''"
    by (simp add: defs)
  from forwarded_sender_allowed [OF turn] id one turn show ?thesis by auto
qed

end
