(* ===== verification/Imap.thy ===== *)
theory Imap
  imports Pipeline Files Email
begin

text \<open>
  Incoming mail: the IMAP client of \<open>src/src/channels/email.rs\<close> (\<open>fetch_unseen_imap\<close>, \<open>mark_seen_imap\<close>,
  \<open>fetch_thread_by_subject\<close>) and the poller that stores mails for the pipeline
  (\<open>src/src/channels/email_poller.rs\<close>).

  The server is a state with two operations: opening a connection, which gives the bytes of the greeting, and
  receiving the bytes of a command, which gives the bytes it answers with. A connection of the client is the bytes
  not read yet and the state of the server. Reading a line that does not arrive is an error, be it the end of the
  stream or the time-out of 30 seconds. The MIME parser \<open>mail_parser\<close>, the calendar of \<open>chrono\<close> and the
  JSON printer are the functions of a record \<open>mime\<close>.
\<close>

subsection \<open>Lines\<close>

text \<open>\<open>String::from_utf8_lossy\<close>: the longest valid piece of a character at the front, and whether it is a whole one;
  a piece that is not is replaced by U+FFFD.\<close>

fun utf8_step :: "string \<Rightarrow> nat \<times> bool" where
  "utf8_step [] = (0, True)"
| "utf8_step (a # s) =
     (if code a < 128 then (1, True)
      else case s of
        [] \<Rightarrow> (1, False)
      | b # s1 \<Rightarrow>
          if 194 \<le> code a \<and> code a < 224 then (if continuation b then (2, True) else (1, False))
          else if 224 \<le> code a \<and> code a < 240 then
            (if continuation b \<and> (code a = 224 \<longrightarrow> 160 \<le> code b) \<and> (code a = 237 \<longrightarrow> code b < 160)
             then (case s1 of [] \<Rightarrow> (2, False) | c # _ \<Rightarrow> if continuation c then (3, True) else (2, False))
             else (1, False))
          else if 240 \<le> code a \<and> code a < 245 then
            (if continuation b \<and> (code a = 240 \<longrightarrow> 144 \<le> code b) \<and> (code a = 244 \<longrightarrow> code b < 144)
             then (case s1 of [] \<Rightarrow> (2, False)
               | c # s2 \<Rightarrow> if \<not> continuation c then (2, False)
                   else (case s2 of [] \<Rightarrow> (3, False) | d # _ \<Rightarrow> if continuation d then (4, True) else (3, False)))
             else (1, False))
          else (1, False))"

lemma utf8_step_pos: "s \<noteq> [] \<Longrightarrow> 0 < fst (utf8_step s)"
  by (cases s) (auto split: list.splits)

function from_utf8_lossy :: "string \<Rightarrow> string" where
  "from_utf8_lossy s = (if s = [] then []
     else (if snd (utf8_step s) then take (fst (utf8_step s)) s else [CHR 0xEF, CHR 0xBF, CHR 0xBD])
          @ from_utf8_lossy (drop (fst (utf8_step s)) s))"
  by pat_completeness auto
termination
  by (relation "measure length") (use utf8_step_pos in auto)

declare from_utf8_lossy.simps [simp del]

definition crlf :: string where
  "crlf = [CHR 0x0D, CHR 0x0A]"

fun take_line :: "string \<Rightarrow> (string \<times> string) option" where
  "take_line (a # b # s) =
     (if a = CHR 0x0D \<and> b = CHR 0x0A then Some ([a, b], s)
      else map_option (\<lambda>(l, r). (a # l, r)) (take_line (b # s)))"
| "take_line _ = None"

lemma take_line_length: "take_line s = Some (l, r) \<Longrightarrow> length r < length s"
  by (induction s arbitrary: l r rule: take_line.induct) (auto split: if_splits)

definition read_line :: "string \<Rightarrow> (string \<times> string) option" where
  "read_line s = map_option (\<lambda>(l, r). (from_utf8_lossy l, r)) (take_line s)"

lemma read_line_length: "read_line s = Some (l, r) \<Longrightarrow> length r < length s"
  by (auto simp: read_line_def dest: take_line_length)

text \<open>The lines up to the first one that starts with the tag of the command.\<close>

function read_response :: "string \<Rightarrow> string \<Rightarrow> (string list \<times> string) option" where
  "read_response tag s = (case read_line s of
     None \<Rightarrow> None
   | Some (line, r) \<Rightarrow>
       if str_starts_with line tag then Some ([line], r)
       else map_option (\<lambda>(ls, r'). (line # ls, r')) (read_response tag r))"
  by pat_completeness auto
termination
  by (relation "measure (\<lambda>(tag, s). length s)") (auto dest: read_line_length)

declare read_response.simps [simp del]

subsection \<open>Connections\<close>

datatype imap_error = NotConnected | NotWritten | NoLine | LoginFailed

record 's imap_server =
  sv_open :: "'s \<Rightarrow> (string \<times> 's) option"
  sv_receive :: "string \<Rightarrow> 's \<Rightarrow> (string \<times> 's) option"

type_synonym 's imap_conn = "string \<times> 's"

definition send_cmd ::
  "'s imap_server \<Rightarrow> string \<Rightarrow> string \<Rightarrow> 's imap_conn \<Rightarrow> (imap_error + string list) \<times> 's imap_conn" where
  "send_cmd S tag cmd c = (case sv_receive S (tag @ '' '' @ cmd @ crlf) (snd c) of
     None \<Rightarrow> (Inl NotWritten, c)
   | Some (bytes, s1) \<Rightarrow> (case read_response tag (fst c @ bytes) of
       None \<Rightarrow> (Inl NoLine, [], s1)
     | Some (ls, r) \<Rightarrow> (Inr ls, r, s1)))"

definition quoted :: "string \<Rightarrow> string" where
  "quoted s = [CHR 0x22] @ s @ [CHR 0x22]"

text \<open>Connect, read the greeting, log in and select the inbox.\<close>

definition imap_begin ::
  "'s imap_server \<Rightarrow> email_config \<Rightarrow> string \<Rightarrow> 's \<Rightarrow> (imap_error + unit) \<times> 's imap_conn" where
  "imap_begin S cfg letter s = (case sv_open S s of
     None \<Rightarrow> (Inl NotConnected, [], s)
   | Some (bytes, s1) \<Rightarrow> (case read_line bytes of
       None \<Rightarrow> (Inl NoLine, [], s1)
     | Some (greeting, r) \<Rightarrow>
         (case send_cmd S (letter @ ''1'') (''LOGIN '' @ quoted (username cfg) @ '' '' @ quoted (password cfg)) (r, s1) of
            (Inl e, c) \<Rightarrow> (Inl e, c)
          | (Inr ls, c) \<Rightarrow>
              if ls = [] \<or> \<not> str_contains (last ls) ''OK'' then (Inl LoginFailed, c)
              else (case send_cmd S (letter @ ''2'') (''SELECT '' @ quoted ''INBOX'') c of
                  (Inl e, c1) \<Rightarrow> (Inl e, c1) | (Inr _, c1) \<Rightarrow> (Inr (), c1)))))"

definition search_ids :: "string list \<Rightarrow> string list" where
  "search_ids ls = concat (map (\<lambda>l. if str_starts_with l ''* SEARCH'' then drop 2 (split_whitespace l) else []) ls)"

text \<open>The text of a fetched mail: as many lines of the answer as there are less two, from the second one on.\<close>

definition raw_mail :: "string list \<Rightarrow> string" where
  "raw_mail ls = concat (take (length ls - 2) (drop 1 ls))"

subsection \<open>Parsed mails\<close>

datatype mail_address = AddressList "string option list" | AddressGroups "string option list list"

definition extract_addresses :: "mail_address option \<Rightarrow> string list" where
  "extract_addresses addr = (case addr of
     None \<Rightarrow> []
   | Some (AddressList xs) \<Rightarrow> List.map_filter (\<lambda>x. x) xs
   | Some (AddressGroups gs) \<Rightarrow> concat (map (List.map_filter (\<lambda>x. x)) gs))"

text \<open>What the parser gives: the first address of the sender, the receivers, the subject, the bodies, the attachments
  with the main type of their content, their name and their bytes, the id, and the date: \<open>None\<close> without one,
  \<open>Some None\<close> for one that is not in the calendar, else its fields read as seconds since the epoch in UTC.\<close>

record parsed_mail =
  pm_from :: "string option"
  pm_to :: "mail_address option"
  pm_cc :: "mail_address option"
  pm_subject :: "string option"
  pm_body_text :: "string option"
  pm_body_html :: "string option"
  pm_attachments :: "(string option \<times> string option \<times> string) list"
  pm_message_id :: "string option"
  pm_date :: "int option option"

record mime =
  mp_parse :: "string \<Rightarrow> parsed_mail option"
  mp_datetime :: "int \<Rightarrow> datetime option"
  mp_print :: "json \<Rightarrow> string"

definition extract_sender :: "parsed_mail \<Rightarrow> string" where
  "extract_sender p = (case pm_from p of Some s \<Rightarrow> s | None \<Rightarrow> ''unknown'')"

definition extract_text :: "parsed_mail \<Rightarrow> string" where
  "extract_text p = (case pm_body_text p of
     Some t \<Rightarrow> t
   | None \<Rightarrow> (case pm_body_html p of
       Some h \<Rightarrow> strip_html h
     | None \<Rightarrow> (case List.find (\<lambda>(ct, _, content). ct = Some ''text'' \<and> valid_utf8 content) (pm_attachments p) of
         Some (_, name, content) \<Rightarrow>
           ''[Attachment: '' @ (case name of Some n \<Rightarrow> n | None \<Rightarrow> ''file'') @ '']'' @ [CHR 0x0A] @ content
       | None \<Rightarrow> ''(no readable content)'')))"

record fetched_email =
  fe_uid :: string
  fe_msg_id :: string
  fe_sender :: string
  fe_content :: string
  fe_subject :: string
  fe_ts :: nat
  fe_meta :: json

definition subject_of :: "parsed_mail \<Rightarrow> string" where
  "subject_of p = (case pm_subject p of Some s \<Rightarrow> s | None \<Rightarrow> ''(no subject)'')"

definition mail_ts :: "datetime \<Rightarrow> parsed_mail \<Rightarrow> nat" where
  "mail_ts now p = (case pm_date p of
     None \<Rightarrow> nat (now div nanos_per_sec)
   | Some None \<Rightarrow> 0
   | Some (Some t) \<Rightarrow> unat (word_of_int t :: 64 word))"

definition fetched :: "email_config \<Rightarrow> datetime \<Rightarrow> string \<Rightarrow> string \<Rightarrow> parsed_mail \<Rightarrow> fetched_email" where
  "fetched cfg now gen uid p =
     (let sender = extract_sender p; subject = subject_of p;
          msg_id = (case pm_message_id p of Some i \<Rightarrow> i | None \<Rightarrow> ''gen-'' @ gen)
      in \<lparr>fe_uid = uid, fe_msg_id = msg_id, fe_sender = sender,
          fe_content = ''Subject: '' @ subject @ [CHR 0x0A, CHR 0x0A] @ strip_quoted_text (extract_text p),
          fe_subject = subject, fe_ts = mail_ts now p,
          fe_meta = build_reply_metadata to_lowercase (extract_addresses (pm_to p)) (extract_addresses (pm_cc p))
            sender subject msg_id (from_address cfg)\<rparr>)"

text \<open>A fetch of every id in turn, with the number of the next tag and the parsed mails with their ids; \<open>gen\<close> gives
  the fresh id of a mail without one.\<close>

fun fetch_mails ::
  "'s imap_server \<Rightarrow> mime \<Rightarrow> string \<Rightarrow> string list \<Rightarrow> nat \<Rightarrow> 's imap_conn \<Rightarrow>
    (imap_error + (string \<times> nat \<times> parsed_mail) list) \<times> nat \<times> 's imap_conn" where
  "fetch_mails S P letter [] tag c = (Inr [], tag, c)"
| "fetch_mails S P letter (i # ids) tag c =
     (case send_cmd S (letter @ nat_str tag) (''FETCH '' @ i @ '' RFC822'') c of
        (Inl e, c1) \<Rightarrow> (Inl e, tag + 1, c1)
      | (Inr ls, c1) \<Rightarrow> (case fetch_mails S P letter ids (tag + 1) c1 of
          (Inl e, t, c2) \<Rightarrow> (Inl e, t, c2)
        | (Inr ms, t, c2) \<Rightarrow>
            (Inr (case mp_parse P (raw_mail ls) of None \<Rightarrow> ms | Some p \<Rightarrow> (i, tag, p) # ms), t, c2)))"

definition fetch_unseen_imap ::
  "'s imap_server \<Rightarrow> mime \<Rightarrow> email_config \<Rightarrow> datetime \<Rightarrow> (nat \<Rightarrow> string) \<Rightarrow> 's \<Rightarrow> (imap_error + fetched_email list) \<times> 's" where
  "fetch_unseen_imap S P cfg now gen s = (case imap_begin S cfg ''A'' s of
     (Inl e, c) \<Rightarrow> (Inl e, snd c)
   | (Inr _, c) \<Rightarrow> (case send_cmd S ''A3'' ''SEARCH UNSEEN'' c of
       (Inl e, c1) \<Rightarrow> (Inl e, snd c1)
     | (Inr ls, c1) \<Rightarrow> (case fetch_mails S P ''A'' (search_ids ls) 4 c1 of
         (Inl e, _, c2) \<Rightarrow> (Inl e, snd c2)
       | (Inr ms, t, c2) \<Rightarrow>
           (Inr (map (\<lambda>(i, k, p). fetched cfg now (gen k) i p) ms),
            snd (snd (send_cmd S (''A'' @ nat_str t) ''LOGOUT'' c2))))))"

fun store_seen :: "'s imap_server \<Rightarrow> string list \<Rightarrow> nat \<Rightarrow> 's imap_conn \<Rightarrow> nat \<times> 's imap_conn" where
  "store_seen S [] tag c = (tag, c)"
| "store_seen S (i # ids) tag c =
     store_seen S ids (tag + 1)
       (snd (send_cmd S (''A'' @ nat_str tag) (''STORE '' @ i @ '' +FLAGS ('' @ [CHR 0x5C] @ ''Seen)'') c))"

definition mark_seen_imap ::
  "'s imap_server \<Rightarrow> email_config \<Rightarrow> string list \<Rightarrow> 's \<Rightarrow> (imap_error + unit) \<times> 's" where
  "mark_seen_imap S cfg ids s =
     (if ids = [] then (Inr (), s)
      else case imap_begin S cfg ''A'' s of
        (Inl e, c) \<Rightarrow> (Inl e, snd c)
      | (Inr _, c) \<Rightarrow>
          (let (t, c1) = store_seen S ids 3 c
           in (Inr (), snd (snd (send_cmd S (''A'' @ nat_str t) ''LOGOUT'' c1)))))"

subsection \<open>Threads\<close>

text \<open>At most 500 characters, with an ellipsis when something was cut.\<close>

definition cut_500 :: "string \<Rightarrow> string" where
  "cut_500 s = (if 500 < length (chars s) then concat (take 500 (chars s)) @ ellipsis else s)"

definition escaped_subject :: "string \<Rightarrow> string" where
  "escaped_subject s = concat (map (\<lambda>c. if c = CHR 0x5C \<or> c = CHR 0x22 then [CHR 0x5C, c] else [c]) s)"

definition parsed_time :: "datetime \<Rightarrow> parsed_mail \<Rightarrow> datetime" where
  "parsed_time now p = (case pm_date p of Some (Some t) \<Rightarrow> t * nanos_per_sec | _ \<Rightarrow> now)"

definition thread_message_of :: "email_config \<Rightarrow> datetime \<Rightarrow> parsed_mail \<Rightarrow> thread_message" where
  "thread_message_of cfg now p =
     \<lparr>tm_sender = extract_sender p, tm_content = cut_500 (extract_text p), tm_timestamp = parsed_time now p,
      tm_is_outgoing = (to_lowercase (extract_sender p) = to_lowercase (from_address cfg))\<rparr>"

definition email_message_of :: "email_config \<Rightarrow> datetime \<Rightarrow> parsed_mail \<Rightarrow> email_message" where
  "email_message_of cfg now p =
     \<lparr>em_from = extract_sender p, em_to = extract_addresses (pm_to p), em_cc = extract_addresses (pm_cc p),
      em_subject = subject_of p, em_message_id = (case pm_message_id p of Some i \<Rightarrow> i | None \<Rightarrow> []),
      em_content = cut_500 (strip_quoted_text (extract_text p)), em_timestamp = parsed_time now p,
      em_is_outgoing = (to_lowercase (extract_sender p) = to_lowercase (from_address cfg))\<rparr>"

definition last_by_time :: "('a \<Rightarrow> datetime) \<Rightarrow> nat \<Rightarrow> 'a list \<Rightarrow> 'a list" where
  "last_by_time f limit xs = (let ys = sort_key f xs in if limit < length ys then drop (length ys - limit) ys else ys)"

definition fetch_thread_by_subject ::
  "'s imap_server \<Rightarrow> mime \<Rightarrow> email_config \<Rightarrow> datetime \<Rightarrow> string \<Rightarrow> nat \<Rightarrow> 's \<Rightarrow>
    (imap_error + thread_message list \<times> email_message list) \<times> 's" where
  "fetch_thread_by_subject S P cfg now subject limit s =
     (let normalized = normalize_subject subject
      in if normalized = [] then (Inr ([], []), s)
         else case imap_begin S cfg ''T'' s of
           (Inl e, c) \<Rightarrow> (Inl e, snd c)
         | (Inr _, c) \<Rightarrow> (case send_cmd S ''T3'' (''SEARCH SUBJECT '' @ quoted (escaped_subject normalized)) c of
             (Inl e, c1) \<Rightarrow> (Inl e, snd c1)
           | (Inr ls, c1) \<Rightarrow> (case fetch_mails S P ''T'' (filter (\<lambda>u. u \<noteq> []) (map trim (search_ids ls))) 4 c1 of
               (Inl e, _, c2) \<Rightarrow> (Inl e, snd c2)
             | (Inr ms, t, c2) \<Rightarrow>
                 (Inr (last_by_time tm_timestamp limit (map (\<lambda>(_, _, p). thread_message_of cfg now p) ms),
                       last_by_time em_timestamp limit (map (\<lambda>(_, _, p). email_message_of cfg now p) ms)),
                  snd (snd (send_cmd S (''T'' @ nat_str t) ''LOGOUT'' c2))))))"

subsection \<open>The poller\<close>

definition eq_ignore_ascii_case :: "string \<Rightarrow> string \<Rightarrow> bool" where
  "eq_ignore_ascii_case s t \<longleftrightarrow> map ascii_lower s = map ascii_lower t"

definition received_at :: "mime \<Rightarrow> datetime \<Rightarrow> fetched_email \<Rightarrow> datetime" where
  "received_at P now m = (case mp_datetime P (as_i64 (int (fe_ts m))) of Some d \<Rightarrow> d | None \<Rightarrow> now)"

definition store_mail :: "mime \<Rightarrow> datetime \<Rightarrow> string \<Rightarrow> fetched_email \<Rightarrow> database \<Rightarrow> database" where
  "store_mail P now fresh m db =
     snd (insert_message fresh now (fe_msg_id m) ''email'' (fe_sender m) (Some (fe_subject m)) (fe_content m)
       (received_at P now m) (Some (mp_print P (JObject [(''reply_metadata'', fe_meta m)]))) db)"

text \<open>The ids to be marked and the database; the \<open>k\<close>th mail draws the id \<open>fresh k\<close>.\<close>

fun poll_mails ::
  "mime \<Rightarrow> email_config \<Rightarrow> datetime \<Rightarrow> (nat \<Rightarrow> string) \<Rightarrow> nat \<Rightarrow> fetched_email list \<Rightarrow> database \<Rightarrow> string list \<times> database" where
  "poll_mails P cfg now fresh k [] db = ([], db)"
| "poll_mails P cfg now fresh k (m # ms) db =
     (let db1 =
        (if eq_ignore_ascii_case (fe_sender m) (from_address cfg) then db
         else if \<not> is_sender_allowed (allowed_senders cfg) (fe_sender m) then db
         else case get_message_by_external_id (fe_msg_id m) db of
             (Inr (Some _), db0) \<Rightarrow> db0
           | (_, db0) \<Rightarrow> store_mail P now (fresh k) m db0);
        (ids, db2) = poll_mails P cfg now fresh (k + 1) ms db1
      in (fe_uid m # ids, db2))"

definition poll_once ::
  "'s imap_server \<Rightarrow> mime \<Rightarrow> email_config \<Rightarrow> datetime \<Rightarrow> (nat \<Rightarrow> string) \<Rightarrow> (nat \<Rightarrow> string) \<Rightarrow> database \<times> 's \<Rightarrow> database \<times> 's" where
  "poll_once S P cfg now gen fresh w = (case fetch_unseen_imap S P cfg now gen (snd w) of
     (Inl _, s1) \<Rightarrow> (fst w, s1)
   | (Inr ms, s1) \<Rightarrow>
       if ms = [] then (fst w, s1)
       else let (ids, db1) = poll_mails P cfg now fresh 0 ms (fst w)
            in (db1, if ids = [] then s1 else snd (mark_seen_imap S cfg ids s1)))"

end
