(* ===== verification/Imap_Safety.thy ===== *)
theory Imap_Safety
  imports Imap
begin

text \<open>
  Properties of the mail client and the poller (\<open>src/src/channels/email.rs\<close>, \<open>src/src/channels/email_poller.rs\<close>):
  what is read of an answer, how one mail can write the beginning of the next, and which mails reach the table of
  the pipeline.
\<close>

subsection \<open>Reading answers\<close>

lemma utf8_step_valid:
  "valid_utf8 (a # s) \<Longrightarrow> snd (utf8_step (a # s)) \<and> valid_utf8 (drop (fst (utf8_step (a # s))) (a # s))"
proof -
  assume v: "valid_utf8 (a # s)"
  consider "code a < 128" | "128 \<le> code a" "194 \<le> code a \<and> code a < 224" | "128 \<le> code a" "224 \<le> code a \<and> code a < 240"
    | "128 \<le> code a" "\<not> (194 \<le> code a \<and> code a < 224)" "\<not> (224 \<le> code a \<and> code a < 240)" by linarith
  then show ?thesis
  proof cases
    case 1
    with v show ?thesis by simp
  next
    case 2
    with v obtain b s1 where "s = b # s1" "continuation b" "valid_utf8 s1" by (cases s) auto
    with 2 show ?thesis by simp
  next
    case 3
    with v obtain b c s2 where "s = b # c # s2" "continuation b" "continuation c" "code a = 224 \<longrightarrow> 160 \<le> code b"
      "code a = 237 \<longrightarrow> code b < 160" "valid_utf8 s2"
      by (cases s; cases "tl s") auto
    with 3 show ?thesis by simp
  next
    case 4
    with v obtain b c d s3 where s: "s = b # c # d # s3" and "continuation b" "continuation c" "continuation d"
      "240 \<le> code a" "code a < 245" "code a = 240 \<longrightarrow> 144 \<le> code b" "code a = 244 \<longrightarrow> code b < 144" "valid_utf8 s3"
      by (cases s; cases "tl s"; cases "tl (tl s)") (auto simp del: One_nat_def)
    with 4 show ?thesis by simp
  qed
qed

lemma lossy_valid: "valid_utf8 s \<Longrightarrow> from_utf8_lossy s = s"
proof (induction s rule: length_induct)
  case (1 s)
  show ?case
  proof (cases s)
    case Nil
    then show ?thesis by (subst from_utf8_lossy.simps) simp
  next
    case (Cons a t)
    let ?n = "fst (utf8_step s)"
    have step: "snd (utf8_step s)" "valid_utf8 (drop ?n s)"
      using utf8_step_valid [of a t] "1.prems" Cons by blast+
    moreover have "length (drop ?n s) < length s" using utf8_step_pos [of s] Cons by simp
    ultimately have "from_utf8_lossy (drop ?n s) = drop ?n s" using "1.IH" by blast
    with step(1) Cons show ?thesis by (subst from_utf8_lossy.simps) simp
  qed
qed

text \<open>A line of the server: it ends with its first line break, and its bytes are text.\<close>

definition is_line :: "string \<Rightarrow> bool" where
  "is_line l \<longleftrightarrow> take_line l = Some (l, []) \<and> valid_utf8 l"

lemma take_line_append: "take_line s = Some (l, r) \<Longrightarrow> take_line (s @ t) = Some (l, r @ t)"
  by (induction s arbitrary: l r rule: take_line.induct) (auto split: if_splits)

lemma read_line_of: "is_line l \<Longrightarrow> read_line (l @ r) = Some (l, r)"
  using take_line_append [of l l "[]" r] by (simp add: is_line_def read_line_def lossy_valid)

text \<open>An answer is read up to the first line that starts with the tag.\<close>

lemma read_response_of:
  assumes "list_all is_line ls" "list_all (\<lambda>l. \<not> str_starts_with l tag) ls" "is_line x" "str_starts_with x tag"
  shows "read_response tag (concat ls @ x @ rest) = Some (ls @ [x], rest)"
  using assms(1,2)
proof (induction ls)
  case Nil
  with assms(3,4) show ?case by (subst read_response.simps) (simp add: read_line_of)
next
  case (Cons l ls)
  then have "read_line (concat (l # ls) @ x @ rest) = Some (l, concat ls @ x @ rest)"
    using read_line_of [of l "concat ls @ x @ rest"] by simp
  with Cons show ?case by (subst read_response.simps) simp
qed

lemma send_cmd_of:
  assumes "sv_receive S (tag @ '' '' @ cmd @ crlf) s = Some (bytes, s1)"
    and "buf @ bytes = concat ls @ x @ rest"
    and "list_all is_line ls" "list_all (\<lambda>l. \<not> str_starts_with l tag) ls" "is_line x" "str_starts_with x tag"
  shows "send_cmd S tag cmd (buf, s) = (Inr (ls @ [x]), rest, s1)"
  using read_response_of [OF assms(3-6), of rest] assms(1,2) by (simp add: send_cmd_def)

definition fetch_command :: "nat \<Rightarrow> string \<Rightarrow> string" where
  "fetch_command tag i = ''A'' @ nat_str tag @ '' FETCH '' @ i @ '' RFC822'' @ crlf"

text \<open>The lines up to the one before the line with the tag, without the first.\<close>

lemma raw_mail_of: "ls \<noteq> [] \<Longrightarrow> raw_mail (h # ls @ [x]) = concat ls"
  by (simp add: raw_mail_def)

text \<open>What the client takes for the text of a mail. If no line of the mail starts with the tag of the command that
  fetches it, the text is complete, and the closing bracket of the answer is its last line.\<close>

theorem fetched_text_has_bracket:
  assumes "sv_receive S (fetch_command tag i) s = Some (concat (h # body @ [bracket, x]), u)"
    and "list_all is_line (h # body @ [bracket, x])"
    and "list_all (\<lambda>l. \<not> str_starts_with l (''A'' @ nat_str tag)) (h # body @ [bracket])"
    and "str_starts_with x (''A'' @ nat_str tag)"
  shows "fetch_mails S P ''A'' [i] tag ([], s) =
     (Inr (case mp_parse P (concat body @ bracket) of None \<Rightarrow> [] | Some p \<Rightarrow> [(i, tag, p)]), tag + 1, [], u)"
proof -
  have "send_cmd S (''A'' @ nat_str tag) (''FETCH '' @ i @ '' RFC822'') ([], s) = (Inr ((h # body @ [bracket]) @ [x]), [], u)"
    by (rule send_cmd_of [where bytes = "concat (h # body @ [bracket, x])"])
      (use assms in \<open>simp_all add: fetch_command_def\<close>)
  moreover have "raw_mail ((h # body @ [bracket]) @ [x]) = concat body @ bracket"
    using raw_mail_of [of "body @ [bracket]" h x] by simp
  ultimately show ?thesis by (auto split: option.splits)
qed

text \<open>C14: One mail writes the next. If a line of a mail starts with the tag of the command that fetches it, the
  answer is taken to end there. The rest of the mail stays in the stream and is read as the beginning of the answer
  to the next command: but for one line, the second mail starts with what the sender of the first wrote, with the
  header lines \<open>From\<close> and \<open>Message-ID\<close> of his choice.\<close>

theorem mail_can_forge_next:
  assumes "sv_receive S (fetch_command tag i) s = Some (concat (h # pre @ [x, y] @ forged @ post), u)"
    and "sv_receive S (fetch_command (tag + 1) j) u = Some (concat (ls @ [z]), v)" "post @ ls \<noteq> []"
    and "list_all is_line (h # pre @ [x, y] @ forged @ post @ ls @ [z])"
    and "list_all (\<lambda>l. \<not> str_starts_with l (''A'' @ nat_str tag)) (h # pre)" "str_starts_with x (''A'' @ nat_str tag)"
    and "list_all (\<lambda>l. \<not> str_starts_with l (''A'' @ nat_str (tag + 1))) (y # forged @ post @ ls)"
    and "str_starts_with z (''A'' @ nat_str (tag + 1))"
    and "mp_parse P (concat (forged @ post @ ls)) = Some p"
  shows "\<exists>first. fetch_mails S P ''A'' [i, j] tag ([], s) = (Inr (first @ [(j, tag + 1, p)]), tag + 2, [], v)"
proof -
  have one: "send_cmd S (''A'' @ nat_str tag) (''FETCH '' @ i @ '' RFC822'') ([], s) =
      (Inr ((h # pre) @ [x]), concat (y # forged @ post), u)"
    by (rule send_cmd_of [where bytes = "concat (h # pre @ [x, y] @ forged @ post)"])
      (use assms in \<open>simp_all add: fetch_command_def\<close>)
  have two: "send_cmd S (''A'' @ nat_str (tag + 1)) (''FETCH '' @ j @ '' RFC822'') (concat (y # forged @ post), u) =
      (Inr ((y # forged @ post @ ls) @ [z]), [], v)"
    by (rule send_cmd_of [where bytes = "concat (ls @ [z])"])
      (use assms in \<open>simp_all add: fetch_command_def\<close>)
  have "raw_mail ((y # forged @ post @ ls) @ [z]) = concat (forged @ post @ ls)"
    using raw_mail_of [of "forged @ post @ ls" y z] assms(3) by simp
  with one two assms(9) show ?thesis
    by (cases "mp_parse P (raw_mail ((h # pre) @ [x]))") (auto simp: numeral_2_eq_2)
qed

text \<open>A server that plays a script, and a mail with a line that starts with \<open>A4\<close>.\<close>

definition script_server :: "string list imap_server" where
  "script_server = \<lparr>sv_open = (\<lambda>s. case s of [] \<Rightarrow> None | b # r \<Rightarrow> Some (b, r)),
     sv_receive = (\<lambda>_ s. case s of [] \<Rightarrow> None | b # r \<Rightarrow> Some (b, r))\<rparr>"

definition no_mail :: parsed_mail where
  "no_mail = \<lparr>pm_from = None, pm_to = None, pm_cc = None, pm_subject = None, pm_body_text = None, pm_body_html = None,
     pm_attachments = [], pm_message_id = None, pm_date = None\<rparr>"

text \<open>A parser that knows one text.\<close>

definition parser_of :: "string \<Rightarrow> parsed_mail \<Rightarrow> mime" where
  "parser_of s p = \<lparr>mp_parse = (\<lambda>r. if r = s then Some p else None), mp_datetime = Some, mp_print = (\<lambda>_. [])\<rparr>"

theorem fetched_text_has_bracket_witness:
  "fetch_mails script_server (parser_of (''hi'' @ crlf @ '')'' @ crlf) no_mail) ''A'' [''7''] 4
     ([], [''* 7 FETCH'' @ crlf @ ''hi'' @ crlf @ '')'' @ crlf @ ''A4 OK'' @ crlf]) = (Inr [(''7'', 4, no_mail)], 5, [], [])"
proof -
  have four: "nat_str 4 = ''4''" by code_simp
  have lines: "list_all is_line ((''* 7 FETCH'' @ crlf) # [''hi'' @ crlf] @ ['')'' @ crlf, ''A4 OK'' @ crlf])"
    by (simp add: is_line_def crlf_def code_def)
  have tags: "list_all (\<lambda>l. \<not> str_starts_with l (''A'' @ nat_str 4)) ((''* 7 FETCH'' @ crlf) # [''hi'' @ crlf] @ ['')'' @ crlf])"
    "str_starts_with (''A4 OK'' @ crlf) (''A'' @ nat_str 4)"
    by (simp_all add: four str_starts_with_def crlf_def)
  show ?thesis
    using fetched_text_has_bracket [where S = script_server and P = "parser_of (''hi'' @ crlf @ '')'' @ crlf) no_mail" and i = "''7''",
        OF _ lines tags] by (simp add: script_server_def parser_of_def)
qed

theorem mail_can_forge_next_witness:
  "\<exists>first. fetch_mails script_server (parser_of (''From: boss'' @ crlf @ '')'' @ crlf @ ''A4 OK'' @ crlf @ ''* 8'' @ crlf) no_mail) ''A'' [''7'', ''8''] 4
     ([], [''* 7 FETCH'' @ crlf @ ''A4 paper'' @ crlf @ ''-'' @ crlf @ ''From: boss'' @ crlf @ '')'' @ crlf @ ''A4 OK'' @ crlf,
           ''* 8'' @ crlf @ ''A5 OK'' @ crlf]) =
     (Inr (first @ [(''8'', 4 + 1, no_mail)]), 4 + 2, [], [])"
proof -
  have digits: "nat_str 4 = ''4''" "nat_str 5 = ''5''" by code_simp+
  show ?thesis
  by (rule mail_can_forge_next [where h = "''* 7 FETCH'' @ crlf" and pre = "[]" and x = "''A4 paper'' @ crlf" and y = "''-'' @ crlf"
      and forged = "[''From: boss'' @ crlf]" and post = "['')'' @ crlf, ''A4 OK'' @ crlf]" and ls = "[''* 8'' @ crlf]" and z = "''A5 OK'' @ crlf"
      and u = "[''* 8'' @ crlf @ ''A5 OK'' @ crlf]"])
    (simp_all add: is_line_def crlf_def code_def script_server_def parser_of_def str_starts_with_def digits)
qed

subsection \<open>The poller\<close>

definition wanted :: "email_config \<Rightarrow> fetched_email \<Rightarrow> bool" where
  "wanted cfg m \<longleftrightarrow> \<not> eq_ignore_ascii_case (fe_sender m) (from_address cfg) \<and> is_sender_allowed (allowed_senders cfg) (fe_sender m)"

text \<open>The mails of a poll that are wanted and new: not known before and not earlier in the poll.\<close>

fun new_mails :: "email_config \<Rightarrow> string set \<Rightarrow> fetched_email list \<Rightarrow> fetched_email list" where
  "new_mails cfg known [] = []"
| "new_mails cfg known (m # ms) =
     (if wanted cfg m \<and> fe_msg_id m \<notin> known then m # new_mails cfg (insert (fe_msg_id m) known) ms
      else new_mails cfg known ms)"

definition row_of :: "mime \<Rightarrow> datetime \<Rightarrow> string \<Rightarrow> fetched_email \<Rightarrow> message_row" where
  "row_of P now i m =
     \<lparr>mr_id = i, mr_external_id = fe_msg_id m, mr_channel = ''email'', mr_sender = fe_sender m, mr_subject = Some (fe_subject m),
      mr_content = fe_content m, mr_received_at = received_at P now m, mr_status = ''pending'', mr_replied_at = None,
      mr_metadata = Some (mp_print P (JObject [(''reply_metadata'', fe_meta m)])), mr_created_at = now, mr_updated_at = now\<rparr>"

lemma poll_ids: "fst (poll_mails P cfg now fresh k ms db) = map fe_uid ms"
  by (induction ms arbitrary: k db) (simp_all add: Let_def split_beta)

lemma db_tick_id: "db_faults db = [] \<Longrightarrow> tick db = db"
  by (simp add: tick_def)

lemma poll_mails_rows:
  assumes "db_faults db = []" "inj fresh" "\<And>j. k \<le> j \<Longrightarrow> fresh j \<notin> mr_id ` set (db_messages db)"
  shows "\<exists>ids. length ids = length (new_mails cfg (mr_external_id ` set (db_messages db)) ms) \<and>
    db_messages (snd (poll_mails P cfg now fresh k ms db)) =
      db_messages db @ map2 (row_of P now) ids (new_mails cfg (mr_external_id ` set (db_messages db)) ms)"
  using assms(1,3)
proof (induction ms arbitrary: k db)
  case (Cons m ms)
  let ?known = "mr_external_id ` set (db_messages db)"
  show ?case
  proof (cases "wanted cfg m \<and> fe_msg_id m \<notin> ?known")
    case True
    let ?db = "store_mail P now (fresh k) m db"
    have stored: "?db = db\<lparr>db_messages := db_messages db @ [row_of P now (fresh k) m]\<rparr>"
      using True Cons.prems by (auto simp: store_mail_def insert_message_def fault_def row_of_def db_tick_id)
    have look: "get_message_by_external_id (fe_msg_id m) db = (Inr None, db)"
      using True Cons.prems(1)
      by (auto simp: get_message_by_external_id_def query_def fault_def db_tick_id find_None_iff image_iff)
    have fresh': "fresh j \<notin> mr_id ` set (db_messages ?db)" if "k + 1 \<le> j" for j
      using Cons.prems(2) [of j] that injD [OF assms(2), of j k] by (auto simp: stored row_of_def)
    have known: "mr_external_id ` set (db_messages ?db) = insert (fe_msg_id m) ?known"
      by (simp add: stored row_of_def)
    from Cons.IH [of ?db "k + 1"] Cons.prems(1) fresh' obtain ids where
      ids: "length ids = length (new_mails cfg (insert (fe_msg_id m) ?known) ms)"
      "db_messages (snd (poll_mails P cfg now fresh (k + 1) ms ?db)) =
        db_messages ?db @ map2 (row_of P now) ids (new_mails cfg (insert (fe_msg_id m) ?known) ms)"
      unfolding known by (auto simp: stored)
    show ?thesis
      using True ids look by (intro exI [of _ "fresh k # ids"]) (simp add: wanted_def Let_def split_beta stored)
  next
    case False
    have "poll_mails P cfg now fresh k (m # ms) db =
        (fe_uid m # fst (poll_mails P cfg now fresh (k + 1) ms db), snd (poll_mails P cfg now fresh (k + 1) ms db))"
      using False Cons.prems(1)
      by (auto simp: wanted_def Let_def split_beta get_message_by_external_id_def query_def fault_def db_tick_id
          find_None_iff image_iff split: option.split sum.split)
    with False Cons.IH [of db "k + 1"] Cons.prems show ?thesis by auto
  qed
qed simp

text \<open>C31: From the inbox to the pipeline. With a working database a poll adds one pending row for every fetched mail that
  is not from the user, comes from an allowed sender and is new, in their order, and nothing else; and what the
  processor later reads from such a row is the mail as fetched, with the data of its reply.\<close>

theorem polled_mails_reach_pipeline:
  assumes "db_faults db = []" "inj fresh" "\<forall>j. fresh j \<notin> mr_id ` set (db_messages db)"
    and "\<forall>m \<in> set ms. let v = JObject [(''reply_metadata'', fe_meta m)] in from_json (mp_print P v) = Some v"
  shows "\<exists>new. db_messages (snd (poll_mails P cfg now fresh 0 ms db)) = db_messages db @ new \<and>
    list_all2 (\<lambda>m r. mr_status r = ''pending'' \<and> mr_external_id r = fe_msg_id m \<and>
       (let b = stored_to_inbound from_json later (row_to_message r)
        in ib_channel b = ''email'' \<and> ib_sender b = fe_sender m \<and> ib_subject b = Some (fe_subject m) \<and>
           ib_content b = fe_content m \<and> ib_reply_metadata b = fe_meta m \<and> ib_received_at b = received_at P now m))
      (new_mails cfg (mr_external_id ` set (db_messages db)) ms) new"
proof -
  let ?new = "new_mails cfg (mr_external_id ` set (db_messages db)) ms"
  from poll_mails_rows [OF assms(1,2), of 0 cfg ms P now] assms(3) obtain ids where
    ids: "length ids = length ?new" "db_messages (snd (poll_mails P cfg now fresh 0 ms db)) = db_messages db @ map2 (row_of P now) ids ?new"
    by blast
  have "set (new_mails cfg known ms) \<subseteq> set ms" for known
    by (induction ms arbitrary: known) auto
  then have print: "\<forall>m \<in> set ?new. from_json (mp_print P (JObject [(''reply_metadata'', fe_meta m)])) = Some (JObject [(''reply_metadata'', fe_meta m)])"
    using assms(4) by (fastforce simp: Let_def)
  show ?thesis
    by (rule exI [of _ "map2 (row_of P now) ids ?new"])
      (use ids print in \<open>auto simp: list_all2_conv_all_nth row_of_def stored_to_inbound_def row_to_message_def Let_def json_index_def\<close>)
qed

definition sample_config :: email_config where
  "sample_config = \<lparr>imap_host = ''h'', imap_port = 993, smtp_host = ''h'', smtp_port = 587, username = ''u'', password = ''p'',
     from_address = ''u@h'', poll_interval_secs = 60, allowed_senders = [''*'']\<rparr>"

definition sample_mail :: fetched_email where
  "sample_mail = \<lparr>fe_uid = ''7'', fe_msg_id = ''x'', fe_sender = ''a@b'', fe_content = ''c'', fe_subject = ''s'', fe_ts = 5, fe_meta = JNull\<rparr>"

text \<open>A printer that is asked for one value only.\<close>

definition sample_json :: "string \<Rightarrow> json option" where
  "sample_json s = Some (JObject [(''reply_metadata'', JNull)])"

definition empty_db :: "bool list \<Rightarrow> database" where
  "empty_db faults = \<lparr>db_cards = [], db_messages = [], db_faults = faults\<rparr>"

theorem polled_mails_reach_pipeline_witness:
  "\<exists>r. db_messages (snd (poll_mails (parser_of [] no_mail) sample_config 1 nat_str 0 [sample_mail, sample_mail] (empty_db []))) = [r] \<and>
     ib_sender (stored_to_inbound sample_json 2 (row_to_message r)) = ''a@b''"
proof -
  have inj: "inj nat_str" by (simp add: inj_def)
  have new: "new_mails sample_config {} [sample_mail, sample_mail] = [sample_mail]"
    by (simp add: wanted_def eq_ignore_ascii_case_def sample_config_def sample_mail_def is_sender_allowed_def ascii_lower_def code_def)
  have empty: "db_faults (empty_db []) = []" "db_messages (empty_db []) = []" by (simp_all add: empty_db_def)
  have fresh: "\<forall>j. nat_str j \<notin> mr_id ` set (db_messages (empty_db []))" by (simp add: empty)
  have print: "\<forall>m \<in> set [sample_mail, sample_mail]. let v = JObject [(''reply_metadata'', fe_meta m)]
      in sample_json (mp_print (parser_of [] no_mail) v) = Some v"
    by (simp add: sample_json_def sample_mail_def)
  from polled_mails_reach_pipeline [OF empty(1) inj fresh print, of sample_config 1 2] new empty(2)
  obtain rs where rs: "db_messages (snd (poll_mails (parser_of [] no_mail) sample_config 1 nat_str 0 [sample_mail, sample_mail] (empty_db []))) = rs"
    "list_all2 (\<lambda>m r. ib_sender (stored_to_inbound sample_json 2 (row_to_message r)) = fe_sender m) [sample_mail] rs"
    by (simp only: image_empty list.set append_Nil Let_def) (blast intro: list_all2_mono)
  then obtain r where "rs = [r]" "ib_sender (stored_to_inbound sample_json 2 (row_to_message r)) = fe_sender sample_mail"
    by (auto simp: list_all2_Cons1)
  with rs(1) show ?thesis by (simp add: sample_mail_def)
qed


text \<open>The answers of a server with one unseen mail, until the client logs out.\<close>

definition one_mail :: "string list" where
  "one_mail = [''* OK'' @ crlf, ''A1 OK'' @ crlf, ''A2 OK'' @ crlf, ''* SEARCH 7'' @ crlf @ ''A3 OK'' @ crlf,
     ''* 7'' @ crlf @ ''hi'' @ crlf @ '')'' @ crlf @ ''A4 OK'' @ crlf, ''A5 OK'' @ crlf]"

lemma fetch_one_mail:
  "fetch_unseen_imap script_server (parser_of (''hi'' @ crlf @ '')'' @ crlf) no_mail) cfg now gen one_mail =
     (Inr [fetched cfg now (gen 4) ''7'' no_mail], [])"
proof -
  have ids: "search_ids [''* SEARCH 7'' @ crlf, ''A3 OK'' @ crlf] = [''7'']" by code_simp
  have digits: "''A'' @ nat_str 4 = ''A4''" "''A'' @ nat_str 5 = ''A5''" by code_simp+
  have cmd: "send_cmd script_server tag cmd (b, a # s) = (case read_response tag (b @ a) of None \<Rightarrow> (Inl NoLine, [], s)
      | Some (ls, r) \<Rightarrow> (Inr ls, r, s))" for tag cmd a b s
    by (simp add: send_cmd_def script_server_def)
  have answers: "read_response ''A1'' (''A1 OK'' @ crlf) = Some ([''A1 OK'' @ crlf], [])"
    "read_response ''A2'' (''A2 OK'' @ crlf) = Some ([''A2 OK'' @ crlf], [])"
    "read_response ''A3'' (''* SEARCH 7'' @ crlf @ ''A3 OK'' @ crlf) = Some ([''* SEARCH 7'' @ crlf, ''A3 OK'' @ crlf], [])"
    "read_response ''A4'' (''* 7'' @ crlf @ ''hi'' @ crlf @ '')'' @ crlf @ ''A4 OK'' @ crlf) =
       Some ([''* 7'' @ crlf, ''hi'' @ crlf, '')'' @ crlf, ''A4 OK'' @ crlf], [])"
    "read_response ''A5'' (''A5 OK'' @ crlf) = Some ([''A5 OK'' @ crlf], [])"
    "read_line (''* OK'' @ crlf) = Some (''* OK'' @ crlf, [])" "str_contains (''A1 OK'' @ crlf) ''OK''"
    by code_simp+
  have raw: "raw_mail [''* 7'' @ crlf, ''hi'' @ crlf, '')'' @ crlf, ''A4 OK'' @ crlf] = ''hi'' @ crlf @ '')'' @ crlf"
    by (simp add: raw_mail_def del: append_Cons)
  have letters: "''A'' @ ''1'' = ''A1''" "''A'' @ ''2'' = ''A2''" by simp_all
  have start: "sv_open script_server (a # s) = Some (a, s)" for a s by (simp add: script_server_def)
  have login: "imap_begin script_server cfg ''A'' one_mail = (Inr (), [], drop 3 one_mail)"
    by (simp add: imap_begin_def one_mail_def start cmd letters answers del: append_Cons)
  show ?thesis
    unfolding fetch_unseen_imap_def login
    by (simp add: one_mail_def cmd ids digits answers raw parser_of_def del: append_Cons)
qed


end
