(* ===== verification/Todo_Progress.thy ===== *)
theory Todo_Progress
  imports Todo_Socket Agent_Loop Files
begin

text \<open>
  What the channel of a to-do reports of a run (\<open>src/src/channels/todo_channel.rs\<close>) and its log
  (\<open>src/src/logging/agent_logger.rs\<close>). The cards, permits and registries of the channel are in
  \<open>Card_Handlers\<close>; here are the message stream, the buffered result of a tool, the events and the log.

  An event is broadcast at once and handed to a task that stores it; the tasks run in any order. The time of a log
  entry and the printed ids are arguments.
\<close>

subsection \<open>The log\<close>

datatype log_level = LogUser | LogSystem | LogToolStart | LogToolEnd | LogToolResult | LogLlmError | LogResponse | LogFailed

fun label :: "log_level \<Rightarrow> string" where
  "label LogUser = ''USER''"
| "label LogSystem = ''SYSTEM''"
| "label LogToolStart = ''TOOL_START''"
| "label LogToolEnd = ''TOOL_END''"
| "label LogToolResult = ''TOOL_RESULT''"
| "label LogLlmError = ''LLM_ERROR''"
| "label LogResponse = ''RESPONSE''"
| "label LogFailed = ''FAILED''"

fun log_role :: "log_level \<Rightarrow> string" where
  "log_role LogUser = ''user''"
| "log_role LogSystem = ''system''"
| "log_role LogLlmError = ''system''"
| "log_role LogToolStart = ''tool_start''"
| "log_role LogToolEnd = ''tool_end''"
| "log_role LogToolResult = ''tool_result''"
| "log_role LogResponse = ''assistant''"
| "log_role LogFailed = ''system''"

record log_entry =
  le_timestamp :: string
  le_level :: log_level
  le_message :: string
  le_tool_name :: "string option"

record agent_logger =
  lg_todo_id :: string
  lg_job_id :: string
  lg_title :: string
  lg_started_at :: string
  lg_entries :: "log_entry list"

definition MAX_LOG_FILES :: nat where
  "MAX_LOG_FILES = 100"

definition new_logger :: "string \<Rightarrow> string \<Rightarrow> string \<Rightarrow> string \<Rightarrow> agent_logger" where
  "new_logger now todo job title =
     \<lparr>lg_todo_id = todo, lg_job_id = job, lg_title = title, lg_started_at = now, lg_entries = []\<rparr>"

definition log_push :: "string \<Rightarrow> log_level \<Rightarrow> string \<Rightarrow> string option \<Rightarrow> agent_logger \<Rightarrow> agent_logger" where
  "log_push now level message tool g = g\<lparr>lg_entries := lg_entries g @
     [\<lparr>le_timestamp = now, le_level = level, le_message = message, le_tool_name = tool\<rparr>]\<rparr>"

definition log_user_message :: "string \<Rightarrow> string \<Rightarrow> agent_logger \<Rightarrow> agent_logger" where
  "log_user_message now content = log_push now LogUser content None"

definition log_system :: "string \<Rightarrow> string \<Rightarrow> agent_logger \<Rightarrow> agent_logger" where
  "log_system now content = log_push now LogSystem content None"

definition log_tool_start :: "string \<Rightarrow> string \<Rightarrow> agent_logger \<Rightarrow> agent_logger" where
  "log_tool_start now name = log_push now LogToolStart name (Some name)"

definition log_tool_end :: "string \<Rightarrow> string \<Rightarrow> bool \<Rightarrow> agent_logger \<Rightarrow> agent_logger" where
  "log_tool_end now name success =
     log_push now LogToolEnd (''success='' @ (if success then ''true'' else ''false'')) (Some name)"

definition log_tool_result :: "string \<Rightarrow> string \<Rightarrow> string \<Rightarrow> agent_logger \<Rightarrow> agent_logger" where
  "log_tool_result now name result = log_push now LogToolResult result (Some name)"

definition log_llm_error :: "string \<Rightarrow> string \<Rightarrow> agent_logger \<Rightarrow> agent_logger" where
  "log_llm_error now e = log_push now LogLlmError e None"

definition log_response :: "string \<Rightarrow> string \<Rightarrow> agent_logger \<Rightarrow> agent_logger" where
  "log_response now content = log_push now LogResponse content None"

definition log_failed :: "string \<Rightarrow> string \<Rightarrow> agent_logger \<Rightarrow> agent_logger" where
  "log_failed now e = log_push now LogFailed e None"

definition transcript_messages :: "agent_logger \<Rightarrow> transcript_message list" where
  "transcript_messages g = map (\<lambda>e. \<lparr>tr_role = log_role (le_level e), transcript_message.tr_content = le_message e,
     tr_tool_name = le_tool_name e, tr_tool_args = None, tr_timestamp = le_timestamp e\<rparr>) (lg_entries g)"

text \<open>The name of the file: the start with dashes for colons and without its zone, and eight characters of the id.\<close>

definition log_filename :: "agent_logger \<Rightarrow> string" where
  "log_filename g =
     (let ts = map (\<lambda>c. if c = CHR '':'' then CHR ''-'' else c) (lg_started_at g);
          cut = (case rfind_index (\<lambda>c. c = CHR ''+'') ts of
                   Some i \<Rightarrow> take i ts
                 | None \<Rightarrow> if str_ends_with ts ''Z'' then butlast ts else ts)
      in ''data/logs/agents/'' @ cut @ ''Z-'' @ take 8 (lg_todo_id g) @ ''.log'')"

definition log_rule :: "nat \<Rightarrow> string" where
  "log_rule n = concat (replicate n [CHR 0xE2, CHR 0x95, CHR 0x90])"

definition log_text :: "bool \<Rightarrow> agent_logger \<Rightarrow> string" where
  "log_text succeeded g =
     (let nl = [CHR 0x0A]
      in log_rule 43 @ nl @ ''Agent Run Log'' @ nl @ ''Todo:    '' @ lg_title g @ nl @ ''Todo ID: '' @ lg_todo_id g @ nl @
         ''Job ID:  '' @ lg_job_id g @ nl @ ''Started: '' @ lg_started_at g @ nl @
         ''Result:  '' @ (if succeeded then ''SUCCESS'' else ''FAILED'') @ nl @ log_rule 43 @ nl @ nl @
         concat (map (\<lambda>e. ''['' @ le_timestamp e @ ''] ['' @ label (le_level e) @ '']'' @
            (case le_tool_name e of Some t \<Rightarrow> '' '' @ [CHR 0xE2, CHR 0x86, CHR 0x92] @ '' '' @ t | None \<Rightarrow> []) @ nl @
            le_message e @ nl @ nl) (lg_entries g)))"

text \<open>\<open>remove_file\<close> unlinks the name itself.\<close>

definition fs_remove_file :: "path \<Rightarrow> file_system \<Rightarrow> (io_error + unit) \<times> file_system" where
  "fs_remove_file p fs =
     (if fs_fault fs \<or> p = [] then (Inl Refused, fs_tick fs)
      else case (last p, fs_resolve False fs (butlast p)) of
        (Normal n, Inr q) \<Rightarrow>
          (case fs_node fs (q @ [n]) of
             None \<Rightarrow> (Inl NotFound, fs_tick fs)
           | Some DirNode \<Rightarrow> (Inl IsADirectory, fs_tick fs)
           | Some _ \<Rightarrow> (Inr (), (fs_tick fs)\<lparr>fs_nodes := AList.delete (q @ [n]) (fs_nodes fs)\<rparr>))
      | (_, Inl e) \<Rightarrow> (Inl e, fs_tick fs)
      | _ \<Rightarrow> (Inl NotFound, fs_tick fs))"

definition logs_to_delete :: "string list \<Rightarrow> string list" where
  "logs_to_delete names =
     (let logs = filter (\<lambda>n. str_ends_with n ''.log'') names
      in if length logs \<le> MAX_LOG_FILES then [] else take (length logs - MAX_LOG_FILES) (sort_str logs))"

definition cleanup_logs :: "string \<Rightarrow> file_system \<Rightarrow> file_system" where
  "cleanup_logs log_dir fs = (case fs_read_dir (parse_path log_dir) fs of
     (Inl _, fs1) \<Rightarrow> fs1
   | (Inr q, fs1) \<Rightarrow> fold (\<lambda>n s. snd (fs_remove_file (parse_path (log_dir @ ''/'' @ n)) s))
         (logs_to_delete (map last (children fs1 q))) fs1)"

definition log_flush :: "bool \<Rightarrow> agent_logger \<Rightarrow> file_system \<Rightarrow> file_system" where
  "log_flush succeeded g fs =
     (if lg_entries g = [] then fs
      else let (_, fs1) = create_dir_all (parse_path ''data/logs/agents'') fs;
               (_, fs2) = fs_write (parse_path (log_filename g)) (log_text succeeded g) fs1
           in cleanup_logs ''data/logs/agents'' fs2)"

subsection \<open>The channel\<close>

record progress =
  pg_todo_id :: uuid
  pg_job_id :: uuid
  pg_title :: string
  pg_description :: string
  pg_override :: "string option"
  pg_responded :: bool
  pg_logger :: agent_logger
  pg_pending :: "activity_event option"
  pg_tx :: bool
  pg_rx :: bool
  pg_inbox :: "incoming_message list"
  pg_events :: "activity_event list"
  pg_saves :: "activity_event list"

definition new_progress :: "(uuid \<Rightarrow> string) \<Rightarrow> string \<Rightarrow> uuid \<Rightarrow> uuid \<Rightarrow> string \<Rightarrow> string \<Rightarrow> string option \<Rightarrow> progress" where
  "new_progress show_id now todo job title description override =
     \<lparr>pg_todo_id = todo, pg_job_id = job, pg_title = title, pg_description = description, pg_override = override,
      pg_responded = False, pg_logger = new_logger now (show_id todo) (show_id job) title, pg_pending = None,
      pg_tx = True, pg_rx = True, pg_inbox = [], pg_events = [], pg_saves = []\<rparr>"

definition pg_log :: "(agent_logger \<Rightarrow> agent_logger) \<Rightarrow> progress \<Rightarrow> progress" where
  "pg_log f c = c\<lparr>pg_logger := f (pg_logger c)\<rparr>"

definition pg_emit :: "activity_event \<Rightarrow> progress \<Rightarrow> progress" where
  "pg_emit e c = c\<lparr>pg_events := pg_events c @ [e], pg_saves := pg_saves c @ [e]\<rparr>"

text \<open>The task that stores an event.\<close>

definition run_save ::
  "(activity_event \<Rightarrow> string) \<Rightarrow> (uuid \<Rightarrow> string) \<Rightarrow> uuid \<Rightarrow> datetime \<Rightarrow> progress \<Rightarrow> activity_event \<Rightarrow> document_db \<Rightarrow> document_db" where
  "run_save encode show_id fresh now c e db =
     snd (save_job_action fresh now (show_id (pg_job_id c)) (Some (pg_todo_id c)) (action_type e) (encode e) db)"

definition flush_pending_tool :: "progress \<Rightarrow> progress" where
  "flush_pending_tool c = (case pg_pending c of None \<Rightarrow> c | Some e \<Rightarrow> pg_emit e (c\<lparr>pg_pending := None\<rparr>))"

definition start_content :: "(uuid \<Rightarrow> string) \<Rightarrow> progress \<Rightarrow> string" where
  "start_content show_id c = (case pg_override c of
     Some s \<Rightarrow> s
   | None \<Rightarrow> ''[todo_id: '' @ show_id (pg_todo_id c) @ '']'' @ [CHR 0x0A, CHR 0x0A] @ pg_title c @
       (if pg_description c = [] then [] else [CHR 0x0A, CHR 0x0A] @ pg_description c))"

text \<open>The stream is there for the first call only.\<close>

definition pg_start :: "(uuid \<Rightarrow> string) \<Rightarrow> string \<Rightarrow> progress \<Rightarrow> bool \<times> progress" where
  "pg_start show_id now c =
     (let content = start_content show_id c;
          c1 = pg_log (log_user_message now content) c;
          m = \<lparr>im_channel = ''todo'', im_user_id = ''todo-agent'', im_user_name = None, im_content = content,
               im_thread_id = None, im_metadata = JNull\<rparr>
      in if \<not> pg_rx c1 then (False, c1)
         else (True, c1\<lparr>pg_rx := False, pg_inbox := pg_inbox c1 @ (if pg_tx c1 then [m] else [])\<rparr>))"

definition pg_respond :: "string \<Rightarrow> string \<Rightarrow> progress \<Rightarrow> progress" where
  "pg_respond now content c =
     (pg_emit (EvCompleted (pg_job_id c) (condense_summary content))
       (pg_emit (EvAgentResponse (pg_job_id c) content)
         (pg_log (log_response now content) (c\<lparr>pg_responded := True\<rparr>))))\<lparr>pg_tx := False\<rparr>"

definition merged_result :: "uuid \<Rightarrow> string \<Rightarrow> string \<Rightarrow> activity_event option \<Rightarrow> activity_event" where
  "merged_result job name preview buffered = (case buffered of
     Some (EvToolCompleted j _ success _) \<Rightarrow> EvToolCompleted j name success preview
   | _ \<Rightarrow> EvToolCompleted job name True preview)"

text \<open>\<open>pretty\<close> prints parameters over several lines; it is not used for the event.\<close>

definition approval_headline :: "string \<Rightarrow> string \<Rightarrow> tool_summary option \<Rightarrow> string" where
  "approval_headline tool description summary =
     (case summary of Some t \<Rightarrow> ts_headline t | None \<Rightarrow> tool @ '': '' @ description)"

definition pg_send_status :: "string \<Rightarrow> uuid \<Rightarrow> status_update \<Rightarrow> progress \<Rightarrow> progress" where
  "pg_send_status now card_id u c = (case u of
     Thinking content \<Rightarrow>
       pg_emit (EvReasoning (pg_job_id c) content) (pg_log (log_system now content) (flush_pending_tool c))
   | ToolStarted name \<Rightarrow> pg_log (log_tool_start now name) (flush_pending_tool c)
   | ToolCompleted name success \<Rightarrow>
       (pg_log (log_tool_end now name success) c)\<lparr>pg_pending := Some (EvToolCompleted (pg_job_id c) name success [])\<rparr>
   | ToolPreview name preview \<Rightarrow>
       pg_emit (merged_result (pg_job_id c) name preview (pg_pending c))
         ((pg_log (log_tool_result now name preview) c)\<lparr>pg_pending := None\<rparr>)
   | status_update.ApprovalNeeded _ tool description _ summary \<Rightarrow>
       (let headline = approval_headline tool description summary
        in pg_emit (EvApprovalNeeded (pg_job_id c) card_id tool headline)
             (pg_log (log_system now ([CHR 0xE2, CHR 0x9A, CHR 0xA0, CHR 0xEF, CHR 0xB8, CHR 0x8F] @ '' Approval needed: '' @ headline))
               (flush_pending_tool c)))
   | _ \<Rightarrow> c)"

definition pg_shutdown :: "progress \<Rightarrow> file_system \<Rightarrow> progress \<times> file_system" where
  "pg_shutdown c fs =
     (let c1 = flush_pending_tool c;
          c2 = (if pg_responded c1 then c1
                else pg_emit (EvFailed (pg_job_id c1) ''Agent exited without producing a response'') c1);
          c3 = c2\<lparr>pg_tx := False\<rparr>;
          fs1 = log_flush (pg_responded c3) (pg_logger c3) fs;
          ms = transcript_messages (pg_logger c3)
      in (if \<not> pg_responded c3 \<and> ms \<noteq> [] then pg_emit (EvTranscript (pg_job_id c3) ms) c3 else c3, fs1))"

subsection \<open>Properties\<close>

text \<open>A tool run as the agent reports it: its name, whether it succeeded, and the preview of its output if there is one.\<close>

type_synonym tool_run = "string \<times> bool \<times> string option"

fun reports :: "tool_run \<Rightarrow> status_update list" where
  "reports (name, success, preview) = [ToolStarted name, ToolCompleted name success] @
     (case preview of None \<Rightarrow> [] | Some p \<Rightarrow> [ToolPreview name p])"

fun tool_event :: "uuid \<Rightarrow> tool_run \<Rightarrow> activity_event" where
  "tool_event job (name, success, preview) =
     EvToolCompleted job name success (case preview of None \<Rightarrow> [] | Some p \<Rightarrow> p)"

lemma flush_events: "pg_events (flush_pending_tool c) = pg_events c @ (case pg_pending c of None \<Rightarrow> [] | Some e \<Rightarrow> [e])"
  "pg_pending (flush_pending_tool c) = None" "pg_job_id (flush_pending_tool c) = pg_job_id c"
  by (simp_all add: flush_pending_tool_def pg_emit_def split: option.split)

text \<open>The events shown so far with the one that waits for its result.\<close>

definition due_events :: "progress \<Rightarrow> activity_event list" where
  "due_events c = pg_events (flush_pending_tool c)"

lemma send_reports:
  "due_events (fold (pg_send_status now i) (reports r) c) = due_events c @ [tool_event (pg_job_id c) r] \<and>
   pg_job_id (fold (pg_send_status now i) (reports r) c) = pg_job_id c"
  by (cases r) (auto simp: due_events_def flush_events pg_send_status_def pg_log_def pg_emit_def merged_result_def
      split: option.split)

text \<open>The watcher sees every tool run. Whatever tools the agent runs, each with or without a preview of its output, the
  channel broadcasts one event per run, in their order, with the name, the outcome and the preview; the last one at
  the latest when the channel is shut down.\<close>

theorem one_event_per_tool_run:
  "pg_events (flush_pending_tool (fold (pg_send_status now i) (concat (map reports runs)) c)) =
     pg_events (flush_pending_tool c) @ map (tool_event (pg_job_id c)) runs"
proof (induction runs arbitrary: c)
  case (Cons r runs)
  show ?case
    using Cons.IH [of "fold (pg_send_status now i) (reports r) c"] send_reports [of now i r c]
    by (simp add: due_events_def)
qed simp

text \<open>A second completion before a new start replaces the first, whose event is lost.\<close>

theorem completion_without_start_lost:
  "pg_events (flush_pending_tool (fold (pg_send_status now i) [ToolCompleted m ok, ToolCompleted n ok2] c)) =
     pg_events c @ [EvToolCompleted (pg_job_id c) n ok2 []]"
  by (simp add: pg_send_status_def pg_log_def flush_pending_tool_def pg_emit_def)

text \<open>A replay can show the events in another order than they were broadcast: the tasks that store them are not
  ordered.\<close>

theorem replay_may_reorder:
  assumes "dd_faults db = []" "fresh1 \<noteq> fresh2" "{fresh1, fresh2} \<inter> ja_id ` set (dd_actions db) = {}" "now1 \<le> now2"
    and "\<forall>x \<in> set (dd_actions db). ja_todo_id x \<noteq> Some (pg_todo_id c)"
  shows "pg_events (pg_emit b (pg_emit a c)) = pg_events c @ [a, b] \<and>
    fst (get_activity_for_todo (pg_todo_id c)
      (run_save encode show_id fresh2 now2 c a (run_save encode show_id fresh1 now1 c b db))) = Inr [encode b, encode a]"
proof -
  have none: "filter (\<lambda>x. ja_todo_id x = Some (pg_todo_id c)) (dd_actions db) = []"
    using assms(5) by (simp add: filter_empty_conv)
  show ?thesis
    using assms none
    by (auto simp: pg_emit_def run_save_def save_job_action_def dd_exec_def dd_query_def dd_fault_def dd_tick_def
        get_activity_for_todo_def oldest_first_def)
qed

lemma set_sort_str: "mset (sort_str xs) = mset xs"
proof -
  have "mset (insert_str x ys) = add_mset x (mset ys)" for x ys by (induction ys) auto
  then show ?thesis by (induction xs) (auto simp: sort_str_def)
qed

lemma str_le_total: "str_le a b \<or> str_le b a"
proof -
  let ?f = "map (of_char :: char \<Rightarrow> nat)"
  have "(?f a, ?f b) \<in> lexord {(x, y). x < y} \<or> ?f a = ?f b \<or> (?f b, ?f a) \<in> lexord {(x, y). x < y}"
    by (rule lexord_linear) auto
  moreover have "a = b" if "?f a = ?f b" using that by (rule map_injective) (simp add: inj_def)
  ultimately show ?thesis unfolding str_le_def by blast
qed

lemma str_le_trans: "str_le a b \<Longrightarrow> str_le b c \<Longrightarrow> str_le a c"
  unfolding str_le_def by (auto intro: lexord_trans simp: trans_def)

lemma sorted_sort_str: "sorted_wrt str_le (sort_str xs)"
proof -
  have "set (insert_str x ys) = insert x (set ys)" for x ys by (induction ys) auto
  then have "sorted_wrt str_le ys \<Longrightarrow> sorted_wrt str_le (insert_str x ys)" for x ys
    by (induction ys) (use str_le_total str_le_trans in \<open>auto, blast+\<close>)
  then show ?thesis by (induction xs) (auto simp: sort_str_def)
qed

text \<open>The clean-up leaves the newest hundred logs: what it deletes are log files, as many as there are too many, and
  none of them comes after one that stays in the order of the names, which start with the time.\<close>

theorem newest_logs_stay:
  assumes "distinct names"
  shows "set (logs_to_delete names) \<subseteq> {n \<in> set names. str_ends_with n ''.log''} \<and>
    length (logs_to_delete names) = length (filter (\<lambda>n. str_ends_with n ''.log'') names) - MAX_LOG_FILES \<and>
    (\<forall>d \<in> set (logs_to_delete names). \<forall>n \<in> set names - set (logs_to_delete names). str_ends_with n ''.log'' \<longrightarrow> str_le d n)"
proof -
  let ?logs = "filter (\<lambda>n. str_ends_with n ''.log'') names"
  let ?k = "length ?logs - MAX_LOG_FILES"
  have del: "logs_to_delete names = take ?k (sort_str ?logs)" by (simp add: logs_to_delete_def Let_def)
  have same: "set (sort_str ?logs) = set ?logs" "length (sort_str ?logs) = length ?logs"
    using set_sort_str [of ?logs] by (metis set_mset_mset, metis size_mset)
  have split: "sort_str ?logs = take ?k (sort_str ?logs) @ drop ?k (sort_str ?logs)" by simp
  have "\<forall>d \<in> set (take ?k (sort_str ?logs)). \<forall>n \<in> set (drop ?k (sort_str ?logs)). str_le d n"
    using sorted_sort_str [of ?logs] by (subst (asm) split) (simp only: sorted_wrt_append, blast)
  moreover have "n \<in> set (drop ?k (sort_str ?logs))" if "n \<in> set ?logs" "n \<notin> set (take ?k (sort_str ?logs))" for n
    using that same(1) set_append [of "take ?k (sort_str ?logs)" "drop ?k (sort_str ?logs)"] by auto
  moreover have "set (take ?k (sort_str ?logs)) \<subseteq> set ?logs" using same(1) set_take_subset by metis
  ultimately show ?thesis unfolding del using same(2) by auto
qed

theorem newest_logs_stay_witness: "logs_to_delete [''b.log'', ''a.txt''] = []"
  using newest_logs_stay [of "[''b.log'', ''a.txt'']"] by (simp add: MAX_LOG_FILES_def)

definition sample_progress :: progress where
  "sample_progress = new_progress (\<lambda>_. ''i'') ''t'' 3 4 ''title'' [] None"

theorem replay_may_reorder_witness:
  "pg_events (pg_emit (EvFailed 4 ''b'') (pg_emit (EvReasoning 4 ''a'') sample_progress)) = [EvReasoning 4 ''a'', EvFailed 4 ''b''] \<and>
   fst (get_activity_for_todo 3 (run_save action_type (\<lambda>_. ''i'') 2 8 sample_progress (EvReasoning 4 ''a'')
     (run_save action_type (\<lambda>_. ''i'') 1 7 sample_progress (EvFailed 4 ''b'') \<lparr>dd_documents = [], dd_actions = [], dd_faults = []\<rparr>))) =
     Inr [''failed'', ''reasoning'']"
  using replay_may_reorder [of "\<lparr>dd_documents = [], dd_actions = [], dd_faults = []\<rparr>" 1 2 7 8 sample_progress "EvFailed 4 ''b''" "EvReasoning 4 ''a''" action_type "\<lambda>_. ''i''"]
  by (simp add: sample_progress_def new_progress_def)

end
