(* ===== verification/Planning.thy ===== *)
theory Planning
  imports Reasoning
begin

text \<open>
  The parts of \<open>src/src/llm/reasoning.rs\<close> that no other part of the program calls: making a plan, choosing tools,
  judging a result, and the answer as plain text. What \<open>serde_json\<close> reads from a text is a function of the
  text; what it prints of a value is another.
\<close>

record planned_action =
  pa_tool :: string
  pa_arguments :: json
  pa_reasoning :: string
  pa_expected :: string

record action_plan =
  ap_goal :: string
  ap_actions :: "planned_action list"
  ap_estimated_cost :: "rat option"
  ap_estimated_time_secs :: "nat option"
  ap_confidence :: rat

record tool_selection =
  sel_tool_name :: string
  sel_parameters :: json
  sel_reasoning :: string
  sel_alternatives :: "string list"
  sel_tool_call_id :: string

record success_evaluation =
  se_success :: bool
  se_confidence :: rat
  se_reasoning :: string
  se_issues :: "string list"
  se_suggestions :: "string list"

text \<open>\<open>u32\<close> addition; \<open>None\<close> is the overflow panic of a debug build.\<close>

definition usage_total :: "token_usage \<Rightarrow> nat option" where
  "usage_total u = (let n = tu_input_tokens u + tu_output_tokens u in if n < 2 ^ 32 then Some n else None)"

definition build_planning_prompt :: "tool_definition list \<Rightarrow> string" where
  "build_planning_prompt tools =
     join (newlines 1)
       [''You are a planning assistant for an autonomous agent. Your job is to create detailed, actionable plans.'', '''',
        ''Available tools:'',
        (if tools = [] then ''No tools available.''
         else join (newlines 1) (map (\<lambda>t. ''- '' @ td_name t @ '': '' @ td_description t) tools)), '''',
        ''When creating a plan:'', ''1. Break down the goal into specific, achievable steps'',
        ''2. Select the most appropriate tool for each step'', ''3. Consider dependencies between steps'',
        ''4. Estimate costs and time realistically'', ''5. Identify potential failure points'', '''',
        ''Respond with a JSON plan in this format:'', ''{'',
        ''    \"goal\": \"Clear statement of the goal\",'', ''    \"actions\": ['', ''        {'',
        ''            \"tool_name\": \"tool_to_use\",'', ''            \"parameters\": {},'',
        ''            \"reasoning\": \"Why this action\",'', ''            \"expected_outcome\": \"What should happen\"'',
        ''        }'', ''    ],'', ''    \"estimated_cost\": 0.0,'', ''    \"estimated_time_secs\": 0,'',
        ''    \"confidence\": 0.0-1.0'', ''}'']"

text \<open>The JSON part of an answer, or all of it.\<close>

definition json_part :: "string \<Rightarrow> string" where
  "json_part content = (case extract_json content of Some s \<Rightarrow> s | None \<Rightarrow> content)"

definition parse_plan :: "(string \<Rightarrow> string + action_plan) \<Rightarrow> provider \<Rightarrow> string \<Rightarrow> llm_error + action_plan" where
  "parse_plan read llm content = (case read (json_part content) of
     Inr p \<Rightarrow> Inr p
   | Inl e \<Rightarrow> Inl (InvalidResponse (model_name llm) (''Failed to parse plan: '' @ e)))"

definition parse_evaluation ::
  "(string \<Rightarrow> string + success_evaluation) \<Rightarrow> provider \<Rightarrow> string \<Rightarrow> llm_error + success_evaluation" where
  "parse_evaluation read llm content = (case read (json_part content) of
     Inr p \<Rightarrow> Inr p
   | Inl e \<Rightarrow> Inl (InvalidResponse (model_name llm) (''Failed to parse evaluation: '' @ e)))"

definition plan ::
  "(string \<Rightarrow> string + action_plan) \<Rightarrow> provider \<Rightarrow> nat \<Rightarrow> string option \<Rightarrow> reasoning_context \<Rightarrow> llm_error + action_plan" where
  "plan read llm n job ctx =
     (let ms = [system_message (build_planning_prompt (rc_available_tools ctx))] @ rc_messages ctx @
           (case job of None \<Rightarrow> [] | Some j \<Rightarrow> [user_message (''Please create a plan to complete this job:'' @ newlines 2 @ j)])
      in case complete llm n ((completion_request_new ms)\<lparr>rq_max_tokens := Some 2048, rq_temperature := Some (3/10)\<rparr>) of
           Inl e \<Rightarrow> Inl e
         | Inr r \<Rightarrow> parse_plan read llm (rs_content r))"

definition select_tools :: "provider \<Rightarrow> nat \<Rightarrow> reasoning_context \<Rightarrow> llm_error + tool_selection list" where
  "select_tools llm n ctx =
     (if rc_available_tools ctx = [] then Inr []
      else case complete_with_tools llm n
             ((tool_completion_request_new (rc_messages ctx) (rc_available_tools ctx))
                \<lparr>tq_max_tokens := Some 1024, tq_tool_choice := Some ''auto'', tq_metadata := rc_metadata ctx\<rparr>) of
        Inl e \<Rightarrow> Inl e
      | Inr r \<Rightarrow> Inr (map (\<lambda>tc. \<lparr>sel_tool_name = tc_name tc, sel_parameters = tc_arguments tc,
            sel_reasoning = (case tr_content r of Some c \<Rightarrow> c | None \<Rightarrow> []), sel_alternatives = [],
            sel_tool_call_id = tc_id tc\<rparr>) (tr_tool_calls r)))"

definition select_tool :: "provider \<Rightarrow> nat \<Rightarrow> reasoning_context \<Rightarrow> llm_error + tool_selection option" where
  "select_tool llm n ctx = (case select_tools llm n ctx of
     Inl e \<Rightarrow> Inl e | Inr ts \<Rightarrow> Inr (case ts of [] \<Rightarrow> None | t # _ \<Rightarrow> Some t))"

definition evaluation_prompt :: string where
  "evaluation_prompt = join (newlines 1)
     [''You are an evaluation assistant. Your job is to determine if a task was completed successfully.'', '''',
      ''Analyze the task description and the result, then provide:'', ''1. Whether the task was successful (true/false)'',
      ''2. A confidence score (0-1)'', ''3. Detailed reasoning'', ''4. Any issues found'', ''5. Suggestions for improvement'', '''',
      ''Respond in JSON format:'', ''{'', ''    \"success\": true/false,'', ''    \"confidence\": 0.0-1.0,'', ''    \"reasoning\": \"...\",'',
      ''    \"issues\": [\"...\"],'', ''    \"suggestions\": [\"...\"]'', ''}'']"

definition evaluate_success ::
  "(string \<Rightarrow> string + success_evaluation) \<Rightarrow> provider \<Rightarrow> nat \<Rightarrow> string option \<Rightarrow> string \<Rightarrow> llm_error + success_evaluation" where
  "evaluate_success read llm n job result =
     (let ms = [system_message evaluation_prompt,
           user_message (case job of
             Some j \<Rightarrow> ''Task description:'' @ newlines 1 @ j @ newlines 2 @ ''Result:'' @ newlines 1 @ result
           | None \<Rightarrow> ''Result to evaluate:'' @ newlines 1 @ result)]
      in case complete llm n ((completion_request_new ms)\<lparr>rq_max_tokens := Some 1024, rq_temperature := Some (1/10)\<rparr>) of
           Inl e \<Rightarrow> Inl e
         | Inr r \<Rightarrow> parse_evaluation read llm (rs_content r))"

definition respond_text ::
  "(string \<Rightarrow> json option) \<Rightarrow> (json \<Rightarrow> string) \<Rightarrow> provider \<Rightarrow> string option \<Rightarrow> nat \<Rightarrow> reasoning_context \<Rightarrow> llm_error + string" where
  "respond_text from_json print llm identity n ctx = (case respond_with_tools from_json llm identity n ctx of
     Inl e \<Rightarrow> Inl e
   | Inr r \<Rightarrow> (case ro_result r of
       RespText t \<Rightarrow> Inr t
     | RespToolCalls calls _ \<Rightarrow> Inr (''[Calling tools: '' @
         join '', '' (map (\<lambda>tc. [CHR 0x60] @ tc_name tc @ ''('' @ print (tc_arguments tc) @ '')'' @ [CHR 0x60]) calls) @ '']'')))"

subsection \<open>Properties\<close>

text \<open>The part of an answer that is read as JSON lies in the answer, from its first opening to its last closing brace;
  text around it does not matter.\<close>

lemma json_part_around:
  assumes "CHR ''{'' \<notin> set pre" "CHR ''}'' \<notin> set post"
  shows "json_part (pre @ [CHR ''{''] @ s @ [CHR ''}''] @ post) = [CHR ''{''] @ s @ [CHR ''}'']"
proof -
  have first: "find_index P (xs @ y # ys) = Some (length xs)" if "\<forall>x \<in> set xs. \<not> P x" "P y" for P :: "char \<Rightarrow> bool" and xs y ys
    using that by (induction xs) auto
  have none: "rfind_index P ys = None" if "\<forall>x \<in> set ys. \<not> P x" for P :: "char \<Rightarrow> bool" and ys
    using that by (induction ys) auto
  have last: "rfind_index P (xs @ y # ys) = Some (length xs)" if "\<forall>x \<in> set ys. \<not> P x" "P y" for P :: "char \<Rightarrow> bool" and xs y ys
    using that none [of ys P] by (induction xs) auto
  have "find_index (\<lambda>c. c = CHR ''{'') (pre @ CHR ''{'' # s @ CHR ''}'' # post) = Some (length pre)"
    by (rule first) (use assms in auto)
  moreover have "rfind_index (\<lambda>c. c = CHR ''}'') ((pre @ CHR ''{'' # s) @ CHR ''}'' # post) = Some (length (pre @ CHR ''{'' # s))"
    by (rule last) (use assms in auto)
  ultimately show ?thesis by (simp add: json_part_def extract_json_def)
qed

end
