(* ===== verification/Config.thy ===== *)
theory Config
  imports Reasoning Email Tools
begin

text \<open>
  The settings read from the environment: \<open>src/src/config.rs\<close> and \<open>EmailConfig::from_env\<close> in
  \<open>src/src/channels/email.rs\<close>. The environment gives the value of a variable that is set and text. Durations are
  in seconds.
\<close>

type_synonym environment = "string \<Rightarrow> string option"

subsection \<open>Numbers\<close>

text \<open>\<open>str::parse\<close> for an unsigned integer below a bound: an optional plus sign and at least one digit.\<close>

definition digit_value :: "char \<Rightarrow> nat option" where
  "digit_value c = (if 48 \<le> code c \<and> code c \<le> 57 then Some (code c - 48) else None)"

fun digits_value :: "nat \<Rightarrow> string \<Rightarrow> nat option" where
  "digits_value n [] = Some n"
| "digits_value n (c # s) = (case digit_value c of None \<Rightarrow> None | Some d \<Rightarrow> digits_value (10 * n + d) s)"

definition parse_unsigned :: "nat \<Rightarrow> string \<Rightarrow> nat option" where
  "parse_unsigned bound s =
     (let ds = (if s \<noteq> [] \<and> hd s = CHR ''+'' then tl s else s)
      in if ds = [] then None
         else case digits_value 0 ds of None \<Rightarrow> None | Some n \<Rightarrow> if n < bound then Some n else None)"

text \<open>A variable as a number, or the default if it is not set or not a number.\<close>

definition env_number :: "environment \<Rightarrow> nat \<Rightarrow> string \<Rightarrow> nat \<Rightarrow> nat" where
  "env_number env bound name fallback =
     (case Option.bind (env name) (parse_unsigned bound) of Some n \<Rightarrow> n | None \<Rightarrow> fallback)"

definition env_text :: "environment \<Rightarrow> string \<Rightarrow> string \<Rightarrow> string" where
  "env_text env name fallback = (case env name of Some s \<Rightarrow> s | None \<Rightarrow> fallback)"

subsection \<open>The agent\<close>

definition DEFAULT_SYSTEM_PROMPT :: string where
  "DEFAULT_SYSTEM_PROMPT = ''You are AI Assist, a helpful and conversational AI assistant. '' @
     ''Respond naturally, concisely, and directly. '' @
     ''Don'' @ [CHR 0x27] @ ''t ask what task to complete '' @ [CHR 0xE2, CHR 0x80, CHR 0x94] @ '' just have a conversation.''"

record agent_config =
  gc_name :: string
  gc_system_prompt :: "string option"
  gc_max_context_tokens :: nat
  gc_allow_local_tools :: bool
  gc_session_idle_timeout :: nat
  gc_max_parallel_jobs :: nat
  gc_job_timeout :: nat
  gc_use_planning :: bool
  gc_stuck_threshold :: nat
  gc_max_repair_attempts :: nat
  gc_repair_check_interval :: nat

definition default_agent_config :: agent_config where
  "default_agent_config = \<lparr>gc_name = ''ai-assist'', gc_system_prompt = Some DEFAULT_SYSTEM_PROMPT,
     gc_max_context_tokens = 100000, gc_allow_local_tools = True, gc_session_idle_timeout = 3600,
     gc_max_parallel_jobs = 5, gc_job_timeout = 600, gc_use_planning = False, gc_stuck_threshold = 300,
     gc_max_repair_attempts = 3, gc_repair_check_interval = 60\<rparr>"

definition agent_config_from_env :: "environment \<Rightarrow> agent_config" where
  "agent_config_from_env env = default_agent_config
     \<lparr>gc_system_prompt := (case env ''AI_ASSIST_SYSTEM_PROMPT'' of Some s \<Rightarrow> Some s | None \<Rightarrow> Some DEFAULT_SYSTEM_PROMPT),
      gc_max_parallel_jobs := env_number env (2 ^ 64) ''AI_ASSIST_MAX_WORKERS'' 5,
      gc_job_timeout := env_number env (2 ^ 64) ''AI_ASSIST_JOB_TIMEOUT'' 600,
      gc_use_planning := (case env ''AI_ASSIST_USE_PLANNING'' of Some v \<Rightarrow> v = ''true'' \<or> v = ''1'' | None \<Rightarrow> False),
      gc_max_context_tokens := env_number env (2 ^ 64) ''AI_ASSIST_MAX_CONTEXT_TOKENS'' 100000\<rparr>"

subsection \<open>Routines\<close>

record routine_config =
  rf_enabled :: bool
  rf_cron_interval_secs :: nat
  rf_max_concurrent_routines :: nat
  rf_default_cooldown_secs :: nat
  rf_max_lightweight_tokens :: nat

definition default_routine_config :: routine_config where
  "default_routine_config = \<lparr>rf_enabled = True, rf_cron_interval_secs = 15, rf_max_concurrent_routines = 10,
     rf_default_cooldown_secs = 300, rf_max_lightweight_tokens = 4096\<rparr>"

definition routine_config_from_env :: "environment \<Rightarrow> routine_config" where
  "routine_config_from_env env =
     \<lparr>rf_enabled = (case env ''ROUTINES_ENABLED'' of Some v \<Rightarrow> v \<noteq> ''false'' \<and> v \<noteq> ''0'' | None \<Rightarrow> True),
      rf_cron_interval_secs = env_number env (2 ^ 64) ''ROUTINES_CRON_INTERVAL'' 15,
      rf_max_concurrent_routines = env_number env (2 ^ 64) ''ROUTINES_MAX_CONCURRENT'' 10,
      rf_default_cooldown_secs = env_number env (2 ^ 64) ''ROUTINES_DEFAULT_COOLDOWN'' 300,
      rf_max_lightweight_tokens = env_number env (2 ^ 32) ''ROUTINES_MAX_TOKENS'' 4096\<rparr>"

subsection \<open>Mail\<close>

definition email_config_from_env :: "environment \<Rightarrow> email_config option" where
  "email_config_from_env env = (case env ''EMAIL_IMAP_HOST'' of
     None \<Rightarrow> None
   | Some host \<Rightarrow>
       (let user = env_text env ''EMAIL_USERNAME'' []
        in Some \<lparr>imap_host = host, imap_port = of_nat (env_number env (2 ^ 16) ''EMAIL_IMAP_PORT'' 993),
             smtp_host = env_text env ''EMAIL_SMTP_HOST'' (replace_all ''imap'' ''smtp'' host),
             smtp_port = of_nat (env_number env (2 ^ 16) ''EMAIL_SMTP_PORT'' 587),
             username = user, password = env_text env ''EMAIL_PASSWORD'' [],
             from_address = env_text env ''EMAIL_FROM_ADDRESS'' user,
             poll_interval_secs = env_number env (2 ^ 64) ''EMAIL_POLL_INTERVAL_SECS'' 60,
             allowed_senders = filter (\<lambda>s. s \<noteq> []) (map trim (split_char (CHR '','') (env_text env ''EMAIL_ALLOWED_SENDERS'' [])))\<rparr>))"

subsection \<open>Properties\<close>

lemma digits_value_append:
  "digits_value n (s @ [c]) = (case digits_value n s of None \<Rightarrow> None | Some m \<Rightarrow> map_option (\<lambda>d. 10 * m + d) (digit_value c))"
  by (induction s arbitrary: n) (auto split: option.split)

lemma digit_value_char: "d < 10 \<Longrightarrow> digit_value (char_of (48 + d)) = Some d"
  by (simp add: digit_value_def code_def)

lemma digits_value_nat_str: "digits_value 0 (nat_str n) = Some n"
proof (induction n rule: less_induct)
  case (less n)
  then show ?case
    by (subst nat_str.simps) (auto simp: digit_value_char digits_value_append)
qed

lemma hd_nat_str: "48 \<le> code (hd (nat_str n))"
proof (induction n rule: less_induct)
  case (less n)
  then show ?case by (subst nat_str.simps) (auto simp: code_def hd_append)
qed

text \<open>A number written by \<open>format!\<close> is read back by \<open>parse\<close>, if it fits the type.\<close>

theorem parse_printed_number: "parse_unsigned bound (nat_str n) = (if n < bound then Some n else None)"
proof -
  have "hd (nat_str n) \<noteq> CHR ''+''" using hd_nat_str [of n] by (auto simp: code_def)
  then show ?thesis by (simp add: parse_unsigned_def digits_value_nat_str)
qed

text \<open>No sender is allowed by an environment without a list of them: the poller then stores no mail.\<close>

lemma no_list_allows_nobody:
  "email_config_from_env env = Some cfg \<Longrightarrow> env ''EMAIL_ALLOWED_SENDERS'' = None \<Longrightarrow> \<not> is_sender_allowed (allowed_senders cfg) s"
  by (simp add: email_config_from_env_def Let_def split: option.splits)
     (auto simp: env_text_def is_sender_allowed_def trim_def trim_start.simps [of "[]"] trim_end.simps [of "[]"]
        ws_len_def ws_len_end_def)

end
